(* ===== verification/Orw_Prelude.thy ===== *)
theory Orw_Prelude
  imports Main "HOL-Library.Sublist"
begin

text \<open>
  Shared base of the library: the result type that carries the exceptions of
  the Python code, its sequencing operator, dictionaries as association lists
  (a Python \<open>dict\<close> keeps insertion order, and several components depend on
  it), and the generic lemmas the components share. The collection
  \<open>result_simps\<close> rewrites the sequencing of fallible operations, \<open>dict_simps\<close>
  the dictionary operations.
\<close>

named_theorems result_simps "rewriting of sequenced fallible operations"
named_theorems dict_simps "rewriting of dictionary operations"

section \<open>Exceptions as values\<close>

text \<open>
  The exception classes the modelled code raises, catches or lets through.
  \<open>ReError\<close> is \<open>re.error\<close>, which is a subclass of \<open>Exception\<close> but of neither
  \<open>ValueError\<close> nor \<open>TypeError\<close>; \<open>OverflowError\<close> likewise. \<open>DbError\<close> is an error of the
  database, \<open>DomainError\<close> the hierarchy of \<open>shared/orw_common/exceptions.py\<close> with its message,
  \<open>HttpError\<close> the \<open>HTTPException\<close> of the web framework with its status and detail.
\<close>

datatype domain_kind =
    NotFoundError | ConflictError | ValidationError | AuthenticationError
  | AuthorizationError | RateLimitError

datatype pyerr =
    ValueError string
  | TypeError string
  | KeyError string
  | AttributeError string
  | OverflowError string
  | StructError string
  | ReError string
  | RuntimeError string
  | InvalidTag
  | OSError string
  | TimeoutError
  | DbError string
  | DomainError domain_kind string
  | HttpError int string

type_synonym 'a result = "pyerr + 'a"

definition rbind :: "'e + 'a \<Rightarrow> ('a \<Rightarrow> 'e + 'b) \<Rightarrow> 'e + 'b" where
  "rbind m f = (case m of Inl e \<Rightarrow> Inl e | Inr x \<Rightarrow> f x)"

lemma rbind_Inl [simp, result_simps]: "rbind (Inl e) f = Inl e"
  by (simp add: rbind_def)

lemma rbind_Inr [simp, result_simps]: "rbind (Inr x) f = f x"
  by (simp add: rbind_def)

lemma rbind_eq_Inr_iff [result_simps]:
  "rbind m f = Inr y \<longleftrightarrow> (\<exists>x. m = Inr x \<and> f x = Inr y)"
  by (cases m) auto

lemma rbind_eq_Inl_iff [result_simps]:
  "rbind m f = Inl e \<longleftrightarrow> m = Inl e \<or> (\<exists>x. m = Inr x \<and> f x = Inl e)"
  by (cases m) auto

lemma rbind_assoc: "rbind (rbind m f) g = rbind m (\<lambda>x. rbind (f x) g)"
  by (cases m) auto

lemma rbind_cong [fundef_cong]:
  "m = m' \<Longrightarrow> (\<And>x. m' = Inr x \<Longrightarrow> f x = f' x) \<Longrightarrow> rbind m f = rbind m' f'"
  by (cases m) auto

text \<open>A loop that stops at the first exception, and the list of its results.\<close>

fun rmap :: "('a \<Rightarrow> 'e + 'b) \<Rightarrow> 'a list \<Rightarrow> 'e + 'b list" where
  "rmap f [] = Inr []"
| "rmap f (x # xs) = rbind (f x) (\<lambda>y. rbind (rmap f xs) (\<lambda>ys. Inr (y # ys)))"

lemma rmap_cong [fundef_cong]:
  "xs = ys \<Longrightarrow> (\<And>x. x \<in> set ys \<Longrightarrow> f x = g x) \<Longrightarrow> rmap f xs = rmap g ys"
  by (induction xs arbitrary: ys) (auto simp: rbind_def split: sum.splits)

lemma rmap_Inr_length: "rmap f xs = Inr ys \<Longrightarrow> length ys = length xs"
  by (induction xs arbitrary: ys) (auto simp: result_simps)

lemma rmap_Inr_set:
  "rmap f xs = Inr ys \<Longrightarrow> y \<in> set ys \<Longrightarrow> \<exists>x \<in> set xs. f x = Inr y"
  by (induction xs arbitrary: ys) (auto simp: result_simps)

lemma rmap_total: "(\<And>x. x \<in> set xs \<Longrightarrow> f x = Inr (g x)) \<Longrightarrow> rmap f xs = Inr (map g xs)"
  by (induction xs) auto

section \<open>Dictionaries\<close>

text \<open>
  A \<open>dict\<close> is an association list in insertion order with distinct keys.
  \<open>dict_set\<close> is \<open>d[k] = v\<close>: an existing key keeps its place, a new one goes last.
\<close>

type_synonym ('k, 'v) dict = "('k \<times> 'v) list"

abbreviation dict_get :: "('k, 'v) dict \<Rightarrow> 'k \<Rightarrow> 'v option" where
  "dict_get \<equiv> map_of"

definition dict_get_or :: "('k, 'v) dict \<Rightarrow> 'k \<Rightarrow> 'v \<Rightarrow> 'v" where
  "dict_get_or d k v = (case dict_get d k of None \<Rightarrow> v | Some w \<Rightarrow> w)"

fun dict_set :: "'k \<Rightarrow> 'v \<Rightarrow> ('k, 'v) dict \<Rightarrow> ('k, 'v) dict" where
  "dict_set k v [] = [(k, v)]"
| "dict_set k v ((k', v') # d) = (if k = k' then (k, v) # d else (k', v') # dict_set k v d)"

definition dict_keys :: "('k, 'v) dict \<Rightarrow> 'k list" where
  "dict_keys d = map fst d"

definition dict_ok :: "('k, 'v) dict \<Rightarrow> bool" where
  "dict_ok d \<longleftrightarrow> distinct (map fst d)"

lemma dict_get_set [simp, dict_simps]:
  "dict_get (dict_set k v d) k' = (if k' = k then Some v else dict_get d k')"
  by (induction d) auto

lemma dict_set_keys: "set (map fst (dict_set k v d)) = insert k (set (map fst d))"
proof (induction d)
  case (Cons p d)
  then show ?case by (cases p) (simp del: set_map, auto)
qed simp

lemma dict_set_vals: "snd ` set (dict_set k v d) \<subseteq> insert v (snd ` set d)"
proof (induction d)
  case (Cons p d)
  then show ?case by (cases p) (simp, blast)
qed simp

lemma dict_set_all:
  assumes "P v" and "\<forall>w \<in> snd ` set d. P w"
  shows "\<forall>w \<in> snd ` set (dict_set k v d). P w"
proof
  fix w assume "w \<in> snd ` set (dict_set k v d)"
  then have "w \<in> insert v (snd ` set d)" by (rule subsetD [OF dict_set_vals])
  then show "P w" using assms by (elim insertE) (simp_all only:)
qed

lemma dict_ok_Nil [simp, dict_simps]: "dict_ok []"
  by (simp add: dict_ok_def)

lemma dict_ok_set [simp, dict_simps]: "dict_ok d \<Longrightarrow> dict_ok (dict_set k v d)"
proof (induction d)
  case (Cons p d)
  obtain k' v' where p: "p = (k', v')" by (cases p)
  with Cons.prems have d: "dict_ok d" and k': "k' \<notin> set (map fst d)"
    by (auto simp: dict_ok_def)
  show ?case
  proof (cases "k = k'")
    case True
    with p Cons.prems show ?thesis by (simp add: dict_ok_def)
  next
    case False
    with k' have "k' \<notin> set (map fst (dict_set k v d))"
      by (simp add: dict_set_keys del: set_map)
    with False p Cons.IH [OF d] show ?thesis by (simp add: dict_ok_def)
  qed
qed (simp add: dict_ok_def)

lemma dict_get_or_set [simp, dict_simps]:
  "dict_get_or (dict_set k v d) k' w = (if k' = k then v else dict_get_or d k' w)"
  by (simp add: dict_get_or_def)

lemma dict_set_set [simp, dict_simps]: "dict_set k v (dict_set k w d) = dict_set k v d"
  by (induction d) auto

section \<open>Runs of a deterministic machine\<close>

text \<open>
  Several components keep a state that handlers update one event at a time. The
  locale states what a step promises (it keeps an invariant) and gives the fact
  about whole runs; each such component interprets it on its own step function.
\<close>

fun run :: "('s \<Rightarrow> 'e \<Rightarrow> 's) \<Rightarrow> 's \<Rightarrow> 'e list \<Rightarrow> 's" where
  "run step s [] = s"
| "run step s (e # es) = run step (step s e) es"

lemma run_append: "run step s (xs @ ys) = run step (run step s xs) ys"
  by (induction xs arbitrary: s) auto

locale machine =
  fixes step :: "'s \<Rightarrow> 'e \<Rightarrow> 's"
    and inv :: "'s \<Rightarrow> bool"
  assumes step_inv: "inv s \<Longrightarrow> inv (step s e)"
begin

lemma run_inv: "inv s \<Longrightarrow> inv (run step s es)"
  by (induction es arbitrary: s) (auto intro: step_inv)

end

section \<open>Lists\<close>

lemma filter_const_map:
  "(\<And>x. x \<in> set xs \<Longrightarrow> P (f x)) \<Longrightarrow> filter P (map f xs) = map f xs"
  by (induction xs) auto

lemma find_Some_in: "List.find P xs = Some x \<Longrightarrow> x \<in> set xs \<and> P x"
  by (induction xs) (auto split: if_splits)

lemma find_None_iff_all: "List.find P xs = None \<longleftrightarrow> (\<forall>x \<in> set xs. \<not> P x)"
  by (induction xs) auto

end
