(* ===== verification/Py_Strings.thy ===== *)
theory Py_Strings
  imports Orw_Prelude "HOL-Library.Char_ord"
begin

text \<open>
  The string operations of Python that the modelled code calls. A \<open>str\<close> is a
  \<open>string\<close>; the alphabet is ASCII, where a code point is one character, one byte
  of UTF-8 and its case mapping is the one below.
\<close>

section \<open>Characters\<close>

abbreviation ord_of :: "char \<Rightarrow> nat" where
  "ord_of c \<equiv> of_char c"

definition is_upper_char :: "char \<Rightarrow> bool" where
  "is_upper_char c \<longleftrightarrow> 65 \<le> ord_of c \<and> ord_of c \<le> 90"

definition lower_char :: "char \<Rightarrow> char" where
  "lower_char c = (if is_upper_char c then char_of (ord_of c + 32) else c)"

definition upper_char :: "char \<Rightarrow> char" where
  "upper_char c = (if 97 \<le> ord_of c \<and> ord_of c \<le> 122 then char_of (ord_of c - 32) else c)"

definition is_digit_char :: "char \<Rightarrow> bool" where
  "is_digit_char c \<longleftrightarrow> 48 \<le> ord_of c \<and> ord_of c \<le> 57"

definition is_hex_char :: "char \<Rightarrow> bool" where
  "is_hex_char c \<longleftrightarrow> is_digit_char c \<or> (65 \<le> ord_of c \<and> ord_of c \<le> 70)
     \<or> (97 \<le> ord_of c \<and> ord_of c \<le> 102)"

text \<open>\<open>str.isspace\<close> on ASCII: tab, line feed, vertical tab, form feed, carriage
  return, the four separators and the blank.\<close>

definition is_space_char :: "char \<Rightarrow> bool" where
  "is_space_char c \<longleftrightarrow> (9 \<le> ord_of c \<and> ord_of c \<le> 13) \<or> (28 \<le> ord_of c \<and> ord_of c \<le> 32)"

lemma ord_lower_char:
  "ord_of (lower_char c) = (if is_upper_char c then ord_of c + 32 else ord_of c)"
  by (auto simp: lower_char_def is_upper_char_def)

lemma lower_char_not_upper [simp]: "\<not> is_upper_char (lower_char c)"
  by (auto simp: is_upper_char_def ord_lower_char)

lemma lower_char_id: "\<not> is_upper_char c \<Longrightarrow> lower_char c = c"
  by (simp add: lower_char_def)

lemma lower_char_idem [simp]: "lower_char (lower_char c) = lower_char c"
  by (simp add: lower_char_id)

lemma is_hex_lower_char [simp]: "is_hex_char (lower_char c) = is_hex_char c"
  by (auto simp: is_hex_char_def is_digit_char_def ord_lower_char is_upper_char_def)

lemma is_space_lower_char [simp]: "is_space_char (lower_char c) = is_space_char c"
  by (auto simp: is_space_char_def ord_lower_char is_upper_char_def)

lemma lower_char_eq_noncased:
  assumes "\<not> (97 \<le> ord_of d \<and> ord_of d \<le> 122)" and "\<not> is_upper_char d"
  shows "lower_char c = d \<longleftrightarrow> c = d"
proof
  assume "lower_char c = d"
  then have "ord_of d = (if is_upper_char c then ord_of c + 32 else ord_of c)"
    using ord_lower_char [of c] by simp
  with assms(1) have "\<not> is_upper_char c"
    by (auto simp: is_upper_char_def)
  with \<open>lower_char c = d\<close> show "c = d"
    by (simp add: lower_char_id)
next
  assume "c = d"
  with assms(2) show "lower_char c = d"
    by (simp add: lower_char_id)
qed

section \<open>Case, blanks, replacement\<close>

definition py_lower :: "string \<Rightarrow> string" where
  "py_lower s = map lower_char s"

definition py_upper :: "string \<Rightarrow> string" where
  "py_upper s = map upper_char s"

definition py_lstrip :: "string \<Rightarrow> string" where
  "py_lstrip s = dropWhile is_space_char s"

definition py_strip :: "string \<Rightarrow> string" where
  "py_strip s = rev (dropWhile is_space_char (rev (dropWhile is_space_char s)))"

text \<open>\<open>s.replace(c, "")\<close> and \<open>s.replace(c, d)\<close> for single characters.\<close>

definition remove_char :: "char \<Rightarrow> string \<Rightarrow> string" where
  "remove_char c s = filter (\<lambda>x. x \<noteq> c) s"

definition replace_char :: "char \<Rightarrow> char \<Rightarrow> string \<Rightarrow> string" where
  "replace_char c d s = map (\<lambda>x. if x = c then d else x) s"

text \<open>
  \<open>s.replace(old, new)\<close> for a non-empty \<open>old\<close>: occurrences are replaced from the
  left, without overlap.
\<close>

function py_replace :: "string \<Rightarrow> string \<Rightarrow> string \<Rightarrow> string" where
  "py_replace old new s =
     (if old = [] \<or> s = [] then s
      else if prefix old s then new @ py_replace old new (drop (length old) s)
      else hd s # py_replace old new (tl s))"
  by pat_completeness auto
termination
  by (relation "measure (\<lambda>(old, new, s). length s)") (auto simp: diff_less)

declare py_replace.simps [simp del]

lemma py_lower_idem [simp]: "py_lower (py_lower s) = py_lower s"
  by (simp add: py_lower_def)

lemma length_py_lower [simp]: "length (py_lower s) = length s"
  by (simp add: py_lower_def)

lemma py_lower_Nil_iff [simp]: "py_lower s = [] \<longleftrightarrow> s = []"
  by (simp add: py_lower_def)

lemma py_lower_append: "py_lower (s @ t) = py_lower s @ py_lower t"
  by (simp add: py_lower_def)

lemma py_strip_Nil [simp]: "py_strip [] = []"
  by (simp add: py_strip_def)

lemma set_remove_char: "set (remove_char c s) = set s - {c}"
  by (auto simp: remove_char_def)

section \<open>Searching and splitting\<close>

text \<open>\<open>sub in s\<close>, \<open>s.startswith(p)\<close>, \<open>s.endswith(p)\<close>.\<close>

fun py_in :: "string \<Rightarrow> string \<Rightarrow> bool" where
  "py_in p [] = (p = [])"
| "py_in p (c # s) = (prefix p (c # s) \<or> py_in p s)"

lemma py_in_sublist: "py_in p s \<longleftrightarrow> sublist p s"
  by (induction s) (auto simp: sublist_Cons_right)

lemma py_in_Nil [simp]: "py_in [] s"
  by (cases s) auto

lemma py_in_append_left: "py_in p s \<Longrightarrow> py_in p (t @ s)"
  by (simp add: py_in_sublist sublist_appendI sublist_order.order.trans [of _ s])

lemma py_in_refl_context [simp]: "py_in p (s @ p @ t)"
  by (simp add: py_in_sublist)

definition py_startswith :: "string \<Rightarrow> string \<Rightarrow> bool" where
  "py_startswith s p = prefix p s"

definition py_endswith :: "string \<Rightarrow> string \<Rightarrow> bool" where
  "py_endswith s p = suffix p s"

text \<open>\<open>head, tail = s.split(c, 1)\<close> where \<open>c in s\<close>: split at the first occurrence.\<close>

definition split_first :: "char \<Rightarrow> string \<Rightarrow> string \<times> string" where
  "split_first c s = (takeWhile (\<lambda>x. x \<noteq> c) s, tl (dropWhile (\<lambda>x. x \<noteq> c) s))"

text \<open>\<open>head, tail = s.rsplit(c, 1)\<close> where \<open>c in s\<close>: split at the last occurrence.\<close>

definition split_last :: "char \<Rightarrow> string \<Rightarrow> string \<times> string" where
  "split_last c s =
     (let r = rev s
      in (rev (tl (dropWhile (\<lambda>x. x \<noteq> c) r)), rev (takeWhile (\<lambda>x. x \<noteq> c) r)))"

text \<open>\<open>s.split(c)\<close>: all the pieces, at least one.\<close>

fun py_split :: "char \<Rightarrow> string \<Rightarrow> string list" where
  "py_split c [] = [[]]"
| "py_split c (x # s) =
     (if x = c then [] # py_split c s
      else (case py_split c s of [] \<Rightarrow> [[x]] | w # ws \<Rightarrow> (x # w) # ws))"

text \<open>\<open>sep.join(ws)\<close>.\<close>

fun py_join :: "string \<Rightarrow> string list \<Rightarrow> string" where
  "py_join sep [] = []"
| "py_join sep [w] = w"
| "py_join sep (w # ws) = w @ sep @ py_join sep ws"

lemma split_first_append [simp]:
  "c \<notin> set a \<Longrightarrow> split_first c (a @ c # b) = (a, b)"
proof -
  assume "c \<notin> set a"
  then have "takeWhile (\<lambda>x. x \<noteq> c) (a @ c # b) = a"
    and "dropWhile (\<lambda>x. x \<noteq> c) (a @ c # b) = c # b"
    by (induction a) auto
  then show ?thesis by (simp add: split_first_def)
qed

lemma split_last_append [simp]:
  "c \<notin> set b \<Longrightarrow> split_last c (a @ c # b) = (a, b)"
proof -
  assume "c \<notin> set b"
  then have "takeWhile (\<lambda>x. x \<noteq> c) (rev b @ c # rev a) = rev b"
    and "dropWhile (\<lambda>x. x \<noteq> c) (rev b @ c # rev a) = c # rev a"
    by (subst takeWhile_append2 dropWhile_append2; auto)+
  then show ?thesis by (simp add: split_last_def)
qed

lemma py_split_not_Nil [simp]: "py_split c s \<noteq> []"
  by (induction s) (auto split: list.splits)

lemma py_join_split: "py_join [c] (py_split c s) = s"
proof (induction s)
  case (Cons x s)
  obtain w ws where "py_split c s = w # ws" by (cases "py_split c s") auto
  with Cons show ?case by (cases ws) auto
qed simp

lemma py_split_no_sep: "w \<in> set (py_split c s) \<Longrightarrow> c \<notin> set w"
  by (induction s arbitrary: w) (auto split: if_splits list.splits)

section \<open>Decimal numbers\<close>

text \<open>\<open>str(n)\<close> for a non-negative and for any integer.\<close>

fun show_nat :: "nat \<Rightarrow> string" where
  "show_nat n =
     (if n < 10 then [char_of (48 + n)]
      else show_nat (n div 10) @ [char_of (48 + n mod 10)])"

declare show_nat.simps [simp del]

definition show_int :: "int \<Rightarrow> string" where
  "show_int i = (if i < 0 then CHR ''-'' # show_nat (nat (- i)) else show_nat (nat i))"

definition digit_val :: "char \<Rightarrow> nat" where
  "digit_val c = ord_of c - 48"

text \<open>
  The digits of \<open>int(s)\<close>: at least one digit, single underscores allowed between
  digits.
\<close>

fun parse_digits :: "nat \<Rightarrow> string \<Rightarrow> nat option" where
  "parse_digits acc [] = Some acc"
| "parse_digits acc (c # s) =
     (if is_digit_char c then parse_digits (10 * acc + digit_val c) s
      else if c = CHR ''_''
      then (case s of [] \<Rightarrow> None
            | d # s' \<Rightarrow> if is_digit_char d then parse_digits (10 * acc + digit_val d) s' else None)
      else None)"

definition parse_nat :: "string \<Rightarrow> nat option" where
  "parse_nat s =
     (case s of [] \<Rightarrow> None
      | c # s' \<Rightarrow> if is_digit_char c then parse_digits (digit_val c) s' else None)"

text \<open>\<open>int(s)\<close>: blanks around, an optional sign, the digits.\<close>

definition parse_int :: "string \<Rightarrow> int option" where
  "parse_int s =
     (let t = py_strip s
      in case t of [] \<Rightarrow> None
         | c # t' \<Rightarrow>
             if c = CHR ''-'' then map_option (\<lambda>n. - int n) (parse_nat t')
             else if c = CHR ''+'' then map_option int (parse_nat t')
             else map_option int (parse_nat t))"

lemma is_digit_char_of [simp]: "n < 10 \<Longrightarrow> is_digit_char (char_of (48 + n :: nat))"
  by (simp add: is_digit_char_def)

lemma digit_val_char_of [simp]: "n < 10 \<Longrightarrow> digit_val (char_of (48 + n :: nat)) = n"
  by (simp add: digit_val_def)

lemma parse_digits_snoc:
  "\<forall>c \<in> set s. is_digit_char c \<Longrightarrow> is_digit_char d \<Longrightarrow>
   parse_digits acc (s @ [d]) = map_option (\<lambda>n. 10 * n + digit_val d) (parse_digits acc s)"
  by (induction s arbitrary: acc) auto

lemma show_nat_digits: "\<forall>c \<in> set (show_nat n). is_digit_char c"
proof (induction n rule: show_nat.induct)
  case (1 n)
  then show ?case by (subst show_nat.simps) auto
qed

lemma show_nat_not_Nil [simp]: "show_nat n \<noteq> []"
  by (subst show_nat.simps) simp

lemma parse_nat_snoc:
  assumes "s \<noteq> []" and "\<forall>c \<in> set s. is_digit_char c" and "is_digit_char d"
  shows "parse_nat (s @ [d]) = map_option (\<lambda>n. 10 * n + digit_val d) (parse_nat s)"
  using assms by (cases s) (auto simp: parse_nat_def parse_digits_snoc)

lemma parse_show_nat [simp]: "parse_nat (show_nat n) = Some n"
proof (induction n rule: show_nat.induct)
  case (1 n)
  show ?case
  proof (cases "n < 10")
    case True
    then show ?thesis by (subst show_nat.simps) (simp add: parse_nat_def)
  next
    case False
    with 1 have "parse_nat (show_nat (n div 10)) = Some (n div 10)" by simp
    moreover have "parse_nat (show_nat (n div 10) @ [char_of (48 + n mod 10)])
        = map_option (\<lambda>k. 10 * k + n mod 10) (parse_nat (show_nat (n div 10)))"
      using parse_nat_snoc [of "show_nat (n div 10)" "char_of (48 + n mod 10)"]
      by (simp add: show_nat_digits)
    ultimately show ?thesis
      using False by (subst show_nat.simps) simp
  qed
qed

lemma digit_not_space: "is_digit_char c \<Longrightarrow> \<not> is_space_char c"
  by (auto simp: is_digit_char_def is_space_char_def)

lemma dropWhile_none: "s = [] \<or> \<not> P (hd s) \<Longrightarrow> dropWhile P s = s"
  by (cases s) auto

lemma py_strip_none:
  "s \<noteq> [] \<Longrightarrow> \<not> is_space_char (hd s) \<Longrightarrow> \<not> is_space_char (last s) \<Longrightarrow> py_strip s = s"
  by (simp add: py_strip_def dropWhile_none hd_rev)

lemma last_show_nat: "is_digit_char (last (show_nat n))"
  using show_nat_digits [of n] last_in_set [OF show_nat_not_Nil] by blast

lemma hd_show_nat: "is_digit_char (hd (show_nat n))"
  using show_nat_digits [of n] hd_in_set [OF show_nat_not_Nil] by blast

lemma digit_not_sign: "is_digit_char c \<Longrightarrow> c \<noteq> CHR ''-'' \<and> c \<noteq> CHR ''+''"
  by (auto simp: is_digit_char_def)

lemma parse_show_int [simp]: "parse_int (show_int i) = Some i"
proof (cases "i < 0")
  case True
  have "py_strip (CHR ''-'' # show_nat (nat (- i))) = CHR ''-'' # show_nat (nat (- i))"
    by (rule py_strip_none) (simp_all add: digit_not_space last_show_nat, simp add: is_space_char_def)
  with True show ?thesis
    by (simp add: show_int_def parse_int_def)
next
  case False
  have strip: "py_strip (show_nat (nat i)) = show_nat (nat i)"
    by (rule py_strip_none) (auto simp: digit_not_space last_show_nat hd_show_nat)
  obtain c t where ct: "show_nat (nat i) = c # t"
    by (cases "show_nat (nat i)") auto
  then have "is_digit_char c" using hd_show_nat [of "nat i"] by simp
  with False strip ct parse_show_nat [of "nat i"] show ?thesis
    by (simp add: show_int_def parse_int_def digit_not_sign)
qed

section \<open>Patterns of SQL\<close>

text \<open>\<open>LIKE\<close>: percent, underscore and the escape character of PostgreSQL.\<close>

fun sql_like :: "string \<Rightarrow> string \<Rightarrow> bool" where
  "sql_like [] s = (s = [])"
| "sql_like (p # ps) [] = (p = CHR ''%'' \<and> sql_like ps [])"
| "sql_like (p # ps) (c # s) =
     (if p = CHR ''%'' then sql_like ps (c # s) \<or> sql_like (p # ps) s
      else if p = CHR 0x5C
      then (case ps of [] \<Rightarrow> False | q # qs \<Rightarrow> q = c \<and> sql_like qs s)
      else (p = CHR ''_'' \<or> p = c) \<and> sql_like ps s)"

definition sql_ilike :: "string \<Rightarrow> string \<Rightarrow> bool" where
  "sql_ilike pat s = sql_like (py_lower pat) (py_lower s)"

end
