(* ===== verification/Py_Values.thy ===== *)
theory Py_Values
  imports Py_Strings Complex_Main
begin

text \<open>
  The Python values that flow through policy conditions, device rows and NATS
  payloads: what JSON and the database driver produce. Numbers are integers
  (JSON integers and integer columns); \<open>PObj s r\<close> stands for a value of another
  class (\<open>UUID\<close>, \<open>datetime\<close>, an IP address) of which the code uses only its
  \<open>str()\<close> text \<open>s\<close>, its \<open>repr()\<close> text \<open>r\<close>, equality and truth. The built-in
  operations the code applies to them follow: truth, \<open>==\<close>, \<open>str()\<close>, \<open>float()\<close>.
\<close>

datatype pyval =
    PNone
  | PBool bool
  | PInt int
  | PStr string
  | PObj string string
  | PList "pyval list"
  | PDict "(string \<times> pyval) list"

type_synonym pydict = "(string, pyval) dict"

section \<open>Truth, equality, iteration\<close>

fun truthy :: "pyval \<Rightarrow> bool" where
  "truthy PNone = False"
| "truthy (PBool b) = b"
| "truthy (PInt i) = (i \<noteq> 0)"
| "truthy (PStr s) = (s \<noteq> [])"
| "truthy (PObj s r) = True"
| "truthy (PList xs) = (xs \<noteq> [])"
| "truthy (PDict d) = (d \<noteq> [])"

text \<open>\<open>a or b\<close>.\<close>

definition py_or :: "pyval \<Rightarrow> pyval \<Rightarrow> pyval" where
  "py_or a b = (if truthy a then a else b)"

fun is_str :: "pyval \<Rightarrow> bool" where
  "is_str (PStr s) = True"
| "is_str _ = False"

fun is_list :: "pyval \<Rightarrow> bool" where
  "is_list (PList xs) = True"
| "is_list _ = False"

fun is_bool :: "pyval \<Rightarrow> bool" where
  "is_bool (PBool b) = True"
| "is_bool _ = False"

fun hashable :: "pyval \<Rightarrow> bool" where
  "hashable (PList xs) = False"
| "hashable (PDict d) = False"
| "hashable _ = True"

text \<open>\<open>True == 1\<close> and \<open>False == 0\<close> in Python: \<open>bool\<close> is a subclass of \<open>int\<close>.\<close>

fun py_num :: "pyval \<Rightarrow> int option" where
  "py_num (PBool b) = Some (if b then 1 else 0)"
| "py_num (PInt i) = Some i"
| "py_num _ = None"

fun py_eq :: "pyval \<Rightarrow> pyval \<Rightarrow> bool"
  and py_eq_list :: "pyval list \<Rightarrow> pyval list \<Rightarrow> bool"
  and py_eq_dict :: "(string \<times> pyval) list \<Rightarrow> (string \<times> pyval) list \<Rightarrow> bool" where
  "py_eq PNone v = (v = PNone)"
| "py_eq (PBool b) v = (py_num v = Some (if b then 1 else 0))"
| "py_eq (PInt i) v = (py_num v = Some i)"
| "py_eq (PStr s) v = (v = PStr s)"
| "py_eq (PObj s r) v = (v = PObj s r)"
| "py_eq (PList xs) v = (case v of PList ys \<Rightarrow> py_eq_list xs ys | _ \<Rightarrow> False)"
| "py_eq (PDict d) v =
     (case v of PDict e \<Rightarrow> length d = length e \<and> py_eq_dict d e | _ \<Rightarrow> False)"
| "py_eq_list [] ys = (ys = [])"
| "py_eq_list (x # xs) ys = (case ys of [] \<Rightarrow> False | y # ys' \<Rightarrow> py_eq x y \<and> py_eq_list xs ys')"
| "py_eq_dict [] e = True"
| "py_eq_dict ((k, v) # d) e =
     ((case dict_get e k of None \<Rightarrow> False | Some w \<Rightarrow> py_eq v w) \<and> py_eq_dict d e)"

text \<open>\<open>v in xs\<close> for a list.\<close>

definition py_mem :: "pyval \<Rightarrow> pyval list \<Rightarrow> bool" where
  "py_mem v xs = list_ex (\<lambda>x. py_eq x v) xs"

text \<open>\<open>for x in v\<close>: lists give their elements, dictionaries their keys, strings
  their characters; other values are not iterable.\<close>

fun py_iter :: "pyval \<Rightarrow> pyval list result" where
  "py_iter (PList xs) = Inr xs"
| "py_iter (PDict d) = Inr (map (\<lambda>(k, v). PStr k) d)"
| "py_iter (PStr s) = Inr (map (\<lambda>c. PStr [c]) s)"
| "py_iter _ = Inl (TypeError ''object is not iterable'')"

text \<open>\<open>d.get(k)\<close> and \<open>d.get(k, v)\<close>.\<close>

definition py_get :: "pydict \<Rightarrow> string \<Rightarrow> pyval" where
  "py_get d k = dict_get_or d k PNone"

lemma py_or_truthy [simp]: "truthy a \<Longrightarrow> py_or a b = a"
  by (simp add: py_or_def)

lemma py_eq_PNone_iff [simp]: "py_eq v PNone \<longleftrightarrow> v = PNone"
  by (cases v) auto

lemma py_eq_PStr_iff [simp]: "py_eq v (PStr s) \<longleftrightarrow> v = PStr s"
  by (cases v) auto

lemma py_mem_PStr: "py_mem (PStr s) xs \<longleftrightarrow> PStr s \<in> set xs"
  by (induction xs) (auto simp: py_mem_def)

section \<open>\<open>str()\<close> and \<open>repr()\<close>\<close>

definition hex_digit :: "nat \<Rightarrow> char" where
  "hex_digit n = (if n < 10 then char_of (48 + n) else char_of (87 + n))"

definition repr_char :: "char \<Rightarrow> char \<Rightarrow> string" where
  "repr_char q c =
     (if c = q \<or> c = CHR 0x5C then [CHR 0x5C, c]
      else if c = CHR 0x0A then [CHR 0x5C, CHR ''n'']
      else if c = CHR 0x0D then [CHR 0x5C, CHR ''r'']
      else if c = CHR 0x09 then [CHR 0x5C, CHR ''t'']
      else if ord_of c < 32 \<or> ord_of c = 127
      then [CHR 0x5C, CHR ''x'', hex_digit (ord_of c div 16), hex_digit (ord_of c mod 16)]
      else [c])"

definition str_repr :: "string \<Rightarrow> string" where
  "str_repr s =
     (let q = (if CHR 0x27 \<in> set s \<and> CHR 0x22 \<notin> set s then CHR 0x22 else CHR 0x27)
      in [q] @ concat (map (repr_char q) s) @ [q])"

fun py_repr :: "pyval \<Rightarrow> string"
  and py_repr_list :: "pyval list \<Rightarrow> string list"
  and py_repr_items :: "(string \<times> pyval) list \<Rightarrow> string list" where
  "py_repr PNone = ''None''"
| "py_repr (PBool b) = (if b then ''True'' else ''False'')"
| "py_repr (PInt i) = show_int i"
| "py_repr (PStr s) = str_repr s"
| "py_repr (PObj s r) = r"
| "py_repr (PList xs) = ''['' @ py_join '', '' (py_repr_list xs) @ '']''"
| "py_repr (PDict d) = ''{'' @ py_join '', '' (py_repr_items d) @ ''}''"
| "py_repr_list [] = []"
| "py_repr_list (x # xs) = py_repr x # py_repr_list xs"
| "py_repr_items [] = []"
| "py_repr_items ((k, v) # d) = (str_repr k @ '': '' @ py_repr v) # py_repr_items d"

definition py_str :: "pyval \<Rightarrow> string" where
  "py_str v = (case v of PStr s \<Rightarrow> s | PObj s r \<Rightarrow> s | _ \<Rightarrow> py_repr v)"

lemma py_str_simps [simp]:
  "py_str (PStr s) = s" "py_str PNone = ''None''" "py_str (PInt i) = show_int i"
  "py_str (PObj s r) = s"
  by (simp_all add: py_str_def)

section \<open>\<open>float()\<close>\<close>

text \<open>
  An IEEE double: a finite one is the rational it denotes. \<open>to_double\<close> rounds to
  the nearest multiple of the unit in the last place (53 significant bits, at
  least \<open>2 ^ -1074\<close>), ties to even; \<open>None\<close> is a magnitude of \<open>2 ^ 1024\<close> or more.
\<close>

datatype dbl = Fin rat | PosInf | NegInf | NaN

function bit_count :: "int \<Rightarrow> int" where
  "bit_count n = (if n \<le> 0 then 0 else 1 + bit_count (n div 2))"
  by pat_completeness auto
termination
  by (relation "measure nat") auto

declare bit_count.simps [simp del]

definition pow2 :: "int \<Rightarrow> rat" where
  "pow2 k = (if 0 \<le> k then 2 ^ nat k else 1 / 2 ^ nat (- k))"

text \<open>The exponent of a positive rational \<open>n / d\<close>: the greatest \<open>e\<close> with \<open>2 ^ e \<le> n / d\<close>.\<close>

definition ilog2 :: "rat \<Rightarrow> int" where
  "ilog2 q =
     (let (n, d) = quotient_of q;
          l = bit_count n - bit_count d
      in if pow2 l \<le> q then l else l - 1)"

definition round_even :: "rat \<Rightarrow> int" where
  "round_even m =
     (let f = \<lfloor>m\<rfloor>; r = m - of_int f
      in if r < 1 / 2 \<or> (r = 1 / 2 \<and> even f) then f else f + 1)"

definition to_double :: "rat \<Rightarrow> rat option" where
  "to_double q =
     (if q = 0 then Some 0
      else let a = \<bar>q\<bar>;
               k = max (ilog2 a - 52) (-1074);
               v = of_int (round_even (a / pow2 k)) * pow2 k
           in if 1024 \<le> ilog2 v then None else Some (if q < 0 then - v else v))"

text \<open>
  \<open>float(s)\<close>: blanks around, an optional sign, then \<open>inf\<close>, \<open>infinity\<close>, \<open>nan\<close> in any
  case or a decimal literal with an optional fraction and exponent.
\<close>

definition parse_opt_digits :: "string \<Rightarrow> nat option" where
  "parse_opt_digits s = (if s = [] then Some 0 else parse_nat s)"

definition count_digits :: "string \<Rightarrow> nat" where
  "count_digits s = length (filter is_digit_char s)"

definition parse_mantissa :: "string \<Rightarrow> rat option" where
  "parse_mantissa s =
     (if CHR ''.'' \<in> set s
      then (let (ip, fp) = split_first CHR ''.'' s
            in if ip = [] \<and> fp = [] then None
               else case (parse_opt_digits ip, parse_opt_digits fp) of
                      (Some i, Some f) \<Rightarrow> Some (of_nat i + of_nat f / 10 ^ count_digits fp)
                    | _ \<Rightarrow> None)
      else map_option of_nat (parse_nat s))"

definition parse_exponent :: "string \<Rightarrow> int option" where
  "parse_exponent s =
     (case s of [] \<Rightarrow> None
      | c # t \<Rightarrow> if c = CHR ''-'' then map_option (\<lambda>n. - int n) (parse_nat t)
                else if c = CHR ''+'' then map_option int (parse_nat t)
                else map_option int (parse_nat s))"

definition pow10 :: "int \<Rightarrow> rat" where
  "pow10 k = (if 0 \<le> k then 10 ^ nat k else 1 / 10 ^ nat (- k))"

definition parse_decimal :: "string \<Rightarrow> rat option" where
  "parse_decimal s =
     (let is_e = (\<lambda>c. c = CHR ''e'' \<or> c = CHR ''E'');
          m = takeWhile (\<lambda>c. \<not> is_e c) s;
          rest = dropWhile (\<lambda>c. \<not> is_e c) s
      in case rest of [] \<Rightarrow> parse_mantissa m
         | _ # x \<Rightarrow> (case (parse_mantissa m, parse_exponent x) of
                       (Some v, Some e) \<Rightarrow> Some (v * pow10 e)
                     | _ \<Rightarrow> None))"

definition parse_float :: "string \<Rightarrow> dbl option" where
  "parse_float s =
     (let t = py_strip s;
          neg = (t \<noteq> [] \<and> hd t = CHR ''-'');
          u = (if t \<noteq> [] \<and> (hd t = CHR ''-'' \<or> hd t = CHR ''+'') then tl t else t)
      in if py_lower u = ''inf'' \<or> py_lower u = ''infinity''
         then Some (if neg then NegInf else PosInf)
         else if py_lower u = ''nan'' then Some NaN
         else case parse_decimal u of None \<Rightarrow> None
              | Some q \<Rightarrow> Some (case to_double q of
                    None \<Rightarrow> (if neg then NegInf else PosInf)
                  | Some v \<Rightarrow> Fin (if neg then - v else v)))"

fun py_float :: "pyval \<Rightarrow> dbl result" where
  "py_float (PBool b) = Inr (Fin (if b then 1 else 0))"
| "py_float (PInt i) =
     (case to_double (of_int i) of
        None \<Rightarrow> Inl (OverflowError ''int too large to convert to float'')
      | Some v \<Rightarrow> Inr (Fin v))"
| "py_float (PStr s) =
     (case parse_float s of
        None \<Rightarrow> Inl (ValueError ''could not convert string to float'')
      | Some x \<Rightarrow> Inr x)"
| "py_float _ = Inl (TypeError ''float() argument must be a string or a real number'')"

text \<open>\<open><\<close> and \<open><=\<close> on floats; every comparison with \<open>nan\<close> is false.\<close>

fun dbl_lt :: "dbl \<Rightarrow> dbl \<Rightarrow> bool" where
  "dbl_lt NaN y = False"
| "dbl_lt x NaN = False"
| "dbl_lt (Fin a) (Fin b) = (a < b)"
| "dbl_lt (Fin a) PosInf = True"
| "dbl_lt (Fin a) NegInf = False"
| "dbl_lt NegInf y = (y \<noteq> NegInf)"
| "dbl_lt PosInf y = False"

fun dbl_le :: "dbl \<Rightarrow> dbl \<Rightarrow> bool" where
  "dbl_le NaN y = False"
| "dbl_le x NaN = False"
| "dbl_le x y = (dbl_lt x y \<or> x = y)"

lemma dbl_lt_le: "dbl_lt x y \<longleftrightarrow> dbl_le x y \<and> x \<noteq> y"
  by (cases x; cases y) auto

lemma dbl_not_lt: "x \<noteq> NaN \<Longrightarrow> y \<noteq> NaN \<Longrightarrow> \<not> dbl_lt x y \<longleftrightarrow> dbl_le y x"
  by (cases x; cases y) auto

lemma bit_count_le: "n < 2 ^ k \<Longrightarrow> bit_count n \<le> int k"
proof (induction k arbitrary: n)
  case 0
  then show ?case by (simp add: bit_count.simps)
next
  case (Suc k)
  then have "n div 2 < 2 ^ k" by simp
  then have "bit_count (n div 2) \<le> int k" by (rule Suc.IH)
  then show ?case by (subst bit_count.simps) simp
qed

lemma bit_count_1: "bit_count 1 = 1"
  by (simp add: bit_count.simps)

lemma pow2_neg: "k \<le> 0 \<Longrightarrow> a / pow2 k = a * 2 ^ nat (- k)"
  by (cases "k = 0") (simp_all add: pow2_def)

lemma pow2_pos [simp]: "0 < pow2 k"
  by (simp add: pow2_def)

lemma round_even_of_int [simp]: "round_even (of_int i) = i"
  by (simp add: round_even_def)

text \<open>Integers of up to 53 bits convert exactly.\<close>

lemma to_double_exact:
  assumes "\<bar>i\<bar> < 2 ^ 53"
  shows "to_double (of_int i) = Some (of_int i)"
proof (cases "i = 0")
  case True
  then show ?thesis by (simp add: to_double_def)
next
  case False
  define j where "j = \<bar>i\<bar>"
  define a :: rat where "a = of_int j"
  have abs: "\<bar>of_int i\<bar> = a" by (simp add: a_def j_def)
  have "j < 2 ^ 53" using assms by (simp add: j_def)
  then have bc: "bit_count j \<le> 53" using bit_count_le [of j 53] by simp
  have "ilog2 a \<le> 52"
    using bc by (simp add: a_def ilog2_def quotient_of_int Let_def bit_count_1)
  then have k: "max (ilog2 a - 52) (-1074) \<le> 0" by simp
  define k where "k = max (ilog2 a - 52) (-1074)"
  have "a / pow2 k = of_int (j * 2 ^ nat (- k))"
    using k by (simp add: k_def a_def pow2_neg)
  then have "of_int (round_even (a / pow2 k)) * pow2 k = a"
    by (metis nonzero_eq_divide_eq pow2_pos less_irrefl round_even_of_int)
  moreover have "ilog2 a < 1024" using \<open>ilog2 a \<le> 52\<close> by simp
  ultimately have "to_double (of_int i) = Some (if i < 0 then - a else a)"
    using False by (simp add: to_double_def Let_def abs k_def [symmetric])
  also have "(if i < 0 then - a else a) = of_int i"
    by (simp add: a_def j_def)
  finally show ?thesis .
qed

lemma py_float_small_int:
  "\<bar>i\<bar> < 2 ^ 53 \<Longrightarrow> py_float (PInt i) = Inr (Fin (of_int i))"
  by (simp add: to_double_exact)

end
