(* ===== verification/Policy_Evaluator.thy ===== *)
theory Policy_Evaluator
  imports Py_Values
begin

text \<open>
  The core of the policy engine, \<open>services/policy_engine/evaluator.py\<close>: field
  resolution, comparison operators, the evaluation of a policy and its detailed
  variant. A policy and a device context are dictionaries of Python values.
  \<open>re.search\<close> is the parameter \<open>re\<close> (the regular expression engine is not part of
  the repository): it answers whether the pattern is found in the text, or raises.
  The current time is the parameter \<open>clk\<close>.
\<close>

section \<open>Time and field resolution\<close>

record clock =
  clk_hour :: int
  clk_minute :: int
  clk_weekday :: int
  clk_day :: int
  clk_month :: int
  clk_date :: string

definition time_fields :: "clock \<Rightarrow> pydict" where
  "time_fields now =
     [(''time.hour'', PInt (clk_hour now)),
      (''time.minute'', PInt (clk_minute now)),
      (''time.weekday'', PInt (clk_weekday now)),
      (''time.day_of_month'', PInt (clk_day now)),
      (''time.month'', PInt (clk_month now)),
      (''time.date'', PStr (clk_date now)),
      (''time.is_business_hours'',
         PBool (9 \<le> clk_hour now \<and> clk_hour now \<le> 17 \<and> clk_weekday now < 5)),
      (''time.is_weekend'', PBool (5 \<le> clk_weekday now))]"

definition resolve_time_field :: "clock \<Rightarrow> string \<Rightarrow> pyval" where
  "resolve_time_field now field = py_get (time_fields now) field"

definition aliases :: "(string, string) dict" where
  "aliases =
     [(''device.type'', ''device_type''),
      (''device.os'', ''os_family''),
      (''device.os_version'', ''os_version''),
      (''device.vendor'', ''vendor''),
      (''device.mac'', ''mac_address''),
      (''device.ip'', ''ip_address''),
      (''device.hostname'', ''hostname''),
      (''device.status'', ''status''),
      (''device.risk_score'', ''risk_score''),
      (''auth.method'', ''auth_method''),
      (''auth.username'', ''username''),
      (''auth.802_1x'', ''is_dot1x''),
      (''auth.mab'', ''is_mab''),
      (''network.nas_ip'', ''nas_ip''),
      (''network.nas_port'', ''nas_port''),
      (''network.switch_ip'', ''nas_ip''),
      (''network.port'', ''nas_port_id''),
      (''network.vlan'', ''current_vlan''),
      (''network.ssid'', ''ssid''),
      (''user.name'', ''username''),
      (''user.domain'', ''user_domain''),
      (''user.group'', ''ad_groups''),
      (''user.department'', ''ad_department''),
      (''user.email'', ''user_email'')]"

definition direct_fields :: "string list" where
  "direct_fields =
     [''mac_address'', ''ip_address'', ''hostname'', ''device_type'',
      ''os_family'', ''os_version'', ''vendor'', ''model'', ''status'',
      ''risk_score'', ''first_seen'', ''last_seen'']"

text \<open>The dotted path into the nested \<open>properties\<close> dictionary.\<close>

fun walk_path :: "string list \<Rightarrow> pyval \<Rightarrow> pyval" where
  "walk_path [] current = current"
| "walk_path (part # parts) current =
     (case current of
        PDict d \<Rightarrow> (case dict_get d part of Some v \<Rightarrow> walk_path parts v | None \<Rightarrow> PNone)
      | _ \<Rightarrow> PNone)"

definition resolve_name :: "clock \<Rightarrow> string \<Rightarrow> pydict \<Rightarrow> pyval" where
  "resolve_name now field context =
     (if field \<in> set direct_fields then py_get context field
      else case dict_get aliases field of
        Some k \<Rightarrow> py_get context k
      | None \<Rightarrow>
          (case dict_get context (replace_char CHR ''.'' CHR ''_'' field) of
             Some v \<Rightarrow> v
           | None \<Rightarrow>
               if py_startswith field ''time.'' then resolve_time_field now field
               else walk_path (py_split CHR ''.'' field)
                      (dict_get_or context ''properties'' (PDict []))))"

text \<open>
  \<open>_resolve_field\<close>: a falsy field is \<open>None\<close>; a value that is no string fails in the
  set lookup (unhashable) or at \<open>field.replace\<close>.
\<close>

definition resolve_field :: "clock \<Rightarrow> pyval \<Rightarrow> pydict \<Rightarrow> pyval result" where
  "resolve_field now field context =
     (if \<not> truthy field then Inr PNone
      else if \<not> hashable field then Inl (TypeError ''unhashable type'')
      else case field of
        PStr f \<Rightarrow> Inr (resolve_name now f context)
      | _ \<Rightarrow> Inl (AttributeError ''replace''))"

section \<open>Normalisation and equality\<close>

definition normalize_value :: "pyval \<Rightarrow> pyval" where
  "normalize_value value =
     (case value of
        PStr s \<Rightarrow>
          (let v = py_strip (py_lower s)
           in if v \<in> set [''true'', ''yes'', ''1''] then PBool True
              else if v \<in> set [''false'', ''no'', ''0''] then PBool False
              else PStr v)
      | _ \<Rightarrow> value)"

definition equals_values :: "pyval \<Rightarrow> pyval \<Rightarrow> bool" where
  "equals_values a b =
     (if a = PNone \<and> b = PNone then True
      else if a = PNone \<or> b = PNone then False
      else case (a, b) of
        (PStr s, PStr t) \<Rightarrow> py_lower s = py_lower t
      | _ \<Rightarrow> if is_bool a \<or> is_bool b then truthy a = truthy b else py_eq a b)"

section \<open>Comparison operators\<close>

datatype cond_op =
    OpEquals | OpNotEquals | OpIn | OpNotIn | OpContains | OpNotContains
  | OpStartsWith | OpEndsWith | OpGt | OpGte | OpLt | OpLte | OpBetween | OpRegex
  | OpExists | OpNotExists | OpIsEmpty | OpIsNotEmpty | OpIsMemberOf | OpMatchesOui
  | OpUnknown

definition operator_table :: "(string, cond_op) dict" where
  "operator_table =
     [(''equals'', OpEquals), (''eq'', OpEquals), (''=='', OpEquals),
      (''not_equals'', OpNotEquals), (''ne'', OpNotEquals), (''!='', OpNotEquals),
      (''in'', OpIn), (''not_in'', OpNotIn),
      (''contains'', OpContains), (''not_contains'', OpNotContains),
      (''starts_with'', OpStartsWith), (''ends_with'', OpEndsWith),
      (''gt'', OpGt), (''>'', OpGt), (''gte'', OpGte), (''>='', OpGte),
      (''lt'', OpLt), (''<'', OpLt), (''lte'', OpLte), (''<='', OpLte),
      (''between'', OpBetween), (''regex'', OpRegex),
      (''exists'', OpExists), (''not_exists'', OpNotExists),
      (''is_empty'', OpIsEmpty), (''is_not_empty'', OpIsNotEmpty),
      (''is_member_of'', OpIsMemberOf), (''matches_oui'', OpMatchesOui)]"

definition operator_of :: "pyval \<Rightarrow> cond_op" where
  "operator_of v = (case v of PStr s \<Rightarrow> dict_get_or operator_table s OpUnknown | _ \<Rightarrow> OpUnknown)"

text \<open>\<open>float(actual or 0) < float(expected or 0)\<close> and its variants.\<close>

definition num_compare :: "(dbl \<Rightarrow> dbl \<Rightarrow> bool) \<Rightarrow> pyval \<Rightarrow> pyval \<Rightarrow> bool result" where
  "num_compare cmp actual expected =
     rbind (py_float (py_or actual (PInt 0))) (\<lambda>a.
     rbind (py_float (py_or expected (PInt 0))) (\<lambda>e. Inr (cmp a e)))"

definition between_compare :: "pyval \<Rightarrow> pyval \<Rightarrow> bool result" where
  "between_compare actual expected =
     (case expected of
        PList [lo, hi] \<Rightarrow>
          rbind (py_float lo) (\<lambda>l.
          rbind (py_float (py_or actual (PInt 0))) (\<lambda>a.
            if dbl_le l a then rbind (py_float hi) (\<lambda>h. Inr (dbl_le a h)) else Inr False))
      | _ \<Rightarrow> Inr False)"

definition member_compare :: "pyval \<Rightarrow> pyval \<Rightarrow> bool result" where
  "member_compare actual expected =
     (case actual of
        PList as \<Rightarrow>
          (case expected of
             PList es \<Rightarrow>
               (if list_all (\<lambda>e. hashable (normalize_value e)) es \<and> list_all (\<lambda>a. hashable (normalize_value a)) as
                then Inr (list_ex (\<lambda>e. py_mem (normalize_value e) (map normalize_value as)) es)
                else Inl (TypeError ''unhashable type''))
           | _ \<Rightarrow> Inr (py_mem (normalize_value expected) (map normalize_value as)))
      | _ \<Rightarrow> Inr False)"

fun is_empty_value :: "pyval \<Rightarrow> bool" where
  "is_empty_value PNone = True"
| "is_empty_value (PStr s) = (s = [])"
| "is_empty_value (PList xs) = (xs = [])"
| "is_empty_value _ = False"

type_synonym re_search = "string \<Rightarrow> string \<Rightarrow> bool result"

definition compare_body :: "re_search \<Rightarrow> pyval \<Rightarrow> cond_op \<Rightarrow> pyval \<Rightarrow> bool result" where
  "compare_body re actual op expected =
     (let actual_n = normalize_value actual; expected_n = normalize_value expected
      in case op of
        OpEquals \<Rightarrow> Inr (equals_values actual_n expected_n)
      | OpNotEquals \<Rightarrow> Inr (\<not> equals_values actual_n expected_n)
      | OpIn \<Rightarrow>
          (case expected of
             PList es \<Rightarrow> Inr (py_mem actual_n (map normalize_value es))
           | _ \<Rightarrow> Inr (truthy actual_n \<and> py_in (py_str actual_n) (py_str expected_n)))
      | OpNotIn \<Rightarrow>
          (case expected of
             PList es \<Rightarrow> Inr (\<not> py_mem actual_n (map normalize_value es))
           | _ \<Rightarrow> Inr (truthy actual_n \<longrightarrow> \<not> py_in (py_str actual_n) (py_str expected_n)))
      | OpContains \<Rightarrow>
          Inr (truthy actual \<and> py_in (py_lower (py_str expected_n)) (py_lower (py_str actual)))
      | OpNotContains \<Rightarrow>
          Inr (truthy actual \<longrightarrow> \<not> py_in (py_lower (py_str expected_n)) (py_lower (py_str actual)))
      | OpStartsWith \<Rightarrow>
          Inr (truthy actual \<and> py_startswith (py_lower (py_str actual)) (py_lower (py_str expected_n)))
      | OpEndsWith \<Rightarrow>
          Inr (truthy actual \<and> py_endswith (py_lower (py_str actual)) (py_lower (py_str expected_n)))
      | OpGt \<Rightarrow> num_compare (\<lambda>a e. dbl_lt e a) actual expected
      | OpGte \<Rightarrow> num_compare (\<lambda>a e. dbl_le e a) actual expected
      | OpLt \<Rightarrow> num_compare dbl_lt actual expected
      | OpLte \<Rightarrow> num_compare dbl_le actual expected
      | OpBetween \<Rightarrow> between_compare actual expected
      | OpRegex \<Rightarrow> (if truthy actual then re (py_str expected) (py_str actual) else Inr False)
      | OpExists \<Rightarrow> Inr (actual \<noteq> PNone)
      | OpNotExists \<Rightarrow> Inr (actual = PNone)
      | OpIsEmpty \<Rightarrow> Inr (is_empty_value actual)
      | OpIsNotEmpty \<Rightarrow> Inr (\<not> is_empty_value actual)
      | OpIsMemberOf \<Rightarrow> member_compare actual expected
      | OpMatchesOui \<Rightarrow>
          Inr (truthy actual \<and> truthy expected_n \<and>
               py_lower (take 8 (py_str actual)) = py_lower (take 8 (py_str expected_n)))
      | OpUnknown \<Rightarrow> Inr False)"

text \<open>\<open>except (ValueError, TypeError)\<close>: those two are logged and count as no match.\<close>

fun catch_value_type :: "bool result \<Rightarrow> bool result" where
  "catch_value_type (Inl (ValueError m)) = Inr False"
| "catch_value_type (Inl (TypeError m)) = Inr False"
| "catch_value_type r = r"

definition compare_values :: "re_search \<Rightarrow> pyval \<Rightarrow> pyval \<Rightarrow> pyval \<Rightarrow> bool result" where
  "compare_values re actual operator expected =
     catch_value_type (compare_body re actual (operator_of operator) expected)"

section \<open>Evaluating a policy\<close>

definition check_condition :: "re_search \<Rightarrow> clock \<Rightarrow> pydict \<Rightarrow> pydict \<Rightarrow> bool result" where
  "check_condition re now context condition =
     rbind (resolve_field now (dict_get_or condition ''field'' (PStr [])) context) (\<lambda>actual.
       compare_values re actual (dict_get_or condition ''operator'' (PStr ''equals''))
         (py_get condition ''value''))"

fun eval_conditions :: "re_search \<Rightarrow> clock \<Rightarrow> pydict \<Rightarrow> pyval list \<Rightarrow> bool result" where
  "eval_conditions re now context [] = Inr True"
| "eval_conditions re now context (c # cs) =
     (case c of
        PDict condition \<Rightarrow>
          rbind (check_condition re now context condition) (\<lambda>matched.
            if matched then eval_conditions re now context cs else Inr False)
      | _ \<Rightarrow> eval_conditions re now context cs)"

definition evaluate :: "re_search \<Rightarrow> clock \<Rightarrow> pydict \<Rightarrow> pydict \<Rightarrow> bool result" where
  "evaluate re now policy context =
     (let conditions = dict_get_or policy ''conditions'' (PList [])
      in if \<not> truthy conditions then Inr True
         else rbind (py_iter conditions) (eval_conditions re now context))"

record cond_detail =
  cd_field :: pyval
  cd_operator :: pyval
  cd_expected :: pyval
  cd_actual :: pyval
  cd_matched :: bool

record eval_details =
  ed_policy_id :: pyval
  ed_policy_name :: pyval
  ed_matched :: bool
  ed_conditions :: "cond_detail list"

definition detail_condition :: "re_search \<Rightarrow> clock \<Rightarrow> pydict \<Rightarrow> pydict \<Rightarrow> cond_detail result" where
  "detail_condition re now context condition =
     (let field = dict_get_or condition ''field'' (PStr []);
          operator = dict_get_or condition ''operator'' (PStr ''equals'');
          expected = py_get condition ''value''
      in rbind (resolve_field now field context) (\<lambda>actual.
         rbind (compare_values re actual operator expected) (\<lambda>matched.
           Inr \<lparr>cd_field = field, cd_operator = operator, cd_expected = expected,
                cd_actual = actual, cd_matched = matched\<rparr>)))"

fun detail_conditions :: "re_search \<Rightarrow> clock \<Rightarrow> pydict \<Rightarrow> pyval list \<Rightarrow> cond_detail list result" where
  "detail_conditions re now context [] = Inr []"
| "detail_conditions re now context (c # cs) =
     (case c of
        PDict condition \<Rightarrow>
          rbind (detail_condition re now context condition) (\<lambda>r.
          rbind (detail_conditions re now context cs) (\<lambda>rs. Inr (r # rs)))
      | _ \<Rightarrow> detail_conditions re now context cs)"

definition evaluate_with_details :: "re_search \<Rightarrow> clock \<Rightarrow> pydict \<Rightarrow> pydict \<Rightarrow> eval_details result" where
  "evaluate_with_details re now policy context =
     rbind (py_iter (dict_get_or policy ''conditions'' (PList []))) (\<lambda>cs.
     rbind (detail_conditions re now context cs) (\<lambda>results.
       Inr \<lparr>ed_policy_id = py_get policy ''id'', ed_policy_name = py_get policy ''name'',
            ed_matched = list_all cd_matched results, ed_conditions = results\<rparr>))"

section \<open>Errors of a comparison\<close>

lemma catch_value_type_Inl:
  "catch_value_type r = Inl e \<Longrightarrow> r = Inl e \<and> (\<forall>m. e \<noteq> ValueError m \<and> e \<noteq> TypeError m)"
  by (induction r rule: catch_value_type.induct) auto

lemma catch_value_type_Inr [simp]: "catch_value_type (Inr b) = Inr b"
  by simp

lemma py_float_Inl:
  "py_float v = Inl e \<Longrightarrow> (\<exists>m. e = ValueError m \<or> e = TypeError m \<or> e = OverflowError m)"
  by (cases v) (auto split: option.splits)

lemma num_compare_Inl:
  "num_compare cmp a x = Inl e \<Longrightarrow> (\<exists>m. e = ValueError m \<or> e = TypeError m \<or> e = OverflowError m)"
  by (auto simp: num_compare_def result_simps dest: py_float_Inl)

lemma between_compare_Inl:
  assumes "between_compare a x = Inl e"
  shows "\<exists>m. e = ValueError m \<or> e = TypeError m \<or> e = OverflowError m"
proof -
  from assms obtain v where "py_float v = Inl e"
    by (auto simp: between_compare_def result_simps split: pyval.splits list.splits if_splits)
  then show ?thesis by (rule py_float_Inl)
qed

lemma member_compare_Inl: "member_compare a x = Inl e \<Longrightarrow> \<exists>m. e = TypeError m"
  by (auto simp: member_compare_def split: pyval.splits if_splits)

lemma compare_body_Inl:
  assumes "compare_body re a op x = Inl e"
  shows "(\<exists>m. e = ValueError m \<or> e = TypeError m \<or> e = OverflowError m)
     \<or> op = OpRegex \<and> re (py_str x) (py_str a) = Inl e"
  using assms
  by (cases op)
     (auto simp: compare_body_def Let_def split: pyval.splits if_splits
       dest: num_compare_Inl between_compare_Inl member_compare_Inl)

lemma compare_values_Inl:
  assumes "compare_values re a op x = Inl e"
  shows "(\<exists>m. e = OverflowError m) \<or> re (py_str x) (py_str a) = Inl e"
  using catch_value_type_Inl [OF assms [unfolded compare_values_def]] compare_body_Inl
  by blast

section \<open>The loop over the conditions\<close>

text \<open>The conditions that take part: entries that are no dictionary are skipped.\<close>

fun dict_conditions :: "pyval list \<Rightarrow> pydict list" where
  "dict_conditions [] = []"
| "dict_conditions (c # cs) =
     (case c of PDict d \<Rightarrow> d # dict_conditions cs | _ \<Rightarrow> dict_conditions cs)"

text \<open>The reference: all outcomes in order, the first that is not "matched" decides.\<close>

definition first_outcome :: "bool result list \<Rightarrow> bool result" where
  "first_outcome rs = (case List.find (\<lambda>r. r \<noteq> Inr True) rs of None \<Rightarrow> Inr True | Some r \<Rightarrow> r)"

lemma first_outcome_Nil [simp]: "first_outcome [] = Inr True"
  by (simp add: first_outcome_def)

lemma first_outcome_Cons [simp]:
  "first_outcome (r # rs) = (if r = Inr True then first_outcome rs else r)"
  by (simp add: first_outcome_def)

lemma first_outcome_True: "first_outcome rs = Inr True \<longleftrightarrow> (\<forall>r \<in> set rs. r = Inr True)"
  by (induction rs) auto

lemma first_outcome_mem: "first_outcome rs = r \<Longrightarrow> r \<noteq> Inr True \<Longrightarrow> r \<in> set rs"
  by (induction rs) (auto split: if_splits)

lemma eval_conditions_first_outcome:
  "eval_conditions re now context cs =
     first_outcome (map (check_condition re now context) (dict_conditions cs))"
proof (induction cs)
  case (Cons c cs)
  then show ?case
    by (cases c) (auto simp: rbind_def split: sum.splits)
qed simp

lemma evaluate_list:
  assumes "dict_get policy ''conditions'' = Some (PList cs)"
  shows "evaluate re now policy context =
    first_outcome (map (check_condition re now context) (dict_conditions cs))"
  using assms by (simp add: evaluate_def dict_get_or_def eval_conditions_first_outcome)

lemma detail_condition_Inr:
  "detail_condition re now context c = Inr d \<longleftrightarrow>
     check_condition re now context c = Inr (cd_matched d) \<and>
     cd_field d = dict_get_or c ''field'' (PStr []) \<and>
     cd_operator d = dict_get_or c ''operator'' (PStr ''equals'') \<and>
     cd_expected d = py_get c ''value'' \<and>
     resolve_field now (cd_field d) context = Inr (cd_actual d)"
  by (auto simp: detail_condition_def check_condition_def Let_def result_simps)

lemma detail_conditions_rmap:
  "detail_conditions re now context cs =
     rmap (detail_condition re now context) (dict_conditions cs)"
  by (induction cs) (auto split: pyval.splits)

lemma rmap_detail_outcome:
  "rmap (detail_condition re now context) ds = Inr rs \<Longrightarrow>
   first_outcome (map (check_condition re now context) ds) = Inr (list_all cd_matched rs)
     \<and> map (check_condition re now context) ds = map (\<lambda>r. Inr (cd_matched r)) rs"
  by (induction ds arbitrary: rs) (auto simp: result_simps detail_condition_Inr)

section \<open>The evaluator as an interface\<close>

text \<open>
  What the policy engine and the simulation endpoints rely on: a yes or no per
  policy, a detailed report whose verdict is the same answer, and a report with
  one entry per condition.
\<close>

locale evaluator =
  fixes eval :: "pydict \<Rightarrow> pydict \<Rightarrow> bool result"
    and details :: "pydict \<Rightarrow> pydict \<Rightarrow> eval_details result"
  assumes details_verdict: "details p c = Inr d \<Longrightarrow> eval p c = Inr (ed_matched d)"
    and details_all: "details p c = Inr d \<Longrightarrow> ed_matched d = list_all cd_matched (ed_conditions d)"
    and details_ident: "details p c = Inr d \<Longrightarrow> ed_policy_id d = py_get p ''id''"
begin

lemma details_failing:
  "details p c = Inr d \<Longrightarrow> eval p c = Inr False \<longleftrightarrow> (\<exists>r \<in> set (ed_conditions d). \<not> cd_matched r)"
  using details_verdict details_all by (fastforce simp: list_all_iff)

text \<open>The chosen side of a policy is the same whether it is run or simulated.\<close>

lemma details_choice:
  "details p c = Inr d \<Longrightarrow>
   rbind (eval p c) (\<lambda>m. Inr (if m then x else y)) = Inr (if ed_matched d then x else y)"
  using details_verdict by simp

end

lemma evaluate_details_verdict:
  assumes "evaluate_with_details re now p c = Inr d"
  shows "evaluate re now p c = Inr (ed_matched d)"
proof -
  from assms obtain cs rs where cs: "py_iter (dict_get_or p ''conditions'' (PList [])) = Inr cs"
    and rs: "rmap (detail_condition re now c) (dict_conditions cs) = Inr rs"
    and d: "ed_matched d = list_all cd_matched rs"
    by (auto simp: evaluate_with_details_def detail_conditions_rmap result_simps)
  show ?thesis
  proof (cases "truthy (dict_get_or p ''conditions'' (PList []))")
    case True
    with cs rmap_detail_outcome [OF rs, THEN conjunct1] d show ?thesis
      by (simp add: evaluate_def eval_conditions_first_outcome)
  next
    case False
    with cs have "cs = []" by (cases "dict_get_or p ''conditions'' (PList [])") auto
    with rs False d show ?thesis by (simp add: evaluate_def)
  qed
qed

interpretation engine_evaluator: evaluator "evaluate re now" "evaluate_with_details re now"
  for re now
proof unfold_locales
  fix p c d assume "evaluate_with_details re now p c = Inr d"
  then show "evaluate re now p c = Inr (ed_matched d)"
    by (rule evaluate_details_verdict)
qed (auto simp: evaluate_with_details_def result_simps)

lemma operator_names:
  "operator_of (PStr ''equals'') = OpEquals"
  "operator_of (PStr ''not_equals'') = OpNotEquals"
  "operator_of (PStr ''in'') = OpIn"
  "operator_of (PStr ''not_in'') = OpNotIn"
  "operator_of (PStr ''contains'') = OpContains"
  "operator_of (PStr ''not_contains'') = OpNotContains"
  "operator_of (PStr ''exists'') = OpExists"
  "operator_of (PStr ''not_exists'') = OpNotExists"
  "operator_of (PStr ''is_empty'') = OpIsEmpty"
  "operator_of (PStr ''is_not_empty'') = OpIsNotEmpty"
  "operator_of (PStr ''gte'') = OpGte"
  "operator_of (PStr ''lt'') = OpLt"
  "operator_of (PStr ''is_member_of'') = OpIsMemberOf"
  by code_simp+

lemma compare_body_simps:
  "compare_body re a OpEquals x = Inr (equals_values (normalize_value a) (normalize_value x))"
  "compare_body re a OpNotEquals x = Inr (\<not> equals_values (normalize_value a) (normalize_value x))"
  "compare_body re a OpContains x =
     Inr (truthy a \<and> py_in (py_lower (py_str (normalize_value x))) (py_lower (py_str a)))"
  "compare_body re a OpNotContains x =
     Inr (\<not> (truthy a \<and> py_in (py_lower (py_str (normalize_value x))) (py_lower (py_str a))))"
  "compare_body re a OpExists x = Inr (a \<noteq> PNone)"
  "compare_body re a OpNotExists x = Inr (a = PNone)"
  "compare_body re a OpIsEmpty x = Inr (is_empty_value a)"
  "compare_body re a OpIsNotEmpty x = Inr (\<not> is_empty_value a)"
  by (simp_all add: compare_body_def)

lemma compare_in_total:
  "\<exists>b. compare_values re a (PStr ''in'') x = Inr b \<and>
       compare_values re a (PStr ''not_in'') x = Inr (\<not> b)"
  by (cases x) (simp_all add: compare_values_def operator_names compare_body_def Let_def)

section \<open>Properties\<close>

text \<open>
  C1: A policy with a list of conditions evaluates to the first outcome, in order,
  that is not "matched": true only when every dictionary entry matches, false or an
  exception as soon as one entry gives it, later entries not being looked at.
\<close>

theorem evaluate_first_outcome:
  assumes "dict_get policy ''conditions'' = Some (PList cs)"
  shows "evaluate re now policy context =
    (case List.find (\<lambda>r. r \<noteq> Inr True)
            (map (check_condition re now context) (dict_conditions cs)) of
       None \<Rightarrow> Inr True | Some r \<Rightarrow> r)"
  using evaluate_list [OF assms] by (simp add: first_outcome_def)

definition ex_clock :: clock where
  "ex_clock = \<lparr>clk_hour = 17, clk_minute = 59, clk_weekday = 0, clk_day = 4, clk_month = 5,
     clk_date = ''2026-05-04''\<rparr>"

definition ex_printer_policy :: pydict where
  "ex_printer_policy =
     [(''id'', PStr ''p1''), (''name'', PStr ''Printers''),
      (''conditions'', PList [PStr ''skipped'',
        PDict [(''field'', PStr ''device.type''), (''operator'', PStr ''equals''),
               (''value'', PStr ''Printer'')],
        PDict [(''field'', PStr ''device.risk_score''), (''operator'', PStr ''lt''),
               (''value'', PInt 70)]])]"

definition ex_printer :: pydict where
  "ex_printer = [(''device_type'', PStr ''printer''), (''risk_score'', PInt 80)]"

theorem evaluate_first_outcome_witness:
  "evaluate (\<lambda>p t. Inr False) ex_clock ex_printer_policy ex_printer = Inr False"
proof -
  have c: "dict_get ex_printer_policy ''conditions'' = Some (PList [PStr ''skipped'',
        PDict [(''field'', PStr ''device.type''), (''operator'', PStr ''equals''),
               (''value'', PStr ''Printer'')],
        PDict [(''field'', PStr ''device.risk_score''), (''operator'', PStr ''lt''),
               (''value'', PInt 70)]])"
    by (simp add: ex_printer_policy_def)
  show ?thesis
    by (subst evaluate_first_outcome [OF c]) code_simp
qed

text \<open>
  The detailed report and the plain verdict agree: whenever the report is
  produced, the plain evaluation returns its verdict, the verdict is the conjunction
  of the entries, and there is one entry per dictionary condition, in order, with
  the outcome the plain evaluation computes for that condition.
\<close>

theorem details_agree:
  assumes "evaluate_with_details re now policy context = Inr d"
    and "dict_get policy ''conditions'' = Some (PList cs)"
  shows "evaluate re now policy context = Inr (ed_matched d) \<and>
    ed_matched d = list_all cd_matched (ed_conditions d) \<and>
    map (check_condition re now context) (dict_conditions cs) =
      map (\<lambda>r. Inr (cd_matched r)) (ed_conditions d)"
proof -
  have rs: "rmap (detail_condition re now context) (dict_conditions cs) = Inr (ed_conditions d)"
    using assms
    by (auto simp: evaluate_with_details_def dict_get_or_def detail_conditions_rmap result_simps)
  show ?thesis
    using engine_evaluator.details_verdict [OF assms(1)] engine_evaluator.details_all [OF assms(1)]
      rmap_detail_outcome [OF rs] by simp
qed

definition ex_details :: eval_details where
  "ex_details =
     \<lparr>ed_policy_id = PStr ''p1'', ed_policy_name = PStr ''Printers'', ed_matched = False,
      ed_conditions =
        [\<lparr>cd_field = PStr ''device.type'', cd_operator = PStr ''equals'',
          cd_expected = PStr ''Printer'', cd_actual = PStr ''printer'', cd_matched = True\<rparr>,
         \<lparr>cd_field = PStr ''device.risk_score'', cd_operator = PStr ''lt'',
          cd_expected = PInt 70, cd_actual = PInt 80, cd_matched = False\<rparr>]\<rparr>"

theorem details_agree_witness:
  "evaluate (\<lambda>p t. Inr False) ex_clock ex_printer_policy ex_printer = Inr False"
proof -
  have d: "evaluate_with_details (\<lambda>p t. Inr False) ex_clock ex_printer_policy ex_printer = Inr ex_details"
    by code_simp
  obtain cs where c: "dict_get ex_printer_policy ''conditions'' = Some (PList cs)"
    by (simp add: ex_printer_policy_def)
  show ?thesis
    using details_agree [OF d c] by (simp add: ex_details_def)
qed

text \<open>
  What can escape the evaluation of a policy whose conditions name their fields
  by strings: an integer too large for a float, or whatever \<open>re.search\<close> raises that is
  neither \<open>ValueError\<close> nor \<open>TypeError\<close>. Nothing else.
\<close>

theorem evaluate_escapes:
  assumes "dict_get policy ''conditions'' = Some (PList cs)"
    and "\<forall>c \<in> set (dict_conditions cs). is_str (dict_get_or c ''field'' (PStr []))"
    and "evaluate re now policy context = Inl e"
  shows "(\<exists>m. e = OverflowError m) \<or> (\<exists>pat txt. re pat txt = Inl e)"
proof -
  have "Inl e \<in> set (map (check_condition re now context) (dict_conditions cs))"
    using first_outcome_mem [of "map (check_condition re now context) (dict_conditions cs)" "Inl e"]
      assms(3) evaluate_list [OF assms(1)] by simp
  then obtain c where c: "c \<in> set (dict_conditions cs)" "check_condition re now context c = Inl e"
    by auto
  moreover obtain f where "dict_get_or c ''field'' (PStr []) = PStr f"
    using assms(2) c(1) by (cases "dict_get_or c ''field'' (PStr [])") auto
  ultimately show ?thesis
    using compare_values_Inl
    by (auto simp: check_condition_def resolve_field_def result_simps split: if_splits) blast+
qed

definition ex_bad_regex :: pydict where
  "ex_bad_regex = [(''conditions'', PList [PDict [(''field'', PStr ''hostname''),
     (''operator'', PStr ''regex''), (''value'', PStr ''['')]])]"

theorem evaluate_escapes_witness:
  "evaluate (\<lambda>p t. if p = ''['' then Inl (ReError ''unterminated'') else Inr False) ex_clock
     ex_bad_regex [(''hostname'', PStr ''pc'')] = Inl (ReError ''unterminated'')
   \<and> (\<exists>pat txt. (if pat = ''['' then Inl (ReError ''unterminated'') else Inr False :: bool result)
        = Inl (ReError ''unterminated''))"
proof -
  let ?re = "\<lambda>p t :: string. if p = ''['' then Inl (ReError ''unterminated'') else Inr False :: bool result"
  have c: "dict_get ex_bad_regex ''conditions'' = Some (PList [PDict [(''field'', PStr ''hostname''),
     (''operator'', PStr ''regex''), (''value'', PStr ''['')]])"
    by (simp add: ex_bad_regex_def)
  have e: "evaluate ?re ex_clock ex_bad_regex [(''hostname'', PStr ''pc'')]
      = Inl (ReError ''unterminated'')"
    by code_simp
  show ?thesis
    using evaluate_escapes [OF c _ e] e by (auto simp: dict_get_or_def)
qed

text \<open>
  The operators come in complementary pairs: on any values the negated operator
  answers the opposite, and neither raises.
\<close>

theorem operators_complementary:
  "(\<exists>b. compare_values re a (PStr ''equals'') x = Inr b \<and>
        compare_values re a (PStr ''not_equals'') x = Inr (\<not> b)) \<and>
   (\<exists>b. compare_values re a (PStr ''in'') x = Inr b \<and>
        compare_values re a (PStr ''not_in'') x = Inr (\<not> b)) \<and>
   (\<exists>b. compare_values re a (PStr ''contains'') x = Inr b \<and>
        compare_values re a (PStr ''not_contains'') x = Inr (\<not> b)) \<and>
   (\<exists>b. compare_values re a (PStr ''exists'') x = Inr b \<and>
        compare_values re a (PStr ''not_exists'') x = Inr (\<not> b)) \<and>
   (\<exists>b. compare_values re a (PStr ''is_empty'') x = Inr b \<and>
        compare_values re a (PStr ''is_not_empty'') x = Inr (\<not> b))"
  using compare_in_total [of re a x]
  by (auto simp: compare_values_def operator_names compare_body_simps)

text \<open>
  \<open>time.is_business_hours\<close> holds on Monday to Friday from 09:00 up to, and not
  including, 18:00: the whole hour of 17 o'clock counts.
\<close>

theorem business_hours:
  assumes "dict_get context ''time_is_business_hours'' = None"
    and "0 \<le> clk_minute now" and "clk_minute now < 60"
  shows "resolve_field now (PStr ''time.is_business_hours'') context =
    Inr (PBool (9 * 60 \<le> clk_hour now * 60 + clk_minute now \<and>
                clk_hour now * 60 + clk_minute now < 18 * 60 \<and> clk_weekday now < 5))"
proof -
  have "(9 \<le> clk_hour now \<and> clk_hour now \<le> 17) \<longleftrightarrow>
    (9 * 60 \<le> clk_hour now * 60 + clk_minute now \<and> clk_hour now * 60 + clk_minute now < 18 * 60)"
    using assms(2,3) by arith
  moreover have "replace_char CHR ''.'' CHR ''_'' ''time.is_business_hours'' = ''time_is_business_hours''"
    and "py_startswith ''time.is_business_hours'' ''time.''"
    and "\<not> (''time.is_business_hours'' \<in> set direct_fields)"
    and "dict_get aliases ''time.is_business_hours'' = None"
    by code_simp+
  ultimately show ?thesis
    using assms(1)
    by (simp add: resolve_field_def resolve_name_def resolve_time_field_def time_fields_def
        py_get_def dict_get_or_def conj_assoc [symmetric] del: conj_assoc)
qed

theorem business_hours_witness:
  "resolve_field ex_clock (PStr ''time.is_business_hours'') [] = Inr (PBool True)"
  using business_hours [of "[]" ex_clock] by (simp add: ex_clock_def)

text \<open>
  Comparing with \<open>equals\<close> against a boolean, or against one of the words that
  normalise to one, is a test of truth and not of equality: every value that is not
  empty, zero or a "false" word equals \<open>True\<close>.
\<close>

theorem equals_true_is_truthiness:
  assumes "actual \<noteq> PNone" and "normalize_value expected = PBool b"
  shows "compare_values re actual (PStr ''equals'') expected = Inr (truthy (normalize_value actual) = b)"
proof -
  have "operator_of (PStr ''equals'') = OpEquals" by code_simp
  moreover have "normalize_value actual \<noteq> PNone"
    using assms(1) by (cases actual) (auto simp: normalize_value_def Let_def)
  ultimately show ?thesis
    using assms(2)
    by (cases "normalize_value actual")
       (simp_all add: compare_values_def compare_body_def equals_values_def)
qed

theorem equals_true_is_truthiness_witness:
  "compare_values (\<lambda>p t. Inr False) (PStr ''fail'') (PStr ''equals'') (PStr ''yes'') = Inr True"
proof -
  have "normalize_value (PStr ''yes'') = PBool True" and "truthy (normalize_value (PStr ''fail''))"
    by code_simp+
  then show ?thesis
    using equals_true_is_truthiness [of "PStr ''fail''" "PStr ''yes''" True "\<lambda>p t. Inr False"] by simp
qed

end
