(* ===== verification/Policy_Catalog.thy ===== *)
theory Policy_Catalog
  imports Policy_Evaluator
begin

text \<open>
  The second copy of the evaluator, \<open>shared/orw_common/policy_evaluator.py\<close>, which
  the gateway's policy simulation runs, and the template catalog and action registry
  that live beside it. The copy is translated method by method under the prefix
  \<open>shared_\<close>; the records, operator names and built-in operations are those of
  \<open>Policy_Evaluator\<close>.
\<close>

section \<open>The shared copy of the evaluator\<close>

definition shared_time_fields :: "clock \<Rightarrow> pydict" where
  "shared_time_fields now =
     [(''time.hour'', PInt (clk_hour now)),
      (''time.minute'', PInt (clk_minute now)),
      (''time.weekday'', PInt (clk_weekday now)),
      (''time.day_of_month'', PInt (clk_day now)),
      (''time.month'', PInt (clk_month now)),
      (''time.date'', PStr (clk_date now)),
      (''time.is_business_hours'',
         PBool (9 \<le> clk_hour now \<and> clk_hour now \<le> 17 \<and> clk_weekday now < 5)),
      (''time.is_weekend'', PBool (5 \<le> clk_weekday now))]"

definition shared_resolve_time_field :: "clock \<Rightarrow> string \<Rightarrow> pyval" where
  "shared_resolve_time_field now field = py_get (shared_time_fields now) field"

definition shared_aliases :: "(string, string) dict" where
  "shared_aliases =
     [(''device.type'', ''device_type''),
      (''device.os'', ''os_family''),
      (''device.os_version'', ''os_version''),
      (''device.vendor'', ''vendor''),
      (''device.mac'', ''mac_address''),
      (''device.ip'', ''ip_address''),
      (''device.hostname'', ''hostname''),
      (''device.status'', ''status''),
      (''device.risk_score'', ''risk_score''),
      (''auth.method'', ''auth_method''),
      (''auth.username'', ''username''),
      (''auth.802_1x'', ''is_dot1x''),
      (''auth.mab'', ''is_mab''),
      (''network.nas_ip'', ''nas_ip''),
      (''network.nas_port'', ''nas_port''),
      (''network.switch_ip'', ''nas_ip''),
      (''network.port'', ''nas_port_id''),
      (''network.vlan'', ''current_vlan''),
      (''network.ssid'', ''ssid''),
      (''user.name'', ''username''),
      (''user.domain'', ''user_domain''),
      (''user.group'', ''ad_groups''),
      (''user.department'', ''ad_department''),
      (''user.email'', ''user_email'')]"

definition shared_direct_fields :: "string list" where
  "shared_direct_fields =
     [''mac_address'', ''ip_address'', ''hostname'', ''device_type'',
      ''os_family'', ''os_version'', ''vendor'', ''model'', ''status'',
      ''risk_score'', ''first_seen'', ''last_seen'']"

definition shared_resolve_name :: "clock \<Rightarrow> string \<Rightarrow> pydict \<Rightarrow> pyval" where
  "shared_resolve_name now field context =
     (if field \<in> set shared_direct_fields then py_get context field
      else case dict_get shared_aliases field of
        Some k \<Rightarrow> py_get context k
      | None \<Rightarrow>
          (case dict_get context (replace_char CHR ''.'' CHR ''_'' field) of
             Some v \<Rightarrow> v
           | None \<Rightarrow>
               if py_startswith field ''time.'' then shared_resolve_time_field now field
               else walk_path (py_split CHR ''.'' field)
                      (dict_get_or context ''properties'' (PDict []))))"

definition shared_resolve_field :: "clock \<Rightarrow> pyval \<Rightarrow> pydict \<Rightarrow> pyval result" where
  "shared_resolve_field now field context =
     (if \<not> truthy field then Inr PNone
      else if \<not> hashable field then Inl (TypeError ''unhashable type'')
      else case field of
        PStr f \<Rightarrow> Inr (shared_resolve_name now f context)
      | _ \<Rightarrow> Inl (AttributeError ''replace''))"

definition shared_normalize_value :: "pyval \<Rightarrow> pyval" where
  "shared_normalize_value value =
     (case value of
        PStr s \<Rightarrow>
          (let v = py_strip (py_lower s)
           in if v \<in> set [''true'', ''yes'', ''1''] then PBool True
              else if v \<in> set [''false'', ''no'', ''0''] then PBool False
              else PStr v)
      | _ \<Rightarrow> value)"

definition shared_equals_values :: "pyval \<Rightarrow> pyval \<Rightarrow> bool" where
  "shared_equals_values a b =
     (if a = PNone \<and> b = PNone then True
      else if a = PNone \<or> b = PNone then False
      else case (a, b) of
        (PStr s, PStr t) \<Rightarrow> py_lower s = py_lower t
      | _ \<Rightarrow> if is_bool a \<or> is_bool b then truthy a = truthy b else py_eq a b)"

definition shared_operator_table :: "(string, cond_op) dict" where
  "shared_operator_table =
     [(''equals'', OpEquals), (''eq'', OpEquals), (''=='', OpEquals),
      (''not_equals'', OpNotEquals), (''ne'', OpNotEquals), (''!='', OpNotEquals),
      (''in'', OpIn), (''not_in'', OpNotIn),
      (''contains'', OpContains), (''not_contains'', OpNotContains),
      (''starts_with'', OpStartsWith), (''ends_with'', OpEndsWith),
      (''gt'', OpGt), (''>'', OpGt), (''gte'', OpGte), (''>='', OpGte),
      (''lt'', OpLt), (''<'', OpLt), (''lte'', OpLte), (''<='', OpLte),
      (''between'', OpBetween), (''regex'', OpRegex),
      (''exists'', OpExists), (''not_exists'', OpNotExists),
      (''is_empty'', OpIsEmpty), (''is_not_empty'', OpIsNotEmpty),
      (''is_member_of'', OpIsMemberOf), (''matches_oui'', OpMatchesOui)]"

definition shared_operator_of :: "pyval \<Rightarrow> cond_op" where
  "shared_operator_of v = (case v of PStr s \<Rightarrow> dict_get_or shared_operator_table s OpUnknown | _ \<Rightarrow> OpUnknown)"

definition shared_member_compare :: "pyval \<Rightarrow> pyval \<Rightarrow> bool result" where
  "shared_member_compare actual expected =
     (case actual of
        PList as \<Rightarrow>
          (case expected of
             PList es \<Rightarrow>
               (if list_all (\<lambda>e. hashable (shared_normalize_value e)) es \<and> list_all (\<lambda>a. hashable (shared_normalize_value a)) as
                then Inr (list_ex (\<lambda>e. py_mem (shared_normalize_value e) (map shared_normalize_value as)) es)
                else Inl (TypeError ''unhashable type''))
           | _ \<Rightarrow> Inr (py_mem (shared_normalize_value expected) (map shared_normalize_value as)))
      | _ \<Rightarrow> Inr False)"

definition shared_compare_body :: "re_search \<Rightarrow> pyval \<Rightarrow> cond_op \<Rightarrow> pyval \<Rightarrow> bool result" where
  "shared_compare_body re actual op expected =
     (let actual_n = shared_normalize_value actual; expected_n = shared_normalize_value expected
      in case op of
        OpEquals \<Rightarrow> Inr (shared_equals_values actual_n expected_n)
      | OpNotEquals \<Rightarrow> Inr (\<not> shared_equals_values actual_n expected_n)
      | OpIn \<Rightarrow>
          (case expected of
             PList es \<Rightarrow> Inr (py_mem actual_n (map shared_normalize_value es))
           | _ \<Rightarrow> Inr (truthy actual_n \<and> py_in (py_str actual_n) (py_str expected_n)))
      | OpNotIn \<Rightarrow>
          (case expected of
             PList es \<Rightarrow> Inr (\<not> py_mem actual_n (map shared_normalize_value es))
           | _ \<Rightarrow> Inr (truthy actual_n \<longrightarrow> \<not> py_in (py_str actual_n) (py_str expected_n)))
      | OpContains \<Rightarrow>
          Inr (truthy actual \<and> py_in (py_lower (py_str expected_n)) (py_lower (py_str actual)))
      | OpNotContains \<Rightarrow>
          Inr (truthy actual \<longrightarrow> \<not> py_in (py_lower (py_str expected_n)) (py_lower (py_str actual)))
      | OpStartsWith \<Rightarrow>
          Inr (truthy actual \<and> py_startswith (py_lower (py_str actual)) (py_lower (py_str expected_n)))
      | OpEndsWith \<Rightarrow>
          Inr (truthy actual \<and> py_endswith (py_lower (py_str actual)) (py_lower (py_str expected_n)))
      | OpGt \<Rightarrow> num_compare (\<lambda>a e. dbl_lt e a) actual expected
      | OpGte \<Rightarrow> num_compare (\<lambda>a e. dbl_le e a) actual expected
      | OpLt \<Rightarrow> num_compare dbl_lt actual expected
      | OpLte \<Rightarrow> num_compare dbl_le actual expected
      | OpBetween \<Rightarrow> between_compare actual expected
      | OpRegex \<Rightarrow> (if truthy actual then re (py_str expected) (py_str actual) else Inr False)
      | OpExists \<Rightarrow> Inr (actual \<noteq> PNone)
      | OpNotExists \<Rightarrow> Inr (actual = PNone)
      | OpIsEmpty \<Rightarrow> Inr (is_empty_value actual)
      | OpIsNotEmpty \<Rightarrow> Inr (\<not> is_empty_value actual)
      | OpIsMemberOf \<Rightarrow> shared_member_compare actual expected
      | OpMatchesOui \<Rightarrow>
          Inr (truthy actual \<and> truthy expected_n \<and>
               py_lower (take 8 (py_str actual)) = py_lower (take 8 (py_str expected_n)))
      | OpUnknown \<Rightarrow> Inr False)"

definition shared_compare_values :: "re_search \<Rightarrow> pyval \<Rightarrow> pyval \<Rightarrow> pyval \<Rightarrow> bool result" where
  "shared_compare_values re actual operator expected =
     catch_value_type (shared_compare_body re actual (shared_operator_of operator) expected)"

definition shared_check_condition :: "re_search \<Rightarrow> clock \<Rightarrow> pydict \<Rightarrow> pydict \<Rightarrow> bool result" where
  "shared_check_condition re now context condition =
     rbind (shared_resolve_field now (dict_get_or condition ''field'' (PStr [])) context) (\<lambda>actual.
       shared_compare_values re actual (dict_get_or condition ''operator'' (PStr ''equals''))
         (py_get condition ''value''))"

fun shared_eval_conditions :: "re_search \<Rightarrow> clock \<Rightarrow> pydict \<Rightarrow> pyval list \<Rightarrow> bool result" where
  "shared_eval_conditions re now context [] = Inr True"
| "shared_eval_conditions re now context (c # cs) =
     (case c of
        PDict condition \<Rightarrow>
          rbind (shared_check_condition re now context condition) (\<lambda>matched.
            if matched then shared_eval_conditions re now context cs else Inr False)
      | _ \<Rightarrow> shared_eval_conditions re now context cs)"

definition shared_evaluate :: "re_search \<Rightarrow> clock \<Rightarrow> pydict \<Rightarrow> pydict \<Rightarrow> bool result" where
  "shared_evaluate re now policy context =
     (let conditions = dict_get_or policy ''conditions'' (PList [])
      in if \<not> truthy conditions then Inr True
         else rbind (py_iter conditions) (shared_eval_conditions re now context))"

definition shared_detail_condition :: "re_search \<Rightarrow> clock \<Rightarrow> pydict \<Rightarrow> pydict \<Rightarrow> cond_detail result" where
  "shared_detail_condition re now context condition =
     (let field = dict_get_or condition ''field'' (PStr []);
          operator = dict_get_or condition ''operator'' (PStr ''equals'');
          expected = py_get condition ''value''
      in rbind (shared_resolve_field now field context) (\<lambda>actual.
         rbind (shared_compare_values re actual operator expected) (\<lambda>matched.
           Inr \<lparr>cd_field = field, cd_operator = operator, cd_expected = expected,
                cd_actual = actual, cd_matched = matched\<rparr>)))"

fun shared_detail_conditions :: "re_search \<Rightarrow> clock \<Rightarrow> pydict \<Rightarrow> pyval list \<Rightarrow> cond_detail list result" where
  "shared_detail_conditions re now context [] = Inr []"
| "shared_detail_conditions re now context (c # cs) =
     (case c of
        PDict condition \<Rightarrow>
          rbind (shared_detail_condition re now context condition) (\<lambda>r.
          rbind (shared_detail_conditions re now context cs) (\<lambda>rs. Inr (r # rs)))
      | _ \<Rightarrow> shared_detail_conditions re now context cs)"

definition shared_evaluate_with_details :: "re_search \<Rightarrow> clock \<Rightarrow> pydict \<Rightarrow> pydict \<Rightarrow> eval_details result" where
  "shared_evaluate_with_details re now policy context =
     rbind (py_iter (dict_get_or policy ''conditions'' (PList []))) (\<lambda>cs.
     rbind (shared_detail_conditions re now context cs) (\<lambda>results.
       Inr \<lparr>ed_policy_id = py_get policy ''id'', ed_policy_name = py_get policy ''name'',
            ed_matched = list_all cd_matched results, ed_conditions = results\<rparr>))"

section \<open>Both copies compute the same\<close>

lemma shared_names [simp]:
  "shared_time_fields = time_fields" "shared_resolve_time_field = resolve_time_field"
  "shared_aliases = aliases" "shared_direct_fields = direct_fields"
  "shared_operator_table = operator_table"
  by (simp_all add: fun_eq_iff shared_time_fields_def time_fields_def resolve_time_field_def
      shared_resolve_time_field_def shared_aliases_def aliases_def shared_direct_fields_def
      direct_fields_def shared_operator_table_def operator_table_def)

lemma shared_resolve [simp]: "shared_resolve_field = resolve_field"
proof -
  have "shared_resolve_name = resolve_name"
    by (intro ext) (simp only: shared_resolve_name_def resolve_name_def shared_names)
  then show ?thesis
    by (intro ext) (simp only: shared_resolve_field_def resolve_field_def)
qed

lemma shared_values [simp]:
  "shared_normalize_value = normalize_value" "shared_equals_values = equals_values"
  "shared_operator_of = operator_of"
  by (intro ext, simp only: shared_normalize_value_def normalize_value_def
      shared_equals_values_def equals_values_def shared_operator_of_def operator_of_def shared_names)+

lemma shared_compare [simp]: "shared_compare_values = compare_values"
proof -
  have "shared_member_compare = member_compare"
    by (intro ext) (simp only: shared_member_compare_def member_compare_def shared_values)
  then have "shared_compare_body = compare_body"
    by (intro ext) (simp only: shared_compare_body_def compare_body_def shared_values)
  then show ?thesis
    by (intro ext) (simp only: shared_compare_values_def compare_values_def shared_values)
qed

lemma shared_condition [simp]:
  "shared_check_condition = check_condition" "shared_detail_condition = detail_condition"
  by (intro ext, simp only: shared_check_condition_def check_condition_def
      shared_detail_condition_def detail_condition_def shared_resolve shared_compare)+

lemma shared_eval_conditions_eq [simp]:
  "shared_eval_conditions re now context cs = eval_conditions re now context cs"
  by (induction cs) (auto split: pyval.splits intro!: rbind_cong)

lemma shared_detail_conditions_eq [simp]:
  "shared_detail_conditions re now context cs = detail_conditions re now context cs"
  by (induction cs) (auto split: pyval.splits intro!: rbind_cong)

lemma shared_eval_conditions_fun: "shared_eval_conditions re now c = eval_conditions re now c"
  by (rule ext) simp

lemma shared_evaluate_eq: "shared_evaluate re now p c = evaluate re now p c"
  by (simp add: shared_evaluate_def evaluate_def Let_def shared_eval_conditions_fun)

lemma shared_details_eq: "shared_evaluate_with_details re now p c = evaluate_with_details re now p c"
  by (simp add: shared_evaluate_with_details_def evaluate_with_details_def)

interpretation shared_evaluator: evaluator "shared_evaluate re now" "shared_evaluate_with_details re now"
  for re now
  by unfold_locales
     (simp_all add: shared_evaluate_eq shared_details_eq engine_evaluator.details_verdict
       engine_evaluator.details_all engine_evaluator.details_ident)

section \<open>Templates and action types\<close>

record policy_template =
  pt_name :: string
  pt_description :: string
  pt_priority :: int
  pt_conditions :: "pyval list"
  pt_match_actions :: "pyval list"
  pt_no_match_actions :: "pyval list"

record action_type =
  at_description :: string
  at_subject :: string

definition tmpl_corporate_dot1x :: policy_template where
  "tmpl_corporate_dot1x =
     \<lparr>pt_name = ''Corporate 802.1X Access'',
      pt_description = ''Authenticated corporate devices -> Corporate VLAN'',
      pt_priority = 100,
      pt_conditions =
       [PDict [(''field'', PStr ''auth.method''), (''operator'', PStr ''in''), (''value'', PList [PStr ''PEAP'', PStr ''EAP-TLS''])],
        PDict [(''field'', PStr ''user.group''), (''operator'', PStr ''is_member_of''), (''value'', PList [PStr ''Domain Users''])],
        PDict [(''field'', PStr ''compliance.antivirus''), (''operator'', PStr ''equals''), (''value'', PStr ''up_to_date'')]],
      pt_match_actions =
       [PDict [(''type'', PStr ''vlan_assign''), (''params'', PDict [(''vlan_id'', PInt 10), (''vlan_name'', PStr ''Corporate'')])],
        PDict [(''type'', PStr ''acl_apply''), (''params'', PDict [(''acl'', PStr ''permit-all'')])]],
      pt_no_match_actions =
       [PDict [(''type'', PStr ''vlan_assign''), (''params'', PDict [(''vlan_id'', PInt 99), (''vlan_name'', PStr ''Quarantine'')])]]\<rparr>"

definition tmpl_high_risk_quarantine :: policy_template where
  "tmpl_high_risk_quarantine =
     \<lparr>pt_name = ''High Risk Quarantine'',
      pt_description = ''Risk score >= 70 -> auto quarantine'',
      pt_priority = 50,
      pt_conditions =
       [PDict [(''field'', PStr ''device.risk_score''), (''operator'', PStr ''gte''), (''value'', PInt 70)]],
      pt_match_actions =
       [PDict [(''type'', PStr ''vlan_assign''), (''params'', PDict [(''vlan_id'', PInt 99), (''vlan_name'', PStr ''Quarantine'')])],
        PDict [(''type'', PStr ''notify''), (''params'', PDict [(''template'', PStr ''high_risk''), (''channel'', PStr ''siem'')])]],
      pt_no_match_actions =
       []\<rparr>"

definition tmpl_printer_auto :: policy_template where
  "tmpl_printer_auto =
     \<lparr>pt_name = ''Printer Auto-Assignment'',
      pt_description = ''Identified printers -> Printer VLAN'',
      pt_priority = 200,
      pt_conditions =
       [PDict [(''field'', PStr ''device.type''), (''operator'', PStr ''equals''), (''value'', PStr ''printer'')]],
      pt_match_actions =
       [PDict [(''type'', PStr ''vlan_assign''), (''params'', PDict [(''vlan_id'', PInt 40), (''vlan_name'', PStr ''Printer'')])],
        PDict [(''type'', PStr ''acl_apply''), (''params'', PDict [(''acl'', PStr ''printer-restricted'')])]],
      pt_no_match_actions =
       []\<rparr>"

definition tmpl_ip_phone :: policy_template where
  "tmpl_ip_phone =
     \<lparr>pt_name = ''IP Phone VoIP'',
      pt_description = ''VoIP phones -> Voice VLAN + QoS'',
      pt_priority = 150,
      pt_conditions =
       [PDict [(''field'', PStr ''device.type''), (''operator'', PStr ''in''), (''value'', PList [PStr ''ip_phone'', PStr ''voip''])]],
      pt_match_actions =
       [PDict [(''type'', PStr ''vlan_assign''), (''params'', PDict [(''vlan_id'', PInt 100), (''vlan_name'', PStr ''VoIP'')])],
        PDict [(''type'', PStr ''qos_apply''), (''params'', PDict [(''dscp'', PInt 46)])]],
      pt_no_match_actions =
       []\<rparr>"

definition tmpl_iot_isolation :: policy_template where
  "tmpl_iot_isolation =
     \<lparr>pt_name = ''IoT Device Isolation'',
      pt_description = ''IoT/cameras/sensors -> IoT VLAN'',
      pt_priority = 300,
      pt_conditions =
       [PDict [(''field'', PStr ''device.type''), (''operator'', PStr ''in''), (''value'', PList [PStr ''iot'', PStr ''ip_camera'', PStr ''sensor'', PStr ''access_point''])]],
      pt_match_actions =
       [PDict [(''type'', PStr ''vlan_assign''), (''params'', PDict [(''vlan_id'', PInt 30), (''vlan_name'', PStr ''IoT'')])],
        PDict [(''type'', PStr ''acl_apply''), (''params'', PDict [(''acl'', PStr ''iot-restricted'')])]],
      pt_no_match_actions =
       []\<rparr>"

definition tmpl_guest_byod :: policy_template where
  "tmpl_guest_byod =
     \<lparr>pt_name = ''Guest / BYOD Access'',
      pt_description = ''MAB-authenticated unknown devices -> Guest VLAN'',
      pt_priority = 500,
      pt_conditions =
       [PDict [(''field'', PStr ''auth.method''), (''operator'', PStr ''equals''), (''value'', PStr ''MAB'')],
        PDict [(''field'', PStr ''device.type''), (''operator'', PStr ''equals''), (''value'', PStr ''unknown'')]],
      pt_match_actions =
       [PDict [(''type'', PStr ''vlan_assign''), (''params'', PDict [(''vlan_id'', PInt 20), (''vlan_name'', PStr ''Guest'')])],
        PDict [(''type'', PStr ''captive_portal''), (''params'', PDict [(''redirect_url'', PStr ''/guest/register'')])]],
      pt_no_match_actions =
       []\<rparr>"

definition tmpl_business_hours :: policy_template where
  "tmpl_business_hours =
     \<lparr>pt_name = ''Business Hours Only'',
      pt_description = ''Contractors restricted to business hours'',
      pt_priority = 250,
      pt_conditions =
       [PDict [(''field'', PStr ''user.group''), (''operator'', PStr ''is_member_of''), (''value'', PList [PStr ''Contractors''])],
        PDict [(''field'', PStr ''time.is_business_hours''), (''operator'', PStr ''equals''), (''value'', PBool False)]],
      pt_match_actions =
       [PDict [(''type'', PStr ''reject''), (''params'', PDict [(''reason'', PStr ''Access restricted to business hours'')])],
        PDict [(''type'', PStr ''notify''), (''params'', PDict [(''template'', PStr ''after_hours''), (''channel'', PStr ''siem'')])]],
      pt_no_match_actions =
       []\<rparr>"

definition tmpl_non_compliant :: policy_template where
  "tmpl_non_compliant =
     \<lparr>pt_name = ''Non-Compliant Remediation'',
      pt_description = ''Compliance check failed -> Remediation VLAN'',
      pt_priority = 400,
      pt_conditions =
       [PDict [(''field'', PStr ''auth.802_1x''), (''operator'', PStr ''equals''), (''value'', PBool True)],
        PDict [(''field'', PStr ''compliance.overall''), (''operator'', PStr ''equals''), (''value'', PStr ''fail'')]],
      pt_match_actions =
       [PDict [(''type'', PStr ''vlan_assign''), (''params'', PDict [(''vlan_id'', PInt 98), (''vlan_name'', PStr ''Remediation'')])],
        PDict [(''type'', PStr ''captive_portal''), (''params'', PDict [(''redirect_url'', PStr ''/remediation'')])]],
      pt_no_match_actions =
       []\<rparr>"

definition tmpl_default_deny :: policy_template where
  "tmpl_default_deny =
     \<lparr>pt_name = ''Default Deny (Catch-all)'',
      pt_description = ''No policy matched -> Quarantine'',
      pt_priority = 9999,
      pt_conditions =
       [],
      pt_match_actions =
       [PDict [(''type'', PStr ''vlan_assign''), (''params'', PDict [(''vlan_id'', PInt 99), (''vlan_name'', PStr ''Quarantine'')])],
        PDict [(''type'', PStr ''log''), (''params'', PDict [(''level'', PStr ''warning''), (''message'', PStr ''Unmatched device quarantined'')])]],
      pt_no_match_actions =
       []\<rparr>"

definition POLICY_TEMPLATES :: "(string, policy_template) dict" where
  "POLICY_TEMPLATES =
     [(''corporate_802.1x'', tmpl_corporate_dot1x),
      (''high_risk_quarantine'', tmpl_high_risk_quarantine),
      (''printer_auto'', tmpl_printer_auto),
      (''ip_phone'', tmpl_ip_phone),
      (''iot_isolation'', tmpl_iot_isolation),
      (''guest_byod'', tmpl_guest_byod),
      (''business_hours'', tmpl_business_hours),
      (''non_compliant'', tmpl_non_compliant),
      (''default_deny'', tmpl_default_deny)]"

definition ACTION_TYPES :: "(string, action_type) dict" where
  "ACTION_TYPES =
     [(''vlan_assign'', \<lparr>at_description = ''Assign device to a specific VLAN'',
         at_subject = ''orw.policy.action.vlan_assign''\<rparr>),
      (''acl_apply'', \<lparr>at_description = ''Apply Access Control List'',
         at_subject = ''orw.policy.action.acl_apply''\<rparr>),
      (''quarantine'', \<lparr>at_description = ''Quarantine device'',
         at_subject = ''orw.policy.action.quarantine''\<rparr>),
      (''reject'', \<lparr>at_description = ''Reject authentication request'',
         at_subject = ''orw.policy.action.reject''\<rparr>),
      (''coa'', \<lparr>at_description = ''Send RADIUS CoA'',
         at_subject = ''orw.policy.action.coa''\<rparr>),
      (''bounce_port'', \<lparr>at_description = ''Bounce switch port (shut/no shut)'',
         at_subject = ''orw.switch.bounce_port''\<rparr>),
      (''captive_portal'', \<lparr>at_description = ''Redirect to captive portal'',
         at_subject = ''orw.policy.action.captive_portal''\<rparr>),
      (''notify'', \<lparr>at_description = ''Send notification (Email, Slack, SIEM, Webhook)'',
         at_subject = ''orw.policy.action.notify''\<rparr>),
      (''create_incident'', \<lparr>at_description = ''Create security incident (TheHive / Shuffle SOAR)'',
         at_subject = ''orw.policy.action.create_incident''\<rparr>),
      (''tag_device'', \<lparr>at_description = ''Tag device'',
         at_subject = ''orw.policy.action.tag_device''\<rparr>),
      (''qos_apply'', \<lparr>at_description = ''Apply QoS policy (DSCP marking)'',
         at_subject = ''orw.policy.action.qos_apply''\<rparr>),
      (''log'', \<lparr>at_description = ''Write to audit log'',
         at_subject = ''orw.policy.action.log''\<rparr>)]"

text \<open>The policy a template stands for, as the evaluator sees it.\<close>

definition template_policy :: "policy_template \<Rightarrow> pydict" where
  "template_policy t =
     [(''name'', PStr (pt_name t)), (''priority'', PInt (pt_priority t)),
      (''conditions'', PList (pt_conditions t)),
      (''match_actions'', PList (pt_match_actions t)),
      (''no_match_actions'', PList (pt_no_match_actions t))]"

definition action_ok :: "pyval \<Rightarrow> bool" where
  "action_ok a =
     (case a of
        PDict d \<Rightarrow>
          (case (dict_get d ''type'', dict_get d ''params'') of
             (Some (PStr ty), Some (PDict ps)) \<Rightarrow>
               dict_get ACTION_TYPES ty \<noteq> None \<and>
               (ty = ''vlan_assign'' \<longrightarrow>
                 (case dict_get ps ''vlan_id'' of Some (PInt v) \<Rightarrow> 1 \<le> v \<and> v \<le> 4094 | _ \<Rightarrow> False)) \<and>
               (ty = ''qos_apply'' \<longrightarrow>
                 (case dict_get ps ''dscp'' of Some (PInt v) \<Rightarrow> 0 \<le> v \<and> v \<le> 63 | _ \<Rightarrow> False))
           | _ \<Rightarrow> False)
      | _ \<Rightarrow> False)"

lemma catalog_actions:
  "list_all (\<lambda>(k, t). list_all action_ok (pt_match_actions t) \<and>
     list_all action_ok (pt_no_match_actions t)) POLICY_TEMPLATES"
  by code_simp

lemma catalog_fields:
  "list_all (\<lambda>(k, t). list_all (\<lambda>c. is_str (dict_get_or c ''field'' (PStr [])) \<and>
     operator_of (dict_get_or c ''operator'' (PStr ''equals'')) \<in> {OpEquals, OpIn, OpIsMemberOf, OpGte})
     (dict_conditions (pt_conditions t))) POLICY_TEMPLATES"
  by code_simp

lemma catalog_default_last:
  "list_all (\<lambda>(k, t). k \<noteq> ''default_deny'' \<longrightarrow> pt_priority t < pt_priority tmpl_default_deny)
     POLICY_TEMPLATES"
  by code_simp

section \<open>Properties\<close>


text \<open>
  Every template of the catalog is well formed: its actions have registered types,
  VLAN ids in 1..4094 and DSCP values in 0..63; its catch-all \<open>default_deny\<close> comes after
  every other template in priority and matches every device.
\<close>

theorem catalog_well_formed:
  "(\<forall>t \<in> snd ` set POLICY_TEMPLATES.
      (\<forall>a \<in> set (pt_match_actions t @ pt_no_match_actions t). action_ok a) \<and>
      (t = tmpl_default_deny \<or> pt_priority t < pt_priority tmpl_default_deny)) \<and>
   shared_evaluate re now (template_policy tmpl_default_deny) context = Inr True"
proof (intro conjI ballI)
  show "shared_evaluate re now (template_policy tmpl_default_deny) context = Inr True"
    by (simp add: shared_evaluate_def template_policy_def tmpl_default_deny_def dict_get_or_def)
next
  fix t a
  assume "t \<in> snd ` set POLICY_TEMPLATES" and "a \<in> set (pt_match_actions t @ pt_no_match_actions t)"
  then show "action_ok a"
    using catalog_actions by (fastforce simp: list_all_iff)
next
  fix t
  assume "t \<in> snd ` set POLICY_TEMPLATES"
  then obtain k where k: "(k, t) \<in> set POLICY_TEMPLATES" by auto
  show "t = tmpl_default_deny \<or> pt_priority t < pt_priority tmpl_default_deny"
  proof (cases "k = ''default_deny''")
    case True
    with k show ?thesis by (auto simp: POLICY_TEMPLATES_def)
  next
    case False
    with k catalog_default_last show ?thesis by (fastforce simp: list_all_iff)
  qed
qed

theorem catalog_well_formed_witness:
  "action_ok (PDict [(''type'', PStr ''qos_apply''), (''params'', PDict [(''dscp'', PInt 46)])]) \<and>
   pt_priority tmpl_ip_phone < pt_priority tmpl_default_deny"
proof -
  have "tmpl_ip_phone \<in> snd ` set POLICY_TEMPLATES"
    by (simp add: POLICY_TEMPLATES_def)
  moreover have "PDict [(''type'', PStr ''qos_apply''), (''params'', PDict [(''dscp'', PInt 46)])]
      \<in> set (pt_match_actions tmpl_ip_phone @ pt_no_match_actions tmpl_ip_phone)"
    by (simp add: tmpl_ip_phone_def)
  moreover have "tmpl_ip_phone \<noteq> tmpl_default_deny"
    by (simp add: tmpl_ip_phone_def tmpl_default_deny_def)
  ultimately show ?thesis
    using catalog_well_formed [of "\<lambda>p t. Inr False" ex_clock "[]"] by blast
qed

end
