(* ===== verification/Py_Effects.thy ===== *)
theory Py_Effects
  imports Py_Values
begin

text \<open>
  Code with effects: a program takes the state and gives a value or an exception
  together with the state it leaves. An exception keeps the changes made before it, as
  it does in Python. \<open>keeps I m\<close> states that a program preserves an invariant, on its
  normal and on its exceptional ends; the collection \<open>keeps_intros\<close> decomposes it along
  the program. NATS messages and their acknowledgement (\<open>shared/orw_common/nats_client.py\<close>)
  stand here too, since several services exchange them.
\<close>

named_theorems keeps_intros "decomposition of invariant preservation along a program"

section \<open>Programs with state and exceptions\<close>

type_synonym ('s, 'a) prog = "'s \<Rightarrow> 'a result \<times> 's"

definition sret :: "'a \<Rightarrow> ('s, 'a) prog" where
  "sret x s = (Inr x, s)"

definition sraise :: "pyerr \<Rightarrow> ('s, 'a) prog" where
  "sraise e s = (Inl e, s)"

definition slift :: "'a result \<Rightarrow> ('s, 'a) prog" where
  "slift r s = (r, s)"

definition sget :: "('s \<Rightarrow> 'a) \<Rightarrow> ('s, 'a) prog" where
  "sget f s = (Inr (f s), s)"

definition smod :: "('s \<Rightarrow> 's) \<Rightarrow> ('s, unit) prog" where
  "smod f s = (Inr (), f s)"

definition sbind :: "('s, 'a) prog \<Rightarrow> ('a \<Rightarrow> ('s, 'b) prog) \<Rightarrow> ('s, 'b) prog" where
  "sbind m f s = (case m s of (Inl e, s') \<Rightarrow> (Inl e, s') | (Inr x, s') \<Rightarrow> f x s')"

text \<open>A loop that collects results and stops at the first exception.\<close>

fun smap :: "('a \<Rightarrow> ('s, 'b) prog) \<Rightarrow> 'a list \<Rightarrow> ('s, 'b list) prog" where
  "smap f [] = sret []"
| "smap f (x # xs) = sbind (f x) (\<lambda>y. sbind (smap f xs) (\<lambda>ys. sret (y # ys)))"

lemma sret_apply [simp]: "sret x s = (Inr x, s)"
  by (simp add: sret_def)

lemma sraise_apply [simp]: "sraise e s = (Inl e, s)"
  by (simp add: sraise_def)

lemma slift_apply [simp]: "slift r s = (r, s)"
  by (simp add: slift_def)

lemma sget_apply [simp]: "sget f s = (Inr (f s), s)"
  by (simp add: sget_def)

lemma smod_apply [simp]: "smod f s = (Inr (), f s)"
  by (simp add: smod_def)

lemma sbind_Inl [result_simps]: "m s = (Inl e, s') \<Longrightarrow> sbind m f s = (Inl e, s')"
  by (simp add: sbind_def)

lemma sbind_Inr [result_simps]: "m s = (Inr x, s') \<Longrightarrow> sbind m f s = f x s'"
  by (simp add: sbind_def)

lemma sbind_simps [simp]:
  "sbind (sret x) f s = f x s"
  "sbind (sraise e) f s = (Inl e, s)"
  "sbind (sget g) f s = f (g s) s"
  "sbind (smod h) k s = k () (h s)"
  "sbind (slift (Inr x)) f s = f x s"
  "sbind (slift (Inl e)) f s = (Inl e, s)"
  by (simp_all add: sbind_def)

lemma sbind_pure:
  "sbind (slift (Inr x)) f = f x" "sbind (sret x) f = f x" "sbind (slift (Inl e)) f = sraise e"
  by (simp_all add: fun_eq_iff)

lemma sbind_InlE:
  assumes "sbind m f s = (Inl e, s')"
  obtains "m s = (Inl e, s')" | x s1 where "m s = (Inr x, s1)" "f x s1 = (Inl e, s')"
  using assms by (auto simp: sbind_def split: prod.splits sum.splits)

lemma sbind_InrE:
  assumes "sbind m f s = (Inr y, s')"
  obtains x s1 where "m s = (Inr x, s1)" "f x s1 = (Inr y, s')"
  using assms by (auto simp: sbind_def split: prod.splits sum.splits)

lemma sbind_assoc: "sbind (sbind m f) g s = sbind m (\<lambda>x. sbind (f x) g) s"
  by (auto simp: sbind_def split: prod.splits sum.splits)

text \<open>\<open>try: ... except Exception as exc\<close>: the exception as a value, its effects kept.\<close>

definition attempt :: "('s, 'a) prog \<Rightarrow> ('s, 'a result) prog" where
  "attempt m s = (case m s of (r, s') \<Rightarrow> (Inr r, s'))"

lemma attempt_state [simp]: "snd (attempt m s) = snd (m s)" "fst (attempt m s) = Inr (fst (m s))"
  by (simp_all add: attempt_def split: prod.split)

text \<open>\<open>str(e)\<close> of an exception; that of a \<open>KeyError\<close> is the \<open>repr()\<close> of the key.\<close>

fun err_text :: "pyerr \<Rightarrow> string" where
  "err_text (ValueError m) = m"
| "err_text (TypeError m) = m"
| "err_text (KeyError m) = str_repr m"
| "err_text (AttributeError m) = m"
| "err_text (OverflowError m) = m"
| "err_text (StructError m) = m"
| "err_text (ReError m) = m"
| "err_text (RuntimeError m) = m"
| "err_text InvalidTag = []"
| "err_text (OSError m) = m"
| "err_text TimeoutError = []"
| "err_text (DbError m) = m"
| "err_text (DomainError k m) = m"
| "err_text (HttpError n m) = m"

section \<open>Invariants\<close>

definition keeps :: "('s \<Rightarrow> bool) \<Rightarrow> ('s, 'a) prog \<Rightarrow> bool" where
  "keeps I m \<longleftrightarrow> (\<forall>s. I s \<longrightarrow> I (snd (m s)))"

lemma keepsD: "keeps I m \<Longrightarrow> I s \<Longrightarrow> m s = (r, s') \<Longrightarrow> I s'"
  unfolding keeps_def by (metis snd_conv)

lemma keeps_snd: "keeps I m \<Longrightarrow> I s \<Longrightarrow> I (snd (m s))"
  by (simp add: keeps_def)

lemma keeps_basic [keeps_intros]:
  "keeps I (sret x)" "keeps I (sraise e)" "keeps I (slift r)" "keeps I (sget g)"
  by (simp_all add: keeps_def)

lemma keeps_smod [keeps_intros]: "(\<And>s. I s \<Longrightarrow> I (f s)) \<Longrightarrow> keeps I (smod f)"
  by (simp add: keeps_def)

lemma keeps_sbind [keeps_intros]:
  "keeps I m \<Longrightarrow> (\<And>x. keeps I (f x)) \<Longrightarrow> keeps I (sbind m f)"
  unfolding keeps_def sbind_def by (auto split: prod.split sum.split)

lemma keeps_smap [keeps_intros]: "(\<And>x. keeps I (f x)) \<Longrightarrow> keeps I (smap f xs)"
  by (induction xs) (auto intro!: keeps_intros)

lemma keeps_if [keeps_intros]:
  "(b \<Longrightarrow> keeps I m) \<Longrightarrow> (\<not> b \<Longrightarrow> keeps I n) \<Longrightarrow> keeps I (if b then m else n)"
  by simp

lemma keeps_case_option [keeps_intros]:
  "keeps I m \<Longrightarrow> (\<And>x. keeps I (f x)) \<Longrightarrow> keeps I (case x of None \<Rightarrow> m | Some y \<Rightarrow> f y)"
  by (simp split: option.split)

lemma keeps_Let [keeps_intros]: "keeps I (f x) \<Longrightarrow> keeps I (let y = x in f y)"
  by simp

text \<open>A relation every step keeps to the state before it holds of the whole program.\<close>

lemma keeps_rel:
  "(\<And>s0. keeps (R s0) m) \<Longrightarrow> R s s \<Longrightarrow> R s (snd (m s))"
  by (simp add: keeps_snd)

section \<open>Messages and their delivery\<close>

record message =
  msg_subject :: string
  msg_data :: pydict

datatype delivery = Ack | Nak

text \<open>The wrapper of \<open>subscribe\<close>: an exception of the handler is a negative acknowledgement.\<close>

definition acknowledge :: "pyerr option \<Rightarrow> delivery" where
  "acknowledge err = (case err of None \<Rightarrow> Ack | Some e \<Rightarrow> Nak)"

definition outcome :: "'a result \<Rightarrow> delivery" where
  "outcome r = (case r of Inl e \<Rightarrow> Nak | Inr x \<Rightarrow> Ack)"

end
