(* ===== verification/Policy_Engine.thy ===== *)
theory Policy_Engine
  imports Policy_Catalog Py_Effects
begin

text \<open>
  The policy engine service, \<open>services/policy_engine/main.py\<close>: the handler of the
  subject \<open>orw.policy.evaluate_device\<close> and the actions it executes, with the delivery
  wrapper of \<open>shared/orw_common/nats_client.py\<close> and the transaction of
  \<open>shared/orw_common/database.py\<close>. A run yields the rows inserted so far, the messages
  published so far and the exception that ended it, if any: a rollback undoes the rows
  but not the messages. Whether PostgreSQL accepts a text as \<open>jsonb\<close> is the parameter
  \<open>json_ok\<close>.
\<close>

section \<open>Actions\<close>

definition as_dict :: "pyval \<Rightarrow> pydict result" where
  "as_dict v = (case v of PDict d \<Rightarrow> Inr d | _ \<Rightarrow> Inl (AttributeError ''get''))"

definition dev_str :: "pydict \<Rightarrow> string \<Rightarrow> pyval" where
  "dev_str device k = PStr (py_str (py_get device k))"

text \<open>\<open>{**a, **b}\<close>.\<close>

definition dict_merge :: "('k, 'v) dict \<Rightarrow> ('k, 'v) dict \<Rightarrow> ('k, 'v) dict" where
  "dict_merge a b = fold (\<lambda>(k, v) d. dict_set k v d) b a"

definition publish1 :: "string \<Rightarrow> pydict \<Rightarrow> message list result" where
  "publish1 subject data = Inr [\<lparr>msg_subject = subject, msg_data = data\<rparr>]"

definition execute_action :: "pydict \<Rightarrow> pydict \<Rightarrow> message list result" where
  "execute_action action device =
     (let action_type = dict_get_or action ''type'' (PStr []);
          params = dict_get_or action ''params'' (PDict [])
      in
      if action_type = PStr ''vlan_assign'' then
        rbind (as_dict params) (\<lambda>ps.
          let vlan_id = py_or (py_get ps ''vlan'') (py_get ps ''vlan_id'')
          in if truthy vlan_id
             then publish1 ''orw.policy.action.vlan_assign''
                    [(''device_id'', dev_str device ''id''),
                     (''mac_address'', dev_str device ''mac_address''),
                     (''target_vlan'', vlan_id)]
             else Inr [])
      else if action_type = PStr ''quarantine'' then
        rbind (as_dict params) (\<lambda>ps.
          publish1 ''orw.policy.action.quarantine''
            [(''device_id'', dev_str device ''id''),
             (''mac_address'', dev_str device ''mac_address''),
             (''reason'', dict_get_or ps ''reason'' (PStr ''policy_violation''))])
      else if action_type = PStr ''notify'' then
        rbind (as_dict params) (\<lambda>ps.
          publish1 ''orw.policy.action.notify''
            [(''device_id'', dev_str device ''id''),
             (''template'', dict_get_or ps ''template'' (PStr ''default'')),
             (''recipients'', dict_get_or ps ''recipients'' (PList []))])
      else if action_type = PStr ''acl_apply'' then
        rbind (as_dict params) (\<lambda>ps.
          publish1 ''orw.policy.action.acl_apply''
            [(''device_id'', dev_str device ''id''),
             (''acl_name'', py_get ps ''acl'')])
      else if action_type = PStr ''coa'' then
        rbind (as_dict params) (\<lambda>ps.
          publish1 ''orw.policy.action.coa''
            [(''mac_address'', dev_str device ''mac_address''),
             (''action'', dict_get_or ps ''action'' (PStr ''reauthenticate'')),
             (''vlan_id'', py_get ps ''vlan_id''),
             (''acl_name'', py_get ps ''acl_name'')])
      else if action_type = PStr ''reject'' then
        rbind (as_dict params) (\<lambda>ps.
          publish1 ''orw.policy.action.reject''
            [(''device_id'', dev_str device ''id''),
             (''reason'', py_get ps ''reason'')])
      else if action_type = PStr ''bounce_port'' then
        publish1 ''orw.switch.bounce_port''
          [(''device_id'', dev_str device ''id''),
           (''mac_address'', dev_str device ''mac_address'')]
      else if action_type = PStr ''create_incident'' then
        rbind (as_dict params) (\<lambda>ps.
          publish1 ''orw.policy.action.create_incident''
            [(''device_id'', dev_str device ''id''),
             (''title'', py_get ps ''title''),
             (''severity'', dict_get_or ps ''severity'' (PStr ''medium'')),
             (''integration'', dict_get_or ps ''integration'' (PStr ''thehive''))])
      else if action_type = PStr ''tag_device'' then
        rbind (as_dict params) (\<lambda>ps.
          publish1 ''orw.policy.action.tag_device''
            [(''device_id'', dev_str device ''id''),
             (''tag'', py_get ps ''tag'')])
      else if action_type \<in> set [PStr ''log'', PStr ''captive_portal'', PStr ''qos_apply''] then
        rbind (as_dict params) (\<lambda>ps.
          publish1 (''orw.policy.action.'' @ py_str action_type)
            (dict_merge [(''device_id'', dev_str device ''id'')] ps))
      else Inr [])"

text \<open>The loop over the actions of one policy: entries that are no dictionary are skipped.\<close>

fun execute_actions :: "pyval list \<Rightarrow> pydict \<Rightarrow> message list \<times> pyerr option" where
  "execute_actions [] device = ([], None)"
| "execute_actions (a # as) device =
     (case a of
        PDict action \<Rightarrow>
          (case execute_action action device of
             Inl e \<Rightarrow> ([], Some e)
           | Inr ms \<Rightarrow> (let (ms', err) = execute_actions as device in (ms @ ms', err)))
      | _ \<Rightarrow> execute_actions as device)"

definition run_actions :: "pyval \<Rightarrow> pydict \<Rightarrow> message list \<times> pyerr option" where
  "run_actions actions device =
     (if truthy actions
      then (case py_iter actions of
              Inl e \<Rightarrow> ([], Some e)
            | Inr as \<Rightarrow> execute_actions as device)
      else ([], None))"

section \<open>The handler\<close>

record policy_row =
  pr_id :: string
  pr_tenant :: string
  pr_name :: string
  pr_enabled :: bool
  pr_priority :: int
  pr_conditions :: pyval
  pr_match_actions :: pyval
  pr_no_match_actions :: pyval

record property_row =
  dp_device :: string
  dp_category :: string
  dp_key :: string
  dp_value :: pyval

record evaluation_row =
  ev_policy :: string
  ev_device :: string
  ev_result :: string
  ev_actions :: string

record engine_db =
  db_devices :: "(string, pydict) dict"
  db_properties :: "property_row list"
  db_policies :: "policy_row list"
  db_evaluations :: "evaluation_row list"

definition policy_dict :: "policy_row \<Rightarrow> pydict" where
  "policy_dict p =
     [(''id'', PStr (pr_id p)), (''tenant_id'', PStr (pr_tenant p)), (''name'', PStr (pr_name p)),
      (''enabled'', PBool (pr_enabled p)), (''priority'', PInt (pr_priority p)),
      (''conditions'', pr_conditions p), (''match_actions'', pr_match_actions p),
      (''no_match_actions'', pr_no_match_actions p)]"

definition add_property :: "property_row \<Rightarrow> pydict \<Rightarrow> pydict" where
  "add_property row properties =
     (let inner = (case dict_get properties (dp_category row) of Some (PDict d) \<Rightarrow> d | _ \<Rightarrow> [])
      in dict_set (dp_category row) (PDict (dict_set (dp_key row) (dp_value row) inner)) properties)"

definition device_properties :: "engine_db \<Rightarrow> string \<Rightarrow> pydict" where
  "device_properties db device_id =
     fold add_property (filter (\<lambda>r. dp_device r = device_id) (db_properties db)) []"

definition device_context :: "engine_db \<Rightarrow> string \<Rightarrow> pydict \<Rightarrow> pydict" where
  "device_context db device_id device =
     dict_merge device [(''properties'', PDict (device_properties db device_id))]"

text \<open>
  \<open>WHERE enabled = true AND tenant_id = :tenant_id ORDER BY priority ASC\<close>; rows of
  equal priority come in table order, one of the orders PostgreSQL allows.
\<close>

definition tenant_policies :: "engine_db \<Rightarrow> string \<Rightarrow> policy_row list" where
  "tenant_policies db tenant =
     sort_key pr_priority (filter (\<lambda>p. pr_enabled p \<and> pr_tenant p = tenant) (db_policies db))"

definition chosen_actions :: "policy_row \<Rightarrow> bool \<Rightarrow> pyval" where
  "chosen_actions p matched = (if matched then pr_match_actions p else pr_no_match_actions p)"

definition actions_text :: "pyval \<Rightarrow> string" where
  "actions_text actions = (if truthy actions then py_str actions else ''[]'')"

definition evaluation_of :: "string \<Rightarrow> policy_row \<Rightarrow> bool \<Rightarrow> evaluation_row" where
  "evaluation_of device_id p matched =
     \<lparr>ev_policy = pr_id p, ev_device = device_id,
      ev_result = (if matched then ''match'' else ''no_match''),
      ev_actions = actions_text (chosen_actions p matched)\<rparr>"

type_synonym engine_out = "evaluation_row list \<times> message list \<times> pyerr option"

fun evaluate_policies ::
  "re_search \<Rightarrow> clock \<Rightarrow> (string \<Rightarrow> bool) \<Rightarrow> string \<Rightarrow> pydict \<Rightarrow> policy_row list \<Rightarrow> engine_out" where
  "evaluate_policies re now json_ok device_id ctx [] = ([], [], None)"
| "evaluate_policies re now json_ok device_id ctx (p # ps) =
     (case evaluate re now (policy_dict p) ctx of
        Inl e \<Rightarrow> ([], [], Some e)
      | Inr matched \<Rightarrow>
          (let actions = chosen_actions p matched
           in if \<not> json_ok (actions_text actions)
              then ([], [], Some (DbError ''invalid input syntax for type json''))
              else let (ms, err) = run_actions actions ctx;
                       row = evaluation_of device_id p matched
                   in case err of
                        Some e \<Rightarrow> ([row], ms, Some e)
                      | None \<Rightarrow>
                          let (rows, ms', err') =
                            evaluate_policies re now json_ok device_id ctx ps
                          in (row # rows, ms @ ms', err')))"

text \<open>The transaction: committed when the body ends normally, rolled back on an exception.\<close>

definition commit_or_rollback :: "engine_db \<Rightarrow> engine_out \<Rightarrow> engine_db \<times> message list \<times> pyerr option" where
  "commit_or_rollback db out =
     (let (rows, ms, err) = out
      in (case err of
            None \<Rightarrow> (db\<lparr>db_evaluations := db_evaluations db @ rows\<rparr>, ms, None)
          | Some e \<Rightarrow> (db, ms, Some e)))"

definition handle_evaluate_device ::
  "re_search \<Rightarrow> clock \<Rightarrow> (string \<Rightarrow> bool) \<Rightarrow> pydict \<Rightarrow> engine_db \<Rightarrow> engine_db \<times> message list \<times> pyerr option" where
  "handle_evaluate_device re now json_ok data db =
     (case dict_get data ''device_id'' of
        None \<Rightarrow> (db, [], Some (KeyError ''device_id''))
      | Some did \<Rightarrow>
          (let device_id = py_str did
           in case dict_get (db_devices db) device_id of
                None \<Rightarrow> (db, [], None)
              | Some device \<Rightarrow>
                  if py_get device ''tenant_id'' = PNone
                  then (db, [], Some (DbError ''invalid input syntax for type uuid''))
                  else commit_or_rollback db
                    (evaluate_policies re now json_ok device_id (device_context db device_id device)
                       (tenant_policies db (py_str (py_get device ''tenant_id''))))))"

section \<open>What a run does\<close>

lemma evaluate_policies_ok:
  assumes "evaluate_policies re now json_ok d ctx ps = (rows, ms, None)"
  shows "\<exists>vs. map (\<lambda>p. evaluate re now (policy_dict p) ctx) ps = map Inr vs \<and>
    rows = map2 (evaluation_of d) ps vs \<and>
    ms = concat (map2 (\<lambda>p v. fst (run_actions (chosen_actions p v) ctx)) ps vs)"
  using assms
proof (induction ps arbitrary: rows ms)
  case Nil
  then show ?case by simp
next
  case (Cons p ps)
  obtain v where v: "evaluate re now (policy_dict p) ctx = Inr v"
    using Cons.prems by (cases "evaluate re now (policy_dict p) ctx") auto
  obtain ms1 err where run: "run_actions (chosen_actions p v) ctx = (ms1, err)"
    by (cases "run_actions (chosen_actions p v) ctx")
  obtain rows2 ms2 err2 where rest: "evaluate_policies re now json_ok d ctx ps = (rows2, ms2, err2)"
    by (cases "evaluate_policies re now json_ok d ctx ps")
  from Cons.prems v run rest have none: "err = None" "err2 = None"
    and eqs: "rows = evaluation_of d p v # rows2" "ms = ms1 @ ms2"
    by (auto simp: Let_def split: if_splits option.splits)
  from Cons.IH [of rows2 ms2] rest none obtain vs where
    "map (\<lambda>p. evaluate re now (policy_dict p) ctx) ps = map Inr vs"
    "rows2 = map2 (evaluation_of d) ps vs"
    "ms2 = concat (map2 (\<lambda>p v. fst (run_actions (chosen_actions p v) ctx)) ps vs)"
    by auto
  with v run eqs show ?case by (intro exI [of _ "v # vs"]) simp
qed

lemma handle_found:
  assumes "dict_get data ''device_id'' = Some did"
    and "dict_get (db_devices db) (py_str did) = Some device"
    and "py_get device ''tenant_id'' \<noteq> PNone"
  shows "handle_evaluate_device re now json_ok data db = commit_or_rollback db
    (evaluate_policies re now json_ok (py_str did) (device_context db (py_str did) device)
      (tenant_policies db (py_str (py_get device ''tenant_id''))))"
  using assms by (simp add: handle_evaluate_device_def Let_def)

lemma commit_None:
  "commit_or_rollback db out = (db', ms, None) \<longleftrightarrow>
     (\<exists>rows. out = (rows, ms, None) \<and> db' = db\<lparr>db_evaluations := db_evaluations db @ rows\<rparr>)"
  by (cases out) (auto simp: commit_or_rollback_def split: option.splits)

lemma commit_Some:
  "commit_or_rollback db out = (db', ms, Some e) \<Longrightarrow> db' = db"
  by (cases out) (auto simp: commit_or_rollback_def split: option.splits)

lemma handle_error_state:
  "handle_evaluate_device re now json_ok data db = (db', ms, Some e) \<Longrightarrow> db' = db"
  by (auto simp: handle_evaluate_device_def Let_def commit_Some split: option.splits if_splits)

lemma tenant_policies_set:
  "set (tenant_policies db t) = {p \<in> set (db_policies db). pr_enabled p \<and> pr_tenant p = t}"
  by (auto simp: tenant_policies_def)

lemma tenant_policies_sorted: "sorted (map pr_priority (tenant_policies db t))"
  by (simp add: tenant_policies_def)

lemma run_actions_default_deny:
  "run_actions (PList (pt_match_actions tmpl_default_deny)) device =
    ([\<lparr>msg_subject = ''orw.policy.action.vlan_assign'',
       msg_data = [(''device_id'', dev_str device ''id''),
                   (''mac_address'', dev_str device ''mac_address''),
                   (''target_vlan'', PInt 99)]\<rparr>,
      \<lparr>msg_subject = ''orw.policy.action.log'',
       msg_data = [(''device_id'', dev_str device ''id''), (''level'', PStr ''warning''),
                   (''message'', PStr ''Unmatched device quarantined'')]\<rparr>], None)"
  by (simp add: run_actions_def tmpl_default_deny_def execute_action_def as_dict_def publish1_def
      py_or_def py_get_def dict_get_or_def dict_merge_def Let_def)

lemma str_repr_quote: "CHR 0x27 \<notin> set k \<Longrightarrow> prefix [CHR 0x27] (str_repr k)"
  by (simp add: str_repr_def Let_def)

lemma actions_text_dict:
  assumes "CHR 0x27 \<notin> set k"
  shows "prefix (''[{'' @ [CHR 0x27]) (actions_text (PList (PDict ((k, v) # d) # as)))"
proof -
  obtain t where t: "str_repr k = CHR 0x27 # t"
    using str_repr_quote [OF assms] by (cases "str_repr k") auto
  have "\<exists>u. py_join '', '' (py_repr_items ((k, v) # d)) = CHR 0x27 # u"
    by (cases d) (auto simp: t)
  then obtain u where u: "py_join '', '' (py_repr_items ((k, v) # d)) = CHR 0x27 # u" ..
  have "\<exists>w. py_join '', '' (py_repr_list (PDict ((k, v) # d) # as)) = CHR ''{'' # CHR 0x27 # w"
    using u by (cases as) auto
  then show ?thesis by (auto simp: actions_text_def py_str_def)
qed

section \<open>Properties\<close>


definition ex_row :: "string \<Rightarrow> int \<Rightarrow> policy_template \<Rightarrow> policy_row" where
  "ex_row i prio t =
     \<lparr>pr_id = i, pr_tenant = ''t1'', pr_name = pt_name t, pr_enabled = True, pr_priority = prio,
      pr_conditions = PList (pt_conditions t),
      pr_match_actions = PList (pt_match_actions t),
      pr_no_match_actions = PList (pt_no_match_actions t)\<rparr>"

definition ex_device :: pydict where
  "ex_device = [(''id'', PObj ''d1'' ''UUID(d1)''), (''mac_address'', PStr ''aa:bb:cc:dd:ee:ff''),
     (''device_type'', PStr ''printer''), (''tenant_id'', PObj ''t1'' ''UUID(t1)'')]"

definition ex_engine_db :: engine_db where
  "ex_engine_db =
     \<lparr>db_devices = [(''d1'', ex_device)],
      db_properties = [],
      db_policies = [ex_row ''p2'' 9999 tmpl_default_deny, ex_row ''p1'' 200 tmpl_printer_auto],
      db_evaluations = []\<rparr>"

definition ex_data :: pydict where
  "ex_data = [(''device_id'', PStr ''d1'')]"

definition ex_run :: "engine_db \<times> message list \<times> pyerr option" where
  "ex_run = handle_evaluate_device (\<lambda>p t. Inr False) ex_clock (\<lambda>t. True) ex_data ex_engine_db"

lemma ex_run_ok: "snd (snd ex_run) = None"
  by code_simp


text \<open>
  With the catch-all template enabled as the tenant's last policy, every run that
  ends normally closes with an assignment of the device to VLAN 99 and a log message,
  whichever policies matched before it.
\<close>

theorem catch_all_has_last_word:
  assumes "dict_get data ''device_id'' = Some did"
    and "dict_get (db_devices db) (py_str did) = Some device"
    and "py_get device ''tenant_id'' \<noteq> PNone"
    and "tenant_policies db (py_str (py_get device ''tenant_id'')) = ps @ [p]"
    and "pr_conditions p = PList (pt_conditions tmpl_default_deny)"
    and "pr_match_actions p = PList (pt_match_actions tmpl_default_deny)"
    and "handle_evaluate_device re now json_ok data db = (db', ms, None)"
  shows "\<exists>ms0. ms = ms0 @
    fst (run_actions (PList (pt_match_actions tmpl_default_deny)) (device_context db (py_str did) device)) \<and>
    map (\<lambda>m. (msg_subject m, py_get (msg_data m) ''target_vlan'')) (drop (length ms0) ms) =
      [(''orw.policy.action.vlan_assign'', PInt 99), (''orw.policy.action.log'', PNone)]"
proof -
  let ?ctx = "device_context db (py_str did) device"
  from assms(7) obtain rows where
    out: "evaluate_policies re now json_ok (py_str did) ?ctx (ps @ [p]) = (rows, ms, None)"
    unfolding handle_found [OF assms(1-3)] commit_None assms(4) by blast
  obtain vs where
    vs: "map (\<lambda>p. evaluate re now (policy_dict p) ?ctx) (ps @ [p]) = map Inr vs"
    and ms: "ms = concat (map2 (\<lambda>p v. fst (run_actions (chosen_actions p v) ?ctx)) (ps @ [p]) vs)"
    using evaluate_policies_ok [OF out] by blast
  have "dict_get (policy_dict p) ''conditions'' = Some (PList [])"
    by (simp add: policy_dict_def assms(5) tmpl_default_deny_def)
  then have ev: "evaluate re now (policy_dict p) ?ctx = Inr True"
    by (simp add: evaluate_list)
  have len: "length vs = Suc (length ps)"
    using arg_cong [OF vs, of length] by simp
  then obtain vs0 v where vs0: "vs = vs0 @ [v]" "length vs0 = length ps"
    by (metis append_butlast_last_id diff_Suc_1 length_butlast length_greater_0_conv zero_less_Suc)
  with vs ev have "v = True" by simp
  with ms vs0 assms(6) show ?thesis
    by (simp add: chosen_actions_def run_actions_default_deny py_get_def dict_get_or_def)
qed

theorem catch_all_has_last_word_witness:
  "\<exists>ms0. fst (snd ex_run) = ms0 @
    fst (run_actions (PList (pt_match_actions tmpl_default_deny)) (device_context ex_engine_db ''d1'' ex_device))"
proof -
  have "dict_get ex_data ''device_id'' = Some (PStr ''d1'')"
    and "dict_get (db_devices ex_engine_db) (py_str (PStr ''d1'')) = Some ex_device"
    and "py_get ex_device ''tenant_id'' = PObj ''t1'' ''UUID(t1)''"
    by (simp_all add: ex_data_def ex_engine_db_def ex_device_def py_get_def dict_get_or_def)
  moreover have "handle_evaluate_device (\<lambda>p t. Inr False) ex_clock (\<lambda>t. True) ex_data ex_engine_db
      = (fst ex_run, fst (snd ex_run), None)"
    using ex_run_ok by (metis ex_run_def prod.collapse)
  moreover have "tenant_policies ex_engine_db ''t1'' =
      [ex_row ''p1'' 200 tmpl_printer_auto] @ [ex_row ''p2'' 9999 tmpl_default_deny]"
    by (simp add: tenant_policies_def ex_engine_db_def ex_row_def)
  ultimately show ?thesis
    using catch_all_has_last_word [of ex_data "PStr ''d1''" ex_engine_db ex_device
        "[ex_row ''p1'' 200 tmpl_printer_auto]" "ex_row ''p2'' 9999 tmpl_default_deny"]
    by (fastforce simp: ex_row_def)
qed

text \<open>
  A run that ends in an exception leaves the database as it was, is negatively
  acknowledged, and its redelivery repeats it: the same messages go out again and the
  same exception ends it.
\<close>

theorem engine_failure_repeats:
  assumes "handle_evaluate_device re now json_ok data db = (db', ms, Some e)"
  shows "db' = db \<and> acknowledge (Some e) = Nak \<and>
    handle_evaluate_device re now json_ok data db' = (db, ms, Some e)"
  using handle_error_state [OF assms] assms by (simp add: acknowledge_def)

definition ex_broken_db :: engine_db where
  "ex_broken_db = ex_engine_db\<lparr>db_policies := [ex_row ''p1'' 200 tmpl_printer_auto,
     (ex_row ''p3'' 300 tmpl_printer_auto)\<lparr>pr_conditions := PList [PDict [(''field'', PInt 7)]]\<rparr>]\<rparr>"

theorem engine_failure_repeats_witness:
  "\<exists>ms. ms \<noteq> [] \<and>
     handle_evaluate_device (\<lambda>p t. Inr False) ex_clock (\<lambda>t. True) ex_data ex_broken_db =
       (ex_broken_db, ms, Some (AttributeError ''replace''))"
proof -
  define r where "r = handle_evaluate_device (\<lambda>p t. Inr False) ex_clock (\<lambda>t. True) ex_data ex_broken_db"
  have err: "snd (snd r) = Some (AttributeError ''replace'')"
    and ms: "fst (snd r) \<noteq> []"
    unfolding r_def by code_simp+
  then have r: "handle_evaluate_device (\<lambda>p t. Inr False) ex_clock (\<lambda>t. True) ex_data ex_broken_db
      = (fst r, fst (snd r), Some (AttributeError ''replace''))"
    by (metis r_def prod.collapse)
  show ?thesis
    using engine_failure_repeats [OF r] r ms by auto
qed

text \<open>
  The audit row carries \<open>str(actions)\<close>, the Python text of the action list, which
  opens a string with a single quote. If PostgreSQL refuses such texts as \<open>jsonb\<close>, a
  device whose first policy chooses any action is never acted upon: the run fails
  before the first message.
\<close>

theorem python_text_blocks_actions:
  assumes reject: "\<And>t. prefix (''[{'' @ [CHR 0x27]) t \<Longrightarrow> \<not> json_ok t"
    and "dict_get data ''device_id'' = Some did"
    and "dict_get (db_devices db) (py_str did) = Some device"
    and "py_get device ''tenant_id'' \<noteq> PNone"
    and "tenant_policies db (py_str (py_get device ''tenant_id'')) = p # ps"
    and "evaluate re now (policy_dict p) (device_context db (py_str did) device) = Inr matched"
    and "chosen_actions p matched = PList (PDict ((k, v) # d) # as)"
    and "CHR 0x27 \<notin> set k"
  shows "handle_evaluate_device re now json_ok data db =
    (db, [], Some (DbError ''invalid input syntax for type json''))"
  using reject [OF actions_text_dict [OF assms(8)]] assms(5-7)
  by (simp add: handle_found [OF assms(2-4)] Let_def commit_or_rollback_def)

theorem python_text_blocks_actions_witness:
  "handle_evaluate_device (\<lambda>p t. Inr False) ex_clock (\<lambda>t. \<not> prefix (''[{'' @ [CHR 0x27]) t)
     ex_data ex_engine_db = (ex_engine_db, [], Some (DbError ''invalid input syntax for type json''))"
proof (rule python_text_blocks_actions)
  show "dict_get ex_data ''device_id'' = Some (PStr ''d1'')"
    and "dict_get (db_devices ex_engine_db) (py_str (PStr ''d1'')) = Some ex_device"
    and "py_get ex_device ''tenant_id'' \<noteq> PNone"
    by (simp_all add: ex_data_def ex_engine_db_def ex_device_def py_get_def dict_get_or_def)
  show "tenant_policies ex_engine_db (py_str (py_get ex_device ''tenant_id'')) =
      ex_row ''p1'' 200 tmpl_printer_auto # [ex_row ''p2'' 9999 tmpl_default_deny]"
    by (simp add: tenant_policies_def ex_engine_db_def ex_row_def ex_device_def py_get_def dict_get_or_def)
  show "evaluate (\<lambda>p t. Inr False) ex_clock (policy_dict (ex_row ''p1'' 200 tmpl_printer_auto))
      (device_context ex_engine_db (py_str (PStr ''d1'')) ex_device) = Inr True"
    by code_simp
  show "chosen_actions (ex_row ''p1'' 200 tmpl_printer_auto) True =
      PList (PDict ((''type'', PStr ''vlan_assign'') #
          [(''params'', PDict [(''vlan_id'', PInt 40), (''vlan_name'', PStr ''Printer'')])]) #
        [PDict [(''type'', PStr ''acl_apply''), (''params'', PDict [(''acl'', PStr ''printer-restricted'')])]])"
    by (simp add: chosen_actions_def ex_row_def tmpl_printer_auto_def)
qed auto

end
