(* ===== verification/Hashes.thy ===== *)
theory Hashes
  imports Orw_Prelude "HOL-Library.Word"
begin

text \<open>
  Bytes, the \<open>struct\<close> formats and the \<open>hashlib\<close> digests the code uses: MD5 signs
  RADIUS packets (\<open>coa_manager.py\<close>), SHA-256 identifies generated configuration
  (\<open>freeradius_config_manager.py\<close>). Both digests are written out from their
  specifications (RFC 1321, FIPS 180-4) on 32-bit words and checked on published values.
\<close>

unbundle bit_operations_syntax

type_synonym byte = "8 word"
type_synonym bytes = "byte list"
type_synonym w32 = "32 word"

section \<open>Words and bytes\<close>

definition be_word :: "bytes \<Rightarrow> w32" where
  "be_word bs = foldl (\<lambda>a b. a * 256 + ucast b) 0 bs"

definition be_bytes :: "w32 \<Rightarrow> bytes" where
  "be_bytes w = [ucast (drop_bit 24 w), ucast (drop_bit 16 w), ucast (drop_bit 8 w), ucast w]"

definition le_word :: "bytes \<Rightarrow> w32" where
  "le_word bs = be_word (rev bs)"

definition le_bytes :: "w32 \<Rightarrow> bytes" where
  "le_bytes w = rev (be_bytes w)"

lemma length_be_bytes [simp]: "length (be_bytes w) = 4"
  by (simp add: be_bytes_def)

lemma length_le_bytes [simp]: "length (le_bytes w) = 4"
  by (simp add: le_bytes_def)

fun chunks :: "nat \<Rightarrow> nat \<Rightarrow> 'a list \<Rightarrow> 'a list list" where
  "chunks 0 n xs = []"
| "chunks (Suc k) n xs = take n xs # chunks k n (drop n xs)"

section \<open>The formats of \<open>struct\<close>\<close>

text \<open>Formats \<open>B\<close>, \<open>!H\<close> and \<open>!I\<close>: unsigned, big-endian, out of range raises.\<close>

definition pack_B :: "int \<Rightarrow> bytes result" where
  "pack_B v = (if 0 \<le> v \<and> v < 256 then Inr [word_of_int v]
               else Inl (StructError ''ubyte format requires 0 <= number <= 255''))"

definition pack_H :: "int \<Rightarrow> bytes result" where
  "pack_H v = (if 0 \<le> v \<and> v < 65536
               then Inr [word_of_int (v div 256), word_of_int (v mod 256)]
               else Inl (StructError ''ushort format requires 0 <= number <= 65535''))"

definition pack_I :: "int \<Rightarrow> bytes result" where
  "pack_I v = (if 0 \<le> v \<and> v < 2 ^ 32
               then Inr [word_of_int (v div 2 ^ 24), word_of_int (v div 2 ^ 16),
                         word_of_int (v div 2 ^ 8), word_of_int v]
               else Inl (StructError ''argument out of range''))"

definition byte_int :: "byte \<Rightarrow> int" where
  "byte_int b = uint b"

definition unpack_H :: "byte \<Rightarrow> byte \<Rightarrow> int" where
  "unpack_H a b = byte_int a * 256 + byte_int b"

definition unpack_I :: "byte \<Rightarrow> byte \<Rightarrow> byte \<Rightarrow> byte \<Rightarrow> int" where
  "unpack_I a b c d = ((byte_int a * 256 + byte_int b) * 256 + byte_int c) * 256 + byte_int d"

lemma byte_int_bounds: "0 \<le> byte_int b" "byte_int b < 256"
  using uint_bounded [of b] by (simp_all add: byte_int_def)

lemma byte_int_word [simp]: "byte_int (word_of_int v) = v mod 256"
  by (simp add: byte_int_def uint_word_of_int)

lemma word_byte_int [simp]: "word_of_int (byte_int b) = b"
  by (simp add: byte_int_def)

lemma pack_B_Inr: "pack_B v = Inr bs \<longleftrightarrow> 0 \<le> v \<and> v < 256 \<and> bs = [word_of_int v]"
  by (auto simp: pack_B_def)

lemma pack_H_Inr:
  "pack_H v = Inr bs \<longleftrightarrow>
     0 \<le> v \<and> v < 65536 \<and> bs = [word_of_int (v div 256), word_of_int (v mod 256)]"
  by (auto simp: pack_H_def)

lemma unpack_pack_H:
  "0 \<le> v \<Longrightarrow> v < 65536 \<Longrightarrow>
   unpack_H (word_of_int (v div 256)) (word_of_int (v mod 256)) = v"
  by (simp add: unpack_H_def)

lemma unpack_pack_I:
  assumes "0 \<le> v" and "v < 2 ^ 32"
  shows "unpack_I (word_of_int (v div 2 ^ 24)) (word_of_int (v div 2 ^ 16))
    (word_of_int (v div 2 ^ 8)) (word_of_int v) = v"
proof -
  have a: "v div 16777216 = v div 65536 div 256" and b: "v div 65536 = v div 256 div 256"
    by (simp_all add: zdiv_zmult2_eq [symmetric])
  have "v div 256 * 256 + v mod 256 = v"
    and "v div 65536 * 256 + v div 256 mod 256 = v div 256"
    and "v div 16777216 * 256 + v div 65536 mod 256 = v div 65536"
    unfolding a b by (rule div_mult_mod_eq)+
  moreover have "0 \<le> v div 16777216" "v div 16777216 < 256"
    using assms by simp_all
  ultimately show ?thesis
    using assms by (simp add: unpack_I_def)
qed

section \<open>MD5\<close>

definition md5_K :: "w32 list" where
  "md5_K =
     [0xD76AA478, 0xE8C7B756, 0x242070DB, 0xC1BDCEEE, 0xF57C0FAF, 0x4787C62A,
      0xA8304613, 0xFD469501, 0x698098D8, 0x8B44F7AF, 0xFFFF5BB1, 0x895CD7BE,
      0x6B901122, 0xFD987193, 0xA679438E, 0x49B40821, 0xF61E2562, 0xC040B340,
      0x265E5A51, 0xE9B6C7AA, 0xD62F105D, 0x02441453, 0xD8A1E681, 0xE7D3FBC8,
      0x21E1CDE6, 0xC33707D6, 0xF4D50D87, 0x455A14ED, 0xA9E3E905, 0xFCEFA3F8,
      0x676F02D9, 0x8D2A4C8A, 0xFFFA3942, 0x8771F681, 0x6D9D6122, 0xFDE5380C,
      0xA4BEEA44, 0x4BDECFA9, 0xF6BB4B60, 0xBEBFBC70, 0x289B7EC6, 0xEAA127FA,
      0xD4EF3085, 0x04881D05, 0xD9D4D039, 0xE6DB99E5, 0x1FA27CF8, 0xC4AC5665,
      0xF4292244, 0x432AFF97, 0xAB9423A7, 0xFC93A039, 0x655B59C3, 0x8F0CCC92,
      0xFFEFF47D, 0x85845DD1, 0x6FA87E4F, 0xFE2CE6E0, 0xA3014314, 0x4E0811A1,
      0xF7537E82, 0xBD3AF235, 0x2AD7D2BB, 0xEB86D391]"

definition md5_S :: "nat list" where
  "md5_S = concat (map (\<lambda>r. r @ r @ r @ r) [[7, 12, 17, 22], [5, 9, 14, 20], [4, 11, 16, 23], [6, 10, 15, 21]])"

definition md5_pad :: "bytes \<Rightarrow> bytes" where
  "md5_pad m =
     (let n = length m; bits = of_nat (8 * n) :: 64 word
      in m @ [0x80] @ replicate ((119 - n mod 64) mod 64) 0
         @ le_bytes (ucast bits) @ le_bytes (ucast (drop_bit 32 bits)))"

type_synonym md5_state = "w32 \<times> w32 \<times> w32 \<times> w32"

definition md5_mix :: "nat \<Rightarrow> w32 \<Rightarrow> w32 \<Rightarrow> w32 \<Rightarrow> w32 \<times> nat" where
  "md5_mix i b c d =
     (if i < 16 then ((b AND c) OR (NOT b AND d), i)
      else if i < 32 then ((d AND b) OR (NOT d AND c), (5 * i + 1) mod 16)
      else if i < 48 then (b XOR c XOR d, (3 * i + 5) mod 16)
      else (c XOR (b OR NOT d), (7 * i) mod 16))"

fun md5_step :: "w32 list \<Rightarrow> nat \<times> w32 \<times> nat \<Rightarrow> md5_state \<Rightarrow> md5_state" where
  "md5_step M (i, k, s) (a, b, c, d) =
     (let (f, g) = md5_mix i b c d
      in (d, b + word_rotl s (a + f + k + M ! g), b, c))"

definition md5_block :: "bytes \<Rightarrow> md5_state \<Rightarrow> md5_state" where
  "md5_block blk st =
     (let M = map le_word (chunks 16 4 blk);
          (a, b, c, d) = st;
          (a', b', c', d') = fold (md5_step M) (zip [0..<64] (zip md5_K md5_S)) st
      in (a + a', b + b', c + c', d + d'))"

definition md5 :: "bytes \<Rightarrow> bytes" where
  "md5 m =
     (let p = md5_pad m;
          (a, b, c, d) = fold md5_block (chunks (length p div 64) 64 p)
            (0x67452301, 0xEFCDAB89, 0x98BADCFE, 0x10325476)
      in le_bytes a @ le_bytes b @ le_bytes c @ le_bytes d)"

lemma length_md5 [simp]: "length (md5 m) = 16"
  by (simp add: md5_def Let_def split: prod.splits)

section \<open>SHA-256\<close>

definition sha256_K :: "w32 list" where
  "sha256_K =
     [0x428A2F98, 0x71374491, 0xB5C0FBCF, 0xE9B5DBA5, 0x3956C25B, 0x59F111F1,
      0x923F82A4, 0xAB1C5ED5, 0xD807AA98, 0x12835B01, 0x243185BE, 0x550C7DC3,
      0x72BE5D74, 0x80DEB1FE, 0x9BDC06A7, 0xC19BF174, 0xE49B69C1, 0xEFBE4786,
      0x0FC19DC6, 0x240CA1CC, 0x2DE92C6F, 0x4A7484AA, 0x5CB0A9DC, 0x76F988DA,
      0x983E5152, 0xA831C66D, 0xB00327C8, 0xBF597FC7, 0xC6E00BF3, 0xD5A79147,
      0x06CA6351, 0x14292967, 0x27B70A85, 0x2E1B2138, 0x4D2C6DFC, 0x53380D13,
      0x650A7354, 0x766A0ABB, 0x81C2C92E, 0x92722C85, 0xA2BFE8A1, 0xA81A664B,
      0xC24B8B70, 0xC76C51A3, 0xD192E819, 0xD6990624, 0xF40E3585, 0x106AA070,
      0x19A4C116, 0x1E376C08, 0x2748774C, 0x34B0BCB5, 0x391C0CB3, 0x4ED8AA4A,
      0x5B9CCA4F, 0x682E6FF3, 0x748F82EE, 0x78A5636F, 0x84C87814, 0x8CC70208,
      0x90BEFFFA, 0xA4506CEB, 0xBEF9A3F7, 0xC67178F2]"

definition sha256_init :: "w32 list" where
  "sha256_init =
     [0x6A09E667, 0xBB67AE85, 0x3C6EF372, 0xA54FF53A, 0x510E527F, 0x9B05688C,
      0x1F83D9AB, 0x5BE0CD19]"

definition sha256_pad :: "bytes \<Rightarrow> bytes" where
  "sha256_pad m =
     (let n = length m; bits = of_nat (8 * n) :: 64 word
      in m @ [0x80] @ replicate ((119 - n mod 64) mod 64) 0
         @ be_bytes (ucast (drop_bit 32 bits)) @ be_bytes (ucast bits))"

text \<open>The message schedule, kept newest first.\<close>

definition sha256_next :: "w32 list \<Rightarrow> w32 list" where
  "sha256_next r =
     (let x = r ! 14; y = r ! 1;
          s0 = word_rotr 7 x XOR word_rotr 18 x XOR drop_bit 3 x;
          s1 = word_rotr 17 y XOR word_rotr 19 y XOR drop_bit 10 y
      in (r ! 15 + s0 + r ! 6 + s1) # r)"

definition sha256_schedule :: "bytes \<Rightarrow> w32 list" where
  "sha256_schedule blk = rev ((sha256_next ^^ 48) (rev (map be_word (chunks 16 4 blk))))"

type_synonym sha_state = "w32 \<times> w32 \<times> w32 \<times> w32 \<times> w32 \<times> w32 \<times> w32 \<times> w32"

fun sha256_step :: "w32 \<times> w32 \<Rightarrow> sha_state \<Rightarrow> sha_state" where
  "sha256_step (k, w) (a, b, c, d, e, f, g, h) =
     (let s1 = word_rotr 6 e XOR word_rotr 11 e XOR word_rotr 25 e;
          ch = (e AND f) XOR (NOT e AND g);
          t1 = h + s1 + ch + k + w;
          s0 = word_rotr 2 a XOR word_rotr 13 a XOR word_rotr 22 a;
          maj = (a AND b) XOR (a AND c) XOR (b AND c)
      in (t1 + (s0 + maj), a, b, c, d + t1, e, f, g))"

definition sha256_block :: "bytes \<Rightarrow> w32 list \<Rightarrow> w32 list" where
  "sha256_block blk hs =
     (case hs of
        [a, b, c, d, e, f, g, h] \<Rightarrow>
          (case fold sha256_step (zip sha256_K (sha256_schedule blk)) (a, b, c, d, e, f, g, h) of
             (a', b', c', d', e', f', g', h') \<Rightarrow>
               [a + a', b + b', c + c', d + d', e + e', f + f', g + g', h + h'])
      | _ \<Rightarrow> hs)"

definition sha256 :: "bytes \<Rightarrow> bytes" where
  "sha256 m =
     (let p = sha256_pad m
      in concat (map be_bytes (fold sha256_block (chunks (length p div 64) 64 p) sha256_init)))"

lemma md5_empty:
  "md5 [] = [0xD4, 0x1D, 0x8C, 0xD9, 0x8F, 0x00, 0xB2, 0x04, 0xE9, 0x80, 0x09, 0x98, 0xEC, 0xF8, 0x42, 0x7E]"
  by code_simp

end
