(* ===== verification/Radius_Packet.thy ===== *)
theory Radius_Packet
  imports Hashes Py_Values
begin

text \<open>
  RADIUS packets for Change of Authorization, the class \<open>RadiusPacket\<close> of
  \<open>services/auth/coa_manager.py\<close>: the attribute builders, \<open>encode\<close> with the request
  authenticator of RFC 5176, and \<open>decode\<close>. Attribute types and lengths are Python
  integers; \<open>struct.pack\<close> raises where they do not fit a byte.
\<close>

section \<open>Constants\<close>

datatype radius_code =
    ACCESS_REQUEST | ACCESS_ACCEPT | ACCESS_REJECT | ACCOUNTING_REQUEST | ACCOUNTING_RESPONSE
  | DISCONNECT_REQUEST | DISCONNECT_ACK | DISCONNECT_NAK | COA_REQUEST | COA_ACK | COA_NAK

fun code_value :: "radius_code \<Rightarrow> int" where
  "code_value ACCESS_REQUEST = 1"
| "code_value ACCESS_ACCEPT = 2"
| "code_value ACCESS_REJECT = 3"
| "code_value ACCOUNTING_REQUEST = 4"
| "code_value ACCOUNTING_RESPONSE = 5"
| "code_value DISCONNECT_REQUEST = 40"
| "code_value DISCONNECT_ACK = 41"
| "code_value DISCONNECT_NAK = 42"
| "code_value COA_REQUEST = 43"
| "code_value COA_ACK = 44"
| "code_value COA_NAK = 45"

definition all_codes :: "radius_code list" where
  "all_codes = [ACCESS_REQUEST, ACCESS_ACCEPT, ACCESS_REJECT, ACCOUNTING_REQUEST,
     ACCOUNTING_RESPONSE, DISCONNECT_REQUEST, DISCONNECT_ACK, DISCONNECT_NAK, COA_REQUEST,
     COA_ACK, COA_NAK]"

text \<open>\<open>RadiusCode(n)\<close>: \<open>ValueError\<close> for a number that is no member.\<close>

definition radius_code_of :: "int \<Rightarrow> radius_code result" where
  "radius_code_of n =
     (case List.find (\<lambda>c. code_value c = n) all_codes of
        Some c \<Rightarrow> Inr c | None \<Rightarrow> Inl (ValueError ''not a valid RadiusCode''))"

datatype radius_attr =
    USER_NAME | NAS_IP_ADDRESS | NAS_PORT | REPLY_MESSAGE | STATE | CALLING_STATION_ID
  | NAS_IDENTIFIER | ACCT_SESSION_ID | NAS_PORT_TYPE | NAS_PORT_ID | ERROR_CAUSE_ATTR
  | VENDOR_SPECIFIC | TUNNEL_TYPE | TUNNEL_MEDIUM_TYPE | TUNNEL_PRIVATE_GROUP_ID | FILTER_ID

fun attr_value :: "radius_attr \<Rightarrow> int" where
  "attr_value USER_NAME = 1"
| "attr_value NAS_IP_ADDRESS = 4"
| "attr_value NAS_PORT = 5"
| "attr_value REPLY_MESSAGE = 18"
| "attr_value STATE = 24"
| "attr_value CALLING_STATION_ID = 31"
| "attr_value NAS_IDENTIFIER = 32"
| "attr_value ACCT_SESSION_ID = 44"
| "attr_value NAS_PORT_TYPE = 61"
| "attr_value NAS_PORT_ID = 87"
| "attr_value ERROR_CAUSE_ATTR = 101"
| "attr_value VENDOR_SPECIFIC = 26"
| "attr_value TUNNEL_TYPE = 64"
| "attr_value TUNNEL_MEDIUM_TYPE = 65"
| "attr_value TUNNEL_PRIVATE_GROUP_ID = 81"
| "attr_value FILTER_ID = 11"

definition CISCO_VENDOR_ID :: int where "CISCO_VENDOR_ID = 9"

definition CISCO_AV_PAIR :: int where "CISCO_AV_PAIR = 1"

definition ERROR_CAUSE :: "(int, string) dict" where
  "ERROR_CAUSE =
     [(201, ''Residual Session Context Removed''),
      (202, ''Invalid EAP Packet''),
      (401, ''Unsupported Attribute''),
      (402, ''Missing Attribute''),
      (403, ''NAS Identification Mismatch''),
      (404, ''Invalid Request''),
      (405, ''Unsupported Service''),
      (406, ''Unsupported Extension''),
      (501, ''Administratively Prohibited''),
      (502, ''Request Not Routable (Proxy)''),
      (503, ''Session Context Not Found''),
      (504, ''Session Context Not Removable''),
      (505, ''Other Proxy Processing Error''),
      (506, ''Resources Unavailable''),
      (507, ''Request Initiated''),
      (508, ''Multiple Session Selection Unsupported'')]"

section \<open>Text as bytes\<close>

definition encode_utf8 :: "string \<Rightarrow> bytes" where
  "encode_utf8 s = map (\<lambda>c. of_nat (ord_of c)) s"

text \<open>
  \<open>decode("utf-8", errors="replace")\<close>; bytes outside ASCII become the replacement
  character, for which the ASCII substitute character stands.
\<close>

definition decode_utf8_replace :: "bytes \<Rightarrow> string" where
  "decode_utf8_replace bs = map (\<lambda>b. if b < 128 then char_of (unat b) else CHR 0x1A) bs"

lemma length_encode_utf8 [simp]: "length (encode_utf8 s) = length s"
  by (simp add: encode_utf8_def)

lemma decode_encode_utf8: "\<forall>c \<in> set s. ord_of c < 128 \<Longrightarrow> decode_utf8_replace (encode_utf8 s) = s"
  by (induction s)
     (auto simp: decode_utf8_replace_def encode_utf8_def word_less_nat_alt unat_of_nat)

section \<open>Packets and attribute builders\<close>

record radius_packet =
  rp_code :: int
  rp_identifier :: int
  rp_authenticator :: bytes
  rp_attributes :: "(int \<times> bytes) list"

definition add_attr :: "int \<Rightarrow> bytes \<Rightarrow> radius_packet \<Rightarrow> radius_packet" where
  "add_attr t v p = p\<lparr>rp_attributes := rp_attributes p @ [(t, v)]\<rparr>"

definition add_string :: "int \<Rightarrow> string \<Rightarrow> radius_packet \<Rightarrow> radius_packet" where
  "add_string attr_type value p = add_attr attr_type (encode_utf8 value) p"

definition add_integer :: "int \<Rightarrow> int \<Rightarrow> radius_packet \<Rightarrow> radius_packet result" where
  "add_integer attr_type value p =
     rbind (pack_I value) (\<lambda>bs. Inr (add_attr attr_type bs p))"

definition add_ipv4 :: "int \<Rightarrow> string \<Rightarrow> radius_packet \<Rightarrow> radius_packet result" where
  "add_ipv4 attr_type ip p =
     rbind (rmap (\<lambda>w. case parse_int w of
                    None \<Rightarrow> Inl (ValueError ''invalid literal for int()'') | Some v \<Rightarrow> Inr v)
              (py_split CHR ''.'' ip)) (\<lambda>parts.
       if length parts \<noteq> 4 then Inl (StructError ''pack expected 4 items for packing'')
       else rbind (rmap pack_B parts) (\<lambda>bs. Inr (add_attr attr_type (concat bs) p)))"

text \<open>\<open>struct.pack("!BI", tag, v)[:4]\<close>: five bytes are packed, the first four are kept.\<close>

definition pack_BI_4 :: "int \<Rightarrow> int \<Rightarrow> bytes result" where
  "pack_BI_4 tag v = rbind (pack_B tag) (\<lambda>t. rbind (pack_I v) (\<lambda>i. Inr (take 4 (t @ i))))"

definition add_tunnel_vlan :: "pyval \<Rightarrow> int \<Rightarrow> radius_packet \<Rightarrow> radius_packet result" where
  "add_tunnel_vlan vlan_id tag p =
     rbind (pack_BI_4 tag 13) (\<lambda>tt.
     rbind (pack_BI_4 tag 6) (\<lambda>tm.
     rbind (pack_B tag) (\<lambda>tb.
       Inr (add_attr (attr_value TUNNEL_PRIVATE_GROUP_ID) (tb @ encode_utf8 (py_str vlan_id))
             (add_attr (attr_value TUNNEL_MEDIUM_TYPE) tm
               (add_attr (attr_value TUNNEL_TYPE) tt p))))))"

definition add_cisco_avpair :: "string \<Rightarrow> radius_packet \<Rightarrow> radius_packet result" where
  "add_cisco_avpair avpair p =
     (let avpair_bytes = encode_utf8 avpair
      in rbind (pack_I CISCO_VENDOR_ID) (\<lambda>vid.
         rbind (pack_B CISCO_AV_PAIR) (\<lambda>ty.
         rbind (pack_B (int (length avpair_bytes) + 2)) (\<lambda>len.
           Inr (add_attr (attr_value VENDOR_SPECIFIC) (vid @ ty @ len @ avpair_bytes) p)))))"

section \<open>Encoding\<close>

definition encode_attr :: "int \<times> bytes \<Rightarrow> bytes result" where
  "encode_attr a =
     (let (attr_type, attr_value) = a; attr_len = int (length attr_value) + 2
      in rbind (pack_B attr_type) (\<lambda>t. rbind (pack_B attr_len) (\<lambda>l. Inr (t @ l @ attr_value))))"

definition encode_attrs :: "(int \<times> bytes) list \<Rightarrow> bytes result" where
  "encode_attrs attrs = rbind (rmap encode_attr attrs) (\<lambda>bs. Inr (concat bs))"

definition encode_header :: "int \<Rightarrow> int \<Rightarrow> int \<Rightarrow> bytes result" where
  "encode_header code ident len =
     rbind (pack_B code) (\<lambda>c. rbind (pack_B ident) (\<lambda>i. rbind (pack_H len) (\<lambda>l. Inr (c @ i @ l))))"

definition encode_packet :: "radius_packet \<Rightarrow> string \<Rightarrow> bytes result" where
  "encode_packet p secret =
     rbind (encode_attrs (rp_attributes p)) (\<lambda>attrs_data.
     rbind (encode_header (rp_code p) (rp_identifier p) (20 + int (length attrs_data))) (\<lambda>header.
       let raw = header @ replicate 16 0 @ attrs_data @ encode_utf8 secret;
           authenticator = md5 raw
       in Inr (header @ authenticator @ attrs_data)))"

section \<open>Decoding\<close>

text \<open>
  The loop over the attribute bytes; \<open>pos\<close> is the part already dropped. It stops at
  the end, at a lone last byte, and at a length below two or past the end.
\<close>

function parse_attrs :: "bytes \<Rightarrow> (int \<times> bytes) list" where
  "parse_attrs [] = []"
| "parse_attrs [b] = []"
| "parse_attrs (t # l # rest) =
     (if byte_int l < 2 \<or> int (length rest) + 2 < byte_int l then []
      else (byte_int t, take (nat (byte_int l) - 2) rest)
             # parse_attrs (drop (nat (byte_int l) - 2) rest))"
  by pat_completeness auto
termination
  by (relation "measure length") auto

definition decode_packet :: "bytes \<Rightarrow> string \<Rightarrow> radius_packet result" where
  "decode_packet data secret =
     (if length data < 20 then Inl (ValueError ''Packet too short'')
      else case data of
        c # i # l1 # l2 # rest \<Rightarrow>
          (let len = unpack_H l1 l2
           in Inr \<lparr>rp_code = byte_int c, rp_identifier = byte_int i,
                   rp_authenticator = take 16 rest,
                   rp_attributes = parse_attrs (take (nat (len - 20)) (drop 16 rest))\<rparr>)
      | _ \<Rightarrow> Inl (ValueError ''Packet too short''))"

definition get_attr_string :: "int \<Rightarrow> radius_packet \<Rightarrow> string option" where
  "get_attr_string attr_type p =
     map_option (\<lambda>(t, v). decode_utf8_replace v)
       (List.find (\<lambda>(t, v). t = attr_type) (rp_attributes p))"

definition get_error_cause :: "radius_packet \<Rightarrow> int option" where
  "get_error_cause p =
     (case List.find (\<lambda>(t, v). t = attr_value ERROR_CAUSE_ATTR \<and> 4 \<le> length v) (rp_attributes p) of
        Some (t, a # b # c # d # rest) \<Rightarrow> Some (unpack_I a b c d)
      | _ \<Rightarrow> None)"

section \<open>Encoding and decoding\<close>

definition attr_ok :: "int \<times> bytes \<Rightarrow> bool" where
  "attr_ok a \<longleftrightarrow> 0 \<le> fst a \<and> fst a < 256 \<and> length (snd a) \<le> 253"

definition attrs_size :: "(int \<times> bytes) list \<Rightarrow> nat" where
  "attrs_size attrs = sum_list (map (\<lambda>a. length (snd a) + 2) attrs)"

definition packet_ok :: "radius_packet \<Rightarrow> bool" where
  "packet_ok p \<longleftrightarrow> list_all attr_ok (rp_attributes p)
     \<and> 0 \<le> rp_code p \<and> rp_code p < 256 \<and> 0 \<le> rp_identifier p \<and> rp_identifier p < 256
     \<and> 20 + attrs_size (rp_attributes p) < 65536"

definition attr_bytes :: "int \<times> bytes \<Rightarrow> bytes" where
  "attr_bytes a = [word_of_int (fst a), word_of_int (int (length (snd a)) + 2)] @ snd a"

lemma encode_attr_Inr: "encode_attr a = Inr bs \<longleftrightarrow> attr_ok a \<and> bs = attr_bytes a"
  by (cases a) (auto simp: encode_attr_def attr_ok_def attr_bytes_def result_simps pack_B_Inr)

lemma encode_attrs_Inr:
  "encode_attrs attrs = Inr bs \<longleftrightarrow> list_all attr_ok attrs \<and> bs = concat (map attr_bytes attrs)"
proof -
  have "rmap encode_attr attrs = Inr bss \<longleftrightarrow> list_all attr_ok attrs \<and> bss = map attr_bytes attrs" for bss
    by (induction attrs arbitrary: bss) (auto simp: result_simps encode_attr_Inr)
  then show ?thesis by (auto simp: encode_attrs_def result_simps)
qed

lemma length_attr_bytes [simp]: "length (attr_bytes a) = length (snd a) + 2"
  by (simp add: attr_bytes_def)

lemma length_concat_attr_bytes: "length (concat (map attr_bytes attrs)) = attrs_size attrs"
  by (induction attrs) (auto simp: attrs_size_def)

lemma encode_header_Inr:
  "encode_header c i n = Inr h \<longleftrightarrow> 0 \<le> c \<and> c < 256 \<and> 0 \<le> i \<and> i < 256 \<and> 0 \<le> n \<and> n < 65536 \<and>
    h = [word_of_int c, word_of_int i, word_of_int (n div 256), word_of_int (n mod 256)]"
  by (auto simp: encode_header_def result_simps pack_B_Inr pack_H_Inr)

definition packet_header :: "radius_packet \<Rightarrow> bytes" where
  "packet_header p =
     (let n = 20 + int (attrs_size (rp_attributes p))
      in [word_of_int (rp_code p), word_of_int (rp_identifier p),
          word_of_int (n div 256), word_of_int (n mod 256)])"

definition packet_body :: "radius_packet \<Rightarrow> bytes" where
  "packet_body p = concat (map attr_bytes (rp_attributes p))"

lemma length_packet_header [simp]: "length (packet_header p) = 4"
  by (simp add: packet_header_def Let_def)

lemma length_packet_body [simp]: "length (packet_body p) = attrs_size (rp_attributes p)"
  by (simp add: packet_body_def length_concat_attr_bytes)

lemma encode_packet_Inr:
  "encode_packet p secret = Inr bs \<longleftrightarrow> packet_ok p \<and>
     bs = packet_header p
       @ md5 (packet_header p @ replicate 16 0 @ packet_body p @ encode_utf8 secret) @ packet_body p"
proof -
  have n: "20 + int (length (packet_body p)) < 65536 \<longleftrightarrow> 20 + attrs_size (rp_attributes p) < 65536"
    by simp
  show ?thesis
    by (auto simp: encode_packet_def result_simps encode_attrs_Inr encode_header_Inr packet_ok_def
        packet_body_def [symmetric] packet_header_def Let_def n)
qed

lemma parse_attr_bytes:
  assumes "attr_ok a"
  shows "parse_attrs (attr_bytes a @ rest) = a # parse_attrs rest"
proof -
  obtain t v where a: "a = (t, v)" by (cases a)
  with assms have t: "0 \<le> t" "t < 256" and v: "length v \<le> 253" by (auto simp: attr_ok_def)
  define l :: byte where "l = word_of_int (int (length v) + 2)"
  have l: "byte_int l = int (length v) + 2"
    using v unfolding l_def byte_int_word by simp
  have "byte_int (word_of_int t :: byte) = t" using t by simp
  moreover have "attr_bytes a = word_of_int t # l # v"
    unfolding a attr_bytes_def l_def fst_conv snd_conv by (simp only: append_Cons append_Nil)
  ultimately show ?thesis
    using l by (simp add: a nat_add_distrib)
qed

lemma parse_attrs_bytes:
  "list_all attr_ok attrs \<Longrightarrow> parse_attrs (concat (map attr_bytes attrs)) = attrs"
  by (induction attrs) (auto simp: parse_attr_bytes)

lemma parse_attrs_ok: "list_all attr_ok (parse_attrs bs)"
proof (induction bs rule: parse_attrs.induct)
  case (3 t l rest)
  show ?case
    using 3 byte_int_bounds [of t] byte_int_bounds [of l] by (auto simp: attr_ok_def)
qed simp_all

text \<open>Attribute parsing consumes a prefix: what it returns re-encodes to a prefix of the input.\<close>

lemma parse_attrs_prefix: "prefix (concat (map attr_bytes (parse_attrs bs))) bs"
proof (induction bs rule: parse_attrs.induct)
  case (3 t l rest)
  show ?case
  proof (cases "byte_int l < 2 \<or> int (length rest) + 2 < byte_int l")
    case False
    define n where "n = nat (byte_int l) - 2"
    have n: "n \<le> length rest" "int n + 2 = byte_int l"
      using False by (auto simp: n_def)
    have "attr_bytes (byte_int t, take n rest) = [t, word_of_int (int n + 2)] @ take n rest"
      using n(1) unfolding attr_bytes_def by (simp only: fst_conv snd_conv length_take min_absorb2 word_byte_int)
    then have "attr_bytes (byte_int t, take n rest) = [t, l] @ take n rest"
      unfolding n(2) word_byte_int .
    moreover have "prefix (concat (map attr_bytes (parse_attrs (drop n rest)))) (drop n rest)"
      using 3 False by (simp add: n_def)
    ultimately show ?thesis
      using False by (auto simp: n_def [symmetric] prefix_def) (metis append_take_drop_id)
  qed simp
qed simp_all

lemma decode_packet_Inr:
  "decode_packet data secret = Inr p \<longleftrightarrow>
     (\<exists>c i l1 l2 auth rest. data = [c, i, l1, l2] @ auth @ rest \<and> length auth = 16 \<and>
        p = \<lparr>rp_code = byte_int c, rp_identifier = byte_int i, rp_authenticator = auth,
             rp_attributes = parse_attrs (take (nat (unpack_H l1 l2 - 20)) rest)\<rparr>)"
    (is "?L \<longleftrightarrow> ?R")
proof
  assume ?L
  then obtain c i l1 l2 r where d: "data = c # i # l1 # l2 # r" and len: "16 \<le> length r"
    by (auto simp: decode_packet_def split: if_splits list.splits)
  with \<open>?L\<close> show ?R
    by (intro exI [of _ c] exI [of _ i] exI [of _ l1] exI [of _ l2] exI [of _ "take 16 r"]
        exI [of _ "drop 16 r"]) (auto simp: decode_packet_def Let_def)
next
  assume ?R
  then show ?L by (auto simp: decode_packet_def Let_def)
qed


section \<open>Properties\<close>

lemma encode_packet_cases:
  "encode_packet p secret = Inr
     (packet_header p @ md5 (packet_header p @ replicate 16 0 @ packet_body p @ encode_utf8 secret)
        @ packet_body p) \<and> packet_ok p
   \<or> (\<exists>e. encode_packet p secret = Inl e) \<and> \<not> packet_ok p"
proof (cases "encode_packet p secret")
  case (Inl e)
  then show ?thesis
    using encode_packet_Inr [of p secret
        "packet_header p @ md5 (packet_header p @ replicate 16 0 @ packet_body p @ encode_utf8 secret)
         @ packet_body p"] by auto
qed (use encode_packet_Inr in auto)

text \<open>
  C10: What is sent decodes to what was built. A packet that \<open>encode\<close> accepts is decoded
  by \<open>decode\<close>, whatever the secret given to it, to the same code, identifier and
  attributes in the same order; its authenticator is the MD5 digest RFC 5176 prescribes for
  a request, computed with the secret of the sender.
\<close>

theorem packet_roundtrip:
  assumes "encode_packet p secret = Inr bs"
  shows "decode_packet bs secret' = Inr (p\<lparr>rp_authenticator :=
    md5 (packet_header p @ replicate 16 0 @ packet_body p @ encode_utf8 secret)\<rparr>)"
proof -
  let ?auth = "md5 (packet_header p @ replicate 16 0 @ packet_body p @ encode_utf8 secret)"
  let ?n = "20 + int (attrs_size (rp_attributes p))"
  from assms have ok: "packet_ok p" and bs: "bs = packet_header p @ ?auth @ packet_body p"
    by (simp_all add: encode_packet_Inr)
  have len: "unpack_H (word_of_int (?n div 256)) (word_of_int (?n mod 256)) = ?n"
    using ok by (intro unpack_pack_H) (simp_all add: packet_ok_def)
  have attrs: "parse_attrs (packet_body p) = rp_attributes p"
    using ok by (simp add: packet_body_def parse_attrs_bytes packet_ok_def)
  have nat: "nat (?n - 20) = length (packet_body p)" by simp
  have "decode_packet bs secret' = Inr \<lparr>rp_code = byte_int (word_of_int (rp_code p)),
      rp_identifier = byte_int (word_of_int (rp_identifier p)), rp_authenticator = ?auth,
      rp_attributes = parse_attrs (take (nat (?n - 20)) (packet_body p))\<rparr>"
    unfolding decode_packet_Inr
    by (intro exI conjI) (rule refl bs [unfolded packet_header_def Let_def] length_md5
        | simp only: len bs packet_header_def Let_def)+
  then show ?thesis
    using ok attrs by (cases p) (simp add: nat packet_ok_def del: nat_int)
qed

definition ex_packet :: radius_packet where
  "ex_packet = \<lparr>rp_code = 40, rp_identifier = 7, rp_authenticator = [],
     rp_attributes = [(44, encode_utf8 ''S1''), (31, encode_utf8 ''AA:BB'')]\<rparr>"

lemma ex_packet_ok: "packet_ok ex_packet"
  by (simp add: packet_ok_def ex_packet_def attr_ok_def attrs_size_def)

theorem packet_roundtrip_witness:
  "\<exists>bs. encode_packet ex_packet ''secret'' = Inr bs \<and>
     decode_packet bs ''other'' = Inr (ex_packet\<lparr>rp_authenticator :=
       md5 (packet_header ex_packet @ replicate 16 0 @ packet_body ex_packet @ encode_utf8 ''secret'')\<rparr>)"
proof -
  obtain bs where bs: "encode_packet ex_packet ''secret'' = Inr bs"
    using encode_packet_cases [of ex_packet "''secret''"] ex_packet_ok by blast
  with packet_roundtrip [OF bs, of "''other''"] show ?thesis by blast
qed

text \<open>
  The layout of an encoded packet. \<open>encode\<close> returns a packet exactly when every
  attribute type, code and identifier fits a byte, no attribute value exceeds 253 bytes and
  the total fits the 16-bit length; the packet then has its own length in the length field,
  twenty bytes of header, and as authenticator the MD5 digest of itself with a zero
  authenticator followed by the secret. Otherwise it raises.
\<close>

theorem encode_layout:
  "case encode_packet p secret of
     Inl e \<Rightarrow> \<not> packet_ok p
   | Inr bs \<Rightarrow> packet_ok p
       \<and> length bs = 20 + attrs_size (rp_attributes p)
       \<and> unpack_H (bs ! 2) (bs ! 3) = int (length bs)
       \<and> take 16 (drop 4 bs) = md5 (take 4 bs @ replicate 16 0 @ drop 20 bs @ encode_utf8 secret)"
proof (cases "encode_packet p secret")
  case (Inl e)
  then show ?thesis using encode_packet_cases [of p secret] by auto
next
  case (Inr bs)
  let ?h = "packet_header p" and ?b = "packet_body p"
  let ?auth = "md5 (?h @ replicate 16 0 @ ?b @ encode_utf8 secret)"
  let ?n = "20 + int (attrs_size (rp_attributes p))"
  from Inr have ok: "packet_ok p" and bs: "bs = ?h @ ?auth @ ?b"
    by (simp_all add: encode_packet_Inr)
  have len: "length bs = 20 + attrs_size (rp_attributes p)"
    unfolding bs by (simp add: length_md5)
  have "unpack_H (word_of_int (?n div 256)) (word_of_int (?n mod 256)) = ?n"
    using ok by (intro unpack_pack_H) (simp_all add: packet_ok_def)
  moreover have "bs ! 2 = word_of_int (?n div 256)" "bs ! 3 = word_of_int (?n mod 256)"
    by (simp_all only: bs packet_header_def Let_def append_Cons nth_Cons_numeral
        nth_Cons_0 numeral_2_eq_2 numeral_3_eq_3 nth_Cons_Suc)
  ultimately have "unpack_H (bs ! 2) (bs ! 3) = int (length bs)"
    by (simp only: len of_nat_add of_nat_numeral)
  moreover have "take 4 bs = ?h" "take 16 (drop 4 bs) = ?auth" "drop 20 bs = ?b"
    unfolding bs by (simp_all add: length_md5)
  ultimately show ?thesis
    using Inr ok len by simp
qed

text \<open>
  Attribute parsing is safe on any bytes. Whatever a NAS answers, the attributes
  \<open>decode\<close> returns have byte-sized types and values of at most 253 bytes, and written out
  again they are an initial part of the bytes received: nothing is invented or reordered,
  and what follows the first malformed length is ignored.
\<close>

theorem parse_attrs_safe:
  "list_all attr_ok (parse_attrs bs) \<and> prefix (concat (map attr_bytes (parse_attrs bs))) bs"
  using parse_attrs_ok parse_attrs_prefix by blast

text \<open>
  The tunnel attributes carry no value. For every tag, \<open>add_tunnel_vlan\<close> appends
  a Tunnel-Type and a Tunnel-Medium-Type whose three value bytes are zero: of the five
  bytes packed as tag and 32-bit number the last, which holds the 13 of VLAN and the 6 of
  IEEE-802, is cut off. Only the VLAN name itself reaches the NAS.
\<close>

theorem tunnel_value_lost:
  assumes "0 \<le> tag" and "tag < 256"
  shows "add_tunnel_vlan vlan tag p = Inr (p\<lparr>rp_attributes := rp_attributes p @
    [(attr_value TUNNEL_TYPE, [word_of_int tag, 0, 0, 0]),
     (attr_value TUNNEL_MEDIUM_TYPE, [word_of_int tag, 0, 0, 0]),
     (attr_value TUNNEL_PRIVATE_GROUP_ID, word_of_int tag # encode_utf8 (py_str vlan))]\<rparr>)"
  using assms by (simp add: add_tunnel_vlan_def pack_BI_4_def pack_B_def pack_I_def add_attr_def)

theorem tunnel_value_lost_witness:
  "add_tunnel_vlan (PInt 30) 0 ex_packet = Inr (ex_packet\<lparr>rp_attributes := rp_attributes ex_packet @
    [(64, [0, 0, 0, 0]), (65, [0, 0, 0, 0]), (81, 0 # encode_utf8 (py_str (PInt 30)))]\<rparr>)"
  using tunnel_value_lost [of 0 "PInt 30" ex_packet] by simp

end
