(* ===== verification/Coa_Manager.thy ===== *)
theory Coa_Manager
  imports Radius_Packet Py_Effects
begin

text \<open>
  The CoA service: \<open>CoAManager\<close> and the two NATS handlers of
  \<open>services/auth/coa_manager.py\<close>. The state is the packet identifier counter, the
  session table, the audit events and what was sent; the environment record holds what
  the code reads but does not change: the device table, the decryption of stored
  secrets, what the network does with a datagram, the clock, and whether PostgreSQL
  accepts a text as \<open>jsonb\<close>.
\<close>

section \<open>State and environment\<close>

record radius_session =
  rs_session_id :: string
  rs_calling_station_id :: "string option"
  rs_username :: "string option"
  rs_nas_ip :: string
  rs_device_id :: "string option"
  rs_assigned_vlan :: "int option"
  rs_status :: string
  rs_started_at :: int

record network_device =
  nd_ip_address :: string
  nd_vendor :: "string option"
  nd_coa_secret_encrypted :: "string option"

text \<open>A row of the session queries: \<open>rs.*\<close> and, through the left join, \<open>nd.vendor\<close>.\<close>

record session_row = radius_session +
  row_vendor :: "string option"

text \<open>\<open>CoAResult\<close>.\<close>

record coa_result =
  cr_success :: bool
  cr_action :: string
  cr_nas_ip :: string
  cr_session_id :: "string option"
  cr_mac_address :: "string option"
  cr_response_code :: "int option"
  cr_error_cause :: "int option"
  cr_error_message :: "string option"
  cr_timestamp :: string

definition opt_str :: "string option \<Rightarrow> pyval" where
  "opt_str v = (case v of None \<Rightarrow> PNone | Some s \<Rightarrow> PStr s)"

definition opt_int :: "int option \<Rightarrow> pyval" where
  "opt_int v = (case v of None \<Rightarrow> PNone | Some i \<Rightarrow> PInt i)"

definition to_dict :: "coa_result \<Rightarrow> pydict" where
  "to_dict r =
     [(''success'', PBool (cr_success r)),
      (''action'', PStr (cr_action r)),
      (''nas_ip'', PStr (cr_nas_ip r)),
      (''session_id'', opt_str (cr_session_id r)),
      (''mac_address'', opt_str (cr_mac_address r)),
      (''response_code'', opt_int (cr_response_code r)),
      (''error_cause'', opt_int (cr_error_cause r)),
      (''error_message'', opt_str (cr_error_message r)),
      (''timestamp'', PStr (cr_timestamp r))]"

record coa_event =
  ce_severity :: string
  ce_device_id :: "string option"
  ce_message :: string
  ce_details :: string

datatype udp_event =
    DatagramReceived bytes
  | ErrorReceived pyerr
  | ConnectionLost "pyerr option"

text \<open>What opening the socket and waiting \<open>COA_TIMEOUT\<close> seconds gives.\<close>

datatype net_outcome =
    EndpointError string
  | UdpEvents "udp_event list"

record coa_state =
  cs_identifier :: int
  cs_sessions :: "radius_session list"
  cs_events :: "coa_event list"
  cs_sent :: "(string \<times> bytes) list"
  cs_published :: "message list"

record coa_env =
  env_devices :: "network_device list"
  env_decrypt :: "string \<Rightarrow> string result"
  env_net :: "string \<Rightarrow> bytes \<Rightarrow> net_outcome"
  env_now :: string
  env_urandom :: bytes
  env_json_ok :: "string \<Rightarrow> bool"

definition COA_TIMEOUT :: int where "COA_TIMEOUT = 5"

definition coa_result_of :: "coa_env \<Rightarrow> bool \<Rightarrow> string \<Rightarrow> string \<Rightarrow> coa_result" where
  "coa_result_of env success action nas_ip =
     \<lparr>cr_success = success, cr_action = action, cr_nas_ip = nas_ip, cr_session_id = None,
      cr_mac_address = None, cr_response_code = None, cr_error_cause = None,
      cr_error_message = None, cr_timestamp = env_now env\<rparr>"

section \<open>The identifier\<close>

definition next_identifier :: "int \<Rightarrow> int" where
  "next_identifier i = (i + 1) mod 256"

definition next_id :: "(coa_state, int) prog" where
  "next_id =
     sbind (smod (\<lambda>s. s\<lparr>cs_identifier := next_identifier (cs_identifier s)\<rparr>)) (\<lambda>_.
       sget cs_identifier)"

section \<open>Sending\<close>

datatype future = Pending | Done bytes | Failed pyerr

definition protocol_event :: "future \<Rightarrow> udp_event \<Rightarrow> future" where
  "protocol_event fut e =
     (if fut \<noteq> Pending then fut
      else case e of
        DatagramReceived data \<Rightarrow> Done data
      | ErrorReceived exc \<Rightarrow> Failed exc
      | ConnectionLost (Some exc) \<Rightarrow> Failed exc
      | ConnectionLost None \<Rightarrow> Pending)"

text \<open>\<open>asyncio.wait_for(protocol.response_future, COA_TIMEOUT)\<close>.\<close>

definition wait_response :: "udp_event list \<Rightarrow> bytes result" where
  "wait_response es =
     (case run protocol_event Pending es of
        Pending \<Rightarrow> Inl TimeoutError
      | Done data \<Rightarrow> Inr data
      | Failed exc \<Rightarrow> Inl exc)"

definition str_or :: "string option \<Rightarrow> string option \<Rightarrow> string option" where
  "str_or a b = (case a of Some (c # s) \<Rightarrow> a | _ \<Rightarrow> b)"

text \<open>
  The part after the response is read. \<open>RadiusCode(response_code).name\<close> in the log call
  raises for a code that is no member.
\<close>

definition read_response ::
  "coa_env \<Rightarrow> string \<Rightarrow> string \<Rightarrow> string \<Rightarrow> bytes \<Rightarrow> coa_result result" where
  "read_response env nas_ip secret action data =
     rbind (decode_packet data secret) (\<lambda>response.
     let code = rp_code response in
     if code = code_value COA_ACK \<or> code = code_value DISCONNECT_ACK
     then Inr ((coa_result_of env True action nas_ip)\<lparr>cr_response_code := Some code\<rparr>)
     else
       let error_cause = get_error_cause response;
           error_msg = (case error_cause of
                          None \<Rightarrow> None
                        | Some c \<Rightarrow> if c = 0 then None
                                    else Some (dict_get_or ERROR_CAUSE c ''Unknown error''));
           reply_msg = get_attr_string (attr_value REPLY_MESSAGE) response
       in rbind (radius_code_of code) (\<lambda>_.
            Inr ((coa_result_of env False action nas_ip)
                  \<lparr>cr_response_code := Some code,
                   cr_error_cause := error_cause,
                   cr_error_message :=
                     str_or (str_or error_msg reply_msg) (Some ''CoA rejected by NAS'')\<rparr>)))"

definition timeout_message :: string where
  "timeout_message = ''CoA timeout after '' @ show_int COA_TIMEOUT
     @ ''s - NAS may not support CoA or secret mismatch''"

definition failed_result :: "coa_env \<Rightarrow> string \<Rightarrow> string \<Rightarrow> string \<Rightarrow> coa_result" where
  "failed_result env action nas_ip msg =
     (coa_result_of env False action nas_ip)\<lparr>cr_error_message := Some msg\<rparr>"

text \<open>The two \<open>except\<close> clauses of \<open>_send_packet\<close>; every other exception goes on.\<close>

definition catch_network ::
  "coa_env \<Rightarrow> string \<Rightarrow> string \<Rightarrow> coa_result result \<Rightarrow> coa_result result" where
  "catch_network env nas_ip action r =
     (case r of
        Inl TimeoutError \<Rightarrow> Inr (failed_result env action nas_ip timeout_message)
      | Inl (OSError e) \<Rightarrow> Inr (failed_result env action nas_ip (''Network error: '' @ e))
      | _ \<Rightarrow> r)"

definition record_sent :: "string \<Rightarrow> bytes \<Rightarrow> coa_state \<Rightarrow> coa_state" where
  "record_sent nas_ip data s = s\<lparr>cs_sent := cs_sent s @ [(nas_ip, data)]\<rparr>"

definition send_packet ::
  "coa_env \<Rightarrow> radius_packet \<Rightarrow> string \<Rightarrow> string \<Rightarrow> string \<Rightarrow> (coa_state, coa_result) prog" where
  "send_packet env pkt nas_ip secret action =
     sbind (slift (encode_packet pkt secret)) (\<lambda>encoded.
     sbind (slift (radius_code_of (rp_code pkt))) (\<lambda>_.
       case env_net env nas_ip encoded of
         EndpointError e \<Rightarrow> slift (catch_network env nas_ip action (Inl (OSError e)))
       | UdpEvents es \<Rightarrow>
           sbind (smod (record_sent nas_ip encoded)) (\<lambda>_.
             slift (catch_network env nas_ip action
               (rbind (wait_response es) (read_response env nas_ip secret action))))))"

section \<open>The four operations\<close>

definition new_packet :: "coa_env \<Rightarrow> radius_code \<Rightarrow> int \<Rightarrow> radius_packet" where
  "new_packet env code ident =
     \<lparr>rp_code = code_value code, rp_identifier = ident, rp_authenticator = env_urandom env,
      rp_attributes = []\<rparr>"

text \<open>\<open>if value: pkt.add_string(attr, value)\<close>.\<close>

definition add_opt_string :: "radius_attr \<Rightarrow> string option \<Rightarrow> radius_packet \<Rightarrow> radius_packet" where
  "add_opt_string attr value p =
     (case value of Some (c # s) \<Rightarrow> add_string (attr_value attr) (c # s) p | _ \<Rightarrow> p)"

definition add_session :: "string option \<Rightarrow> string option \<Rightarrow> radius_packet \<Rightarrow> radius_packet" where
  "add_session session_id calling_station_id p =
     add_opt_string CALLING_STATION_ID calling_station_id
       (add_opt_string ACCT_SESSION_ID session_id p)"

definition lower_of :: "string option \<Rightarrow> string result" where
  "lower_of vendor =
     (case vendor of None \<Rightarrow> Inl (AttributeError ''lower'') | Some v \<Rightarrow> Inr (py_lower v))"

text \<open>The end each operation has: send, then note the session in the result.\<close>

definition send_for ::
  "coa_env \<Rightarrow> string \<Rightarrow> string \<Rightarrow> string option \<Rightarrow> string option \<Rightarrow> string \<Rightarrow> radius_packet result
   \<Rightarrow> (coa_state, coa_result) prog" where
  "send_for env nas_ip secret session_id calling_station_id action built =
     sbind (slift built) (\<lambda>pkt.
     sbind (send_packet env pkt nas_ip secret action) (\<lambda>result.
       sret (result\<lparr>cr_session_id := session_id, cr_mac_address := calling_station_id\<rparr>)))"

definition build_disconnect ::
  "string option \<Rightarrow> string option \<Rightarrow> string option \<Rightarrow> int option \<Rightarrow> radius_packet
   \<Rightarrow> radius_packet result" where
  "build_disconnect session_id calling_station_id username nas_port p =
     (let q = add_opt_string USER_NAME username (add_session session_id calling_station_id p)
      in case nas_port of None \<Rightarrow> Inr q | Some n \<Rightarrow> add_integer (attr_value NAS_PORT) n q)"

definition disconnect_session ::
  "coa_env \<Rightarrow> string \<Rightarrow> string \<Rightarrow> string option \<Rightarrow> string option \<Rightarrow> string option \<Rightarrow> int option
   \<Rightarrow> (coa_state, coa_result) prog" where
  "disconnect_session env nas_ip secret session_id calling_station_id username nas_port =
     sbind next_id (\<lambda>i.
       send_for env nas_ip secret session_id calling_station_id ''disconnect''
         (build_disconnect session_id calling_station_id username nas_port
            (new_packet env DISCONNECT_REQUEST i)))"

definition build_reauthenticate ::
  "string option \<Rightarrow> string option \<Rightarrow> string option \<Rightarrow> radius_packet \<Rightarrow> radius_packet result" where
  "build_reauthenticate session_id calling_station_id vendor p =
     (let q = add_session session_id calling_station_id p
      in rbind (lower_of vendor) (\<lambda>vendor_lower.
         if vendor_lower \<in> set [''cisco'', ''aruba'', ''hpe'']
         then add_cisco_avpair ''subscriber:command=reauthenticate'' q
         else if vendor_lower = ''juniper'' then add_integer 6 17 q
         else add_cisco_avpair ''subscriber:command=reauthenticate'' q))"

definition reauthenticate_session ::
  "coa_env \<Rightarrow> string \<Rightarrow> string \<Rightarrow> string option \<Rightarrow> string option \<Rightarrow> string option
   \<Rightarrow> (coa_state, coa_result) prog" where
  "reauthenticate_session env nas_ip secret session_id calling_station_id vendor =
     sbind next_id (\<lambda>i.
       send_for env nas_ip secret session_id calling_station_id ''reauthenticate''
         (build_reauthenticate session_id calling_station_id vendor
            (new_packet env COA_REQUEST i)))"

definition build_change_vlan ::
  "pyval \<Rightarrow> string option \<Rightarrow> string option \<Rightarrow> string option \<Rightarrow> radius_packet
   \<Rightarrow> radius_packet result" where
  "build_change_vlan vlan_id session_id calling_station_id vendor p =
     rbind (add_tunnel_vlan vlan_id 0 (add_session session_id calling_station_id p)) (\<lambda>q.
     rbind (lower_of vendor) (\<lambda>vendor_lower.
       if vendor_lower = ''cisco''
       then rbind (add_cisco_avpair
                     (''audit-session-id='' @ (case session_id of None \<Rightarrow> [] | Some s \<Rightarrow> s)) q)
              (add_cisco_avpair ''subscriber:command=reauthenticate'')
       else Inr q))"

definition change_vlan ::
  "coa_env \<Rightarrow> string \<Rightarrow> string \<Rightarrow> pyval \<Rightarrow> string option \<Rightarrow> string option \<Rightarrow> string option
   \<Rightarrow> (coa_state, coa_result) prog" where
  "change_vlan env nas_ip secret vlan_id session_id calling_station_id vendor =
     sbind next_id (\<lambda>i.
       send_for env nas_ip secret session_id calling_station_id (''vlan_change:'' @ py_str vlan_id)
         (build_change_vlan vlan_id session_id calling_station_id vendor
            (new_packet env COA_REQUEST i)))"

definition build_apply_acl ::
  "pyval \<Rightarrow> string option \<Rightarrow> string option \<Rightarrow> radius_packet \<Rightarrow> radius_packet result" where
  "build_apply_acl acl_name session_id calling_station_id p =
     (case acl_name of
        PStr acl \<Rightarrow>
          add_cisco_avpair (''ACS:CiscoSecure-Defined-ACL=#'' @ acl)
            (add_string (attr_value FILTER_ID) acl (add_session session_id calling_station_id p))
      | _ \<Rightarrow> Inl (AttributeError ''encode''))"

definition apply_acl ::
  "coa_env \<Rightarrow> string \<Rightarrow> string \<Rightarrow> pyval \<Rightarrow> string option \<Rightarrow> string option
   \<Rightarrow> (coa_state, coa_result) prog" where
  "apply_acl env nas_ip secret acl_name session_id calling_station_id =
     sbind next_id (\<lambda>i.
       send_for env nas_ip secret session_id calling_station_id (''apply_acl:'' @ py_str acl_name)
         (build_apply_acl acl_name session_id calling_station_id (new_packet env COA_REQUEST i)))"

section \<open>The session and device tables\<close>

definition with_vendor :: "radius_session \<Rightarrow> string option \<Rightarrow> session_row" where
  "with_vendor s v = radius_session.extend s (session_row.fields v)"

text \<open>\<open>radius_sessions rs LEFT JOIN network_devices nd ON rs.nas_ip = nd.ip_address\<close>.\<close>

definition join_devices :: "coa_env \<Rightarrow> radius_session \<Rightarrow> session_row list" where
  "join_devices env s =
     (case filter (\<lambda>d. nd_ip_address d = rs_nas_ip s) (env_devices env) of
        [] \<Rightarrow> [with_vendor s None]
      | ds \<Rightarrow> map (\<lambda>d. with_vendor s (nd_vendor d)) ds)"

definition active_rows :: "coa_env \<Rightarrow> coa_state \<Rightarrow> (radius_session \<Rightarrow> bool) \<Rightarrow> session_row list" where
  "active_rows env st P =
     concat (map (join_devices env)
       (filter (\<lambda>s. P s \<and> rs_status s = ''active'') (cs_sessions st)))"

text \<open>The cleaning of the Python side and that of the SQL side; only the first drops dots.\<close>

definition mac_clean :: "string \<Rightarrow> string" where
  "mac_clean mac =
     py_lower (remove_char CHR ''.'' (remove_char CHR ''-'' (remove_char CHR '':'' mac)))"

definition sql_mac :: "string \<Rightarrow> string" where
  "sql_mac csid = remove_char CHR ''-'' (remove_char CHR '':'' (py_lower csid))"

definition find_active_session ::
  "coa_env \<Rightarrow> string option \<Rightarrow> string option \<Rightarrow> (coa_state, session_row option) prog" where
  "find_active_session env session_id mac_address =
     sget (\<lambda>st.
       (case (session_id, mac_address) of
          (Some (c # sid), _) \<Rightarrow>
            find (\<lambda>_. True) (active_rows env st (\<lambda>s. rs_session_id s = c # sid))
        | (_, Some (c # mac)) \<Rightarrow>
            find (\<lambda>_. True)
              (sort_key (\<lambda>r. - rs_started_at r)
                (active_rows env st
                  (\<lambda>s. map_option sql_mac (rs_calling_station_id s) = Some (mac_clean (c # mac)))))
        | _ \<Rightarrow> None))"

definition find_active_sessions_by_user ::
  "coa_env \<Rightarrow> string \<Rightarrow> (coa_state, session_row list) prog" where
  "find_active_sessions_by_user env username =
     sget (\<lambda>st. active_rows env st
       (\<lambda>s. case rs_username s of
              None \<Rightarrow> False
            | Some u \<Rightarrow> sql_ilike (''%'' @ username @ ''%'') u))"

definition DEFAULT_COA_SECRET :: string where
  "DEFAULT_COA_SECRET = ''default_coa_secret''"

definition get_coa_secret :: "coa_env \<Rightarrow> string \<Rightarrow> string result" where
  "get_coa_secret env nas_ip =
     (case find (\<lambda>d. nd_ip_address d = nas_ip) (env_devices env) of
        None \<Rightarrow> Inr DEFAULT_COA_SECRET
      | Some d \<Rightarrow>
          (case nd_coa_secret_encrypted d of
             Some (c # ct) \<Rightarrow>
               rbind (env_decrypt env (c # ct)) (\<lambda>s. Inr (if s = [] then DEFAULT_COA_SECRET else s))
           | _ \<Rightarrow> Inr DEFAULT_COA_SECRET))"

section \<open>The audit trail\<close>

definition coa_details :: "coa_result \<Rightarrow> string" where
  "coa_details r = replace_char CHR 0x27 CHR 0x22 (py_str (PDict (to_dict r)))"

definition coa_event_of :: "session_row \<Rightarrow> coa_result \<Rightarrow> coa_event" where
  "coa_event_of session r =
     \<lparr>ce_severity = (if cr_success r then ''info'' else ''warning''),
      ce_device_id = rs_device_id session,
      ce_message = ''CoA '' @ cr_action r @ '' to '' @ cr_nas_ip r @ '': ''
        @ (if cr_success r then ''success'' else ''failed''),
      ce_details = coa_details r\<rparr>"

definition terminate_session :: "string \<Rightarrow> coa_state \<Rightarrow> coa_state" where
  "terminate_session sid st =
     st\<lparr>cs_sessions := map (\<lambda>s. if rs_session_id s = sid then s\<lparr>rs_status := ''terminated''\<rparr> else s)
          (cs_sessions st)\<rparr>"

text \<open>One transaction: when the insert is rejected nothing of it remains.\<close>

definition log_coa :: "coa_env \<Rightarrow> session_row \<Rightarrow> coa_result \<Rightarrow> (coa_state, unit) prog" where
  "log_coa env session r =
     (if \<not> env_json_ok env (coa_details r)
      then sraise (DbError ''invalid input syntax for type json'')
      else sbind (smod (\<lambda>st. st\<lparr>cs_events := cs_events st @ [coa_event_of session r]\<rparr>)) (\<lambda>_.
        if cr_success r \<and> cr_action r = ''disconnect''
        then smod (terminate_session (rs_session_id session))
        else sret ()))"

definition publish_result :: "coa_result \<Rightarrow> (coa_state, unit) prog" where
  "publish_result r =
     smod (\<lambda>st. st\<lparr>cs_published := cs_published st
       @ [\<lparr>msg_subject = ''orw.coa.result'', msg_data = to_dict r\<rparr>]\<rparr>)"

section \<open>Operations by session, MAC and user\<close>

text \<open>
  \<open>action\<close> is a text here: the branches compare it with texts, and a value of another
  type matches none of them.
\<close>

definition dispatch_coa ::
  "coa_env \<Rightarrow> session_row \<Rightarrow> string \<Rightarrow> string \<Rightarrow> pyval \<Rightarrow> pyval
   \<Rightarrow> (coa_state, coa_result) prog option" where
  "dispatch_coa env session secret action vlan_id acl_name =
     (let nas_ip = rs_nas_ip session; vendor = row_vendor session;
          sid = Some (rs_session_id session); mac = rs_calling_station_id session
      in if action = ''disconnect''
         then Some (disconnect_session env nas_ip secret sid mac None None)
         else if action = ''reauthenticate''
         then Some (reauthenticate_session env nas_ip secret sid mac vendor)
         else if action = ''vlan_change'' \<and> vlan_id \<noteq> PNone
         then Some (change_vlan env nas_ip secret vlan_id sid mac vendor)
         else if action = ''apply_acl'' \<and> truthy acl_name
         then Some (apply_acl env nas_ip secret acl_name sid mac)
         else None)"

definition execute_coa ::
  "coa_env \<Rightarrow> session_row \<Rightarrow> string \<Rightarrow> pyval \<Rightarrow> pyval \<Rightarrow> (coa_state, coa_result) prog" where
  "execute_coa env session action vlan_id acl_name =
     sbind (slift (get_coa_secret env (rs_nas_ip session))) (\<lambda>secret.
       case dispatch_coa env session secret action vlan_id acl_name of
         None \<Rightarrow> sret (failed_result env action (rs_nas_ip session)
                   (''Unknown action '' @ [CHR 0x27] @ action @ [CHR 0x27]
                      @ '' or missing parameters''))
       | Some operation \<Rightarrow>
           sbind operation (\<lambda>result.
           sbind (log_coa env session result) (\<lambda>_.
           sbind (publish_result result) (\<lambda>_. sret result))))"

definition coa_by_mac ::
  "coa_env \<Rightarrow> string \<Rightarrow> string \<Rightarrow> pyval \<Rightarrow> pyval \<Rightarrow> (coa_state, coa_result) prog" where
  "coa_by_mac env mac_address action vlan_id acl_name =
     sbind (find_active_session env None (Some mac_address)) (\<lambda>session.
       case session of
         None \<Rightarrow> sret ((failed_result env action []
                   (''No active session found for MAC '' @ mac_address))
                   \<lparr>cr_mac_address := Some mac_address\<rparr>)
       | Some row \<Rightarrow> execute_coa env row action vlan_id acl_name)"

definition coa_by_username ::
  "coa_env \<Rightarrow> string \<Rightarrow> string \<Rightarrow> pyval \<Rightarrow> pyval \<Rightarrow> (coa_state, coa_result) prog" where
  "coa_by_username env username action vlan_id acl_name =
     sbind (find_active_sessions_by_user env username) (\<lambda>sessions.
       if sessions = []
       then sret (failed_result env action [] (''No active sessions found for user '' @ username))
       else sbind (smap (\<lambda>row. execute_coa env row action vlan_id acl_name) sessions) (\<lambda>results.
         let all_success = list_all cr_success results
         in sret ((coa_result_of env all_success action (py_join '', '' (map cr_nas_ip results)))
              \<lparr>cr_error_message :=
                 (if all_success then None
                  else Some (show_nat (length (filter (\<lambda>r. \<not> cr_success r) results)) @ ''/''
                         @ show_nat (length results) @ '' sessions failed''))\<rparr>)))"

definition coa_by_session_id ::
  "coa_env \<Rightarrow> string \<Rightarrow> string \<Rightarrow> pyval \<Rightarrow> pyval \<Rightarrow> (coa_state, coa_result) prog" where
  "coa_by_session_id env session_id action vlan_id acl_name =
     sbind (find_active_session env (Some session_id) None) (\<lambda>session.
       case session of
         None \<Rightarrow> sret ((failed_result env action []
                   (''Session '' @ session_id @ '' not found or not active''))
                   \<lparr>cr_session_id := Some session_id\<rparr>)
       | Some row \<Rightarrow> execute_coa env row action vlan_id acl_name)"

section \<open>The NATS handlers\<close>

text \<open>A value bound to a text parameter of a query, and one whose \<open>replace\<close> is called.\<close>

definition query_text :: "pyval \<Rightarrow> string result" where
  "query_text v = (case v of PStr s \<Rightarrow> Inr s | _ \<Rightarrow> Inl (DbError ''expected str''))"

definition method_text :: "string \<Rightarrow> pyval \<Rightarrow> string result" where
  "method_text m v = (case v of PStr s \<Rightarrow> Inr s | _ \<Rightarrow> Inl (AttributeError m))"

definition handle_coa_action :: "coa_env \<Rightarrow> pydict \<Rightarrow> (coa_state, unit) prog" where
  "handle_coa_action env data =
     (let action = py_str (dict_get_or data ''action'' (PStr ''reauthenticate''));
          vlan_id = py_get data ''vlan_id'';
          acl_name = py_get data ''acl_name''
      in if truthy (py_get data ''session_id'') then
           sbind (slift (query_text (py_get data ''session_id''))) (\<lambda>sid.
           sbind (coa_by_session_id env sid action vlan_id acl_name) (\<lambda>_. sret ()))
         else if truthy (py_get data ''mac_address'') then
           sbind (slift (method_text ''replace'' (py_get data ''mac_address''))) (\<lambda>mac.
           sbind (coa_by_mac env mac action vlan_id acl_name) (\<lambda>_. sret ()))
         else if truthy (py_get data ''username'') then
           sbind (coa_by_username env (py_str (py_get data ''username'')) action vlan_id acl_name)
             (\<lambda>_. sret ())
         else sret ())"

definition handle_policy_vlan_assign :: "coa_env \<Rightarrow> pydict \<Rightarrow> (coa_state, unit) prog" where
  "handle_policy_vlan_assign env data =
     (let mac_address = py_get data ''mac_address'';
          new_vlan = py_get data ''vlan_id''
      in if \<not> truthy mac_address \<or> \<not> truthy new_vlan then sret ()
         else
           sbind (slift (method_text ''replace'' mac_address)) (\<lambda>mac.
           sbind (find_active_session env None (Some mac)) (\<lambda>session.
             case session of
               None \<Rightarrow> sret ()
             | Some row \<Rightarrow>
                 if py_eq (opt_int (rs_assigned_vlan row)) new_vlan then sret ()
                 else
                   sbind (slift (get_coa_secret env (rs_nas_ip row))) (\<lambda>secret.
                   sbind (change_vlan env (rs_nas_ip row) secret new_vlan
                            (Some (rs_session_id row)) (Some mac) (row_vendor row)) (\<lambda>result.
                     if cr_success result then sret ()
                     else
                       sbind (slift (get_coa_secret env (rs_nas_ip row))) (\<lambda>secret.
                       sbind (disconnect_session env (rs_nas_ip row) secret
                                (Some (rs_session_id row)) (Some mac) None None) (\<lambda>_.
                         sret ())))))))"

text \<open>The two subscriptions of \<open>coa_service.py\<close>.\<close>

definition coa_service :: "coa_env \<Rightarrow> message \<Rightarrow> (coa_state, unit) prog" where
  "coa_service env m =
     (if msg_subject m = ''orw.policy.action.coa'' then handle_coa_action env (msg_data m)
      else if msg_subject m = ''orw.policy.action.vlan_assign''
      then handle_policy_vlan_assign env (msg_data m)
      else sret ())"

section \<open>What the service sends\<close>

text \<open>
  A datagram of the service is the signed encoding of a Disconnect-Request or a
  CoA-Request; with the range of the identifier this is the invariant of the service.
\<close>

definition request_ok :: "bytes \<Rightarrow> bool" where
  "request_ok bs \<longleftrightarrow> (\<exists>p secret. encode_packet p secret = Inr bs \<and>
     rp_code p \<in> {code_value DISCONNECT_REQUEST, code_value COA_REQUEST})"

definition coa_ok :: "coa_state \<Rightarrow> bool" where
  "coa_ok s \<longleftrightarrow> 0 \<le> cs_identifier s \<and> cs_identifier s < 256
     \<and> (\<forall>d \<in> set (cs_sent s). request_ok (snd d))"

lemma rp_code_add [simp]:
  "rp_code (add_attr t v p) = rp_code p"
  "rp_code (add_string t x p) = rp_code p"
  "rp_code (add_opt_string a y p) = rp_code p"
  "rp_code (add_session sid mac p) = rp_code p"
  by (simp_all add: add_attr_def add_string_def add_opt_string_def add_session_def
      split: option.split list.split)

lemma rp_code_add_Inr:
  "add_integer t v p = Inr q \<Longrightarrow> rp_code q = rp_code p"
  "add_tunnel_vlan x tag p = Inr q \<Longrightarrow> rp_code q = rp_code p"
  "add_cisco_avpair av p = Inr q \<Longrightarrow> rp_code q = rp_code p"
  by (auto simp: add_integer_def add_tunnel_vlan_def add_cisco_avpair_def result_simps Let_def)

lemma rp_code_build_disconnect:
  "build_disconnect sid mac user port p = Inr q \<Longrightarrow> rp_code q = rp_code p"
  by (auto simp: build_disconnect_def Let_def split: option.splits dest: rp_code_add_Inr)

lemma rp_code_build_reauthenticate:
  "build_reauthenticate sid mac vendor p = Inr q \<Longrightarrow> rp_code q = rp_code p"
  by (auto simp: build_reauthenticate_def Let_def result_simps split: if_splits
      dest: rp_code_add_Inr)

lemma rp_code_build_change_vlan:
  assumes "build_change_vlan vlan sid mac vendor p = Inr q"
  shows "rp_code q = rp_code p"
proof -
  from assms obtain q1 v where
    q1: "add_tunnel_vlan vlan 0 (add_session sid mac p) = Inr q1" and
    q: "(if v = ''cisco''
         then rbind (add_cisco_avpair
                 (''audit-session-id='' @ (case sid of None \<Rightarrow> [] | Some s \<Rightarrow> s)) q1)
               (add_cisco_avpair ''subscriber:command=reauthenticate'')
         else Inr q1) = Inr q"
    unfolding build_change_vlan_def rbind_eq_Inr_iff by blast
  have "rp_code q = rp_code q1"
  proof (cases "v = ''cisco''")
    case True
    with q obtain q2 where
      "add_cisco_avpair (''audit-session-id='' @ (case sid of None \<Rightarrow> [] | Some s \<Rightarrow> s)) q1 = Inr q2"
      "add_cisco_avpair ''subscriber:command=reauthenticate'' q2 = Inr q"
      unfolding rbind_eq_Inr_iff if_P [OF True] by blast
    from this [THEN rp_code_add_Inr(3)] show ?thesis by (rule trans [rotated])
  next
    case False
    from q show ?thesis unfolding if_not_P [OF False] by simp
  qed
  with rp_code_add_Inr(2) [OF q1] show ?thesis by simp
qed

lemma rp_code_build_apply_acl:
  assumes "build_apply_acl acl sid mac p = Inr q"
  shows "rp_code q = rp_code p"
proof (cases acl)
  case (PStr a)
  from assms have
    "add_cisco_avpair (''ACS:CiscoSecure-Defined-ACL=#'' @ a)
       (add_string (attr_value FILTER_ID) a (add_session sid mac p)) = Inr q"
    unfolding build_apply_acl_def PStr pyval.case .
  from rp_code_add_Inr(3) [OF this] show ?thesis by simp
qed (use assms in \<open>simp_all add: build_apply_acl_def\<close>)

lemmas rp_code_build = rp_code_build_disconnect rp_code_build_reauthenticate
  rp_code_build_change_vlan rp_code_build_apply_acl

lemma rp_code_new_packet [simp]: "rp_code (new_packet env code i) = code_value code"
  by (simp add: new_packet_def)

text \<open>Sending changes the log of datagrams only, by at most the one encoded packet.\<close>

lemma send_packet_state:
  "snd (send_packet env pkt ip secret action s) = s \<or>
   (\<exists>bs. encode_packet pkt secret = Inr bs \<and>
      snd (send_packet env pkt ip secret action s) = record_sent ip bs s)"
  by (auto simp: send_packet_def sbind_def split: sum.splits net_outcome.splits)

lemma snd_sbind_sret: "snd (sbind m (\<lambda>x. sret (f x)) s) = snd (m s)"
  by (auto simp: sbind_def split: prod.split sum.split)

lemma send_for_state:
  "snd (send_for env ip secret sid mac action built s) = s \<or>
   (\<exists>pkt bs. built = Inr pkt \<and> encode_packet pkt secret = Inr bs \<and>
      snd (send_for env ip secret sid mac action built s) = record_sent ip bs s)"
proof (cases built)
  case (Inr pkt)
  then show ?thesis
    using send_packet_state [of env pkt ip secret action s]
    by (auto simp: send_for_def snd_sbind_sret)
qed (simp add: send_for_def)

lemma coa_ok_record_sent: "coa_ok s \<Longrightarrow> request_ok bs \<Longrightarrow> coa_ok (record_sent ip bs s)"
  by (auto simp: coa_ok_def record_sent_def)

lemma request_okI:
  "encode_packet p secret = Inr bs \<Longrightarrow>
   rp_code p \<in> {code_value DISCONNECT_REQUEST, code_value COA_REQUEST} \<Longrightarrow> request_ok bs"
  unfolding request_ok_def by blast

lemma keeps_next_id [keeps_intros]: "keeps coa_ok next_id"
  by (auto intro!: keeps_intros simp: next_id_def coa_ok_def next_identifier_def)

lemma keeps_send_for:
  assumes "\<And>pkt. built = Inr pkt \<Longrightarrow>
    rp_code pkt \<in> {code_value DISCONNECT_REQUEST, code_value COA_REQUEST}"
  shows "keeps coa_ok (send_for env ip secret sid mac action built)"
  unfolding keeps_def
proof (intro allI impI)
  fix s assume "coa_ok s"
  with send_for_state [of env ip secret sid mac action built s] assms
  show "coa_ok (snd (send_for env ip secret sid mac action built s))"
    by (auto intro!: coa_ok_record_sent request_okI)
qed

lemma keeps_operations [keeps_intros]:
  "keeps coa_ok (disconnect_session env ip secret sid mac user port)"
  "keeps coa_ok (reauthenticate_session env ip secret sid mac vendor)"
  "keeps coa_ok (change_vlan env ip secret vlan sid mac vendor)"
  "keeps coa_ok (apply_acl env ip secret acl sid mac)"
  by (auto intro!: keeps_intros keeps_send_for simp: disconnect_session_def
      reauthenticate_session_def change_vlan_def apply_acl_def dest: rp_code_build)

lemma keeps_log_coa [keeps_intros]: "keeps coa_ok (log_coa env row r)"
  by (auto intro!: keeps_intros simp: log_coa_def coa_ok_def terminate_session_def)

lemma keeps_publish_result [keeps_intros]: "keeps coa_ok (publish_result r)"
  by (auto intro!: keeps_intros simp: publish_result_def coa_ok_def)

lemma dispatch_coa_keeps:
  "dispatch_coa env row secret action vlan acl = Some operation \<Longrightarrow> keeps coa_ok operation"
  by (auto simp: dispatch_coa_def Let_def intro: keeps_intros split: if_splits)

lemma keeps_execute_coa [keeps_intros]: "keeps coa_ok (execute_coa env row action vlan acl)"
proof -
  have "keeps coa_ok (case dispatch_coa env row secret action vlan acl of
      None \<Rightarrow> sret r | Some operation \<Rightarrow> sbind operation (\<lambda>result.
        sbind (log_coa env row result) (\<lambda>_. sbind (publish_result result) (\<lambda>_. sret result))))"
    for secret r
    using dispatch_coa_keeps [of env row secret action vlan acl]
    by (cases "dispatch_coa env row secret action vlan acl") (auto intro!: keeps_intros)
  then show ?thesis
    unfolding execute_coa_def by (intro keeps_sbind keeps_basic)
qed

lemma keeps_find [keeps_intros]:
  "keeps I (find_active_session env sid mac)"
  "keeps I (find_active_sessions_by_user env user)"
  by (simp_all add: find_active_session_def find_active_sessions_by_user_def keeps_intros)

lemma keeps_coa_by [keeps_intros]:
  "keeps coa_ok (coa_by_mac env mac action vlan acl)"
  "keeps coa_ok (coa_by_username env user action vlan acl)"
  "keeps coa_ok (coa_by_session_id env sid action vlan acl)"
  unfolding coa_by_mac_def coa_by_username_def coa_by_session_id_def Let_def
  by (intro keeps_intros)+

lemma keeps_coa_service: "keeps coa_ok (coa_service env m)"
  unfolding coa_service_def handle_coa_action_def handle_policy_vlan_assign_def Let_def
  by (intro keeps_intros)

definition coa_step :: "coa_state \<Rightarrow> coa_env \<times> message \<Rightarrow> coa_state" where
  "coa_step s e = snd (coa_service (fst e) (snd e) s)"

interpretation coa_machine: machine coa_step coa_ok
  by unfold_locales (simp add: coa_step_def keeps_snd [OF keeps_coa_service])

section \<open>Lemmas on responses, the audit text and name patterns\<close>

lemma decode_packet_header:
  "decode_packet data secret = Inr p \<Longrightarrow> 20 \<le> length data \<and> rp_code p = byte_int (data ! 0)"
  by (auto simp: decode_packet_def Let_def split: if_splits list.splits)

lemma decode_packet_long:
  assumes "20 \<le> length data"
  shows "\<exists>p. decode_packet data secret = Inr p \<and> rp_code p = byte_int (data ! 0)"
proof -
  from assms obtain c i l1 l2 rest where "data = c # i # l1 # l2 # rest"
    by (cases data; cases "tl data"; cases "tl (tl data)"; cases "tl (tl (tl data))") auto
  with assms show ?thesis by (simp add: decode_packet_def Let_def)
qed

lemma cr_success_result_of [simp]: "cr_success (coa_result_of env b action ip) = b"
  by (simp add: coa_result_of_def)

definition is_ack :: "int \<Rightarrow> bool" where
  "is_ack code \<longleftrightarrow> code = code_value COA_ACK \<or> code = code_value DISCONNECT_ACK"

lemma read_response_ack:
  "decode_packet data secret = Inr p \<Longrightarrow> is_ack (rp_code p) \<Longrightarrow>
   read_response env ip secret action data =
     Inr ((coa_result_of env True action ip)\<lparr>cr_response_code := Some (rp_code p)\<rparr>)"
  by (simp add: read_response_def is_ack_def)

lemma read_response_nak:
  "decode_packet data secret = Inr p \<Longrightarrow> \<not> is_ack (rp_code p) \<Longrightarrow>
   read_response env ip secret action data = Inr r \<Longrightarrow> \<not> cr_success r"
  by (auto simp: read_response_def is_ack_def Let_def result_simps)

lemma read_response_success:
  "(\<exists>r. read_response env ip secret action data = Inr r \<and> cr_success r) \<longleftrightarrow>
     20 \<le> length data \<and> is_ack (byte_int (data ! 0))"
proof (cases "20 \<le> length data")
  case True
  then obtain p where p: "decode_packet data secret = Inr p" "rp_code p = byte_int (data ! 0)"
    using decode_packet_long by blast
  show ?thesis
    using True p read_response_ack [OF p(1)] read_response_nak [OF p(1)]
    by (cases "is_ack (rp_code p)") auto
next
  case False
  then show ?thesis by (simp add: read_response_def decode_packet_def)
qed

lemma catch_network_success:
  "(\<exists>r'. catch_network env ip action r = Inr r' \<and> cr_success r') \<longleftrightarrow> (\<exists>r'. r = Inr r' \<and> cr_success r')"
  by (auto simp: catch_network_def failed_result_def split: sum.splits pyerr.splits)

lemma sql_like_percent: "sql_like [CHR ''%''] s"
  by (induction s) auto

definition plain_name :: "string \<Rightarrow> bool" where
  "plain_name s \<longleftrightarrow> CHR ''%'' \<notin> set s \<and> CHR ''_'' \<notin> set s \<and> CHR 0x5C \<notin> set s"

lemma sql_like_prefix:
  "plain_name p \<Longrightarrow> sql_like (p @ [CHR ''%'']) s \<longleftrightarrow> prefix p s"
proof (induction p arbitrary: s)
  case Nil
  then show ?case by (simp add: sql_like_percent)
next
  case (Cons c p)
  then show ?case by (cases s) (auto simp: plain_name_def)
qed

lemma sql_like_contains:
  "plain_name p \<Longrightarrow> sql_like (CHR ''%'' # p @ [CHR ''%'']) s \<longleftrightarrow> sublist p s"
proof (induction s)
  case Nil
  then show ?case by (simp add: sql_like_prefix)
next
  case (Cons c s)
  then show ?case by (simp add: sql_like_prefix sublist_Cons_right)
qed

lemma lower_char_special:
  "lower_char c = CHR ''%'' \<longleftrightarrow> c = CHR ''%''"
  "lower_char c = CHR ''_'' \<longleftrightarrow> c = CHR ''_''"
  "lower_char c = CHR 0x5C \<longleftrightarrow> c = CHR 0x5C"
  by (rule lower_char_eq_noncased; code_simp)+

lemma plain_name_lower: "plain_name s \<Longrightarrow> plain_name (py_lower s)"
  by (auto simp: plain_name_def py_lower_def lower_char_special [THEN eq_reflection] image_iff
      dest: sym)

lemma sql_ilike_contains:
  "plain_name p \<Longrightarrow>
   sql_ilike (''%'' @ p @ ''%'') s \<longleftrightarrow> sublist (py_lower p) (py_lower s)"
proof -
  assume "plain_name p"
  have "lower_char CHR ''%'' = CHR ''%''" by (simp add: lower_char_special)
  then have "py_lower (''%'' @ p @ ''%'') = CHR ''%'' # py_lower p @ [CHR ''%'']"
    by (simp add: py_lower_def)
  with sql_like_contains [OF plain_name_lower [OF \<open>plain_name p\<close>]] show ?thesis
    by (simp add: sql_ilike_def)
qed

lemma truncate_with_vendor [simp]: "radius_session.truncate (with_vendor s v) = s"
  by (simp add: with_vendor_def radius_session.defs session_row.defs)

lemma with_vendor_simps [simp]:
  "rs_session_id (with_vendor s v) = rs_session_id s"
  "rs_nas_ip (with_vendor s v) = rs_nas_ip s"
  "rs_calling_station_id (with_vendor s v) = rs_calling_station_id s"
  "rs_assigned_vlan (with_vendor s v) = rs_assigned_vlan s"
  "rs_started_at (with_vendor s v) = rs_started_at s"
  "row_vendor (with_vendor s v) = v"
  by (simp_all add: with_vendor_def radius_session.defs session_row.defs)

lemma truncate_active_rows:
  "radius_session.truncate ` set (active_rows env st P) =
     {s \<in> set (cs_sessions st). P s \<and> rs_status s = ''active''}"
proof -
  have "radius_session.truncate ` set (join_devices env s) = {s}" for s
    by (auto simp: join_devices_def image_iff split: list.split)
  then show ?thesis
    by (auto simp: active_rows_def image_UN)
qed

definition details_head :: "bool \<Rightarrow> string" where
  "details_head b =
     [CHR 0x7B, CHR 0x22] @ ''success'' @ [CHR 0x22] @ '': '' @ (if b then ''True'' else ''False'')"

text \<open>The audit text starts with the Python spelling of a truth value.\<close>

lemma coa_details_head: "prefix (details_head (cr_success r)) (coa_details r)"
proof -
  have items: "\<exists>u. py_join '', '' (py_repr_items (to_dict r)) = str_repr ''success'' @ '': '' @ py_repr (PBool (cr_success r)) @ u"
    by (simp add: to_dict_def)
  then obtain u where u: "py_repr (PDict (to_dict r)) =
      ''{'' @ (str_repr ''success'' @ '': '' @ py_repr (PBool (cr_success r)) @ u) @ ''}''"
    unfolding py_repr.simps by metis
  have h: "replace_char CHR 0x27 CHR 0x22 (''{'' @ str_repr ''success'' @ '': '' @ py_repr (PBool b))
      = details_head b" for b
  proof (cases b)
    case True
    show ?thesis unfolding eqTrueI [OF True] by code_simp
  next
    case False
    then have b: "b = False" by simp
    show ?thesis unfolding b by code_simp
  qed
  have "coa_details r = replace_char CHR 0x27 CHR 0x22
      ((''{'' @ str_repr ''success'' @ '': '' @ py_repr (PBool (cr_success r))) @ u @ ''}'')"
    unfolding coa_details_def py_str_def pyval.case u append_assoc ..
  also have "\<dots> = details_head (cr_success r) @ replace_char CHR 0x27 CHR 0x22 (u @ ''}'')"
    unfolding h [symmetric] by (simp add: replace_char_def)
  finally show ?thesis by (simp add: prefix_def)
qed

section \<open>Properties\<close>

text \<open>
  C15: Every datagram the service sends, over any sequence of messages, network answers and
  failures, is the signed encoding of a Disconnect-Request or CoA-Request, and the packet
  identifier stays within a byte. The facts come from the interpretation of the machine
  locale on the service.
\<close>

theorem coa_sends_requests:
  assumes "coa_ok s"
  shows "coa_ok (run coa_step s es)"
  using assms by (rule coa_machine.run_inv)

definition ex_session :: radius_session where
  "ex_session = \<lparr>rs_session_id = ''S1'', rs_calling_station_id = Some ''AA:BB:CC:DD:EE:FF'',
     rs_username = Some ''CORP alice'', rs_nas_ip = ''10.0.0.9'', rs_device_id = None,
     rs_assigned_vlan = Some 10, rs_status = ''active'', rs_started_at = 100\<rparr>"

definition ex_state :: coa_state where
  "ex_state = \<lparr>cs_identifier = 255, cs_sessions = [ex_session], cs_events = [], cs_sent = [],
     cs_published = []\<rparr>"

text \<open>A NAS that acknowledges everything with forty-one, the Disconnect-ACK.\<close>

definition ex_env :: coa_env where
  "ex_env = \<lparr>env_devices = [], env_decrypt = (\<lambda>c. Inr c),
     env_net = (\<lambda>ip bs. UdpEvents [DatagramReceived (41 # replicate 19 0)]),
     env_now = ''2024-01-01'', env_urandom = replicate 16 0,
     env_json_ok = (\<lambda>t. \<not> py_in ''True'' t \<and> \<not> py_in ''False'' t \<and> \<not> py_in ''None'' t)\<rparr>"

definition ex_disconnect :: message where
  "ex_disconnect = \<lparr>msg_subject = ''orw.policy.action.coa'',
     msg_data = [(''session_id'', PStr ''S1''), (''action'', PStr ''disconnect'')]\<rparr>"

theorem coa_sends_requests_witness:
  "coa_ok (run coa_step ex_state [(ex_env, ex_disconnect), (ex_env, ex_disconnect)])"
  by (rule coa_sends_requests) (simp add: coa_ok_def ex_state_def)

text \<open>
  C21: When an operation succeeds. Sending a packet that encodes reports success exactly
  when the first network event before the timeout is a datagram of at least twenty bytes
  whose code is CoA-ACK or Disconnect-ACK. Nothing else of the answer is looked at:
  neither its identifier nor its authenticator nor the secret.
\<close>

theorem coa_success_iff_ack:
  assumes "encode_packet pkt secret = Inr bs"
    and "radius_code_of (rp_code pkt) = Inr code"
  shows "(\<exists>r s'. send_packet env pkt ip secret action s = (Inr r, s') \<and> cr_success r) \<longleftrightarrow>
    (\<exists>es data. env_net env ip bs = UdpEvents es \<and> wait_response es = Inr data
       \<and> 20 \<le> length data \<and> is_ack (byte_int (data ! 0)))"
proof (cases "env_net env ip bs")
  case (EndpointError e)
  with assms show ?thesis
    using catch_network_success [of env ip action "Inl (OSError e)"]
    by (auto simp: send_packet_def catch_network_def failed_result_def)
next
  case (UdpEvents es)
  have "(\<exists>r s'. send_packet env pkt ip secret action s = (Inr r, s') \<and> cr_success r) \<longleftrightarrow>
      (\<exists>r. rbind (wait_response es) (read_response env ip secret action) = Inr r \<and> cr_success r)"
    using assms UdpEvents catch_network_success [of env ip action
        "rbind (wait_response es) (read_response env ip secret action)"]
    by (simp add: send_packet_def)
  then show ?thesis
    using UdpEvents read_response_success [of env ip secret action]
    by (cases "wait_response es") auto
qed

theorem coa_success_iff_ack_witness:
  "\<exists>bs. encode_packet ex_packet ''k'' = Inr bs \<and>
     (\<exists>r s'. send_packet ex_env ex_packet ''10.0.0.9'' ''k'' ''disconnect'' ex_state = (Inr r, s')
        \<and> cr_success r)"
proof -
  obtain bs where bs: "encode_packet ex_packet ''k'' = Inr bs"
    using encode_packet_cases [of ex_packet "''k''"] ex_packet_ok by blast
  have code: "radius_code_of (rp_code ex_packet) = Inr DISCONNECT_REQUEST"
    by code_simp
  have "wait_response [DatagramReceived (41 # replicate 19 0)] = Inr (41 # replicate 19 0)"
    by (simp add: wait_response_def protocol_event_def)
  moreover have "is_ack (byte_int ((41 # replicate 19 0) ! 0))"
    by code_simp
  ultimately show ?thesis
    using coa_success_iff_ack [OF bs code, of ex_env "''10.0.0.9''" "''disconnect''" ex_state] bs
    by (auto simp: ex_env_def)
qed

text \<open>
  An answer is not authenticated. Two datagrams that differ in the identifier and in
  the sixteen bytes of the authenticator, read with two different secrets, give the same
  result: a response that was not signed with the shared secret is accepted.
\<close>

theorem response_not_authenticated:
  assumes "length auth = 16" and "length auth' = 16"
  shows "read_response env ip secret action ([c, i, l1, l2] @ auth @ rest) =
    read_response env ip secret' action ([c, i', l1, l2] @ auth' @ rest)"
  using assms
  by (simp add: read_response_def decode_packet_def Let_def coa_result_of_def get_error_cause_def
      get_attr_string_def)

theorem response_not_authenticated_witness:
  "read_response ex_env ''10.0.0.9'' ''right'' ''disconnect''
      ([41, 1, 0, 20] @ replicate 16 0 @ []) =
   read_response ex_env ''10.0.0.9'' ''wrong'' ''disconnect''
      ([41, 9, 0, 20] @ replicate 16 255 @ [])"
  using response_not_authenticated [of "replicate 16 0" "replicate 16 255" ex_env "''10.0.0.9''"
      "''right''" "''disconnect''" 41 1 0 20 "[]" "''wrong''" 9] by simp

text \<open>
  Which sessions a CoA by user name reaches. For a name without pattern characters the
  sessions are those active ones whose user name contains the given one anywhere, in any
  case: an order for \<open>ann\<close> also hits \<open>joanna\<close>.
\<close>

theorem username_hits_substrings:
  assumes "plain_name username"
  shows "\<exists>rows. find_active_sessions_by_user env username st = (Inr rows, st) \<and>
    radius_session.truncate ` set rows =
      {s \<in> set (cs_sessions st). rs_status s = ''active'' \<and>
         (\<exists>u. rs_username s = Some u \<and> sublist (py_lower username) (py_lower u))}"
  using assms
  by (auto simp: find_active_sessions_by_user_def truncate_active_rows
      sql_ilike_contains [simplified] split: option.splits)

theorem username_hits_substrings_witness:
  "\<exists>rows. find_active_sessions_by_user ex_env ''LIC'' ex_state = (Inr rows, ex_state) \<and>
     radius_session.truncate ` set rows = {ex_session}"
proof -
  have "sublist (py_lower ''LIC'') (py_lower ''CORP alice'')"
    unfolding py_in_sublist [symmetric] by code_simp
  then have "{s \<in> set (cs_sessions ex_state). rs_status s = ''active'' \<and>
      (\<exists>u. rs_username s = Some u \<and> sublist (py_lower ''LIC'') (py_lower u))} = {ex_session}"
    by (auto simp: ex_state_def ex_session_def)
  with username_hits_substrings [of "''LIC''" ex_env ex_state] show ?thesis
    by (simp add: plain_name_def)
qed

subsection \<open>The audit trail is never written\<close>

text \<open>What PostgreSQL documents of \<open>jsonb\<close>: the literals are \<open>true\<close> and \<open>false\<close>.\<close>

definition rejects_python_bools :: "coa_env \<Rightarrow> bool" where
  "rejects_python_bools env \<longleftrightarrow>
     (\<forall>b t. prefix (details_head b) t \<longrightarrow> \<not> env_json_ok env t)"

definition same_records :: "coa_state \<Rightarrow> coa_state \<Rightarrow> bool" where
  "same_records s t \<longleftrightarrow> cs_sessions t = cs_sessions s \<and> cs_events t = cs_events s
     \<and> cs_published t = cs_published s"

lemma same_records_next_id: "keeps (same_records s) next_id"
  by (auto intro!: keeps_intros simp: next_id_def same_records_def)

lemma same_records_send_for: "keeps (same_records s0) (send_for env ip secret sid mac action built)"
  unfolding keeps_def
proof (intro allI impI)
  fix s assume "same_records s0 s"
  with send_for_state [of env ip secret sid mac action built s]
  show "same_records s0 (snd (send_for env ip secret sid mac action built s))"
    by (auto simp: same_records_def record_sent_def)
qed

lemma same_records_dispatch:
  "dispatch_coa env row secret action vlan acl = Some operation \<Longrightarrow> keeps (same_records s0) operation"
  by (auto simp: dispatch_coa_def Let_def disconnect_session_def reauthenticate_session_def
      change_vlan_def apply_acl_def same_records_next_id same_records_send_for
      intro!: keeps_sbind split: if_splits)

lemma log_coa_rejected:
  "rejects_python_bools env \<Longrightarrow>
   log_coa env row r s = (Inl (DbError ''invalid input syntax for type json''), s)"
  using coa_details_head [of r] by (auto simp: log_coa_def rejects_python_bools_def)

text \<open>
  The audit insert always fails. The details are the \<open>str()\<close> of a dictionary, so they
  contain the Python spelling of its first value; with a database that rejects it,
  no CoA that was sent is ever recorded: the session table, the events and the published
  results stay as they were, and the operation ends in an exception, so an acknowledged
  disconnect leaves its session active and the message is delivered again.
\<close>

theorem coa_never_recorded:
  assumes "rejects_python_bools env"
    and "execute_coa env row action vlan acl s = (r, s')"
  shows "same_records s s' \<and>
    (case r of Inl e \<Rightarrow> True
     | Inr res \<Rightarrow> s' = s \<and> (\<forall>secret. dispatch_coa env row secret action vlan acl = None))"
proof (cases "get_coa_secret env (rs_nas_ip row)")
  case (Inl e)
  with assms(2) show ?thesis by (auto simp: execute_coa_def same_records_def)
next
  case (Inr secret)
  show ?thesis
  proof (cases "dispatch_coa env row secret action vlan acl")
    case None
    then have "dispatch_coa env row sec action vlan acl = None" for sec
      by (simp add: dispatch_coa_def Let_def split: if_splits)
    with None Inr assms(2) show ?thesis by (auto simp: execute_coa_def same_records_def)
  next
    case (Some operation)
    obtain q s1 where run: "operation s = (q, s1)" by (cases "operation s")
    have "same_records s s1"
      using keepsD [OF same_records_dispatch [OF Some] _ run, of s] by (simp add: same_records_def)
    moreover have "s' = s1 \<and> (\<exists>e. r = Inl e)"
      using assms Inr Some run log_coa_rejected [OF assms(1), of row _ s1]
      by (cases q) (auto simp: execute_coa_def sbind_def)
    ultimately show ?thesis by auto
  qed
qed

lemma ex_env_rejects: "rejects_python_bools ex_env"
proof -
  have "py_in ''True'' (details_head True)" "py_in ''False'' (details_head False)"
    by code_simp+
  then have "py_in (if b then ''True'' else ''False'') (details_head b)" for b
    by simp
  moreover have "prefix (details_head b) t \<Longrightarrow> sublist (details_head b) t" for b t
    by (rule prefix_imp_sublist)
  ultimately have "prefix (details_head b) t \<Longrightarrow> py_in (if b then ''True'' else ''False'') t" for b t
    unfolding py_in_sublist by (meson sublist_order.order_trans)
  then have "prefix (details_head b) t \<Longrightarrow> py_in ''True'' t \<or> py_in ''False'' t" for b t
    by (cases b) fastforce+
  then show ?thesis by (auto simp: rejects_python_bools_def ex_env_def)
qed

theorem coa_never_recorded_witness:
  "\<exists>r s'. execute_coa ex_env (with_vendor ex_session None) ''disconnect'' PNone PNone ex_state = (r, s')
     \<and> same_records ex_state s' \<and> (\<exists>e. r = Inl e)"
proof -
  obtain r s' where run: "execute_coa ex_env (with_vendor ex_session None) ''disconnect''
      PNone PNone ex_state = (r, s')" by fastforce
  have "dispatch_coa ex_env (with_vendor ex_session None) [] ''disconnect'' PNone PNone \<noteq> None"
    by (simp add: dispatch_coa_def)
  with coa_never_recorded [OF ex_env_rejects run] run show ?thesis
    by (cases r) auto
qed

subsection \<open>A switch that is not in the device table\<close>

text \<open>
  Sessions of unlisted switches cannot be re-authenticated. When no network device has
  the address of the session's NAS, the row carries a null vendor and \<open>vendor.lower()\<close>
  raises: a re-authentication or VLAN change uses up an identifier, sends nothing, records
  nothing and fails; the default vendor of the signature is never reached.
\<close>

theorem unlisted_switch_fails:
  assumes "\<forall>d \<in> set (env_devices env). nd_ip_address d \<noteq> rs_nas_ip sess"
    and "action = ''reauthenticate'' \<or> action = ''vlan_change'' \<and> vlan \<noteq> PNone"
    and "row \<in> set (join_devices env sess)"
  shows "execute_coa env row action vlan acl s =
    (Inl (AttributeError ''lower''), s\<lparr>cs_identifier := next_identifier (cs_identifier s)\<rparr>)"
proof -
  have none: "filter (\<lambda>d. nd_ip_address d = rs_nas_ip sess) (env_devices env) = []"
    using assms(1) by (simp add: filter_empty_conv)
  with assms(3) have row: "row = with_vendor sess None" by (simp add: join_devices_def)
  have secret: "get_coa_secret env (rs_nas_ip sess) = Inr DEFAULT_COA_SECRET"
    using assms(1) by (auto simp: get_coa_secret_def find_None_iff_all split: option.split
        dest: find_Some_in)
  from assms(2) show ?thesis
  proof
    assume "action = ''reauthenticate''"
    then show ?thesis
      by (simp add: execute_coa_def secret dispatch_coa_def Let_def reauthenticate_session_def
          sbind_def next_id_def send_for_def build_reauthenticate_def row lower_of_def)
  next
    assume "action = ''vlan_change'' \<and> vlan \<noteq> PNone"
    then show ?thesis
      by (simp add: execute_coa_def secret dispatch_coa_def Let_def change_vlan_def
          sbind_def next_id_def send_for_def build_change_vlan_def row lower_of_def
          add_tunnel_vlan_def pack_BI_4_def pack_B_def pack_I_def)
  qed
qed

theorem unlisted_switch_fails_witness:
  "execute_coa ex_env (with_vendor ex_session None) ''vlan_change'' (PInt 30) PNone ex_state =
     (Inl (AttributeError ''lower''), ex_state\<lparr>cs_identifier := 0\<rparr>)"
  using unlisted_switch_fails [of ex_env ex_session "''vlan_change''" "PInt 30"
      "with_vendor ex_session None" PNone ex_state]
  by (simp add: ex_env_def join_devices_def ex_state_def next_identifier_def)

end
