(* ===== verification/Secrets.thy ===== *)
theory Secrets
  imports Radius_Packet Py_Effects
begin

text \<open>
  Secrets at rest, \<open>shared/orw_common/secrets.py\<close>: the urlsafe base64 of the standard
  library with its permissive decoding, the key derivation from the environment, and the
  vault that encrypts and decrypts. Argon2id and AES-GCM are third-party code: they are
  the fields of a record the definitions take, with what the module relies on stated as
  \<open>aead_ok\<close>. The vault's state is its cached key.
\<close>

section \<open>Base64\<close>

definition b64_alphabet :: string where
  "b64_alphabet = ''ABCDEFGHIJKLMNOPQRSTUVWXYZabcdefghijklmnopqrstuvwxyz0123456789-_''"

definition b64_char :: "nat \<Rightarrow> char" where
  "b64_char n = b64_alphabet ! n"

text \<open>The urlsafe alphabet and, through the translation, the two characters it replaces.\<close>

definition b64_val :: "char \<Rightarrow> nat option" where
  "b64_val c =
     (if 65 \<le> ord_of c \<and> ord_of c \<le> 90 then Some (ord_of c - 65)
      else if 97 \<le> ord_of c \<and> ord_of c \<le> 122 then Some (ord_of c - 71)
      else if 48 \<le> ord_of c \<and> ord_of c \<le> 57 then Some (ord_of c + 4)
      else if c = CHR ''-'' \<or> c = CHR ''+'' then Some 62
      else if c = CHR ''_'' \<or> c = CHR ''/'' then Some 63
      else None)"

text \<open>The four six-bit groups of three octets, and how decoding joins them again.\<close>

definition hi6 :: "nat \<Rightarrow> nat" where "hi6 a = a div 4"
definition mid1 :: "nat \<Rightarrow> nat \<Rightarrow> nat" where "mid1 a b = a mod 4 * 16 + b div 16"
definition mid2 :: "nat \<Rightarrow> nat \<Rightarrow> nat" where "mid2 b c = b mod 16 * 4 + c div 64"
definition lo6 :: "nat \<Rightarrow> nat" where "lo6 c = c mod 64"
definition join1 :: "nat \<Rightarrow> nat \<Rightarrow> nat" where "join1 left v = left * 4 + v div 16"
definition join2 :: "nat \<Rightarrow> nat \<Rightarrow> nat" where "join2 left v = left * 16 + v div 4"
definition join3 :: "nat \<Rightarrow> nat \<Rightarrow> nat" where "join3 left v = left * 64 + v"
definition left1 :: "nat \<Rightarrow> nat" where "left1 v = v mod 16"
definition left2 :: "nat \<Rightarrow> nat" where "left2 v = v mod 4"

fun b64_encode :: "bytes \<Rightarrow> string" where
  "b64_encode [] = []"
| "b64_encode [a] =
     [b64_char (hi6 (unat a)), b64_char (mid1 (unat a) 0), CHR ''='', CHR ''='']"
| "b64_encode [a, b] =
     [b64_char (hi6 (unat a)), b64_char (mid1 (unat a) (unat b)),
      b64_char (mid2 (unat b) 0), CHR ''='']"
| "b64_encode (a # b # c # rest) =
     [b64_char (hi6 (unat a)), b64_char (mid1 (unat a) (unat b)),
      b64_char (mid2 (unat b) (unat c)), b64_char (lo6 (unat c))] @ b64_encode rest"

text \<open>
  \<open>binascii.a2b_base64\<close> in its non-strict mode: characters outside the alphabet are
  skipped, a complete padding ends the input, an incomplete group at the end raises. The
  arguments are the position in the group, the pads seen and the bits left over.
\<close>

fun a2b_base64 :: "nat \<Rightarrow> nat \<Rightarrow> nat \<Rightarrow> string \<Rightarrow> bytes result" where
  "a2b_base64 quad pads left [] =
     (if quad \<noteq> 0 then Inl (ValueError ''Incorrect padding'') else Inr [])"
| "a2b_base64 quad pads left (c # s) =
     (if c = CHR ''='' then
        (if 2 \<le> quad \<and> 4 \<le> quad + (pads + 1) then Inr []
         else a2b_base64 quad (if 2 \<le> quad then pads + 1 else pads) left s)
      else
        (case b64_val c of
           None \<Rightarrow> a2b_base64 quad pads left s
         | Some v \<Rightarrow>
             if quad = 0 then a2b_base64 1 0 v s
             else if quad = 1 then
               rbind (a2b_base64 2 0 (left1 v) s) (\<lambda>bs. Inr (of_nat (join1 left v) # bs))
             else if quad = 2 then
               rbind (a2b_base64 3 0 (left2 v) s) (\<lambda>bs. Inr (of_nat (join2 left v) # bs))
             else
               rbind (a2b_base64 0 0 0 s) (\<lambda>bs. Inr (of_nat (join3 left v) # bs))))"

text \<open>\<open>_b64url_decode\<close>: missing padding is supplied.\<close>

definition b64url_decode :: "string \<Rightarrow> bytes result" where
  "b64url_decode s = a2b_base64 0 0 0 (s @ replicate ((4 - length s mod 4) mod 4) CHR ''='')"

lemma b64_char_table:
  "list_all (\<lambda>n. b64_val (b64_char n) = Some n \<and> b64_char n \<noteq> CHR ''='') [0..<64]"
  by code_simp

lemma b64_val_char [simp]: "n < 64 \<Longrightarrow> b64_val (b64_char n) = Some n"
  using b64_char_table by (simp add: list_all_iff del: upt_Suc)

lemma b64_char_pad [simp]: "n < 64 \<Longrightarrow> b64_char n \<noteq> CHR ''=''"
  using b64_char_table by (simp add: list_all_iff del: upt_Suc)

lemma unat_byte [simp]: "unat (b :: byte) < 256"
  using unsigned_less [of b] by simp

lemma b64_parts [simp]:
  "a < 256 \<Longrightarrow> hi6 a < 64" "b < 256 \<Longrightarrow> mid1 a b < 64" "c < 256 \<Longrightarrow> mid2 b c < 64" "lo6 c < 64"
  unfolding hi6_def mid1_def mid2_def lo6_def by arith+

lemma b64_left:
  "b < 256 \<Longrightarrow> left1 (mid1 a b) = b div 16" "c < 256 \<Longrightarrow> left2 (mid2 b c) = c div 64"
proof -
  assume "b < 256"
  then have "b div 16 < 16" by arith
  then show "left1 (mid1 a b) = b div 16" by (simp add: left1_def mid1_def)
next
  assume "c < 256"
  then have "c div 64 < 4" by arith
  then show "left2 (mid2 b c) = c div 64" by (simp add: left2_def mid2_def)
qed

lemma b64_join [simp]:
  "b < 256 \<Longrightarrow> join1 (hi6 a) (mid1 a b) = a"
  "b < 256 \<Longrightarrow> c < 256 \<Longrightarrow> join2 (left1 (mid1 a b)) (mid2 b c) = b"
  "c < 256 \<Longrightarrow> join3 (left2 (mid2 b c)) (lo6 c) = c"
proof -
  assume "b < 256"
  then have "b div 16 < 16" by arith
  then show "join1 (hi6 a) (mid1 a b) = a" by (simp add: join1_def hi6_def mid1_def)
next
  assume "b < 256" and "c < 256"
  moreover have "c div 64 < 4" using \<open>c < 256\<close> by arith
  ultimately show "join2 (left1 (mid1 a b)) (mid2 b c) = b"
    by (simp add: b64_left join2_def mid2_def)
next
  assume "c < 256"
  then show "join3 (left2 (mid2 b c)) (lo6 c) = c" by (simp add: b64_left join3_def lo6_def)
qed

lemma a2b_encode: "a2b_base64 0 0 0 (b64_encode bs) = Inr bs"
proof (induction bs rule: b64_encode.induct)
  case (4 a b c rest)
  then show ?case by simp
qed simp_all

lemma length_b64_encode: "length (b64_encode bs) mod 4 = 0"
  by (induction bs rule: b64_encode.induct) auto

lemma b64url_decode_encode: "b64url_decode (b64_encode bs) = Inr bs"
  by (simp add: b64url_decode_def length_b64_encode a2b_encode)

lemma b64_encode_Nil_iff [simp]: "b64_encode bs = [] \<longleftrightarrow> bs = []"
  by (cases bs rule: b64_encode.cases) auto

section \<open>Key derivation and the vault\<close>

record crypto =
  cr_argon2id :: "bytes \<Rightarrow> bytes \<Rightarrow> bytes"
  cr_gcm_encrypt :: "bytes \<Rightarrow> bytes \<Rightarrow> bytes \<Rightarrow> bytes"
  cr_gcm_decrypt :: "bytes \<Rightarrow> bytes \<Rightarrow> bytes \<Rightarrow> bytes option"

record secret_environ =
  se_master :: string
  se_salt :: string

definition VERSION :: byte where "VERSION = 1"
definition NONCE_LEN :: nat where "NONCE_LEN = 12"
definition TAG_LEN :: nat where "TAG_LEN = 16"

text \<open>What AES-GCM documents: decryption inverts encryption; the output holds the tag.\<close>

definition aead_ok :: "crypto \<Rightarrow> bool" where
  "aead_ok cr \<longleftrightarrow> (\<forall>k n pt. cr_gcm_decrypt cr k n (cr_gcm_encrypt cr k n pt) = Some pt
     \<and> length (cr_gcm_encrypt cr k n pt) = length pt + TAG_LEN)"

definition derive_key :: "crypto \<Rightarrow> secret_environ \<Rightarrow> bytes result" where
  "derive_key cr environ =
     (if se_master environ = [] \<or> se_salt environ = []
      then Inl (RuntimeError ''Missing env var(s)'')
      else case b64url_decode (se_salt environ) of
        Inl e \<Rightarrow> Inl (RuntimeError ''salt is not valid urlsafe-base64'')
      | Inr salt \<Rightarrow>
          if length salt < 8 then Inl (RuntimeError ''salt too short'')
          else Inr (cr_argon2id cr (encode_utf8 (se_master environ)) salt))"

text \<open>\<open>_aesgcm\<close>: the key is derived on first use and cached.\<close>

definition vault_key :: "crypto \<Rightarrow> secret_environ \<Rightarrow> (bytes option, bytes) prog" where
  "vault_key cr environ st =
     (case st of
        Some k \<Rightarrow> (Inr k, st)
      | None \<Rightarrow> (case derive_key cr environ of
                   Inl e \<Rightarrow> (Inl e, st)
                 | Inr k \<Rightarrow> (Inr k, Some k)))"

definition decode_utf8 :: "bytes \<Rightarrow> string result" where
  "decode_utf8 bs =
     (if list_all (\<lambda>b. b < 128) bs then Inr (decode_utf8_replace bs)
      else Inl (ValueError ''utf-8 codec can not decode''))"

text \<open>\<open>encrypt\<close>; \<open>nonce\<close> is what \<open>os.urandom\<close> returned.\<close>

definition encrypt_secret ::
  "crypto \<Rightarrow> secret_environ \<Rightarrow> bytes \<Rightarrow> pyval \<Rightarrow> (bytes option, string option) prog" where
  "encrypt_secret cr environ nonce plaintext =
     (case plaintext of
        PNone \<Rightarrow> sret None
      | PStr s \<Rightarrow>
          sbind (vault_key cr environ) (\<lambda>k.
            sret (Some (b64_encode ([VERSION] @ nonce @ cr_gcm_encrypt cr k nonce (encode_utf8 s)))))
      | _ \<Rightarrow> sraise (TypeError ''encrypt_secret expects str''))"

definition decrypt_secret ::
  "crypto \<Rightarrow> secret_environ \<Rightarrow> pyval \<Rightarrow> (bytes option, string option) prog" where
  "decrypt_secret cr environ ciphertext =
     (case ciphertext of
        PNone \<Rightarrow> sret None
      | PStr s \<Rightarrow>
          if s = [] then sret (Some [])
          else (case b64url_decode s of
            Inl e \<Rightarrow> sraise (ValueError ''input is not valid urlsafe-base64'')
          | Inr blob \<Rightarrow>
              if length blob < 1 + NONCE_LEN + TAG_LEN then sraise (ValueError ''blob too short'')
              else if blob ! 0 \<noteq> VERSION then sraise (ValueError ''unknown version byte'')
              else
                sbind (vault_key cr environ) (\<lambda>k.
                  case cr_gcm_decrypt cr k (take NONCE_LEN (drop 1 blob)) (drop (1 + NONCE_LEN) blob) of
                    None \<Rightarrow> sraise InvalidTag
                  | Some pt \<Rightarrow> sbind (slift (decode_utf8 pt)) (\<lambda>t. sret (Some t))))
      | _ \<Rightarrow> sraise (TypeError ''decrypt_secret expects str''))"

definition is_encrypted :: "pyval \<Rightarrow> bool" where
  "is_encrypted v =
     (case v of
        PStr s \<Rightarrow> (case b64url_decode s of
            Inl e \<Rightarrow> False
          | Inr blob \<Rightarrow> 1 + NONCE_LEN + TAG_LEN \<le> length blob \<and> blob ! 0 = VERSION)
      | _ \<Rightarrow> False)"

section \<open>Properties\<close>

lemma decode_utf8_ascii: "decode_utf8 bs = Inr t \<Longrightarrow> \<forall>c \<in> set t. ord_of c < 128"
  by (auto simp: decode_utf8_def decode_utf8_replace_def list_all_iff word_less_nat_alt
      split: if_splits)

text \<open>A vault whose key is cached decrypts without changing its state.\<close>

lemma decrypt_cached: "snd (decrypt_secret cr environ v (Some k)) = Some k"
  by (auto simp: decrypt_secret_def vault_key_def sbind_def split: pyval.split option.split sum.split)

lemma encrypt_cached:
  "encrypt_secret cr environ nonce (PStr t) (Some k) =
     (Inr (Some (b64_encode ([VERSION] @ nonce @ cr_gcm_encrypt cr k nonce (encode_utf8 t)))), Some k)"
  by (simp add: encrypt_secret_def vault_key_def sbind_def)

lemma decrypted_ascii:
  "decrypt_secret cr environ v st = (Inr (Some t), st') \<Longrightarrow> \<forall>c \<in> set t. ord_of c < 128"
  by (auto simp: decrypt_secret_def sbind_def dest: decode_utf8_ascii
      split: pyval.splits sum.splits if_splits prod.splits option.splits)

lemma vault_key_again:
  "vault_key cr environ st = (Inr k, st') \<Longrightarrow> vault_key cr environ' st' = (Inr k, st')"
  by (auto simp: vault_key_def split: option.splits sum.splits)

lemma decode_utf8_encode: "\<forall>c \<in> set s. ord_of c < 128 \<Longrightarrow> decode_utf8 (encode_utf8 s) = Inr s"
proof -
  assume ascii: "\<forall>c \<in> set s. ord_of c < 128"
  then have "list_all (\<lambda>b. b < 128) (encode_utf8 s)"
    by (auto simp: encode_utf8_def list_all_iff word_less_nat_alt unat_of_nat)
  then show ?thesis by (simp add: decode_utf8_def decode_encode_utf8 [OF ascii])
qed

lemma encrypt_then_decrypt:
  assumes "aead_ok cr" and "length nonce = NONCE_LEN" and "\<forall>c \<in> set s. ord_of c < 128"
    and "encrypt_secret cr environ nonce (PStr s) st = (Inr (Some ct), st')"
  shows "decrypt_secret cr environ' (PStr ct) st' = (Inr (Some s), st') \<and> is_encrypted (PStr ct)"
proof -
  from assms(4) obtain k where key: "vault_key cr environ st = (Inr k, st')"
    and ct: "ct = b64_encode (VERSION # nonce @ cr_gcm_encrypt cr k nonce (encode_utf8 s))"
    by (auto simp: encrypt_secret_def sbind_def split: prod.splits sum.splits)
  let ?blob = "VERSION # nonce @ cr_gcm_encrypt cr k nonce (encode_utf8 s)"
  have blob: "b64url_decode ct = Inr ?blob" by (simp add: ct b64url_decode_encode)
  have len: "1 + NONCE_LEN + TAG_LEN \<le> length ?blob"
    using assms(1,2) by (simp add: aead_ok_def)
  have "ct \<noteq> []" by (simp add: ct)
  moreover have "cr_gcm_decrypt cr k nonce (cr_gcm_encrypt cr k nonce (encode_utf8 s))
      = Some (encode_utf8 s)"
    using assms(1) by (simp add: aead_ok_def)
  ultimately show ?thesis
    using assms(2) blob len vault_key_again [OF key, of environ'] decode_utf8_encode [OF assms(3)]
    by (simp add: decrypt_secret_def is_encrypted_def sbind_def)
qed

text \<open>
  C20: What is encrypted decrypts to itself. For an ASCII text and a nonce of twelve bytes,
  whenever encryption succeeds its result passes the structural check and decrypts, with
  the key the vault cached and whatever the environment has become, to the original text.
\<close>

theorem secret_roundtrip:
  assumes "aead_ok cr" and "length nonce = NONCE_LEN" and "\<forall>c \<in> set s. ord_of c < 128"
    and "encrypt_secret cr environ nonce (PStr s) st = (Inr (Some ct), st')"
  shows "decrypt_secret cr environ' (PStr ct) st' = (Inr (Some s), st') \<and> is_encrypted (PStr ct)"
  using assms by (rule encrypt_then_decrypt)

definition ex_crypto :: crypto where
  "ex_crypto = \<lparr>cr_argon2id = (\<lambda>m s. m @ s),
     cr_gcm_encrypt = (\<lambda>k n pt. pt @ replicate TAG_LEN 0),
     cr_gcm_decrypt = (\<lambda>k n ct. Some (take (length ct - TAG_LEN) ct))\<rparr>"

definition ex_environ :: secret_environ where
  "ex_environ = \<lparr>se_master = ''master'', se_salt = ''AAAAAAAAAAAAAAAA''\<rparr>"

theorem secret_roundtrip_witness:
  "\<exists>ct st. encrypt_secret ex_crypto ex_environ (replicate 12 7) (PStr ''hunter2'') None
       = (Inr (Some ct), st) \<and>
     decrypt_secret ex_crypto ex_environ (PStr ct) st = (Inr (Some ''hunter2''), st)"
proof -
  have ok: "aead_ok ex_crypto" by (simp add: aead_ok_def ex_crypto_def)
  have n: "length (replicate 12 (7::byte)) = NONCE_LEN" by (simp add: NONCE_LEN_def)
  have ascii: "\<forall>c \<in> set ''hunter2''. ord_of c < 128" by simp
  have "\<exists>k. derive_key ex_crypto ex_environ = Inr k"
  proof -
    have "case b64url_decode (se_salt ex_environ) of Inl e \<Rightarrow> False | Inr salt \<Rightarrow> 8 \<le> length salt"
      by code_simp
    then show ?thesis
      by (auto simp: derive_key_def ex_environ_def split: sum.splits)
  qed
  then have "\<exists>ct st. encrypt_secret ex_crypto ex_environ (replicate 12 7) (PStr ''hunter2'') None
      = (Inr (Some ct), st)"
    by (auto simp: encrypt_secret_def vault_key_def sbind_def)
  then obtain ct st where enc: "encrypt_secret ex_crypto ex_environ (replicate 12 7)
      (PStr ''hunter2'') None = (Inr (Some ct), st)" by blast
  show ?thesis using secret_roundtrip [OF ok n ascii enc, of ex_environ] enc by blast
qed

text \<open>
  Decryption is strict. A non-empty text that does not have the structure of a
  ciphertext is never passed through: it raises \<open>ValueError\<close> before any key is derived.
  Comments in the FreeRADIUS generator and the CoA manager still describe a passthrough.
\<close>

theorem decrypt_is_strict:
  assumes "s \<noteq> []" and "\<not> is_encrypted (PStr s)"
  shows "\<exists>m. decrypt_secret cr environ (PStr s) st = (Inl (ValueError m), st)"
  using assms by (auto simp: decrypt_secret_def is_encrypted_def split: sum.splits)

theorem decrypt_is_strict_witness:
  "\<exists>m. decrypt_secret ex_crypto ex_environ (PStr ''testing123'') None = (Inl (ValueError m), None)"
proof -
  have "\<not> is_encrypted (PStr ''testing123'')" by code_simp
  then show ?thesis by (intro decrypt_is_strict) simp_all
qed

end
