(* ===== verification/Freeradius_Config.thy ===== *)
theory Freeradius_Config
  imports Secrets "HOL-Library.List_Lexorder"
begin

text \<open>
  The FreeRADIUS configuration manager,
  \<open>services/auth/freeradius_config_manager.py\<close>: loading the rows, generating the files,
  writing them and tracking their hashes in \<open>freeradius_config\<close>. Rows are dictionaries as
  \<open>RealDictCursor\<close> gives them. The environment record holds the Jinja engine with its
  templates, the decryption of stored secrets, the clock, the failures of the file
  system, and whether the upsert succeeds. The identifier of the default tenant is read
  from the table each time; the code memoises it.
\<close>

section \<open>State and environment\<close>

record config_row =
  cf_type :: string
  cf_name :: string
  cf_tenant :: "string option"
  cf_content :: string
  cf_hash :: string
  cf_last_hash :: "string option"
  cf_status :: string
  cf_error :: "string option"

record fr_state =
  fs_certificates :: "pydict list"
  fs_ldap_servers :: "pydict list"
  fs_realms :: "pydict list"
  fs_nas_clients :: "pydict list"
  fs_settings :: "(string \<times> string \<times> string) list"
  fs_tenants :: "(string \<times> string) list"
  fs_rows :: "config_row list"
  fs_files :: "(string, string \<times> nat) dict"

record fr_env =
  fe_render :: "string \<Rightarrow> pydict \<Rightarrow> string result"
  fe_decrypt :: "pyval \<Rightarrow> string option result"
  fe_now :: string
  fe_override :: string
  fe_isfile :: "string \<Rightarrow> bool"
  fe_write_error :: "string \<Rightarrow> string option"
  fe_save_ok :: "string \<Rightarrow> string \<Rightarrow> bool"
  fe_output_dir :: string
  fe_cert_dir :: string

record cfg_result =
  cg_status :: string
  cg_hash :: string
  cg_error :: "string option"

section \<open>Helpers\<close>

definition path_join :: "string \<Rightarrow> string \<Rightarrow> string" where
  "path_join a b =
     (if b \<noteq> [] \<and> hd b = CHR ''/'' then b
      else if a = [] \<or> last a = CHR ''/'' then a @ b else a @ ''/'' @ b)"

definition col :: "pydict \<Rightarrow> string \<Rightarrow> string" where
  "col row k = py_str (py_get row k)"

definition int_col :: "pydict \<Rightarrow> string \<Rightarrow> int" where
  "int_col row k = (case py_get row k of PInt i \<Rightarrow> i | _ \<Rightarrow> 0)"

definition true_col :: "string \<Rightarrow> pydict \<Rightarrow> bool" where
  "true_col k row \<longleftrightarrow> py_get row k = PBool True"

definition is_type :: "string \<Rightarrow> string \<Rightarrow> pydict \<Rightarrow> bool" where
  "is_type k t row \<longleftrightarrow> py_get row k = PStr t"

text \<open>\<open>.lower()\<close>, then blanks, dashes and dots become underscores.\<close>

definition safe_name :: "string \<Rightarrow> string" where
  "safe_name name =
     replace_char CHR ''.'' CHR ''_''
       (replace_char CHR ''-'' CHR ''_'' (replace_char CHR '' '' CHR ''_'' (py_lower name)))"

definition nl :: string where "nl = [CHR 0x0A]"

definition hex_of_bytes :: "bytes \<Rightarrow> string" where
  "hex_of_bytes bs = concat (map (\<lambda>b. [hex_digit (unat b div 16), hex_digit (unat b mod 16)]) bs)"

definition compute_hash :: "string \<Rightarrow> string" where
  "compute_hash content = hex_of_bytes (sha256 (encode_utf8 content))"

definition python3_candidates :: "string list" where
  "python3_candidates =
     [''/usr/lib/freeradius/rlm_python3.so'',
      ''/usr/lib/x86_64-linux-gnu/freeradius/rlm_python3.so'',
      ''/usr/lib/aarch64-linux-gnu/freeradius/rlm_python3.so'']"

definition rlm_python3_available :: "fr_env \<Rightarrow> bool" where
  "rlm_python3_available env =
     (let override = py_lower (py_strip (fe_override env))
      in if override \<in> set [''true'', ''1'', ''yes''] then True
         else if override \<in> set [''false'', ''0'', ''no''] then False
         else list_ex (fe_isfile env) python3_candidates)"

section \<open>Loading the rows\<close>

definition load_active_certificates :: "fr_state \<Rightarrow> pydict list" where
  "load_active_certificates s =
     sort_key (\<lambda>c. col c ''cert_type'') (sort_key (\<lambda>c. col c ''name'')
       (filter (\<lambda>c. true_col ''is_active'' c \<and> true_col ''enabled'' c) (fs_certificates s)))"

definition load_ldap_servers :: "fr_state \<Rightarrow> pydict list" where
  "load_ldap_servers s =
     sort_key (\<lambda>c. int_col c ''priority'') (sort_key (\<lambda>c. col c ''name'')
       (filter (true_col ''enabled'') (fs_ldap_servers s)))"

text \<open>The columns joined from \<open>ldap_servers\<close> are not used by the generators.\<close>

definition load_realms :: "fr_state \<Rightarrow> pydict list" where
  "load_realms s =
     sort_key (\<lambda>c. int_col c ''priority'') (sort_key (\<lambda>c. col c ''name'')
       (filter (true_col ''enabled'') (fs_realms s)))"

definition load_nas_clients :: "fr_state \<Rightarrow> pydict list" where
  "load_nas_clients s =
     sort_key (\<lambda>c. col c ''name'') (filter (true_col ''enabled'') (fs_nas_clients s))"

definition load_system_settings :: "fr_state \<Rightarrow> string \<Rightarrow> (string, string) dict" where
  "load_system_settings s category =
     fold (\<lambda>(c, k, v) d. if c = category then dict_set k v d else d) (fs_settings s) []"

section \<open>The generators\<close>

text \<open>\<open>try: render ... except Exception: return ""\<close>.\<close>

definition render_or_empty :: "fr_env \<Rightarrow> string \<Rightarrow> pydict \<Rightarrow> string" where
  "render_or_empty env template vars =
     (case fe_render env template ((''generated_at'', PStr (fe_now env)) # vars) of
        Inl e \<Rightarrow> [] | Inr t \<Rightarrow> t)"

definition generate_eap_config :: "fr_env \<Rightarrow> fr_state \<Rightarrow> string" where
  "generate_eap_config env s =
     (let certs = load_active_certificates s;
          radius_settings = load_system_settings s ''radius'';
          ca_cert = find (is_type ''cert_type'' ''ca'') certs;
          server_cert = find (is_type ''cert_type'' ''server'') certs;
          dir = fe_cert_dir env;
          has_dh = (case server_cert of Some c \<Rightarrow> truthy (py_get c ''dh_params_pem'') | None \<Rightarrow> False)
                 \<or> (case ca_cert of Some c \<Rightarrow> truthy (py_get c ''dh_params_pem'') | None \<Rightarrow> False)
      in render_or_empty env ''eap.j2''
           [(''ca_cert_path'', PStr (path_join dir ''ca.pem'')),
            (''ca_path'', PStr (path_join dir ''trusted-cas/'')),
            (''server_cert_path'', PStr (path_join dir ''server.pem'')),
            (''server_key_path'', PStr (path_join dir ''server.key'')),
            (''dh_file'', (if has_dh then PStr (path_join dir ''dh.pem'') else PNone)),
            (''default_eap_type'', PStr (dict_get_or radius_settings ''default_eap_type'' ''peap'')),
            (''timer_expire'', PInt 60),
            (''max_sessions'', PInt 4096),
            (''tls_min_version'', PStr (dict_get_or radius_settings ''tls_min_version'' ''1.2'')),
            (''tls_max_version'', PStr (dict_get_or radius_settings ''tls_max_version'' ''1.2'')),
            (''cipher_list'', PStr ''DEFAULT''),
            (''cache_lifetime'', PInt 24),
            (''cache_max_entries'', PInt 255)])"

definition secret_or :: "fr_env \<Rightarrow> pyval \<Rightarrow> string \<Rightarrow> string result" where
  "secret_or env ciphertext dflt =
     rbind (fe_decrypt env ciphertext) (\<lambda>r. Inr (case r of Some (c # t) \<Rightarrow> c # t | _ \<Rightarrow> dflt))"

definition rendered_server :: "fr_env \<Rightarrow> pydict \<Rightarrow> pydict result" where
  "rendered_server env server =
     (let safe = safe_name (col server ''name'');
          tls_ca = (if truthy (py_get server ''tls_ca_cert'')
                    then PStr (path_join (path_join (fe_cert_dir env) ''ldap'') (safe @ ''_ca.pem''))
                    else PNone)
      in rbind (secret_or env (py_get server ''bind_password_encrypted'') []) (\<lambda>pw. Inr
        [(''module_name'', PStr (''ldap_'' @ safe)),
         (''host'', py_get server ''host''),
         (''port'', py_get server ''port''),
         (''bind_dn'', py_get server ''bind_dn''),
         (''bind_password'', PStr pw),
         (''base_dn'', py_get server ''base_dn''),
         (''user_search_base'', py_or (py_get server ''user_search_base'') (py_get server ''base_dn'')),
         (''user_search_filter'', dict_get_or server ''user_search_filter''
            (PStr ''(sAMAccountName=%{%{Stripped-User-Name}:-%{User-Name}})'')),
         (''group_search_base'', py_or (py_get server ''group_search_base'') (py_get server ''base_dn'')),
         (''group_search_filter'', dict_get_or server ''group_search_filter''
            (PStr ''(member=%{control:Ldap-UserDn})'')),
         (''group_membership_attr'', dict_get_or server ''group_membership_attr'' (PStr ''memberOf'')),
         (''use_tls'', dict_get_or server ''use_tls'' (PBool False)),
         (''use_starttls'', dict_get_or server ''use_starttls'' (PBool False)),
         (''tls_ca_cert_path'', tls_ca),
         (''tls_require_cert'', (if py_get server ''tls_require_cert'' = PNone then PStr ''demand''
                                 else py_get server ''tls_require_cert'')),
         (''connect_timeout_seconds'', dict_get_or server ''connect_timeout_seconds'' (PInt 5)),
         (''search_timeout_seconds'', dict_get_or server ''search_timeout_seconds'' (PInt 10)),
         (''idle_timeout_seconds'', dict_get_or server ''idle_timeout_seconds'' (PInt 60))]))"

text \<open>The files and the names of the modules declared in them.\<close>

definition generate_ldap_configs ::
  "fr_env \<Rightarrow> fr_state \<Rightarrow> ((string \<times> string) list \<times> string list) result" where
  "generate_ldap_configs env s =
     (let servers = load_ldap_servers s
      in if servers = [] then Inr ([], [])
         else rbind (rmap (rendered_server env) servers) (\<lambda>rendered. Inr
           (case fe_render env ''ldap.j2''
                  [(''generated_at'', PStr (fe_now env)),
                   (''ldap_servers'', PList (map PDict rendered))] of
              Inl e \<Rightarrow> ([], [])
            | Inr content \<Rightarrow>
                ([(''ldap_orw'', content)],
                 map (\<lambda>srv. ''ldap_'' @ safe_name (col srv ''name'')) servers))))"

definition generated_head :: "string list" where
  "generated_head = [''# OpenRadiusWeb Generated Configuration - DO NOT EDIT MANUALLY'', ''#'']"

text \<open>The home server and pool of one proxy realm.\<close>

definition home_server_lines :: "fr_env \<Rightarrow> pydict \<Rightarrow> string list result" where
  "home_server_lines env realm =
     (let safe = safe_name (col realm ''name'');
          dead = py_str (dict_get_or realm ''proxy_dead_time_seconds'' (PInt 120))
      in rbind (secret_or env (py_get realm ''proxy_secret_encrypted'') ''changeme'') (\<lambda>secret. Inr
        [''home_server hs_'' @ safe @ '' {'',
         ''    type = auth+acct'',
         ''    ipaddr = '' @ col realm ''proxy_host'',
         ''    port = '' @ py_str (dict_get_or realm ''proxy_port'' (PInt 1812)),
         ''    secret = '' @ secret,
         ''    response_window = 20'',
         ''    zombie_period = '' @ dead,
         ''    revive_interval = '' @ dead,
         ''}'',
         [],
         ''home_server_pool pool_'' @ safe @ '' {'',
         ''    type = fail-over'',
         ''    home_server = hs_'' @ safe,
         ''}'',
         []]))"

definition strip_line :: "pydict \<Rightarrow> string" where
  "strip_line realm =
     (if truthy (dict_get_or realm ''strip_username'' (PBool True)) then ''    strip''
      else ''    nostrip'')"

definition realm_lines :: "pydict \<Rightarrow> string list" where
  "realm_lines realm =
     (let name = col realm ''name''
      in if is_type ''realm_type'' ''proxy'' realm then
           [''realm '' @ name @ '' {'', ''    pool = pool_'' @ safe_name name, strip_line realm,
            ''}'', []]
         else if is_type ''realm_type'' ''local'' realm then
           [''realm '' @ name @ '' {'', strip_line realm, ''}'', []]
         else if is_type ''realm_type'' ''reject'' realm then
           [''realm '' @ name @ '' {'', ''    auth_pool = reject'', ''}'', []]
         else [])"

definition default_realm_lines :: "string list" where
  "default_realm_lines =
     [''# Default realm - handle locally'', ''realm DEFAULT {'', ''    strip'', ''}'', [],
      ''realm NULL {'', ''    strip'', ''}'', []]"

definition generate_proxy_config :: "fr_env \<Rightarrow> fr_state \<Rightarrow> string result" where
  "generate_proxy_config env s =
     (let realms = load_realms s;
          head = generated_head @ [''# Proxy configuration'', ''# Template: proxy.conf (inline)'',
            [], ''proxy server {'', ''    default_fallback = no'', ''}'', []];
          has_default = list_ex (\<lambda>r. py_get r ''name'' \<in>
            set [PStr ''DEFAULT'', PStr ''default'', PStr ''*'']) realms
      in rbind (rmap (home_server_lines env) (filter (is_type ''realm_type'' ''proxy'') realms)) (\<lambda>hs.
         Inr (py_join nl (head @ concat hs @ concat (map realm_lines realms)
                @ (if has_default then [] else default_realm_lines)))))"

definition localhost_lines :: "string list" where
  "localhost_lines =
     [''client localhost {'', ''    ipaddr = 127.0.0.1'', ''    secret = testing123'',
      ''    shortname = localhost'', ''    nas_type = other'', ''}'', [],
      ''client localhost_ipv6 {'', ''    ipv6addr = ::1'', ''    secret = testing123'',
      ''    shortname = localhost_v6'', ''}'', []]"

definition client_lines :: "fr_env \<Rightarrow> pydict \<Rightarrow> string list result" where
  "client_lines env client =
     (let shortname = py_str (py_or (py_get client ''shortname'') (PStr (take 31 (col client ''name''))));
          description = dict_get_or client ''description'' (PStr [])
      in rbind (secret_or env (py_get client ''secret_encrypted'') ''changeme'') (\<lambda>secret. Inr
        ([''client '' @ shortname @ '' {'',
          ''    ipaddr = '' @ col client ''ip_address'',
          ''    secret = '' @ secret,
          ''    shortname = '' @ shortname,
          ''    nas_type = '' @ py_str (dict_get_or client ''nas_type'' (PStr ''other''))]
         @ (if truthy (py_get client ''virtual_server'')
            then [''    virtual_server = '' @ col client ''virtual_server''] else [])
         @ (if truthy description
            then [''    # '' @ py_strip (replace_char CHR 0x0A CHR '' '' (py_str description))] else [])
         @ [''}'', []])))"

definition generate_clients_config :: "fr_env \<Rightarrow> fr_state \<Rightarrow> string result" where
  "generate_clients_config env s =
     rbind (rmap (client_lines env) (load_nas_clients s)) (\<lambda>cs.
       Inr (py_join nl (generated_head @ [''# RADIUS client (NAS) configuration'', []]
              @ localhost_lines @ concat cs)))"

definition ldap_module_dicts :: "string list \<Rightarrow> pyval" where
  "ldap_module_dicts ms =
     PList (map (\<lambda>m. PDict [(''name'', PStr (if py_startswith m ''ldap_'' then drop 5 m else m)),
                            (''module_name'', PStr m)]) ms)"

definition generate_site_default ::
  "fr_env \<Rightarrow> bool \<Rightarrow> bool \<Rightarrow> string list \<Rightarrow> bool \<Rightarrow> string" where
  "generate_site_default env has_eap has_python ldap_modules realms_enabled =
     render_or_empty env ''site_default.j2''
       [(''has_eap'', PBool has_eap), (''has_python'', PBool has_python),
        (''ldap_modules'', ldap_module_dicts ldap_modules), (''realms_enabled'', PBool realms_enabled)]"

definition generate_site_inner_tunnel ::
  "fr_env \<Rightarrow> bool \<Rightarrow> string list \<Rightarrow> bool \<Rightarrow> string" where
  "generate_site_inner_tunnel env has_python ldap_modules realms_enabled =
     render_or_empty env ''site_inner_tunnel.j2''
       [(''has_python'', PBool has_python), (''ldap_modules'', ldap_module_dicts ldap_modules),
        (''realms_enabled'', PBool realms_enabled)]"

definition generate_python_config :: "fr_env \<Rightarrow> string" where
  "generate_python_config env =
     render_or_empty env ''python.j2''
       [(''python_path'', PStr ''/etc/freeradius/mods-config/python'')]"

definition opt_config :: "string \<Rightarrow> string \<Rightarrow> (string, string) dict \<Rightarrow> (string, string) dict" where
  "opt_config name content configs =
     (if content = [] then configs else dict_set name content configs)"

text \<open>The dictionary of files, in the order of the assignments; empty contents are left out.\<close>

definition assemble_configs ::
  "string \<Rightarrow> (string \<times> string) list \<Rightarrow> string \<Rightarrow> string \<Rightarrow> string \<Rightarrow> string \<Rightarrow> string
   \<Rightarrow> (string, string) dict" where
  "assemble_configs eap ldap_files python proxy clients site inner =
     opt_config ''sites-available/inner-tunnel'' inner
       (opt_config ''sites-available/default'' site
       (opt_config ''clients.conf'' clients
       (opt_config ''proxy.conf'' proxy
       (opt_config ''mods-available/python'' python
       (fold (\<lambda>(f, c). dict_set (''mods-available/'' @ f) c) ldap_files
       (opt_config ''mods-available/eap'' eap []))))))"

definition generate_all_configs :: "fr_env \<Rightarrow> fr_state \<Rightarrow> (string, string) dict result" where
  "generate_all_configs env s =
     (let eap = generate_eap_config env s; has_eap = (eap \<noteq> [])
      in rbind (generate_ldap_configs env s) (\<lambda>(ldap_files, ldap_modules).
         let python = (if rlm_python3_available env then generate_python_config env else []);
             has_python = (python \<noteq> []);
             realms_enabled = (load_realms s \<noteq> [])
         in rbind (generate_proxy_config env s) (\<lambda>proxy.
            rbind (generate_clients_config env s) (\<lambda>clients.
            let site = generate_site_default env has_eap has_python ldap_modules realms_enabled;
                inner = (if has_eap
                         then generate_site_inner_tunnel env has_python ldap_modules realms_enabled
                         else [])
            in Inr (assemble_configs eap ldap_files python proxy clients site inner)))))"

section \<open>Writing files\<close>

definition write_file :: "fr_env \<Rightarrow> string \<Rightarrow> string \<Rightarrow> nat \<Rightarrow> (fr_state, unit) prog" where
  "write_file env path content mode =
     (case fe_write_error env path of
        Some msg \<Rightarrow> sraise (OSError msg)
      | None \<Rightarrow> smod (\<lambda>s. s\<lparr>fs_files := dict_set path (content, mode) (fs_files s)\<rparr>))"

text \<open>File modes: 0o644 and 0o600.\<close>

definition mode_644 :: nat where "mode_644 = 420"
definition mode_600 :: nat where "mode_600 = 384"

definition write_if :: "fr_env \<Rightarrow> string \<Rightarrow> pyval \<Rightarrow> nat \<Rightarrow> (fr_state, unit) prog" where
  "write_if env path content mode =
     (if truthy content then write_file env path (py_str content) mode else sret ())"

definition write_cert :: "fr_env \<Rightarrow> pydict \<Rightarrow> (fr_state, unit) prog" where
  "write_cert env cert =
     (let dir = fe_cert_dir env; cas = path_join dir ''trusted-cas'';
          safe = py_lower (replace_char CHR '' '' CHR ''_'' (col cert ''name''));
          pem = py_get cert ''pem_data''
      in if \<not> truthy pem then sret ()
         else if is_type ''cert_type'' ''ca'' cert then
           sbind (write_file env (path_join dir ''ca.pem'') (py_str pem) mode_644) (\<lambda>_.
           sbind (write_file env (path_join cas (safe @ ''.pem'')) (py_str pem) mode_644) (\<lambda>_.
             write_if env (path_join cas (safe @ ''_chain.pem'')) (py_get cert ''chain_pem'') mode_644))
         else if is_type ''cert_type'' ''server'' cert then
           sbind (write_file env (path_join dir ''server.pem'') (py_str pem) mode_644) (\<lambda>_.
           sbind (slift (fe_decrypt env (py_get cert ''key_pem_encrypted''))) (\<lambda>key.
           sbind (case key of
                    Some (c # t) \<Rightarrow> write_file env (path_join dir ''server.key'') (c # t) mode_600
                  | _ \<Rightarrow> sret ()) (\<lambda>_.
             write_if env (path_join dir ''dh.pem'') (py_get cert ''dh_params_pem'') mode_644)))
         else sret ())"

definition write_cert_files :: "fr_env \<Rightarrow> (fr_state, unit) prog" where
  "write_cert_files env =
     sbind (sget load_active_certificates) (\<lambda>certs.
     sbind (sget load_ldap_servers) (\<lambda>servers.
     sbind (smap (write_cert env) certs) (\<lambda>_.
     sbind (smap (\<lambda>srv. write_if env
              (path_join (path_join (fe_cert_dir env) ''ldap'') (safe_name (col srv ''name'') @ ''_ca.pem''))
              (py_get srv ''tls_ca_cert'') mode_644) servers) (\<lambda>_. sret ()))))"

section \<open>The tracking table\<close>

definition default_tenant_id :: "fr_state \<Rightarrow> string option" where
  "default_tenant_id s = map_option fst (find (\<lambda>(i, n). n = ''default'') (fs_tenants s))"

definition row_key :: "config_row \<Rightarrow> string \<times> string" where
  "row_key r = (cf_type r, cf_name r)"

text \<open>\<open>SELECT last_applied_hash ... LIMIT 1\<close>; a null tenant matches null tenants only.\<close>

definition stored_hash :: "string option \<Rightarrow> config_row list \<Rightarrow> string \<times> string \<Rightarrow> string option" where
  "stored_hash tenant rows key =
     (case find (\<lambda>r. row_key r = key \<and> cf_tenant r = tenant) rows of
        None \<Rightarrow> None | Some r \<Rightarrow> cf_last_hash r)"

text \<open>
  The upsert. The unique constraint is on type, name and tenant, and null tenants never
  conflict, so then every write inserts.
\<close>

fun replace_first :: "('a \<Rightarrow> bool) \<Rightarrow> 'a \<Rightarrow> 'a list \<Rightarrow> 'a list" where
  "replace_first P y [] = [y]"
| "replace_first P y (x # xs) = (if P x then y # xs else x # replace_first P y xs)"

definition upsert_row :: "string option \<Rightarrow> config_row \<Rightarrow> config_row list \<Rightarrow> config_row list" where
  "upsert_row tenant row rows =
     (if tenant = None then rows @ [row]
      else replace_first (\<lambda>r. row_key r = row_key row \<and> cf_tenant r = tenant) row rows)"

definition saved_row ::
  "string option \<Rightarrow> string \<times> string \<Rightarrow> string \<Rightarrow> string \<Rightarrow> string \<Rightarrow> string option \<Rightarrow> config_row" where
  "saved_row tenant key content hash status error =
     \<lparr>cf_type = fst key, cf_name = snd key, cf_tenant = tenant, cf_content = content,
      cf_hash = hash, cf_last_hash = Some hash, cf_status = status, cf_error = error\<rparr>"

definition get_stored_hash :: "string \<Rightarrow> string \<Rightarrow> fr_state \<Rightarrow> string option" where
  "get_stored_hash config_type config_name s =
     stored_hash (default_tenant_id s) (fs_rows s) (config_type, config_name)"

text \<open>A failing upsert is caught and printed.\<close>

definition save_config_state ::
  "fr_env \<Rightarrow> string \<Rightarrow> string \<Rightarrow> string \<Rightarrow> string \<Rightarrow> string \<Rightarrow> string option \<Rightarrow> fr_state \<Rightarrow> fr_state" where
  "save_config_state env config_type config_name content hash status error s =
     (if \<not> fe_save_ok env config_type config_name then s
      else let tenant = default_tenant_id s in
        s\<lparr>fs_rows := upsert_row tenant
              (saved_row tenant (config_type, config_name) content hash status error) (fs_rows s)\<rparr>)"

section \<open>Applying\<close>

definition cert_parts :: "pydict \<Rightarrow> string list" where
  "cert_parts cert =
     (let txt = (\<lambda>k. (if truthy (py_get cert k) then col cert k else []))
      in [''cert:'' @ col cert ''cert_type'' @ '':'' @ col cert ''name'',
          txt ''pem_data'', txt ''chain_pem'', txt ''key_pem_encrypted'', txt ''dh_params_pem''])"

definition compute_cert_files_hash :: "fr_state \<Rightarrow> string" where
  "compute_cert_files_hash s =
     (let certs = sort_key (\<lambda>c. col c ''cert_type'')
            (sort_key (\<lambda>c. col c ''name'') (load_active_certificates s));
          servers = sort_key (\<lambda>c. col c ''name'') (load_ldap_servers s)
      in compute_hash (py_join (nl @ ''---'' @ nl)
           (concat (map cert_parts certs)
            @ concat (map (\<lambda>srv. [''ldap_ca:'' @ col srv ''name'',
                 (if truthy (py_get srv ''tls_ca_cert'') then col srv ''tls_ca_cert'' else [])])
                servers))))"

definition config_type_of :: "string \<Rightarrow> string" where
  "config_type_of filename =
     (if py_in ''eap'' filename then ''eap''
      else if py_in ''ldap'' filename then ''ldap''
      else if py_in ''proxy'' filename then ''proxy''
      else if py_in ''clients'' filename then ''clients''
      else if py_in ''inner-tunnel'' filename then ''inner-tunnel''
      else if py_in ''default'' filename then ''site-default''
      else if py_in ''python'' filename then ''python''
      else replace_char CHR ''.'' CHR ''_'' (replace_char CHR ''/'' CHR ''_'' filename))"

definition cfg :: "string \<Rightarrow> string \<Rightarrow> string option \<Rightarrow> cfg_result" where
  "cfg status hash error = \<lparr>cg_status = status, cg_hash = hash, cg_error = error\<rparr>"

definition apply_certs :: "fr_env \<Rightarrow> fr_state \<Rightarrow> cfg_result \<times> fr_state" where
  "apply_certs env s =
     (let cert_hash = compute_cert_files_hash s
      in if get_stored_hash ''certificates'' ''_cert_files'' s = Some cert_hash
         then (cfg ''unchanged'' cert_hash None, s)
         else case write_cert_files env s of
           (Inl e, s') \<Rightarrow> (cfg ''error'' [] (Some (err_text e)), s')
         | (Inr _, s') \<Rightarrow>
             (cfg ''applied'' cert_hash None,
              save_config_state env ''certificates'' ''_cert_files'' [] cert_hash ''applied'' None s'))"

definition apply_file :: "fr_env \<Rightarrow> string \<Rightarrow> string \<Rightarrow> fr_state \<Rightarrow> cfg_result \<times> fr_state" where
  "apply_file env filename content s =
     (let config_hash = compute_hash content; config_type = config_type_of filename
      in if get_stored_hash config_type filename s = Some config_hash
         then (cfg ''unchanged'' config_hash None, s)
         else case write_file env (path_join (fe_output_dir env) filename) content mode_644 s of
           (Inr _, s') \<Rightarrow>
             (cfg ''applied'' config_hash None,
              save_config_state env config_type filename content config_hash ''applied'' None s')
         | (Inl e, s') \<Rightarrow>
             (cfg ''error'' config_hash (Some (err_text e)),
              save_config_state env config_type filename content config_hash ''error''
                (Some (err_text e)) s'))"

fun apply_files ::
  "fr_env \<Rightarrow> (string \<times> string) list \<Rightarrow> (string, cfg_result) dict \<Rightarrow> fr_state
   \<Rightarrow> (string, cfg_result) dict \<times> fr_state" where
  "apply_files env [] results s = (results, s)"
| "apply_files env ((filename, content) # configs) results s =
     (let (r, s') = apply_file env filename content s
      in apply_files env configs (dict_set (config_type_of filename) r results) s')"

definition apply_configs :: "fr_env \<Rightarrow> fr_state \<Rightarrow> (string, cfg_result) dict \<times> fr_state" where
  "apply_configs env s =
     (let (certs, s1) = apply_certs env s
      in case generate_all_configs env s1 of
           Inl e \<Rightarrow> ([(''_generate_error'', cfg ''error'' [] (Some (err_text e)))], s1)
         | Inr configs \<Rightarrow> apply_files env configs [(''certificates'', certs)] s1)"

section \<open>The tracking table as a store\<close>

text \<open>
  What the tracking table promises to \<open>apply_configs\<close>: a saved hash is the one read
  back, and saving one key leaves the others alone.
\<close>

locale config_store =
  fixes get :: "'st \<Rightarrow> 'key \<Rightarrow> 'hash option"
    and put :: "'key \<Rightarrow> 'hash \<Rightarrow> 'info \<Rightarrow> 'st \<Rightarrow> 'st"
  assumes get_put: "get (put k h i st) k' = (if k' = k then Some h else get st k')"
begin

lemma get_fold_put:
  "distinct (map fst khs) \<Longrightarrow> (k, h) \<in> set khs \<Longrightarrow>
   get (fold (\<lambda>(k, h). put k h (f k h)) khs st) k = Some h"
proof (induction khs arbitrary: st)
  case (Cons kh khs)
  obtain k0 h0 where kh: "kh = (k0, h0)" by (cases kh)
  have other: "k' \<notin> fst ` set khs \<Longrightarrow>
      get (fold (\<lambda>(k, h). put k h (f k h)) khs st') k' = get st' k'" for k' st'
    by (induction khs arbitrary: st') (auto simp: get_put)
  show ?case
  proof (cases "(k, h) = (k0, h0)")
    case True
    then show ?thesis using Cons.prems kh other [of k0] by (simp add: get_put)
  next
    case False
    then show ?thesis using Cons kh by auto
  qed
qed simp

lemma get_put_same: "get (put k h i st) k = Some h"
  by (simp add: get_put)

lemma get_put_other: "k' \<noteq> k \<Longrightarrow> get (put k h i st) k' = get st k'"
  by (simp add: get_put)

end

definition put_hash ::
  "string \<Rightarrow> string \<times> string \<Rightarrow> string \<Rightarrow> string \<times> string \<times> string option
   \<Rightarrow> config_row list \<Rightarrow> config_row list" where
  "put_hash t key hash info rows =
     (case info of (content, status, error) \<Rightarrow>
        upsert_row (Some t) (saved_row (Some t) key content hash status error) rows)"

lemma find_replace_first:
  assumes "P y"
  shows "find P (replace_first P y xs) = Some y"
  by (induction xs) (auto simp: assms)

lemma find_replace_first_other:
  assumes "\<And>x. P x \<Longrightarrow> \<not> Q x" and "\<not> Q y"
  shows "find Q (replace_first P y xs) = find Q xs"
  by (induction xs) (auto simp: assms)

interpretation tracking: config_store "stored_hash (Some t)" "put_hash t" for t
proof
  fix k k' :: "string \<times> string" and h :: string
    and i :: "string \<times> string \<times> string option" and st :: "config_row list"
  obtain content status error where i: "i = (content, status, error)" by (cases i)
  let ?row = "saved_row (Some t) k content h status error"
  let ?P = "\<lambda>key r. row_key r = key \<and> cf_tenant r = Some t"
  have key: "row_key ?row = k" "cf_tenant ?row = Some t" "cf_last_hash ?row = Some h"
    by (simp_all add: row_key_def saved_row_def)
  have "find (?P k') (replace_first (?P k) ?row st) = (if k' = k then Some ?row else find (?P k') st)"
    using find_replace_first [of "?P k" ?row st] find_replace_first_other [of "?P k" "?P k'" ?row st]
    by (auto simp: key)
  then show "stored_hash (Some t) (put_hash t k h i st) k' =
      (if k' = k then Some h else stored_hash (Some t) st k')"
    by (simp add: i stored_hash_def put_hash_def upsert_row_def key)
qed

section \<open>What applying leaves alone\<close>

text \<open>Applying reads the configuration tables and changes only files and tracking rows.\<close>

definition same_inputs :: "fr_state \<Rightarrow> fr_state \<Rightarrow> bool" where
  "same_inputs s s' \<longleftrightarrow> (\<exists>rows files. s' = s\<lparr>fs_rows := rows, fs_files := files\<rparr>)"

lemma same_inputs_refl [simp]: "same_inputs s s"
  unfolding same_inputs_def by (rule exI [of _ "fs_rows s"], rule exI [of _ "fs_files s"]) simp

lemma same_inputs_trans:
  assumes "same_inputs a b" and "same_inputs b c"
  shows "same_inputs a c"
proof -
  from assms obtain r f r' f' where
    "b = a\<lparr>fs_rows := r, fs_files := f\<rparr>" "c = b\<lparr>fs_rows := r', fs_files := f'\<rparr>"
    by (auto simp: same_inputs_def)
  then have "c = a\<lparr>fs_rows := r', fs_files := f'\<rparr>" by simp
  then show ?thesis by (auto simp: same_inputs_def)
qed

lemma same_inputs_files: "same_inputs a s \<Longrightarrow> same_inputs a (s\<lparr>fs_files := f\<rparr>)"
proof -
  assume "same_inputs a s"
  then obtain r g where "s = a\<lparr>fs_rows := r, fs_files := g\<rparr>" by (auto simp: same_inputs_def)
  then have "s\<lparr>fs_files := f\<rparr> = a\<lparr>fs_rows := r, fs_files := f\<rparr>" by simp
  then show ?thesis by (auto simp: same_inputs_def)
qed

lemma same_inputs_rows: "same_inputs a s \<Longrightarrow> same_inputs a (s\<lparr>fs_rows := r\<rparr>)"
proof -
  assume "same_inputs a s"
  then obtain r' g where "s = a\<lparr>fs_rows := r', fs_files := g\<rparr>" by (auto simp: same_inputs_def)
  then have "s\<lparr>fs_rows := r\<rparr> = a\<lparr>fs_rows := r, fs_files := g\<rparr>" by simp
  then show ?thesis by (auto simp: same_inputs_def)
qed

lemma same_inputs_save [simp]:
  "same_inputs a s \<Longrightarrow> same_inputs a (save_config_state env ty n c h st e s)"
  by (simp add: save_config_state_def same_inputs_rows Let_def)

lemma keeps_write_file [keeps_intros]: "keeps (same_inputs a) (write_file env p c m)"
  by (auto simp: write_file_def intro!: keeps_intros same_inputs_files split: option.split)

lemma keeps_write_if [keeps_intros]: "keeps (same_inputs a) (write_if env p c m)"
  by (auto simp: write_if_def intro!: keeps_intros)

lemma keeps_write_cert [keeps_intros]: "keeps (same_inputs a) (write_cert env cert)"
proof -
  have "keeps (same_inputs a) (case key of Some (c # t) \<Rightarrow> write_file env p (c # t) m | _ \<Rightarrow> sret ())"
    for key p m
    by (auto intro: keeps_intros split: option.split list.split)
  then show ?thesis
    unfolding write_cert_def Let_def
    by (intro keeps_if keeps_sbind keeps_basic keeps_write_file keeps_write_if)
qed

lemma keeps_write_cert_files: "keeps (same_inputs a) (write_cert_files env)"
  unfolding write_cert_files_def
  by (intro keeps_sbind keeps_basic keeps_smap keeps_write_cert keeps_write_if)

lemma apply_certs_inputs: "apply_certs env s = (r, s') \<Longrightarrow> same_inputs s s'"
  using keepsD [OF keeps_write_cert_files same_inputs_refl, of env s]
  by (cases "write_cert_files env s")
     (auto simp: apply_certs_def Let_def split: if_splits sum.splits)

lemma apply_file_inputs: "apply_file env f c s = (r, s') \<Longrightarrow> same_inputs s s'"
  using keepsD [OF keeps_write_file same_inputs_refl, of env "path_join (fe_output_dir env) f" c mode_644 s]
  by (cases "write_file env (path_join (fe_output_dir env) f) c mode_644 s")
     (auto simp: apply_file_def Let_def split: if_splits sum.splits)

lemma apply_files_inputs: "apply_files env configs res s = (r, s') \<Longrightarrow> same_inputs s s'"
proof (induction configs arbitrary: res s)
  case (Cons fc configs)
  obtain f c where fc: "fc = (f, c)" by (cases fc)
  obtain r1 s1 where one: "apply_file env f c s = (r1, s1)" by (cases "apply_file env f c s")
  with Cons.prems fc have "apply_files env configs (dict_set (config_type_of f) r1 res) s1 = (r, s')"
    by simp
  from Cons.IH [OF this] apply_file_inputs [OF one] show ?case by (rule same_inputs_trans [rotated])
qed simp

lemma loads_same_inputs:
  assumes "same_inputs s s'"
  shows "load_active_certificates s' = load_active_certificates s"
    "load_ldap_servers s' = load_ldap_servers s" "load_realms s' = load_realms s"
    "load_nas_clients s' = load_nas_clients s"
    "load_system_settings s' k = load_system_settings s k"
    "default_tenant_id s' = default_tenant_id s"
  using assms
  by (auto simp: same_inputs_def load_active_certificates_def load_ldap_servers_def load_realms_def
      load_nas_clients_def load_system_settings_def default_tenant_id_def)

lemma generate_same_inputs:
  "same_inputs s s' \<Longrightarrow> generate_all_configs env s' = generate_all_configs env s"
  by (simp add: generate_all_configs_def generate_eap_config_def generate_ldap_configs_def
      generate_proxy_config_def generate_clients_config_def loads_same_inputs)

lemma cert_hash_same_inputs:
  "same_inputs s s' \<Longrightarrow> compute_cert_files_hash s' = compute_cert_files_hash s"
  by (simp add: compute_cert_files_hash_def loads_same_inputs)

text \<open>The rule of the repository that templates do not use the time of generation.\<close>

definition time_free :: "fr_env \<Rightarrow> bool" where
  "time_free env \<longleftrightarrow> (\<forall>template x y vars.
     fe_render env template ((''generated_at'', x) # vars)
       = fe_render env template ((''generated_at'', y) # vars))"

definition later :: "fr_env \<Rightarrow> string \<Rightarrow> (string \<Rightarrow> string option) \<Rightarrow> fr_env" where
  "later env now errs = env\<lparr>fe_now := now, fe_write_error := errs\<rparr>"

lemma later_simps [simp]:
  "fe_render (later env now errs) = fe_render env" "fe_decrypt (later env now errs) = fe_decrypt env"
  "fe_cert_dir (later env now errs) = fe_cert_dir env"
  "fe_override (later env now errs) = fe_override env"
  "fe_isfile (later env now errs) = fe_isfile env" "fe_save_ok (later env now errs) = fe_save_ok env"
  "fe_output_dir (later env now errs) = fe_output_dir env"
  by (simp_all add: later_def)

lemma render_later:
  assumes "time_free env"
  shows "render_or_empty (later env now errs) t vars = render_or_empty env t vars"
proof -
  have "fe_render env t ((''generated_at'', PStr (fe_now (later env now errs))) # vars)
      = fe_render env t ((''generated_at'', PStr (fe_now env)) # vars)"
    using assms unfolding time_free_def by blast
  then show ?thesis by (simp add: render_or_empty_def)
qed

lemma secret_or_later [simp]: "secret_or (later env now errs) = secret_or env"
  by (intro ext) (simp add: secret_or_def)

lemma lines_later [simp]:
  "rendered_server (later env now errs) = rendered_server env"
  "home_server_lines (later env now errs) = home_server_lines env"
  "client_lines (later env now errs) = client_lines env"
  unfolding rendered_server_def [abs_def] home_server_lines_def [abs_def] client_lines_def [abs_def]
    secret_or_later later_simps
  by (rule refl)+

lemma ldap_later:
  assumes "time_free env"
  shows "generate_ldap_configs (later env now errs) s = generate_ldap_configs env s"
proof -
  have same: "fe_render env ''ldap.j2'' [(''generated_at'', PStr (fe_now (later env now errs))), v]
      = fe_render env ''ldap.j2'' [(''generated_at'', PStr (fe_now env)), v]" for v
    using assms unfolding time_free_def by blast
  show ?thesis unfolding generate_ldap_configs_def lines_later later_simps same ..
qed

lemma generators_later:
  assumes "time_free env"
  shows "generate_eap_config (later env now errs) = generate_eap_config env"
    "generate_proxy_config (later env now errs) = generate_proxy_config env"
    "generate_clients_config (later env now errs) = generate_clients_config env"
    "generate_site_default (later env now errs) = generate_site_default env"
    "generate_site_inner_tunnel (later env now errs) = generate_site_inner_tunnel env"
    "generate_python_config (later env now errs) = generate_python_config env"
    "rlm_python3_available (later env now errs) = rlm_python3_available env"
  unfolding generate_eap_config_def generate_proxy_config_def generate_clients_config_def
    generate_site_default_def generate_site_inner_tunnel_def generate_python_config_def
    rlm_python3_available_def render_later [OF assms] lines_later later_simps
  by (rule refl)+

lemma generate_later:
  assumes "time_free env"
  shows "generate_all_configs (later env now errs) s = generate_all_configs env s"
  unfolding generate_all_configs_def generators_later [OF assms] ldap_later [OF assms] ..

section \<open>What one apply leaves in the tracking table\<close>

text \<open>The setting of the hash facts: a default tenant exists and upserts succeed.\<close>

definition tracked :: "fr_env \<Rightarrow> string \<Rightarrow> fr_state \<Rightarrow> bool" where
  "tracked env t s \<longleftrightarrow> default_tenant_id s = Some t \<and> (\<forall>ty n. fe_save_ok env ty n)"

lemma tracked_same_inputs: "tracked env t s \<Longrightarrow> same_inputs s s' \<Longrightarrow> tracked env t s'"
  by (simp add: tracked_def loads_same_inputs)

lemma save_tracked:
  "tracked env t s \<Longrightarrow>
   fs_rows (save_config_state env ty n c h st e s) = put_hash t (ty, n) h (c, st, e) (fs_rows s)"
  by (simp add: save_config_state_def tracked_def put_hash_def Let_def)

lemma get_stored_tracked:
  "tracked env t s \<Longrightarrow> get_stored_hash ty n s = stored_hash (Some t) (fs_rows s) (ty, n)"
  by (simp add: get_stored_hash_def tracked_def)

lemma write_file_rows: "write_file env p c m s = (r, s') \<Longrightarrow> fs_rows s' = fs_rows s"
  by (auto simp: write_file_def split: option.splits)

lemma keeps_rows_cert_files: "keeps (\<lambda>s. fs_rows s = R) (write_cert_files env)"
proof -
  have w: "keeps (\<lambda>s. fs_rows s = R) (write_file env p c m)" for p c m
    by (auto simp: keeps_def write_file_def split: option.split)
  have i: "keeps (\<lambda>s. fs_rows s = R) (write_if env p c m)" for p c m
    by (auto simp: write_if_def w intro: keeps_intros)
  have k: "keeps (\<lambda>s. fs_rows s = R)
      (case key of Some (c # t) \<Rightarrow> write_file env p (c # t) m | _ \<Rightarrow> sret ())" for key p m
    by (auto intro: keeps_intros w split: option.split list.split)
  have "keeps (\<lambda>s. fs_rows s = R) (write_cert env cert)" for cert
    unfolding write_cert_def Let_def by (intro keeps_if keeps_sbind keeps_basic w i k)
  then show ?thesis
    unfolding write_cert_files_def by (intro keeps_sbind keeps_basic keeps_smap i)
qed

lemma apply_file_hash:
  assumes "tracked env t s" and "apply_file env f c s = (r, s')"
  shows "stored_hash (Some t) (fs_rows s') k =
    (if k = (config_type_of f, f) then Some (compute_hash c) else stored_hash (Some t) (fs_rows s) k)"
proof (cases "get_stored_hash (config_type_of f) f s = Some (compute_hash c)")
  case True
  with assms show ?thesis by (auto simp: apply_file_def Let_def get_stored_tracked)
next
  case False
  obtain w s1 where w: "write_file env (path_join (fe_output_dir env) f) c mode_644 s = (w, s1)"
    by (cases "write_file env (path_join (fe_output_dir env) f) c mode_644 s")
  then have t1: "tracked env t s1"
    using tracked_same_inputs [OF assms(1)] keepsD [OF keeps_write_file same_inputs_refl w] by blast
  from False w assms(2) obtain i where "fs_rows s' = put_hash t (config_type_of f, f) (compute_hash c) i (fs_rows s1)"
    by (cases w) (auto simp: apply_file_def Let_def save_tracked [OF t1])
  then show ?thesis using write_file_rows [OF w] by (simp add: tracking.get_put)
qed

lemma apply_files_hash:
  assumes "tracked env t s" and "apply_files env configs res s = (r, s')"
    and "distinct (map fst configs)"
  shows "\<forall>(f, c) \<in> set configs.
      stored_hash (Some t) (fs_rows s') (config_type_of f, f) = Some (compute_hash c)"
    and "snd k \<notin> fst ` set configs \<Longrightarrow>
      stored_hash (Some t) (fs_rows s') k = stored_hash (Some t) (fs_rows s) k"
proof -
  have "(\<forall>(f, c) \<in> set configs.
        stored_hash (Some t) (fs_rows s') (config_type_of f, f) = Some (compute_hash c)) \<and>
      (\<forall>k. snd k \<notin> fst ` set configs \<longrightarrow>
        stored_hash (Some t) (fs_rows s') k = stored_hash (Some t) (fs_rows s) k)"
    using assms
  proof (induction configs arbitrary: res s)
    case (Cons fc configs)
    obtain f c where fc: "fc = (f, c)" by (cases fc)
    obtain r1 s1 where one: "apply_file env f c s = (r1, s1)" by (cases "apply_file env f c s")
    with Cons.prems fc have rest:
      "apply_files env configs (dict_set (config_type_of f) r1 res) s1 = (r, s')" by simp
    have t1: "tracked env t s1"
      using tracked_same_inputs [OF Cons.prems(1) apply_file_inputs [OF one]] .
    from Cons.IH [OF t1 rest] Cons.prems(3) fc show ?case
      using apply_file_hash [OF Cons.prems(1) one] by auto
  qed simp
  then show "\<forall>(f, c) \<in> set configs.
      stored_hash (Some t) (fs_rows s') (config_type_of f, f) = Some (compute_hash c)"
    and "snd k \<notin> fst ` set configs \<Longrightarrow>
      stored_hash (Some t) (fs_rows s') k = stored_hash (Some t) (fs_rows s) k"
    by blast+
qed

lemma dict_ok_opt_config [simp]: "dict_ok d \<Longrightarrow> dict_ok (opt_config n c d)"
  by (simp add: opt_config_def)

lemma dict_ok_fold_set: "dict_ok d \<Longrightarrow> dict_ok (fold (\<lambda>(f, c). dict_set (g f) c) fs d)"
  by (induction fs arbitrary: d) auto

definition config_files :: "string list" where
  "config_files = [''mods-available/eap'', ''mods-available/ldap_orw'', ''mods-available/python'',
     ''proxy.conf'', ''clients.conf'', ''sites-available/default'', ''sites-available/inner-tunnel'']"

lemma opt_config_keys:
  "n \<in> K \<Longrightarrow> fst ` set d \<subseteq> K \<Longrightarrow> fst ` set (opt_config n c d) \<subseteq> K"
  using dict_set_keys [of n c d] by (auto simp: opt_config_def)

lemma generate_ldap_files:
  assumes "generate_ldap_configs env s = Inr (fs, ms)"
  shows "fs = [] \<or> (\<exists>c. fs = [(''ldap_orw'', c)])"
proof (cases "load_ldap_servers s = []")
  case True
  with assms show ?thesis by (simp add: generate_ldap_configs_def)
next
  case False
  with assms obtain rendered where "Inr (fs, ms) = (Inr
      (case fe_render env ''ldap.j2''
              [(''generated_at'', PStr (fe_now env)), (''ldap_servers'', PList (map PDict rendered))] of
         Inl e \<Rightarrow> ([], [])
       | Inr content \<Rightarrow> ([(''ldap_orw'', content)],
           map (\<lambda>srv. ''ldap_'' @ safe_name (col srv ''name'')) (load_ldap_servers s))) ::
       ((string \<times> string) list \<times> string list) result)"
    unfolding generate_ldap_configs_def Let_def if_not_P [OF False] rbind_eq_Inr_iff by metis
  then show ?thesis by (simp split: sum.splits)
qed

lemma generate_all_Inr:
  assumes "generate_all_configs env s = Inr configs"
  shows "\<exists>lf ms py px cl site inner. generate_ldap_configs env s = Inr (lf, ms) \<and>
    configs = assemble_configs (generate_eap_config env s) lf py px cl site inner"
proof (cases "generate_ldap_configs env s")
  case (Inl e)
  with assms show ?thesis by (simp add: generate_all_configs_def)
next
  case (Inr lm)
  obtain lf ms where lm: "lm = (lf, ms)" by (cases lm)
  note ldap = Inr [unfolded lm]
  from assms obtain px cl where "generate_proxy_config env s = Inr px"
    and "generate_clients_config env s = Inr cl"
    unfolding generate_all_configs_def Let_def ldap rbind_Inr split_conv prod.case rbind_eq_Inr_iff
    by fast
  note eq = assms [unfolded generate_all_configs_def Let_def ldap this rbind_Inr split_conv prod.case
      sum.inject]
  show ?thesis by (intro exI conjI) (rule ldap, rule eq [symmetric])
qed

lemma assemble_files:
  assumes "lf = [] \<or> (\<exists>c. lf = [(''ldap_orw'', c)])"
  shows "dict_ok (assemble_configs eap lf py px cl site inner)"
    and "fst ` set (assemble_configs eap lf py px cl site inner) \<subseteq> set config_files"
proof -
  show "dict_ok (assemble_configs eap lf py px cl site inner)"
    unfolding assemble_configs_def by (intro dict_ok_opt_config dict_ok_fold_set dict_ok_Nil)
  let ?base = "opt_config ''mods-available/eap'' eap []"
  have base: "fst ` set ?base \<subseteq> set config_files"
    by (rule opt_config_keys) (simp_all add: config_files_def)
  have "fst ` set (fold (\<lambda>(f, c). dict_set (''mods-available/'' @ f) c) lf ?base) \<subseteq> set config_files"
    using assms
  proof
    assume "lf = []"
    with base show ?thesis by simp
  next
    assume "\<exists>c. lf = [(''ldap_orw'', c)]"
    then obtain c where lf: "lf = [(''ldap_orw'', c)]" ..
    have key: "''mods-available/'' @ ''ldap_orw'' \<in> set config_files" by (simp add: config_files_def)
    have "fst ` set (dict_set (''mods-available/'' @ ''ldap_orw'') c ?base)
        = insert (''mods-available/'' @ ''ldap_orw'') (fst ` set ?base)"
      by (rule dict_set_keys [unfolded set_map])
    with key base show ?thesis
      unfolding lf fold_Cons fold_Nil id_o o_id split_conv prod.case by (simp only: insert_subset)
  qed
  then show "fst ` set (assemble_configs eap lf py px cl site inner) \<subseteq> set config_files"
    unfolding assemble_configs_def by (intro opt_config_keys) (simp_all add: config_files_def)
qed

lemma generate_all_files:
  assumes "generate_all_configs env s = Inr configs"
  shows "dict_ok configs" and "fst ` set configs \<subseteq> set config_files"
proof -
  from generate_all_Inr [OF assms] obtain lf ms py px cl site inner where
    ldap: "generate_ldap_configs env s = Inr (lf, ms)" and
    configs: "configs = assemble_configs (generate_eap_config env s) lf py px cl site inner"
    by (elim exE conjE)
  note files = assemble_files [OF generate_ldap_files [OF ldap]]
  show "dict_ok configs" unfolding configs by (rule files(1))
  show "fst ` set configs \<subseteq> set config_files" unfolding configs by (rule files(2))
qed

lemma cert_files_not_config: "''_cert_files'' \<notin> set config_files"
  by (simp add: config_files_def)

lemma config_type_not_certificates:
  "list_all (\<lambda>f. config_type_of f \<noteq> ''certificates'') config_files"
  by code_simp

lemma apply_file_unchanged:
  "get_stored_hash (config_type_of f) f s = Some (compute_hash c) \<Longrightarrow>
   apply_file env f c s = (cfg ''unchanged'' (compute_hash c) None, s)"
  by (simp add: apply_file_def)

lemma apply_files_unchanged:
  assumes "\<forall>(f, c) \<in> set configs. get_stored_hash (config_type_of f) f s = Some (compute_hash c)"
    and "\<forall>r \<in> snd ` set res. cg_status r = ''unchanged''"
  shows "\<exists>res'. apply_files env configs res s = (res', s)
    \<and> (\<forall>r \<in> snd ` set res'. cg_status r = ''unchanged'')"
  using assms
proof (induction configs arbitrary: res)
  case (Cons fc configs)
  obtain f c where fc: "fc = (f, c)" by (cases fc)
  let ?r = "cfg ''unchanged'' (compute_hash c) None"
  have unchanged: "cg_status ?r = ''unchanged''" by (simp add: cfg_def)
  have "\<forall>r \<in> snd ` set (dict_set (config_type_of f) ?r res). cg_status r = ''unchanged''"
    by (rule dict_set_all [where P = "\<lambda>r. cg_status r = ''unchanged''", OF unchanged Cons.prems(2)])
  from Cons.IH [OF _ this] Cons.prems(1) fc show ?case
    by (simp add: apply_file_unchanged)
qed auto

text \<open>After one apply, everything tracked is up to date, written or not.\<close>

lemma apply_configs_tracked:
  assumes "tracked env t s"
    and "generate_all_configs env s = Inr configs"
    and "cg_status (fst (apply_certs env s)) \<noteq> ''error''"
    and "apply_configs env s = (results, s')"
  shows "same_inputs s s'"
    and "stored_hash (Some t) (fs_rows s') (''certificates'', ''_cert_files'')
      = Some (compute_cert_files_hash s)"
    and "\<forall>(f, c) \<in> set configs.
      stored_hash (Some t) (fs_rows s') (config_type_of f, f) = Some (compute_hash c)"
proof -
  obtain cr s1 where certs: "apply_certs env s = (cr, s1)" by (cases "apply_certs env s")
  note i1 = apply_certs_inputs [OF certs]
  note t1 = tracked_same_inputs [OF assms(1) i1]
  have gen1: "generate_all_configs env s1 = Inr configs"
    using assms(2) by (simp add: generate_same_inputs [OF i1])
  with assms(4) certs have files:
    "apply_files env configs [(''certificates'', cr)] s1 = (results, s')"
    by (simp add: apply_configs_def)
  show "same_inputs s s'" by (rule same_inputs_trans [OF i1 apply_files_inputs [OF files]])
  note ok = generate_all_files [OF assms(2)]
  have dist: "distinct (map fst configs)" using ok(1) by (simp add: dict_ok_def)
  show "\<forall>(f, c) \<in> set configs.
      stored_hash (Some t) (fs_rows s') (config_type_of f, f) = Some (compute_hash c)"
    by (rule apply_files_hash(1) [OF t1 files dist])
  have cert1: "stored_hash (Some t) (fs_rows s1) (''certificates'', ''_cert_files'')
      = Some (compute_cert_files_hash s)"
  proof (cases "get_stored_hash ''certificates'' ''_cert_files'' s = Some (compute_cert_files_hash s)")
    case True
    then show ?thesis
      using certs assms(1) by (simp add: apply_certs_def Let_def get_stored_tracked)
  next
    case False
    obtain w s2 where w: "write_cert_files env s = (w, s2)" by (cases "write_cert_files env s")
    have t2: "tracked env t s2"
      using tracked_same_inputs [OF assms(1)] keepsD [OF keeps_write_cert_files same_inputs_refl w]
      by blast
    from False w certs assms(3) obtain i where
      "fs_rows s1 = put_hash t (''certificates'', ''_cert_files'') (compute_cert_files_hash s) i (fs_rows s2)"
      by (cases w) (auto simp: apply_certs_def Let_def cfg_def save_tracked [OF t2])
    then show ?thesis by (simp add: tracking.get_put_same)
  qed
  have "''_cert_files'' \<notin> fst ` set configs"
    using ok(2) cert_files_not_config by blast
  then show "stored_hash (Some t) (fs_rows s') (''certificates'', ''_cert_files'')
      = Some (compute_cert_files_hash s)"
    using apply_files_hash(2) [OF t1 files dist, of "(''certificates'', ''_cert_files'')"] cert1 by simp
qed

lemma apply_again:
  assumes "tracked env t s" and "time_free env"
    and "generate_all_configs env s = Inr configs"
    and "cg_status (fst (apply_certs env s)) \<noteq> ''error''"
    and "apply_configs env s = (results, s')"
  shows "\<exists>results'. apply_configs (later env now errs) s' = (results', s')
    \<and> (\<forall>r \<in> snd ` set results'. cg_status r = ''unchanged'')"
proof -
  note after = apply_configs_tracked [OF assms(1,3,4,5)]
  have t': "tracked (later env now errs) t s'"
    using tracked_same_inputs [OF assms(1) after(1)] by (simp add: tracked_def)
  have certs: "apply_certs (later env now errs) s'
      = (cfg ''unchanged'' (compute_cert_files_hash s) None, s')"
    by (simp add: apply_certs_def cert_hash_same_inputs [OF after(1)] get_stored_tracked [OF t']
        after(2))
  have gen: "generate_all_configs (later env now errs) s' = Inr configs"
    by (simp add: generate_later [OF assms(2)] generate_same_inputs [OF after(1)] assms(3))
  have "\<forall>(f, c) \<in> set configs. get_stored_hash (config_type_of f) f s' = Some (compute_hash c)"
    using after(3) by (simp add: get_stored_tracked [OF t'])
  from apply_files_unchanged [OF this, of "[(''certificates'', cfg ''unchanged'' (compute_cert_files_hash s) None)]"]
  show ?thesis
    by (simp add: apply_configs_def certs gen cfg_def)
qed

section \<open>Properties\<close>

text \<open>
  C9: Applying is idempotent. When the default tenant exists, upserts succeed and templates
  do not use the time, an apply that got past the certificates and the generation leaves
  everything tracked: a later apply on unchanged rows, at any time, reports every entry
  unchanged, writes nothing and leaves the state as it is.
\<close>

theorem apply_idempotent:
  assumes "tracked env t s" and "time_free env"
    and "generate_all_configs env s = Inr configs"
    and "cg_status (fst (apply_certs env s)) \<noteq> ''error''"
    and "apply_configs env s = (results, s')"
  shows "\<exists>results'. apply_configs (later env now errs) s' = (results', s')
    \<and> (\<forall>r \<in> snd ` set results'. cg_status r = ''unchanged'')"
  using assms by (rule apply_again)

definition ex_fr_env :: fr_env where
  "ex_fr_env = \<lparr>fe_render = (\<lambda>t vars. Inr t),
     fe_decrypt = (\<lambda>v. case v of PStr s \<Rightarrow> Inr (Some s) | _ \<Rightarrow> Inr None),
     fe_now = ''2024-01-01'', fe_override = ''true'', fe_isfile = (\<lambda>p. False),
     fe_write_error = (\<lambda>p. if p = ''/out/clients.conf'' then Some ''No space left'' else None),
     fe_save_ok = (\<lambda>ty n. True), fe_output_dir = ''/out'', fe_cert_dir = ''/certs''\<rparr>"

definition ex_fr_state :: fr_state where
  "ex_fr_state = \<lparr>fs_certificates = [], fs_ldap_servers = [], fs_realms = [], fs_nas_clients = [],
     fs_settings = [], fs_tenants = [(''t1'', ''default'')], fs_rows = [], fs_files = []\<rparr>"

lemma ex_fr_tracked: "tracked ex_fr_env ''t1'' ex_fr_state"
  by (simp add: tracked_def default_tenant_id_def ex_fr_env_def ex_fr_state_def)

lemma ex_fr_time_free: "time_free ex_fr_env"
  by (simp add: time_free_def ex_fr_env_def)

lemma ex_fr_loads:
  "load_active_certificates ex_fr_state = []" "load_ldap_servers ex_fr_state = []"
  "load_realms ex_fr_state = []" "load_nas_clients ex_fr_state = []"
  by (simp_all add: load_active_certificates_def load_ldap_servers_def load_realms_def
      load_nas_clients_def ex_fr_state_def)

lemma ex_fr_generates: "\<exists>configs. generate_all_configs ex_fr_env ex_fr_state = Inr configs"
  by (simp add: generate_all_configs_def generate_ldap_configs_def generate_proxy_config_def
      generate_clients_config_def ex_fr_loads Let_def)

lemma ex_fr_certs: "cg_status (fst (apply_certs ex_fr_env ex_fr_state)) \<noteq> ''error''"
  by (simp add: apply_certs_def write_cert_files_def ex_fr_loads Let_def cfg_def)

theorem apply_idempotent_witness:
  "\<exists>results s' results'. apply_configs ex_fr_env ex_fr_state = (results, s') \<and>
     apply_configs (later ex_fr_env ''2024-06-01'' (\<lambda>p. None)) s' = (results', s') \<and>
     (\<forall>r \<in> snd ` set results'. cg_status r = ''unchanged'')"
proof -
  obtain configs where gen: "generate_all_configs ex_fr_env ex_fr_state = Inr configs"
    using ex_fr_generates by blast
  obtain results s' where run: "apply_configs ex_fr_env ex_fr_state = (results, s')"
    by (cases "apply_configs ex_fr_env ex_fr_state")
  from apply_idempotent [OF ex_fr_tracked ex_fr_time_free gen ex_fr_certs run] run
  show ?thesis by blast
qed

subsection \<open>A failed write is never retried\<close>

lemma write_file_fails:
  "fe_write_error env p = Some msg \<Longrightarrow>
   keeps (\<lambda>s. dict_get (fs_files s) p = X) (write_file env q c m)"
  by (auto simp: keeps_def write_file_def split: option.split)

lemma write_cert_files_fails:
  assumes "fe_write_error env p = Some msg"
  shows "keeps (\<lambda>s. dict_get (fs_files s) p = X) (write_cert_files env)"
proof -
  note w = write_file_fails [OF assms]
  have i: "keeps (\<lambda>s. dict_get (fs_files s) p = X) (write_if env q c m)" for q c m
    by (auto simp: write_if_def w intro: keeps_intros)
  have k: "keeps (\<lambda>s. dict_get (fs_files s) p = X)
      (case key of Some (c # t) \<Rightarrow> write_file env q (c # t) m | _ \<Rightarrow> sret ())" for key q m
    by (auto intro: keeps_intros w split: option.split list.split)
  have "keeps (\<lambda>s. dict_get (fs_files s) p = X) (write_cert env cert)" for cert
    unfolding write_cert_def Let_def by (intro keeps_if keeps_sbind keeps_basic w i k)
  then show ?thesis
    unfolding write_cert_files_def by (intro keeps_sbind keeps_basic keeps_smap i)
qed

lemma save_files [simp]: "fs_files (save_config_state env ty n c h st e s) = fs_files s"
  by (simp add: save_config_state_def Let_def)

lemma apply_certs_fails:
  assumes "fe_write_error env p = Some msg" and "apply_certs env s = (r, s')"
  shows "dict_get (fs_files s') p = dict_get (fs_files s) p"
proof -
  obtain w s1 where w: "write_cert_files env s = (w, s1)" by (cases "write_cert_files env s")
  have "dict_get (fs_files s1) p = dict_get (fs_files s) p"
    by (rule keepsD [OF write_cert_files_fails [OF assms(1)] refl w])
  with w assms(2) show ?thesis
    by (cases w) (auto simp: apply_certs_def Let_def split: if_splits)
qed

lemma apply_file_fails:
  assumes "fe_write_error env p = Some msg" and "apply_file env f c s = (r, s')"
  shows "dict_get (fs_files s') p = dict_get (fs_files s) p"
proof -
  obtain w s1 where w: "write_file env (path_join (fe_output_dir env) f) c mode_644 s = (w, s1)"
    by (cases "write_file env (path_join (fe_output_dir env) f) c mode_644 s")
  have "dict_get (fs_files s1) p = dict_get (fs_files s) p"
    by (rule keepsD [OF write_file_fails [OF assms(1)] refl w])
  with w assms(2) show ?thesis
    by (cases w) (auto simp: apply_file_def Let_def split: if_splits)
qed

lemma apply_files_fails:
  "fe_write_error env p = Some msg \<Longrightarrow> apply_files env configs res s = (r, s') \<Longrightarrow>
   dict_get (fs_files s') p = dict_get (fs_files s) p"
proof (induction configs arbitrary: res s)
  case (Cons fc configs)
  obtain f c where fc: "fc = (f, c)" by (cases fc)
  obtain r1 s1 where one: "apply_file env f c s = (r1, s1)" by (cases "apply_file env f c s")
  with Cons.prems fc have "apply_files env configs (dict_set (config_type_of f) r1 res) s1 = (r, s')"
    by simp
  from Cons.IH [OF Cons.prems(1) this] apply_file_fails [OF Cons.prems(1) one] show ?case by simp
qed simp

text \<open>
  A failed write is reported once and never repaired. A file whose write raises
  stays on disk as it was, and the hash of the new content is stored all the same; so the
  next apply, even when the disk is writable again, reports it unchanged and leaves the old
  file in place. The reconciliation the watcher runs cannot recover it.
\<close>

theorem failed_write_never_retried:
  assumes "tracked env t s" and "time_free env"
    and "generate_all_configs env s = Inr configs"
    and "cg_status (fst (apply_certs env s)) \<noteq> ''error''"
    and "fe_write_error env path = Some msg"
    and "apply_configs env s = (results, s')"
    and "apply_configs (later env now (\<lambda>p. None)) s' = (results', s'')"
  shows "dict_get (fs_files s'') path = dict_get (fs_files s) path
    \<and> (\<forall>r \<in> snd ` set results'. cg_status r = ''unchanged'')"
proof -
  obtain cr s1 where certs: "apply_certs env s = (cr, s1)" by (cases "apply_certs env s")
  have gen: "generate_all_configs env s1 = Inr configs"
    using assms(3) by (simp add: generate_same_inputs [OF apply_certs_inputs [OF certs]])
  with certs assms(6) have files: "apply_files env configs [(''certificates'', cr)] s1 = (results, s')"
    by (simp add: apply_configs_def)
  from apply_certs_fails [OF assms(5) certs] apply_files_fails [OF assms(5) files]
  have "dict_get (fs_files s') path = dict_get (fs_files s) path" by simp
  with apply_again [OF assms(1-4,6), of now "\<lambda>p. None"] assms(7) show ?thesis by auto
qed

theorem failed_write_never_retried_witness:
  "\<exists>results s' results' s''. apply_configs ex_fr_env ex_fr_state = (results, s') \<and>
     apply_configs (later ex_fr_env ''2024-06-01'' (\<lambda>p. None)) s' = (results', s'') \<and>
     dict_get (fs_files s'') ''/out/clients.conf'' = None"
proof -
  obtain configs where gen: "generate_all_configs ex_fr_env ex_fr_state = Inr configs"
    using ex_fr_generates by blast
  have err: "fe_write_error ex_fr_env ''/out/clients.conf'' = Some ''No space left''"
    by (simp add: ex_fr_env_def)
  obtain results s' where run: "apply_configs ex_fr_env ex_fr_state = (results, s')"
    by (cases "apply_configs ex_fr_env ex_fr_state")
  obtain results' s'' where again:
    "apply_configs (later ex_fr_env ''2024-06-01'' (\<lambda>p. None)) s' = (results', s'')"
    by (cases "apply_configs (later ex_fr_env ''2024-06-01'' (\<lambda>p. None)) s'")
  have "fs_files ex_fr_state = []" by (simp add: ex_fr_state_def)
  with failed_write_never_retried [OF ex_fr_tracked ex_fr_time_free gen ex_fr_certs err run again]
    run again show ?thesis by auto
qed

subsection \<open>One bad secret stops every file\<close>

lemma rmap_fails: "x \<in> set xs \<Longrightarrow> f x = Inl e \<Longrightarrow> \<exists>e'. rmap f xs = Inl e'"
  by (induction xs) (auto simp: rbind_def split: sum.split)

text \<open>
  One undecryptable secret stops the whole generation. When the stored secret of a
  single enabled NAS client does not decrypt, an apply returns nothing but the generation
  error, and beyond the certificate files nothing is written or tracked: a correction of
  any other client, realm or server is held back as well.
\<close>

theorem bad_secret_blocks_all:
  assumes "client \<in> set (load_nas_clients s)"
    and "fe_decrypt env (py_get client ''secret_encrypted'') = Inl e"
  shows "\<exists>msg. apply_configs env s =
    ([(''_generate_error'', cfg ''error'' [] (Some msg))], snd (apply_certs env s))"
proof -
  obtain cr s1 where certs: "apply_certs env s = (cr, s1)" by (cases "apply_certs env s")
  have "client_lines env client = Inl e"
    unfolding client_lines_def Let_def secret_or_def assms(2) rbind_Inl ..
  from rmap_fails [of _ _ "client_lines env", OF assms(1) this]
  obtain e' where "rmap (client_lines env) (load_nas_clients s) = Inl e'" ..
  then have "generate_clients_config env s1 = Inl e'"
    by (simp add: generate_clients_config_def loads_same_inputs [OF apply_certs_inputs [OF certs]])
  then have "\<exists>e''. generate_all_configs env s1 = Inl e''"
    unfolding generate_all_configs_def
    by (cases "generate_ldap_configs env s1"; cases "generate_proxy_config env s1") auto
  then show ?thesis using certs by (auto simp: apply_configs_def)
qed

definition ex_client :: pydict where
  "ex_client = [(''name'', PStr ''sw1''), (''ip_address'', PStr ''10.0.0.9''),
     (''secret_encrypted'', PStr ''plain''), (''enabled'', PBool True)]"

theorem bad_secret_blocks_all_witness:
  "\<exists>msg. apply_configs (ex_fr_env\<lparr>fe_decrypt := (\<lambda>v. Inl (ValueError ''not ciphertext''))\<rparr>)
      (ex_fr_state\<lparr>fs_nas_clients := [ex_client]\<rparr>) =
    ([(''_generate_error'', cfg ''error'' [] (Some msg))],
     snd (apply_certs (ex_fr_env\<lparr>fe_decrypt := (\<lambda>v. Inl (ValueError ''not ciphertext''))\<rparr>)
       (ex_fr_state\<lparr>fs_nas_clients := [ex_client]\<rparr>)))"
  by (rule bad_secret_blocks_all [of ex_client])
     (simp_all add: load_nas_clients_def true_col_def ex_client_def py_get_def dict_get_or_def)

subsection \<open>EAP without certificates\<close>

text \<open>
  The EAP module is generated without certificates. Nothing in \<open>generate_eap_config\<close>
  depends on a certificate being there: with an empty certificate table, whenever the
  template renders to a non-empty text the module and the inner tunnel flag are switched on
  and the file names certificate files no one writes. The comments say the module is
  generated only with an active CA and server certificate.
\<close>

theorem eap_without_certificates:
  assumes "fs_certificates s = []"
    and "generate_all_configs env s = Inr configs"
    and "\<forall>vars. \<exists>c t. fe_render env ''eap.j2'' vars = Inr (c # t)"
  shows "''mods-available/eap'' \<in> fst ` set configs
    \<and> snd (write_cert_files env (s\<lparr>fs_ldap_servers := []\<rparr>)) = s\<lparr>fs_ldap_servers := []\<rparr>"
proof -
  from generate_all_Inr [OF assms(2)] obtain lf ms py px cl site inner where
    configs: "configs = assemble_configs (generate_eap_config env s) lf py px cl site inner"
    by (elim exE conjE)
  have ne: "generate_eap_config env s \<noteq> []"
  proof -
    have "render_or_empty env ''eap.j2'' vars \<noteq> []" for vars
      using assms(3) unfolding render_or_empty_def by (metis list.distinct(1) sum.case(2))
    then show ?thesis unfolding generate_eap_config_def Let_def .
  qed
  have keep: "k \<in> fst ` set d \<Longrightarrow> k \<in> fst ` set (opt_config n c d)" for k n c d
    using dict_set_keys [of n c d] by (auto simp: opt_config_def)
  have keep_fold: "k \<in> fst ` set d \<Longrightarrow>
      k \<in> fst ` set (fold (\<lambda>(f, c). dict_set (''mods-available/'' @ f) c) fs d)" for k d fs
  proof (induction fs arbitrary: d)
    case (Cons fc fs)
    obtain f c where fc: "fc = (f, c)" by (cases fc)
    have "k \<in> fst ` set (dict_set (''mods-available/'' @ f) c d)"
      using Cons.prems dict_set_keys [of "''mods-available/'' @ f" c d] by (metis insertI2 set_map)
    from Cons.IH [OF this] show ?case by (simp only: fc fold_Cons comp_apply split_conv prod.case)
  qed simp
  have "''mods-available/eap'' \<in> fst ` set (opt_config ''mods-available/eap'' (generate_eap_config env s) [])"
    using ne by (simp add: opt_config_def)
  then have "''mods-available/eap'' \<in> fst ` set configs"
    unfolding configs assemble_configs_def
    by (rule keep_fold [THEN keep, THEN keep, THEN keep, THEN keep, THEN keep])
  moreover have "snd (write_cert_files env (s\<lparr>fs_ldap_servers := []\<rparr>)) = s\<lparr>fs_ldap_servers := []\<rparr>"
    using assms(1) by (simp add: write_cert_files_def load_active_certificates_def
        load_ldap_servers_def)
  ultimately show ?thesis ..
qed

theorem eap_without_certificates_witness:
  "\<exists>configs. generate_all_configs ex_fr_env ex_fr_state = Inr configs
     \<and> ''mods-available/eap'' \<in> fst ` set configs"
proof -
  obtain configs where gen: "generate_all_configs ex_fr_env ex_fr_state = Inr configs"
    using ex_fr_generates by blast
  have "fs_certificates ex_fr_state = []" by (simp add: ex_fr_state_def)
  moreover have "\<forall>vars. \<exists>c t. fe_render ex_fr_env ''eap.j2'' vars = Inr (c # t)"
    by (simp add: ex_fr_env_def)
  ultimately show ?thesis using eap_without_certificates [OF _ gen] gen by blast
qed

end
