(* ===== verification/Config_Watcher.thy ===== *)
theory Config_Watcher
  imports Freeradius_Config
begin

text \<open>
  The configuration watcher, \<open>services/auth/freeradius_config_watcher.py\<close>: the reload of
  FreeRADIUS with its fallback, \<open>apply_and_reload\<close>, and the iterations of the main loop.
  The state is that of the configuration manager and the number of hangup signals that
  reached FreeRADIUS. What the Docker SDK and the Docker command do in an iteration is
  given with its event.
\<close>

section \<open>Reloading\<close>

datatype sdk_outcome = SdkMissing | SdkFailed | SdkSent

datatype cli_outcome = CliSent | CliFailed | CliTimeout | CliMissing

text \<open>Success, and the number of signals delivered.\<close>

definition reload_freeradius :: "sdk_outcome \<Rightarrow> cli_outcome \<Rightarrow> bool \<times> nat" where
  "reload_freeradius sdk cli =
     (case sdk of
        SdkSent \<Rightarrow> (True, 1)
      | _ \<Rightarrow> (case cli of CliSent \<Rightarrow> (True, 1) | _ \<Rightarrow> (False, 0)))"

record watch_state =
  ws_fr :: fr_state
  ws_hups :: nat

record watch_io =
  wi_env :: fr_env
  wi_sdk :: sdk_outcome
  wi_cli :: cli_outcome

definition with_status :: "string \<Rightarrow> (string, cfg_result) dict \<Rightarrow> string list" where
  "with_status st result = map fst (filter (\<lambda>(k, v). cg_status v = st) result)"

definition apply_and_reload ::
  "watch_io \<Rightarrow> watch_state \<Rightarrow> (string, cfg_result) dict \<times> watch_state" where
  "apply_and_reload io w =
     (let (result, fr) = apply_configs (wi_env io) (ws_fr w);
          applied = with_status ''applied'' result;
          unchanged = with_status ''unchanged'' result
      in if applied \<noteq> [] then
           (let (ok, n) = reload_freeradius (wi_sdk io) (wi_cli io)
            in (dict_set ''_reload''
                  (if ok then cfg ''ok'' [] None else cfg ''error'' [] (Some ''HUP signal failed'')) result,
                w\<lparr>ws_fr := fr, ws_hups := ws_hups w + n\<rparr>))
         else
           (dict_set ''_reload''
              (cfg ''skipped'' []
                (Some (if unchanged \<noteq> [] then ''No configs changed'' else ''No configs applied''))) result,
            w\<lparr>ws_fr := fr\<rparr>))"

section \<open>The main loop\<close>

text \<open>
  An iteration: a message with its decoded payload (\<open>None\<close> when it is no JSON text), the
  expiry of the reconciliation interval, a closed connection, or another exception.
\<close>

datatype watch_event =
    WatchMessage "pyval option"
  | WatchTimeout
  | WatchClosed
  | WatchOther

text \<open>
  The reason of a request. Only decoding errors are caught: a payload that is no object,
  or a reason that does not concatenate with a text, raises after the message was
  acknowledged.
\<close>

definition reason_of :: "pyval option \<Rightarrow> string result" where
  "reason_of payload =
     (case payload of
        None \<Rightarrow> Inr ''nats_event''
      | Some (PDict d) \<Rightarrow>
          (let reason = dict_get_or d ''reason'' (dict_get_or d ''action'' (PStr ''nats_event''));
               requested_by = dict_get_or d ''requested_by'' (PStr [])
           in if \<not> truthy requested_by then Inr (py_str reason)
              else case reason of
                PStr r \<Rightarrow> Inr (r @ '' by '' @ py_str requested_by)
              | PList xs \<Rightarrow> Inr (py_str (PList (xs @ map (\<lambda>c. PStr [c]) ('' by '' @ py_str requested_by))))
              | _ \<Rightarrow> Inl (TypeError ''unsupported operand type(s) for +=''))
      | Some _ \<Rightarrow> Inl (AttributeError ''get''))"

definition watch_step :: "watch_state \<Rightarrow> watch_io \<times> watch_event \<Rightarrow> watch_state" where
  "watch_step w e =
     (case snd e of
        WatchMessage payload \<Rightarrow>
          (case reason_of payload of
             Inl err \<Rightarrow> w
           | Inr reason \<Rightarrow> snd (apply_and_reload (fst e) w))
      | WatchTimeout \<Rightarrow> snd (apply_and_reload (fst e) w)
      | WatchClosed \<Rightarrow> w
      | WatchOther \<Rightarrow> w)"

text \<open>The start: one apply before the loop.\<close>

definition watcher :: "watch_io \<Rightarrow> fr_state \<Rightarrow> (watch_io \<times> watch_event) list \<Rightarrow> watch_state" where
  "watcher io s es =
     run watch_step (snd (apply_and_reload io \<lparr>ws_fr = s, ws_hups = 0\<rparr>)) es"

text \<open>The first line of the banner that names the database.\<close>

definition db_banner :: "string \<Rightarrow> string" where
  "db_banner db_url = hd (py_split CHR ''@'' db_url) @ ''@***''"

section \<open>Lemmas\<close>

lemma with_status_Nil: "with_status st result = [] \<longleftrightarrow> (\<forall>r \<in> snd ` set result. cg_status r \<noteq> st)"
  by (auto simp: with_status_def filter_empty_conv)

lemma apply_and_reload_fr:
  "apply_configs (wi_env io) (ws_fr w) = (result, fr) \<Longrightarrow>
   ws_fr (snd (apply_and_reload io w)) = fr"
  by (simp add: apply_and_reload_def Let_def split: prod.split)

lemma apply_and_reload_unchanged:
  assumes "apply_configs (wi_env io) (ws_fr w) = (result, ws_fr w)"
    and "\<forall>r \<in> snd ` set result. cg_status r = ''unchanged''"
  shows "snd (apply_and_reload io w) = w"
    and "\<exists>why. dict_get (fst (apply_and_reload io w)) ''_reload'' = Some (cfg ''skipped'' [] (Some why))"
proof -
  have none: "with_status ''applied'' result = []"
    using assms(2) by (simp add: with_status_Nil)
  show "snd (apply_and_reload io w) = w"
    using none by (simp add: apply_and_reload_def assms(1))
  show "\<exists>why. dict_get (fst (apply_and_reload io w)) ''_reload'' = Some (cfg ''skipped'' [] (Some why))"
    using none by (auto simp: apply_and_reload_def assms(1))
qed

lemma split_head: "c \<notin> set u \<Longrightarrow> hd (py_split c (u @ c # v)) = u"
  by (induction u) (auto split: list.split)

text \<open>The user name and password of the URL stand before its first at sign.\<close>

lemma banner_shows_password:
  assumes "CHR ''@'' \<notin> set (pre @ pw)"
  shows "py_in pw (db_banner (pre @ pw @ CHR ''@'' # rest))"
proof -
  have "db_banner ((pre @ pw) @ CHR ''@'' # rest) = (pre @ pw) @ ''@***''"
    unfolding db_banner_def split_head [OF assms] ..
  then show ?thesis by (simp del: py_in.simps)
qed

section \<open>Properties\<close>

text \<open>
  C26: FreeRADIUS is signalled exactly when something was applied. One iteration delivers
  one hangup signal when some entry of its apply is reported applied and the SDK or the
  command gets through, and none otherwise; errors alone do not cause a signal.
\<close>

theorem signal_iff_applied:
  "ws_hups (snd (apply_and_reload io w)) = ws_hups w +
     (if (\<exists>r \<in> snd ` set (fst (apply_configs (wi_env io) (ws_fr w))). cg_status r = ''applied'')
         \<and> (wi_sdk io = SdkSent \<or> wi_cli io = CliSent) then 1 else 0)"
proof -
  obtain result fr where run: "apply_configs (wi_env io) (ws_fr w) = (result, fr)"
    by (cases "apply_configs (wi_env io) (ws_fr w)")
  show ?thesis
  proof (cases "with_status ''applied'' result = []")
    case True
    then show ?thesis by (simp add: apply_and_reload_def run with_status_Nil)
  next
    case False
    then show ?thesis
      by (cases "wi_sdk io"; cases "wi_cli io")
         (auto simp: apply_and_reload_def run with_status_Nil reload_freeradius_def)
  qed
qed

lemma watch_step_quiet:
  assumes "apply_configs (wi_env io) (ws_fr w) = (result, ws_fr w)"
    and "\<forall>r \<in> snd ` set result. cg_status r = ''unchanged''"
  shows "watch_step w (io, e) = w"
  using apply_and_reload_unchanged(1) [OF assms]
  by (auto simp: watch_step_def split: watch_event.split option.split sum.split)

text \<open>
  After one apply the watcher is quiet, also when its reload failed. Under the
  conditions of idempotence, any sequence of messages, timeouts and failures that follows,
  at whatever times, leaves the files, the tracking table and the number of signals as they
  are: there is no storm of signals, but a hangup that was not delivered is never sent
  again, since the files it was for are already tracked as applied.
\<close>

theorem watcher_quiet_after_apply:
  assumes "tracked (wi_env io) t (ws_fr w)" and "time_free (wi_env io)"
    and "generate_all_configs (wi_env io) (ws_fr w) = Inr configs"
    and "cg_status (fst (apply_certs (wi_env io) (ws_fr w))) \<noteq> ''error''"
    and "\<forall>(io', e) \<in> set es. \<exists>now errs. wi_env io' = later (wi_env io) now errs"
  shows "run watch_step (snd (apply_and_reload io w)) es = snd (apply_and_reload io w)"
proof -
  obtain result fr where run1: "apply_configs (wi_env io) (ws_fr w) = (result, fr)"
    by (cases "apply_configs (wi_env io) (ws_fr w)")
  let ?w = "snd (apply_and_reload io w)"
  have fr: "ws_fr ?w = fr" by (rule apply_and_reload_fr [OF run1])
  have quiet: "watch_step ?w (io', e) = ?w" if "wi_env io' = later (wi_env io) now errs" for io' e now errs
  proof -
    from apply_again [OF assms(1-4) run1, of now errs, folded that fr] obtain result' where
      "apply_configs (wi_env io') (ws_fr ?w) = (result', ws_fr ?w)"
      "\<forall>r \<in> snd ` set result'. cg_status r = ''unchanged''"
      by (elim exE conjE)
    then show ?thesis by (rule watch_step_quiet)
  qed
  from assms(5) show ?thesis
  proof (induction es)
    case (Cons x es)
    obtain io' e where x: "x = (io', e)" by (cases x)
    with Cons.prems obtain now errs where "wi_env io' = later (wi_env io) now errs" by auto
    with Cons show ?case by (simp add: x quiet)
  qed simp
qed

definition ex_io :: watch_io where
  "ex_io = \<lparr>wi_env = ex_fr_env, wi_sdk = SdkFailed, wi_cli = CliMissing\<rparr>"

definition ex_io_later :: watch_io where
  "ex_io_later = \<lparr>wi_env = later ex_fr_env ''2024-06-01'' (\<lambda>p. None), wi_sdk = SdkSent, wi_cli = CliSent\<rparr>"

definition ex_watch :: watch_state where
  "ex_watch = \<lparr>ws_fr = ex_fr_state, ws_hups = 0\<rparr>"

theorem watcher_quiet_after_apply_witness:
  "run watch_step (snd (apply_and_reload ex_io ex_watch))
     [(ex_io_later, WatchTimeout), (ex_io_later, WatchMessage None)] =
   snd (apply_and_reload ex_io ex_watch)"
proof -
  obtain configs where gen: "generate_all_configs ex_fr_env ex_fr_state = Inr configs"
    using ex_fr_generates by blast
  show ?thesis
  proof (rule watcher_quiet_after_apply)
    show "tracked (wi_env ex_io) ''t1'' (ws_fr ex_watch)"
      using ex_fr_tracked by (simp add: ex_io_def ex_watch_def)
    show "time_free (wi_env ex_io)" using ex_fr_time_free by (simp add: ex_io_def)
    show "generate_all_configs (wi_env ex_io) (ws_fr ex_watch) = Inr configs"
      using gen by (simp add: ex_io_def ex_watch_def)
    show "cg_status (fst (apply_certs (wi_env ex_io) (ws_fr ex_watch))) \<noteq> ''error''"
      using ex_fr_certs by (simp add: ex_io_def ex_watch_def)
    show "\<forall>(io', e) \<in> set [(ex_io_later, WatchTimeout), (ex_io_later, WatchMessage None)].
        \<exists>now errs. wi_env io' = later (wi_env ex_io) now errs"
      by (auto simp: ex_io_def ex_io_later_def)
  qed
qed

end
