(* ===== verification/Radius_Hooks.thy ===== *)
theory Radius_Hooks
  imports Py_Effects
begin

text \<open>
  The FreeRADIUS module, \<open>services/auth/freeradius/mods-config/python/rlm_orw.py\<close>: the
  detection of the method and of the reason of a failure, the MAB whitelist, the VLAN of a
  successful authentication, the authentication log, and the hooks \<open>authorize\<close>,
  \<open>post_auth\<close> and \<open>accounting\<close>. Attribute values are texts, or lists of texts when an
  attribute is repeated. The environment record holds the database as the module sees
  it, the directory server, the decryption of the bind password, the clock and the cast of
  PostgreSQL to \<open>macaddr\<close>.
\<close>

section \<open>State and environment\<close>

record mab_row =
  mb_mac_address :: string
  mb_name :: "string option"
  mb_assigned_vlan_id :: "int option"
  mb_enabled :: bool
  mb_expiry_date :: "int option"
  mb_tenant_id :: "string option"

record group_vlan_row =
  gv_group_name :: string
  gv_vlan_id :: int
  gv_priority :: int
  gv_enabled :: bool
  gv_tenant_id :: "string option"

record hook_db =
  hd_mab_devices :: "mab_row list"
  hd_group_vlans :: "group_vlan_row list"
  hd_ldap_servers :: "pydict list"

text \<open>What a directory search is given, and its answer: the values of the group attribute.\<close>

record ldap_query =
  lq_host :: pyval
  lq_port :: pyval
  lq_use_ssl :: bool
  lq_bind_dn :: pyval
  lq_bind_password :: string
  lq_start_tls :: bool
  lq_search_base :: pyval
  lq_search_filter :: string
  lq_group_attr :: pyval

record hook_env =
  he_db :: "hook_db option"
  he_tenant_id :: string
  he_now :: int
  he_macaddr :: "string \<Rightarrow> string option"
  he_has_ldap3 :: bool
  he_ldap :: "ldap_query \<Rightarrow> string list result"
  he_decrypt :: "pyval \<Rightarrow> string option result"
  he_insert_ok :: "pydict \<Rightarrow> bool"
  he_elapsed_ms :: int

section \<open>Tables of the module\<close>

definition AD_ERROR_MAP :: "(string, string \<times> string) dict" where
  "AD_ERROR_MAP =
     [(''525'', (''AD_MACHINE_NOT_FOUND'', ''User/computer not found in AD'')),
      (''52e'', (''AD_INVALID_CREDENTIALS'', ''Invalid credentials - wrong password'')),
      (''530'', (''AD_LOGON_HOURS'', ''Not permitted to logon at this time'')),
      (''531'', (''AD_LOGON_WORKSTATION'', ''Not permitted to logon from this workstation'')),
      (''532'', (''AD_PASSWORD_EXPIRED'', ''Password has expired'')),
      (''533'', (''AD_ACCOUNT_DISABLED'', ''Account is disabled'')),
      (''701'', (''AD_ACCOUNT_EXPIRED'', ''Account has expired'')),
      (''773'', (''AD_PASSWORD_MUST_CHANGE'', ''User must change password before first logon'')),
      (''775'', (''AD_ACCOUNT_LOCKED'', ''Account is locked out'')),
      (''691'', (''AD_INVALID_CREDENTIALS'', ''Authentication failure - wrong password or username'')),
      (''646'', (''AD_ACCOUNT_DISABLED'', ''Account restriction - account disabled or locked'')),
      (''647'', (''AD_ACCOUNT_EXPIRED'', ''Account expired'')),
      (''648'', (''AD_LOGON_HOURS'', ''Logon hours restriction'')),
      (''649'', (''AD_LOGON_WORKSTATION'', ''Workstation restriction''))]"

definition EAP_METHOD_MAP :: "(int, string) dict" where
  "EAP_METHOD_MAP =
     [(1, ''Identity''), (4, ''MD5-Challenge''), (6, ''GTC''), (13, ''EAP-TLS''),
      (21, ''EAP-TTLS''), (25, ''PEAP''), (26, ''MSCHAPv2''), (43, ''EAP-FAST'')]"

section \<open>Attributes\<close>

fun extract_attrs_from :: "pydict \<Rightarrow> (string \<times> string) list \<Rightarrow> pydict" where
  "extract_attrs_from attrs [] = attrs"
| "extract_attrs_from attrs ((k, v) # pairs) =
     extract_attrs_from
       (case dict_get attrs k of
          None \<Rightarrow> dict_set k (PStr v) attrs
        | Some (PList xs) \<Rightarrow> dict_set k (PList (xs @ [PStr v])) attrs
        | Some x \<Rightarrow> dict_set k (PList [x, PStr v]) attrs) pairs"

definition extract_attrs :: "(string \<times> string) list \<Rightarrow> pydict" where
  "extract_attrs request_pairs = extract_attrs_from [] request_pairs"

text \<open>A string method on an attribute; a list has none of them.\<close>

definition text_attr :: "string \<Rightarrow> pyval \<Rightarrow> string result" where
  "text_attr m v = (case v of PStr s \<Rightarrow> Inr s | _ \<Rightarrow> Inl (AttributeError m))"

text \<open>\<open>c in v\<close> for a text or a list of texts.\<close>

definition attr_contains :: "char \<Rightarrow> pyval \<Rightarrow> bool" where
  "attr_contains c v =
     (case v of PStr s \<Rightarrow> c \<in> set s | PList xs \<Rightarrow> PStr [c] \<in> set xs | _ \<Rightarrow> False)"

definition attr_or :: "pydict \<Rightarrow> string \<Rightarrow> string \<Rightarrow> pyval" where
  "attr_or request k d = dict_get_or request k (PStr d)"

definition is_digits :: "string \<Rightarrow> bool" where
  "is_digits s \<longleftrightarrow> s \<noteq> [] \<and> list_all is_digit_char s"

text \<open>Separators removed, lower case: the form in which MAB compares.\<close>

definition bare_mac :: "string \<Rightarrow> string" where
  "bare_mac s = py_lower (remove_char CHR ''.'' (remove_char CHR ''-'' (remove_char CHR '':'' s)))"

definition service_type_method :: "pydict \<Rightarrow> string" where
  "service_type_method request =
     (if py_get request ''Service-Type'' = PStr ''Call-Check'' then ''MAB'' else ''PAP'')"

definition detect_auth_method :: "pydict \<Rightarrow> string result" where
  "detect_auth_method request =
     (let eap_type = py_get request ''EAP-Type''
      in if truthy eap_type then
           rbind (text_attr ''isdigit'' eap_type) (\<lambda>e.
             Inr (dict_get_or EAP_METHOD_MAP
                    (if is_digits e then (case parse_nat e of Some n \<Rightarrow> int n | None \<Rightarrow> 0) else 0)
                    (''EAP-'' @ e)))
         else
           (let calling_id = attr_or request ''Calling-Station-Id'' [];
                username = attr_or request ''User-Name'' []
            in if truthy calling_id \<and> truthy username then
                 rbind (text_attr ''replace'' calling_id) (\<lambda>c.
                 rbind (text_attr ''replace'' username) (\<lambda>u.
                   Inr (if bare_mac c = bare_mac u then ''MAB'' else service_type_method request)))
               else Inr (service_type_method request)))"

section \<open>Why an authentication failed\<close>

type_synonym failure = "string option \<times> string option \<times> string option"

text \<open>The two loops over the error codes, the second behind its guard.\<close>

definition ad_code_in :: "string \<Rightarrow> failure option" where
  "ad_code_in source =
     map_option (\<lambda>(code, reason, desc). (Some desc, Some reason, Some source))
       (find (\<lambda>(code, reason, desc). py_in code source \<or> py_in (''data '' @ code) (py_lower source))
          AD_ERROR_MAP)"

definition mschap_code_in :: "string \<Rightarrow> failure option" where
  "mschap_code_in source =
     (if py_in ''E='' source
      then map_option (\<lambda>(code, reason, desc). (Some desc, Some reason, Some source))
             (find (\<lambda>(code, reason, desc). py_in (''E='' @ code) source) AD_ERROR_MAP)
      else None)"

definition failure_of :: "string \<Rightarrow> string \<Rightarrow> string \<Rightarrow> failure option" where
  "failure_of reason code source = Some (Some reason, Some code, Some source)"

definition cert_failure :: "string \<Rightarrow> failure option" where
  "cert_failure source =
     (let l = py_lower source
      in if \<not> py_in ''certificate'' l then None
         else if py_in ''expired'' l
         then failure_of ''Client certificate expired'' ''CERT_EXPIRED'' source
         else if py_in ''revoked'' l
         then failure_of ''Client certificate revoked'' ''CERT_REVOKED'' source
         else if py_in ''unknown ca'' l \<or> py_in ''untrusted'' l
         then failure_of ''Client certificate from untrusted CA'' ''CERT_NOT_TRUSTED'' source
         else if py_in ''verify'' l
         then failure_of ''Certificate verification failed'' ''CERT_VERIFY_FAILED'' source
         else None)"

definition eap_failure :: "string \<Rightarrow> failure option" where
  "eap_failure source =
     (let l = py_lower source
      in if \<not> py_in ''eap'' l then None
         else if py_in ''timeout'' l
         then failure_of ''EAP conversation timed out'' ''EAP_TIMEOUT'' source
         else if py_in ''method'' l \<and> (py_in ''reject'' l \<or> py_in ''not found'' l)
         then failure_of ''EAP method not supported'' ''EAP_METHOD_MISMATCH'' source
         else None)"

definition ldap_failure :: "string \<Rightarrow> failure option" where
  "ldap_failure source =
     (let l = py_lower source
      in if py_in ''ldap'' l \<and> (py_in ''connect'' l \<or> py_in ''bind'' l)
         then failure_of ''Cannot connect to AD/LDAP'' ''AD_CONNECT_FAILED'' source
         else if py_in ''shared secret'' l \<or> py_in ''authenticator'' l
         then failure_of ''RADIUS shared secret mismatch'' ''SHARED_SECRET_MISMATCH'' source
         else None)"

fun first_some :: "'a option list \<Rightarrow> 'a option" where
  "first_some [] = None"
| "first_some (Some x # xs) = Some x"
| "first_some (None # xs) = first_some xs"

definition failure_in :: "string \<Rightarrow> failure option" where
  "failure_in source =
     (if source = [] then None
      else first_some [ad_code_in source, mschap_code_in source, cert_failure source,
             eap_failure source, ldap_failure source])"

text \<open>The reply is a dictionary of texts; its \<open>str()\<close> is the last source looked at.\<close>

definition reply_dict :: "(string, string) dict \<Rightarrow> pydict" where
  "reply_dict reply = map (\<lambda>(k, v). (k, PStr v)) reply"

definition detect_failure_reason :: "(string, string) dict \<Rightarrow> string \<Rightarrow> failure" where
  "detect_failure_reason reply auth_result =
     (if auth_result = ''success'' then (None, None, None)
      else
        let reply_message = dict_get_or reply ''Reply-Message'' [];
            module_fail = dict_get_or reply ''Module-Failure-Message'' []
        in case first_some (map failure_in
                  [reply_message, module_fail, py_str (PDict (reply_dict reply))]) of
             Some f \<Rightarrow> f
           | None \<Rightarrow>
               if module_fail \<noteq> [] then (Some module_fail, None, None)
               else if reply_message \<noteq> [] then (Some reply_message, None, None)
               else (Some ''Authentication rejected'', None, None))"

section \<open>The authentication log\<close>

definition cert_fields :: "(string \<times> string) list" where
  "cert_fields =
     [(''TLS-Client-Cert-Common-Name'', ''client_cert_cn''),
      (''TLS-Client-Cert-Issuer'', ''client_cert_issuer''),
      (''TLS-Client-Cert-Serial'', ''client_cert_serial''),
      (''TLS-Client-Cert-Not-After'', ''client_cert_expiry''),
      (''TLS-Cert-Common-Name'', ''server_cert_cn'')]"

definition extract_cert_info :: "pydict \<Rightarrow> pydict" where
  "extract_cert_info request =
     fold (\<lambda>(attr, key) info.
       (if truthy (py_get request attr) then dict_set key (py_get request attr) info else info))
       cert_fields []"

text \<open>The domain of a user name; a list of names that holds no such element has none.\<close>

definition split_domain :: "pyval \<Rightarrow> pyval result" where
  "split_domain username =
     (if truthy username \<and> attr_contains CHR 0x5C username
      then rbind (text_attr ''split'' username) (\<lambda>u. Inr (PStr (fst (split_first CHR 0x5C u))))
      else if truthy username \<and> attr_contains CHR ''@'' username
      then rbind (text_attr ''rsplit'' username) (\<lambda>u. Inr (PStr (snd (split_last CHR ''@'' u))))
      else Inr PNone)"

definition opt_text :: "string option \<Rightarrow> pyval" where
  "opt_text v = (case v of None \<Rightarrow> PNone | Some s \<Rightarrow> PStr s)"

definition reply_get :: "(string, string) dict \<Rightarrow> string \<Rightarrow> pyval" where
  "reply_get reply k = opt_text (dict_get reply k)"

definition assigned_vlan_of :: "(string, string) dict \<Rightarrow> pyval" where
  "assigned_vlan_of reply =
     (case dict_get reply ''Tunnel-Private-Group-Id'' of
        Some (c # s) \<Rightarrow> (case parse_int (c # s) of Some i \<Rightarrow> PInt i | None \<Rightarrow> PNone)
      | _ \<Rightarrow> PNone)"

definition text_values :: "pydict \<Rightarrow> pyval" where
  "text_values d = PDict (map (\<lambda>(k, v). (k, PStr (py_str v))) d)"

text \<open>The row; the two JSON columns are given as the dictionaries they encode.\<close>

definition auth_log_row ::
  "hook_env \<Rightarrow> pydict \<Rightarrow> (string, string) dict \<Rightarrow> string \<Rightarrow> pydict result" where
  "auth_log_row env request reply auth_result =
     rbind (detect_auth_method request) (\<lambda>auth_method.
     let (failure_reason, ad_error_code, ad_error_message) = detect_failure_reason reply auth_result;
         cert_info = extract_cert_info request;
         username = py_get request ''User-Name''
     in rbind (split_domain username) (\<lambda>user_domain. Inr
       [(''session_id'', py_get request ''Acct-Session-Id''),
        (''request_type'',
           PStr (if auth_result = ''success'' then ''Access-Accept'' else ''Access-Reject'')),
        (''auth_result'', PStr auth_result),
        (''auth_method'', PStr auth_method),
        (''eap_type'', py_get request ''EAP-Type''),
        (''failure_reason'', opt_text failure_reason),
        (''failure_code'', PNone),
        (''ad_error_code'', opt_text ad_error_code),
        (''ad_error_message'', opt_text ad_error_message),
        (''radius_reply_message'', reply_get reply ''Reply-Message''),
        (''calling_station_id'', py_get request ''Calling-Station-Id''),
        (''username'', username),
        (''user_domain'', user_domain),
        (''nas_ip'', py_get request ''NAS-IP-Address''),
        (''nas_port'', py_get request ''NAS-Port''),
        (''nas_port_type'', py_get request ''NAS-Port-Type''),
        (''nas_port_id'', py_get request ''NAS-Port-Id''),
        (''nas_identifier'', py_get request ''NAS-Identifier''),
        (''assigned_vlan'', assigned_vlan_of reply),
        (''filter_id'', reply_get reply ''Filter-Id''),
        (''client_cert_cn'', py_get cert_info ''client_cert_cn''),
        (''client_cert_issuer'', py_get cert_info ''client_cert_issuer''),
        (''client_cert_serial'', py_get cert_info ''client_cert_serial''),
        (''client_cert_expiry'', py_get cert_info ''client_cert_expiry''),
        (''server_cert_cn'', py_get cert_info ''server_cert_cn''),
        (''service_type'', py_get request ''Service-Type''),
        (''framed_ip'', reply_get reply ''Framed-IP-Address''),
        (''source_ip'', py_get request ''Packet-Src-IP-Address''),
        (''processing_time_ms'', PInt (he_elapsed_ms env)),
        (''policy_matched'', reply_get reply ''OpenRadiusWeb-Policy-Name''),
        (''request_attributes'', text_values request),
        (''response_attributes'', text_values (reply_dict reply)),
        (''realm_name'', user_domain),
        (''tenant_id'', (if he_tenant_id env = [] then PNone else PStr (he_tenant_id env)))]))"

text \<open>The rows inserted: none without a connection or when anything raises.\<close>

definition log_auth_to_db ::
  "hook_env \<Rightarrow> pydict \<Rightarrow> (string, string) dict \<Rightarrow> string \<Rightarrow> pydict list" where
  "log_auth_to_db env request reply auth_result =
     (case he_db env of
        None \<Rightarrow> []
      | Some db \<Rightarrow>
          (case auth_log_row env request reply auth_result of
             Inl e \<Rightarrow> []
           | Inr row \<Rightarrow> if he_insert_ok env row then [row] else []))"

section \<open>The MAB whitelist\<close>

definition normalize_mac :: "string \<Rightarrow> string" where
  "normalize_mac raw_mac =
     (if CHR ''.'' \<in> set raw_mac \<and> length raw_mac = 14
      then py_join '':''
             (map py_lower (map (\<lambda>i. take 2 (drop i (remove_char CHR ''.'' raw_mac)))
                [0, 2, 4, 6, 8, 10]))
      else (let raw = bare_mac raw_mac
            in if length raw = 12 then py_join '':'' (map (\<lambda>i. take 2 (drop i raw)) [0, 2, 4, 6, 8, 10])
               else py_lower raw_mac))"

definition tenant_matches :: "hook_env \<Rightarrow> string option \<Rightarrow> bool" where
  "tenant_matches env tenant \<longleftrightarrow> he_tenant_id env = [] \<or> tenant = Some (he_tenant_id env)"

text \<open>The WHERE clause: the address as cast, enabled, not expired, of the tenant.\<close>

definition mab_listed :: "hook_env \<Rightarrow> string \<Rightarrow> mab_row \<Rightarrow> bool" where
  "mab_listed env mac row \<longleftrightarrow> mb_mac_address row = mac \<and> mb_enabled row
     \<and> (case mb_expiry_date row of None \<Rightarrow> True | Some t \<Rightarrow> he_now env < t)
     \<and> tenant_matches env (mb_tenant_id row)"

definition lookup_mab_device :: "hook_env \<Rightarrow> string \<Rightarrow> mab_row option" where
  "lookup_mab_device env mac_clean =
     (case (he_db env, he_macaddr env mac_clean) of
        (Some db, Some mac) \<Rightarrow> find (mab_listed env mac) (hd_mab_devices db)
      | _ \<Rightarrow> None)"

section \<open>The hooks\<close>

datatype rlm_code = RLM_MODULE_OK | RLM_MODULE_UPDATED

record hook_reply =
  hr_code :: rlm_code
  hr_reply :: "(string \<times> string) list"
  hr_control :: "(string \<times> string) list"

definition vlan_attrs :: "int \<Rightarrow> (string \<times> string) list" where
  "vlan_attrs vlan_id =
     [(''Tunnel-Type'', ''VLAN''), (''Tunnel-Medium-Type'', ''IEEE-802''),
      (''Tunnel-Private-Group-Id'', show_int vlan_id)]"

text \<open>A VLAN id of zero is as absent as a null one.\<close>

definition vlan_of :: "int option \<Rightarrow> int option" where
  "vlan_of v = (case v of Some i \<Rightarrow> (if i = 0 then None else Some i) | None \<Rightarrow> None)"

definition detect_realm :: "pyval \<Rightarrow> string option result" where
  "detect_realm username =
     (if attr_contains CHR ''@'' username
      then rbind (text_attr ''rsplit'' username) (\<lambda>u. Inr (Some (snd (split_last CHR ''@'' u))))
      else if attr_contains CHR 0x5C username
      then rbind (text_attr ''split'' username) (\<lambda>u. Inr (Some (fst (split_first CHR 0x5C u))))
      else Inr None)"

definition realm_attrs :: "string option \<Rightarrow> (string \<times> string) list" where
  "realm_attrs realm =
     (case realm of Some (c # s) \<Rightarrow> [(''OpenRadiusWeb-Realm'', c # s)] | _ \<Rightarrow> [])"

definition authorize :: "hook_env \<Rightarrow> (string \<times> string) list \<Rightarrow> hook_reply result" where
  "authorize env p =
     (let request = extract_attrs p;
          username = attr_or request ''User-Name'' [];
          calling_station_id = attr_or request ''Calling-Station-Id'' []
      in rbind (detect_realm username) (\<lambda>realm.
         rbind (detect_auth_method request) (\<lambda>auth_method.
         let otherwise = \<lparr>hr_code = RLM_MODULE_OK, hr_reply = [], hr_control = realm_attrs realm\<rparr>
         in if auth_method = ''MAB'' \<and> truthy calling_station_id then
              rbind (text_attr ''replace'' calling_station_id) (\<lambda>mac.
                case lookup_mab_device env (normalize_mac mac) of
                  None \<Rightarrow> Inr otherwise
                | Some mab_device \<Rightarrow> Inr
                    \<lparr>hr_code = RLM_MODULE_OK,
                     hr_reply = (case vlan_of (mb_assigned_vlan_id mab_device) of
                                   None \<Rightarrow> [] | Some v \<Rightarrow> vlan_attrs v),
                     hr_control = (''Auth-Type'', ''Accept'') # realm_attrs realm\<rparr>)
            else Inr otherwise)))"

section \<open>Groups and their VLAN\<close>

definition search_user :: "string \<Rightarrow> string" where
  "search_user username =
     (if CHR 0x5C \<in> set username then snd (split_first CHR 0x5C username)
      else if CHR ''@'' \<in> set username then fst (split_last CHR ''@'' username)
      else username)"

definition search_filter :: "pyval \<Rightarrow> string \<Rightarrow> string" where
  "search_filter configured user =
     py_replace ''{username}'' user
       (py_replace ''%{%{Stripped-User-Name}:-%{User-Name}}'' user
          (py_str (py_or configured (PStr ''(sAMAccountName={username})''))))"

definition cn_of :: "string \<Rightarrow> string option" where
  "cn_of dn =
     map_option (drop 3)
       (find (\<lambda>part. py_startswith (py_upper part) ''CN='') (map py_strip (py_split CHR '','' dn)))"

definition group_names :: "string list \<Rightarrow> string list" where
  "group_names dns = concat (map (\<lambda>dn. case cn_of dn of None \<Rightarrow> [] | Some g \<Rightarrow> [g]) dns)"

definition ldap_config :: "hook_env \<Rightarrow> hook_db \<Rightarrow> pydict option" where
  "ldap_config env db =
     find (\<lambda>_. True)
       (sort_key (\<lambda>r. case py_get r ''priority'' of PInt i \<Rightarrow> i | _ \<Rightarrow> 0)
         (filter (\<lambda>r. py_get r ''enabled'' = PBool True
            \<and> (he_tenant_id env = [] \<or> py_get r ''tenant_id'' = PStr (he_tenant_id env)))
           (hd_ldap_servers db)))"

definition ldap_query_of :: "pydict \<Rightarrow> string \<Rightarrow> string \<Rightarrow> ldap_query" where
  "ldap_query_of cf password username =
     \<lparr>lq_host = py_get cf ''host'',
      lq_port = py_or (py_get cf ''port'') (PInt (if truthy (py_get cf ''use_tls'') then 636 else 389)),
      lq_use_ssl = truthy (py_get cf ''use_tls''),
      lq_bind_dn = py_get cf ''bind_dn'',
      lq_bind_password = password,
      lq_start_tls = (truthy (py_get cf ''use_starttls'') \<and> \<not> truthy (py_get cf ''use_tls'')),
      lq_search_base = py_or (py_get cf ''user_search_base'') (py_get cf ''base_dn''),
      lq_search_filter = search_filter (py_get cf ''user_search_filter'') (search_user username),
      lq_group_attr = py_or (py_get cf ''group_membership_attr'') (PStr ''memberOf'')\<rparr>"

text \<open>Every exception gives the empty list.\<close>

definition get_user_ldap_groups :: "hook_env \<Rightarrow> string \<Rightarrow> string list" where
  "get_user_ldap_groups env username =
     (if \<not> he_has_ldap3 env then []
      else case he_db env of
        None \<Rightarrow> []
      | Some db \<Rightarrow>
          (case ldap_config env db of
             None \<Rightarrow> []
           | Some cf \<Rightarrow>
               (case rbind (he_decrypt env (py_get cf ''bind_password_encrypted'')) (\<lambda>pw.
                       he_ldap env (ldap_query_of cf (case pw of None \<Rightarrow> [] | Some s \<Rightarrow> s) username)) of
                  Inl e \<Rightarrow> []
                | Inr dns \<Rightarrow> group_names dns)))"

definition lookup_vlan_for_groups :: "hook_env \<Rightarrow> string list \<Rightarrow> (int \<times> string) option" where
  "lookup_vlan_for_groups env groups =
     (if groups = [] then None
      else case he_db env of
        None \<Rightarrow> None
      | Some db \<Rightarrow>
          map_option (\<lambda>r. (gv_vlan_id r, gv_group_name r))
            (find (\<lambda>_. True)
              (sort_key gv_priority
                (filter (\<lambda>r. gv_group_name r \<in> set groups \<and> gv_enabled r
                   \<and> tenant_matches env (gv_tenant_id r)) (hd_group_vlans db)))))"

section \<open>After the authentication\<close>

text \<open>The VLAN of a successful authentication that is not MAB.\<close>

definition device_vlan :: "hook_env \<Rightarrow> pyval \<Rightarrow> int option result" where
  "device_vlan env calling_mac =
     (if truthy calling_mac
      then rbind (text_attr ''replace'' calling_mac) (\<lambda>mac. Inr
             (case lookup_mab_device env (normalize_mac mac) of
                None \<Rightarrow> None | Some d \<Rightarrow> vlan_of (mb_assigned_vlan_id d)))
      else Inr None)"

definition group_vlan :: "hook_env \<Rightarrow> pyval \<Rightarrow> int option result" where
  "group_vlan env username =
     (if attr_contains CHR 0x5C username \<or> attr_contains CHR ''@'' username
      then rbind (text_attr ''split'' username) (\<lambda>u. Inr
             (case lookup_vlan_for_groups env (get_user_ldap_groups env u) of
                None \<Rightarrow> None | Some (v, g) \<Rightarrow> vlan_of (Some v)))
      else Inr (case username of
                  PStr u \<Rightarrow> (case lookup_vlan_for_groups env (get_user_ldap_groups env u) of
                                None \<Rightarrow> None | Some (v, g) \<Rightarrow> vlan_of (Some v))
                | _ \<Rightarrow> None))"

definition assigned_vlan :: "hook_env \<Rightarrow> pydict \<Rightarrow> int option result" where
  "assigned_vlan env request =
     (let username = attr_or request ''User-Name'' [];
          calling_mac = attr_or request ''Calling-Station-Id'' []
      in rbind (detect_auth_method request) (\<lambda>auth_method.
         if auth_method \<noteq> ''MAB'' \<and> truthy username then
           rbind (device_vlan env calling_mac) (\<lambda>v.
             case v of Some i \<Rightarrow> Inr (Some i) | None \<Rightarrow> group_vlan env username)
         else Inr None))"

definition auth_result_of :: "pydict \<Rightarrow> string result" where
  "auth_result_of request =
     rbind (text_attr ''lower'' (attr_or request ''OpenRadiusWeb-Result'' [])) (\<lambda>m.
       Inr (if py_lower m = ''reject'' then ''reject'' else ''success''))"

text \<open>The reply to FreeRADIUS and the rows of the log it leaves.\<close>

definition post_auth ::
  "hook_env \<Rightarrow> (string \<times> string) list \<Rightarrow> (hook_reply \<times> pydict list) result" where
  "post_auth env p =
     (let request = extract_attrs p
      in rbind (auth_result_of request) (\<lambda>auth_result.
         rbind (if auth_result = ''success'' then assigned_vlan env request else Inr None) (\<lambda>vlan.
         let reply = (case vlan of None \<Rightarrow> []
                      | Some v \<Rightarrow> [(''Tunnel-Private-Group-Id'', show_int v)]);
             logged = log_auth_to_db env request reply auth_result
         in Inr (case vlan of
              None \<Rightarrow> (\<lparr>hr_code = RLM_MODULE_OK, hr_reply = [], hr_control = []\<rparr>, logged)
            | Some v \<Rightarrow> (\<lparr>hr_code = RLM_MODULE_UPDATED, hr_reply = vlan_attrs v, hr_control = []\<rparr>,
                          logged)))))"

definition accounting :: "hook_env \<Rightarrow> (string \<times> string) list \<Rightarrow> hook_reply" where
  "accounting env p = \<lparr>hr_code = RLM_MODULE_OK, hr_reply = [], hr_control = []\<rparr>"

section \<open>Lemmas\<close>

lemma lookup_mab_device_Some:
  "lookup_mab_device env m = Some row \<Longrightarrow>
   \<exists>db mac. he_db env = Some db \<and> he_macaddr env m = Some mac \<and> row \<in> set (hd_mab_devices db)
     \<and> mab_listed env mac row"
  by (auto simp: lookup_mab_device_def split: option.splits dest: find_Some_in)

lemma realm_attrs_no_accept [simp]: "(''Auth-Type'', ''Accept'') \<notin> set (realm_attrs realm)"
  by (auto simp: realm_attrs_def split: option.split list.split)

lemma detect_mab_texts:
  "detect_auth_method request = Inr ''MAB'' \<Longrightarrow> \<not> truthy (py_get request ''EAP-Type'') \<or>
     (\<exists>e. py_get request ''EAP-Type'' = PStr e)"
  by (auto simp: detect_auth_method_def Let_def text_attr_def result_simps split: if_splits pyval.splits)

lemma find_first: "find (\<lambda>_. True) xs = (case xs of [] \<Rightarrow> None | x # _ \<Rightarrow> Some x)"
  by (cases xs) auto

lemma vlan_attrs_inj: "vlan_attrs a = vlan_attrs b \<Longrightarrow> a = b"
proof -
  assume "vlan_attrs a = vlan_attrs b"
  then have "show_int a = show_int b" by (simp add: vlan_attrs_def)
  then have "parse_int (show_int a) = parse_int (show_int b)" by (rule arg_cong)
  then show "a = b" by simp
qed

lemma post_auth_vlan:
  assumes "post_auth env p = Inr (r, rows)" and "hr_reply r = vlan_attrs v"
  shows "auth_result_of (extract_attrs p) = Inr ''success''
    \<and> assigned_vlan env (extract_attrs p) = Inr (Some v)"
proof -
  from assms(1) obtain res vlan where res: "auth_result_of (extract_attrs p) = Inr res"
    and vlan: "(if res = ''success'' then assigned_vlan env (extract_attrs p) else Inr None) = Inr vlan"
    and r: "r = (case vlan of None \<Rightarrow> \<lparr>hr_code = RLM_MODULE_OK, hr_reply = [], hr_control = []\<rparr>
      | Some w \<Rightarrow> \<lparr>hr_code = RLM_MODULE_UPDATED, hr_reply = vlan_attrs w, hr_control = []\<rparr>)"
    by (auto simp: post_auth_def Let_def result_simps split: option.splits)
  have ne: "vlan_attrs v \<noteq> []" by (simp add: vlan_attrs_def)
  with r assms(2) obtain w where w: "vlan = Some w" by (cases vlan) auto
  with r assms(2) have "vlan_attrs w = vlan_attrs v" by simp
  then have "w = v" by (rule vlan_attrs_inj)
  with res vlan w show ?thesis by (cases "res = ''success''") auto
qed

lemma assigned_vlan_cases:
  assumes "assigned_vlan env request = Inr (Some v)"
    and "attr_or request ''User-Name'' [] = PStr u"
  shows "device_vlan env (attr_or request ''Calling-Station-Id'' []) = Inr (Some v) \<or>
    device_vlan env (attr_or request ''Calling-Station-Id'' []) = Inr None
      \<and> group_vlan env (PStr u) = Inr (Some v)"
proof -
  from assms obtain d where "device_vlan env (attr_or request ''Calling-Station-Id'' []) = Inr d"
    and "(case d of Some i \<Rightarrow> Inr (Some i) | None \<Rightarrow> group_vlan env (PStr u)) = Inr (Some v)"
    by (auto simp: assigned_vlan_def Let_def result_simps split: if_splits)
  then show ?thesis by (cases d) simp_all
qed

lemma sorted_head_least: "sorted (map f (x # xs)) \<Longrightarrow> y \<in> set (x # xs) \<Longrightarrow> f x \<le> f y"
  by auto

lemma first_of_sorted:
  assumes "find (\<lambda>_. True) (sort_key f xs) = Some x"
  shows "x \<in> set xs" and "y \<in> set xs \<Longrightarrow> f x \<le> f y"
proof -
  from assms obtain rest where s: "sort_key f xs = x # rest"
    by (auto simp: find_first split: list.splits)
  then have "set (x # rest) = set xs" using set_sort [of f xs] by metis
  moreover have "sorted (map f (x # rest))" using sorted_sort_key [of f xs] s by simp
  ultimately show "x \<in> set xs" and "y \<in> set xs \<Longrightarrow> f x \<le> f y"
    using sorted_head_least [of f x rest y] by auto
qed

text \<open>The rows of the mapping table a user with these groups may get.\<close>

definition eligible :: "hook_env \<Rightarrow> hook_db \<Rightarrow> string list \<Rightarrow> group_vlan_row \<Rightarrow> bool" where
  "eligible env db groups r \<longleftrightarrow> r \<in> set (hd_group_vlans db) \<and> gv_group_name r \<in> set groups
     \<and> gv_enabled r \<and> tenant_matches env (gv_tenant_id r)"

lemma lookup_vlan_least:
  assumes "lookup_vlan_for_groups env groups = Some (v, g)"
  shows "\<exists>db r. he_db env = Some db \<and> eligible env db groups r \<and> gv_vlan_id r = v
    \<and> (\<forall>r'. eligible env db groups r' \<longrightarrow> gv_priority r \<le> gv_priority r')"
proof -
  from assms obtain db r where db: "he_db env = Some db"
    and r: "find (\<lambda>_. True) (sort_key gv_priority
      (filter (\<lambda>r. gv_group_name r \<in> set groups \<and> gv_enabled r
         \<and> tenant_matches env (gv_tenant_id r)) (hd_group_vlans db))) = Some r"
    and v: "gv_vlan_id r = v"
    by (auto simp: lookup_vlan_for_groups_def split: if_splits option.splits)
  from first_of_sorted [OF r] have "eligible env db groups r"
    "\<forall>r'. eligible env db groups r' \<longrightarrow> gv_priority r \<le> gv_priority r'"
    by (auto simp: eligible_def)
  with db v show ?thesis by blast
qed

lemma py_in_drop: "py_in (p @ q) s \<Longrightarrow> py_in q s"
  unfolding py_in_sublist by (meson sublist_append_leftI sublist_order.order_trans)

text \<open>Whatever has the MS-CHAP form of a code contains the bare code.\<close>

lemma mschap_subsumed: "mschap_code_in source = Some f \<Longrightarrow> ad_code_in source \<noteq> None"
proof -
  assume "mschap_code_in source = Some f"
  then obtain code reason desc where
    "find (\<lambda>(code, reason, desc). py_in (''E='' @ code) source) AD_ERROR_MAP = Some (code, reason, desc)"
    unfolding mschap_code_in_def by (auto simp del: py_in.simps split: if_splits)
  from find_Some_in [OF this] have "(code, reason, desc) \<in> set AD_ERROR_MAP" "py_in code source"
    using py_in_drop [of "''E=''" code source] by auto
  then have "find (\<lambda>(code, reason, desc). py_in code source \<or> py_in (''data '' @ code) (py_lower source))
      AD_ERROR_MAP \<noteq> None"
    unfolding find_None_iff_all by blast
  then show ?thesis by (simp add: ad_code_in_def)
qed

lemma failure_in_empty_reply: "failure_in (py_str (PDict (reply_dict []))) = None"
  by code_simp

lemma detect_failure_empty:
  "detect_failure_reason [] ''reject'' = (Some ''Authentication rejected'', None, None)"
proof -
  have "first_some (map failure_in [[], [], py_str (PDict (reply_dict []))]) = None"
    using failure_in_empty_reply by (simp add: failure_in_def)
  then show ?thesis by (simp add: detect_failure_reason_def dict_get_or_def)
qed

section \<open>Properties\<close>


text \<open>
  C25: The precedence of VLANs. When \<open>post_auth\<close> assigns a VLAN, the authentication was a
  success and no MAB, and the VLAN is that of the calling device's listed row, or, when that
  row has none, the VLAN of a mapping of one of the user's groups of least priority number
  among all enabled mappings of those groups.
\<close>

theorem vlan_precedence:
  assumes "post_auth env p = Inr (r, rows)" and "hr_reply r = vlan_attrs v"
    and "attr_or (extract_attrs p) ''User-Name'' [] = PStr u"
  shows "auth_result_of (extract_attrs p) = Inr ''success''
    \<and> detect_auth_method (extract_attrs p) \<noteq> Inr ''MAB''
    \<and> (device_vlan env (attr_or (extract_attrs p) ''Calling-Station-Id'' []) = Inr (Some v)
       \<or> device_vlan env (attr_or (extract_attrs p) ''Calling-Station-Id'' []) = Inr None
         \<and> (\<exists>db row. he_db env = Some db \<and> eligible env db (get_user_ldap_groups env u) row
              \<and> gv_vlan_id row = v
              \<and> (\<forall>row'. eligible env db (get_user_ldap_groups env u) row'
                    \<longrightarrow> gv_priority row \<le> gv_priority row')))"
proof -
  let ?req = "extract_attrs p"
  from post_auth_vlan [OF assms(1,2)] have success: "auth_result_of ?req = Inr ''success''"
    and vlan: "assigned_vlan env ?req = Inr (Some v)" by simp_all
  from vlan have not_mab: "detect_auth_method ?req \<noteq> Inr ''MAB''"
    by (auto simp: assigned_vlan_def Let_def result_simps split: if_splits)
  consider "device_vlan env (attr_or ?req ''Calling-Station-Id'' []) = Inr (Some v)"
    | "device_vlan env (attr_or ?req ''Calling-Station-Id'' []) = Inr None"
      "group_vlan env (PStr u) = Inr (Some v)"
    using assigned_vlan_cases [OF vlan assms(3)] by (elim disjE conjE) simp_all
  then show ?thesis
  proof cases
    case 1
    with success not_mab show ?thesis by blast
  next
    case 2
    then obtain g where "lookup_vlan_for_groups env (get_user_ldap_groups env u) = Some (v, g)"
      by (auto simp: group_vlan_def text_attr_def vlan_of_def split: if_splits option.splits)
    from lookup_vlan_least [OF this] 2(1) success not_mab show ?thesis by blast
  qed
qed

definition ex_hook_db :: hook_db where
  "ex_hook_db = \<lparr>hd_mab_devices = [],
     hd_group_vlans =
       [\<lparr>gv_group_name = ''Staff'', gv_vlan_id = 20, gv_priority = 50, gv_enabled = True,
         gv_tenant_id = None\<rparr>,
        \<lparr>gv_group_name = ''Admins'', gv_vlan_id = 30, gv_priority = 10, gv_enabled = True,
         gv_tenant_id = None\<rparr>],
     hd_ldap_servers = [[(''enabled'', PBool True), (''host'', PStr ''dc1'')]]\<rparr>"

definition ex_hook_env :: hook_env where
  "ex_hook_env = \<lparr>he_db = Some ex_hook_db, he_tenant_id = [], he_now = 0,
     he_macaddr = (\<lambda>s. Some s), he_has_ldap3 = True,
     he_ldap = (\<lambda>q. Inr [''CN=Staff,OU=Groups,DC=corp'', ''CN=Admins,OU=Groups,DC=corp'']),
     he_decrypt = (\<lambda>v. Inr None), he_insert_ok = (\<lambda>row. True), he_elapsed_ms = 3\<rparr>"

definition ex_eap_request :: "(string \<times> string) list" where
  "ex_eap_request = [(''User-Name'', ''alice''), (''EAP-Type'', ''25''),
     (''Calling-Station-Id'', ''AA-BB-CC-DD-EE-FF''), (''OpenRadiusWeb-Result'', ''success'')]"

lemma ex_groups: "get_user_ldap_groups ex_hook_env ''alice'' = [''Staff'', ''Admins'']"
  by code_simp

lemma ex_post_auth:
  "\<exists>r rows. post_auth ex_hook_env ex_eap_request = Inr (r, rows) \<and> hr_reply r = vlan_attrs 30"
proof -
  have success: "auth_result_of (extract_attrs ex_eap_request) = Inr ''success''"
    by code_simp
  have vlan: "assigned_vlan ex_hook_env (extract_attrs ex_eap_request) = Inr (Some 30)"
    by code_simp
  show ?thesis by (simp add: post_auth_def success vlan)
qed

theorem vlan_precedence_witness:
  "\<exists>row. eligible ex_hook_env ex_hook_db [''Staff'', ''Admins''] row \<and> gv_vlan_id row = 30
     \<and> (\<forall>row'. eligible ex_hook_env ex_hook_db [''Staff'', ''Admins''] row'
          \<longrightarrow> gv_priority row \<le> gv_priority row')"
proof -
  obtain r rows where run: "post_auth ex_hook_env ex_eap_request = Inr (r, rows)"
    "hr_reply r = vlan_attrs 30" using ex_post_auth by blast
  have user: "attr_or (extract_attrs ex_eap_request) ''User-Name'' [] = PStr ''alice''"
    by code_simp
  have device: "device_vlan ex_hook_env (attr_or (extract_attrs ex_eap_request) ''Calling-Station-Id'' [])
      = Inr None"
    by code_simp
  have "he_db ex_hook_env = Some ex_hook_db" by (simp add: ex_hook_env_def)
  with vlan_precedence [OF run user] device show ?thesis by (auto simp: ex_groups)
qed

text \<open>
  The reason of a reject is never found. \<open>post_auth\<close> logs with a reply it has just
  created empty, so for every rejected request and whatever FreeRADIUS or the directory
  reported in its attributes, each row logged carries the generic reason and no error
  code, and the table of AD error codes is not consulted with anything but the text of the
  empty dictionary.
\<close>

theorem reject_reason_is_generic:
  assumes "auth_result_of (extract_attrs p) = Inr ''reject''"
    and "post_auth env p = Inr (r, rows)" and "row \<in> set rows"
  shows "py_get row ''failure_reason'' = PStr ''Authentication rejected''
    \<and> py_get row ''ad_error_code'' = PNone \<and> py_get row ''ad_error_message'' = PNone
    \<and> py_get row ''radius_reply_message'' = PNone"
proof -
  from assms have "auth_log_row env (extract_attrs p) [] ''reject'' = Inr row"
    by (auto simp: post_auth_def Let_def log_auth_to_db_def split: option.splits sum.splits if_splits)
  then show ?thesis
    by (auto simp: auth_log_row_def result_simps detect_failure_empty py_get_def dict_get_or_def
        opt_text_def reply_get_def Let_def)
qed

definition ex_reject_request :: "(string \<times> string) list" where
  "ex_reject_request = [(''User-Name'', ''alice''), (''EAP-Type'', ''26''),
     (''Module-Failure-Message'', ''mschap: data 775 account locked''),
     (''OpenRadiusWeb-Result'', ''reject'')]"

theorem reject_reason_is_generic_witness:
  "\<exists>r row. post_auth ex_hook_env ex_reject_request = Inr (r, [row])
     \<and> py_get row ''failure_reason'' = PStr ''Authentication rejected''"
proof -
  have reject: "auth_result_of (extract_attrs ex_reject_request) = Inr ''reject''"
    by code_simp
  have "detect_auth_method (extract_attrs ex_reject_request) = Inr ''MSCHAPv2''"
    by code_simp
  moreover have "split_domain (py_get (extract_attrs ex_reject_request) ''User-Name'') = Inr PNone"
    by code_simp
  ultimately have "\<exists>row. auth_log_row ex_hook_env (extract_attrs ex_reject_request) [] ''reject'' = Inr row"
    unfolding auth_log_row_def by (simp only: rbind_Inr Let_def detect_failure_empty split_conv prod.case) blast
  then obtain row where
    "log_auth_to_db ex_hook_env (extract_attrs ex_reject_request) [] ''reject'' = [row]"
    by (auto simp: log_auth_to_db_def ex_hook_env_def)
  then obtain r where run: "post_auth ex_hook_env ex_reject_request = Inr (r, [row])"
    by (simp add: post_auth_def reject)
  with reject_reason_is_generic [OF reject run] show ?thesis by auto
qed

text \<open>
  The MS-CHAP loop is dead code. The first loop looks for a code anywhere in the text, so
  it already finds every code the second loop looks for after \<open>E=\<close>; the reason of a
  failure is the same without the second loop.
\<close>

theorem mschap_loop_is_dead:
  "failure_in source =
     (if source = [] then None
      else first_some [ad_code_in source, cert_failure source, eap_failure source,
             ldap_failure source])"
proof (cases "ad_code_in source")
  case None
  then have "mschap_code_in source = None"
    using mschap_subsumed [of source] by (cases "mschap_code_in source") auto
  with None show ?thesis by (simp add: failure_in_def)
qed (simp add: failure_in_def)

lemma default_filter:
  "search_filter PNone user = ''(sAMAccountName='' @ user @ '')''"
proof -
  have "py_replace ''%{%{Stripped-User-Name}:-%{User-Name}}'' user ''(sAMAccountName={username})''
      = ''(sAMAccountName={username})''"
    by (simp add: py_replace.simps)
  moreover have "py_replace ''{username}'' user ''(sAMAccountName={username})''
      = ''(sAMAccountName='' @ user @ '')''"
    by (simp add: py_replace.simps)
  ultimately show ?thesis by (simp add: search_filter_def py_or_def)
qed

text \<open>
  The user name goes into the directory filter as it is. With the default filter, the
  query the directory gets for a user contains the name from the request between the
  parentheses of the filter without any escaping: a name made of an asterisk matches
  every entry, and parentheses change the filter.
\<close>

theorem ldap_filter_is_unescaped:
  assumes "py_get cf ''user_search_filter'' = PNone"
  shows "lq_search_filter (ldap_query_of cf password username) =
    ''(sAMAccountName='' @ search_user username @ '')''"
  using assms by (simp add: ldap_query_of_def default_filter)

theorem ldap_filter_is_unescaped_witness:
  "lq_search_filter (ldap_query_of [(''host'', PStr ''dc1'')] [] ''*'') = ''(sAMAccountName=*)''"
proof -
  have "search_user ''*'' = ''*''" by code_simp
  then show ?thesis
    using ldap_filter_is_unescaped [of "[(''host'', PStr ''dc1'')]" "[]" "''*''"]
    by (simp add: py_get_def dict_get_or_def)
qed

end
