(* ===== verification/Safe_Sql.thy ===== *)
theory Safe_Sql
  imports Py_Values
begin

text \<open>
  The builder of \<open>UPDATE\<close> clauses, \<open>services/gateway/utils/safe_sql.py\<close>, and the columns each
  table allows. A request names fields; the builder maps them to columns, drops the ones
  that are not allowed and gives the text of the \<open>SET\<close> clause with its parameters.
\<close>

section \<open>The allowed columns of the tables\<close>

definition DEVICE_UPDATE_COLUMNS :: "string list" where
  "DEVICE_UPDATE_COLUMNS =
    [''hostname'', ''ip_address'', ''device_type'', ''os_family'', ''os_version'', ''vendor'',
     ''model'', ''status'', ''risk_score'']"

definition USER_UPDATE_COLUMNS :: "string list" where
  "USER_UPDATE_COLUMNS =
    [''email'', ''role'', ''enabled'']"

definition LDAP_SERVER_UPDATE_COLUMNS :: "string list" where
  "LDAP_SERVER_UPDATE_COLUMNS =
    [''name'', ''description'', ''host'', ''port'', ''use_tls'', ''use_starttls'', ''bind_dn'',
     ''bind_password_encrypted'', ''base_dn'', ''user_search_filter'', ''user_search_base'',
     ''group_search_filter'', ''group_search_base'', ''group_membership_attr'',
     ''username_attr'', ''display_name_attr'', ''email_attr'', ''connect_timeout_seconds'',
     ''search_timeout_seconds'', ''idle_timeout_seconds'', ''tls_ca_cert'',
     ''tls_require_cert'', ''priority'', ''enabled'']"

definition NAS_CLIENT_UPDATE_COLUMNS :: "string list" where
  "NAS_CLIENT_UPDATE_COLUMNS =
    [''name'', ''ip_address'', ''secret_encrypted'', ''shortname'', ''nas_type'',
     ''description'', ''enabled'']"

definition POLICY_UPDATE_COLUMNS :: "string list" where
  "POLICY_UPDATE_COLUMNS =
    [''name'', ''description'', ''priority'', ''conditions'', ''match_actions'',
     ''no_match_actions'', ''enabled'']"

definition POLICY_TYPE_CASTS :: "(string, string) dict" where
  "POLICY_TYPE_CASTS =
     [(''conditions'', ''jsonb''), (''match_actions'', ''jsonb''), (''no_match_actions'', ''jsonb'')]"

definition REALM_UPDATE_COLUMNS :: "string list" where
  "REALM_UPDATE_COLUMNS =
    [''name'', ''description'', ''realm_type'', ''strip_username'', ''proxy_host'',
     ''proxy_port'', ''proxy_secret_encrypted'', ''proxy_nostrip'', ''proxy_retry_count'',
     ''proxy_retry_delay_seconds'', ''proxy_dead_time_seconds'', ''ldap_server_id'',
     ''auth_types_allowed'', ''default_vlan'', ''default_filter_id'', ''fallback_realm_id'',
     ''priority'', ''enabled'']"

definition VLAN_UPDATE_COLUMNS :: "string list" where
  "VLAN_UPDATE_COLUMNS =
    [''vlan_id'', ''name'', ''description'', ''purpose'', ''subnet'', ''enabled'']"

definition MAB_DEVICE_UPDATE_COLUMNS :: "string list" where
  "MAB_DEVICE_UPDATE_COLUMNS =
    [''name'', ''description'', ''device_type'', ''assigned_vlan_id'', ''enabled'',
     ''expiry_date'']"

definition GROUP_VLAN_MAPPING_UPDATE_COLUMNS :: "string list" where
  "GROUP_VLAN_MAPPING_UPDATE_COLUMNS =
    [''group_name'', ''vlan_id'', ''priority'', ''description'', ''ldap_server_id'',
     ''enabled'']"

section \<open>The builder\<close>

text \<open>The column of a field, and one assignment with its cast.\<close>

definition db_column :: "(string, string) dict \<Rightarrow> string \<Rightarrow> string" where
  "db_column column_map field = dict_get_or column_map field field"

definition set_part :: "(string, string) dict \<Rightarrow> string \<Rightarrow> string" where
  "set_part type_casts db_col =
     (let cast = dict_get_or type_casts db_col []
      in if cast \<noteq> [] then db_col @ '' = CAST(:'' @ db_col @ '' AS '' @ cast @ '')''
         else db_col @ '' = :'' @ db_col)"

fun set_parts_from ::
  "string list \<Rightarrow> (string, string) dict \<Rightarrow> (string, string) dict \<Rightarrow> pydict
   \<Rightarrow> string list \<Rightarrow> pydict \<Rightarrow> string list \<times> pydict" where
  "set_parts_from allowed column_map type_casts [] set_parts params = (set_parts, params)"
| "set_parts_from allowed column_map type_casts ((field, value) # updates) set_parts params =
     (let db_col = db_column column_map field
      in if db_col \<notin> set allowed
         then set_parts_from allowed column_map type_casts updates set_parts params
         else set_parts_from allowed column_map type_casts updates
                (set_parts @ [set_part type_casts db_col]) (dict_set db_col value params))"

definition build_safe_set_clause ::
  "pydict \<Rightarrow> string list \<Rightarrow> (string, string) dict \<Rightarrow> (string, string) dict
   \<Rightarrow> (string \<times> pydict) result" where
  "build_safe_set_clause updates allowed column_map type_casts =
     (let (set_parts, params) = set_parts_from allowed column_map type_casts updates [] []
      in if set_parts = [] then Inl (ValueError ''No valid columns to update'')
         else Inr (py_join '', '' set_parts, params))"

section \<open>Lemmas\<close>

text \<open>The columns that are assigned, in the order of the fields.\<close>

definition set_columns ::
  "pydict \<Rightarrow> string list \<Rightarrow> (string, string) dict \<Rightarrow> string list" where
  "set_columns updates allowed column_map =
     filter (\<lambda>c. c \<in> set allowed) (map (\<lambda>(field, value). db_column column_map field) updates)"

definition set_params ::
  "pydict \<Rightarrow> string list \<Rightarrow> (string, string) dict \<Rightarrow> pydict \<Rightarrow> pydict" where
  "set_params updates allowed column_map =
     fold (\<lambda>(field, value) ps.
       (let c = db_column column_map field in if c \<in> set allowed then dict_set c value ps else ps))
       updates"

lemma set_parts_from_eq:
  "set_parts_from allowed column_map type_casts updates parts params =
     (parts @ map (set_part type_casts) (set_columns updates allowed column_map),
      set_params updates allowed column_map params)"
  by (induction updates arbitrary: parts params)
    (auto simp: set_columns_def set_params_def Let_def)

lemma build_eq:
  "build_safe_set_clause updates allowed column_map type_casts =
     (if set_columns updates allowed column_map = []
      then Inl (ValueError ''No valid columns to update'')
      else Inr (py_join '', '' (map (set_part type_casts) (set_columns updates allowed column_map)),
                set_params updates allowed column_map []))"
  by (simp add: build_safe_set_clause_def set_parts_from_eq)

lemma set_params_keys:
  "set (map fst (set_params updates allowed column_map params)) =
     set (map fst params) \<union> set (set_columns updates allowed column_map)"
proof (induction updates arbitrary: params)
  case (Cons u updates)
  obtain f v where "u = (f, v)" by (cases u)
  with Cons show ?case
    by (auto simp: set_params_def set_columns_def Let_def dict_set_keys simp del: set_map)
qed (simp add: set_params_def set_columns_def)

lemma set_params_allowed: "fst ` set (set_params updates allowed column_map []) \<subseteq> set allowed"
  using set_params_keys [of updates allowed column_map "[]"] by (auto simp: set_columns_def)

lemma set_params_ok: "dict_ok params \<Longrightarrow> dict_ok (set_params updates allowed column_map params)"
  unfolding set_params_def
  by (induction updates arbitrary: params) (auto simp: Let_def split: prod.splits)

lemma set_params_get:
  assumes "dict_get (set_params updates allowed column_map params) c = Some v"
  shows "dict_get params c = Some v \<or>
    c \<in> set allowed \<and> (\<exists>field. (field, v) \<in> set updates \<and> db_column column_map field = c)"
  using assms
proof (induction updates arbitrary: params)
  case (Cons u updates)
  obtain f w where u: "u = (f, w)" by (cases u)
  let ?d = "db_column column_map f"
  let ?ps = "if ?d \<in> set allowed then dict_set ?d w params else params"
  have "dict_get (set_params updates allowed column_map ?ps) c = Some v"
    using Cons.prems u by (simp add: set_params_def Let_def)
  from Cons.IH [OF this] u show ?case by (auto split: if_splits)
qed (simp add: set_params_def)

lemma build_Inr:
  assumes "build_safe_set_clause updates allowed column_map type_casts = Inr (clause, params)"
  shows "params = set_params updates allowed column_map []"
    and "fst ` set params \<subseteq> set allowed" and "params \<noteq> []"
proof -
  from assms have ne: "set_columns updates allowed column_map \<noteq> []"
    and ps: "params = set_params updates allowed column_map []"
    by (auto simp: build_eq split: if_splits)
  have keys: "fst ` set params = set (set_columns updates allowed column_map)"
    unfolding ps using set_params_keys [of updates allowed column_map "[]"] by simp
  show "params = set_params updates allowed column_map []" by (rule ps)
  show "fst ` set params \<subseteq> set allowed" using keys by (auto simp: set_columns_def)
  show "params \<noteq> []" using keys ne by auto
qed

lemma set_params_plain:
  assumes "dict_ok updates" and "c \<in> set allowed"
  shows "dict_get (set_params updates allowed [] params) c =
    (case dict_get updates c of None \<Rightarrow> dict_get params c | Some v \<Rightarrow> Some v)"
  using assms(1)
proof (induction updates arbitrary: params)
  case (Cons u updates)
  obtain f w where u: "u = (f, w)" by (cases u)
  have f: "dict_get updates f = None"
    using Cons.prems u by (simp add: dict_ok_def map_of_eq_None_iff)
  let ?ps = "if f \<in> set allowed then dict_set f w params else params"
  have "dict_ok updates" using Cons.prems by (simp add: dict_ok_def)
  from Cons.IH [OF this, of ?ps] f assms(2) u show ?case
    by (auto simp: set_params_def Let_def db_column_def dict_get_or_def split: option.splits)
qed (simp add: set_params_def)

text \<open>No table allows its key, its tenant or the name of a user to be assigned.\<close>

lemma protected_columns:
  "c \<in> {''id'', ''tenant_id'', ''username'', ''created_by'', ''password_hash''} \<Longrightarrow>
   c \<notin> set (concat [DEVICE_UPDATE_COLUMNS, USER_UPDATE_COLUMNS, LDAP_SERVER_UPDATE_COLUMNS, NAS_CLIENT_UPDATE_COLUMNS, POLICY_UPDATE_COLUMNS, REALM_UPDATE_COLUMNS, VLAN_UPDATE_COLUMNS, MAB_DEVICE_UPDATE_COLUMNS, GROUP_VLAN_MAPPING_UPDATE_COLUMNS])"
  by (elim insertE emptyE) (hypsubst, code_simp)+

lemma set_clause_example:
  "build_safe_set_clause [(''name'', PStr ''x''), (''id'', PStr ''1''), (''secret'', PStr ''s'')]
     NAS_CLIENT_UPDATE_COLUMNS [(''secret'', ''secret_encrypted'')] [] =
   Inr (''name = :name, secret_encrypted = :secret_encrypted'',
        [(''name'', PStr ''x''), (''secret_encrypted'', PStr ''s'')])"
  by code_simp

section \<open>Property\<close>



end
