(* ===== verification/Gateway_Store.thy ===== *)
theory Gateway_Store
  imports Py_Effects Safe_Sql
begin

text \<open>
  What the features of the gateway share: the tables behind a transaction, the SQL
  statements their repositories are made of, the audit log
  (\<open>services/gateway/utils/audit.py\<close>), the request transaction of
  \<open>shared/orw_common/database.py\<close> and the status codes of \<open>services/gateway/main.py\<close>.

  A row is the dictionary of its columns, a table a list of rows. The environment gives what
  PostgreSQL adds: generated identifiers, column defaults, and the constraints
  (\<open>ge_constraint\<close> names what is wrong with the tables a statement would leave: a failed
  cast, a null, a duplicate, a dangling reference; \<open>ge_value_error\<close> what is wrong with the
  values of one row whatever the others are). A failed statement aborts the
  transaction: every later statement fails, and the commit at its end is a rollback.
\<close>

section \<open>State\<close>

record audit_row =
  au_user_id :: pyval
  au_action :: string
  au_resource_type :: string
  au_resource_id :: pyval
  au_details :: pydict
  au_ip_address :: pyval
  au_tenant_id :: pyval

record gw_db =
  gd_table :: "string \<Rightarrow> pydict list"
  gd_audit :: "audit_row list"
  gd_seq :: nat

text \<open>The view of the transaction, what is committed, and what went out: messages and files.\<close>

record gw_state =
  gs_db :: gw_db
  gs_committed :: gw_db
  gs_aborted :: bool
  gs_published :: "message list"
  gs_files :: "(string, string) dict"

record gw_env =
  ge_uuid :: "nat \<Rightarrow> string"
  ge_now :: int
  ge_defaults :: "string \<Rightarrow> pydict"
  ge_constraint :: "(string \<Rightarrow> pydict list) \<Rightarrow> string option"
  ge_audit_error :: "audit_row \<Rightarrow> string option"
  ge_order :: "string \<Rightarrow> pydict list \<Rightarrow> pydict list"
  ge_publish_ok :: "message \<Rightarrow> bool"
  ge_encrypt :: "pyval \<Rightarrow> pyval result"
  ge_decrypt :: "pyval \<Rightarrow> pyval result"
  ge_macaddr :: "string \<Rightarrow> string option"
  ge_value_error :: "string \<Rightarrow> pydict \<Rightarrow> string option"
  ge_file_ok :: "string \<Rightarrow> bool"

text \<open>The user behind a request, from the payload of the token.\<close>

record gw_actor =
  ac_sub :: string
  ac_tenant :: string
  ac_username :: "string option"

section \<open>Statements\<close>

definition statement :: "(gw_db \<Rightarrow> 'a result \<times> gw_db) \<Rightarrow> (gw_state, 'a) prog" where
  "statement f s =
     (if gs_aborted s then (Inl (DbError ''current transaction is aborted''), s)
      else case f (gs_db s) of
        (Inl e, d) \<Rightarrow> (Inl e, s\<lparr>gs_aborted := True\<rparr>)
      | (Inr x, d) \<Rightarrow> (Inr x, s\<lparr>gs_db := d\<rparr>))"

definition checked :: "gw_env \<Rightarrow> 'a \<Rightarrow> gw_db \<Rightarrow> 'a result \<times> gw_db" where
  "checked env x d =
     (case ge_constraint env (gd_table d) of
        Some msg \<Rightarrow> (Inl (DbError msg), d)
      | None \<Rightarrow> (Inr x, d))"

definition put_table :: "string \<Rightarrow> pydict list \<Rightarrow> gw_db \<Rightarrow> gw_db" where
  "put_table table rows d = d\<lparr>gd_table := (gd_table d)(table := rows)\<rparr>"

text \<open>\<open>WHERE c1 = v1 AND c2 = v2\<close>; a comparison with null is never true.\<close>

definition sql_eq :: "pyval \<Rightarrow> pyval \<Rightarrow> bool" where
  "sql_eq a b \<longleftrightarrow> a \<noteq> PNone \<and> b \<noteq> PNone \<and> a = b"

definition where_eq :: "(string \<times> pyval) list \<Rightarrow> pydict \<Rightarrow> bool" where
  "where_eq conds row = list_all (\<lambda>(c, v). sql_eq (py_get row c) v) conds"

text \<open>The condition of most statements: \<open>id = :id AND tenant_id = :tenant_id\<close>.\<close>

definition by_id :: "string \<Rightarrow> string \<Rightarrow> pydict \<Rightarrow> bool" where
  "by_id tenant ident = where_eq [(''id'', PStr ident), (''tenant_id'', PStr tenant)]"

definition project :: "string list \<Rightarrow> pydict \<Rightarrow> pydict" where
  "project cols row = map (\<lambda>c. (c, py_get row c)) cols"

definition select_rows :: "string \<Rightarrow> (pydict \<Rightarrow> bool) \<Rightarrow> (gw_state, pydict list) prog" where
  "select_rows table P = statement (\<lambda>d. (Inr (filter P (gd_table d table)), d))"

definition first_row :: "pydict list \<Rightarrow> pydict option" where
  "first_row rows = (case rows of [] \<Rightarrow> None | r # rs \<Rightarrow> Some r)"

definition select_first ::
  "string \<Rightarrow> string list \<Rightarrow> (pydict \<Rightarrow> bool) \<Rightarrow> (gw_state, pydict option) prog" where
  "select_first table cols P =
     sbind (select_rows table P) (\<lambda>rows. sret (map_option (project cols) (first_row rows)))"

definition count_rows :: "string \<Rightarrow> (pydict \<Rightarrow> bool) \<Rightarrow> (gw_state, int) prog" where
  "count_rows table P = sbind (select_rows table P) (\<lambda>rows. sret (int (length rows)))"

text \<open>\<open>ORDER BY ... LIMIT :limit OFFSET :offset\<close>, the order that of the database.\<close>

definition select_page ::
  "gw_env \<Rightarrow> string \<Rightarrow> string \<Rightarrow> (pydict \<Rightarrow> bool) \<Rightarrow> int \<Rightarrow> int \<Rightarrow> (gw_state, pydict list) prog" where
  "select_page env order table P limit offset =
     sbind (select_rows table P) (\<lambda>rows.
       sret (take (nat limit) (drop (nat offset) (ge_order env order rows))))"

definition select_ordered ::
  "gw_env \<Rightarrow> string \<Rightarrow> string \<Rightarrow> (pydict \<Rightarrow> bool) \<Rightarrow> (gw_state, pydict list) prog" where
  "select_ordered env order table P =
     sbind (select_rows table P) (\<lambda>rows. sret (ge_order env order rows))"

definition assign :: "pydict \<Rightarrow> pydict \<Rightarrow> pydict" where
  "assign sets row = fold (\<lambda>(c, v) r. dict_set c v r) sets row"

definition insert_row :: "gw_env \<Rightarrow> string \<Rightarrow> pydict \<Rightarrow> (gw_state, pydict) prog" where
  "insert_row env table vals =
     statement (\<lambda>d.
       let row = assign vals (dict_set ''id'' (PStr (ge_uuid env (gd_seq d))) (ge_defaults env table))
       in checked env row
            ((put_table table (gd_table d table @ [row]) d)\<lparr>gd_seq := gd_seq d + 1\<rparr>))"

text \<open>
  \<open>INSERT ... ON CONFLICT (keys) DO NOTHING RETURNING\<close>: the values of the row are looked at
  first, a row with the same keys then makes it do nothing.
\<close>

definition same_keys :: "string list \<Rightarrow> pydict \<Rightarrow> pydict \<Rightarrow> bool" where
  "same_keys keys r r' \<longleftrightarrow> list_all (\<lambda>k. sql_eq (py_get r k) (py_get r' k)) keys"

definition insert_unless_conflict ::
  "gw_env \<Rightarrow> string \<Rightarrow> string list \<Rightarrow> pydict \<Rightarrow> (gw_state, pydict option) prog" where
  "insert_unless_conflict env table keys vals =
     statement (\<lambda>d.
       let row = assign vals (dict_set ''id'' (PStr (ge_uuid env (gd_seq d))) (ge_defaults env table));
           d' = d\<lparr>gd_seq := gd_seq d + 1\<rparr>
       in case ge_value_error env table row of
            Some msg \<Rightarrow> (Inl (DbError msg), d)
          | None \<Rightarrow>
              if list_ex (same_keys keys row) (gd_table d table) then (Inr None, d')
              else checked env (Some row) (put_table table (gd_table d table @ [row]) d'))"

text \<open>\<open>CAST(:mac AS macaddr)\<close>, in the form PostgreSQL prints.\<close>

definition sql_macaddr :: "gw_env \<Rightarrow> string \<Rightarrow> (gw_state, string) prog" where
  "sql_macaddr env mac =
     statement (\<lambda>d. (case ge_macaddr env mac of
        None \<Rightarrow> Inl (DbError ''invalid input syntax for type macaddr'')
      | Some m \<Rightarrow> Inr m, d))"

text \<open>The updated rows, in the order of the table.\<close>

definition update_rows ::
  "gw_env \<Rightarrow> string \<Rightarrow> (pydict \<Rightarrow> bool) \<Rightarrow> pydict \<Rightarrow> (gw_state, pydict list) prog" where
  "update_rows env table P sets =
     statement (\<lambda>d.
       checked env (map (assign sets) (filter P (gd_table d table)))
         (put_table table (map (\<lambda>r. if P r then assign sets r else r) (gd_table d table)) d))"

definition delete_rows ::
  "gw_env \<Rightarrow> string \<Rightarrow> (pydict \<Rightarrow> bool) \<Rightarrow> (gw_state, pydict list) prog" where
  "delete_rows env table P =
     statement (\<lambda>d.
       checked env (filter P (gd_table d table))
         (put_table table (filter (\<lambda>r. \<not> P r) (gd_table d table)) d))"

text \<open>\<open>updated_at = NOW()\<close>.\<close>

definition stamp :: "gw_env \<Rightarrow> string \<Rightarrow> pydict" where
  "stamp env c = [(c, PInt (ge_now env))]"

text \<open>An optional filter: \<open>if value: where.append(col = :col)\<close>, and the same on \<open>is not None\<close>.\<close>

definition if_truthy :: "string \<Rightarrow> pyval \<Rightarrow> (string \<times> pyval) list" where
  "if_truthy c v = (if truthy v then [(c, v)] else [])"

definition if_given :: "string \<Rightarrow> pyval \<Rightarrow> (string \<times> pyval) list" where
  "if_given c v = (if v \<noteq> PNone then [(c, v)] else [])"

text \<open>A column that the driver gives as an object, made a text.\<close>

definition stringify :: "string \<Rightarrow> pydict \<Rightarrow> pydict" where
  "stringify c row =
     (if truthy (py_get row c) then dict_set c (PStr (py_str (py_get row c))) row else row)"

text \<open>The answer of a paginated listing.\<close>

definition page_dict :: "pydict list \<Rightarrow> int \<Rightarrow> int \<Rightarrow> int \<Rightarrow> pydict" where
  "page_dict rows n page page_size =
     [(''items'', PList (map PDict rows)), (''total'', PInt n), (''page'', PInt page),
      (''page_size'', PInt page_size)]"

section \<open>The audit log\<close>

definition log_audit_as ::
  "gw_env \<Rightarrow> pyval \<Rightarrow> pyval \<Rightarrow> string \<Rightarrow> string \<Rightarrow> pyval \<Rightarrow> pydict \<Rightarrow> pyval
   \<Rightarrow> (gw_state, unit) prog" where
  "log_audit_as env sub tenant action resource_type resource_id details ip_address =
     statement (\<lambda>d.
       let row = \<lparr>au_user_id = sub, au_action = action, au_resource_type = resource_type,
                  au_resource_id = resource_id, au_details = details,
                  au_ip_address = ip_address, au_tenant_id = tenant\<rparr>
       in case ge_audit_error env row of
            Some msg \<Rightarrow> (Inl (DbError msg), d)
          | None \<Rightarrow> (Inr (), d\<lparr>gd_audit := gd_audit d @ [row]\<rparr>))"

definition log_audit ::
  "gw_env \<Rightarrow> gw_actor \<Rightarrow> string \<Rightarrow> string \<Rightarrow> pyval \<Rightarrow> pydict \<Rightarrow> pyval \<Rightarrow> (gw_state, unit) prog" where
  "log_audit env actor = log_audit_as env (PStr (ac_sub actor)) (PStr (ac_tenant actor))"

section \<open>Messages\<close>

definition publish :: "gw_env \<Rightarrow> string \<Rightarrow> pydict \<Rightarrow> (gw_state, unit) prog" where
  "publish env subject data s =
     (let m = \<lparr>msg_subject = subject, msg_data = data\<rparr>
      in if ge_publish_ok env m then (Inr (), s\<lparr>gs_published := gs_published s @ [m]\<rparr>)
         else (Inl (OSError ''nats''), s))"

definition SUBJECT_FREERADIUS_APPLY :: string where
  "SUBJECT_FREERADIUS_APPLY = ''orw.config.freeradius.apply''"

section \<open>Files\<close>

text \<open>\<open>open(path, "w")\<close> and its \<open>write\<close>. A file is not part of the transaction.\<close>

definition write_text :: "gw_env \<Rightarrow> string \<Rightarrow> string \<Rightarrow> (gw_state, unit) prog" where
  "write_text env path content s =
     (if ge_file_ok env path then (Inr (), s\<lparr>gs_files := dict_set path content (gs_files s)\<rparr>)
      else (Inl (OSError path), s))"

section \<open>The transaction of a request\<close>

definition rollback :: "gw_state \<Rightarrow> gw_state" where
  "rollback s = s\<lparr>gs_db := gs_committed s, gs_aborted := False\<rparr>"

definition commit :: "gw_state \<Rightarrow> gw_state" where
  "commit s = (if gs_aborted s then rollback s else s\<lparr>gs_committed := gs_db s\<rparr>)"

definition in_request :: "(gw_state, 'a) prog \<Rightarrow> (gw_state, 'a) prog" where
  "in_request h s =
     (case h s of (Inl e, s') \<Rightarrow> (Inl e, rollback s') | (Inr x, s') \<Rightarrow> (Inr x, commit s'))"

text \<open>The answer to an exception.\<close>

fun status_of :: "pyerr \<Rightarrow> int" where
  "status_of (DomainError NotFoundError m) = 404"
| "status_of (DomainError ConflictError m) = 409"
| "status_of (DomainError ValidationError m) = 400"
| "status_of (DomainError AuthenticationError m) = 401"
| "status_of (DomainError AuthorizationError m) = 403"
| "status_of (DomainError RateLimitError m) = 429"
| "status_of (HttpError status m) = status"
| "status_of _ = 500"

definition not_found :: "string \<Rightarrow> string \<Rightarrow> pyerr" where
  "not_found resource ident =
     DomainError NotFoundError (resource @
       (if ident = [] then '' not found'' else '' '' @ [CHR 0x27] @ ident @ [CHR 0x27] @ '' not found''))"

definition invalid :: "string \<Rightarrow> pyerr" where
  "invalid msg = DomainError ValidationError msg"

text \<open>\<open>except ValueError: raise ValidationError(...)\<close> around the update of a repository.\<close>

definition value_error_as :: "pyerr \<Rightarrow> (gw_state, 'a) prog \<Rightarrow> (gw_state, 'a) prog" where
  "value_error_as e' m s =
     (case m s of (Inl (ValueError v), s') \<Rightarrow> (Inl e', s') | r \<Rightarrow> r)"

text \<open>The update every repository makes: the safe clause, then the statement.\<close>

definition update_by_clause ::
  "gw_env \<Rightarrow> string \<Rightarrow> string list \<Rightarrow> string list \<Rightarrow> (string, string) dict \<Rightarrow> (string, string) dict
   \<Rightarrow> pydict \<Rightarrow> (pydict \<Rightarrow> bool) \<Rightarrow> pydict \<Rightarrow> (gw_state, pydict option) prog" where
  "update_by_clause env table cols allowed column_map type_casts extra P updates =
     sbind (slift (build_safe_set_clause updates allowed column_map type_casts)) (\<lambda>(clause, params).
     sbind (update_rows env table P (params @ extra)) (\<lambda>rows.
       sret (map_option (project cols) (first_row rows))))"

section \<open>Lemmas on statements\<close>

lemma statement_keeps:
  assumes "\<And>d x d'. J d \<Longrightarrow> f d = (Inr x, d') \<Longrightarrow> J d'"
  shows "keeps (\<lambda>s. J (gs_db s)) (statement f)"
  unfolding keeps_def
proof (intro allI impI)
  fix s :: gw_state assume "J (gs_db s)"
  then show "J (gs_db (snd (statement f s)))"
    using assms by (cases "f (gs_db s)") (auto simp: statement_def split: sum.split)
qed

lemma checked_Inr: "checked env x d = (Inr y, d') \<longleftrightarrow>
  ge_constraint env (gd_table d) = None \<and> y = x \<and> d' = d"
  by (auto simp: checked_def split: option.splits)

lemma put_table_simps [simp]:
  "gd_table (put_table t rows d) = (gd_table d)(t := rows)"
  "gd_audit (put_table t rows d) = gd_audit d"
  "gd_seq (put_table t rows d) = gd_seq d"
  by (simp_all add: put_table_def)

lemma assign_get:
  "c \<notin> fst ` set sets \<Longrightarrow> py_get (assign sets row) c = py_get row c"
  unfolding assign_def
proof (induction sets arbitrary: row)
  case (Cons p sets)
  obtain k v where p: "p = (k, v)" by (cases p)
  with Cons show ?case by (auto simp: py_get_def)
qed simp

lemma assign_append: "assign (xs @ ys) row = assign ys (assign xs row)"
  by (simp add: assign_def)

lemma assign_last:
  "dict_ok sets \<Longrightarrow> dict_get sets c = Some v \<Longrightarrow> py_get (assign sets row) c = v"
proof (induction sets arbitrary: row)
  case (Cons p sets)
  obtain k w where p: "p = (k, w)" by (cases p)
  from Cons.prems p have ok: "dict_ok sets" and new: "k \<notin> fst ` set sets"
    by (auto simp: dict_ok_def)
  show ?case
  proof (cases "c = k")
    case True
    with Cons.prems p have "w = v" by simp
    with True new p show ?thesis
      using assign_get [of k sets "dict_set k w row"] by (simp add: assign_def py_get_def)
  next
    case False
    with Cons p ok show ?thesis by (simp add: assign_def)
  qed
qed simp

lemma assign_lookup:
  assumes "dict_ok sets"
  shows "py_get (assign sets row) c = (case dict_get sets c of None \<Rightarrow> py_get row c | Some v \<Rightarrow> v)"
proof (cases "dict_get sets c")
  case None
  then have "c \<notin> fst ` set sets" by (simp add: map_of_eq_None_iff)
  with None show ?thesis by (simp add: assign_get)
next
  case (Some v)
  with assign_last [OF assms Some] show ?thesis by simp
qed

lemma py_get_project:
  "py_get (project cols row) c = (if c \<in> set cols then py_get row c else PNone)"
  by (auto simp: project_def py_get_def dict_get_or_def map_of_map_restrict restrict_map_def
      intro: map_of_mapk_SomeI split: option.split)

section \<open>Tenants\<close>

text \<open>
  What a request of one tenant leaves alone: the rows of every other tenant, in every
  table. A condition is scoped when it only accepts rows of the tenant.
\<close>

named_theorems isolation_intros "programs that leave the rows of other tenants alone"

definition foreign :: "string \<Rightarrow> pydict \<Rightarrow> bool" where
  "foreign tenant row \<longleftrightarrow> py_get row ''tenant_id'' \<noteq> PStr tenant"

definition foreign_rows :: "string \<Rightarrow> gw_db \<Rightarrow> string \<Rightarrow> pydict list" where
  "foreign_rows tenant d table = filter (foreign tenant) (gd_table d table)"

definition isolates :: "string \<Rightarrow> (gw_state, 'a) prog \<Rightarrow> bool" where
  "isolates tenant m \<longleftrightarrow> (\<forall>F. keeps (\<lambda>s. foreign_rows tenant (gs_db s) = F) m)"

definition scoped :: "string \<Rightarrow> (pydict \<Rightarrow> bool) \<Rightarrow> bool" where
  "scoped tenant P \<longleftrightarrow> (\<forall>row. P row \<longrightarrow> \<not> foreign tenant row)"

lemma isolatesD:
  "isolates tenant m \<Longrightarrow> foreign_rows tenant (gs_db (snd (m s))) = foreign_rows tenant (gs_db s)"
  by (simp add: isolates_def keeps_def)

lemma isolates_prog [isolation_intros]:
  "isolates tenant (sret x)" "isolates tenant (sraise e)" "isolates tenant (slift r)"
  "isolates tenant (sget g)"
  by (simp_all add: isolates_def keeps_basic)

lemma isolates_sbind [isolation_intros]:
  "isolates tenant m \<Longrightarrow> (\<And>x. isolates tenant (f x)) \<Longrightarrow> isolates tenant (sbind m f)"
  by (simp add: isolates_def keeps_sbind)

lemma isolates_smap [isolation_intros]:
  "(\<And>x. isolates tenant (f x)) \<Longrightarrow> isolates tenant (smap f xs)"
  by (simp add: isolates_def keeps_smap)

lemma isolates_if [isolation_intros]:
  "isolates tenant m \<Longrightarrow> isolates tenant n \<Longrightarrow> isolates tenant (if b then m else n)"
  by simp

lemma isolates_case_option [isolation_intros]:
  "isolates tenant m \<Longrightarrow> (\<And>y. isolates tenant (f y)) \<Longrightarrow>
   isolates tenant (case x of None \<Rightarrow> m | Some y \<Rightarrow> f y)"
  by (simp split: option.split)

lemma isolates_case_prod [isolation_intros]:
  "(\<And>a b. isolates tenant (f a b)) \<Longrightarrow> isolates tenant (case p of (a, b) \<Rightarrow> f a b)"
  by (simp split: prod.split)

lemma isolates_statement:
  assumes "\<And>d x d'. f d = (Inr x, d') \<Longrightarrow> foreign_rows tenant d' = foreign_rows tenant d"
  shows "isolates tenant (statement f)"
  unfolding isolates_def
proof
  fix F
  show "keeps (\<lambda>s. foreign_rows tenant (gs_db s) = F) (statement f)"
    by (rule statement_keeps) (metis assms)
qed

lemma isolates_select [isolation_intros]: "isolates tenant (select_rows table P)"
  unfolding select_rows_def by (rule isolates_statement) simp

lemma isolates_reads [isolation_intros]:
  "isolates tenant (select_first table cols P)"
  "isolates tenant (count_rows table P)"
  "isolates tenant (select_page env order table P limit offset)"
  "isolates tenant (select_ordered env order table P)"
  unfolding select_first_def count_rows_def select_page_def select_ordered_def
  by (intro isolation_intros)+

lemma isolates_insert [isolation_intros]:
  assumes "dict_ok vals" and "dict_get vals ''tenant_id'' = Some (PStr tenant)"
  shows "isolates tenant (insert_row env table vals)"
  unfolding insert_row_def
  by (rule isolates_statement)
    (auto simp: checked_Inr Let_def foreign_rows_def fun_eq_iff foreign_def assign_last [OF assms])

lemma isolates_insert_unless_conflict [isolation_intros]:
  assumes "dict_ok vals" and "dict_get vals ''tenant_id'' = Some (PStr tenant)"
  shows "isolates tenant (insert_unless_conflict env table keys vals)"
  unfolding insert_unless_conflict_def
  by (rule isolates_statement)
    (auto simp: checked_Inr Let_def foreign_rows_def fun_eq_iff foreign_def assign_last [OF assms]
      split: option.splits if_splits)

lemma isolates_macaddr [isolation_intros]: "isolates tenant (sql_macaddr env mac)"
  unfolding sql_macaddr_def by (rule isolates_statement) simp

lemma filter_foreign_map:
  assumes "scoped tenant P" and "''tenant_id'' \<notin> fst ` set sets"
  shows "filter (foreign tenant) (map (\<lambda>r. if P r then assign sets r else r) rows) =
    filter (foreign tenant) rows"
  using assms by (induction rows) (auto simp: scoped_def foreign_def assign_get)

lemma isolates_update [isolation_intros]:
  assumes "scoped tenant P" and "''tenant_id'' \<notin> fst ` set sets"
  shows "isolates tenant (update_rows env table P sets)"
  unfolding update_rows_def
  by (rule isolates_statement)
    (auto simp: checked_Inr foreign_rows_def fun_eq_iff filter_foreign_map [OF assms])

lemma isolates_delete [isolation_intros]:
  assumes "scoped tenant P"
  shows "isolates tenant (delete_rows env table P)"
proof -
  have "filter (foreign tenant) (filter (\<lambda>r. \<not> P r) rows) = filter (foreign tenant) rows" for rows
    using assms by (induction rows) (auto simp: scoped_def)
  then show ?thesis
    unfolding delete_rows_def
    by (intro isolates_statement) (auto simp: checked_Inr foreign_rows_def fun_eq_iff)
qed

lemma isolates_audit [isolation_intros]:
  "isolates tenant (log_audit_as env sub t action rt rid details ip)"
  "isolates tenant (log_audit env actor action rt rid details ip)"
  unfolding log_audit_def log_audit_as_def
  by (rule isolates_statement; auto simp: Let_def foreign_rows_def split: option.splits)+

lemma isolates_publish [isolation_intros]: "isolates tenant (publish env subject data)"
  by (simp add: isolates_def keeps_def publish_def Let_def)

lemma isolates_write_text [isolation_intros]: "isolates tenant (write_text env path content)"
  by (simp add: isolates_def keeps_def write_text_def)

lemma value_error_state [simp]: "snd (value_error_as e m s) = snd (m s)"
  by (auto simp: value_error_as_def split: prod.split sum.split pyerr.split)

lemma isolates_value_error [isolation_intros]:
  "isolates tenant m \<Longrightarrow> isolates tenant (value_error_as e m)"
  by (simp add: isolates_def keeps_def)

lemma isolates_update_by_clause [isolation_intros]:
  assumes "scoped tenant P" and "''tenant_id'' \<notin> set allowed" and "''tenant_id'' \<notin> fst ` set extra"
  shows "isolates tenant
    (update_by_clause env table cols allowed column_map type_casts extra P updates)"
proof (cases "build_safe_set_clause updates allowed column_map type_casts")
  case (Inl e)
  then show ?thesis by (simp add: update_by_clause_def isolates_def keeps_def)
next
  case (Inr cp)
  obtain clause params where cp: "cp = (clause, params)" by (cases cp)
  have "fst ` set params \<subseteq> set allowed" using build_Inr(2) Inr cp by blast
  with assms have "''tenant_id'' \<notin> fst ` set (params @ extra)" by auto
  then have "isolates tenant (update_rows env table P (params @ extra))"
    using assms(1) by (intro isolates_update)
  then have "isolates tenant (sbind (update_rows env table P (params @ extra))
      (\<lambda>rows. sret (map_option (project cols) (first_row rows))))"
    by (rule isolates_sbind) (rule isolates_prog)
  then show ?thesis by (simp add: update_by_clause_def Inr cp isolates_def keeps_def)
qed

lemma scoped_where [isolation_intros]:
  "(''tenant_id'', PStr tenant) \<in> set conds \<Longrightarrow> scoped tenant (where_eq conds)"
  by (auto simp: scoped_def foreign_def where_eq_def sql_eq_def list_all_iff)

lemma scoped_by_id [isolation_intros]: "scoped tenant (by_id tenant ident)"
  unfolding by_id_def by (rule scoped_where) simp

lemma scoped_conj [isolation_intros]:
  "scoped tenant P \<Longrightarrow> scoped tenant (\<lambda>r. P r \<and> Q r)"
  "scoped tenant Q \<Longrightarrow> scoped tenant (\<lambda>r. P r \<and> Q r)"
  by (auto simp: scoped_def)

text \<open>What is committed stays as it is until the end of the request.\<close>

definition uncommitted :: "(gw_state, 'a) prog \<Rightarrow> bool" where
  "uncommitted m \<longleftrightarrow> (\<forall>s. gs_committed (snd (m s)) = gs_committed s)"

named_theorems uncommitted_intros "programs that commit nothing"

lemma uncommitted_prog [uncommitted_intros]:
  "uncommitted (sret x)" "uncommitted (sraise e)" "uncommitted (slift r)" "uncommitted (sget g)"
  by (simp_all add: uncommitted_def)

lemma uncommitted_sbind [uncommitted_intros]:
  "uncommitted m \<Longrightarrow> (\<And>x. uncommitted (f x)) \<Longrightarrow> uncommitted (sbind m f)"
  unfolding uncommitted_def sbind_def by (auto split: prod.split sum.split) (metis snd_conv)+

lemma uncommitted_if [uncommitted_intros]:
  "uncommitted m \<Longrightarrow> uncommitted n \<Longrightarrow> uncommitted (if b then m else n)"
  by simp

lemma uncommitted_case_option [uncommitted_intros]:
  "uncommitted m \<Longrightarrow> (\<And>y. uncommitted (f y)) \<Longrightarrow>
   uncommitted (case x of None \<Rightarrow> m | Some y \<Rightarrow> f y)"
  by (simp split: option.split)

lemma uncommitted_case_prod [uncommitted_intros]:
  "(\<And>a b. uncommitted (f a b)) \<Longrightarrow> uncommitted (case p of (a, b) \<Rightarrow> f a b)"
  by (simp split: prod.split)

lemma uncommitted_statement [uncommitted_intros]: "uncommitted (statement f)"
  by (auto simp: uncommitted_def statement_def split: prod.split sum.split)

lemma uncommitted_value_error [uncommitted_intros]:
  "uncommitted m \<Longrightarrow> uncommitted (value_error_as e m)"
  by (simp add: uncommitted_def)

lemma uncommitted_sql [uncommitted_intros]:
  "uncommitted (select_rows table P)" "uncommitted (insert_row env table vals)"
  "uncommitted (update_rows env table P sets)" "uncommitted (delete_rows env table P)"
  "uncommitted (log_audit env actor action rt rid details ip)"
  "uncommitted (log_audit_as env sub t action rt rid details ip)"
  "uncommitted (insert_unless_conflict env table keys vals)" "uncommitted (sql_macaddr env mac)"
  unfolding select_rows_def insert_row_def update_rows_def delete_rows_def log_audit_def
    log_audit_as_def insert_unless_conflict_def sql_macaddr_def
  by (rule uncommitted_statement)+

lemma uncommitted_derived [uncommitted_intros]:
  "uncommitted (select_first table cols P)" "uncommitted (count_rows table P)"
  "uncommitted (select_page env order table P limit offset)"
  "uncommitted (select_ordered env order table P)"
  "uncommitted (update_by_clause env table cols allowed column_map type_casts extra P updates)"
  unfolding select_first_def count_rows_def select_page_def select_ordered_def update_by_clause_def
  by (intro uncommitted_intros)+

lemma uncommitted_publish [uncommitted_intros]:
  "uncommitted (publish env subject data)" "uncommitted (write_text env path content)"
  by (simp_all add: uncommitted_def publish_def write_text_def Let_def)

section \<open>Errors of the database\<close>

text \<open>
  An aborted transaction stays aborted, and a program that ends with an error of the database
  leaves an aborted one.
\<close>

named_theorems abort_intros "programs whose database errors abort the transaction"

definition abort_sound :: "(gw_state, 'a) prog \<Rightarrow> bool" where
  "abort_sound m \<longleftrightarrow>
     (\<forall>s. (gs_aborted s \<longrightarrow> gs_aborted (snd (m s)))
        \<and> (\<forall>msg. fst (m s) = Inl (DbError msg) \<longrightarrow> gs_aborted (snd (m s))))"

definition no_db_error :: "'a result \<Rightarrow> bool" where
  "no_db_error r \<longleftrightarrow> (\<forall>msg. r \<noteq> Inl (DbError msg))"

lemma abort_soundD:
  "abort_sound m \<Longrightarrow> gs_aborted s \<Longrightarrow> gs_aborted (snd (m s))"
  "abort_sound m \<Longrightarrow> m s = (Inl (DbError msg), s') \<Longrightarrow> gs_aborted s'"
  by (simp add: abort_sound_def) (metis abort_sound_def fst_conv snd_conv)

lemma abort_prog [abort_intros]:
  "abort_sound (sret x)" "abort_sound (sget g)" "no_db_error r \<Longrightarrow> abort_sound (slift r)"
  "abort_sound (publish env subject data)" "abort_sound (write_text env path content)"
  by (simp_all add: abort_sound_def no_db_error_def publish_def write_text_def Let_def)

lemma abort_sraise [abort_intros]:
  "abort_sound (sraise (DomainError k m))" "abort_sound (sraise (invalid m))"
  "abort_sound (sraise (not_found r i))" "abort_sound (sraise (ValueError m))"
  by (simp_all add: abort_sound_def invalid_def not_found_def)

lemma abort_sbind [abort_intros]:
  "abort_sound m \<Longrightarrow> (\<And>x. abort_sound (f x)) \<Longrightarrow> abort_sound (sbind m f)"
  unfolding abort_sound_def sbind_def by (auto split: prod.split sum.split) (metis fst_conv snd_conv)+

lemma abort_if [abort_intros]:
  "(b \<Longrightarrow> abort_sound m) \<Longrightarrow> (\<not> b \<Longrightarrow> abort_sound n) \<Longrightarrow> abort_sound (if b then m else n)"
  by simp

lemma abort_case_option [abort_intros]:
  "abort_sound m \<Longrightarrow> (\<And>y. abort_sound (f y)) \<Longrightarrow>
   abort_sound (case x of None \<Rightarrow> m | Some y \<Rightarrow> f y)"
  by (simp split: option.split)

lemma abort_statement [abort_intros]: "abort_sound (statement f)"
  by (auto simp: abort_sound_def statement_def split: prod.split sum.split)

lemma abort_sql [abort_intros]:
  "abort_sound (select_rows table P)" "abort_sound (insert_row env table vals)"
  "abort_sound (update_rows env table P sets)" "abort_sound (delete_rows env table P)"
  "abort_sound (log_audit env actor action rt rid details ip)"
  unfolding select_rows_def insert_row_def update_rows_def delete_rows_def log_audit_def
    log_audit_as_def
  by (rule abort_statement)+

lemma abort_reads [abort_intros]:
  "abort_sound (select_first table cols P)" "abort_sound (count_rows table P)"
  "abort_sound (select_page env order table P limit offset)"
  "abort_sound (select_ordered env order table P)"
  unfolding select_first_def count_rows_def select_page_def select_ordered_def
  by (intro abort_intros)+

lemma abort_attempt [abort_intros]: "abort_sound m \<Longrightarrow> abort_sound (attempt m)"
  by (simp add: abort_sound_def)

lemma isolates_attempt [isolation_intros]: "isolates tenant m \<Longrightarrow> isolates tenant (attempt m)"
  by (simp add: isolates_def keeps_def)

lemma uncommitted_attempt [uncommitted_intros]: "uncommitted m \<Longrightarrow> uncommitted (attempt m)"
  by (simp add: uncommitted_def)

section \<open>Triples on the tables\<close>

text \<open>
  \<open>triple P m Q E\<close>: from tables with \<open>P\<close> the program ends normally with \<open>Q\<close> of its result and
  the tables, or with an exception and \<open>E\<close> of the tables.
\<close>

named_theorems triple_intros "rules for triples along a program"

definition triple ::
  "(gw_db \<Rightarrow> bool) \<Rightarrow> (gw_state, 'a) prog \<Rightarrow> ('a \<Rightarrow> gw_db \<Rightarrow> bool) \<Rightarrow> (gw_db \<Rightarrow> bool) \<Rightarrow> bool" where
  "triple P m Q E \<longleftrightarrow>
     (\<forall>s. P (gs_db s) \<longrightarrow> (case fst (m s) of
        Inl e \<Rightarrow> E (gs_db (snd (m s))) | Inr x \<Rightarrow> Q x (gs_db (snd (m s)))))"

lemma tripleI:
  "(\<And>s r s'. P (gs_db s) \<Longrightarrow> m s = (r, s') \<Longrightarrow>
     (case r of Inl e \<Rightarrow> E (gs_db s') | Inr x \<Rightarrow> Q x (gs_db s'))) \<Longrightarrow> triple P m Q E"
  by (simp add: triple_def)

lemma tripleD_Inr: "triple P m Q E \<Longrightarrow> P (gs_db s) \<Longrightarrow> m s = (Inr x, s') \<Longrightarrow> Q x (gs_db s')"
  by (force simp: triple_def)

lemma tripleD_Inl: "triple P m Q E \<Longrightarrow> P (gs_db s) \<Longrightarrow> m s = (Inl e, s') \<Longrightarrow> E (gs_db s')"
  by (force simp: triple_def)

lemma triple_snd: "triple P m (\<lambda>_. J) J \<Longrightarrow> P (gs_db s) \<Longrightarrow> J (gs_db (snd (m s)))"
  unfolding triple_def by (auto split: sum.splits)

lemma triple_sbind [triple_intros]:
  assumes "triple P m Q E" and "\<And>x. triple (Q x) (f x) R E"
  shows "triple P (sbind m f) R E"
proof (rule tripleI)
  fix s r s' assume P: "P (gs_db s)" and run: "sbind m f s = (r, s')"
  show "case r of Inl e \<Rightarrow> E (gs_db s') | Inr x \<Rightarrow> R x (gs_db s')"
  proof (cases "m s")
    case (Pair r1 s1)
    show ?thesis
    proof (cases r1)
      case (Inl e)
      with Pair run tripleD_Inl [OF assms(1) P] show ?thesis by (auto simp: result_simps)
    next
      case (Inr x)
      with Pair run have go: "f x s1 = (r, s')" by (simp add: result_simps)
      have "Q x (gs_db s1)" using tripleD_Inr [OF assms(1) P] Pair Inr by blast
      with go show ?thesis
        using tripleD_Inl [OF assms(2)] tripleD_Inr [OF assms(2)] by (cases r) auto
    qed
  qed
qed

lemma triple_sret: "(\<And>d. P d \<Longrightarrow> Q x d) \<Longrightarrow> triple P (sret x) Q E"
  by (simp add: triple_def)

lemma triple_sraise: "(\<And>d. P d \<Longrightarrow> E d) \<Longrightarrow> triple P (sraise e) Q E"
  by (simp add: triple_def)

lemma triple_if: "(b \<Longrightarrow> triple P m Q E) \<Longrightarrow> (\<not> b \<Longrightarrow> triple P n Q E) \<Longrightarrow>
  triple P (if b then m else n) Q E"
  by simp

lemma triple_case_option:
  "(x = None \<Longrightarrow> triple P m Q E) \<Longrightarrow> (\<And>y. x = Some y \<Longrightarrow> triple P (f y) Q E) \<Longrightarrow>
   triple P (case x of None \<Rightarrow> m | Some y \<Rightarrow> f y) Q E"
  by (simp split: option.split)

lemma triple_weaken:
  "triple P' m Q' E \<Longrightarrow> (\<And>d. P d \<Longrightarrow> P' d) \<Longrightarrow> (\<And>x d. Q' x d \<Longrightarrow> Q x d) \<Longrightarrow> triple P m Q E"
  unfolding triple_def by (auto split: sum.splits)

lemma triple_statement:
  assumes "\<And>d x d'. P d \<Longrightarrow> f d = (Inr x, d') \<Longrightarrow> Q x d'" and "\<And>d. P d \<Longrightarrow> E d"
  shows "triple P (statement f) Q E"
  unfolding triple_def statement_def using assms by (auto split: prod.split sum.split)

lemma triple_select:
  "(\<And>d. P d \<Longrightarrow> Q (filter B (gd_table d t)) d) \<Longrightarrow> (\<And>d. P d \<Longrightarrow> E d) \<Longrightarrow>
   triple P (select_rows t B) Q E"
  unfolding select_rows_def by (rule triple_statement) auto

lemma triple_insert:
  assumes "\<And>d row d'. P d \<Longrightarrow> row = assign vals (dict_set ''id'' (PStr (ge_uuid env (gd_seq d))) (ge_defaults env t)) \<Longrightarrow>
     gd_table d' = (gd_table d)(t := gd_table d t @ [row]) \<Longrightarrow> ge_constraint env (gd_table d') = None \<Longrightarrow>
     Q row d'"
    and "\<And>d. P d \<Longrightarrow> E d"
  shows "triple P (insert_row env t vals) Q E"
  unfolding insert_row_def
  by (rule triple_statement) (auto simp: Let_def checked_Inr intro!: assms)

lemma triple_update:
  assumes "\<And>d d'. P d \<Longrightarrow>
     gd_table d' = (gd_table d)(t := map (\<lambda>r. if B r then assign sets r else r) (gd_table d t)) \<Longrightarrow>
     ge_constraint env (gd_table d') = None \<Longrightarrow>
     Q (map (assign sets) (filter B (gd_table d t))) d'"
    and "\<And>d. P d \<Longrightarrow> E d"
  shows "triple P (update_rows env t B sets) Q E"
  unfolding update_rows_def
  by (rule triple_statement) (auto simp: checked_Inr intro!: assms)

lemma triple_delete:
  assumes "\<And>d d'. P d \<Longrightarrow>
     gd_table d' = (gd_table d)(t := filter (\<lambda>r. \<not> B r) (gd_table d t)) \<Longrightarrow>
     ge_constraint env (gd_table d') = None \<Longrightarrow> Q (filter B (gd_table d t)) d'"
    and "\<And>d. P d \<Longrightarrow> E d"
  shows "triple P (delete_rows env t B) Q E"
  unfolding delete_rows_def
  by (rule triple_statement) (auto simp: checked_Inr intro!: assms)

text \<open>A property of the tables alone is not touched by the audit log and the messages.\<close>

lemma triple_audit:
  "triple (\<lambda>d. J (gd_table d)) (log_audit env actor action rt rid details ip)
     (\<lambda>_ d. J (gd_table d)) (\<lambda>d. J (gd_table d))"
  unfolding log_audit_def log_audit_as_def
  by (rule triple_statement) (auto simp: Let_def split: option.splits)

lemma triple_publish:
  "triple P (publish env subject data) (\<lambda>_. P) P"
  by (simp add: triple_def publish_def Let_def)

lemma triple_value_error:
  "triple P m Q E \<Longrightarrow> triple P (value_error_as e m) Q E"
  unfolding triple_def
  by (auto simp: value_error_as_def split: prod.splits sum.splits pyerr.splits)

lemma triple_attempt:
  "triple P m (\<lambda>_. J) J \<Longrightarrow> triple P (attempt m) (\<lambda>_. J) E"
  unfolding triple_def by (auto split: sum.splits)

text \<open>Programs that only read, audit and publish.\<close>

named_theorems neutral_intros "programs that leave the tables as they are"

definition table_neutral :: "(gw_state, 'a) prog \<Rightarrow> bool" where
  "table_neutral m \<longleftrightarrow> (\<forall>s. gd_table (gs_db (snd (m s))) = gd_table (gs_db s))"

lemma triple_neutral:
  "table_neutral m \<Longrightarrow>
   triple (\<lambda>d. J (gd_table d)) m (\<lambda>_ d. J (gd_table d)) (\<lambda>d. J (gd_table d))"
  by (simp add: triple_def table_neutral_def split: sum.split)

lemma neutral_prog [neutral_intros]:
  "table_neutral (sret x)" "table_neutral (sraise e)" "table_neutral (slift r)"
  "table_neutral (sget g)" "table_neutral (publish env subject data)"
  "table_neutral (write_text env path content)"
  by (simp_all add: table_neutral_def publish_def write_text_def Let_def)

lemma neutral_sbind [neutral_intros]:
  "table_neutral m \<Longrightarrow> (\<And>x. table_neutral (f x)) \<Longrightarrow> table_neutral (sbind m f)"
  unfolding table_neutral_def sbind_def by (auto split: prod.split sum.split) (metis snd_conv)+

lemma neutral_if [neutral_intros]:
  "table_neutral m \<Longrightarrow> table_neutral n \<Longrightarrow> table_neutral (if b then m else n)"
  by simp

lemma neutral_case_option [neutral_intros]:
  "table_neutral m \<Longrightarrow> (\<And>y. table_neutral (f y)) \<Longrightarrow>
   table_neutral (case x of None \<Rightarrow> m | Some y \<Rightarrow> f y)"
  by (simp split: option.split)

lemma neutral_statement:
  "(\<And>d x d'. f d = (Inr x, d') \<Longrightarrow> gd_table d' = gd_table d) \<Longrightarrow> table_neutral (statement f)"
  by (auto simp: table_neutral_def statement_def split: prod.split sum.split)

lemma neutral_reads [neutral_intros]:
  "table_neutral (select_rows t B)" "table_neutral (log_audit env actor action rt rid details ip)"
  "table_neutral (log_audit_as env sub tenant action rt rid details ip)"
  "table_neutral (sql_macaddr env mac)"
  unfolding select_rows_def log_audit_def log_audit_as_def sql_macaddr_def
  by (rule neutral_statement; auto simp: Let_def split: option.splits)+

lemma neutral_derived [neutral_intros]:
  "table_neutral (select_first t cols B)" "table_neutral (count_rows t B)"
  "table_neutral (select_page env order t B limit offset)"
  "table_neutral (select_ordered env order t B)"
  unfolding select_first_def count_rows_def select_page_def select_ordered_def
  by (intro neutral_intros)+

text \<open>With unique keys a condition on the key splits the table around one row.\<close>

lemma unique_row_split:
  assumes "distinct (map (\<lambda>r. py_get r ''id'') rows)" and "r \<in> set rows" and "by_id tenant i r"
  obtains xs ys where "rows = xs @ r # ys" and "\<forall>x \<in> set xs \<union> set ys. \<not> by_id tenant i x"
proof -
  obtain xs ys where rows: "rows = xs @ r # ys" using assms(2) by (meson split_list)
  have "\<not> by_id tenant i x" if "x \<in> set xs \<union> set ys" for x
  proof
    assume "by_id tenant i x"
    with assms(3) have "py_get r ''id'' = py_get x ''id''"
      by (simp add: by_id_def where_eq_def sql_eq_def)
    with that have "py_get r ''id'' \<in> set (map (\<lambda>r. py_get r ''id'') (xs @ ys))"
      by (auto intro: image_eqI)
    with assms(1) rows show False by auto
  qed
  with rows that show thesis by blast
qed

text \<open>
  The primary keys PostgreSQL enforces: in every table a statement leaves behind the
  identifiers are distinct and not null.
\<close>

definition keyed :: "pydict list \<Rightarrow> bool" where
  "keyed rows \<longleftrightarrow> distinct (map (\<lambda>r. py_get r ''id'') rows)
     \<and> (\<forall>r \<in> set rows. py_get r ''id'' \<noteq> PNone)"

definition keyed_tables :: "string list" where
  "keyed_tables =
     [''vlans'', ''group_vlan_mappings'', ''radius_nas_clients'', ''ldap_servers'', ''radius_realms'',
      ''mab_devices'', ''certificates'', ''users'']"

definition primary_keys :: "gw_env \<Rightarrow> bool" where
  "primary_keys env \<longleftrightarrow>
     (\<forall>tables. ge_constraint env tables = None \<longrightarrow> (\<forall>t \<in> set keyed_tables. keyed (tables t)))"

lemma primary_keysD:
  "primary_keys env \<Longrightarrow> ge_constraint env tables = None \<Longrightarrow> t \<in> set keyed_tables \<Longrightarrow> keyed (tables t)"
  by (simp add: primary_keys_def)

text \<open>An environment for examples: keys are enforced, everything else is accepted.\<close>

definition ex_gw_env :: gw_env where
  "ex_gw_env = \<lparr>ge_uuid = (\<lambda>n. ''id-'' @ show_nat n), ge_now = 1000, ge_defaults = (\<lambda>t. []),
     ge_constraint = (\<lambda>tables. if list_all (\<lambda>t. keyed (tables t)) keyed_tables then None
        else Some ''duplicate key''),
     ge_audit_error = (\<lambda>a. None), ge_order = (\<lambda>text rows. rows), ge_publish_ok = (\<lambda>m. True),
     ge_encrypt = (\<lambda>v. Inr (case v of PStr s \<Rightarrow> PStr (''enc:'' @ s) | _ \<Rightarrow> v)),
     ge_decrypt = (\<lambda>v. Inr (case v of PStr s \<Rightarrow> PStr (drop 4 s) | _ \<Rightarrow> v)),
     ge_macaddr = (\<lambda>s. Some s), ge_value_error = (\<lambda>t row. None),
     ge_file_ok = (\<lambda>path. True)\<rparr>"

definition ex_gw_state :: gw_state where
  "ex_gw_state = (let d = \<lparr>gd_table = (\<lambda>t. []), gd_audit = [], gd_seq = 0\<rparr>
     in \<lparr>gs_db = d, gs_committed = d, gs_aborted = False, gs_published = [],
       gs_files = []\<rparr>)"

definition ex_actor :: gw_actor where
  "ex_actor = \<lparr>ac_sub = ''u1'', ac_tenant = ''t1'', ac_username = Some ''admin''\<rparr>"

lemma ex_primary_keys: "primary_keys ex_gw_env"
  by (simp add: primary_keys_def ex_gw_env_def list_all_iff)

lemma keyed_split:
  assumes "keyed rows" and "r \<in> set rows" and "by_id tenant i r"
  obtains xs ys where "rows = xs @ r # ys" and "\<forall>x \<in> set xs \<union> set ys. \<not> by_id tenant i x"
  using assms unique_row_split [of rows r tenant i] unfolding keyed_def by blast

lemma by_id_iff:
  "by_id tenant i r \<longleftrightarrow> py_get r ''id'' = PStr i \<and> py_get r ''tenant_id'' = PStr tenant"
  by (auto simp: by_id_def where_eq_def sql_eq_def)

lemma triple_select_first:
  assumes "\<And>d. P d \<Longrightarrow> filter B (gd_table d t) = [] \<Longrightarrow> Q None d"
    and "\<And>d r. P d \<Longrightarrow> r \<in> set (gd_table d t) \<Longrightarrow> B r \<Longrightarrow> Q (Some (project cols r)) d"
    and "\<And>d. P d \<Longrightarrow> E d"
  shows "triple P (select_first t cols B) Q E"
  unfolding select_first_def
proof (rule triple_sbind)
  show "triple P (select_rows t B) (\<lambda>rows d. P d \<and> rows = filter B (gd_table d t)) E"
    using assms(3) by (intro triple_select) auto
  show "triple (\<lambda>d. P d \<and> rows = filter B (gd_table d t))
      (sret (map_option (project cols) (first_row rows))) Q E" for rows
  proof (intro triple_sret, elim conjE)
    fix d assume P: "P d" and rows: "rows = filter B (gd_table d t)"
    show "Q (map_option (project cols) (first_row rows)) d"
    proof (cases rows)
      case Nil
      with assms(1) [OF P] rows show ?thesis by (simp add: first_row_def)
    next
      case (Cons r rs)
      with rows have "r \<in> set (filter B (gd_table d t))" by (metis list.set_intros(1))
      with assms(2) [OF P] Cons show ?thesis by (simp add: first_row_def)
    qed
  qed
qed

lemma triple_update_by_clause:
  assumes "\<And>d d' params. P d \<Longrightarrow> params = set_params updates allowed column_map [] \<Longrightarrow>
     gd_table d' = (gd_table d)(t := map (\<lambda>r. if B r then assign (params @ extra) r else r) (gd_table d t)) \<Longrightarrow>
     ge_constraint env (gd_table d') = None \<Longrightarrow>
     Q (map_option (project cols) (first_row (map (assign (params @ extra)) (filter B (gd_table d t))))) d'"
    and "\<And>d. P d \<Longrightarrow> E d"
  shows "triple P (update_by_clause env t cols allowed column_map type_casts extra B updates) Q E"
proof (cases "build_safe_set_clause updates allowed column_map type_casts")
  case (Inl e)
  then show ?thesis using assms(2) by (simp add: update_by_clause_def sbind_pure triple_sraise)
next
  case (Inr cp)
  obtain clause params where cp: "cp = (clause, params)" by (cases cp)
  have params: "params = set_params updates allowed column_map []"
    using build_Inr(1) Inr cp by blast
  have "triple P (sbind (update_rows env t B (params @ extra))
      (\<lambda>rows. sret (map_option (project cols) (first_row rows)))) Q E"
  proof (rule triple_sbind)
    show "triple P (update_rows env t B (params @ extra))
        (\<lambda>rows d'. Q (map_option (project cols) (first_row rows)) d') E"
      using assms params by (intro triple_update) auto
  qed (rule triple_sret)
  then show ?thesis by (simp add: update_by_clause_def Inr cp sbind_pure)
qed

end
