(* ===== verification/Vlans.thy ===== *)
theory Vlans
  imports Gateway_Store
begin

text \<open>
  The VLAN catalogue of the gateway: repository and service of
  \<open>services/gateway/features/vlans\<close>. A repository function is one statement scoped to the
  tenant (\<open>repo_\<close> before its name), a service function composes them with the checks, the
  domain exceptions and the audit entry.
\<close>

section \<open>Repository\<close>

definition vlan_columns :: "string list" where
  "vlan_columns =
     [''id'', ''vlan_id'', ''name'', ''description'', ''purpose'', ''subnet'', ''enabled'',
      ''created_at'', ''updated_at'']"

definition repo_list_vlans :: "gw_env \<Rightarrow> string \<Rightarrow> pyval \<Rightarrow> (gw_state, pydict list) prog" where
  "repo_list_vlans env tenant purpose =
     sbind (select_ordered env ''vlan_id'' ''vlans''
              (where_eq ([(''tenant_id'', PStr tenant)] @ if_truthy ''purpose'' purpose)))
       (\<lambda>rows. sret (map (project vlan_columns) rows))"

definition repo_lookup_vlan :: "string \<Rightarrow> string \<Rightarrow> (gw_state, pydict option) prog" where
  "repo_lookup_vlan tenant vlan_uuid =
     select_first ''vlans'' vlan_columns (by_id tenant vlan_uuid)"

definition repo_lookup_vlan_summary :: "string \<Rightarrow> string \<Rightarrow> (gw_state, pydict option) prog" where
  "repo_lookup_vlan_summary tenant vlan_uuid =
     select_first ''vlans'' [''id'', ''vlan_id'', ''name''] (by_id tenant vlan_uuid)"

definition repo_insert_vlan ::
  "gw_env \<Rightarrow> string \<Rightarrow> int \<Rightarrow> string \<Rightarrow> pyval \<Rightarrow> pyval \<Rightarrow> pyval \<Rightarrow> bool \<Rightarrow> (gw_state, pydict) prog" where
  "repo_insert_vlan env tenant vlan_id name description purpose subnet enabled =
     sbind (insert_row env ''vlans''
              [(''vlan_id'', PInt vlan_id), (''name'', PStr name), (''description'', description),
               (''purpose'', purpose), (''subnet'', subnet), (''enabled'', PBool enabled),
               (''tenant_id'', PStr tenant)])
       (\<lambda>row. sret (project vlan_columns row))"

definition repo_update_vlan ::
  "gw_env \<Rightarrow> string \<Rightarrow> string \<Rightarrow> pydict \<Rightarrow> (gw_state, pydict option) prog" where
  "repo_update_vlan env tenant vlan_uuid updates =
     update_by_clause env ''vlans'' vlan_columns VLAN_UPDATE_COLUMNS [] []
       (stamp env ''updated_at'') (by_id tenant vlan_uuid) updates"

definition repo_delete_vlan :: "gw_env \<Rightarrow> string \<Rightarrow> string \<Rightarrow> (gw_state, unit) prog" where
  "repo_delete_vlan env tenant vlan_uuid =
     sbind (delete_rows env ''vlans'' (by_id tenant vlan_uuid)) (\<lambda>_. sret ())"

section \<open>Service\<close>

definition stringify_subnet :: "pydict \<Rightarrow> pydict" where
  "stringify_subnet = stringify ''subnet''"

definition list_vlans :: "gw_env \<Rightarrow> string \<Rightarrow> pyval \<Rightarrow> (gw_state, pydict list) prog" where
  "list_vlans env tenant purpose =
     sbind (repo_list_vlans env tenant purpose) (\<lambda>rows. sret (map stringify_subnet rows))"

definition get_vlan :: "string \<Rightarrow> string \<Rightarrow> (gw_state, pydict) prog" where
  "get_vlan tenant vlan_uuid =
     sbind (repo_lookup_vlan tenant vlan_uuid) (\<lambda>row.
       case row of
         None \<Rightarrow> sraise (not_found ''VLAN'' vlan_uuid)
       | Some r \<Rightarrow> sret (stringify_subnet r))"

definition create_vlan ::
  "gw_env \<Rightarrow> gw_actor \<Rightarrow> int \<Rightarrow> string \<Rightarrow> pyval \<Rightarrow> pyval \<Rightarrow> pyval \<Rightarrow> bool \<Rightarrow> pyval
   \<Rightarrow> (gw_state, pydict) prog" where
  "create_vlan env actor vlan_id name description purpose subnet enabled client_ip =
     sbind (repo_insert_vlan env (ac_tenant actor) vlan_id name description purpose subnet enabled)
       (\<lambda>row.
     sbind (log_audit env actor ''create'' ''vlan'' (PStr (py_str (py_get row ''id'')))
              [(''vlan_id'', PInt vlan_id), (''name'', PStr name), (''purpose'', purpose)] client_ip)
       (\<lambda>_. sret (stringify_subnet row)))"

definition update_vlan ::
  "gw_env \<Rightarrow> gw_actor \<Rightarrow> string \<Rightarrow> pydict \<Rightarrow> pyval \<Rightarrow> (gw_state, pydict) prog" where
  "update_vlan env actor vlan_uuid updates client_ip =
     (if updates = [] then sraise (invalid ''No fields to update'')
      else
        sbind (repo_lookup_vlan_summary (ac_tenant actor) vlan_uuid) (\<lambda>existing.
          case existing of
            None \<Rightarrow> sraise (not_found ''VLAN'' vlan_uuid)
          | Some ex \<Rightarrow>
              sbind (value_error_as (invalid ''No valid fields to update'')
                       (repo_update_vlan env (ac_tenant actor) vlan_uuid updates)) (\<lambda>row.
                case row of
                  None \<Rightarrow> sraise (not_found ''VLAN'' vlan_uuid)
                | Some r \<Rightarrow>
                    sbind (log_audit env actor ''update'' ''vlan'' (PStr vlan_uuid)
                             [(''changed_fields'', PDict updates), (''name'', py_get ex ''name'')]
                             client_ip)
                      (\<lambda>_. sret (stringify_subnet r)))))"

definition delete_vlan ::
  "gw_env \<Rightarrow> gw_actor \<Rightarrow> string \<Rightarrow> pyval \<Rightarrow> (gw_state, unit) prog" where
  "delete_vlan env actor vlan_uuid client_ip =
     sbind (repo_lookup_vlan_summary (ac_tenant actor) vlan_uuid) (\<lambda>existing.
       case existing of
         None \<Rightarrow> sraise (not_found ''VLAN'' vlan_uuid)
       | Some ex \<Rightarrow>
           sbind (repo_delete_vlan env (ac_tenant actor) vlan_uuid) (\<lambda>_.
           log_audit env actor ''delete'' ''vlan'' (PStr vlan_uuid)
             [(''name'', py_get ex ''name''), (''vlan_id'', py_get ex ''vlan_id'')] client_ip))"

section \<open>Isolation of tenants\<close>

lemma no_tenant_column:
  "''tenant_id'' \<notin> set VLAN_UPDATE_COLUMNS"
  using protected_columns [of "''tenant_id''"] by simp

lemmas vlan_repo_defs =
  repo_list_vlans_def repo_lookup_vlan_def repo_lookup_vlan_summary_def repo_insert_vlan_def
  repo_update_vlan_def repo_delete_vlan_def

lemma vlan_repo_isolates [isolation_intros]:
  "isolates tenant (repo_list_vlans env tenant purpose)"
  "isolates tenant (repo_lookup_vlan tenant u)"
  "isolates tenant (repo_lookup_vlan_summary tenant u)"
  "isolates tenant (repo_insert_vlan env tenant v n d p sn e)"
  "isolates tenant (repo_update_vlan env tenant u updates)"
  "isolates tenant (repo_delete_vlan env tenant u)"
  unfolding vlan_repo_defs
  by (intro isolation_intros; simp add: no_tenant_column stamp_def dict_ok_def)+

lemma vlan_service_isolates [isolation_intros]:
  "isolates (ac_tenant actor) (create_vlan env actor v n d p sn e ip)"
  "isolates (ac_tenant actor) (update_vlan env actor u updates ip)"
  "isolates (ac_tenant actor) (delete_vlan env actor u ip)"
  unfolding create_vlan_def update_vlan_def delete_vlan_def
  by (intro isolation_intros)+

end
