(* ===== verification/Group_Vlans.thy ===== *)
theory Group_Vlans
  imports Gateway_Store
begin

text \<open>
  The mapping of directory groups to VLANs: repository and service of
  \<open>services/gateway/features/group_vlan_mappings\<close>. A group has at most one mapping in a
  tenant, which the service checks before it inserts or renames; \<open>lookup_vlan_for_groups\<close>
  answers which VLAN a list of groups gets.
\<close>

section \<open>Repository\<close>

definition mapping_columns :: "string list" where
  "mapping_columns =
     [''id'', ''group_name'', ''vlan_id'', ''priority'', ''description'', ''ldap_server_id'',
      ''enabled'', ''created_at'', ''updated_at'']"

definition repo_list_mappings :: "gw_env \<Rightarrow> string \<Rightarrow> (gw_state, pydict list) prog" where
  "repo_list_mappings env tenant =
     sbind (select_ordered env ''priority ASC, group_name ASC'' ''group_vlan_mappings''
              (where_eq [(''tenant_id'', PStr tenant)]))
       (\<lambda>rows. sret (map (project mapping_columns) rows))"

definition repo_lookup_mapping :: "string \<Rightarrow> string \<Rightarrow> (gw_state, pydict option) prog" where
  "repo_lookup_mapping tenant mapping_id =
     select_first ''group_vlan_mappings'' mapping_columns (by_id tenant mapping_id)"

definition repo_lookup_mapping_summary :: "string \<Rightarrow> string \<Rightarrow> (gw_state, pydict option) prog" where
  "repo_lookup_mapping_summary tenant mapping_id =
     select_first ''group_vlan_mappings'' [''id'', ''group_name'', ''vlan_id'']
       (by_id tenant mapping_id)"

definition repo_group_name_taken ::
  "string \<Rightarrow> pyval \<Rightarrow> string option \<Rightarrow> (gw_state, bool) prog" where
  "repo_group_name_taken tenant group_name excluding_id =
     sbind (select_rows ''group_vlan_mappings'' (\<lambda>row.
              where_eq [(''group_name'', group_name), (''tenant_id'', PStr tenant)] row
              \<and> (case excluding_id of None \<Rightarrow> True
                  | Some i \<Rightarrow> py_get row ''id'' \<noteq> PNone \<and> py_get row ''id'' \<noteq> PStr i)))
       (\<lambda>rows. sret (rows \<noteq> []))"

text \<open>\<open>ORDER BY priority ASC LIMIT 1\<close> on the integer column.\<close>

definition priority_of :: "pydict \<Rightarrow> int" where
  "priority_of row = (case py_get row ''priority'' of PInt i \<Rightarrow> i | _ \<Rightarrow> 0)"

definition group_matches :: "string \<Rightarrow> string list \<Rightarrow> pydict \<Rightarrow> bool" where
  "group_matches tenant groups row \<longleftrightarrow>
     py_get row ''group_name'' \<in> PStr ` set groups
     \<and> where_eq [(''enabled'', PBool True), (''tenant_id'', PStr tenant)] row"

definition repo_lookup_vlan_for_groups ::
  "string \<Rightarrow> string list \<Rightarrow> (gw_state, pydict option) prog" where
  "repo_lookup_vlan_for_groups tenant groups =
     sbind (select_rows ''group_vlan_mappings'' (group_matches tenant groups)) (\<lambda>rows.
       sret (map_option (project [''group_name'', ''vlan_id'', ''priority''])
               (first_row (sort_key priority_of rows))))"

definition repo_insert_mapping ::
  "gw_env \<Rightarrow> string \<Rightarrow> string \<Rightarrow> int \<Rightarrow> int \<Rightarrow> pyval \<Rightarrow> pyval \<Rightarrow> bool \<Rightarrow> (gw_state, pydict) prog" where
  "repo_insert_mapping env tenant group_name vlan_id priority description ldap_server_id enabled =
     sbind (insert_row env ''group_vlan_mappings''
              [(''group_name'', PStr group_name), (''vlan_id'', PInt vlan_id),
               (''priority'', PInt priority), (''description'', description),
               (''ldap_server_id'', ldap_server_id), (''enabled'', PBool enabled),
               (''tenant_id'', PStr tenant)])
       (\<lambda>row. sret (project mapping_columns row))"

definition repo_update_mapping ::
  "gw_env \<Rightarrow> string \<Rightarrow> string \<Rightarrow> pydict \<Rightarrow> (gw_state, pydict option) prog" where
  "repo_update_mapping env tenant mapping_id updates =
     update_by_clause env ''group_vlan_mappings'' mapping_columns GROUP_VLAN_MAPPING_UPDATE_COLUMNS
       [] [] (stamp env ''updated_at'') (by_id tenant mapping_id) updates"

definition repo_delete_mapping :: "gw_env \<Rightarrow> string \<Rightarrow> string \<Rightarrow> (gw_state, unit) prog" where
  "repo_delete_mapping env tenant mapping_id =
     sbind (delete_rows env ''group_vlan_mappings'' (by_id tenant mapping_id)) (\<lambda>_. sret ())"

section \<open>Service\<close>

definition assert_group_name_free ::
  "string \<Rightarrow> pyval \<Rightarrow> string option \<Rightarrow> (gw_state, unit) prog" where
  "assert_group_name_free tenant group_name excluding_id =
     sbind (repo_group_name_taken tenant group_name excluding_id) (\<lambda>taken.
       if taken
       then sraise (DomainError ConflictError
              (''Mapping for group '' @ [CHR 0x27] @ py_str group_name @ [CHR 0x27] @ '' already exists''))
       else sret ())"

definition list_mappings :: "gw_env \<Rightarrow> string \<Rightarrow> (gw_state, pydict) prog" where
  "list_mappings env tenant =
     sbind (repo_list_mappings env tenant) (\<lambda>rows.
       sret [(''items'', PList (map PDict rows)), (''total'', PInt (int (length rows)))])"

definition get_mapping :: "string \<Rightarrow> string \<Rightarrow> (gw_state, pydict) prog" where
  "get_mapping tenant mapping_id =
     sbind (repo_lookup_mapping tenant mapping_id) (\<lambda>row.
       case row of
         None \<Rightarrow> sraise (not_found ''Mapping'' mapping_id)
       | Some r \<Rightarrow> sret r)"

definition parse_groups :: "string \<Rightarrow> string list" where
  "parse_groups groups_csv =
     filter (\<lambda>g. g \<noteq> []) (map py_strip (py_split CHR '','' groups_csv))"

definition preview_vlan_for_groups :: "string \<Rightarrow> string \<Rightarrow> (gw_state, pydict option) prog" where
  "preview_vlan_for_groups tenant groups_csv =
     (let parsed = parse_groups groups_csv
      in if parsed = [] then sret None else repo_lookup_vlan_for_groups tenant parsed)"

definition create_mapping ::
  "gw_env \<Rightarrow> gw_actor \<Rightarrow> string \<Rightarrow> int \<Rightarrow> int \<Rightarrow> pyval \<Rightarrow> pyval \<Rightarrow> bool \<Rightarrow> pyval
   \<Rightarrow> (gw_state, pydict) prog" where
  "create_mapping env actor group_name vlan_id priority description ldap_server_id enabled client_ip =
     sbind (assert_group_name_free (ac_tenant actor) (PStr group_name) None) (\<lambda>_.
     sbind (repo_insert_mapping env (ac_tenant actor) group_name vlan_id priority description
              ldap_server_id enabled) (\<lambda>row.
     sbind (log_audit env actor ''create'' ''group_vlan_mapping''
              (PStr (py_str (py_get row ''id'')))
              [(''group_name'', PStr group_name), (''vlan_id'', PInt vlan_id)] client_ip)
       (\<lambda>_. sret row)))"

definition rename_check :: "string \<Rightarrow> string \<Rightarrow> pyval \<Rightarrow> pydict \<Rightarrow> (gw_state, unit) prog" where
  "rename_check tenant mapping_id new_name existing =
     (if new_name \<noteq> PNone \<and> new_name \<noteq> py_get existing ''group_name''
      then assert_group_name_free tenant new_name (Some mapping_id)
      else sret ())"

definition update_mapping ::
  "gw_env \<Rightarrow> gw_actor \<Rightarrow> string \<Rightarrow> pydict \<Rightarrow> pyval \<Rightarrow> (gw_state, pydict) prog" where
  "update_mapping env actor mapping_id updates client_ip =
     (if updates = [] then sraise (invalid ''No fields to update'')
      else
        sbind (repo_lookup_mapping_summary (ac_tenant actor) mapping_id) (\<lambda>existing.
          case existing of
            None \<Rightarrow> sraise (not_found ''Mapping'' mapping_id)
          | Some ex \<Rightarrow>
              sbind (rename_check (ac_tenant actor) mapping_id (py_get updates ''group_name'') ex) (\<lambda>_.
              sbind (value_error_as (invalid ''No valid fields to update'')
                       (repo_update_mapping env (ac_tenant actor) mapping_id updates)) (\<lambda>row.
                case row of
                  None \<Rightarrow> sraise (not_found ''Mapping'' mapping_id)
                | Some r \<Rightarrow>
                    sbind (log_audit env actor ''update'' ''group_vlan_mapping'' (PStr mapping_id)
                             [(''changed_fields'', PDict updates),
                              (''group_name'', py_get ex ''group_name'')] client_ip)
                      (\<lambda>_. sret r)))))"

definition delete_mapping ::
  "gw_env \<Rightarrow> gw_actor \<Rightarrow> string \<Rightarrow> pyval \<Rightarrow> (gw_state, unit) prog" where
  "delete_mapping env actor mapping_id client_ip =
     sbind (repo_lookup_mapping_summary (ac_tenant actor) mapping_id) (\<lambda>existing.
       case existing of
         None \<Rightarrow> sraise (not_found ''Mapping'' mapping_id)
       | Some ex \<Rightarrow>
           sbind (repo_delete_mapping env (ac_tenant actor) mapping_id) (\<lambda>_.
           log_audit env actor ''delete'' ''group_vlan_mapping'' (PStr mapping_id)
             [(''group_name'', py_get ex ''group_name''), (''vlan_id'', py_get ex ''vlan_id'')]
             client_ip))"

section \<open>Isolation of tenants\<close>

lemma mapping_no_tenant_column: "''tenant_id'' \<notin> set GROUP_VLAN_MAPPING_UPDATE_COLUMNS"
  using protected_columns [of "''tenant_id''"] by simp

lemma mapping_repo_isolates [isolation_intros]:
  "isolates tenant (repo_lookup_mapping_summary tenant m)"
  "isolates tenant (repo_group_name_taken tenant g x)"
  "isolates tenant (repo_insert_mapping env tenant gn v p d l e)"
  "isolates tenant (repo_update_mapping env tenant m updates)"
  "isolates tenant (repo_delete_mapping env tenant m)"
  unfolding repo_lookup_mapping_summary_def repo_group_name_taken_def repo_insert_mapping_def
    repo_update_mapping_def repo_delete_mapping_def
  by (intro isolation_intros; simp add: mapping_no_tenant_column stamp_def dict_ok_def)+

lemma mapping_service_isolates [isolation_intros]:
  "isolates (ac_tenant actor) (create_mapping env actor g v p d l e ip)"
  "isolates (ac_tenant actor) (update_mapping env actor m updates ip)"
  "isolates (ac_tenant actor) (delete_mapping env actor m ip)"
  unfolding create_mapping_def update_mapping_def delete_mapping_def rename_check_def
    assert_group_name_free_def
  by (intro isolation_intros)+

section \<open>Names are unique in a tenant\<close>

text \<open>The names of the mappings of a tenant; a mapping without a name conflicts with none.\<close>

definition mapping_names :: "string \<Rightarrow> pydict list \<Rightarrow> pyval list" where
  "mapping_names tenant rows =
     map (\<lambda>r. py_get r ''group_name'')
       (filter (\<lambda>r. py_get r ''tenant_id'' = PStr tenant \<and> py_get r ''group_name'' \<noteq> PNone) rows)"

lemma mapping_names_append:
  "mapping_names tenant (xs @ ys) = mapping_names tenant xs @ mapping_names tenant ys"
  by (simp add: mapping_names_def)

lemma mapping_names_mem:
  "n \<in> set (mapping_names tenant rows) \<longleftrightarrow>
     n \<noteq> PNone \<and> (\<exists>x \<in> set rows. py_get x ''tenant_id'' = PStr tenant \<and> py_get x ''group_name'' = n)"
  by (auto simp: mapping_names_def)

lemma mapping_names_filter:
  "distinct (mapping_names tenant rows) \<Longrightarrow> distinct (mapping_names tenant (filter P rows))"
  unfolding mapping_names_def by (induction rows) auto

text \<open>A name that passed the check belongs to no other row of the tenant.\<close>

definition name_free :: "string \<Rightarrow> pyval \<Rightarrow> string option \<Rightarrow> pydict list \<Rightarrow> bool" where
  "name_free tenant g excluding rows \<longleftrightarrow>
     (\<forall>r \<in> set rows. py_get r ''tenant_id'' = PStr tenant \<and> py_get r ''group_name'' = g \<and> g \<noteq> PNone \<longrightarrow>
        (\<exists>i. excluding = Some i \<and> py_get r ''id'' \<in> {PNone, PStr i}))"

abbreviation mappings :: "(string \<Rightarrow> pydict list) \<Rightarrow> pydict list" where
  "mappings tables \<equiv> tables ''group_vlan_mappings''"

definition names_ok :: "string \<Rightarrow> (string \<Rightarrow> pydict list) \<Rightarrow> bool" where
  "names_ok tenant tables \<longleftrightarrow>
     distinct (mapping_names tenant (mappings tables)) \<and> keyed (mappings tables)"

lemma mapping_keyed: "''group_vlan_mappings'' \<in> set keyed_tables"
  by code_simp

lemma assert_free:
  "triple (\<lambda>d. J (gd_table d)) (assert_group_name_free tenant g excluding)
     (\<lambda>_ d. J (gd_table d) \<and> name_free tenant g excluding (mappings (gd_table d)))
     (\<lambda>d. J (gd_table d))"
  unfolding assert_group_name_free_def
proof (rule triple_sbind)
  show "triple (\<lambda>d. J (gd_table d)) (repo_group_name_taken tenant g excluding)
     (\<lambda>taken d. J (gd_table d) \<and> (\<not> taken \<longrightarrow> name_free tenant g excluding (mappings (gd_table d))))
     (\<lambda>d. J (gd_table d))"
    unfolding repo_group_name_taken_def
    by (rule triple_sbind, rule triple_select [where Q = "\<lambda>rows d. J (gd_table d) \<and>
        (rows = [] \<longrightarrow> name_free tenant g excluding (mappings (gd_table d)))"])
      (auto intro!: triple_sret simp: name_free_def filter_empty_conv where_eq_def sql_eq_def
        split: option.splits)
qed (auto intro!: triple_if triple_sraise triple_sret)

lemma mapping_names_new:
  assumes "name_free tenant (PStr g) None rows" and "distinct (mapping_names tenant rows)"
    and "py_get row ''group_name'' = PStr g"
  shows "distinct (mapping_names tenant (rows @ [row]))"
  using assms by (auto simp: mapping_names_def name_free_def)

lemma create_keeps_names:
  assumes "primary_keys env"
  shows "triple (\<lambda>d. names_ok (ac_tenant actor) (gd_table d))
    (create_mapping env actor g v p descr l e ip)
    (\<lambda>_ d. names_ok (ac_tenant actor) (gd_table d)) (\<lambda>d. names_ok (ac_tenant actor) (gd_table d))"
    (is "triple (\<lambda>d. ?J (gd_table d)) _ _ _")
  unfolding create_mapping_def repo_insert_mapping_def sbind_assoc
proof (rule triple_sbind [OF assert_free])
  let ?vals = "[(''group_name'', PStr g), (''vlan_id'', PInt v), (''priority'', PInt p),
    (''description'', descr), (''ldap_server_id'', l), (''enabled'', PBool e),
    (''tenant_id'', PStr (ac_tenant actor))]"
  have name: "py_get (assign ?vals base) ''group_name'' = PStr g" for base
    by (rule assign_last) (simp_all add: dict_ok_def)
  show "triple (\<lambda>d. ?J (gd_table d) \<and> name_free (ac_tenant actor) (PStr g) None (mappings (gd_table d)))
      (sbind (insert_row env ''group_vlan_mappings'' ?vals) (\<lambda>row. sbind (sret (project mapping_columns row)) (\<lambda>row.
        sbind (log_audit env actor ''create'' ''group_vlan_mapping'' (PStr (py_str (py_get row ''id'')))
          [(''group_name'', PStr g), (''vlan_id'', PInt v)] ip) (\<lambda>_. sret row))))
      (\<lambda>_ d. ?J (gd_table d)) (\<lambda>d. ?J (gd_table d))"
  proof (rule triple_sbind)
    show "triple (\<lambda>d. ?J (gd_table d) \<and> name_free (ac_tenant actor) (PStr g) None (mappings (gd_table d)))
        (insert_row env ''group_vlan_mappings'' ?vals) (\<lambda>_ d. ?J (gd_table d)) (\<lambda>d. ?J (gd_table d))"
    proof (rule triple_insert)
      fix d :: gw_db and row :: pydict and d' :: gw_db
      assume old: "?J (gd_table d) \<and> name_free (ac_tenant actor) (PStr g) None (mappings (gd_table d))"
        and row: "row = assign ?vals (dict_set ''id'' (PStr (ge_uuid env (gd_seq d)))
          (ge_defaults env ''group_vlan_mappings''))"
        and d': "gd_table d' = (gd_table d)(''group_vlan_mappings'' := mappings (gd_table d) @ [row])"
        and ok: "ge_constraint env (gd_table d') = None"
      have "py_get row ''group_name'' = PStr g" unfolding row by (rule name)
      with old have "distinct (mapping_names (ac_tenant actor) (mappings (gd_table d) @ [row]))"
        by (intro mapping_names_new) (simp_all add: names_ok_def)
      with primary_keysD [OF assms ok mapping_keyed] d'
      show "?J (gd_table d')" by (simp add: names_ok_def)
    qed simp
  qed (intro triple_neutral neutral_intros)
qed

text \<open>What the rename check establishes of the name an update assigns.\<close>

definition rename_ok :: "string \<Rightarrow> string \<Rightarrow> pydict \<Rightarrow> pydict list \<Rightarrow> bool" where
  "rename_ok tenant i updates rows \<longleftrightarrow>
     (\<forall>r \<in> set rows. by_id tenant i r \<longrightarrow>
        (let v = py_get updates ''group_name''
         in v = PNone \<or> v = py_get r ''group_name'' \<or> name_free tenant v (Some i) rows))"

lemma rename_check_ok:
  "triple (\<lambda>d. J (gd_table d)
       \<and> (\<exists>r \<in> set (mappings (gd_table d)). by_id tenant i r \<and> py_get ex ''group_name'' = py_get r ''group_name''
            \<and> keyed (mappings (gd_table d))))
     (rename_check tenant i (py_get updates ''group_name'') ex)
     (\<lambda>_ d. J (gd_table d) \<and> rename_ok tenant i updates (mappings (gd_table d)))
     (\<lambda>d. J (gd_table d))"
proof -
  have same: "r' = r" if "keyed rows" "r \<in> set rows" "r' \<in> set rows" "by_id tenant i r" "by_id tenant i r'"
    for rows r r'
  proof -
    note facts = that
    obtain xs ys where "rows = xs @ r # ys" "\<forall>x \<in> set xs \<union> set ys. \<not> by_id tenant i x"
      using keyed_split facts(1,2,4) by blast
    with facts show ?thesis by auto
  qed
  show ?thesis
    unfolding rename_check_def
  proof (intro triple_if triple_weaken [OF assert_free] triple_sret)
    fix d
    assume "\<not> (py_get updates ''group_name'' \<noteq> PNone \<and>
        py_get updates ''group_name'' \<noteq> py_get ex ''group_name'')"
      and "J (gd_table d) \<and> (\<exists>r \<in> set (mappings (gd_table d)). by_id tenant i r
        \<and> py_get ex ''group_name'' = py_get r ''group_name'' \<and> keyed (mappings (gd_table d)))"
    then show "J (gd_table d) \<and> rename_ok tenant i updates (mappings (gd_table d))"
      unfolding rename_ok_def Let_def using same by metis
  qed (auto simp: rename_ok_def)
qed

lemma renamed_names:
  assumes rows: "rows = xs @ r # ys" and other: "\<forall>x \<in> set xs \<union> set ys. \<not> by_id tenant i x"
    and r: "by_id tenant i r" and keyed: "keyed rows"
    and dist: "distinct (mapping_names tenant rows)"
    and tenant: "py_get r' ''tenant_id'' = PStr tenant"
    and name: "py_get r' ''group_name'' = PNone \<or> py_get r' ''group_name'' = py_get r ''group_name''
      \<or> name_free tenant (py_get r' ''group_name'') (Some i) rows"
  shows "distinct (mapping_names tenant (xs @ r' # ys))"
proof -
  let ?n = "py_get r' ''group_name''"
  have rest: "distinct (mapping_names tenant xs @ mapping_names tenant ys)"
    using dist mapping_names_append [of tenant xs "r # ys"] mapping_names_append [of tenant "[r]" ys]
    unfolding rows by auto
  have "?n \<notin> set (mapping_names tenant xs @ mapping_names tenant ys)" if "?n \<noteq> PNone"
  proof
    assume "?n \<in> set (mapping_names tenant xs @ mapping_names tenant ys)"
    then obtain x where x: "x \<in> set xs \<union> set ys" "py_get x ''tenant_id'' = PStr tenant"
      "py_get x ''group_name'' = ?n"
      unfolding set_append Un_iff mapping_names_mem by blast
    with other have id: "py_get x ''id'' \<noteq> PStr i" by (auto simp: by_id_iff)
    moreover have "py_get x ''id'' \<noteq> PNone"
      using keyed x(1) unfolding keyed_def rows by auto
    ultimately have "\<not> name_free tenant ?n (Some i) rows"
      using x that unfolding name_free_def rows by auto
    with name that have "?n = py_get r ''group_name''" by blast
    with x that r dist have "py_get r ''group_name'' \<in> set (mapping_names tenant xs @ mapping_names tenant ys)"
      unfolding set_append Un_iff mapping_names_mem by auto
    moreover have "py_get r ''group_name'' \<in> set (mapping_names tenant [r])"
      using r that \<open>?n = _\<close> by (simp add: mapping_names_mem by_id_iff)
    moreover have "mapping_names tenant rows =
        mapping_names tenant xs @ mapping_names tenant [r] @ mapping_names tenant ys"
      unfolding rows using mapping_names_append [of tenant xs "r # ys"]
        mapping_names_append [of tenant "[r]" ys] by simp
    ultimately show False using dist by auto
  qed
  with rest show ?thesis using tenant by (auto simp: mapping_names_def)
qed

lemma name_column: "''group_name'' \<in> set GROUP_VLAN_MAPPING_UPDATE_COLUMNS"
  by code_simp

lemma repo_update_keeps_names:
  assumes "primary_keys env" and "dict_ok updates"
  shows "triple (\<lambda>d. names_ok t (gd_table d) \<and> rename_ok t i updates (mappings (gd_table d)))
    (repo_update_mapping env t i updates) (\<lambda>_ d. names_ok t (gd_table d)) (\<lambda>d. names_ok t (gd_table d))"
  unfolding repo_update_mapping_def
proof (rule triple_update_by_clause)
  fix d :: gw_db and d' :: gw_db and params :: pydict
  let ?sets = "params @ stamp env ''updated_at''"
  assume pre: "names_ok t (gd_table d) \<and> rename_ok t i updates (mappings (gd_table d))"
    and params: "params = set_params updates GROUP_VLAN_MAPPING_UPDATE_COLUMNS [] []"
    and d': "gd_table d' = (gd_table d)(''group_vlan_mappings'' :=
      map (\<lambda>r. if by_id t i r then assign ?sets r else r) (mappings (gd_table d)))"
    and ok: "ge_constraint env (gd_table d') = None"
  let ?rows = "mappings (gd_table d)"
  have keyed: "keyed ?rows" and dist: "distinct (mapping_names t ?rows)"
    using pre by (simp_all add: names_ok_def)
  have "distinct (mapping_names t (mappings (gd_table d')))"
  proof (cases "\<exists>r \<in> set ?rows. by_id t i r")
    case True
    then obtain r where r: "r \<in> set ?rows" "by_id t i r" by blast
    obtain xs ys where rows: "?rows = xs @ r # ys"
      and other: "\<forall>x \<in> set xs \<union> set ys. \<not> by_id t i x"
      using keyed_split [OF keyed r] by blast
    have new: "mappings (gd_table d') = xs @ assign ?sets r # ys"
      using rows other r(2) d' by (auto intro!: map_idI)
    have "fst ` set params \<subseteq> set GROUP_VLAN_MAPPING_UPDATE_COLUMNS"
      unfolding params by (rule set_params_allowed)
    then have "''tenant_id'' \<notin> fst ` set params"
      using mapping_no_tenant_column by (rule contra_subsetD)
    then have "''tenant_id'' \<notin> fst ` set ?sets" by (simp add: stamp_def)
    with r(2) have tenant: "py_get (assign ?sets r) ''tenant_id'' = PStr t"
      by (simp add: assign_get by_id_iff)
    have "py_get (assign ?sets r) ''group_name'' = (case dict_get updates ''group_name'' of
        None \<Rightarrow> py_get r ''group_name'' | Some v \<Rightarrow> v)"
    proof -
      have same: "py_get (assign ?sets r) ''group_name'' = py_get (assign params r) ''group_name''"
        by (simp add: assign_append stamp_def) (simp add: assign_def py_get_def)
      have "dict_get params ''group_name'' = dict_get updates ''group_name''"
        unfolding params by (simp add: set_params_plain [OF assms(2) name_column] split: option.split)
      moreover have "dict_ok params" unfolding params by (rule set_params_ok) simp
      ultimately show ?thesis by (simp only: same assign_lookup)
    qed
    moreover have "rename_ok t i updates ?rows" using pre by blast
    ultimately have "py_get (assign ?sets r) ''group_name'' = PNone \<or>
        py_get (assign ?sets r) ''group_name'' = py_get r ''group_name'' \<or>
        name_free t (py_get (assign ?sets r) ''group_name'') (Some i) ?rows"
      using r unfolding rename_ok_def Let_def py_get_def dict_get_or_def
      by (auto split: option.splits)
    from renamed_names [OF rows other r(2) keyed dist tenant this] show ?thesis
      by (simp only: new)
  next
    case False
    then have "mappings (gd_table d') = ?rows" using d' by (auto intro!: map_idI)
    with dist show ?thesis by simp
  qed
  with primary_keysD [OF assms(1) ok mapping_keyed] show "names_ok t (gd_table d')" by (simp add: names_ok_def)
qed auto

lemma update_keeps_names:
  assumes "primary_keys env" and "dict_ok updates"
  shows "triple (\<lambda>d. names_ok (ac_tenant actor) (gd_table d))
    (update_mapping env actor i updates ip)
    (\<lambda>_ d. names_ok (ac_tenant actor) (gd_table d)) (\<lambda>d. names_ok (ac_tenant actor) (gd_table d))"
    (is "triple (\<lambda>d. ?J (gd_table d)) _ _ _")
proof -
  let ?t = "ac_tenant actor"
  let ?found = "\<lambda>ex d. ?J (gd_table d) \<and> (\<exists>r \<in> set (mappings (gd_table d)). by_id ?t i r
      \<and> py_get ex ''group_name'' = py_get r ''group_name'' \<and> keyed (mappings (gd_table d)))"
  have summary: "triple (\<lambda>d. ?J (gd_table d)) (repo_lookup_mapping_summary ?t i)
      (\<lambda>res d. case res of None \<Rightarrow> ?J (gd_table d) | Some ex \<Rightarrow> ?found ex d) (\<lambda>d. ?J (gd_table d))"
    unfolding repo_lookup_mapping_summary_def
    by (rule triple_select_first) (auto simp: py_get_project names_ok_def)
  show ?thesis
    unfolding update_mapping_def
  proof (rule triple_if, rule triple_sraise, assumption, rule triple_sbind [OF summary])
    fix res :: "pydict option"
    show "triple (\<lambda>d. case res of None \<Rightarrow> ?J (gd_table d) | Some ex \<Rightarrow> ?found ex d)
       (case res of None \<Rightarrow> sraise (not_found ''Mapping'' i)
        | Some ex \<Rightarrow> sbind (rename_check ?t i (py_get updates ''group_name'') ex) (\<lambda>_.
            sbind (value_error_as (invalid ''No valid fields to update'')
                (repo_update_mapping env ?t i updates)) (\<lambda>row.
              case row of None \<Rightarrow> sraise (not_found ''Mapping'' i)
              | Some r \<Rightarrow> sbind (log_audit env actor ''update'' ''group_vlan_mapping'' (PStr i)
                   [(''changed_fields'', PDict updates), (''group_name'', py_get ex ''group_name'')] ip)
                   (\<lambda>_. sret r))))
       (\<lambda>_ d. ?J (gd_table d)) (\<lambda>d. ?J (gd_table d))"
    proof (cases res)
      case (Some ex)
      show ?thesis
        unfolding Some option.case
        by (intro triple_sbind [OF rename_check_ok] triple_sbind [OF triple_value_error [OF repo_update_keeps_names [OF assms]]]
            triple_neutral neutral_intros)
    qed (simp add: triple_sraise)
  qed
qed

lemma delete_keeps_names:
  assumes "primary_keys env"
  shows "triple (\<lambda>d. names_ok t (gd_table d)) (delete_mapping env actor i ip)
    (\<lambda>_ d. names_ok t (gd_table d)) (\<lambda>d. names_ok t (gd_table d))"
proof -
  have deleted: "triple (\<lambda>d. names_ok t (gd_table d)) (repo_delete_mapping env u i)
      (\<lambda>_ d. names_ok t (gd_table d)) (\<lambda>d. names_ok t (gd_table d))" for u
    unfolding repo_delete_mapping_def
  proof (rule triple_sbind [OF triple_delete])
    fix d :: gw_db and d' :: gw_db
    assume "names_ok t (gd_table d)" and ok: "ge_constraint env (gd_table d') = None"
      and "gd_table d' = (gd_table d)(''group_vlan_mappings'' :=
        filter (\<lambda>r. \<not> by_id u i r) (mappings (gd_table d)))"
    with primary_keysD [OF assms ok mapping_keyed] show "names_ok t (gd_table d')"
      by (simp add: names_ok_def mapping_names_filter)
  qed (auto intro: triple_sret)
  show ?thesis
    unfolding delete_mapping_def repo_lookup_mapping_summary_def
    by (intro triple_sbind [OF triple_neutral] neutral_intros triple_case_option triple_sraise
        triple_sbind [OF deleted] triple_neutral)
qed

section \<open>Property\<close>

text \<open>
  C19: A group has one mapping in a tenant. The check before an insert and the check before
  a rename keep the names of a tenant's mappings distinct: creating, updating and deleting
  mappings, whether they succeed or raise, preserve it, with no help of a constraint of the
  table beyond its primary key.
\<close>

theorem group_names_stay_unique:
  assumes "primary_keys env" and "dict_ok updates" and "names_ok (ac_tenant actor) (gd_table (gs_db s))"
  shows "names_ok (ac_tenant actor)
        (gd_table (gs_db (snd (create_mapping env actor g v p descr l e ip s))))
    \<and> names_ok (ac_tenant actor) (gd_table (gs_db (snd (update_mapping env actor i updates ip s))))
    \<and> names_ok (ac_tenant actor) (gd_table (gs_db (snd (delete_mapping env actor i ip s))))"
  using triple_snd [OF create_keeps_names [OF assms(1)] assms(3)]
    triple_snd [OF update_keeps_names [OF assms(1,2)] assms(3)]
    triple_snd [OF delete_keeps_names [OF assms(1)] assms(3)]
  by blast

definition ex_mapped :: gw_state where
  "ex_mapped = snd (create_mapping ex_gw_env ex_actor ''staff'' 10 1 PNone PNone True PNone ex_gw_state)"

theorem group_names_stay_unique_witness:
  "fst (create_mapping ex_gw_env ex_actor ''staff'' 20 1 PNone PNone True PNone ex_mapped) =
     Inl (DomainError ConflictError ''Mapping for group 'staff' already exists'') \<and>
   names_ok ''t1'' (gd_table (gs_db (snd (update_mapping ex_gw_env ex_actor ''id-0''
     [(''group_name'', PStr ''guests'')] PNone ex_mapped))))"
proof
  show "fst (create_mapping ex_gw_env ex_actor ''staff'' 20 1 PNone PNone True PNone ex_mapped) =
     Inl (DomainError ConflictError ''Mapping for group 'staff' already exists'')"
    by code_simp
  have "dict_ok [(''group_name'', PStr ''guests'')]" by (simp add: dict_ok_def)
  moreover have "names_ok (ac_tenant ex_actor) (gd_table (gs_db ex_mapped))" by code_simp
  ultimately have "names_ok (ac_tenant ex_actor) (gd_table (gs_db (snd (update_mapping ex_gw_env ex_actor
      ''id-0'' [(''group_name'', PStr ''guests'')] PNone ex_mapped))))"
    using group_names_stay_unique [OF ex_primary_keys] by blast
  then show "names_ok ''t1'' (gd_table (gs_db (snd (update_mapping ex_gw_env ex_actor ''id-0''
     [(''group_name'', PStr ''guests'')] PNone ex_mapped))))"
    by (simp add: ex_actor_def)
qed

end
