(* ===== verification/Nas_Clients.thy ===== *)
theory Nas_Clients
  imports Gateway_Store
begin

text \<open>
  The NAS clients of the gateway: repository, service and events of
  \<open>services/gateway/features/nas_clients\<close>. The shared secret of a request is encrypted before
  it reaches the table, the answers are limited to the public columns, and the audit log
  gets a mask in its place.
\<close>

section \<open>Repository\<close>

definition nas_public_columns :: "string list" where
  "nas_public_columns =
    [''id'', ''name'', ''ip_address'', ''shortname'', ''nas_type'', ''virtual_server'',
     ''enabled'', ''description'', ''tenant_id'']"

definition repo_list_nas_clients :: "gw_env \<Rightarrow> string \<Rightarrow> (gw_state, pydict list) prog" where
  "repo_list_nas_clients env tenant =
     sbind (select_ordered env ''name'' ''radius_nas_clients'' (where_eq [(''tenant_id'', PStr tenant)]))
       (\<lambda>rows. sret (map (project nas_public_columns) rows))"

definition repo_lookup_nas_client :: "string \<Rightarrow> string \<Rightarrow> (gw_state, pydict option) prog" where
  "repo_lookup_nas_client tenant nas_id =
     select_first ''radius_nas_clients'' nas_public_columns (by_id tenant nas_id)"

definition repo_lookup_nas_client_summary :: "string \<Rightarrow> string \<Rightarrow> (gw_state, pydict option) prog" where
  "repo_lookup_nas_client_summary tenant nas_id =
     select_first ''radius_nas_clients'' [''id'', ''name''] (by_id tenant nas_id)"

definition repo_insert_nas_client ::
  "gw_env \<Rightarrow> string \<Rightarrow> string \<Rightarrow> string \<Rightarrow> string \<Rightarrow> pyval \<Rightarrow> string \<Rightarrow> pyval \<Rightarrow> (gw_state, pydict) prog" where
  "repo_insert_nas_client env tenant name ip_address shared_secret shortname nas_type description =
     sbind (slift (ge_encrypt env (PStr shared_secret))) (\<lambda>ciphertext.
     sbind (insert_row env ''radius_nas_clients''
              [(''name'', PStr name), (''ip_address'', PStr ip_address),
               (''secret_encrypted'', ciphertext),
               (''shortname'', py_or shortname (PStr (take 31 name))), (''nas_type'', PStr nas_type),
               (''description'', description), (''tenant_id'', PStr tenant)])
       (\<lambda>row. sret (project nas_public_columns row)))"

text \<open>\<open>if updates.get(f) is not None: updates[f] = encrypt_secret(updates[f])\<close>.\<close>

definition encrypt_field :: "gw_env \<Rightarrow> string \<Rightarrow> pydict \<Rightarrow> pydict result" where
  "encrypt_field env field updates =
     (if py_get updates field = PNone then Inr updates
      else rbind (ge_encrypt env (py_get updates field)) (\<lambda>c. Inr (dict_set field c updates)))"

definition repo_update_nas_client ::
  "gw_env \<Rightarrow> string \<Rightarrow> string \<Rightarrow> pydict \<Rightarrow> (gw_state, pydict option) prog" where
  "repo_update_nas_client env tenant nas_id updates =
     sbind (slift (encrypt_field env ''shared_secret'' updates)) (\<lambda>encrypted.
       update_by_clause env ''radius_nas_clients'' nas_public_columns NAS_CLIENT_UPDATE_COLUMNS
         [(''shared_secret'', ''secret_encrypted'')] [] [] (by_id tenant nas_id) encrypted)"

definition repo_delete_nas_client :: "gw_env \<Rightarrow> string \<Rightarrow> string \<Rightarrow> (gw_state, unit) prog" where
  "repo_delete_nas_client env tenant nas_id =
     sbind (delete_rows env ''radius_nas_clients'' (by_id tenant nas_id)) (\<lambda>_. sret ())"

section \<open>Service\<close>

definition audit_changed_fields :: "pydict \<Rightarrow> pydict" where
  "audit_changed_fields updates =
     (let masked = filter (\<lambda>(k, v). k \<noteq> ''shared_secret'') updates
      in if ''shared_secret'' \<in> set (dict_keys updates)
         then dict_set ''shared_secret'' (PStr ''********'') masked else masked)"

definition list_nas_clients :: "gw_env \<Rightarrow> string \<Rightarrow> (gw_state, pydict list) prog" where
  "list_nas_clients = repo_list_nas_clients"

definition get_nas_client :: "string \<Rightarrow> string \<Rightarrow> (gw_state, pydict) prog" where
  "get_nas_client tenant nas_id =
     sbind (repo_lookup_nas_client tenant nas_id) (\<lambda>row.
       case row of None \<Rightarrow> sraise (not_found ''NAS client'' nas_id) | Some r \<Rightarrow> sret r)"

definition create_nas_client ::
  "gw_env \<Rightarrow> gw_actor \<Rightarrow> string \<Rightarrow> string \<Rightarrow> string \<Rightarrow> pyval \<Rightarrow> string \<Rightarrow> pyval \<Rightarrow> pyval
   \<Rightarrow> (gw_state, pydict) prog" where
  "create_nas_client env actor name ip_address shared_secret shortname nas_type description client_ip =
     sbind (repo_insert_nas_client env (ac_tenant actor) name ip_address shared_secret shortname
              nas_type description) (\<lambda>row.
     sbind (log_audit env actor ''create'' ''nas_client'' (PStr (py_str (py_get row ''id'')))
              [(''name'', PStr name), (''ip_address'', PStr ip_address)] client_ip)
       (\<lambda>_. sret row))"

definition update_nas_client ::
  "gw_env \<Rightarrow> gw_actor \<Rightarrow> string \<Rightarrow> pydict \<Rightarrow> pyval \<Rightarrow> (gw_state, pydict) prog" where
  "update_nas_client env actor nas_id updates client_ip =
     (if updates = [] then sraise (invalid ''No fields to update'')
      else
        sbind (repo_lookup_nas_client_summary (ac_tenant actor) nas_id) (\<lambda>existing.
          case existing of
            None \<Rightarrow> sraise (not_found ''NAS client'' nas_id)
          | Some ex \<Rightarrow>
              sbind (value_error_as (invalid ''No valid fields to update'')
                       (repo_update_nas_client env (ac_tenant actor) nas_id updates)) (\<lambda>row.
                case row of
                  None \<Rightarrow> sraise (not_found ''NAS client'' nas_id)
                | Some r \<Rightarrow>
                    sbind (log_audit env actor ''update'' ''nas_client'' (PStr nas_id)
                             [(''changed_fields'', PDict (audit_changed_fields updates)),
                              (''name'', py_get ex ''name'')] client_ip)
                      (\<lambda>_. sret r))))"

definition delete_nas_client ::
  "gw_env \<Rightarrow> gw_actor \<Rightarrow> string \<Rightarrow> pyval \<Rightarrow> (gw_state, unit) prog" where
  "delete_nas_client env actor nas_id client_ip =
     sbind (repo_lookup_nas_client_summary (ac_tenant actor) nas_id) (\<lambda>existing.
       case existing of
         None \<Rightarrow> sraise (not_found ''NAS client'' nas_id)
       | Some ex \<Rightarrow>
           sbind (repo_delete_nas_client env (ac_tenant actor) nas_id) (\<lambda>_.
           log_audit env actor ''delete'' ''nas_client'' (PStr nas_id)
             [(''name'', py_get ex ''name'')] client_ip))"

text \<open>\<open>actor.get("username", actor.get("sub"))\<close>.\<close>

definition triggered_by :: "gw_actor \<Rightarrow> string" where
  "triggered_by actor = (case ac_username actor of Some u \<Rightarrow> u | None \<Rightarrow> ac_sub actor)"

definition publish_nas_apply :: "gw_env \<Rightarrow> string \<Rightarrow> string \<Rightarrow> (gw_state, unit) prog" where
  "publish_nas_apply env by action =
     publish env SUBJECT_FREERADIUS_APPLY [(''triggered_by'', PStr by), (''action'', PStr action)]"

definition sync_radius :: "gw_env \<Rightarrow> gw_actor \<Rightarrow> pyval \<Rightarrow> (gw_state, pydict) prog" where
  "sync_radius env actor client_ip =
     sbind (publish_nas_apply env (triggered_by actor) ''reload_nas_clients'') (\<lambda>_.
     sbind (log_audit env actor ''sync'' ''nas_client'' PNone
              [(''action'', PStr ''freeradius_reload_triggered'')] client_ip) (\<lambda>_.
       sret [(''status'', PStr ''sync_requested''),
             (''message'', PStr ''FreeRADIUS reload has been triggered'')]))"

section \<open>Isolation of tenants\<close>

lemma nas_no_tenant_column: "''tenant_id'' \<notin> set NAS_CLIENT_UPDATE_COLUMNS"
  using protected_columns [of "''tenant_id''"] by simp

lemma nas_repo_isolates [isolation_intros]:
  "isolates tenant (repo_lookup_nas_client_summary tenant i)"
  "isolates tenant (repo_insert_nas_client env tenant n a s sh nt d)"
  "isolates tenant (repo_update_nas_client env tenant i updates)"
  "isolates tenant (repo_delete_nas_client env tenant i)"
  unfolding repo_lookup_nas_client_summary_def repo_insert_nas_client_def
    repo_update_nas_client_def repo_delete_nas_client_def
  by (intro isolation_intros; simp add: nas_no_tenant_column dict_ok_def)+

lemma nas_service_isolates [isolation_intros]:
  "isolates (ac_tenant actor) (create_nas_client env actor n a s sh nt d ip)"
  "isolates (ac_tenant actor) (update_nas_client env actor i updates ip)"
  "isolates (ac_tenant actor) (delete_nas_client env actor i ip)"
  "isolates (ac_tenant actor) (sync_radius env actor ip)"
  unfolding create_nas_client_def update_nas_client_def delete_nas_client_def sync_radius_def
    publish_nas_apply_def
  by (intro isolation_intros)+

end
