(* ===== verification/Ldap_Servers.thy ===== *)
theory Ldap_Servers
  imports Nas_Clients
begin

text \<open>
  The LDAP servers of the gateway: repository, service and events of
  \<open>services/gateway/features/ldap_servers\<close>. Every mutation asks the configuration watcher to
  apply; a server that a realm refers to is not deleted.
\<close>

section \<open>Repository\<close>

definition ldap_public_columns :: "string list" where
  "ldap_public_columns =
    [''id'', ''name'', ''description'', ''host'', ''port'', ''use_tls'', ''use_starttls'',
     ''bind_dn'', ''base_dn'', ''user_search_filter'', ''user_search_base'',
     ''group_search_filter'', ''group_search_base'', ''group_membership_attr'',
     ''username_attr'', ''display_name_attr'', ''email_attr'', ''connect_timeout_seconds'',
     ''search_timeout_seconds'', ''idle_timeout_seconds'', ''tls_ca_cert'',
     ''tls_require_cert'', ''priority'', ''enabled'', ''last_test_at'', ''last_test_result'',
     ''last_test_message'', ''tenant_id'']"

definition ldap_insert_columns :: "string list" where
  "ldap_insert_columns =
    [''name'', ''description'', ''host'', ''port'', ''use_tls'', ''use_starttls'', ''bind_dn'',
     ''base_dn'', ''user_search_filter'', ''user_search_base'', ''group_search_filter'',
     ''group_search_base'', ''group_membership_attr'', ''username_attr'',
     ''display_name_attr'', ''email_attr'', ''connect_timeout_seconds'',
     ''search_timeout_seconds'', ''idle_timeout_seconds'', ''tls_ca_cert'',
     ''tls_require_cert'', ''priority'', ''enabled'']"

definition ldap_filter :: "string \<Rightarrow> pyval \<Rightarrow> pydict \<Rightarrow> bool" where
  "ldap_filter tenant enabled =
     where_eq ([(''tenant_id'', PStr tenant)] @ if_given ''enabled'' enabled)"

definition repo_count_ldap_servers :: "string \<Rightarrow> pyval \<Rightarrow> (gw_state, int) prog" where
  "repo_count_ldap_servers tenant enabled = count_rows ''ldap_servers'' (ldap_filter tenant enabled)"

definition repo_list_ldap_servers ::
  "gw_env \<Rightarrow> string \<Rightarrow> pyval \<Rightarrow> int \<Rightarrow> int \<Rightarrow> (gw_state, pydict list) prog" where
  "repo_list_ldap_servers env tenant enabled limit offset =
     sbind (select_page env ''priority ASC, name ASC'' ''ldap_servers'' (ldap_filter tenant enabled)
              limit offset)
       (\<lambda>rows. sret (map (project ldap_public_columns) rows))"

definition repo_lookup_ldap_server :: "string \<Rightarrow> string \<Rightarrow> (gw_state, pydict option) prog" where
  "repo_lookup_ldap_server tenant server_id =
     select_first ''ldap_servers'' ldap_public_columns (by_id tenant server_id)"

definition repo_lookup_ldap_server_summary :: "string \<Rightarrow> string \<Rightarrow> (gw_state, pydict option) prog" where
  "repo_lookup_ldap_server_summary tenant server_id =
     select_first ''ldap_servers'' [''id'', ''name''] (by_id tenant server_id)"

text \<open>The only reader of the password: the whole row with the decrypted secret.\<close>

definition repo_lookup_full_for_test ::
  "gw_env \<Rightarrow> string \<Rightarrow> string \<Rightarrow> (gw_state, pydict option) prog" where
  "repo_lookup_full_for_test env tenant server_id =
     sbind (select_rows ''ldap_servers'' (by_id tenant server_id)) (\<lambda>rows.
       case first_row rows of
         None \<Rightarrow> sret None
       | Some row \<Rightarrow>
           sbind (slift (ge_decrypt env (py_get row ''bind_password_encrypted''))) (\<lambda>plain.
             sret (Some (dict_set ''bind_password_encrypted'' plain row))))"

text \<open>Counted over all tenants: the condition names the server only.\<close>

definition repo_count_realm_references :: "string \<Rightarrow> (gw_state, int) prog" where
  "repo_count_realm_references server_id =
     count_rows ''radius_realms'' (where_eq [(''ldap_server_id'', PStr server_id)])"

definition repo_insert_ldap_server :: "gw_env \<Rightarrow> string \<Rightarrow> pydict \<Rightarrow> (gw_state, pydict) prog" where
  "repo_insert_ldap_server env tenant flds =
     sbind (slift (ge_encrypt env (py_get flds ''bind_password''))) (\<lambda>ciphertext.
     sbind (insert_row env ''ldap_servers''
              (project ldap_insert_columns flds
                 @ [(''bind_password_encrypted'', ciphertext), (''tenant_id'', PStr tenant)]))
       (\<lambda>row. sret (project ldap_public_columns row)))"

definition repo_update_ldap_server ::
  "gw_env \<Rightarrow> string \<Rightarrow> string \<Rightarrow> pydict \<Rightarrow> (gw_state, pydict option) prog" where
  "repo_update_ldap_server env tenant server_id updates =
     sbind (slift (encrypt_field env ''bind_password'' updates)) (\<lambda>encrypted.
       update_by_clause env ''ldap_servers'' ldap_public_columns LDAP_SERVER_UPDATE_COLUMNS
         [(''bind_password'', ''bind_password_encrypted'')] [] (stamp env ''updated_at'')
         (by_id tenant server_id) encrypted)"

definition repo_delete_ldap_server :: "gw_env \<Rightarrow> string \<Rightarrow> string \<Rightarrow> (gw_state, unit) prog" where
  "repo_delete_ldap_server env tenant server_id =
     sbind (delete_rows env ''ldap_servers'' (by_id tenant server_id)) (\<lambda>_. sret ())"

text \<open>Not scoped to a tenant.\<close>

definition repo_update_test_result ::
  "gw_env \<Rightarrow> string \<Rightarrow> bool \<Rightarrow> string \<Rightarrow> (gw_state, unit) prog" where
  "repo_update_test_result env server_id success msg =
     sbind (update_rows env ''ldap_servers'' (where_eq [(''id'', PStr server_id)])
              (stamp env ''last_test_at'' @
               [(''last_test_result'', PStr (if success then ''success'' else ''failure'')),
                (''last_test_message'', PStr (take 1000 msg))])) (\<lambda>_. sret ())"

section \<open>Events\<close>

definition publish_ldap_apply :: "gw_env \<Rightarrow> string \<Rightarrow> pyval \<Rightarrow> (gw_state, unit) prog" where
  "publish_ldap_apply env reason server_id =
     publish env SUBJECT_FREERADIUS_APPLY
       ([(''reason'', PStr reason)] @
        (if server_id = PNone then [] else [(''ldap_server_id'', PStr (py_str server_id))]))"

section \<open>Service\<close>

definition list_ldap_servers ::
  "gw_env \<Rightarrow> string \<Rightarrow> pyval \<Rightarrow> int \<Rightarrow> int \<Rightarrow> (gw_state, pydict) prog" where
  "list_ldap_servers env tenant enabled page page_size =
     sbind (repo_count_ldap_servers tenant enabled) (\<lambda>n.
     sbind (repo_list_ldap_servers env tenant enabled page_size ((page - 1) * page_size)) (\<lambda>rows.
       sret (page_dict rows n page page_size)))"

definition get_ldap_server :: "string \<Rightarrow> string \<Rightarrow> (gw_state, pydict) prog" where
  "get_ldap_server tenant server_id =
     sbind (repo_lookup_ldap_server tenant server_id) (\<lambda>row.
       case row of None \<Rightarrow> sraise (not_found ''LDAP server'' server_id) | Some r \<Rightarrow> sret r)"

definition create_ldap_server ::
  "gw_env \<Rightarrow> gw_actor \<Rightarrow> pydict \<Rightarrow> pyval \<Rightarrow> (gw_state, pydict) prog" where
  "create_ldap_server env actor flds client_ip =
     sbind (repo_insert_ldap_server env (ac_tenant actor) flds) (\<lambda>row.
     sbind (log_audit env actor ''create'' ''ldap_server'' (PStr (py_str (py_get row ''id'')))
              (project [''name'', ''host'', ''port''] flds) client_ip) (\<lambda>_.
     sbind (publish_ldap_apply env ''ldap_server_created'' (py_get row ''id'')) (\<lambda>_.
       sret row)))"

definition update_ldap_server ::
  "gw_env \<Rightarrow> gw_actor \<Rightarrow> string \<Rightarrow> pydict \<Rightarrow> pyval \<Rightarrow> (gw_state, pydict) prog" where
  "update_ldap_server env actor server_id updates client_ip =
     (if updates = [] then sraise (invalid ''No fields to update'')
      else
        sbind (value_error_as (invalid ''No valid fields to update'')
                 (repo_update_ldap_server env (ac_tenant actor) server_id updates)) (\<lambda>row.
          case row of
            None \<Rightarrow> sraise (not_found ''LDAP server'' server_id)
          | Some r \<Rightarrow>
              sbind (log_audit env actor ''update'' ''ldap_server'' (PStr server_id)
                       [(''changed_fields'', PList (map PStr (dict_keys updates)))] client_ip) (\<lambda>_.
              sbind (publish_ldap_apply env ''ldap_server_updated'' (PStr server_id)) (\<lambda>_.
                sret r))))"

definition delete_ldap_server ::
  "gw_env \<Rightarrow> gw_actor \<Rightarrow> string \<Rightarrow> pyval \<Rightarrow> (gw_state, unit) prog" where
  "delete_ldap_server env actor server_id client_ip =
     sbind (repo_count_realm_references server_id) (\<lambda>ref_count.
       if ref_count > 0
       then sraise (DomainError ConflictError
              (''Cannot delete: LDAP server is referenced by '' @ show_int ref_count
                 @ '' RADIUS realm(s). Remove the realm references first.''))
       else
         sbind (repo_lookup_ldap_server_summary (ac_tenant actor) server_id) (\<lambda>existing.
           case existing of
             None \<Rightarrow> sraise (not_found ''LDAP server'' server_id)
           | Some ex \<Rightarrow>
               sbind (repo_delete_ldap_server env (ac_tenant actor) server_id) (\<lambda>_.
               sbind (log_audit env actor ''delete'' ''ldap_server'' (PStr server_id)
                        [(''name'', py_get ex ''name'')] client_ip) (\<lambda>_.
               publish_ldap_apply env ''ldap_server_deleted'' (PStr server_id)))))"

definition lookup_for_test :: "gw_env \<Rightarrow> string \<Rightarrow> string \<Rightarrow> (gw_state, pydict) prog" where
  "lookup_for_test env tenant server_id =
     sbind (repo_lookup_full_for_test env tenant server_id) (\<lambda>row.
       case row of None \<Rightarrow> sraise (not_found ''LDAP server'' server_id) | Some r \<Rightarrow> sret r)"

definition record_test_result ::
  "gw_env \<Rightarrow> gw_actor \<Rightarrow> string \<Rightarrow> bool \<Rightarrow> string \<Rightarrow> pydict \<Rightarrow> (gw_state, unit) prog" where
  "record_test_result env actor server_id success msg audit_details =
     sbind (repo_update_test_result env server_id success msg) (\<lambda>_.
     log_audit env actor ''test'' ''ldap_server'' (PStr server_id) audit_details PNone)"

section \<open>Isolation of tenants\<close>

lemma ldap_no_tenant_column: "''tenant_id'' \<notin> set LDAP_SERVER_UPDATE_COLUMNS"
  using protected_columns [of "''tenant_id''"] by simp

lemma ldap_insert_vals:
  "dict_ok (project ldap_insert_columns flds
     @ [(''bind_password_encrypted'', c), (''tenant_id'', PStr tenant)])"
  "dict_get (project ldap_insert_columns flds
     @ [(''bind_password_encrypted'', c), (''tenant_id'', PStr tenant)]) ''tenant_id'' = Some (PStr tenant)"
  by (simp_all add: project_def ldap_insert_columns_def dict_ok_def)

lemma ldap_repo_isolates [isolation_intros]:
  "isolates tenant (repo_lookup_ldap_server_summary tenant i)"
  "isolates tenant (repo_count_realm_references i)"
  "isolates tenant (repo_insert_ldap_server env tenant flds)"
  "isolates tenant (repo_update_ldap_server env tenant i updates)"
  "isolates tenant (repo_delete_ldap_server env tenant i)"
  unfolding repo_lookup_ldap_server_summary_def repo_count_realm_references_def
    repo_insert_ldap_server_def repo_update_ldap_server_def repo_delete_ldap_server_def
  by (intro isolation_intros ldap_insert_vals; simp add: ldap_no_tenant_column stamp_def)+

lemma ldap_service_isolates [isolation_intros]:
  "isolates (ac_tenant actor) (create_ldap_server env actor flds ip)"
  "isolates (ac_tenant actor) (update_ldap_server env actor i updates ip)"
  "isolates (ac_tenant actor) (delete_ldap_server env actor i ip)"
  unfolding create_ldap_server_def update_ldap_server_def delete_ldap_server_def
    publish_ldap_apply_def
  by (intro isolation_intros)+

end
