(* ===== verification/Radius_Realms.thy ===== *)
theory Radius_Realms
  imports Ldap_Servers
begin

text \<open>
  The RADIUS realms of the gateway: repository, service and events of
  \<open>services/gateway/features/radius_realms\<close>, with the checks on proxy realms, on the LDAP
  server and on the fallback realm a realm refers to.
\<close>

section \<open>Repository\<close>

definition realm_public_columns :: "string list" where
  "realm_public_columns =
    [''id'', ''name'', ''description'', ''realm_type'', ''strip_username'', ''proxy_host'',
     ''proxy_port'', ''proxy_nostrip'', ''proxy_retry_count'', ''proxy_retry_delay_seconds'',
     ''proxy_dead_time_seconds'', ''ldap_server_id'', ''auth_types_allowed'', ''default_vlan'',
     ''default_filter_id'', ''fallback_realm_id'', ''priority'', ''enabled'', ''tenant_id'']"

definition realm_insert_columns :: "string list" where
  "realm_insert_columns =
    [''name'', ''description'', ''realm_type'', ''strip_username'', ''proxy_host'',
     ''proxy_port'', ''proxy_nostrip'', ''proxy_retry_count'', ''proxy_retry_delay_seconds'',
     ''proxy_dead_time_seconds'', ''ldap_server_id'', ''auth_types_allowed'', ''default_vlan'',
     ''default_filter_id'', ''fallback_realm_id'', ''priority'', ''enabled'']"

definition realm_filter :: "string \<Rightarrow> pyval \<Rightarrow> pyval \<Rightarrow> pydict \<Rightarrow> bool" where
  "realm_filter tenant realm_type enabled =
     where_eq ([(''tenant_id'', PStr tenant)] @ if_truthy ''realm_type'' realm_type
       @ if_given ''enabled'' enabled)"

text \<open>The left join that adds the name of the LDAP server, of whatever tenant.\<close>

definition with_ldap_name :: "pydict list \<Rightarrow> pydict \<Rightarrow> pydict" where
  "with_ldap_name servers row =
     project realm_public_columns row @
       [(''ldap_server_name'',
         (case find (\<lambda>ls. sql_eq (py_get row ''ldap_server_id'') (py_get ls ''id'')) servers of
            None \<Rightarrow> PNone
          | Some ls \<Rightarrow> py_get ls ''name''))]"

definition all_ldap_servers :: "(gw_state, pydict list) prog" where
  "all_ldap_servers = select_rows ''ldap_servers'' (\<lambda>_. True)"

definition repo_count_realms :: "string \<Rightarrow> pyval \<Rightarrow> pyval \<Rightarrow> (gw_state, int) prog" where
  "repo_count_realms tenant realm_type enabled =
     count_rows ''radius_realms'' (realm_filter tenant realm_type enabled)"

definition repo_list_realms ::
  "gw_env \<Rightarrow> string \<Rightarrow> pyval \<Rightarrow> pyval \<Rightarrow> int \<Rightarrow> int \<Rightarrow> (gw_state, pydict list) prog" where
  "repo_list_realms env tenant realm_type enabled limit offset =
     sbind (select_page env ''r.priority ASC, r.name ASC'' ''radius_realms''
              (realm_filter tenant realm_type enabled) limit offset) (\<lambda>rows.
     sbind all_ldap_servers (\<lambda>servers. sret (map (with_ldap_name servers) rows)))"

definition repo_lookup_realm :: "string \<Rightarrow> string \<Rightarrow> (gw_state, pydict option) prog" where
  "repo_lookup_realm tenant realm_id =
     sbind (select_rows ''radius_realms'' (by_id tenant realm_id)) (\<lambda>rows.
     sbind all_ldap_servers (\<lambda>servers. sret (map_option (with_ldap_name servers) (first_row rows))))"

definition repo_lookup_proxy_state ::
  "gw_env \<Rightarrow> string \<Rightarrow> string \<Rightarrow> (gw_state, pydict option) prog" where
  "repo_lookup_proxy_state env tenant realm_id =
     sbind (select_first ''radius_realms'' [''proxy_host'', ''proxy_secret_encrypted'']
              (by_id tenant realm_id)) (\<lambda>row.
       case row of
         None \<Rightarrow> sret None
       | Some r \<Rightarrow>
           sbind (slift (ge_decrypt env (py_get r ''proxy_secret_encrypted''))) (\<lambda>plain.
             sret (Some (dict_set ''proxy_secret_encrypted'' plain r))))"

definition repo_lookup_realm_summary :: "string \<Rightarrow> string \<Rightarrow> (gw_state, pydict option) prog" where
  "repo_lookup_realm_summary tenant realm_id =
     select_first ''radius_realms'' [''id'', ''name'', ''realm_type''] (by_id tenant realm_id)"

definition repo_ldap_server_exists :: "string \<Rightarrow> pyval \<Rightarrow> (gw_state, bool) prog" where
  "repo_ldap_server_exists tenant server_id =
     sbind (select_rows ''ldap_servers''
              (where_eq [(''id'', server_id), (''tenant_id'', PStr tenant)]))
       (\<lambda>rows. sret (rows \<noteq> []))"

definition repo_realm_exists :: "string \<Rightarrow> pyval \<Rightarrow> (gw_state, bool) prog" where
  "repo_realm_exists tenant realm_id =
     sbind (select_rows ''radius_realms''
              (where_eq [(''id'', realm_id), (''tenant_id'', PStr tenant)]))
       (\<lambda>rows. sret (rows \<noteq> []))"

definition repo_count_fallback_references :: "string \<Rightarrow> string \<Rightarrow> (gw_state, int) prog" where
  "repo_count_fallback_references tenant realm_id =
     count_rows ''radius_realms''
       (where_eq [(''fallback_realm_id'', PStr realm_id), (''tenant_id'', PStr tenant)])"

definition repo_insert_realm :: "gw_env \<Rightarrow> string \<Rightarrow> pydict \<Rightarrow> (gw_state, pydict) prog" where
  "repo_insert_realm env tenant flds =
     sbind (slift (ge_encrypt env (py_get flds ''proxy_secret''))) (\<lambda>ciphertext.
     sbind (insert_row env ''radius_realms''
              (project realm_insert_columns flds
                 @ [(''proxy_secret_encrypted'', ciphertext), (''tenant_id'', PStr tenant)]))
       (\<lambda>row. sret (project realm_public_columns row)))"

definition repo_update_realm ::
  "gw_env \<Rightarrow> string \<Rightarrow> string \<Rightarrow> pydict \<Rightarrow> (gw_state, pydict option) prog" where
  "repo_update_realm env tenant realm_id updates =
     sbind (slift (encrypt_field env ''proxy_secret'' updates)) (\<lambda>encrypted.
       update_by_clause env ''radius_realms'' realm_public_columns REALM_UPDATE_COLUMNS
         [(''proxy_secret'', ''proxy_secret_encrypted'')] [] (stamp env ''updated_at'')
         (by_id tenant realm_id) encrypted)"

definition repo_delete_realm :: "gw_env \<Rightarrow> string \<Rightarrow> string \<Rightarrow> (gw_state, unit) prog" where
  "repo_delete_realm env tenant realm_id =
     sbind (delete_rows env ''radius_realms'' (by_id tenant realm_id)) (\<lambda>_. sret ())"

section \<open>Events\<close>

definition publish_realm_apply ::
  "gw_env \<Rightarrow> string \<Rightarrow> pyval \<Rightarrow> pyval \<Rightarrow> (gw_state, unit) prog" where
  "publish_realm_apply env reason realm_id realm_name =
     publish env SUBJECT_FREERADIUS_APPLY
       ([(''reason'', PStr reason)] @
        (if realm_id = PNone then [] else [(''realm_id'', PStr (py_str realm_id))]) @
        (if realm_name = PNone then [] else [(''realm_name'', realm_name)]))"

section \<open>Service\<close>

definition list_realms ::
  "gw_env \<Rightarrow> string \<Rightarrow> pyval \<Rightarrow> pyval \<Rightarrow> int \<Rightarrow> int \<Rightarrow> (gw_state, pydict) prog" where
  "list_realms env tenant realm_type enabled page page_size =
     sbind (repo_count_realms tenant realm_type enabled) (\<lambda>n.
     sbind (repo_list_realms env tenant realm_type enabled page_size ((page - 1) * page_size))
       (\<lambda>rows. sret (page_dict rows n page page_size)))"

definition get_realm :: "string \<Rightarrow> string \<Rightarrow> (gw_state, pydict) prog" where
  "get_realm tenant realm_id =
     sbind (repo_lookup_realm tenant realm_id) (\<lambda>row.
       case row of None \<Rightarrow> sraise (not_found ''RADIUS realm'' realm_id) | Some r \<Rightarrow> sret r)"

definition validate_ldap_server_ref :: "string \<Rightarrow> pyval \<Rightarrow> (gw_state, unit) prog" where
  "validate_ldap_server_ref tenant ldap_server_id =
     (if truthy ldap_server_id then
        sbind (repo_ldap_server_exists tenant ldap_server_id) (\<lambda>exists.
          if \<not> exists then sraise (invalid ''Referenced LDAP server not found'') else sret ())
      else sret ())"

definition validate_fallback_realm_ref :: "string \<Rightarrow> pyval \<Rightarrow> (gw_state, unit) prog" where
  "validate_fallback_realm_ref tenant fallback_realm_id =
     (if truthy fallback_realm_id then
        sbind (repo_realm_exists tenant fallback_realm_id) (\<lambda>exists.
          if \<not> exists then sraise (invalid ''Referenced fallback realm not found'') else sret ())
      else sret ())"

definition validate_proxy_complete :: "pyval \<Rightarrow> pyval \<Rightarrow> (gw_state, unit) prog" where
  "validate_proxy_complete host secret =
     (if \<not> truthy host then sraise (invalid ''proxy_host is required for proxy realm type'')
      else if \<not> truthy secret then sraise (invalid ''proxy_secret is required for proxy realm type'')
      else sret ())"

definition create_realm ::
  "gw_env \<Rightarrow> gw_actor \<Rightarrow> pydict \<Rightarrow> pyval \<Rightarrow> (gw_state, pydict) prog" where
  "create_realm env actor flds client_ip =
     sbind (if py_get flds ''realm_type'' = PStr ''proxy''
            then validate_proxy_complete (py_get flds ''proxy_host'') (py_get flds ''proxy_secret'')
            else sret ()) (\<lambda>_.
     sbind (validate_ldap_server_ref (ac_tenant actor) (py_get flds ''ldap_server_id'')) (\<lambda>_.
     sbind (validate_fallback_realm_ref (ac_tenant actor) (py_get flds ''fallback_realm_id'')) (\<lambda>_.
     sbind (repo_insert_realm env (ac_tenant actor) flds) (\<lambda>row.
     sbind (log_audit env actor ''create'' ''radius_realm'' (PStr (py_str (py_get row ''id'')))
              (project [''name'', ''realm_type'', ''proxy_host''] flds) client_ip) (\<lambda>_.
     sbind (publish_realm_apply env ''realm_created'' (py_get row ''id'') (py_get flds ''name'')) (\<lambda>_.
       sret row))))))"

text \<open>A switch to the proxy type, with the values of the update or of the row.\<close>

definition check_proxy_switch ::
  "gw_env \<Rightarrow> string \<Rightarrow> string \<Rightarrow> pydict \<Rightarrow> (gw_state, unit) prog" where
  "check_proxy_switch env tenant realm_id updates =
     (if py_get updates ''realm_type'' = PStr ''proxy'' then
        sbind (repo_lookup_proxy_state env tenant realm_id) (\<lambda>existing.
          case existing of
            None \<Rightarrow> sraise (not_found ''RADIUS realm'' realm_id)
          | Some ex \<Rightarrow>
              validate_proxy_complete
                (py_or (py_get updates ''proxy_host'') (py_get ex ''proxy_host''))
                (py_or (py_get updates ''proxy_secret'') (py_get ex ''proxy_secret_encrypted'')))
      else sret ())"

definition update_realm ::
  "gw_env \<Rightarrow> gw_actor \<Rightarrow> string \<Rightarrow> pydict \<Rightarrow> pyval \<Rightarrow> (gw_state, pydict) prog" where
  "update_realm env actor realm_id updates client_ip =
     (if updates = [] then sraise (invalid ''No fields to update'')
      else
        sbind (check_proxy_switch env (ac_tenant actor) realm_id updates) (\<lambda>_.
        sbind (if ''ldap_server_id'' \<in> set (dict_keys updates)
               then validate_ldap_server_ref (ac_tenant actor) (py_get updates ''ldap_server_id'')
               else sret ()) (\<lambda>_.
        sbind (value_error_as (invalid ''No valid fields to update'')
                 (repo_update_realm env (ac_tenant actor) realm_id updates)) (\<lambda>row.
          case row of
            None \<Rightarrow> sraise (not_found ''RADIUS realm'' realm_id)
          | Some r \<Rightarrow>
              sbind (log_audit env actor ''update'' ''radius_realm'' (PStr realm_id)
                       [(''changed_fields'', PList (map PStr (dict_keys updates)))] client_ip) (\<lambda>_.
              sbind (publish_realm_apply env ''realm_updated'' (PStr realm_id) PNone) (\<lambda>_.
                sret r))))))"

definition delete_realm ::
  "gw_env \<Rightarrow> gw_actor \<Rightarrow> string \<Rightarrow> pyval \<Rightarrow> (gw_state, unit) prog" where
  "delete_realm env actor realm_id client_ip =
     sbind (repo_count_fallback_references (ac_tenant actor) realm_id) (\<lambda>ref_count.
       if ref_count > 0
       then sraise (DomainError ConflictError
              (''Cannot delete: realm is referenced as fallback by '' @ show_int ref_count
                 @ '' other realm(s).''))
       else
         sbind (repo_lookup_realm_summary (ac_tenant actor) realm_id) (\<lambda>existing.
           case existing of
             None \<Rightarrow> sraise (not_found ''RADIUS realm'' realm_id)
           | Some ex \<Rightarrow>
               sbind (repo_delete_realm env (ac_tenant actor) realm_id) (\<lambda>_.
               sbind (log_audit env actor ''delete'' ''radius_realm'' (PStr realm_id)
                        [(''name'', py_get ex ''name''), (''realm_type'', py_get ex ''realm_type'')]
                        client_ip) (\<lambda>_.
               publish_realm_apply env ''realm_deleted'' (PStr realm_id) PNone))))"

section \<open>Isolation of tenants\<close>

lemma realm_no_tenant_column: "''tenant_id'' \<notin> set REALM_UPDATE_COLUMNS"
  using protected_columns [of "''tenant_id''"] by simp

lemma realm_insert_vals:
  "dict_ok (project realm_insert_columns flds
     @ [(''proxy_secret_encrypted'', c), (''tenant_id'', PStr tenant)])"
  "dict_get (project realm_insert_columns flds
     @ [(''proxy_secret_encrypted'', c), (''tenant_id'', PStr tenant)]) ''tenant_id'' = Some (PStr tenant)"
  by (simp_all add: project_def realm_insert_columns_def dict_ok_def)

lemma realm_repo_isolates [isolation_intros]:
  "isolates tenant (repo_lookup_proxy_state env t i)"
  "isolates tenant (repo_lookup_realm_summary t i)"
  "isolates tenant (repo_ldap_server_exists t v)"
  "isolates tenant (repo_realm_exists t v)"
  "isolates tenant (repo_count_fallback_references t i)"
  "isolates tenant (repo_insert_realm env tenant flds)"
  "isolates tenant (repo_update_realm env tenant i updates)"
  "isolates tenant (repo_delete_realm env tenant i)"
  unfolding repo_lookup_proxy_state_def repo_lookup_realm_summary_def repo_ldap_server_exists_def
    repo_realm_exists_def repo_count_fallback_references_def repo_insert_realm_def
    repo_update_realm_def repo_delete_realm_def
  by (intro isolation_intros realm_insert_vals; simp add: realm_no_tenant_column stamp_def)+

lemma realm_checks_isolate [isolation_intros]:
  "isolates tenant (validate_ldap_server_ref t v)"
  "isolates tenant (validate_fallback_realm_ref t v)"
  "isolates tenant (validate_proxy_complete h s)"
  "isolates tenant (check_proxy_switch env t i updates)"
  unfolding validate_ldap_server_ref_def validate_fallback_realm_ref_def
    validate_proxy_complete_def check_proxy_switch_def
  by (intro isolation_intros)+

lemma realm_service_isolates [isolation_intros]:
  "isolates (ac_tenant actor) (create_realm env actor flds ip)"
  "isolates (ac_tenant actor) (update_realm env actor i updates ip)"
  "isolates (ac_tenant actor) (delete_realm env actor i ip)"
  unfolding create_realm_def update_realm_def delete_realm_def publish_realm_apply_def
  by (intro isolation_intros)+

end
