(* ===== verification/Py_Csv.thy ===== *)
theory Py_Csv
  imports Py_Strings
begin

text \<open>
  The \<open>csv\<close> module of Python 3.11 with its default dialect, as the gateway uses it: \<open>csv.reader\<close>
  on an \<open>io.StringIO\<close>, \<open>csv.DictReader\<close>, and \<open>csv.writer\<close> with \<open>lineterminator\<close> a line feed.
  The reader takes the text line by line; \<open>Eol\<close> is the end that it adds to every line. A
  carriage return outside quotes must end the line.
\<close>

section \<open>Reading\<close>

datatype csv_state =
  Start_Record | Start_Field | In_Field | In_Quoted | Quote_In_Quoted | Eat_Crnl

datatype csv_event = Ch char | Eol

text \<open>The lines of a \<open>StringIO\<close>: a line keeps its line feed, the last may have none.\<close>

fun csv_events :: "string \<Rightarrow> csv_event list" where
  "csv_events [] = []"
| "csv_events (c # s) =
     (if c = CHR 0x0A then Ch c # Eol # csv_events s
      else if s = [] then [Ch c, Eol]
      else Ch c # csv_events s)"

text \<open>The reader: its state, the field read so far and the fields before it, both reversed.\<close>

record csv_reader =
  cr_state :: csv_state
  cr_field :: string
  cr_row :: "string list"

definition csv_start :: csv_reader where
  "csv_start = \<lparr>cr_state = Start_Record, cr_field = [], cr_row = []\<rparr>"

definition csv_to :: "csv_state \<Rightarrow> csv_reader \<Rightarrow> csv_reader" where
  "csv_to st r = r\<lparr>cr_state := st\<rparr>"

definition csv_field_limit :: nat where
  "csv_field_limit = 131072"

definition csv_error :: "string \<Rightarrow> pyerr" where
  "csv_error msg = RuntimeError (''_csv.Error: '' @ msg)"

definition csv_add :: "char \<Rightarrow> csv_reader \<Rightarrow> csv_reader result" where
  "csv_add c r =
     (if csv_field_limit \<le> length (cr_field r)
      then Inl (csv_error ''field larger than field limit (131072)'')
      else Inr (r\<lparr>cr_field := c # cr_field r\<rparr>))"

definition csv_save :: "csv_reader \<Rightarrow> csv_reader" where
  "csv_save r = r\<lparr>cr_field := [], cr_row := rev (cr_field r) # cr_row r\<rparr>"

definition is_crlf :: "char \<Rightarrow> bool" where
  "is_crlf c \<longleftrightarrow> c = CHR 0x0A \<or> c = CHR 0x0D"

text \<open>\<open>START_FIELD\<close>, also the second half of \<open>START_RECORD\<close>.\<close>

fun csv_start_field :: "csv_event \<Rightarrow> csv_reader \<Rightarrow> csv_reader result" where
  "csv_start_field Eol r = Inr (csv_to Start_Record (csv_save r))"
| "csv_start_field (Ch c) r =
     (if is_crlf c then Inr (csv_to Eat_Crnl (csv_save r))
      else if c = CHR 0x22 then Inr (csv_to In_Quoted r)
      else if c = CHR '','' then Inr (csv_to Start_Field (csv_save r))
      else rbind (csv_add c r) (\<lambda>r. Inr (csv_to In_Field r)))"

fun csv_in_field :: "csv_event \<Rightarrow> csv_reader \<Rightarrow> csv_reader result" where
  "csv_in_field Eol r = Inr (csv_to Start_Record (csv_save r))"
| "csv_in_field (Ch c) r =
     (if is_crlf c then Inr (csv_to Eat_Crnl (csv_save r))
      else if c = CHR '','' then Inr (csv_to Start_Field (csv_save r))
      else csv_add c r)"

fun csv_step :: "csv_state \<Rightarrow> csv_event \<Rightarrow> csv_reader \<Rightarrow> csv_reader result" where
  "csv_step Start_Record Eol r = Inr r"
| "csv_step Start_Record (Ch c) r =
     (if is_crlf c then Inr (csv_to Eat_Crnl r) else csv_start_field (Ch c) r)"
| "csv_step Start_Field e r = csv_start_field e r"
| "csv_step In_Field e r = csv_in_field e r"
| "csv_step In_Quoted Eol r = Inr r"
| "csv_step In_Quoted (Ch c) r =
     (if c = CHR 0x22 then Inr (csv_to Quote_In_Quoted r) else csv_add c r)"
| "csv_step Quote_In_Quoted Eol r = Inr (csv_to Start_Record (csv_save r))"
| "csv_step Quote_In_Quoted (Ch c) r =
     (if c = CHR 0x22 then rbind (csv_add c r) (\<lambda>r. Inr (csv_to In_Quoted r))
      else if c = CHR '','' then Inr (csv_to Start_Field (csv_save r))
      else if is_crlf c then Inr (csv_to Eat_Crnl (csv_save r))
      else rbind (csv_add c r) (\<lambda>r. Inr (csv_to In_Field r)))"
| "csv_step Eat_Crnl Eol r = Inr (csv_to Start_Record r)"
| "csv_step Eat_Crnl (Ch c) r =
     (if is_crlf c then Inr r
      else Inl (csv_error (''new-line character seen in unquoted field - '' @
        ''do you need to open the file in universal-newline mode?'')))"

text \<open>
  The rows in the order the reader yields them, and the error that ends them, if one does: a
  row is complete when the state is \<open>Start_Record\<close> again after the end of a line.
  At the end of the text an unfinished row is returned if it has a field or is quoted.
\<close>

fun csv_run :: "csv_event list \<Rightarrow> csv_reader \<Rightarrow> string list list \<times> pyerr option" where
  "csv_run [] r =
     (if cr_field r \<noteq> [] \<or> cr_state r = In_Quoted
      then ([rev (cr_row (csv_save r))], None) else ([], None))"
| "csv_run (e # es) r =
     (case csv_step (cr_state r) e r of
        Inl err \<Rightarrow> ([], Some err)
      | Inr r' \<Rightarrow>
          if e = Eol \<and> cr_state r' = Start_Record
          then apfst (Cons (rev (cr_row r'))) (csv_run es csv_start)
          else csv_run es r')"

definition csv_read :: "string \<Rightarrow> string list list \<times> pyerr option" where
  "csv_read s = csv_run (csv_events s) csv_start"

section \<open>Dictionaries of a file with a header\<close>

text \<open>
  \<open>csv.DictReader\<close>: the first row names the columns, empty rows are dropped, a missing
  value is \<open>None\<close>, and the values beyond the header are a list under the key \<open>None\<close>.
\<close>

datatype csv_value = Text string | Missing | Rest "string list"

definition dict_row :: "string list \<Rightarrow> string list \<Rightarrow> (string option, csv_value) dict" where
  "dict_row header row =
     (let d = fold (\<lambda>(k, v) d. dict_set (Some k) (Text v) d) (zip header row) []
      in if length header < length row
         then dict_set None (Rest (drop (length header) row)) d
         else fold (\<lambda>k d. dict_set (Some k) Missing d) (drop (length row) header) d)"

section \<open>Writing\<close>

text \<open>A field is quoted when it has a delimiter, a quote or the line terminator; a row of one
  empty field is quoted.\<close>

definition needs_quotes :: "string \<Rightarrow> bool" where
  "needs_quotes f \<longleftrightarrow> CHR '','' \<in> set f \<or> CHR 0x22 \<in> set f \<or> CHR 0x0A \<in> set f"

fun double_quotes :: "string \<Rightarrow> string" where
  "double_quotes [] = []"
| "double_quotes (c # s) = (if c = CHR 0x22 then [c, c] else [c]) @ double_quotes s"

definition quoted :: "string \<Rightarrow> string" where
  "quoted f = CHR 0x22 # double_quotes f @ [CHR 0x22]"

definition csv_field_text :: "string \<Rightarrow> string" where
  "csv_field_text f = (if needs_quotes f then quoted f else f)"

definition csv_row_text :: "string list \<Rightarrow> string" where
  "csv_row_text row =
     (if row = [[]] then quoted [] else py_join '','' (map csv_field_text row)) @ [CHR 0x0A]"

definition csv_write :: "string list list \<Rightarrow> string" where
  "csv_write rows = concat (map csv_row_text rows)"

section \<open>Reading what was written\<close>

definition char_events :: "char \<Rightarrow> csv_event list" where
  "char_events c = (if c = CHR 0x0A then [Ch c, Eol] else [Ch c])"

abbreviation text_events :: "string \<Rightarrow> csv_event list" where
  "text_events s \<equiv> concat (map char_events s)"

lemma csv_events_lines:
  "s = [] \<or> last s = CHR 0x0A \<Longrightarrow> csv_events s = text_events s"
  by (induction s rule: csv_events.induct) (auto simp: char_events_def split: if_splits)

text \<open>What a reader can take as a field: no carriage return, within the limit.\<close>

definition csv_ok :: "string \<Rightarrow> bool" where
  "csv_ok f \<longleftrightarrow> CHR 0x0D \<notin> set f \<and> length f \<le> csv_field_limit"

lemma csv_add_room:
  "length (cr_field r) < csv_field_limit \<Longrightarrow> csv_add c r = Inr (r\<lparr>cr_field := c # cr_field r\<rparr>)"
  by (simp add: csv_add_def)

lemma run_plain:
  assumes "\<not> needs_quotes f" and "CHR 0x0D \<notin> set f" and "length g + length f \<le> csv_field_limit"
  shows "csv_run (text_events f @ es) \<lparr>cr_state = In_Field, cr_field = g, cr_row = row\<rparr> =
    csv_run es \<lparr>cr_state = In_Field, cr_field = rev f @ g, cr_row = row\<rparr>"
  using assms
proof (induction f arbitrary: g)
  case (Cons c f)
  then show ?case
    by (auto simp: char_events_def needs_quotes_def is_crlf_def csv_add_room)
qed simp

lemma run_quoted:
  assumes "length g + length f \<le> csv_field_limit"
  shows "csv_run (text_events (double_quotes f) @ es)
      \<lparr>cr_state = In_Quoted, cr_field = g, cr_row = row\<rparr> =
    csv_run es \<lparr>cr_state = In_Quoted, cr_field = rev f @ g, cr_row = row\<rparr>"
  using assms
proof (induction f arbitrary: g)
  case (Cons c f)
  then show ?case by (simp add: char_events_def csv_add_room csv_to_def)
qed simp

lemma run_open_quote:
  assumes "st = Start_Record \<or> st = Start_Field" and "length f \<le> csv_field_limit"
  shows "csv_run (text_events (quoted f) @ es) \<lparr>cr_state = st, cr_field = [], cr_row = row\<rparr> =
    csv_run es \<lparr>cr_state = Quote_In_Quoted, cr_field = rev f, cr_row = row\<rparr>"
proof -
  have "csv_run (text_events (quoted f) @ es) \<lparr>cr_state = st, cr_field = [], cr_row = row\<rparr> =
    csv_run (text_events (double_quotes f) @ Ch (CHR 0x22) # es)
      \<lparr>cr_state = In_Quoted, cr_field = [], cr_row = row\<rparr>"
    using assms(1) by (auto simp: quoted_def char_events_def csv_to_def is_crlf_def)
  also have "\<dots> = csv_run (Ch (CHR 0x22) # es)
      \<lparr>cr_state = In_Quoted, cr_field = rev f, cr_row = row\<rparr>"
    using run_quoted [of "[]" f] assms(2) by simp
  also have "\<dots> = csv_run es \<lparr>cr_state = Quote_In_Quoted, cr_field = rev f, cr_row = row\<rparr>"
    by (simp add: csv_to_def)
  finally show ?thesis .
qed

lemma run_open_plain:
  assumes "st = Start_Record \<or> st = Start_Field" and "\<not> needs_quotes f" and "csv_ok f" and "f \<noteq> []"
  shows "csv_run (text_events f @ es) \<lparr>cr_state = st, cr_field = [], cr_row = row\<rparr> =
    csv_run es \<lparr>cr_state = In_Field, cr_field = rev f, cr_row = row\<rparr>"
proof -
  obtain c g where f: "f = c # g" using assms(4) by (cases f) auto
  have "csv_run (text_events f @ es) \<lparr>cr_state = st, cr_field = [], cr_row = row\<rparr> =
    csv_run (text_events g @ es) \<lparr>cr_state = In_Field, cr_field = [c], cr_row = row\<rparr>"
    using assms f
    by (auto simp: char_events_def needs_quotes_def is_crlf_def csv_to_def csv_ok_def csv_add_room
        csv_field_limit_def)
  also have "\<dots> = csv_run es \<lparr>cr_state = In_Field, cr_field = rev f, cr_row = row\<rparr>"
    using run_plain [of g "[c]"] assms f by (simp add: needs_quotes_def csv_ok_def)
  finally show ?thesis .
qed

lemma run_field_comma:
  assumes "st = Start_Record \<or> st = Start_Field" and "csv_ok f"
  shows "csv_run (text_events (csv_field_text f) @ Ch (CHR '','') # es)
      \<lparr>cr_state = st, cr_field = [], cr_row = row\<rparr> =
    csv_run es \<lparr>cr_state = Start_Field, cr_field = [], cr_row = f # row\<rparr>"
proof (cases "needs_quotes f")
  case True
  with run_open_quote [OF assms(1)] assms(2) show ?thesis
    by (simp add: csv_field_text_def csv_ok_def csv_to_def csv_save_def)
next
  case False
  show ?thesis
  proof (cases "f = []")
    case True
    with False assms(1) show ?thesis
      by (auto simp: csv_field_text_def csv_to_def csv_save_def is_crlf_def)
  next
    case f: False
    with run_open_plain [OF assms(1) False assms(2)] False show ?thesis
      by (simp add: csv_field_text_def csv_to_def csv_save_def is_crlf_def)
  qed
qed

lemma run_field_end:
  assumes "st = Start_Field \<or> st = Start_Record \<and> f \<noteq> []" and "csv_ok f"
  shows "csv_run (text_events (csv_field_text f) @ Ch (CHR 0x0A) # Eol # es)
      \<lparr>cr_state = st, cr_field = [], cr_row = row\<rparr> =
    apfst (Cons (rev (f # row))) (csv_run es csv_start)"
proof (cases "needs_quotes f")
  case True
  with run_open_quote [of st f] assms show ?thesis
    by (auto simp: csv_field_text_def csv_ok_def csv_to_def csv_save_def is_crlf_def)
next
  case False
  show ?thesis
  proof (cases "f = []")
    case True
    with False assms(1) show ?thesis
      by (auto simp: csv_field_text_def csv_to_def csv_save_def is_crlf_def)
  next
    case f: False
    with run_open_plain [OF _ False assms(2) f, of st] False assms(1) show ?thesis
      by (auto simp: csv_field_text_def csv_to_def csv_save_def is_crlf_def)
  qed
qed

lemma run_fields:
  assumes "\<forall>f \<in> set (f # fs). csv_ok f" and "st = Start_Field \<or> st = Start_Record \<and> f # fs \<noteq> [[]]"
  shows "csv_run (text_events (py_join '','' (map csv_field_text (f # fs))) @ Ch (CHR 0x0A) # Eol # es)
      \<lparr>cr_state = st, cr_field = [], cr_row = row\<rparr> =
    apfst (Cons (rev row @ f # fs)) (csv_run es csv_start)"
  using assms
proof (induction fs arbitrary: f st row)
  case Nil
  then show ?case using run_field_end [of st f] by auto
next
  case (Cons g fs)
  have "csv_run (text_events (py_join '','' (map csv_field_text (f # g # fs))) @ Ch (CHR 0x0A) # Eol # es)
      \<lparr>cr_state = st, cr_field = [], cr_row = row\<rparr> =
    csv_run (text_events (py_join '','' (map csv_field_text (g # fs))) @ Ch (CHR 0x0A) # Eol # es)
      \<lparr>cr_state = Start_Field, cr_field = [], cr_row = f # row\<rparr>"
    using run_field_comma [of st f] Cons.prems by (auto simp: char_events_def)
  also have "\<dots> = apfst (Cons (rev row @ f # g # fs)) (csv_run es csv_start)"
    using Cons.IH [of g Start_Field "f # row"] Cons.prems by simp
  finally show ?case .
qed

lemma run_row:
  assumes "\<forall>f \<in> set row. csv_ok f" and "row \<noteq> []"
  shows "csv_run (text_events (csv_row_text row) @ es) csv_start =
    apfst (Cons row) (csv_run es csv_start)"
proof (cases "row = [[]]")
  case True
  then show ?thesis
    by (simp add: csv_row_text_def quoted_def char_events_def csv_start_def csv_to_def csv_save_def
        is_crlf_def)
next
  case False
  obtain f fs where "row = f # fs" using assms(2) by (cases row) auto
  with run_fields [of f fs Start_Record es "[]"] assms(1) False show ?thesis
    by (auto simp: csv_row_text_def csv_start_def char_events_def)
qed

lemma csv_start_simps [simp]:
  "cr_state csv_start = Start_Record" "cr_field csv_start = []" "cr_row csv_start = []"
  by (simp_all add: csv_start_def)

lemma csv_read_write:
  assumes "\<forall>row \<in> set rows. row \<noteq> [] \<and> (\<forall>f \<in> set row. csv_ok f)"
  shows "csv_read (csv_write rows) = (rows, None)"
proof -
  have "csv_write rows = [] \<or> last (csv_write rows) = CHR 0x0A"
    by (induction rows) (auto simp: csv_write_def csv_row_text_def)
  then have "csv_events (csv_write rows) = text_events (csv_write rows)"
    by (rule csv_events_lines)
  moreover have "csv_run (text_events (csv_write rows)) csv_start = (rows, None)"
    using assms by (induction rows) (simp_all add: csv_write_def run_row)
  ultimately show ?thesis by (simp add: csv_read_def)
qed

text \<open>The reader is total on what it is given: it ends with rows or with an error of the module.\<close>

lemma csv_step_error:
  "csv_step st e r = Inl err \<Longrightarrow> \<exists>msg. err = csv_error msg"
  by (cases st; cases e) (auto simp: csv_add_def rbind_def split: if_splits sum.splits)

lemma csv_read_error:
  "snd (csv_read s) = Some err \<Longrightarrow> \<exists>msg. err = csv_error msg"
proof -
  have "snd (csv_run es r) = Some err \<Longrightarrow> \<exists>msg. err = csv_error msg" for es r
    by (induction es arbitrary: r) (auto split: if_splits sum.splits dest!: csv_step_error)
  then show "snd (csv_read s) = Some err \<Longrightarrow> \<exists>msg. err = csv_error msg" by (simp add: csv_read_def)
qed

end
