(* ===== verification/Mab_Devices.thy ===== *)
theory Mab_Devices
  imports Vlans Py_Csv
begin

text \<open>
  The MAB whitelist of the gateway: repository and service of
  \<open>services/gateway/features/mab_devices\<close> and the models of
  \<open>shared/orw_common/models/mab_device.py\<close>, with the bulk import and the CSV import and export.
  Dates are numbers of seconds; what the validation of a model does with numerals and dates,
  and the text of its errors, are parameters.
\<close>

section \<open>MAC addresses\<close>

text \<open>\<open>re.sub("[^0-9a-fA-F]", "", raw)\<close>, and the pairs of its digits joined by colons.\<close>

definition hex_only :: "string \<Rightarrow> string" where
  "hex_only raw = filter is_hex_char raw"

definition colon_pairs :: "string \<Rightarrow> string" where
  "colon_pairs raw = py_join '':'' (map (\<lambda>i. py_lower (take 2 (drop i raw))) [0, 2, 4, 6, 8, 10])"

definition normalize_hex :: "pyerr \<Rightarrow> string \<Rightarrow> string result" where
  "normalize_hex err raw =
     (let digits = hex_only raw
      in if length digits = 12 then Inr (colon_pairs digits) else Inl err)"

definition service_normalize_mac :: "string \<Rightarrow> string result" where
  "service_normalize_mac raw = normalize_hex (invalid ''Invalid MAC address'') raw"

definition create_normalize_mac :: "string \<Rightarrow> string result" where
  "create_normalize_mac v = normalize_hex (ValueError ''MAC address must be 12 hex characters'') v"

definition bulk_normalize_mac :: "string \<Rightarrow> string result" where
  "bulk_normalize_mac v = normalize_hex (ValueError (''Invalid MAC: '' @ v)) v"

section \<open>Repository\<close>

definition mab_full_columns :: "string list" where
  "mab_full_columns =
     [''id'', ''mac_address'', ''name'', ''description'', ''device_type'', ''assigned_vlan_id'',
      ''enabled'', ''expiry_date'', ''created_at'', ''updated_at'']"

definition mab_filter :: "string \<Rightarrow> pyval \<Rightarrow> pyval \<Rightarrow> pydict \<Rightarrow> bool" where
  "mab_filter tenant enabled device_type =
     where_eq ([(''tenant_id'', PStr tenant)] @ if_given ''enabled'' enabled
       @ if_truthy ''device_type'' device_type)"

definition repo_count_mab_devices :: "string \<Rightarrow> pyval \<Rightarrow> pyval \<Rightarrow> (gw_state, int) prog" where
  "repo_count_mab_devices tenant enabled device_type =
     count_rows ''mab_devices'' (mab_filter tenant enabled device_type)"

definition repo_list_mab_devices ::
  "gw_env \<Rightarrow> string \<Rightarrow> pyval \<Rightarrow> pyval \<Rightarrow> int \<Rightarrow> int \<Rightarrow> (gw_state, pydict list) prog" where
  "repo_list_mab_devices env tenant enabled device_type limit offset =
     sbind (select_page env ''name, mac_address'' ''mab_devices''
              (mab_filter tenant enabled device_type) limit offset)
       (\<lambda>rows. sret (map (project mab_full_columns) rows))"

definition repo_lookup_mab_device :: "string \<Rightarrow> string \<Rightarrow> (gw_state, pydict option) prog" where
  "repo_lookup_mab_device tenant device_id =
     select_first ''mab_devices'' mab_full_columns (by_id tenant device_id)"

definition repo_lookup_mab_device_summary ::
  "string \<Rightarrow> string \<Rightarrow> (gw_state, pydict option) prog" where
  "repo_lookup_mab_device_summary tenant device_id =
     select_first ''mab_devices'' [''id'', ''mac_address'', ''name''] (by_id tenant device_id)"

text \<open>The condition of the lookup for FreeRADIUS, which has no tenant.\<close>

definition not_expired :: "gw_env \<Rightarrow> pyval \<Rightarrow> bool" where
  "not_expired env v =
     (case v of PNone \<Rightarrow> True | PInt t \<Rightarrow> ge_now env < t | _ \<Rightarrow> False)"

definition mab_active :: "gw_env \<Rightarrow> string \<Rightarrow> pydict \<Rightarrow> bool" where
  "mab_active env mac row \<longleftrightarrow>
     where_eq [(''mac_address'', PStr mac), (''enabled'', PBool True)] row
     \<and> not_expired env (py_get row ''expiry_date'')"

definition repo_radius_lookup_mac :: "gw_env \<Rightarrow> string \<Rightarrow> (gw_state, pydict option) prog" where
  "repo_radius_lookup_mac env normalized_mac =
     sbind (sql_macaddr env normalized_mac) (\<lambda>mac.
       select_first ''mab_devices''
         [''id'', ''mac_address'', ''name'', ''device_type'', ''assigned_vlan_id'', ''enabled'']
         (mab_active env mac))"

definition repo_insert_mab_device ::
  "gw_env \<Rightarrow> string \<Rightarrow> string \<Rightarrow> string \<Rightarrow> pyval \<Rightarrow> pyval \<Rightarrow> pyval \<Rightarrow> pyval \<Rightarrow> bool \<Rightarrow> pyval
   \<Rightarrow> (gw_state, pydict) prog" where
  "repo_insert_mab_device env tenant created_by mac_address name description device_type
     assigned_vlan_id enabled expiry_date =
     sbind (sql_macaddr env mac_address) (\<lambda>mac.
     sbind (insert_row env ''mab_devices''
              [(''mac_address'', PStr mac), (''name'', name), (''description'', description),
               (''device_type'', device_type), (''assigned_vlan_id'', assigned_vlan_id),
               (''enabled'', PBool enabled), (''expiry_date'', expiry_date),
               (''tenant_id'', PStr tenant), (''created_by'', PStr created_by)])
       (\<lambda>row. sret (project mab_full_columns row)))"

definition repo_update_mab_device ::
  "gw_env \<Rightarrow> string \<Rightarrow> string \<Rightarrow> pydict \<Rightarrow> (gw_state, pydict option) prog" where
  "repo_update_mab_device env tenant device_id updates =
     update_by_clause env ''mab_devices'' mab_full_columns MAB_DEVICE_UPDATE_COLUMNS [] []
       (stamp env ''updated_at'') (by_id tenant device_id) updates"

definition repo_delete_mab_device :: "gw_env \<Rightarrow> string \<Rightarrow> string \<Rightarrow> (gw_state, unit) prog" where
  "repo_delete_mab_device env tenant device_id =
     sbind (delete_rows env ''mab_devices'' (by_id tenant device_id)) (\<lambda>_. sret ())"

definition mab_csv_columns :: "string list" where
  "mab_csv_columns =
     [''mac_address'', ''name'', ''description'', ''device_type'', ''assigned_vlan_id'',
      ''expiry_date'']"

definition repo_list_mab_devices_for_export ::
  "gw_env \<Rightarrow> string \<Rightarrow> (gw_state, pydict list) prog" where
  "repo_list_mab_devices_for_export env tenant =
     sbind (select_ordered env ''mac_address'' ''mab_devices''
              (where_eq [(''tenant_id'', PStr tenant)]))
       (\<lambda>rows. sret (map (project mab_csv_columns) rows))"

text \<open>A validated item of a bulk import.\<close>

record mab_item =
  mi_mac_address :: string
  mi_name :: pyval
  mi_description :: pyval
  mi_device_type :: pyval
  mi_assigned_vlan_id :: pyval
  mi_expiry_date :: pyval

definition mab_bulk_vals :: "string \<Rightarrow> string \<Rightarrow> string \<Rightarrow> mab_item \<Rightarrow> pydict" where
  "mab_bulk_vals tenant created_by mac item =
     [(''mac_address'', PStr mac), (''name'', mi_name item), (''description'', mi_description item),
      (''device_type'', mi_device_type item), (''assigned_vlan_id'', mi_assigned_vlan_id item),
      (''expiry_date'', mi_expiry_date item), (''enabled'', PBool True),
      (''tenant_id'', PStr tenant), (''created_by'', PStr created_by)]"

definition repo_bulk_insert_mab_device ::
  "gw_env \<Rightarrow> string \<Rightarrow> string \<Rightarrow> mab_item \<Rightarrow> (gw_state, bool) prog" where
  "repo_bulk_insert_mab_device env tenant created_by item =
     sbind (sql_macaddr env (mi_mac_address item)) (\<lambda>mac.
     sbind (insert_unless_conflict env ''mab_devices'' [''mac_address'', ''tenant_id'']
              (mab_bulk_vals tenant created_by mac item))
       (\<lambda>row. sret (row \<noteq> None)))"

section \<open>Service\<close>

text \<open>\<open>str(item["mac_address"])\<close> unless it is \<open>None\<close>.\<close>

definition stringify_mac :: "pydict \<Rightarrow> pydict" where
  "stringify_mac row =
     (if py_get row ''mac_address'' \<noteq> PNone
      then dict_set ''mac_address'' (PStr (py_str (py_get row ''mac_address''))) row else row)"

definition list_mab_devices ::
  "gw_env \<Rightarrow> string \<Rightarrow> pyval \<Rightarrow> pyval \<Rightarrow> int \<Rightarrow> int \<Rightarrow> (gw_state, pydict) prog" where
  "list_mab_devices env tenant enabled device_type page page_size =
     sbind (repo_count_mab_devices tenant enabled device_type) (\<lambda>n.
     sbind (repo_list_mab_devices env tenant enabled device_type page_size ((page - 1) * page_size))
       (\<lambda>rows. sret (page_dict (map stringify_mac rows) n page page_size)))"

definition get_mab_device :: "string \<Rightarrow> string \<Rightarrow> (gw_state, pydict) prog" where
  "get_mab_device tenant device_id =
     sbind (repo_lookup_mab_device tenant device_id) (\<lambda>row.
       case row of
         None \<Rightarrow> sraise (not_found ''MAB device'' device_id)
       | Some r \<Rightarrow> sret (stringify_mac r))"

definition check_mac_for_radius :: "gw_env \<Rightarrow> string \<Rightarrow> (gw_state, pydict) prog" where
  "check_mac_for_radius env raw_mac =
     sbind (slift (service_normalize_mac raw_mac)) (\<lambda>normalized.
     sbind (repo_radius_lookup_mac env normalized) (\<lambda>row.
       case row of
         None \<Rightarrow> sraise (not_found ''MAC'' normalized)
       | Some r \<Rightarrow> sret (stringify_mac r)))"

definition create_mab_device ::
  "gw_env \<Rightarrow> gw_actor \<Rightarrow> string \<Rightarrow> pyval \<Rightarrow> pyval \<Rightarrow> pyval \<Rightarrow> pyval \<Rightarrow> bool \<Rightarrow> pyval \<Rightarrow> pyval
   \<Rightarrow> (gw_state, pydict) prog" where
  "create_mab_device env actor mac_address name description device_type assigned_vlan_id enabled
     expiry_date client_ip =
     sbind (repo_insert_mab_device env (ac_tenant actor) (ac_sub actor) mac_address name description
              device_type assigned_vlan_id enabled expiry_date) (\<lambda>row.
     sbind (log_audit env actor ''create'' ''mab_device'' (PStr (py_str (py_get row ''id'')))
              [(''mac_address'', PStr mac_address), (''name'', name)] client_ip)
       (\<lambda>_. sret (stringify_mac row)))"

definition update_mab_device ::
  "gw_env \<Rightarrow> gw_actor \<Rightarrow> string \<Rightarrow> pydict \<Rightarrow> pyval \<Rightarrow> (gw_state, pydict) prog" where
  "update_mab_device env actor device_id updates client_ip =
     (if updates = [] then sraise (invalid ''No fields to update'')
      else
        sbind (repo_lookup_mab_device_summary (ac_tenant actor) device_id) (\<lambda>existing.
          case existing of
            None \<Rightarrow> sraise (not_found ''MAB device'' device_id)
          | Some ex \<Rightarrow>
              sbind (value_error_as (invalid ''No valid fields to update'')
                       (repo_update_mab_device env (ac_tenant actor) device_id updates)) (\<lambda>row.
                case row of
                  None \<Rightarrow> sraise (not_found ''MAB device'' device_id)
                | Some r \<Rightarrow>
                    sbind (log_audit env actor ''update'' ''mab_device'' (PStr device_id)
                             [(''changed_fields'', PDict updates),
                              (''mac'', PStr (py_str (py_get ex ''mac_address'')))] client_ip)
                      (\<lambda>_. sret (stringify_mac r)))))"

definition delete_mab_device ::
  "gw_env \<Rightarrow> gw_actor \<Rightarrow> string \<Rightarrow> pyval \<Rightarrow> (gw_state, unit) prog" where
  "delete_mab_device env actor device_id client_ip =
     sbind (repo_lookup_mab_device_summary (ac_tenant actor) device_id) (\<lambda>existing.
       case existing of
         None \<Rightarrow> sraise (not_found ''MAB device'' device_id)
       | Some ex \<Rightarrow>
           sbind (repo_delete_mab_device env (ac_tenant actor) device_id) (\<lambda>_.
           log_audit env actor ''delete'' ''mab_device'' (PStr device_id)
             [(''mac'', PStr (py_str (py_get ex ''mac_address''))), (''name'', py_get ex ''name'')]
             client_ip))"

definition count_summary :: "int \<Rightarrow> int \<Rightarrow> int \<Rightarrow> pydict" where
  "count_summary created skipped n =
     [(''created'', PInt created), (''skipped'', PInt skipped), (''total'', PInt n)]"

text \<open>The loop keeps the two counters.\<close>

fun bulk_loop ::
  "gw_env \<Rightarrow> gw_actor \<Rightarrow> mab_item list \<Rightarrow> int \<Rightarrow> int \<Rightarrow> (gw_state, int \<times> int) prog" where
  "bulk_loop env actor [] created skipped = sret (created, skipped)"
| "bulk_loop env actor (dev # devs) created skipped =
     sbind (repo_bulk_insert_mab_device env (ac_tenant actor) (ac_sub actor) dev) (\<lambda>inserted.
       if inserted then bulk_loop env actor devs (created + 1) skipped
       else bulk_loop env actor devs created (skipped + 1))"

definition bulk_import ::
  "gw_env \<Rightarrow> gw_actor \<Rightarrow> mab_item list \<Rightarrow> pyval \<Rightarrow> (gw_state, pydict) prog" where
  "bulk_import env actor devices client_ip =
     sbind (bulk_loop env actor devices 0 0) (\<lambda>(created, skipped).
     sbind (log_audit env actor ''bulk_import'' ''mab_device'' PNone
              [(''total'', PInt (int (length devices))), (''created'', PInt created),
               (''skipped'', PInt skipped)] client_ip)
       (\<lambda>_. sret (count_summary created skipped (int (length devices)))))"

section \<open>CSV import and export\<close>

definition CSV_KNOWN_HEADERS :: "string list" where
  "CSV_KNOWN_HEADERS =
     [''mac_address'', ''name'', ''description'', ''device_type'', ''assigned_vlan_id'',
      ''expiry_date'']"

text \<open>What the libraries do with the texts of a row: the integers and dates a model accepts,
  the message of a validation error, and \<open>isoformat\<close>.\<close>

record csv_env =
  ce_int :: "string \<Rightarrow> int option"
  ce_datetime :: "string \<Rightarrow> int option"
  ce_error :: "(string, string) dict \<Rightarrow> string"
  ce_isoformat :: "int \<Rightarrow> string"

text \<open>An optional field of the model: absent, accepted, or refused.\<close>

definition opt_text :: "(string, string) dict \<Rightarrow> string \<Rightarrow> pyval" where
  "opt_text row k = (case dict_get row k of None \<Rightarrow> PNone | Some v \<Rightarrow> PStr v)"

definition opt_number ::
  "(string \<Rightarrow> int option) \<Rightarrow> (int \<Rightarrow> bool) \<Rightarrow> (string, string) dict \<Rightarrow> string \<Rightarrow> pyval option" where
  "opt_number parse ok row k =
     (case dict_get row k of
        None \<Rightarrow> Some PNone
      | Some v \<Rightarrow> (case parse v of None \<Rightarrow> None | Some i \<Rightarrow> if ok i then Some (PInt i) else None))"

definition vlan_bounds :: "int \<Rightarrow> bool" where
  "vlan_bounds v \<longleftrightarrow> 1 \<le> v \<and> v \<le> 4094"

text \<open>\<open>MabDeviceBulkItem(**clean)\<close>.\<close>

definition bulk_item :: "csv_env \<Rightarrow> (string, string) dict \<Rightarrow> mab_item result" where
  "bulk_item ce row =
     (case (map_option bulk_normalize_mac (dict_get row ''mac_address''),
            opt_number (ce_int ce) vlan_bounds row ''assigned_vlan_id'',
            opt_number (ce_datetime ce) (\<lambda>_. True) row ''expiry_date'') of
        (Some (Inr mac), Some vlan, Some expiry) \<Rightarrow>
          Inr \<lparr>mi_mac_address = mac, mi_name = opt_text row ''name'',
               mi_description = opt_text row ''description'',
               mi_device_type = opt_text row ''device_type'',
               mi_assigned_vlan_id = vlan, mi_expiry_date = expiry\<rparr>
      | _ \<Rightarrow> Inl (ValueError (ce_error ce row)))"

record csv_row_error =
  re_row :: int
  re_raw :: string
  re_error :: string

definition value_text :: "csv_value \<Rightarrow> string result" where
  "value_text v =
     (case v of
        Text s \<Rightarrow> Inr (py_strip s)
      | Missing \<Rightarrow> Inr []
      | Rest vs \<Rightarrow> Inl (AttributeError ''list has no attribute strip''))"

text \<open>The row with its keys lowered and its values stripped.\<close>

fun clean_row ::
  "(string option \<times> csv_value) list \<Rightarrow> (string, string) dict \<Rightarrow> (string, string) dict result" where
  "clean_row [] d = Inr d"
| "clean_row ((k, v) # row) d =
     rbind (value_text v) (\<lambda>s.
       clean_row row (dict_set (py_lower (py_strip (case k of None \<Rightarrow> [] | Some h \<Rightarrow> h))) s d))"

definition raw_text :: "csv_value \<Rightarrow> string" where
  "raw_text v =
     (case v of
        Text s \<Rightarrow> s
      | Missing \<Rightarrow> ''None''
      | Rest vs \<Rightarrow> py_str (PList (map PStr vs)))"

fun parse_rows ::
  "csv_env \<Rightarrow> string list \<Rightarrow> int \<Rightarrow> string list list \<Rightarrow> pyerr option
   \<Rightarrow> (mab_item list \<times> csv_row_error list) result" where
  "parse_rows ce header idx [] err = (case err of None \<Rightarrow> Inr ([], []) | Some e \<Rightarrow> Inl e)"
| "parse_rows ce header idx (cells # rows) err =
     (if cells = [] then parse_rows ce header idx rows err
      else
        let raw_row = dict_row header cells
        in rbind (clean_row raw_row []) (\<lambda>row.
           if list_all (\<lambda>(k, v). v = []) row then parse_rows ce header (idx + 1) rows err
           else
             let clean = filter (\<lambda>(k, v). k \<in> set CSV_KNOWN_HEADERS \<and> v \<noteq> []) row
             in rbind (parse_rows ce header (idx + 1) rows err) (\<lambda>(items, errors).
                case bulk_item ce clean of
                  Inr item \<Rightarrow> Inr (item # items, errors)
                | Inl e \<Rightarrow> Inr (items,
                    \<lparr>re_row = idx, re_raw = py_join '','' (map (raw_text \<circ> snd) raw_row),
                     re_error = ce_error ce clean\<rparr> # errors))))"

definition header_error :: "string \<Rightarrow> string \<Rightarrow> (mab_item list \<times> csv_row_error list) result" where
  "header_error raw msg = Inr ([], [\<lparr>re_row = 0, re_raw = raw, re_error = msg\<rparr>])"

definition parse_csv_to_bulk_items ::
  "csv_env \<Rightarrow> string \<Rightarrow> (mab_item list \<times> csv_row_error list) result" where
  "parse_csv_to_bulk_items ce csv_text =
     (case csv_read csv_text of
        ([], Some e) \<Rightarrow> Inl e
      | ([], None) \<Rightarrow> header_error [] ''CSV has no header row''
      | (header # rows, err) \<Rightarrow>
          if ''mac_address'' \<notin> set (map (\<lambda>h. py_lower (py_strip h)) header)
          then header_error (py_join '','' header)
                 (''missing required column(s): '' @ py_str (PList [PStr ''mac_address'']))
          else parse_rows ce header 2 rows err)"

definition import_csv ::
  "gw_env \<Rightarrow> csv_env \<Rightarrow> gw_actor \<Rightarrow> string \<Rightarrow> pyval
   \<Rightarrow> (gw_state, pydict \<times> csv_row_error list) prog" where
  "import_csv env ce actor csv_text client_ip =
     sbind (slift (parse_csv_to_bulk_items ce csv_text)) (\<lambda>(items, errors).
     sbind (if items \<noteq> [] then bulk_import env actor items client_ip
            else sret (count_summary 0 0 0)) (\<lambda>summary.
       sret (summary, errors)))"

definition csv_cells :: "csv_env \<Rightarrow> pydict \<Rightarrow> string list" where
  "csv_cells ce r =
     [py_str (py_get r ''mac_address''),
      py_str (py_or (py_get r ''name'') (PStr [])),
      py_str (py_or (py_get r ''description'') (PStr [])),
      py_str (py_or (py_get r ''device_type'') (PStr [])),
      (if py_get r ''assigned_vlan_id'' \<noteq> PNone then py_str (py_get r ''assigned_vlan_id'') else []),
      (case py_get r ''expiry_date'' of PInt t \<Rightarrow> ce_isoformat ce t | _ \<Rightarrow> [])]"

definition export_csv :: "gw_env \<Rightarrow> csv_env \<Rightarrow> string \<Rightarrow> (gw_state, string) prog" where
  "export_csv env ce tenant =
     sbind (repo_list_mab_devices_for_export env tenant) (\<lambda>rows.
       sret (csv_write (mab_csv_columns # map (csv_cells ce) rows)))"

section \<open>Lemmas on addresses\<close>

lemma twelve:
  assumes "length d = 12"
  obtains a1 a2 b1 b2 c1 c2 d1 d2 e1 e2 f1 f2
  where "d = [a1, a2, b1, b2, c1, c2, d1, d2, e1, e2, f1, f2]"
proof -
  have "length d = Suc (Suc (Suc (Suc (Suc (Suc (Suc (Suc (Suc (Suc (Suc (Suc 0)))))))))))"
    using assms by simp
  then show thesis by (auto simp only: length_Suc_conv length_0_conv intro: that)
qed

lemma colon_pairs_hex:
  assumes "length d = 12" and "\<forall>c \<in> set d. is_hex_char c"
  shows "hex_only (colon_pairs d) = map lower_char d"
proof -
  have colon: "\<not> is_hex_char CHR '':''" by (simp add: is_hex_char_def is_digit_char_def)
  from assms(1) show ?thesis
  proof (rule twelve)
    fix a1 a2 b1 b2 c1 c2 d1 d2 e1 e2 f1 f2
    assume d: "d = [a1, a2, b1, b2, c1, c2, d1, d2, e1, e2, f1, f2]"
    with assms(2) colon show ?thesis by (simp add: hex_only_def colon_pairs_def py_lower_def)
  qed
qed

lemma colon_pairs_lower: "colon_pairs (map lower_char d) = colon_pairs d"
  by (simp add: colon_pairs_def py_lower_def take_map drop_map)

lemma normalize_hex_Inr:
  "normalize_hex err raw = Inr m \<longleftrightarrow> length (hex_only raw) = 12 \<and> m = colon_pairs (hex_only raw)"
  by (auto simp: normalize_hex_def Let_def)

lemma normalize_hex_idem:
  assumes "normalize_hex err raw = Inr m"
  shows "normalize_hex err' m = Inr m"
proof -
  let ?d = "hex_only raw"
  from assms have d: "length ?d = 12" and m: "m = colon_pairs ?d" by (simp_all add: normalize_hex_Inr)
  have "\<forall>c \<in> set ?d. is_hex_char c" by (simp add: hex_only_def)
  from colon_pairs_hex [OF d this] m d show ?thesis
    by (simp add: normalize_hex_Inr colon_pairs_lower)
qed

lemma hex_not_space: "is_hex_char c \<Longrightarrow> \<not> is_space_char c"
  by (auto simp: is_hex_char_def is_digit_char_def is_space_char_def)

lemma set_py_join: "set (py_join sep xs) \<subseteq> set sep \<union> (\<Union>x \<in> set xs. set x)"
  by (induction sep xs rule: py_join.induct) auto

text \<open>What a normalised address is: not empty, hexadecimal digits and colons only.\<close>

lemma normalized_chars:
  assumes "normalize_hex err raw = Inr m"
  shows "m \<noteq> []" and "\<forall>c \<in> set m. is_hex_char c \<or> c = CHR '':''" and "length m \<le> 17"
proof -
  let ?d = "hex_only raw"
  from assms have len: "length ?d = 12" and m: "m = colon_pairs ?d"
    by (simp_all add: normalize_hex_Inr)
  have hex: "\<forall>c \<in> set ?d. is_hex_char c" by (simp add: hex_only_def)
  obtain a1 a2 b1 b2 c1 c2 d1 d2 e1 e2 f1 f2 where d:
    "?d = [a1, a2, b1, b2, c1, c2, d1, d2, e1, e2, f1, f2]" using twelve [OF len] by metis
  show "m \<noteq> []" and "\<forall>c \<in> set m. is_hex_char c \<or> c = CHR '':''" and "length m \<le> 17"
    using hex unfolding m d by (simp_all add: colon_pairs_def py_lower_def)
qed

lemma normalized_strip:
  assumes "normalize_hex err raw = Inr m"
  shows "py_strip m = m"
proof -
  have "\<not> is_space_char CHR '':''" by (simp add: is_space_char_def)
  then have "\<forall>c \<in> set m. \<not> is_space_char c"
    using normalized_chars(2) [OF assms] hex_not_space by metis
  then show ?thesis
    using normalized_chars(1) [OF assms] by (intro py_strip_none) simp_all
qed

section \<open>Isolation of tenants\<close>

lemma mab_no_tenant_column: "''tenant_id'' \<notin> set MAB_DEVICE_UPDATE_COLUMNS"
  using protected_columns [of "''tenant_id''"] by simp

lemma mab_bulk_vals_ok:
  "dict_ok (mab_bulk_vals tenant u m item)"
  "dict_get (mab_bulk_vals tenant u m item) ''tenant_id'' = Some (PStr tenant)"
  "dict_get (mab_bulk_vals tenant u m item) ''mac_address'' = Some (PStr m)"
  by (simp_all add: mab_bulk_vals_def dict_ok_def)

lemma mab_repo_isolates [isolation_intros]:
  "isolates tenant (repo_lookup_mab_device_summary t i)"
  "isolates tenant (repo_insert_mab_device env tenant u m n d dt v e x)"
  "isolates tenant (repo_update_mab_device env tenant i updates)"
  "isolates tenant (repo_delete_mab_device env tenant i)"
  "isolates tenant (repo_bulk_insert_mab_device env tenant u item)"
  unfolding repo_lookup_mab_device_summary_def repo_insert_mab_device_def
    repo_update_mab_device_def repo_delete_mab_device_def repo_bulk_insert_mab_device_def
  by (intro isolation_intros mab_bulk_vals_ok;
      simp add: mab_no_tenant_column stamp_def dict_ok_def)+

lemma bulk_loop_isolates [isolation_intros]:
  "isolates (ac_tenant actor) (bulk_loop env actor devs c k)"
  by (induction devs arbitrary: c k) (auto intro!: isolation_intros)

lemma bulk_import_isolates [isolation_intros]:
  "isolates (ac_tenant actor) (bulk_import env actor devs ip)"
  unfolding bulk_import_def by (intro isolation_intros)

lemma mab_service_isolates [isolation_intros]:
  "isolates (ac_tenant actor) (create_mab_device env actor m n d dt v e x ip)"
  "isolates (ac_tenant actor) (update_mab_device env actor i updates ip)"
  "isolates (ac_tenant actor) (delete_mab_device env actor i ip)"
  "isolates (ac_tenant actor) (import_csv env ce actor text ip)"
  unfolding create_mab_device_def update_mab_device_def delete_mab_device_def import_csv_def
  by (intro isolation_intros)+

section \<open>The bulk import\<close>

abbreviation mab_table :: "gw_state \<Rightarrow> pydict list" where
  "mab_table s \<equiv> gd_table (gs_db s) ''mab_devices''"

definition mab_listed_as :: "string \<Rightarrow> string \<Rightarrow> pydict \<Rightarrow> bool" where
  "mab_listed_as tenant m row \<longleftrightarrow>
     py_get row ''mac_address'' = PStr m \<and> py_get row ''tenant_id'' = PStr tenant"

lemma same_keys_listed:
  "mab_listed_as tenant m row \<Longrightarrow>
   same_keys [''mac_address'', ''tenant_id''] row r \<longleftrightarrow> mab_listed_as tenant m r"
  by (auto simp: same_keys_def mab_listed_as_def sql_eq_def)

lemma bulk_vals_listed: "mab_listed_as tenant m (assign (mab_bulk_vals tenant u m item) row)"
  using assign_last [OF mab_bulk_vals_ok(1) mab_bulk_vals_ok(2)]
    assign_last [OF mab_bulk_vals_ok(1) mab_bulk_vals_ok(3)]
  by (simp add: mab_listed_as_def)

lemma sql_macaddr_Inr:
  "sql_macaddr env mac s = (Inr m, s') \<longleftrightarrow> \<not> gs_aborted s \<and> ge_macaddr env mac = Some m \<and> s' = s"
  by (auto simp: sql_macaddr_def statement_def split: option.splits)

lemma bulk_insert_step:
  assumes "repo_bulk_insert_mab_device env tenant u item s = (Inr inserted, s')"
  obtains m where "ge_macaddr env (mi_mac_address item) = Some m" "\<not> inserted"
      "mab_table s' = mab_table s" "\<exists>r \<in> set (mab_table s). mab_listed_as tenant m r"
  | m row where "ge_macaddr env (mi_mac_address item) = Some m" "inserted"
      "mab_table s' = mab_table s @ [row]" "mab_listed_as tenant m row"
      "\<forall>r \<in> set (mab_table s). \<not> mab_listed_as tenant m r"
proof -
  from assms obtain m where m: "ge_macaddr env (mi_mac_address item) = Some m" and live: "\<not> gs_aborted s"
    and go: "sbind (insert_unless_conflict env ''mab_devices'' [''mac_address'', ''tenant_id'']
              (mab_bulk_vals tenant u m item)) (\<lambda>row. sret (row \<noteq> None)) s = (Inr inserted, s')"
    by (auto simp: repo_bulk_insert_mab_device_def sbind_def sql_macaddr_Inr
        split: prod.splits sum.splits)
  show thesis
  proof (cases inserted)
    case False
    with go m live that(1) [of m] bulk_vals_listed show thesis
      by (auto simp: insert_unless_conflict_def statement_def sbind_def Let_def checked_def
          list_ex_iff same_keys_listed [OF bulk_vals_listed]
          split: prod.splits sum.splits option.splits if_splits)
  next
    case True
    with go m live that(2) [of m] bulk_vals_listed show thesis
      by (auto simp: insert_unless_conflict_def statement_def sbind_def Let_def checked_def
          list_ex_iff same_keys_listed [OF bulk_vals_listed]
          split: prod.splits sum.splits option.splits if_splits)
  qed
qed

text \<open>What the rows a loop adds have to do with the items and with the rows before.\<close>

definition imported ::
  "gw_env \<Rightarrow> string \<Rightarrow> mab_item list \<Rightarrow> pydict list \<Rightarrow> pydict list \<Rightarrow> bool" where
  "imported env tenant items old new \<longleftrightarrow>
     length new \<le> length items
     \<and> (\<forall>item \<in> set items. \<exists>m. ge_macaddr env (mi_mac_address item) = Some m
          \<and> (\<exists>r \<in> set (old @ new). mab_listed_as tenant m r))
     \<and> (\<forall>row \<in> set new. \<exists>item \<in> set items. \<exists>m. ge_macaddr env (mi_mac_address item) = Some m
          \<and> mab_listed_as tenant m row \<and> (\<forall>r \<in> set old. \<not> mab_listed_as tenant m r))
     \<and> distinct (map (\<lambda>r. py_get r ''mac_address'') new)"

lemma imported_Nil: "imported env tenant [] old []"
  by (simp add: imported_def)

lemma imported_skip:
  assumes "imported env tenant items old new" and "ge_macaddr env (mi_mac_address item) = Some m"
    and "\<exists>r \<in> set old. mab_listed_as tenant m r"
  shows "imported env tenant (item # items) old new"
  using assms unfolding imported_def by auto

lemma imported_add:
  assumes "imported env tenant items (old @ [row]) new"
    and "ge_macaddr env (mi_mac_address item) = Some m" and "mab_listed_as tenant m row"
    and "\<forall>r \<in> set old. \<not> mab_listed_as tenant m r"
  shows "imported env tenant (item # items) old (row # new)"
proof -
  have fresh: "py_get row ''mac_address'' \<noteq> py_get r ''mac_address''" if "r \<in> set new" for r
  proof
    assume eq: "py_get row ''mac_address'' = py_get r ''mac_address''"
    from assms(1) that obtain m' where r: "mab_listed_as tenant m' r"
      and new: "\<not> mab_listed_as tenant m' row"
      unfolding imported_def by auto
    from eq r assms(3) have "m' = m" by (simp add: mab_listed_as_def)
    with new assms(3) show False by simp
  qed
  have old: "\<exists>item \<in> set items. \<exists>m. ge_macaddr env (mi_mac_address item) = Some m
      \<and> mab_listed_as tenant m r \<and> (\<forall>x \<in> set old. \<not> mab_listed_as tenant m x)"
    if "r \<in> set new" for r
  proof -
    from assms(1) that have "\<exists>item \<in> set items. \<exists>m. ge_macaddr env (mi_mac_address item) = Some m
        \<and> mab_listed_as tenant m r \<and> (\<forall>x \<in> set (old @ [row]). \<not> mab_listed_as tenant m x)"
      unfolding imported_def by blast
    then show ?thesis by (metis UnI1 set_append)
  qed
  show ?thesis
    unfolding imported_def
  proof (intro conjI)
    show "\<forall>r \<in> set (row # new). \<exists>item \<in> set (item # items). \<exists>m.
        ge_macaddr env (mi_mac_address item) = Some m \<and> mab_listed_as tenant m r
        \<and> (\<forall>x \<in> set old. \<not> mab_listed_as tenant m x)"
      using old assms(2-4) by (metis list.set_intros set_ConsD)
    show "distinct (map (\<lambda>r. py_get r ''mac_address'') (row # new))"
      using fresh assms(1) unfolding imported_def by auto
  qed (use assms(1-3) in \<open>unfold imported_def, auto\<close>)
qed

lemma bulk_loop_imported:
  assumes "bulk_loop env actor items c k s = (Inr (c', k'), s')"
  shows "\<exists>new. mab_table s' = mab_table s @ new
    \<and> imported env (ac_tenant actor) items (mab_table s) new
    \<and> c' = c + int (length new) \<and> k' = k + int (length items) - int (length new)"
  using assms
proof (induction items arbitrary: c k s)
  case Nil
  then show ?case by (simp add: imported_Nil)
next
  case (Cons item items)
  from Cons.prems obtain inserted s1 where
    step: "repo_bulk_insert_mab_device env (ac_tenant actor) (ac_sub actor) item s = (Inr inserted, s1)"
    and rest: "(if inserted then bulk_loop env actor items (c + 1) k
                else bulk_loop env actor items c (k + 1)) s1 = (Inr (c', k'), s')"
    by (auto simp: sbind_def split: prod.splits sum.splits)
  from step show ?case
  proof (rule bulk_insert_step)
    fix m
    assume m: "ge_macaddr env (mi_mac_address item) = Some m" "\<not> inserted"
      and s1: "mab_table s1 = mab_table s" "\<exists>r \<in> set (mab_table s). mab_listed_as (ac_tenant actor) m r"
    from rest m(2) have run: "bulk_loop env actor items c (k + 1) s1 = (Inr (c', k'), s')" by simp
    from Cons.IH [OF run] s1(1) obtain new where
      new: "mab_table s' = mab_table s @ new" "imported env (ac_tenant actor) items (mab_table s) new"
        "c' = c + int (length new)" "k' = k + 1 + int (length items) - int (length new)"
      by auto
    from imported_skip [OF new(2) m(1) s1(2)] new show ?thesis by auto
  next
    fix m row
    assume m: "ge_macaddr env (mi_mac_address item) = Some m" "inserted"
      and s1: "mab_table s1 = mab_table s @ [row]" "mab_listed_as (ac_tenant actor) m row"
        "\<forall>r \<in> set (mab_table s). \<not> mab_listed_as (ac_tenant actor) m r"
    from rest m(2) have run: "bulk_loop env actor items (c + 1) k s1 = (Inr (c', k'), s')" by simp
    from Cons.IH [OF run] s1(1) obtain new where
      new: "mab_table s' = mab_table s @ row # new"
        "imported env (ac_tenant actor) items (mab_table s @ [row]) new"
        "c' = c + 1 + int (length new)" "k' = k + int (length items) - int (length new)"
      by auto
    from imported_add [OF new(2) m(1) s1(2,3)] new show ?thesis
      by (intro exI [of _ "row # new"]) auto
  qed
qed

lemma audit_Inr_table:
  "log_audit env actor action rt rid details ip s = (Inr x, s') \<Longrightarrow>
   gd_table (gs_db s') = gd_table (gs_db s) \<and> \<not> gs_aborted s'"
  by (auto simp: log_audit_def log_audit_as_def statement_def Let_def split: if_splits option.splits)

text \<open>
  The counts of a bulk import are the truth. When \<open>bulk_import\<close> returns, the whitelist is
  the one before with rows appended; \<open>created\<close> is their number and \<open>skipped\<close> the number of
  the other items; the address of every item is listed for the tenant; every added row
  is that of an item whose address was not listed before, and no address was added twice.
\<close>

theorem bulk_import_counts:
  assumes "bulk_import env actor items client_ip s = (Inr summary, s')"
  shows "\<exists>new. mab_table s' = mab_table s @ new
    \<and> imported env (ac_tenant actor) items (mab_table s) new
    \<and> summary = count_summary (int (length new)) (int (length items) - int (length new))
        (int (length items))"
proof -
  from assms obtain c k s1 where loop: "bulk_loop env actor items 0 0 s = (Inr (c, k), s1)"
    and audit: "\<exists>x. log_audit env actor ''bulk_import'' ''mab_device'' PNone
      [(''total'', PInt (int (length items))), (''created'', PInt c), (''skipped'', PInt k)]
      client_ip s1 = (Inr x, s')"
    and summary: "summary = count_summary c k (int (length items))"
    by (auto simp: bulk_import_def sbind_def split: prod.splits sum.splits)
  from audit have "mab_table s' = mab_table s1" by (auto dest!: audit_Inr_table)
  with bulk_loop_imported [OF loop] summary show ?thesis by auto
qed

definition ex_mab_item :: "string \<Rightarrow> mab_item" where
  "ex_mab_item mac = \<lparr>mi_mac_address = mac, mi_name = PNone, mi_description = PNone,
     mi_device_type = PNone, mi_assigned_vlan_id = PNone, mi_expiry_date = PNone\<rparr>"

theorem bulk_import_counts_witness:
  "\<exists>summary s' new. bulk_import ex_gw_env ex_actor
       [ex_mab_item ''00:00:00:00:00:01'', ex_mab_item ''00:00:00:00:00:01''] PNone ex_gw_state
     = (Inr summary, s') \<and> mab_table s' = new \<and> summary = count_summary 1 1 2"
proof -
  let ?run = "bulk_import ex_gw_env ex_actor
       [ex_mab_item ''00:00:00:00:00:01'', ex_mab_item ''00:00:00:00:00:01''] PNone ex_gw_state"
  have fst: "fst ?run = Inr (count_summary 1 1 2)" by code_simp
  then obtain s' where run: "?run = (Inr (count_summary 1 1 2), s')"
    by (metis prod.collapse)
  from bulk_import_counts [OF run] run show ?thesis by blast
qed

section \<open>The round trip of export and import\<close>

text \<open>A row the export writes in a form the import reads: a normalised address, texts without
  a carriage return, a number and a date that the model takes back.\<close>

definition text_ok :: "pyval \<Rightarrow> bool" where
  "text_ok v \<longleftrightarrow> v = PNone \<or> (\<exists>s. v = PStr s \<and> csv_ok s)"

definition exportable :: "csv_env \<Rightarrow> pydict \<Rightarrow> bool" where
  "exportable ce r \<longleftrightarrow>
     (\<exists>m. py_get r ''mac_address'' = PStr m \<and> bulk_normalize_mac m = Inr m)
     \<and> text_ok (py_get r ''name'') \<and> text_ok (py_get r ''description'')
     \<and> text_ok (py_get r ''device_type'')
     \<and> (py_get r ''assigned_vlan_id'' = PNone \<or> (\<exists>v. py_get r ''assigned_vlan_id'' = PInt v
          \<and> vlan_bounds v \<and> ce_int ce (show_int v) = Some v))
     \<and> (py_get r ''expiry_date'' = PNone \<or> (\<exists>t. py_get r ''expiry_date'' = PInt t
          \<and> ce_datetime ce (ce_isoformat ce t) = Some t \<and> csv_ok (ce_isoformat ce t)
          \<and> py_strip (ce_isoformat ce t) = ce_isoformat ce t))"

definition mac_of :: "pydict \<Rightarrow> string" where
  "mac_of r = (case py_get r ''mac_address'' of PStr m \<Rightarrow> m | _ \<Rightarrow> [])"

lemma show_int_chars: "c \<in> set (show_int i) \<Longrightarrow> is_digit_char c \<or> c = CHR ''-''"
  using show_nat_digits by (auto simp: show_int_def split: if_splits)

lemma show_int_strip: "py_strip (show_int i) = show_int i"
proof (rule py_strip_none)
  show ne: "show_int i \<noteq> []" by (simp add: show_int_def)
  have minus: "\<not> is_space_char CHR ''-''" by (simp add: is_space_char_def)
  show "\<not> is_space_char (hd (show_int i))" "\<not> is_space_char (last (show_int i))"
    using show_int_chars [OF hd_in_set [OF ne]] show_int_chars [OF last_in_set [OF ne]] minus
      digit_not_space by metis+
qed

lemma length_show_nat: "length (show_nat n) \<le> Suc n"
proof (induction n rule: show_nat.induct)
  case (1 n)
  show ?case
  proof (cases "n < 10")
    case True
    then show ?thesis by (subst show_nat.simps) simp
  next
    case False
    with 1 have "length (show_nat (n div 10)) \<le> Suc (n div 10)" by simp
    with False show ?thesis by (subst show_nat.simps) simp
  qed
qed

lemma csv_ok_vlan: "vlan_bounds v \<Longrightarrow> csv_ok (show_int v)"
  using length_show_nat [of "nat v"] show_int_chars [of "CHR 0x0D" v]
  by (auto simp: csv_ok_def vlan_bounds_def show_int_def csv_field_limit_def is_digit_char_def)

lemma normalized_csv_ok:
  assumes "normalize_hex err raw = Inr m"
  shows "csv_ok m"
  using normalized_chars(2,3) [OF assms]
  by (auto simp: csv_ok_def csv_field_limit_def is_hex_char_def is_digit_char_def)

lemma csv_ok_Nil [simp]: "csv_ok []"
  by (simp add: csv_ok_def)

lemma text_ok_cell:
  assumes "text_ok v"
  obtains s where "py_str (py_or v (PStr [])) = s" and "csv_ok s"
    and "s = [] \<and> v = PNone \<or> v = PStr s"
proof (cases "v = PNone")
  case False
  with assms obtain s where "v = PStr s" "csv_ok s" by (auto simp: text_ok_def)
  then show thesis by (intro that [of s]) (auto simp: py_or_def)
qed (simp add: that py_or_def)

text \<open>The cells of an exportable row, each with what it was made of.\<close>

lemma exportable_cells:
  assumes "exportable ce r"
  obtains m b c d e f where "csv_cells ce r = [m, b, c, d, e, f]"
    and "py_get r ''mac_address'' = PStr m" and "bulk_normalize_mac m = Inr m"
    and "b = [] \<and> py_get r ''name'' = PNone \<or> py_get r ''name'' = PStr b"
    and "c = [] \<and> py_get r ''description'' = PNone \<or> py_get r ''description'' = PStr c"
    and "d = [] \<and> py_get r ''device_type'' = PNone \<or> py_get r ''device_type'' = PStr d"
    and "e = [] \<and> py_get r ''assigned_vlan_id'' = PNone \<or>
      (\<exists>v. e = show_int v \<and> py_get r ''assigned_vlan_id'' = PInt v \<and> vlan_bounds v
        \<and> ce_int ce (show_int v) = Some v)"
    and "f = [] \<and> py_get r ''expiry_date'' = PNone \<or>
      (\<exists>t. f = ce_isoformat ce t \<and> py_get r ''expiry_date'' = PInt t
        \<and> ce_datetime ce f = Some t \<and> py_strip f = f)"
    and "csv_ok m" "csv_ok b" "csv_ok c" "csv_ok d" "csv_ok e" "csv_ok f"
proof -
  from assms obtain m where m: "py_get r ''mac_address'' = PStr m" "bulk_normalize_mac m = Inr m"
    by (auto simp: exportable_def)
  from assms have texts: "text_ok (py_get r ''name'')" "text_ok (py_get r ''description'')"
    "text_ok (py_get r ''device_type'')" by (simp_all add: exportable_def)
  obtain b where b: "py_str (py_or (py_get r ''name'') (PStr [])) = b" "csv_ok b"
    "b = [] \<and> py_get r ''name'' = PNone \<or> py_get r ''name'' = PStr b"
    by (rule text_ok_cell [OF texts(1)])
  obtain c where c: "py_str (py_or (py_get r ''description'') (PStr [])) = c" "csv_ok c"
    "c = [] \<and> py_get r ''description'' = PNone \<or> py_get r ''description'' = PStr c"
    by (rule text_ok_cell [OF texts(2)])
  obtain d where d: "py_str (py_or (py_get r ''device_type'') (PStr [])) = d" "csv_ok d"
    "d = [] \<and> py_get r ''device_type'' = PNone \<or> py_get r ''device_type'' = PStr d"
    by (rule text_ok_cell [OF texts(3)])
  define e where "e = (if py_get r ''assigned_vlan_id'' \<noteq> PNone
    then py_str (py_get r ''assigned_vlan_id'') else [])"
  define f where "f = (case py_get r ''expiry_date'' of PInt t \<Rightarrow> ce_isoformat ce t | _ \<Rightarrow> [])"
  have e: "e = [] \<and> py_get r ''assigned_vlan_id'' = PNone \<or>
      (\<exists>v. e = show_int v \<and> py_get r ''assigned_vlan_id'' = PInt v \<and> vlan_bounds v
        \<and> ce_int ce (show_int v) = Some v)"
    using assms by (auto simp: exportable_def e_def)
  have f: "f = [] \<and> py_get r ''expiry_date'' = PNone \<or>
      (\<exists>t. f = ce_isoformat ce t \<and> py_get r ''expiry_date'' = PInt t
        \<and> ce_datetime ce f = Some t \<and> py_strip f = f)" "csv_ok f"
    using assms by (auto simp: exportable_def f_def)
  have cells: "csv_cells ce r = [m, b, c, d, e, f]"
    unfolding csv_cells_def b(1) c(1) d(1) by (simp add: m(1) e_def f_def)
  have ok: "csv_ok m" using m(2) normalized_csv_ok by (simp add: bulk_normalize_mac_def)
  have "csv_ok e" using e csv_ok_vlan by auto
  then show thesis by (rule that [OF cells m b(3) c(3) d(3) e f(1) ok b(2) c(2) d(2) _ f(2)])
qed

lemma cells_ok: "exportable ce r \<Longrightarrow> \<forall>f \<in> set (csv_cells ce r). csv_ok f"
  by (rule exportable_cells) auto

lemma columns_ok: "\<forall>f \<in> set mab_csv_columns. csv_ok f"
  by (simp add: mab_csv_columns_def csv_ok_def csv_field_limit_def)

lemma header_names: "map (\<lambda>h. py_lower (py_strip h)) mab_csv_columns = mab_csv_columns"
  by code_simp

lemma column_names:
  "py_lower (py_strip ''mac_address'') = ''mac_address''"
  "py_lower (py_strip ''name'') = ''name''"
  "py_lower (py_strip ''description'') = ''description''"
  "py_lower (py_strip ''device_type'') = ''device_type''"
  "py_lower (py_strip ''assigned_vlan_id'') = ''assigned_vlan_id''"
  "py_lower (py_strip ''expiry_date'') = ''expiry_date''"
  by code_simp+

lemma dict_row_six:
  "dict_row mab_csv_columns [a, b, c, d, e, f] =
     [(Some ''mac_address'', Text a), (Some ''name'', Text b), (Some ''description'', Text c),
      (Some ''device_type'', Text d), (Some ''assigned_vlan_id'', Text e),
      (Some ''expiry_date'', Text f)]"
  by (simp add: dict_row_def mab_csv_columns_def)

lemma clean_row_six:
  "clean_row (dict_row mab_csv_columns [a, b, c, d, e, f]) [] = Inr
     [(''mac_address'', py_strip a), (''name'', py_strip b), (''description'', py_strip c),
      (''device_type'', py_strip d), (''assigned_vlan_id'', py_strip e),
      (''expiry_date'', py_strip f)]"
  unfolding dict_row_six by (simp add: column_names value_text_def)

lemma map_of_filter:
  "dict_ok d \<Longrightarrow> dict_get (filter (\<lambda>(k, v). P k v) d) k =
     (case dict_get d k of None \<Rightarrow> None | Some v \<Rightarrow> if P k v then Some v else None)"
proof (induction d)
  case (Cons p d)
  obtain k' v' where p: "p = (k', v')" by (cases p)
  with Cons.prems have "dict_ok d" and "k' \<notin> fst ` set d" by (auto simp: dict_ok_def)
  with Cons.IH p show ?case
    by (auto simp: map_of_eq_None_iff split: option.split)
qed simp

definition read_back :: "csv_env \<Rightarrow> pydict \<Rightarrow> mab_item" where
  "read_back ce r =
     (let t = (\<lambda>k. case py_get r k of PStr s \<Rightarrow> if py_strip s = [] then PNone else PStr (py_strip s)
                   | _ \<Rightarrow> PNone)
      in \<lparr>mi_mac_address = mac_of r, mi_name = t ''name'', mi_description = t ''description'',
          mi_device_type = t ''device_type'',
          mi_assigned_vlan_id = py_get r ''assigned_vlan_id'',
          mi_expiry_date =
            (case py_get r ''expiry_date'' of
               PInt x \<Rightarrow> if ce_isoformat ce x = [] then PNone else PInt x | _ \<Rightarrow> PNone)\<rparr>)"

lemma bulk_item_six:
  assumes "row = [(''mac_address'', a), (''name'', b), (''description'', c), (''device_type'', d),
      (''assigned_vlan_id'', e), (''expiry_date'', f)]"
    and "a \<noteq> []" and "bulk_normalize_mac a = Inr m"
    and "e = [] \<and> vlan = PNone \<or> (\<exists>v. e \<noteq> [] \<and> ce_int ce e = Some v \<and> vlan_bounds v \<and> vlan = PInt v)"
    and "f = [] \<and> expiry = PNone \<or> (\<exists>t. f \<noteq> [] \<and> ce_datetime ce f = Some t \<and> expiry = PInt t)"
  shows "bulk_item ce (filter (\<lambda>(k, v). k \<in> set CSV_KNOWN_HEADERS \<and> v \<noteq> []) row) = Inr
    \<lparr>mi_mac_address = m, mi_name = (if b = [] then PNone else PStr b),
     mi_description = (if c = [] then PNone else PStr c),
     mi_device_type = (if d = [] then PNone else PStr d),
     mi_assigned_vlan_id = vlan, mi_expiry_date = expiry\<rparr>"
proof -
  let ?clean = "filter (\<lambda>(k, v). k \<in> set CSV_KNOWN_HEADERS \<and> v \<noteq> []) row"
  have ok: "dict_ok row" by (simp add: assms(1) dict_ok_def)
  have get: "dict_get ?clean ''mac_address'' = Some a"
    "dict_get ?clean ''name'' = (if b = [] then None else Some b)"
    "dict_get ?clean ''description'' = (if c = [] then None else Some c)"
    "dict_get ?clean ''device_type'' = (if d = [] then None else Some d)"
    "dict_get ?clean ''assigned_vlan_id'' = (if e = [] then None else Some e)"
    "dict_get ?clean ''expiry_date'' = (if f = [] then None else Some f)"
    unfolding map_of_filter [OF ok] by (simp_all add: assms(1,2) CSV_KNOWN_HEADERS_def)
  have "opt_number (ce_int ce) vlan_bounds ?clean ''assigned_vlan_id'' = Some vlan"
    using assms(4) by (auto simp: opt_number_def get)
  moreover have "opt_number (ce_datetime ce) (\<lambda>_. True) ?clean ''expiry_date'' = Some expiry"
    using assms(5) by (auto simp: opt_number_def get)
  ultimately show ?thesis
    by (simp add: bulk_item_def get(1) assms(3)) (simp add: opt_text_def get)
qed

lemma parse_exported_row:
  assumes "exportable ce r"
  shows "parse_rows ce mab_csv_columns idx (csv_cells ce r # rows) err =
    rbind (parse_rows ce mab_csv_columns (idx + 1) rows err) (\<lambda>(items, errors).
      Inr (read_back ce r # items, errors))"
proof -
  obtain m b c d e f where cells: "csv_cells ce r = [m, b, c, d, e, f]"
    and m: "py_get r ''mac_address'' = PStr m" "bulk_normalize_mac m = Inr m"
    and b: "b = [] \<and> py_get r ''name'' = PNone \<or> py_get r ''name'' = PStr b"
    and c: "c = [] \<and> py_get r ''description'' = PNone \<or> py_get r ''description'' = PStr c"
    and d: "d = [] \<and> py_get r ''device_type'' = PNone \<or> py_get r ''device_type'' = PStr d"
    and e: "e = [] \<and> py_get r ''assigned_vlan_id'' = PNone \<or>
      (\<exists>v. e = show_int v \<and> py_get r ''assigned_vlan_id'' = PInt v \<and> vlan_bounds v
        \<and> ce_int ce (show_int v) = Some v)"
    and f: "f = [] \<and> py_get r ''expiry_date'' = PNone \<or>
      (\<exists>t. f = ce_isoformat ce t \<and> py_get r ''expiry_date'' = PInt t
        \<and> ce_datetime ce f = Some t \<and> py_strip f = f)"
    by (rule exportable_cells [OF assms])
  define row where "row = [(''mac_address'', py_strip m), (''name'', py_strip b),
    (''description'', py_strip c), (''device_type'', py_strip d),
    (''assigned_vlan_id'', py_strip e), (''expiry_date'', py_strip f)]"
  have mac: "py_strip m = m" "m \<noteq> []"
    using m(2) normalized_strip normalized_chars(1) by (auto simp: bulk_normalize_mac_def)
  have vlan: "py_strip e = [] \<and> py_get r ''assigned_vlan_id'' = PNone \<or>
      (\<exists>v. py_strip e \<noteq> [] \<and> ce_int ce (py_strip e) = Some v \<and> vlan_bounds v
        \<and> py_get r ''assigned_vlan_id'' = PInt v)"
  proof -
    have "show_int v \<noteq> []" for v by (simp add: show_int_def)
    with e show ?thesis by (auto simp: show_int_strip)
  qed
  have expiry: "py_strip f = [] \<and> mi_expiry_date (read_back ce r) = PNone \<or>
      (\<exists>t. py_strip f \<noteq> [] \<and> ce_datetime ce (py_strip f) = Some t
        \<and> mi_expiry_date (read_back ce r) = PInt t)"
    using f by (auto simp: read_back_def Let_def split: if_splits)
  have "bulk_item ce (filter (\<lambda>(k, v). k \<in> set CSV_KNOWN_HEADERS \<and> v \<noteq> []) row) = Inr
    \<lparr>mi_mac_address = m, mi_name = (if py_strip b = [] then PNone else PStr (py_strip b)),
     mi_description = (if py_strip c = [] then PNone else PStr (py_strip c)),
     mi_device_type = (if py_strip d = [] then PNone else PStr (py_strip d)),
     mi_assigned_vlan_id = py_get r ''assigned_vlan_id'',
     mi_expiry_date = mi_expiry_date (read_back ce r)\<rparr>"
    by (rule bulk_item_six [OF row_def [unfolded mac(1)] mac(2) m(2) vlan expiry])
  also have "\<dots> = Inr (read_back ce r)"
    using b c d by (auto simp: read_back_def Let_def mac_of_def m(1))
  finally have item: "bulk_item ce (filter (\<lambda>(k, v). k \<in> set CSV_KNOWN_HEADERS \<and> v \<noteq> []) row) =
    Inr (read_back ce r)" .
  have "clean_row (dict_row mab_csv_columns (csv_cells ce r)) [] = Inr row"
    unfolding cells row_def by (rule clean_row_six)
  moreover have "\<not> list_all (\<lambda>(k, v). v = []) row" using mac by (simp add: row_def)
  moreover have "csv_cells ce r \<noteq> []" by (simp add: cells)
  ultimately show ?thesis using item by (simp add: Let_def)
qed

lemma parse_exported:
  "\<forall>r \<in> set rows. exportable ce r \<Longrightarrow>
   parse_rows ce mab_csv_columns idx (map (csv_cells ce) rows) None = Inr (map (read_back ce) rows, [])"
proof (induction rows arbitrary: idx)
  case (Cons r rows)
  then have "exportable ce r" and "parse_rows ce mab_csv_columns (idx + 1) (map (csv_cells ce) rows) None =
    Inr (map (read_back ce) rows, [])" by simp_all
  then show ?case using parse_exported_row [of ce r idx "map (csv_cells ce) rows" None] by simp
qed simp

lemma parse_export:
  assumes "\<forall>r \<in> set rows. exportable ce r"
  shows "parse_csv_to_bulk_items ce (csv_write (mab_csv_columns # map (csv_cells ce) rows)) =
    Inr (map (read_back ce) rows, [])"
proof -
  have "\<forall>row \<in> set (mab_csv_columns # map (csv_cells ce) rows).
      row \<noteq> [] \<and> (\<forall>f \<in> set row. csv_ok f)"
  proof (intro ballI conjI)
    fix row assume "row \<in> set (mab_csv_columns # map (csv_cells ce) rows)"
    then show "row \<noteq> []" by (auto simp: csv_cells_def mab_csv_columns_def)
  next
    fix row f assume "row \<in> set (mab_csv_columns # map (csv_cells ce) rows)" and "f \<in> set row"
    then show "csv_ok f" using cells_ok columns_ok assms by auto
  qed
  note read = csv_read_write [OF this]
  have "''mac_address'' \<in> set (map (\<lambda>h. py_lower (py_strip h)) mab_csv_columns)"
    unfolding header_names by (simp add: mab_csv_columns_def)
  then show ?thesis
    using parse_exported [OF assms] by (simp add: parse_csv_to_bulk_items_def read)
qed

text \<open>A loop whose addresses are all listed adds nothing.\<close>

lemma bulk_loop_skips:
  assumes "\<not> gs_aborted s" and "\<forall>row. ge_value_error env ''mab_devices'' row = None"
    and "\<forall>item \<in> set items. \<exists>m. ge_macaddr env (mi_mac_address item) = Some m
      \<and> (\<exists>r \<in> set (mab_table s). mab_listed_as (ac_tenant actor) m r)"
  shows "\<exists>s'. bulk_loop env actor items c k s = (Inr (c, k + int (length items)), s')
    \<and> gd_table (gs_db s') = gd_table (gs_db s) \<and> \<not> gs_aborted s'"
  using assms
proof (induction items arbitrary: k s)
  case (Cons item items)
  from Cons.prems obtain m r where m: "ge_macaddr env (mi_mac_address item) = Some m"
    and r: "r \<in> set (mab_table s)" "mab_listed_as (ac_tenant actor) m r" by auto
  have "\<exists>s1. repo_bulk_insert_mab_device env (ac_tenant actor) (ac_sub actor) item s = (Inr False, s1)
    \<and> gd_table (gs_db s1) = gd_table (gs_db s) \<and> \<not> gs_aborted s1"
    using Cons.prems(1,2) m r
    by (auto simp: repo_bulk_insert_mab_device_def insert_unless_conflict_def sql_macaddr_def
        statement_def sbind_def Let_def list_ex_iff same_keys_listed [OF bulk_vals_listed])
  then obtain s1 where s1: "repo_bulk_insert_mab_device env (ac_tenant actor) (ac_sub actor) item s = (Inr False, s1)"
    "gd_table (gs_db s1) = gd_table (gs_db s)" "\<not> gs_aborted s1" by blast
  from Cons.IH [of s1 "k + 1"] Cons.prems(2,3) s1(2,3) obtain s' where
    "bulk_loop env actor items c (k + 1) s1 = (Inr (c, k + 1 + int (length items)), s')"
    "gd_table (gs_db s') = gd_table (gs_db s)" "\<not> gs_aborted s'" by auto
  with s1(1) show ?case by (simp add: sbind_def algebra_simps)
qed simp


definition ex_csv_env :: csv_env where
  "ex_csv_env = \<lparr>ce_int = parse_int, ce_datetime = (\<lambda>s. parse_int (tl s)),
     ce_error = (\<lambda>row. ''validation error''), ce_isoformat = (\<lambda>t. CHR ''T'' # show_int t)\<rparr>"

definition ex_mab_rows :: "pydict list" where
  "ex_mab_rows =
     [[(''id'', PStr ''m1''), (''mac_address'', PStr ''00:00:00:00:00:0a''),
       (''name'', PStr ''Lobby, printer''), (''assigned_vlan_id'', PInt 20), (''expiry_date'', PInt 5),
       (''tenant_id'', PStr ''t1'')],
      [(''id'', PStr ''m2''), (''mac_address'', PStr ''00:00:00:00:00:0b''),
       (''tenant_id'', PStr ''t1'')]]"

definition ex_mab_state :: gw_state where
  "ex_mab_state = ex_gw_state
     \<lparr>gs_db := (gs_db ex_gw_state)\<lparr>gd_table := (\<lambda>t. if t = ''mab_devices'' then ex_mab_rows else [])\<rparr>\<rparr>"

lemma ex_mab_exportable: "\<forall>r \<in> set ex_mab_rows. exportable ex_csv_env r"
proof -
  have mac: "bulk_normalize_mac ''00:00:00:00:00:0a'' = Inr ''00:00:00:00:00:0a''"
    "bulk_normalize_mac ''00:00:00:00:00:0b'' = Inr ''00:00:00:00:00:0b''" by code_simp+
  have date: "parse_int (show_int 5) = Some 5" "show_int 5 = ''5''" "py_strip (''T5'') = ''T5''"
    by (rule parse_show_int, code_simp, code_simp)
  show ?thesis
    by (simp add: ex_mab_rows_def exportable_def text_ok_def py_get_def dict_get_or_def mac
        ex_csv_env_def vlan_bounds_def date csv_ok_def csv_field_limit_def)
qed


end
