(* ===== verification/Certificates.thy ===== *)
theory Certificates
  imports Radius_Realms
begin

text \<open>
  The certificates of the gateway: the helpers, repository, service, events and renewal pass of
  \<open>services/gateway/features/certificates\<close>. What the \<open>cryptography\<close> package does (reading and
  signing certificates, reading keys), what \<open>ipaddress\<close> accepts and the text of a date are
  parameters; the certificate a request asks for is a template with the fields the code sets.
\<close>

section \<open>Helpers\<close>

record x509 =
  x_subject_names :: "string list"
  x_issuer_names :: "string list"
  x_issuer_text :: string
  x_serial_number :: int
  x_not_before :: int
  x_not_after :: int
  x_fingerprint :: string
  x_key_type :: string
  x_key_size :: "int option"
  x_issuer_is_subject :: bool

record cert_template =
  ct_subject :: "(string \<times> string) list"
  ct_ca :: "(string \<times> string) option"
  ct_alt_names :: "(string \<times> string) list"
  ct_validity_days :: int
  ct_key_size :: int

record crypto_env =
  cy_load_cert :: "string \<Rightarrow> string + x509"
  cy_load_key :: "string \<Rightarrow> string + unit"
  cy_issue :: "cert_template \<Rightarrow> string + (string \<times> string)"
  cy_is_ip :: "string \<Rightarrow> bool"
  cy_date :: "int \<Rightarrow> string"

definition or_error :: "(string \<Rightarrow> pyerr) \<Rightarrow> string + 'a \<Rightarrow> 'a result" where
  "or_error mk r = (case r of Inl msg \<Rightarrow> Inl (mk msg) | Inr x \<Rightarrow> Inr x)"

definition opt_int :: "int option \<Rightarrow> pyval" where
  "opt_int v = (case v of None \<Rightarrow> PNone | Some i \<Rightarrow> PInt i)"

definition parse_cert_metadata :: "crypto_env \<Rightarrow> string \<Rightarrow> pydict result" where
  "parse_cert_metadata ce cert_pem =
     rbind (or_error (\<lambda>msg. invalid (''Invalid certificate PEM: '' @ msg)) (cy_load_cert ce cert_pem))
       (\<lambda>cert. Inr
         [(''common_name'', case x_subject_names cert of [] \<Rightarrow> PNone | n # ns \<Rightarrow> PStr n),
          (''issuer'', case x_issuer_names cert of [] \<Rightarrow> PStr (x_issuer_text cert) | n # ns \<Rightarrow> PStr n),
          (''serial_number'', PStr (show_int (x_serial_number cert))),
          (''not_before'', PInt (x_not_before cert)),
          (''not_after'', PInt (x_not_after cert)),
          (''fingerprint_sha256'', PStr (x_fingerprint cert)),
          (''key_algorithm'',
            PStr (py_replace ''PublicKey'' [] (remove_char CHR ''_'' (x_key_type cert)))),
          (''key_size'', opt_int (x_key_size cert)),
          (''is_self_signed'', PBool (x_issuer_is_subject cert))])"

definition validate_private_key_pem :: "crypto_env \<Rightarrow> string \<Rightarrow> unit result" where
  "validate_private_key_pem ce key_pem =
     or_error (\<lambda>msg. invalid (''Invalid private key PEM: '' @ msg)) (cy_load_key ce key_pem)"

definition seconds_per_day :: int where
  "seconds_per_day = 86400"

text \<open>\<open>(not_after - now).days\<close> rounds down.\<close>

definition compute_cert_status :: "int \<Rightarrow> pyval \<Rightarrow> pydict" where
  "compute_cert_status now not_after =
     (case not_after of
        PInt t \<Rightarrow>
          (let days = (t - now) div seconds_per_day
           in [(''days_until_expiry'', PInt days),
               (''status'', PStr (if days < 0 then ''expired''
                                  else if days \<le> 30 then ''expiring_soon'' else ''valid''))])
      | _ \<Rightarrow> [(''days_until_expiry'', PNone), (''status'', PStr ''unknown'')])"

definition if_name :: "string \<Rightarrow> pyval \<Rightarrow> (string \<times> string) list" where
  "if_name k v = (case v of PStr s \<Rightarrow> if s = [] then [] else [(k, s)] | _ \<Rightarrow> [])"

definition generate_ca_keypair ::
  "crypto_env \<Rightarrow> string \<Rightarrow> pyval \<Rightarrow> pyval \<Rightarrow> int \<Rightarrow> int \<Rightarrow> (string \<times> string) result" where
  "generate_ca_keypair ce common_name organization country validity_days key_size =
     or_error ValueError (cy_issue ce
       \<lparr>ct_subject = (''CN'', common_name) # if_name ''O'' organization @ if_name ''C'' country,
        ct_ca = None, ct_alt_names = [], ct_validity_days = validity_days, ct_key_size = key_size\<rparr>)"

definition server_alt_names :: "string \<Rightarrow> string list \<Rightarrow> string list \<Rightarrow> (string \<times> string) list" where
  "server_alt_names common_name san_dns san_ips =
     map (Pair ''DNS'') san_dns @ map (Pair ''IP'') san_ips @ [(''DNS'', common_name)]"

definition generate_server_keypair ::
  "crypto_env \<Rightarrow> string \<Rightarrow> string list \<Rightarrow> string list \<Rightarrow> int \<Rightarrow> int \<Rightarrow> string \<Rightarrow> pyval
   \<Rightarrow> (string \<times> string) result" where
  "generate_server_keypair ce common_name san_dns san_ips validity_days key_size ca_cert_pem ca_key_pem =
     rbind (or_error ValueError (cy_load_cert ce ca_cert_pem)) (\<lambda>_.
       case ca_key_pem of
         PStr key \<Rightarrow>
           rbind (or_error ValueError (cy_load_key ce key)) (\<lambda>_.
             if list_all (cy_is_ip ce) san_ips
             then or_error ValueError (cy_issue ce
               \<lparr>ct_subject = [(''CN'', common_name)], ct_ca = Some (ca_cert_pem, key),
                ct_alt_names = server_alt_names common_name san_dns san_ips,
                ct_validity_days = validity_days, ct_key_size = key_size\<rparr>)
             else Inl (ValueError ''does not appear to be an IPv4 or IPv6 address''))
       | _ \<Rightarrow> Inl (AttributeError ''encode''))"

text \<open>\<open>os.path.join\<close>: an absolute second part drops the first.\<close>

definition path_join :: "string \<Rightarrow> string \<Rightarrow> string" where
  "path_join a b =
     (if b \<noteq> [] \<and> hd b = CHR ''/'' then b
      else if a = [] \<or> last a = CHR ''/'' then a @ b
      else a @ ''/'' @ b)"

definition file_stem :: "string \<Rightarrow> string" where
  "file_stem name = py_lower (replace_char CHR '' '' CHR ''_'' name)"

definition CERT_BASE_DIR :: string where
  "CERT_BASE_DIR = ''/opt/orw/certs''"

definition write_cert_files ::
  "gw_env \<Rightarrow> string \<Rightarrow> string \<Rightarrow> string \<Rightarrow> string \<Rightarrow> (gw_state, unit) prog" where
  "write_cert_files env subdir name cert_pem key_pem =
     (let directory = path_join CERT_BASE_DIR subdir
      in sbind (slift (if ge_file_ok env directory then Inr () else Inl (OSError directory))) (\<lambda>_.
         sbind (write_text env (path_join directory (file_stem name @ ''.pem'')) cert_pem) (\<lambda>_.
         write_text env (path_join directory (file_stem name @ ''.key'')) key_pem)))"

definition safe_filename :: "string \<Rightarrow> string" where
  "safe_filename name = file_stem name @ ''.pem''"

section \<open>Repository\<close>

definition cert_list_columns :: "string list" where
  "cert_list_columns =
     [''id'', ''cert_type'', ''name'', ''description'', ''common_name'', ''issuer'',
      ''serial_number'', ''not_before'', ''not_after'', ''fingerprint_sha256'', ''key_algorithm'',
      ''key_size'', ''subject_alt_names'', ''is_active'', ''is_self_signed'', ''imported'',
      ''enabled'', ''created_by'', ''created_at'', ''updated_at'']"

definition cert_filter :: "string \<Rightarrow> pyval \<Rightarrow> pyval \<Rightarrow> pydict \<Rightarrow> bool" where
  "cert_filter tenant cert_type enabled =
     where_eq ([(''tenant_id'', PStr tenant)] @ if_truthy ''cert_type'' cert_type
       @ if_given ''enabled'' enabled)"

definition repo_count_certs :: "string \<Rightarrow> pyval \<Rightarrow> pyval \<Rightarrow> (gw_state, int) prog" where
  "repo_count_certs tenant cert_type enabled =
     count_rows ''certificates'' (cert_filter tenant cert_type enabled)"

definition repo_list_certs ::
  "gw_env \<Rightarrow> string \<Rightarrow> pyval \<Rightarrow> pyval \<Rightarrow> int \<Rightarrow> int \<Rightarrow> (gw_state, pydict list) prog" where
  "repo_list_certs env tenant cert_type enabled limit offset =
     sbind (select_page env ''cert_type, name'' ''certificates''
              (cert_filter tenant cert_type enabled) limit offset)
       (\<lambda>rows. sret (map (project cert_list_columns) rows))"

definition repo_lookup_cert_full :: "string \<Rightarrow> string \<Rightarrow> (gw_state, pydict option) prog" where
  "repo_lookup_cert_full tenant cert_id =
     sbind (select_rows ''certificates'' (by_id tenant cert_id)) (\<lambda>rows. sret (first_row rows))"

definition repo_lookup_cert_summary :: "string \<Rightarrow> string \<Rightarrow> (gw_state, pydict option) prog" where
  "repo_lookup_cert_summary tenant cert_id =
     select_first ''certificates'' [''id'', ''cert_type'', ''name'', ''is_active''] (by_id tenant cert_id)"

text \<open>\<open>not_after IS NOT NULL AND not_after < NOW() + make_interval(days => :days)\<close>.\<close>

definition expires_within :: "gw_env \<Rightarrow> int \<Rightarrow> pydict \<Rightarrow> bool" where
  "expires_within env days row =
     (case py_get row ''not_after'' of
        PInt t \<Rightarrow> t < ge_now env + days * seconds_per_day | _ \<Rightarrow> False)"

definition renewable :: "gw_env \<Rightarrow> string \<Rightarrow> int \<Rightarrow> pydict \<Rightarrow> bool" where
  "renewable env tenant days row \<longleftrightarrow>
     where_eq [(''cert_type'', PStr ''server''), (''is_active'', PBool True), (''enabled'', PBool True),
               (''imported'', PBool False), (''tenant_id'', PStr tenant)] row
     \<and> expires_within env days row"

definition repo_list_renewable_server_certs_within ::
  "gw_env \<Rightarrow> string \<Rightarrow> int \<Rightarrow> (gw_state, pydict list) prog" where
  "repo_list_renewable_server_certs_within env tenant threshold_days =
     sbind (select_ordered env ''not_after'' ''certificates'' (renewable env tenant threshold_days))
       (\<lambda>rows. sret (map (project [''id'', ''name'', ''common_name'', ''subject_alt_names'',
          ''key_size'', ''not_before'', ''not_after'']) rows))"

text \<open>The row with its key decrypted, as two of the lookups give it.\<close>

definition with_plain_key :: "gw_env \<Rightarrow> pydict option \<Rightarrow> (gw_state, pydict option) prog" where
  "with_plain_key env row =
     (case row of
        None \<Rightarrow> sret None
      | Some r \<Rightarrow>
          sbind (slift (ge_decrypt env (py_get r ''key_pem_encrypted''))) (\<lambda>plain.
            sret (Some (dict_set ''key_pem_encrypted'' plain r))))"

definition repo_lookup_active_ca :: "gw_env \<Rightarrow> string \<Rightarrow> (gw_state, pydict option) prog" where
  "repo_lookup_active_ca env tenant =
     sbind (select_first ''certificates'' [''pem_data'', ''key_pem_encrypted'']
              (where_eq [(''cert_type'', PStr ''ca''), (''is_active'', PBool True),
                         (''tenant_id'', PStr tenant)]))
       (with_plain_key env)"

definition repo_lookup_cert_for_download ::
  "gw_env \<Rightarrow> string \<Rightarrow> string \<Rightarrow> (gw_state, pydict option) prog" where
  "repo_lookup_cert_for_download env tenant cert_id =
     sbind (select_first ''certificates''
              [''name'', ''cert_type'', ''pem_data'', ''key_pem_encrypted'', ''chain_pem'']
              (by_id tenant cert_id))
       (with_plain_key env)"

definition cert_vals :: "string \<Rightarrow> string \<Rightarrow> pydict \<Rightarrow> pyval \<Rightarrow> pydict" where
  "cert_vals tenant created_by flds ciphertext =
     project [''cert_type'', ''name'', ''common_name'', ''issuer'', ''serial_number'', ''not_before'',
        ''not_after'', ''fingerprint_sha256'', ''key_algorithm'', ''key_size'',
        ''subject_alt_names'', ''pem_data''] flds
     @ [(''key_pem_encrypted'', ciphertext), (''chain_pem'', py_get flds ''chain_pem''),
        (''is_active'', PBool False), (''is_self_signed'', py_get flds ''is_self_signed''),
        (''imported'', py_get flds ''imported''), (''enabled'', PBool True),
        (''tenant_id'', PStr tenant), (''created_by'', PStr created_by)]"

definition repo_insert_cert :: "gw_env \<Rightarrow> string \<Rightarrow> string \<Rightarrow> pydict \<Rightarrow> (gw_state, pydict) prog" where
  "repo_insert_cert env tenant created_by flds =
     sbind (slift (ge_encrypt env (py_get flds ''key_pem_encrypted''))) (\<lambda>ciphertext.
       insert_row env ''certificates'' (cert_vals tenant created_by flds ciphertext))"

definition repo_deactivate_certs_of_type ::
  "gw_env \<Rightarrow> string \<Rightarrow> pyval \<Rightarrow> (gw_state, unit) prog" where
  "repo_deactivate_certs_of_type env tenant cert_type =
     sbind (update_rows env ''certificates''
              (where_eq [(''cert_type'', cert_type), (''tenant_id'', PStr tenant)])
              ((''is_active'', PBool False) # stamp env ''updated_at''))
       (\<lambda>_. sret ())"

definition repo_set_cert_active ::
  "gw_env \<Rightarrow> string \<Rightarrow> string \<Rightarrow> (gw_state, pydict option) prog" where
  "repo_set_cert_active env tenant cert_id =
     sbind (update_rows env ''certificates'' (by_id tenant cert_id)
              ((''is_active'', PBool True) # stamp env ''updated_at''))
       (\<lambda>rows. sret (first_row rows))"

definition repo_delete_cert :: "gw_env \<Rightarrow> string \<Rightarrow> string \<Rightarrow> (gw_state, unit) prog" where
  "repo_delete_cert env tenant cert_id =
     sbind (delete_rows env ''certificates'' (by_id tenant cert_id)) (\<lambda>_. sret ())"

section \<open>Events\<close>

definition publish_freeradius_apply_for_cert ::
  "gw_env \<Rightarrow> string \<Rightarrow> pyval \<Rightarrow> (gw_state, unit) prog" where
  "publish_freeradius_apply_for_cert env cert_id cert_type =
     publish env SUBJECT_FREERADIUS_APPLY
       [(''reason'', PStr ''certificate_activated''), (''cert_id'', PStr cert_id),
        (''cert_type'', cert_type)]"

section \<open>Service\<close>

definition decorate_with_status :: "gw_env \<Rightarrow> pydict \<Rightarrow> pydict" where
  "decorate_with_status env row =
     assign (compute_cert_status (ge_now env) (py_get row ''not_after'')) row"

definition list_certs ::
  "gw_env \<Rightarrow> string \<Rightarrow> pyval \<Rightarrow> pyval \<Rightarrow> int \<Rightarrow> int \<Rightarrow> (gw_state, pydict) prog" where
  "list_certs env tenant cert_type enabled page page_size =
     sbind (repo_count_certs tenant cert_type enabled) (\<lambda>n.
     sbind (repo_list_certs env tenant cert_type enabled page_size ((page - 1) * page_size))
       (\<lambda>rows. sret (page_dict (map (decorate_with_status env) rows) n page page_size)))"

definition get_cert_detail :: "gw_env \<Rightarrow> string \<Rightarrow> string \<Rightarrow> (gw_state, pydict) prog" where
  "get_cert_detail env tenant cert_id =
     sbind (repo_lookup_cert_full tenant cert_id) (\<lambda>row.
       case row of
         None \<Rightarrow> sraise (not_found ''Certificate'' cert_id)
       | Some r \<Rightarrow> sret (decorate_with_status env r))"

definition append_pem :: "bool \<Rightarrow> pyval \<Rightarrow> string \<Rightarrow> string" where
  "append_pem include v pem = (if include \<and> truthy v then pem @ [CHR 0x0A] @ py_str v else pem)"

definition download_cert ::
  "gw_env \<Rightarrow> string \<Rightarrow> string \<Rightarrow> bool \<Rightarrow> bool \<Rightarrow> (gw_state, string \<times> string) prog" where
  "download_cert env tenant cert_id include_key include_chain =
     sbind (repo_lookup_cert_for_download env tenant cert_id) (\<lambda>row.
       case row of
         None \<Rightarrow> sraise (not_found ''Certificate'' cert_id)
       | Some r \<Rightarrow>
           if \<not> truthy (py_get r ''pem_data'') then sraise (not_found ''Certificate PEM data'' cert_id)
           else sret
             (append_pem include_key (py_get r ''key_pem_encrypted'')
                (append_pem include_chain (py_get r ''chain_pem'') (py_str (py_get r ''pem_data''))),
              safe_filename (py_str (py_get r ''name''))))"

record ca_request =
  ca_name :: string
  ca_common_name :: string
  ca_validity_days :: int
  ca_key_size :: int
  ca_organization :: pyval
  ca_country :: pyval

record server_request =
  sr_name :: string
  sr_common_name :: string
  sr_san_dns :: "string list"
  sr_san_ips :: "string list"
  sr_validity_days :: int
  sr_key_size :: int

record import_request =
  im_name :: string
  im_cert_type :: string
  im_cert_pem :: string
  im_key_pem :: pyval
  im_chain_pem :: pyval

text \<open>\<open>_insert\<close>: the columns of a certificate and of its metadata.\<close>

definition insert_cert ::
  "gw_env \<Rightarrow> gw_actor \<Rightarrow> string \<Rightarrow> string \<Rightarrow> string \<Rightarrow> pyval \<Rightarrow> pydict \<Rightarrow> pyval \<Rightarrow> pyval \<Rightarrow> bool \<Rightarrow> bool
   \<Rightarrow> (gw_state, pydict) prog" where
  "insert_cert env actor cert_type name cert_pem key_pem meta chain_pem subject_alt_names
     is_self_signed imported =
     repo_insert_cert env (ac_tenant actor) (ac_sub actor)
       ([(''cert_type'', PStr cert_type), (''name'', PStr name)]
        @ project [''common_name'', ''issuer'', ''serial_number'', ''not_before'', ''not_after'',
             ''fingerprint_sha256'', ''key_algorithm'', ''key_size''] meta
        @ [(''pem_data'', PStr cert_pem), (''key_pem_encrypted'', key_pem),
           (''chain_pem'', chain_pem), (''subject_alt_names'', subject_alt_names),
           (''is_self_signed'', PBool is_self_signed), (''imported'', PBool imported)])"

definition audit_created ::
  "gw_env \<Rightarrow> gw_actor \<Rightarrow> pydict \<Rightarrow> pydict \<Rightarrow> pyval \<Rightarrow> (gw_state, pydict) prog" where
  "audit_created env actor row details client_ip =
     sbind (log_audit env actor ''create'' ''certificate'' (PStr (py_str (py_get row ''id''))) details
              client_ip)
       (\<lambda>_. sret (decorate_with_status env row))"

definition generate_ca ::
  "gw_env \<Rightarrow> crypto_env \<Rightarrow> gw_actor \<Rightarrow> ca_request \<Rightarrow> pyval \<Rightarrow> (gw_state, pydict) prog" where
  "generate_ca env ce actor req client_ip =
     sbind (slift (generate_ca_keypair ce (ca_common_name req) (ca_organization req) (ca_country req)
              (ca_validity_days req) (ca_key_size req))) (\<lambda>(cert_pem, key_pem).
     sbind (slift (parse_cert_metadata ce cert_pem)) (\<lambda>meta.
     sbind (write_cert_files env ''ca'' (ca_name req) cert_pem key_pem) (\<lambda>_.
     sbind (insert_cert env actor ''ca'' (ca_name req) cert_pem (PStr key_pem) meta PNone PNone True False)
       (\<lambda>row.
     audit_created env actor row
       [(''cert_type'', PStr ''ca''), (''name'', PStr (ca_name req)),
        (''common_name'', PStr (ca_common_name req))] client_ip))))"

definition san_value :: "server_request \<Rightarrow> pyval" where
  "san_value req =
     (let san_list = sr_san_dns req @ sr_san_ips req
      in if san_list = [] then PNone else PList (map PStr san_list))"

definition generate_server ::
  "gw_env \<Rightarrow> crypto_env \<Rightarrow> gw_actor \<Rightarrow> server_request \<Rightarrow> pyval \<Rightarrow> (gw_state, pydict) prog" where
  "generate_server env ce actor req client_ip =
     sbind (repo_lookup_active_ca env (ac_tenant actor)) (\<lambda>ca_row.
       case ca_row of
         None \<Rightarrow> sraise (invalid (''No active CA certificate found. '' @
                   ''Generate or activate a CA first.''))
       | Some ca \<Rightarrow>
           sbind (slift (generate_server_keypair ce (sr_common_name req) (sr_san_dns req)
                    (sr_san_ips req) (sr_validity_days req) (sr_key_size req)
                    (py_str (py_get ca ''pem_data'')) (py_get ca ''key_pem_encrypted'')))
             (\<lambda>(cert_pem, key_pem).
           sbind (slift (parse_cert_metadata ce cert_pem)) (\<lambda>meta.
           sbind (write_cert_files env ''server'' (sr_name req) cert_pem key_pem) (\<lambda>_.
           sbind (insert_cert env actor ''server'' (sr_name req) cert_pem (PStr key_pem) meta PNone
                    (san_value req) False False) (\<lambda>row.
           audit_created env actor row
             [(''cert_type'', PStr ''server''), (''name'', PStr (sr_name req)),
              (''common_name'', PStr (sr_common_name req))] client_ip)))))"

definition import_cert ::
  "gw_env \<Rightarrow> crypto_env \<Rightarrow> gw_actor \<Rightarrow> import_request \<Rightarrow> pyval \<Rightarrow> (gw_state, pydict) prog" where
  "import_cert env ce actor req client_ip =
     sbind (slift (parse_cert_metadata ce (im_cert_pem req))) (\<lambda>meta.
     sbind (slift (if truthy (im_key_pem req)
                   then validate_private_key_pem ce (py_str (im_key_pem req)) else Inr ())) (\<lambda>_.
     sbind (insert_cert env actor (im_cert_type req) (im_name req) (im_cert_pem req) (im_key_pem req)
              meta (im_chain_pem req) PNone (py_get meta ''is_self_signed'' = PBool True) True) (\<lambda>row.
     audit_created env actor row
       [(''cert_type'', PStr (im_cert_type req)), (''name'', PStr (im_name req)),
        (''imported'', PBool True), (''common_name'', py_get meta ''common_name'')] client_ip)))"

definition activate_cert ::
  "gw_env \<Rightarrow> gw_actor \<Rightarrow> string \<Rightarrow> pyval \<Rightarrow> (gw_state, pydict) prog" where
  "activate_cert env actor cert_id client_ip =
     sbind (repo_lookup_cert_summary (ac_tenant actor) cert_id) (\<lambda>summary.
       case summary of
         None \<Rightarrow> sraise (not_found ''Certificate'' cert_id)
       | Some su \<Rightarrow>
           sbind (repo_deactivate_certs_of_type env (ac_tenant actor) (py_get su ''cert_type'')) (\<lambda>_.
           sbind (repo_set_cert_active env (ac_tenant actor) cert_id) (\<lambda>row.
             case row of
               None \<Rightarrow> sraise (not_found ''Certificate'' cert_id)
             | Some r \<Rightarrow>
                 sbind (log_audit env actor ''update'' ''certificate'' (PStr cert_id)
                          [(''action'', PStr ''activate''), (''cert_type'', py_get su ''cert_type''),
                           (''name'', py_get su ''name'')] client_ip) (\<lambda>_.
                 sbind (publish_freeradius_apply_for_cert env cert_id (py_get su ''cert_type'')) (\<lambda>_.
                   sret (decorate_with_status env r))))))"

definition delete_cert ::
  "gw_env \<Rightarrow> gw_actor \<Rightarrow> string \<Rightarrow> pyval \<Rightarrow> (gw_state, unit) prog" where
  "delete_cert env actor cert_id client_ip =
     sbind (repo_lookup_cert_summary (ac_tenant actor) cert_id) (\<lambda>summary.
       case summary of
         None \<Rightarrow> sraise (not_found ''Certificate'' cert_id)
       | Some su \<Rightarrow>
           if truthy (py_get su ''is_active'')
           then sraise (invalid (''Cannot delete an active certificate. '' @
                  ''Deactivate it first by activating another certificate.''))
           else
             sbind (repo_delete_cert env (ac_tenant actor) cert_id) (\<lambda>_.
             log_audit env actor ''delete'' ''certificate'' (PStr cert_id)
               [(''name'', py_get su ''name''), (''cert_type'', py_get su ''cert_type'')] client_ip))"

section \<open>Renewal\<close>

definition split_san_dns_ips :: "crypto_env \<Rightarrow> pyval \<Rightarrow> string list \<times> string list" where
  "split_san_dns_ips ce san_list =
     (let vs = (case san_list of PList xs \<Rightarrow> map py_str xs | _ \<Rightarrow> [])
      in (filter (\<lambda>v. \<not> cy_is_ip ce v) vs, filter (cy_is_ip ce) vs))"

text \<open>\<open>old_name[: 255 - len(suffix)] + suffix\<close>; a negative bound counts from the end.\<close>

definition slice_to :: "int \<Rightarrow> string \<Rightarrow> string" where
  "slice_to n s = (if 0 \<le> n then take (nat n) s else take (length s - nat (- n)) s)"

definition renewal_name :: "crypto_env \<Rightarrow> string \<Rightarrow> int \<Rightarrow> string" where
  "renewal_name ce old_name when =
     (let suffix = ''-renewed-'' @ cy_date ce when
      in slice_to (255 - int (length suffix)) old_name @ suffix)"

definition renewal_validity_days :: "pydict \<Rightarrow> int" where
  "renewal_validity_days old =
     (case (py_get old ''not_before'', py_get old ''not_after'') of
        (PInt b, PInt a) \<Rightarrow> max 1 ((a - b) div seconds_per_day)
      | _ \<Rightarrow> 730)"

definition in_length :: "string \<Rightarrow> bool" where
  "in_length s \<longleftrightarrow> 1 \<le> length s \<and> length s \<le> 255"

text \<open>\<open>GenerateServerRequest\<close> with its bounds.\<close>

definition check_server_request :: "server_request \<Rightarrow> server_request result" where
  "check_server_request req =
     (if in_length (sr_name req) \<and> in_length (sr_common_name req)
         \<and> 1 \<le> sr_validity_days req \<and> sr_validity_days req \<le> 3650
         \<and> 2048 \<le> sr_key_size req \<and> sr_key_size req \<le> 8192
      then Inr req else Inl (ValueError ''GenerateServerRequest''))"

definition renewal_request :: "crypto_env \<Rightarrow> int \<Rightarrow> pydict \<Rightarrow> server_request result" where
  "renewal_request ce now old =
     (let (san_dns, san_ips) = split_san_dns_ips ce (py_get old ''subject_alt_names'')
      in check_server_request
           \<lparr>sr_name = renewal_name ce (py_str (py_get old ''name'')) now,
            sr_common_name = py_str (py_or (py_get old ''common_name'') (py_get old ''name'')),
            sr_san_dns = san_dns, sr_san_ips = san_ips,
            sr_validity_days = renewal_validity_days old,
            sr_key_size = (case py_or (py_get old ''key_size'') (PInt 2048) of PInt k \<Rightarrow> k | _ \<Rightarrow> 2048)\<rparr>)"

definition renew_one ::
  "gw_env \<Rightarrow> crypto_env \<Rightarrow> gw_actor \<Rightarrow> pydict \<Rightarrow> (gw_state, string) prog" where
  "renew_one env ce actor old =
     sbind (slift (renewal_request ce (ge_now env) old)) (\<lambda>req.
     sbind (generate_server env ce actor req PNone) (\<lambda>new_row.
     sbind (activate_cert env actor (py_str (py_get new_row ''id'')) PNone) (\<lambda>_.
       sret (sr_name req))))"

text \<open>The summary: how many were looked at, the names renewed, and what went wrong with which.\<close>

record renewal_summary =
  rs_checked :: int
  rs_renewed :: "string list"
  rs_errors :: "(pyval \<times> pyerr) list"

fun renew_each ::
  "gw_env \<Rightarrow> crypto_env \<Rightarrow> gw_actor \<Rightarrow> pydict list \<Rightarrow> renewal_summary
   \<Rightarrow> (gw_state, renewal_summary) prog" where
  "renew_each env ce actor [] su = sret su"
| "renew_each env ce actor (old # olds) su =
     sbind (attempt (renew_one env ce actor old)) (\<lambda>r.
       renew_each env ce actor olds
         (case r of
            Inr name \<Rightarrow> su\<lparr>rs_renewed := rs_renewed su @ [name]\<rparr>
          | Inl e \<Rightarrow> su\<lparr>rs_errors := rs_errors su @ [(py_get old ''name'', e)]\<rparr>))"

definition auto_renew_expiring_server_certs ::
  "gw_env \<Rightarrow> crypto_env \<Rightarrow> gw_actor \<Rightarrow> int \<Rightarrow> (gw_state, renewal_summary) prog" where
  "auto_renew_expiring_server_certs env ce actor threshold_days =
     sbind (repo_list_renewable_server_certs_within env (ac_tenant actor) threshold_days)
       (\<lambda>candidates. renew_each env ce actor candidates
          \<lparr>rs_checked = int (length candidates), rs_renewed = [], rs_errors = []\<rparr>)"

text \<open>\<open>auto_renewal.py\<close>: the threshold from the environment, the actor, one pass.\<close>

definition renew_threshold_days :: "string option \<Rightarrow> int" where
  "renew_threshold_days raw =
     (case parse_int (case raw of None \<Rightarrow> ''30'' | Some r \<Rightarrow> r) of
        None \<Rightarrow> 30 | Some v \<Rightarrow> if 0 < v then v else 30)"

definition resolve_system_actor :: "(gw_state, gw_actor option) prog" where
  "resolve_system_actor =
     sbind (select_rows ''tenants'' (where_eq [(''name'', PStr ''default'')])) (\<lambda>tenants.
     sbind (select_first ''users'' [''id'', ''tenant_id'']
              (\<lambda>u. where_eq [(''username'', PStr ''admin'')] u
                 \<and> list_ex (\<lambda>t. sql_eq (py_get u ''tenant_id'') (py_get t ''id'')) tenants)) (\<lambda>row.
       sret (map_option (\<lambda>r. \<lparr>ac_sub = py_str (py_get r ''id''),
         ac_tenant = py_str (py_get r ''tenant_id''), ac_username = None\<rparr>) row)))"

definition run_auto_renewal_once ::
  "gw_env \<Rightarrow> crypto_env \<Rightarrow> string option \<Rightarrow> (gw_state, renewal_summary) prog" where
  "run_auto_renewal_once env ce threshold =
     sbind resolve_system_actor (\<lambda>actor.
       case actor of
         None \<Rightarrow> sret \<lparr>rs_checked = 0, rs_renewed = [],
           rs_errors = [(PNone, RuntimeError (''auto-renewal actor unresolved: no `admin` user under '' @
             ''the `default` tenant. Check migrations/seed.sql.''))]\<rparr>
       | Some a \<Rightarrow> auto_renew_expiring_server_certs env ce a (renew_threshold_days threshold))"

section \<open>Isolation of tenants\<close>

lemma cert_vals_ok:
  "dict_ok (cert_vals tenant u flds c)"
  "dict_get (cert_vals tenant u flds c) ''tenant_id'' = Some (PStr tenant)"
  "dict_get (cert_vals tenant u flds c) ''is_active'' = Some (PBool False)"
  by (simp_all add: cert_vals_def project_def dict_ok_def)

lemma cert_repo_isolates [isolation_intros]:
  "isolates tenant (repo_lookup_cert_summary t i)"
  "isolates tenant (with_plain_key env row)"
  "isolates tenant (repo_insert_cert env tenant u flds)"
  "isolates tenant (repo_deactivate_certs_of_type env tenant ty)"
  "isolates tenant (repo_set_cert_active env tenant i)"
  "isolates tenant (repo_delete_cert env tenant i)"
  unfolding repo_lookup_cert_summary_def with_plain_key_def repo_insert_cert_def
    repo_deactivate_certs_of_type_def repo_set_cert_active_def repo_delete_cert_def
  by (intro isolation_intros cert_vals_ok; simp add: stamp_def)+

lemma cert_parts_isolate [isolation_intros]:
  "isolates tenant (repo_lookup_active_ca env t)"
  "isolates tenant (write_cert_files env dir name c key)"
  "isolates tenant (audit_created env actor row details ip)"
  "isolates tenant (publish_freeradius_apply_for_cert env i v)"
  "isolates (ac_tenant actor) (insert_cert env actor ty n c k m ch san ss imp)"
  unfolding repo_lookup_active_ca_def write_cert_files_def audit_created_def Let_def
    publish_freeradius_apply_for_cert_def insert_cert_def
  by (intro isolation_intros)+

lemma cert_service_isolates [isolation_intros]:
  "isolates (ac_tenant actor) (generate_ca env ce actor ca ip)"
  "isolates (ac_tenant actor) (generate_server env ce actor sr ip)"
  "isolates (ac_tenant actor) (import_cert env ce actor im ip)"
  "isolates (ac_tenant actor) (activate_cert env actor i ip)"
  "isolates (ac_tenant actor) (delete_cert env actor i ip)"
  unfolding generate_ca_def generate_server_def import_cert_def activate_cert_def delete_cert_def
  by (intro isolation_intros)+

lemma renew_one_isolates [isolation_intros]:
  "isolates (ac_tenant actor) (renew_one env ce actor old)"
  unfolding renew_one_def by (intro isolation_intros)

lemma renew_each_isolates [isolation_intros]:
  "isolates (ac_tenant actor) (renew_each env ce actor olds su)"
  by (induction olds arbitrary: su) (auto intro!: isolation_intros)

lemma auto_renew_isolates [isolation_intros]:
  "isolates (ac_tenant actor) (auto_renew_expiring_server_certs env ce actor n)"
  unfolding auto_renew_expiring_server_certs_def repo_list_renewable_server_certs_within_def
  by (intro isolation_intros)

section \<open>One active certificate of a type\<close>

definition active_as :: "string \<Rightarrow> string \<Rightarrow> pydict \<Rightarrow> bool" where
  "active_as tenant ty row \<longleftrightarrow> py_get row ''tenant_id'' = PStr tenant
     \<and> py_get row ''cert_type'' = PStr ty \<and> py_get row ''is_active'' = PBool True"

definition one_active :: "pydict list \<Rightarrow> bool" where
  "one_active rows \<longleftrightarrow> (\<forall>tenant ty. length (filter (active_as tenant ty) rows) \<le> 1)"

abbreviation cert_rows :: "(string \<Rightarrow> pydict list) \<Rightarrow> pydict list" where
  "cert_rows tables \<equiv> tables ''certificates''"

definition certs_ok :: "(string \<Rightarrow> pydict list) \<Rightarrow> bool" where
  "certs_ok tables \<longleftrightarrow> keyed (cert_rows tables) \<and> one_active (cert_rows tables)"

lemma cert_keyed: "''certificates'' \<in> set keyed_tables"
  by (simp add: keyed_tables_def)

lemma one_active_snoc:
  "one_active rows \<Longrightarrow> py_get row ''is_active'' = PBool False \<Longrightarrow> one_active (rows @ [row])"
  by (simp add: one_active_def active_as_def)

lemma one_active_filter: "one_active rows \<Longrightarrow> one_active (filter P rows)"
  unfolding one_active_def
proof (intro allI)
  fix tenant ty
  assume "\<forall>tenant ty. length (filter (active_as tenant ty) rows) \<le> 1"
  moreover have "length (filter (active_as tenant ty) (filter P rows)) \<le>
      length (filter (active_as tenant ty) rows)"
    by (induction rows) auto
  ultimately show "length (filter (active_as tenant ty) (filter P rows)) \<le> 1"
    by (meson le_trans)
qed

lemma flag_get:
  assumes "sets = (''is_active'', PBool b) # stamp env ''updated_at''"
  shows "py_get (assign sets r) ''is_active'' = PBool b"
    and "k \<noteq> ''is_active'' \<Longrightarrow> k \<noteq> ''updated_at'' \<Longrightarrow> py_get (assign sets r) k = py_get r k"
proof -
  have "dict_ok sets" by (simp add: assms stamp_def dict_ok_def)
  then show "py_get (assign sets r) ''is_active'' = PBool b"
    by (rule assign_last) (simp add: assms)
  show "k \<noteq> ''is_active'' \<Longrightarrow> k \<noteq> ''updated_at'' \<Longrightarrow> py_get (assign sets r) k = py_get r k"
    by (rule assign_get) (simp add: assms stamp_def)
qed

text \<open>Clearing the flag on any rows can only lower the counts.\<close>

lemma length_filter_map_le:
  "(\<And>r. r \<in> set rows \<Longrightarrow> P (f r) \<Longrightarrow> P r) \<Longrightarrow>
   length (filter P (map f rows)) \<le> length (filter P rows)"
  by (induction rows) (auto simp: le_Suc_eq)

lemma one_active_cleared:
  assumes "one_active rows" and "\<And>r. py_get (f r) ''is_active'' = PBool False"
  shows "one_active (map (\<lambda>r. if P r then f r else r) rows)"
  unfolding one_active_def
proof (intro allI)
  fix tenant ty
  have "length (filter (active_as tenant ty) (map (\<lambda>r. if P r then f r else r) rows)) \<le>
      length (filter (active_as tenant ty) rows)"
    by (rule length_filter_map_le) (auto simp: active_as_def assms(2) split: if_splits)
  also have "\<dots> \<le> 1" using assms(1) by (simp add: one_active_def)
  finally show "length (filter (active_as tenant ty) (map (\<lambda>r. if P r then f r else r) rows)) \<le> 1" .
qed

text \<open>Setting it on one row is fine when no row of its tenant and type has it.\<close>

lemma one_active_set:
  assumes "one_active rows" and "keyed rows"
    and ty: "\<And>r. r \<in> set rows \<Longrightarrow> by_id tenant i r \<Longrightarrow> py_get r ''cert_type'' = ty"
    and none: "\<And>r t. r \<in> set rows \<Longrightarrow> ty = PStr t \<Longrightarrow> \<not> active_as tenant t r"
    and f: "\<And>r. py_get (f r) ''tenant_id'' = py_get r ''tenant_id''"
      "\<And>r. py_get (f r) ''cert_type'' = py_get r ''cert_type''"
  shows "one_active (map (\<lambda>r. if by_id tenant i r then f r else r) rows)"
    (is "one_active (map ?g rows)")
proof (cases "\<exists>r \<in> set rows. by_id tenant i r")
  case False
  then have "map ?g rows = rows" by (auto intro!: map_idI)
  with assms(1) show ?thesis by simp
next
  case True
  then obtain r where r: "r \<in> set rows" "by_id tenant i r" by blast
  obtain xs ys where rows: "rows = xs @ r # ys"
    and other: "\<forall>x \<in> set xs \<union> set ys. \<not> by_id tenant i x"
    using keyed_split [OF assms(2) r] by blast
  have new: "map ?g rows = xs @ f r # ys"
    using other r(2) unfolding rows by (auto intro!: map_idI)
  show ?thesis
    unfolding one_active_def new
  proof (intro allI)
    fix t u
    have old: "length (filter (active_as t u) xs) + length (filter (active_as t u) ys) \<le> 1"
    proof -
      have "length (filter (active_as t u) rows) \<le> 1" using assms(1) by (simp add: one_active_def)
      then show ?thesis unfolding rows by (simp split: if_splits)
    qed
    show "length (filter (active_as t u) (xs @ f r # ys)) \<le> 1"
    proof (cases "active_as t u (f r)")
      case True
      then have "t = tenant" "ty = PStr u"
        using r ty [OF r] by (auto simp: active_as_def f by_id_iff)
      then have "\<forall>x \<in> set xs \<union> set ys. \<not> active_as t u x"
        using none unfolding rows by simp
      then show ?thesis by (simp add: filter_empty_conv)
    next
      case False
      with old show ?thesis by simp
    qed
  qed
qed

lemma insert_keeps_one_active:
  assumes "primary_keys env"
  shows "triple (\<lambda>d. certs_ok (gd_table d)) (insert_cert env actor ty n c k m ch san ss imp)
    (\<lambda>_ d. certs_ok (gd_table d)) (\<lambda>d. certs_ok (gd_table d))"
  unfolding insert_cert_def repo_insert_cert_def
proof (rule triple_sbind [OF triple_neutral], rule neutral_intros, rule triple_insert)
  fix d d' :: gw_db and row vals cipher
  assume old: "certs_ok (gd_table d)"
    and row: "row = assign (cert_vals (ac_tenant actor) (ac_sub actor) vals cipher) (dict_set ''id''
      (PStr (ge_uuid env (gd_seq d))) (ge_defaults env ''certificates''))"
    and d': "gd_table d' = (gd_table d)(''certificates'' := cert_rows (gd_table d) @ [row])"
    and ok: "ge_constraint env (gd_table d') = None"
  have "py_get row ''is_active'' = PBool False"
    unfolding row by (rule assign_last) (simp_all add: cert_vals_ok)
  with old d' primary_keysD [OF assms ok cert_keyed]
  show "certs_ok (gd_table d')" by (simp add: certs_ok_def one_active_snoc)
qed simp

lemma activate_keeps_one_active:
  assumes "primary_keys env"
  shows "triple (\<lambda>d. certs_ok (gd_table d)) (activate_cert env actor i ip)
    (\<lambda>_ d. certs_ok (gd_table d)) (\<lambda>d. certs_ok (gd_table d))"
    (is "triple ?P _ _ _")
proof -
  let ?t = "ac_tenant actor"
  let ?typed = "\<lambda>ty d. certs_ok (gd_table d) \<and>
    (\<forall>r \<in> set (cert_rows (gd_table d)). by_id ?t i r \<longrightarrow> py_get r ''cert_type'' = ty)"
  let ?ready = "\<lambda>ty d. ?typed ty d \<and>
    (\<forall>r \<in> set (cert_rows (gd_table d)). \<forall>t. ty = PStr t \<longrightarrow> \<not> active_as ?t t r)"
  have same: "r' = r" if "keyed rows" "r \<in> set rows" "r' \<in> set rows" "by_id ?t i r" "by_id ?t i r'"
    for rows r r'
  proof -
    note facts = that
    obtain xs ys where "rows = xs @ r # ys" "\<forall>x \<in> set xs \<union> set ys. \<not> by_id ?t i x"
      using keyed_split facts(1,2,4) by blast
    with facts show ?thesis by auto
  qed
  have look: "triple ?P (repo_lookup_cert_summary ?t i)
      (\<lambda>su d. case su of None \<Rightarrow> ?P d | Some ex \<Rightarrow> ?typed (py_get ex ''cert_type'') d) ?P"
    unfolding repo_lookup_cert_summary_def
  proof (rule triple_select_first)
    fix d r assume P: "?P d" and r: "r \<in> set (cert_rows (gd_table d))" "by_id ?t i r"
    then have "\<forall>r' \<in> set (cert_rows (gd_table d)). by_id ?t i r' \<longrightarrow> r' = r"
      using same unfolding certs_ok_def by blast
    with P show "case Some (project [''id'', ''cert_type'', ''name'', ''is_active''] r) of None \<Rightarrow> ?P d
        | Some ex \<Rightarrow> ?typed (py_get ex ''cert_type'') d"
      by (auto simp: py_get_project)
  qed simp_all
  have off: "triple (?typed ty) (repo_deactivate_certs_of_type env ?t ty) (\<lambda>_. ?ready ty) ?P" for ty
    unfolding repo_deactivate_certs_of_type_def
  proof (rule triple_sbind [OF triple_update])
    fix d d' :: gw_db
    let ?sets = "(''is_active'', PBool False) # stamp env ''updated_at''"
    let ?C = "where_eq [(''cert_type'', ty), (''tenant_id'', PStr ?t)]"
    assume pre: "?typed ty d"
      and d': "gd_table d' = (gd_table d)(''certificates'' :=
        map (\<lambda>r. if ?C r then assign ?sets r else r) (cert_rows (gd_table d)))"
      and ok: "ge_constraint env (gd_table d') = None"
    note get = flag_get [OF refl, where b = False and env = env]
    have "one_active (cert_rows (gd_table d'))"
      using pre by (simp add: d' certs_ok_def one_active_cleared get)
    with primary_keysD [OF assms ok cert_keyed] have "certs_ok (gd_table d')" by (simp add: certs_ok_def)
    moreover have "\<forall>r \<in> set (cert_rows (gd_table d')). by_id ?t i r \<longrightarrow> py_get r ''cert_type'' = ty"
      using pre by (auto simp: d' get by_id_iff split: if_splits)
    moreover have "\<forall>r \<in> set (cert_rows (gd_table d')). \<forall>t. ty = PStr t \<longrightarrow> \<not> active_as ?t t r"
      by (auto simp: d' get active_as_def where_eq_def sql_eq_def split: if_splits)
    ultimately show "?ready ty d'" by blast
  qed (auto intro!: triple_sret)
  have on: "triple (?ready ty) (repo_set_cert_active env ?t i) (\<lambda>_. ?P) ?P" for ty
    unfolding repo_set_cert_active_def
  proof (rule triple_sbind [OF triple_update])
    fix d d' :: gw_db
    let ?sets = "(''is_active'', PBool True) # stamp env ''updated_at''"
    assume pre: "?ready ty d"
      and d': "gd_table d' = (gd_table d)(''certificates'' :=
        map (\<lambda>r. if by_id ?t i r then assign ?sets r else r) (cert_rows (gd_table d)))"
      and ok: "ge_constraint env (gd_table d') = None"
    note get = flag_get [OF refl, where b = True and env = env]
    have "one_active (map (\<lambda>r. if by_id ?t i r then assign ?sets r else r) (cert_rows (gd_table d)))"
    proof (rule one_active_set)
      show "one_active (cert_rows (gd_table d))" "keyed (cert_rows (gd_table d))"
        using pre by (simp_all add: certs_ok_def)
    qed (use pre in \<open>auto simp: get\<close>)
    with primary_keysD [OF assms ok cert_keyed] d' show "?P d'" by (simp add: certs_ok_def)
  qed (auto intro!: triple_sret)
  show ?thesis
    unfolding activate_cert_def
  proof (rule triple_sbind [OF look])
    fix su
    show "triple (\<lambda>d. case su of None \<Rightarrow> ?P d | Some ex \<Rightarrow> ?typed (py_get ex ''cert_type'') d)
      (case su of None \<Rightarrow> sraise (not_found ''Certificate'' i)
       | Some su \<Rightarrow>
           sbind (repo_deactivate_certs_of_type env ?t (py_get su ''cert_type'')) (\<lambda>_.
           sbind (repo_set_cert_active env ?t i) (\<lambda>row.
             case row of None \<Rightarrow> sraise (not_found ''Certificate'' i)
             | Some r \<Rightarrow>
                 sbind (log_audit env actor ''update'' ''certificate'' (PStr i)
                          [(''action'', PStr ''activate''), (''cert_type'', py_get su ''cert_type''),
                           (''name'', py_get su ''name'')] ip) (\<lambda>_.
                 sbind (publish_freeradius_apply_for_cert env i (py_get su ''cert_type'')) (\<lambda>_.
                   sret (decorate_with_status env r)))))) (\<lambda>_. ?P) ?P"
    proof (cases su)
      case (Some ex)
      show ?thesis
        unfolding Some option.case publish_freeradius_apply_for_cert_def
        by (rule triple_sbind [OF off], rule triple_sbind [OF on])
          (intro triple_neutral neutral_intros)
    qed (simp add: triple_sraise)
  qed
qed

text \<open>The remaining operations insert, delete, or compose what was shown above.\<close>

lemma write_cert_files_neutral [neutral_intros]: "table_neutral (write_cert_files env d n c k)"
  unfolding write_cert_files_def Let_def by (intro neutral_intros)

lemma active_ca_neutral [neutral_intros]: "table_neutral (repo_lookup_active_ca env t)"
  unfolding repo_lookup_active_ca_def with_plain_key_def by (intro neutral_intros)

lemma audit_created_neutral [neutral_intros]:
  "table_neutral (audit_created env actor row details ip)"
  unfolding audit_created_def by (intro neutral_intros)

lemma triple_case_prod:
  "(\<And>a b. triple P (f a b) Q E) \<Longrightarrow> triple P (case p of (a, b) \<Rightarrow> f a b) Q E"
  by (simp split: prod.split)

lemmas triple_seq = triple_sbind [OF triple_neutral]

lemma creations_keep_one_active:
  assumes "primary_keys env"
  shows "triple (\<lambda>d. certs_ok (gd_table d)) (generate_ca env ce actor ca ip)
      (\<lambda>_ d. certs_ok (gd_table d)) (\<lambda>d. certs_ok (gd_table d))"
    and "triple (\<lambda>d. certs_ok (gd_table d)) (generate_server env ce actor sr ip)
      (\<lambda>_ d. certs_ok (gd_table d)) (\<lambda>d. certs_ok (gd_table d))"
    and "triple (\<lambda>d. certs_ok (gd_table d)) (import_cert env ce actor im ip)
      (\<lambda>_ d. certs_ok (gd_table d)) (\<lambda>d. certs_ok (gd_table d))"
  unfolding generate_ca_def generate_server_def import_cert_def
  by (intro triple_seq triple_case_prod triple_case_option neutral_intros triple_sraise
      triple_sbind [OF insert_keeps_one_active [OF assms]] triple_neutral; assumption)+

lemma delete_keeps_one_active:
  assumes "primary_keys env"
  shows "triple (\<lambda>d. certs_ok (gd_table d)) (delete_cert env actor i ip)
    (\<lambda>_ d. certs_ok (gd_table d)) (\<lambda>d. certs_ok (gd_table d))"
proof -
  have "triple (\<lambda>d. certs_ok (gd_table d)) (repo_delete_cert env t i)
      (\<lambda>_ d. certs_ok (gd_table d)) (\<lambda>d. certs_ok (gd_table d))" for t
    unfolding repo_delete_cert_def
  proof (rule triple_sbind [OF triple_delete])
    fix d d' :: gw_db
    assume "certs_ok (gd_table d)" and ok: "ge_constraint env (gd_table d') = None"
      and "gd_table d' = (gd_table d)(''certificates'' :=
        filter (\<lambda>r. \<not> by_id t i r) (cert_rows (gd_table d)))"
    with primary_keysD [OF assms ok cert_keyed] show "certs_ok (gd_table d')"
      by (simp add: certs_ok_def one_active_filter)
  qed (auto intro: triple_sret)
  note deleted = this
  show ?thesis
    unfolding delete_cert_def repo_lookup_cert_summary_def
    by (intro triple_seq neutral_intros triple_case_option triple_if triple_sraise
        triple_sbind [OF deleted] triple_neutral; assumption)
qed

lemma renew_keeps_one_active:
  assumes "primary_keys env"
  shows "triple (\<lambda>d. certs_ok (gd_table d)) (renew_each env ce actor olds su)
    (\<lambda>_ d. certs_ok (gd_table d)) (\<lambda>d. certs_ok (gd_table d))"
proof (induction olds arbitrary: su)
  case Nil
  show ?case unfolding renew_each.simps by (rule triple_sret)
next
  case (Cons old olds)
  have "triple (\<lambda>d. certs_ok (gd_table d)) (renew_one env ce actor old)
      (\<lambda>_ d. certs_ok (gd_table d)) (\<lambda>d. certs_ok (gd_table d))"
    unfolding renew_one_def
    by (intro triple_seq neutral_intros triple_sbind [OF creations_keep_one_active(2) [OF assms]]
        triple_sbind [OF activate_keeps_one_active [OF assms]] triple_neutral)
  from triple_sbind [OF triple_attempt [OF this] Cons.IH] show ?case unfolding renew_each.simps .
qed

text \<open>
  C11: At most one certificate of a type is active in a tenant. Generating, importing, activating
  and deleting certificates and the renewal pass all preserve it, whether they succeed or raise
  and with whatever the crypto library answers.
\<close>

theorem one_active_certificate:
  assumes "primary_keys env" and "certs_ok (gd_table (gs_db s))"
  shows "certs_ok (gd_table (gs_db (snd (generate_ca env ce actor ca ip s))))
    \<and> certs_ok (gd_table (gs_db (snd (generate_server env ce actor sr ip s))))
    \<and> certs_ok (gd_table (gs_db (snd (import_cert env ce actor im ip s))))
    \<and> certs_ok (gd_table (gs_db (snd (activate_cert env actor i ip s))))
    \<and> certs_ok (gd_table (gs_db (snd (delete_cert env actor i ip s))))
    \<and> certs_ok (gd_table (gs_db (snd (auto_renew_expiring_server_certs env ce actor days s))))"
proof -
  note keep = creations_keep_one_active [OF assms(1)] activate_keeps_one_active [OF assms(1)]
    delete_keeps_one_active [OF assms(1)]
  have "triple (\<lambda>d. certs_ok (gd_table d)) (auto_renew_expiring_server_certs env ce actor days)
      (\<lambda>_ d. certs_ok (gd_table d)) (\<lambda>d. certs_ok (gd_table d))"
    unfolding auto_renew_expiring_server_certs_def repo_list_renewable_server_certs_within_def
    by (intro triple_seq neutral_intros renew_keeps_one_active [OF assms(1)])
  note all = keep this
  show ?thesis
    by (intro conjI; rule triple_snd [where J = "\<lambda>d. certs_ok (gd_table d)", OF all(1) assms(2)]
        triple_snd [where J = "\<lambda>d. certs_ok (gd_table d)", OF all(2) assms(2)]
        triple_snd [where J = "\<lambda>d. certs_ok (gd_table d)", OF all(3) assms(2)]
        triple_snd [where J = "\<lambda>d. certs_ok (gd_table d)", OF all(4) assms(2)]
        triple_snd [where J = "\<lambda>d. certs_ok (gd_table d)", OF all(5) assms(2)]
        triple_snd [where J = "\<lambda>d. certs_ok (gd_table d)", OF all(6) assms(2)])
qed

section \<open>Active certificates and deletion\<close>

abbreviation active_row :: "pydict \<Rightarrow> bool" where
  "active_row r \<equiv> py_get r ''is_active'' = PBool True"

text \<open>What a deletion does, by what the summary finds.\<close>

lemma delete_cert_unfold:
  assumes "\<not> gs_aborted s"
  shows "delete_cert env actor i ip s =
    (case first_row (filter (by_id (ac_tenant actor) i) (cert_rows (gd_table (gs_db s)))) of
       None \<Rightarrow> (Inl (not_found ''Certificate'' i), s)
     | Some r \<Rightarrow>
         if truthy (py_get r ''is_active'')
         then (Inl (invalid (''Cannot delete an active certificate. '' @
                 ''Deactivate it first by activating another certificate.'')), s)
         else sbind (repo_delete_cert env (ac_tenant actor) i) (\<lambda>_.
           log_audit env actor ''delete'' ''certificate'' (PStr i)
             [(''name'', py_get r ''name''), (''cert_type'', py_get r ''cert_type'')] ip) s)"
  using assms
  by (simp add: delete_cert_def repo_lookup_cert_summary_def select_first_def select_rows_def
      statement_def sbind_def [of "\<lambda>s. _ s"] sbind_def [of "sbind _ _"] py_get_project split: option.split)

lemma delete_keeps_active_rows:
  assumes "\<forall>r \<in> set (cert_rows (gd_table (gs_db s))). by_id t i r \<longrightarrow> \<not> active_row r"
  shows "filter active_row (cert_rows (gd_table (gs_db (snd (sbind (repo_delete_cert env t i)
      (\<lambda>_. log_audit env actor action rt rid details ip) s)))))
    = filter active_row (cert_rows (gd_table (gs_db s)))"
proof -
  let ?rows = "cert_rows (gd_table (gs_db s))"
  let ?J = "\<lambda>d. filter active_row (cert_rows (gd_table d)) = filter active_row ?rows"
  have same: "filter active_row (filter (\<lambda>r. \<not> by_id t i r) ?rows) = filter active_row ?rows"
    using assms by (auto intro!: filter_cong)
  have "triple (\<lambda>d. gd_table d = gd_table (gs_db s)) (repo_delete_cert env t i) (\<lambda>_. ?J) ?J"
    unfolding repo_delete_cert_def
  proof (rule triple_sbind)
    show "triple (\<lambda>d. gd_table d = gd_table (gs_db s)) (delete_rows env ''certificates'' (by_id t i))
        (\<lambda>_. ?J) ?J"
      by (rule triple_delete) (use same in auto)
  qed (simp add: triple_sret)
  then have "triple (\<lambda>d. gd_table d = gd_table (gs_db s)) (sbind (repo_delete_cert env t i)
      (\<lambda>_. log_audit env actor action rt rid details ip)) (\<lambda>_. ?J) ?J"
    by (rule triple_sbind) (rule triple_audit)
  from triple_snd [where J = ?J, OF this] show ?thesis by simp
qed

text \<open>
  An active certificate is never deleted. Whatever \<open>delete_cert\<close> is asked and however it
  ends, the active certificates of every tenant are the ones before, and asked to delete an
  active one of the tenant it answers with a 400 and changes nothing.
\<close>

theorem active_never_deleted:
  assumes "keyed (cert_rows (gd_table (gs_db s)))" and "\<not> gs_aborted s"
  shows "filter active_row (cert_rows (gd_table (gs_db (snd (delete_cert env actor i ip s)))))
      = filter active_row (cert_rows (gd_table (gs_db s)))
    \<and> ((\<exists>r \<in> set (cert_rows (gd_table (gs_db s))). by_id (ac_tenant actor) i r \<and> active_row r) \<longrightarrow>
       (\<exists>e. delete_cert env actor i ip s = (Inl e, s) \<and> status_of e = 400))"
proof (cases "\<exists>r \<in> set (cert_rows (gd_table (gs_db s))). by_id (ac_tenant actor) i r")
  case False
  then have "filter (by_id (ac_tenant actor) i) (cert_rows (gd_table (gs_db s))) = []"
    by (simp add: filter_empty_conv)
  with False assms(2) show ?thesis by (auto simp: delete_cert_unfold first_row_def)
next
  case True
  then obtain r where r: "r \<in> set (cert_rows (gd_table (gs_db s)))" "by_id (ac_tenant actor) i r" by blast
  obtain xs ys where rows: "cert_rows (gd_table (gs_db s)) = xs @ r # ys"
    and other: "\<forall>x \<in> set xs \<union> set ys. \<not> by_id (ac_tenant actor) i x"
    using keyed_split [OF assms(1) r] by blast
  then have only: "filter (by_id (ac_tenant actor) i) (cert_rows (gd_table (gs_db s))) = [r]"
    using r(2) by (simp add: filter_empty_conv)
  show ?thesis
  proof (cases "truthy (py_get r ''is_active'')")
    case True
    with assms(2) only show ?thesis by (simp add: delete_cert_unfold first_row_def invalid_def)
  next
    case False
    then have "\<forall>r \<in> set (cert_rows (gd_table (gs_db s))). by_id (ac_tenant actor) i r \<longrightarrow> \<not> active_row r"
      using rows other by auto
    with delete_keeps_active_rows [OF this] assms(2) only False show ?thesis
      by (simp add: delete_cert_unfold first_row_def) blast
  qed
qed

section \<open>Errors during a renewal pass\<close>

lemma or_error_db [abort_intros]:
  "(\<And>m msg. mk m \<noteq> DbError msg) \<Longrightarrow> no_db_error (or_error mk r)"
  by (simp add: no_db_error_def or_error_def split: sum.split)

lemma no_db_rbind [abort_intros]:
  "no_db_error r \<Longrightarrow> (\<And>x. no_db_error (f x)) \<Longrightarrow> no_db_error (rbind r f)"
  by (auto simp: no_db_error_def rbind_def split: sum.split)

lemma no_db_Inr [abort_intros]: "no_db_error (Inr x)"
  by (simp add: no_db_error_def)

lemma no_db_crypto [abort_intros]:
  "no_db_error (parse_cert_metadata ce pem)"
  "no_db_error (generate_server_keypair ce cn dns ips days bits ca key)"
  "no_db_error (renewal_request ce now old)"
proof -
  show "no_db_error (parse_cert_metadata ce pem)"
    unfolding parse_cert_metadata_def by (intro abort_intros) (simp add: invalid_def)
  show "no_db_error (generate_server_keypair ce cn dns ips days bits ca key)"
    unfolding generate_server_keypair_def
    by (auto simp: no_db_error_def or_error_def rbind_def split: sum.splits pyval.splits)
  show "no_db_error (renewal_request ce now old)"
    by (simp add: renewal_request_def check_server_request_def no_db_error_def split: prod.split)
qed

text \<open>The cipher of the secrets raises errors of its own, never one of the database.\<close>

definition secrets_sound :: "gw_env \<Rightarrow> bool" where
  "secrets_sound env \<longleftrightarrow> (\<forall>v. no_db_error (ge_encrypt env v) \<and> no_db_error (ge_decrypt env v))"

lemma abort_case_prod [abort_intros]:
  "(\<And>a b. abort_sound (f a b)) \<Longrightarrow> abort_sound (case p of (a, b) \<Rightarrow> f a b)"
  by (simp split: prod.split)

lemma write_cert_files_aborts [abort_intros]: "abort_sound (write_cert_files env d n c k)"
  unfolding write_cert_files_def Let_def by (intro abort_intros) (simp add: no_db_error_def)

lemma generate_server_aborts:
  assumes "secrets_sound env"
  shows "abort_sound (generate_server env ce actor req ip)"
  using assms
  unfolding generate_server_def repo_lookup_active_ca_def with_plain_key_def insert_cert_def
    repo_insert_cert_def audit_created_def secrets_sound_def
  by (intro abort_intros; simp)

lemma activate_cert_aborts: "abort_sound (activate_cert env actor i ip)"
  unfolding activate_cert_def repo_lookup_cert_summary_def repo_deactivate_certs_of_type_def
    repo_set_cert_active_def publish_freeradius_apply_for_cert_def
  by (intro abort_intros)

lemma renew_one_aborts:
  "secrets_sound env \<Longrightarrow> abort_sound (renew_one env ce actor old)"
  unfolding renew_one_def
  by (intro abort_intros generate_server_aborts activate_cert_aborts)

text \<open>An error of the database in the summary means the pass ends in an aborted transaction.\<close>

lemma renew_each_aborts:
  assumes "secrets_sound env" and "renew_each env ce actor olds su s = (Inr su', s')"
    and "gs_aborted s \<or> (\<exists>n msg. (n, DbError msg) \<in> set (rs_errors su') - set (rs_errors su))"
  shows "gs_aborted s'"
  using assms(2,3)
proof (induction olds arbitrary: su s)
  case (Cons old olds)
  obtain r s1 where step: "renew_one env ce actor old s = (r, s1)" by (cases "renew_one env ce actor old s")
  let ?su = "case r of
      Inr name \<Rightarrow> su\<lparr>rs_renewed := rs_renewed su @ [name]\<rparr>
    | Inl e \<Rightarrow> su\<lparr>rs_errors := rs_errors su @ [(py_get old ''name'', e)]\<rparr>"
  from Cons.prems(1) step have rest: "renew_each env ce actor olds ?su s1 = (Inr su', s')"
    by (simp add: sbind_def attempt_def)
  note sound = renew_one_aborts [OF assms(1), of ce actor old]
  show ?case
  proof (cases "gs_aborted s1")
    case True
    with Cons.IH [OF rest] show ?thesis by simp
  next
    case False
    then have live: "\<not> gs_aborted s" using abort_soundD(1) [OF sound, of s] step by auto
    with Cons.prems(2) obtain n msg where
      new: "(n, DbError msg) \<in> set (rs_errors su')" "(n, DbError msg) \<notin> set (rs_errors su)" by auto
    have "(n, DbError msg) \<notin> set (rs_errors ?su)"
    proof (cases r)
      case (Inl e)
      with abort_soundD(2) [OF sound] step False have "e \<noteq> DbError msg" by auto
      with Inl new show ?thesis by simp
    next
      case (Inr name)
      with new show ?thesis by simp
    qed
    with Cons.IH [OF rest] new show ?thesis by blast
  qed
qed auto

text \<open>
  A database error in a renewal pass undoes the whole pass. When the summary of a pass
  carries an error of the database, the tables and the audit log committed at its end are those
  of its beginning, also for the certificates the summary names as renewed.
\<close>

theorem failed_renewal_undoes_all:
  assumes "secrets_sound env"
    and "in_request (auto_renew_expiring_server_certs env ce actor days) s = (Inr summary, s')"
    and "(n, DbError msg) \<in> set (rs_errors summary)"
  shows "gs_committed s' = gs_committed s \<and> gs_db s' = gs_committed s"
proof -
  from assms(2) obtain s1 where
    run: "auto_renew_expiring_server_certs env ce actor days s = (Inr summary, s1)"
    and s': "s' = commit s1" by (auto simp: in_request_def split: prod.splits sum.splits)
  from run obtain olds s0 where "renew_each env ce actor olds
      \<lparr>rs_checked = int (length olds), rs_renewed = [], rs_errors = []\<rparr> s0 = (Inr summary, s1)"
    by (auto simp: auto_renew_expiring_server_certs_def sbind_def split: prod.splits sum.splits)
  from renew_each_aborts [OF assms(1) this] assms(3) have "gs_aborted s1" by auto
  have renew: "uncommitted (renew_each env ce actor olds su)" for olds su
  proof (induction olds arbitrary: su)
    case (Cons old olds)
    have "uncommitted (renew_one env ce actor old)"
      unfolding renew_one_def generate_server_def repo_lookup_active_ca_def with_plain_key_def
        insert_cert_def repo_insert_cert_def audit_created_def write_cert_files_def Let_def
        activate_cert_def repo_lookup_cert_summary_def repo_deactivate_certs_of_type_def
        repo_set_cert_active_def publish_freeradius_apply_for_cert_def
      by (intro uncommitted_intros)
    with Cons.IH show ?case unfolding renew_each.simps by (intro uncommitted_intros)
  qed (simp add: uncommitted_def)
  then have "uncommitted (auto_renew_expiring_server_certs env ce actor days)"
    unfolding auto_renew_expiring_server_certs_def repo_list_renewable_server_certs_within_def
    by (intro uncommitted_intros renew)
  then have "gs_committed s1 = gs_committed s" using run unfolding uncommitted_def by (metis snd_conv)
  with \<open>gs_aborted s1\<close> s' show ?thesis by (simp add: commit_def rollback_def)
qed

section \<open>Examples\<close>

definition ex_crypto_env :: crypto_env where
  "ex_crypto_env =
     \<lparr>cy_load_cert = (\<lambda>pem. Inr \<lparr>x_subject_names = [''radius''], x_issuer_names = [''ca''],
        x_issuer_text = ''CN=ca'', x_serial_number = 7, x_not_before = 0, x_not_after = 63072000,
        x_fingerprint = ''ab:cd'', x_key_type = ''RSAPublicKey'', x_key_size = Some 2048,
        x_issuer_is_subject = False\<rparr>),
      cy_load_key = (\<lambda>key. Inr ()), cy_issue = (\<lambda>t. Inr (''CERT'', ''KEY'')),
      cy_is_ip = (\<lambda>v. CHR '':'' \<in> set v), cy_date = (\<lambda>t. ''20260504'')\<rparr>"

definition ex_cert_rows :: "pydict list" where
  "ex_cert_rows =
     [[(''id'', PStr ''ca''), (''cert_type'', PStr ''ca''), (''name'', PStr ''ca''),
       (''is_active'', PBool True), (''pem_data'', PStr ''CA''), (''key_pem_encrypted'', PStr ''enc:K''),
       (''tenant_id'', PStr ''t1'')],
      [(''id'', PStr ''s1''), (''cert_type'', PStr ''server''), (''name'', PStr ''srv''),
       (''is_active'', PBool True), (''enabled'', PBool True), (''imported'', PBool False),
       (''not_before'', PInt 0), (''not_after'', PInt 2592000), (''pem_data'', PStr ''S''),
       (''tenant_id'', PStr ''t1'')]]"

definition ex_cert_state :: "pydict list \<Rightarrow> gw_state" where
  "ex_cert_state rows =
     (let d = \<lparr>gd_table = (\<lambda>t. if t = ''certificates'' then rows else []), gd_audit = [], gd_seq = 0\<rparr>
      in \<lparr>gs_db = d, gs_committed = d, gs_aborted = False, gs_published = [], gs_files = []\<rparr>)"

text \<open>The unique constraint on the name of a certificate in a tenant.\<close>

definition ex_cert_env :: gw_env where
  "ex_cert_env = ex_gw_env\<lparr>ge_constraint := (\<lambda>tables.
     if \<not> list_all (\<lambda>t. keyed (tables t)) keyed_tables then Some ''duplicate key''
     else if \<not> distinct (map (\<lambda>r. (py_get r ''name'', py_get r ''tenant_id'')) (cert_rows tables))
     then Some ''certificates_name_tenant_id_key'' else None)\<rparr>"

lemma ex_cert_keys: "primary_keys ex_cert_env"
  by (simp add: primary_keys_def ex_cert_env_def list_all_iff)

lemma ex_cert_rows_ok: "certs_ok (gd_table (gs_db (ex_cert_state ex_cert_rows)))"
proof -
  have rows: "cert_rows (gd_table (gs_db (ex_cert_state ex_cert_rows))) = ex_cert_rows"
    by (simp add: ex_cert_state_def Let_def)
  have "keyed ex_cert_rows"
    by (simp add: keyed_def ex_cert_rows_def py_get_def dict_get_or_def)
  moreover have "one_active ex_cert_rows"
    by (simp add: one_active_def active_as_def ex_cert_rows_def py_get_def dict_get_or_def)
  ultimately show ?thesis by (simp add: certs_ok_def rows)
qed

theorem one_active_certificate_witness:
  "certs_ok (gd_table (gs_db (snd (auto_renew_expiring_server_certs ex_cert_env ex_crypto_env ex_actor 60
     (ex_cert_state ex_cert_rows)))))
   \<and> (case auto_renew_expiring_server_certs ex_cert_env ex_crypto_env ex_actor 60 (ex_cert_state ex_cert_rows) of
        (Inr su, s) \<Rightarrow> rs_renewed su = [''srv-renewed-20260504'']
          \<and> map (\<lambda>r. py_get r ''name'') (filter (active_as ''t1'' ''server'') (gd_table (gs_db s) ''certificates''))
            = [PStr ''srv-renewed-20260504'']
      | _ \<Rightarrow> False)"
proof
  show "certs_ok (gd_table (gs_db (snd (auto_renew_expiring_server_certs ex_cert_env ex_crypto_env
      ex_actor 60 (ex_cert_state ex_cert_rows)))))"
    using one_active_certificate [OF ex_cert_keys ex_cert_rows_ok] by blast
qed code_simp

theorem active_never_deleted_witness:
  "\<exists>e. delete_cert ex_cert_env ex_actor ''s1'' PNone (ex_cert_state ex_cert_rows)
      = (Inl e, ex_cert_state ex_cert_rows) \<and> status_of e = 400"
proof -
  let ?s = "ex_cert_state ex_cert_rows"
  have rows: "cert_rows (gd_table (gs_db ?s)) = ex_cert_rows" and live: "\<not> gs_aborted ?s"
    by (simp_all add: ex_cert_state_def Let_def)
  have "keyed (cert_rows (gd_table (gs_db ?s)))" using ex_cert_rows_ok by (simp add: certs_ok_def)
  moreover have "\<exists>r \<in> set ex_cert_rows. by_id (ac_tenant ex_actor) ''s1'' r \<and> active_row r"
    by (simp add: ex_cert_rows_def by_id_iff py_get_def dict_get_or_def ex_actor_def)
  ultimately show ?thesis
    using active_never_deleted [of ?s ex_cert_env ex_actor "''s1''" PNone] live rows by auto
qed

definition ex_taken_rows :: "pydict list" where
  "ex_taken_rows = ex_cert_rows @
     [[(''id'', PStr ''s2''), (''cert_type'', PStr ''server''), (''name'', PStr ''srv-renewed-20260504''),
       (''is_active'', PBool False), (''tenant_id'', PStr ''t1'')]]"

theorem failed_renewal_undoes_all_witness:
  "\<exists>summary s'. in_request (auto_renew_expiring_server_certs ex_cert_env ex_crypto_env ex_actor 60)
       (ex_cert_state ex_taken_rows) = (Inr summary, s')
     \<and> rs_errors summary = [(PStr ''srv'', DbError ''certificates_name_tenant_id_key'')]
     \<and> gs_committed s' = gs_committed (ex_cert_state ex_taken_rows)
     \<and> map fst (gs_files s') = [''/opt/orw/certs/server/srv-renewed-20260504.pem'',
         ''/opt/orw/certs/server/srv-renewed-20260504.key'']"
proof -
  let ?run = "in_request (auto_renew_expiring_server_certs ex_cert_env ex_crypto_env ex_actor 60)
       (ex_cert_state ex_taken_rows)"
  have computed: "case ?run of (Inr su, s') \<Rightarrow>
        rs_errors su = [(PStr ''srv'', DbError ''certificates_name_tenant_id_key'')]
        \<and> map fst (gs_files s') = [''/opt/orw/certs/server/srv-renewed-20260504.pem'',
            ''/opt/orw/certs/server/srv-renewed-20260504.key'']
      | _ \<Rightarrow> False" by code_simp
  then obtain su s' where run: "?run = (Inr su, s')"
    and facts: "rs_errors su = [(PStr ''srv'', DbError ''certificates_name_tenant_id_key'')]"
      "map fst (gs_files s') = [''/opt/orw/certs/server/srv-renewed-20260504.pem'',
         ''/opt/orw/certs/server/srv-renewed-20260504.key'']"
    by (cases ?run) (auto split: sum.splits)
  have "secrets_sound ex_cert_env"
    by (simp add: secrets_sound_def ex_cert_env_def ex_gw_env_def no_db_error_def)
  from failed_renewal_undoes_all [OF this run] facts run show ?thesis by auto
qed

end
