(* ===== verification/Auth_Login.thy ===== *)
theory Auth_Login
  imports Gateway_Store
begin

text \<open>
  Authentication to the gateway: the login with its rate limit and lockout, the management of
  users and the own profile (\<open>services/gateway/features/auth\<close>), and the dependencies that read
  a token and check its role (\<open>services/gateway/middleware/auth.py\<close>). The counters live in
  Redis, modelled with the expiry of its keys; hashing of passwords and the encoding of tokens
  are parameters.
\<close>

section \<open>Redis\<close>

record redis_entry =
  re_value :: pyval
  re_expires :: "int option"

type_synonym redis = "string \<Rightarrow> redis_entry option"

definition redis_live :: "int \<Rightarrow> redis \<Rightarrow> string \<Rightarrow> redis_entry option" where
  "redis_live now r key =
     (case r key of
        None \<Rightarrow> None
      | Some e \<Rightarrow>
          (case re_expires e of
             None \<Rightarrow> Some e
           | Some t \<Rightarrow> if now < t then Some e else None))"

text \<open>\<open>INCR\<close> keeps the expiry of a key; a key that is gone starts at 1 without one.\<close>

definition redis_incr :: "int \<Rightarrow> string \<Rightarrow> redis \<Rightarrow> int result \<times> redis" where
  "redis_incr now key r =
     (case redis_live now r key of
        None \<Rightarrow> (Inr 1, r(key \<mapsto> \<lparr>re_value = PInt 1, re_expires = None\<rparr>))
      | Some e \<Rightarrow>
          (case re_value e of
             PInt n \<Rightarrow> (Inr (n + 1), r(key \<mapsto> e\<lparr>re_value := PInt (n + 1)\<rparr>))
           | _ \<Rightarrow> (Inl (RuntimeError ''value is not an integer or out of range''), r)))"

definition redis_expire :: "int \<Rightarrow> string \<Rightarrow> int \<Rightarrow> redis \<Rightarrow> redis" where
  "redis_expire now key ttl r =
     (case redis_live now r key of
        None \<Rightarrow> r
      | Some e \<Rightarrow> r(key \<mapsto> e\<lparr>re_expires := Some (now + ttl)\<rparr>))"

definition redis_setex :: "int \<Rightarrow> string \<Rightarrow> int \<Rightarrow> pyval \<Rightarrow> redis \<Rightarrow> redis" where
  "redis_setex now key ttl v r = r(key \<mapsto> \<lparr>re_value = v, re_expires = Some (now + ttl)\<rparr>)"

section \<open>Passwords and tokens\<close>

record login_env =
  le_gw :: gw_env
  le_checkpw :: "string \<Rightarrow> string \<Rightarrow> bool option"
  le_hashpw :: "string \<Rightarrow> string result"
  le_jwt_encode :: "pydict \<Rightarrow> string"
  le_jwt_decode :: "int \<Rightarrow> string \<Rightarrow> pydict option"
  le_jwt_expire_minutes :: int

definition le_now :: "login_env \<Rightarrow> int" where
  "le_now env = ge_now (le_gw env)"

text \<open>\<open>bcrypt.checkpw\<close>, with \<open>None\<close> where it raises one of the two errors that are caught.\<close>

definition verify_password :: "login_env \<Rightarrow> string \<Rightarrow> pyval \<Rightarrow> bool result" where
  "verify_password env plain hashed =
     (case hashed of
        PStr h \<Rightarrow>
          (case le_checkpw env plain h of None \<Rightarrow> Inr False | Some ok \<Rightarrow> Inr ok)
      | _ \<Rightarrow> Inl (AttributeError ''encode''))"

definition create_access_token ::
  "login_env \<Rightarrow> string \<Rightarrow> pyval \<Rightarrow> pyval \<Rightarrow> string \<Rightarrow> string \<times> int" where
  "create_access_token env user_id username role tenant_id =
     (le_jwt_encode env
        [(''sub'', PStr user_id), (''username'', username), (''role'', role),
         (''tenant_id'', PStr tenant_id),
         (''exp'', PInt (le_now env + le_jwt_expire_minutes env * 60)), (''iat'', PInt (le_now env))],
      le_jwt_expire_minutes env * 60)"

definition decode_token :: "login_env \<Rightarrow> string \<Rightarrow> pydict result" where
  "decode_token env token =
     (case le_jwt_decode env (le_now env) token of
        None \<Rightarrow> Inl (HttpError 401 ''Invalid or expired token'')
      | Some payload \<Rightarrow> Inr payload)"

definition get_current_user :: "login_env \<Rightarrow> string option \<Rightarrow> pydict result" where
  "get_current_user env credentials =
     (case credentials of
        None \<Rightarrow> Inl (HttpError 401 ''Authentication required'')
      | Some token \<Rightarrow> decode_token env token)"

definition require_admin :: "login_env \<Rightarrow> string option \<Rightarrow> pydict result" where
  "require_admin env credentials =
     rbind (get_current_user env credentials) (\<lambda>user.
       if py_get user ''role'' \<noteq> PStr ''admin'' then Inl (HttpError 403 ''Admin access required'')
       else Inr user)"

definition require_operator :: "login_env \<Rightarrow> string option \<Rightarrow> pydict result" where
  "require_operator env credentials =
     rbind (get_current_user env credentials) (\<lambda>user.
       if py_get user ''role'' \<notin> {PStr ''admin'', PStr ''operator''}
       then Inl (HttpError 403 ''Operator access required'')
       else Inr user)"

section \<open>Repository\<close>

definition user_columns :: "string list" where
  "user_columns =
     [''id'', ''username'', ''email'', ''role'', ''enabled'', ''last_login'', ''created_at'']"

text \<open>The condition of the statements on users: the identifier alone.\<close>

definition user_by_id :: "string \<Rightarrow> pydict \<Rightarrow> bool" where
  "user_by_id user_id = where_eq [(''id'', PStr user_id)]"

definition lookup_user_for_login :: "string \<Rightarrow> (gw_state, pydict option) prog" where
  "lookup_user_for_login username =
     select_first ''users''
       [''id'', ''username'', ''password_hash'', ''role'', ''tenant_id'', ''enabled'']
       (where_eq [(''username'', PStr username)])"

definition lookup_user_profile :: "string \<Rightarrow> (gw_state, pydict option) prog" where
  "lookup_user_profile user_id = select_first ''users'' user_columns (user_by_id user_id)"

definition lookup_password_hash :: "string \<Rightarrow> (gw_state, pyval) prog" where
  "lookup_password_hash user_id =
     sbind (select_first ''users'' [''password_hash''] (user_by_id user_id)) (\<lambda>row.
       sret (case row of None \<Rightarrow> PNone | Some r \<Rightarrow> py_get r ''password_hash''))"

definition username_exists :: "string \<Rightarrow> (gw_state, bool) prog" where
  "username_exists username =
     sbind (select_rows ''users'' (where_eq [(''username'', PStr username)]))
       (\<lambda>rows. sret (rows \<noteq> []))"

definition repo_count_users :: "(gw_state, int) prog" where
  "repo_count_users = count_rows ''users'' (\<lambda>_. True)"

definition repo_list_users_paginated :: "gw_env \<Rightarrow> int \<Rightarrow> int \<Rightarrow> (gw_state, pydict list) prog" where
  "repo_list_users_paginated env limit offset =
     sbind (select_page env ''created_at DESC'' ''users'' (\<lambda>_. True) limit offset)
       (\<lambda>rows. sret (map (project user_columns) rows))"

text \<open>\<open>SELECT id FROM tenants WHERE name = 'default'\<close>, or null.\<close>

definition default_tenant :: "(gw_state, pyval) prog" where
  "default_tenant =
     sbind (select_rows ''tenants'' (where_eq [(''name'', PStr ''default'')])) (\<lambda>rows.
       sret (case first_row rows of None \<Rightarrow> PNone | Some t \<Rightarrow> py_get t ''id''))"

definition repo_insert_user ::
  "gw_env \<Rightarrow> string \<Rightarrow> pyval \<Rightarrow> string \<Rightarrow> string \<Rightarrow> (gw_state, pydict) prog" where
  "repo_insert_user env username email password_hash role =
     sbind default_tenant (\<lambda>tenant.
     sbind (insert_row env ''users''
              [(''username'', PStr username), (''email'', email),
               (''password_hash'', PStr password_hash), (''role'', PStr role), (''tenant_id'', tenant)])
       (\<lambda>row. sret (project user_columns row)))"

definition repo_update_user_fields ::
  "gw_env \<Rightarrow> string \<Rightarrow> pydict \<Rightarrow> (gw_state, pydict option) prog" where
  "repo_update_user_fields env user_id updates =
     update_by_clause env ''users'' user_columns USER_UPDATE_COLUMNS [] []
       (stamp env ''updated_at'') (user_by_id user_id) updates"

definition repo_update_password_hash ::
  "gw_env \<Rightarrow> string \<Rightarrow> string \<Rightarrow> (gw_state, bool) prog" where
  "repo_update_password_hash env user_id password_hash =
     sbind (update_rows env ''users'' (user_by_id user_id)
              ((''password_hash'', PStr password_hash) # stamp env ''updated_at''))
       (\<lambda>rows. sret (rows \<noteq> []))"

definition repo_update_email :: "gw_env \<Rightarrow> string \<Rightarrow> string \<Rightarrow> (gw_state, unit) prog" where
  "repo_update_email env user_id email =
     sbind (update_rows env ''users'' (user_by_id user_id)
              ((''email'', PStr email) # stamp env ''updated_at''))
       (\<lambda>rows. sret ())"

definition repo_update_last_login :: "gw_env \<Rightarrow> string \<Rightarrow> (gw_state, unit) prog" where
  "repo_update_last_login env user_id =
     sbind (update_rows env ''users'' (user_by_id user_id) (stamp env ''last_login''))
       (\<lambda>rows. sret ())"

definition repo_delete_user :: "gw_env \<Rightarrow> string \<Rightarrow> (gw_state, bool) prog" where
  "repo_delete_user env user_id =
     sbind (delete_rows env ''users'' (user_by_id user_id)) (\<lambda>rows. sret (rows \<noteq> []))"

definition preference_columns :: "string list" where
  "preference_columns = [''timezone'', ''language'', ''theme'', ''notifications_enabled'']"

definition lookup_user_preferences :: "string \<Rightarrow> (gw_state, pydict option) prog" where
  "lookup_user_preferences user_id =
     select_first ''user_preferences'' preference_columns (where_eq [(''user_id'', PStr user_id)])"

definition upsert_user_preferences ::
  "gw_env \<Rightarrow> string \<Rightarrow> pydict \<Rightarrow> (gw_state, unit) prog" where
  "upsert_user_preferences env user_id prefs =
     (let values = project preference_columns prefs
      in sbind (select_rows ''user_preferences'' (where_eq [(''user_id'', PStr user_id)])) (\<lambda>rows.
           if rows \<noteq> [] then
             sbind (update_rows env ''user_preferences'' (where_eq [(''user_id'', PStr user_id)])
                      (values @ stamp env ''updated_at'')) (\<lambda>_. sret ())
           else
             sbind (insert_row env ''user_preferences'' ((''user_id'', PStr user_id) # values))
               (\<lambda>_. sret ())))"

section \<open>Login\<close>

record login_state =
  ls_gw :: gw_state
  ls_redis :: redis

definition on_db :: "(gw_state, 'a) prog \<Rightarrow> (login_state, 'a) prog" where
  "on_db m s = (case m (ls_gw s) of (r, g) \<Rightarrow> (r, s\<lparr>ls_gw := g\<rparr>))"

definition on_redis :: "(redis \<Rightarrow> 'a result \<times> redis) \<Rightarrow> (login_state, 'a) prog" where
  "on_redis f s = (case f (ls_redis s) of (r, rd) \<Rightarrow> (r, s\<lparr>ls_redis := rd\<rparr>))"

definition IP_RATE_LIMIT :: int where "IP_RATE_LIMIT = 20"
definition IP_RATE_TTL :: int where "IP_RATE_TTL = 60"
definition FAIL_LOCKOUT_THRESHOLD :: int where "FAIL_LOCKOUT_THRESHOLD = 5"
definition FAIL_LOCKOUT_TTL :: int where "FAIL_LOCKOUT_TTL = 900"

definition rate_key :: "string \<Rightarrow> string" where
  "rate_key client_ip = ''orw:login_rate:'' @ client_ip"

definition fail_key :: "string \<Rightarrow> string" where
  "fail_key username = ''orw:login_fail:'' @ username"

definition lockout_key :: "string \<Rightarrow> string" where
  "lockout_key username = ''orw:lockout:'' @ username"

text \<open>The \<open>INCR\<close> of a counter that expires a fixed time after its first count.\<close>

definition count_up :: "login_env \<Rightarrow> string \<Rightarrow> int \<Rightarrow> (login_state, int) prog" where
  "count_up env key ttl =
     sbind (on_redis (redis_incr (le_now env) key)) (\<lambda>count.
     sbind (if count = 1 then on_redis (\<lambda>r. (Inr (), redis_expire (le_now env) key ttl r))
            else sret ()) (\<lambda>_.
       sret count))"

definition check_ip_rate :: "login_env \<Rightarrow> string \<Rightarrow> (login_state, unit) prog" where
  "check_ip_rate env client_ip =
     sbind (count_up env (rate_key client_ip) IP_RATE_TTL) (\<lambda>count.
       if count > IP_RATE_LIMIT
       then sraise (DomainError RateLimitError ''Too many login attempts. Try again later.'')
       else sret ())"

definition check_lockout :: "login_env \<Rightarrow> string \<Rightarrow> (login_state, unit) prog" where
  "check_lockout env username =
     sbind (sget (\<lambda>s. redis_live (le_now env) (ls_redis s) (lockout_key username))) (\<lambda>entry.
       if entry \<noteq> None
       then sraise (DomainError RateLimitError
              ''Account temporarily locked due to repeated failed login attempts.'')
       else sret ())"

definition record_failed_login :: "login_env \<Rightarrow> string \<Rightarrow> (login_state, int) prog" where
  "record_failed_login env username =
     sbind (count_up env (fail_key username) FAIL_LOCKOUT_TTL) (\<lambda>count.
     sbind (if count \<ge> FAIL_LOCKOUT_THRESHOLD
            then on_redis (\<lambda>r. (Inr (), redis_setex (le_now env) (lockout_key username)
                   FAIL_LOCKOUT_TTL (PStr ''locked'') r))
            else sret ()) (\<lambda>_.
       sret count))"

definition clear_login_failures :: "string \<Rightarrow> (login_state, unit) prog" where
  "clear_login_failures username =
     on_redis (\<lambda>r. (Inr (), r(fail_key username := None, lockout_key username := None)))"

text \<open>The test of the credentials, left to right: known, enabled, right password.\<close>

definition credentials_ok :: "login_env \<Rightarrow> pydict option \<Rightarrow> string \<Rightarrow> bool result" where
  "credentials_ok env user password =
     (case user of
        None \<Rightarrow> Inr False
      | Some u \<Rightarrow>
          if \<not> truthy (py_get u ''enabled'') then Inr False
          else verify_password env password (py_get u ''password_hash''))"

definition db_commit :: "(gw_state, unit) prog" where
  "db_commit s = (Inr (), commit s)"

definition login ::
  "login_env \<Rightarrow> string \<Rightarrow> string \<Rightarrow> string \<Rightarrow> (login_state, string \<times> int) prog" where
  "login env username password client_ip =
     sbind (check_ip_rate env client_ip) (\<lambda>_.
     sbind (check_lockout env username) (\<lambda>_.
     sbind (on_db (lookup_user_for_login username)) (\<lambda>user.
     sbind (slift (credentials_ok env user password)) (\<lambda>ok.
       if \<not> ok then
         sbind (record_failed_login env username) (\<lambda>attempt.
         sbind (on_db (log_audit_as (le_gw env) PNone PNone ''login_failed'' ''auth'' PNone
                  [(''username'', PStr username), (''attempt'', PInt attempt)] (PStr client_ip))) (\<lambda>_.
         sbind (on_db db_commit) (\<lambda>_.
           sraise (DomainError AuthenticationError ''Invalid credentials''))))
       else
         (let u = the user; user_id = py_str (py_get u ''id''); tenant = py_str (py_get u ''tenant_id'')
          in sbind (clear_login_failures username) (\<lambda>_.
             sbind (on_db (repo_update_last_login (le_gw env) user_id)) (\<lambda>_.
             sbind (on_db (log_audit_as (le_gw env) (PStr user_id) (PStr tenant) ''login_success''
                      ''auth'' PNone [(''username'', py_get u ''username'')] (PStr client_ip))) (\<lambda>_.
               sret (create_access_token env user_id (py_get u ''username'') (py_get u ''role'')
                       tenant)))))))))"

text \<open>The request: \<open>get_db\<close> around the handler, Redis outside the transaction.\<close>

definition login_request ::
  "login_env \<Rightarrow> string \<Rightarrow> string \<Rightarrow> string \<Rightarrow> (login_state, string \<times> int) prog" where
  "login_request env username password client_ip s =
     (case login env username password client_ip s of
        (Inl e, s') \<Rightarrow> (Inl e, s'\<lparr>ls_gw := rollback (ls_gw s')\<rparr>)
      | (Inr x, s') \<Rightarrow> (Inr x, s'\<lparr>ls_gw := commit (ls_gw s')\<rparr>))"

section \<open>Management of users\<close>

definition create_user ::
  "login_env \<Rightarrow> gw_actor \<Rightarrow> string \<Rightarrow> pyval \<Rightarrow> string \<Rightarrow> string \<Rightarrow> (gw_state, pydict) prog" where
  "create_user env actor username email password role =
     sbind (username_exists username) (\<lambda>taken.
       if taken then sraise (DomainError ConflictError ''Username already exists'')
       else
         sbind (slift (le_hashpw env password)) (\<lambda>hashed.
         sbind (repo_insert_user (le_gw env) username email hashed role) (\<lambda>user.
         sbind (log_audit (le_gw env) actor ''create'' ''user'' (PStr (py_str (py_get user ''id'')))
                  [(''username'', PStr username), (''role'', PStr role)] PNone) (\<lambda>_.
           sret user))))"

definition update_user ::
  "login_env \<Rightarrow> gw_actor \<Rightarrow> string \<Rightarrow> pydict \<Rightarrow> (gw_state, pydict) prog" where
  "update_user env actor user_id updates =
     (let cleaned = filter (\<lambda>(k, v). v \<noteq> PNone) updates
      in if cleaned = [] then sraise (invalid ''No fields to update'')
         else
           sbind (value_error_as (invalid ''No valid fields to update'')
                    (repo_update_user_fields (le_gw env) user_id cleaned)) (\<lambda>user.
             case user of
               None \<Rightarrow> sraise (not_found ''user'' user_id)
             | Some u \<Rightarrow>
                 sbind (log_audit (le_gw env) actor ''update'' ''user'' (PStr user_id)
                          [(''changed_fields'', PList (map PStr (dict_keys cleaned)))] PNone) (\<lambda>_.
                   sret u)))"

definition delete_user :: "login_env \<Rightarrow> gw_actor \<Rightarrow> string \<Rightarrow> (gw_state, unit) prog" where
  "delete_user env actor user_id =
     (if user_id = ac_sub actor then sraise (invalid ''Cannot delete your own account'')
      else
        sbind (repo_delete_user (le_gw env) user_id) (\<lambda>deleted.
          if \<not> deleted then sraise (not_found ''user'' user_id)
          else log_audit (le_gw env) actor ''delete'' ''user'' (PStr user_id) [] PNone))"

definition reset_user_password ::
  "login_env \<Rightarrow> gw_actor \<Rightarrow> string \<Rightarrow> string \<Rightarrow> (gw_state, unit) prog" where
  "reset_user_password env actor user_id new_password =
     sbind (slift (le_hashpw env new_password)) (\<lambda>hashed.
     sbind (repo_update_password_hash (le_gw env) user_id hashed) (\<lambda>changed.
       if \<not> changed then sraise (not_found ''user'' user_id)
       else log_audit (le_gw env) actor ''reset_password'' ''user'' (PStr user_id) [] PNone))"

definition get_user :: "string \<Rightarrow> (gw_state, pydict) prog" where
  "get_user user_id =
     sbind (lookup_user_profile user_id) (\<lambda>user.
       case user of None \<Rightarrow> sraise (not_found ''user'' user_id) | Some u \<Rightarrow> sret u)"

definition list_users :: "login_env \<Rightarrow> int \<Rightarrow> int \<Rightarrow> (gw_state, pydict) prog" where
  "list_users env page page_size =
     sbind repo_count_users (\<lambda>n.
     sbind (repo_list_users_paginated (le_gw env) page_size ((page - 1) * page_size)) (\<lambda>rows.
       sret (page_dict rows n page page_size @
         [(''pages'', PInt (if 0 < n then (n + page_size - 1) div page_size else 0))])))"

section \<open>Own profile\<close>

definition get_profile_with_preferences ::
  "string \<Rightarrow> (gw_state, pydict \<times> pydict option) prog" where
  "get_profile_with_preferences user_id =
     sbind (lookup_user_profile user_id) (\<lambda>user.
       case user of
         None \<Rightarrow> sraise (not_found ''user'' user_id)
       | Some u \<Rightarrow> sbind (lookup_user_preferences user_id) (\<lambda>prefs. sret (u, prefs)))"

definition change_own_password ::
  "login_env \<Rightarrow> gw_actor \<Rightarrow> string \<Rightarrow> string \<Rightarrow> (gw_state, unit) prog" where
  "change_own_password env actor current_password new_password =
     sbind (lookup_password_hash (ac_sub actor)) (\<lambda>current_hash.
       if current_hash = PNone then sraise (not_found ''user'' (ac_sub actor))
       else
         sbind (slift (verify_password env current_password current_hash)) (\<lambda>ok.
           if \<not> ok then sraise (invalid ''Current password is incorrect'')
           else
             sbind (slift (le_hashpw env new_password)) (\<lambda>hashed.
             sbind (repo_update_password_hash (le_gw env) (ac_sub actor) hashed) (\<lambda>_.
             log_audit (le_gw env) actor ''change_password'' ''user'' (PStr (ac_sub actor)) [] PNone))))"

definition update_own_email :: "login_env \<Rightarrow> gw_actor \<Rightarrow> string \<Rightarrow> (gw_state, unit) prog" where
  "update_own_email env actor email =
     sbind (repo_update_email (le_gw env) (ac_sub actor) email) (\<lambda>_.
     log_audit (le_gw env) actor ''update_email'' ''user'' (PStr (ac_sub actor))
       [(''new_email'', PStr email)] PNone)"

definition get_own_preferences :: "string \<Rightarrow> (gw_state, pydict option) prog" where
  "get_own_preferences user_id = lookup_user_preferences user_id"

definition upsert_own_preferences :: "login_env \<Rightarrow> gw_actor \<Rightarrow> pydict \<Rightarrow> (gw_state, unit) prog" where
  "upsert_own_preferences env actor prefs =
     upsert_user_preferences (le_gw env) (ac_sub actor) prefs"

section \<open>The guard of an account\<close>

text \<open>
  The abstract view of the two keys of an account: the failures counted and when the count
  expires, and until when the account is locked.
\<close>

type_synonym guard = "(int \<times> int) option \<times> int option"

definition guard_of :: "string \<Rightarrow> redis \<Rightarrow> guard" where
  "guard_of u r =
     (case r (fail_key u) of
        Some e \<Rightarrow> (case (re_value e, re_expires e) of (PInt c, Some t) \<Rightarrow> Some (c, t) | _ \<Rightarrow> None)
      | None \<Rightarrow> None,
      case r (lockout_key u) of Some e \<Rightarrow> re_expires e | None \<Rightarrow> None)"

definition guard_locked :: "int \<Rightarrow> guard \<Rightarrow> bool" where
  "guard_locked now g \<longleftrightarrow> (case snd g of None \<Rightarrow> False | Some t \<Rightarrow> now < t)"

definition guard_count :: "int \<Rightarrow> (int \<times> int) option \<Rightarrow> int \<times> int" where
  "guard_count now f =
     (case f of
        None \<Rightarrow> (1, now + FAIL_LOCKOUT_TTL)
      | Some (c, t) \<Rightarrow> if now < t then (c + 1, t) else (1, now + FAIL_LOCKOUT_TTL))"

definition guard_fail :: "int \<Rightarrow> guard \<Rightarrow> guard" where
  "guard_fail now g =
     (let (c, t) = guard_count now (fst g)
      in (Some (c, t), if c \<ge> FAIL_LOCKOUT_THRESHOLD then Some (now + FAIL_LOCKOUT_TTL) else snd g))"

text \<open>The keys as the code leaves them.\<close>

definition keys_ok :: "string \<Rightarrow> redis \<Rightarrow> bool" where
  "keys_ok u r \<longleftrightarrow>
     (\<forall>e. r (fail_key u) = Some e \<longrightarrow> (\<exists>c t. re_value e = PInt c \<and> 1 \<le> c \<and> re_expires e = Some t))
     \<and> (\<forall>e. r (lockout_key u) = Some e \<longrightarrow> (\<exists>t. re_expires e = Some t))"

definition auth_error :: pyerr where
  "auth_error = DomainError AuthenticationError ''Invalid credentials''"

lemma key_simps [simp]:
  "fail_key u = fail_key v \<longleftrightarrow> u = v" "lockout_key u = lockout_key v \<longleftrightarrow> u = v"
  "fail_key u \<noteq> lockout_key v" "lockout_key v \<noteq> fail_key u"
  "rate_key i \<noteq> fail_key u" "fail_key u \<noteq> rate_key i"
  "rate_key i \<noteq> lockout_key u" "lockout_key u \<noteq> rate_key i"
  by (simp_all add: fail_key_def lockout_key_def rate_key_def)

text \<open>Steps that leave a key of Redis alone.\<close>

named_theorems untouched_intros "programs that leave a key of Redis alone"

definition untouched :: "string \<Rightarrow> (login_state, 'a) prog \<Rightarrow> bool" where
  "untouched k m \<longleftrightarrow> (\<forall>s. ls_redis (snd (m s)) k = ls_redis s k)"

lemma untouchedD: "untouched k m \<Longrightarrow> m s = (r, s') \<Longrightarrow> ls_redis s' k = ls_redis s k"
  unfolding untouched_def by (metis snd_conv)

lemma untouched_prog [untouched_intros]:
  "untouched k (sret x)" "untouched k (sraise e)" "untouched k (slift r)" "untouched k (sget g)"
  "untouched k (on_db m)"
  by (simp_all add: untouched_def on_db_def split: prod.split)

lemma untouched_sbind [untouched_intros]:
  "untouched k m \<Longrightarrow> (\<And>x. untouched k (f x)) \<Longrightarrow> untouched k (sbind m f)"
  unfolding untouched_def sbind_def by (auto split: prod.split sum.split) (metis snd_conv)+

lemma untouched_if [untouched_intros]:
  "untouched k m \<Longrightarrow> untouched k n \<Longrightarrow> untouched k (if b then m else n)"
  by simp

lemma untouched_let [untouched_intros]:
  "(\<And>y. untouched k (f y)) \<Longrightarrow> untouched k (let y = x in f y)"
  by simp

lemma untouched_count [untouched_intros]: "k \<noteq> key \<Longrightarrow> untouched k (count_up env key ttl)"
  unfolding count_up_def
  by (intro untouched_intros)
    (auto simp: untouched_def on_redis_def redis_incr_def redis_expire_def Let_def
      split: option.split pyval.split)

lemma untouched_checks [untouched_intros]:
  "untouched (fail_key u) (check_ip_rate env ip)" "untouched (lockout_key u) (check_ip_rate env ip)"
  "untouched k (check_lockout env v)"
  unfolding check_ip_rate_def check_lockout_def by (intro untouched_intros; simp)+

lemma untouched_records [untouched_intros]:
  "k \<noteq> fail_key v \<Longrightarrow> k \<noteq> lockout_key v \<Longrightarrow> untouched k (record_failed_login env v)"
  "k \<noteq> fail_key v \<Longrightarrow> k \<noteq> lockout_key v \<Longrightarrow> untouched k (clear_login_failures v)"
  unfolding record_failed_login_def clear_login_failures_def
  by ((intro untouched_intros; simp)?; simp add: untouched_def on_redis_def redis_setex_def)+

lemma other_login_untouched:
  assumes "u \<noteq> v"
  shows "untouched (fail_key u) (login env v pw ip)" "untouched (lockout_key u) (login env v pw ip)"
  unfolding login_def by (intro untouched_intros; use assms in simp)+

lemma guard_cong:
  "r' (fail_key u) = r (fail_key u) \<Longrightarrow> r' (lockout_key u) = r (lockout_key u) \<Longrightarrow>
   guard_of u r' = guard_of u r \<and> keys_ok u r' = keys_ok u r"
  by (simp add: guard_of_def keys_ok_def)

lemma record_failed_login_guard:
  assumes "keys_ok u (ls_redis s)"
  obtains c s' where "record_failed_login env u s = (Inr c, s')"
    and "guard_of u (ls_redis s') = guard_fail (le_now env) (guard_of u (ls_redis s))"
    and "keys_ok u (ls_redis s')"
proof -
  let ?r = "ls_redis s"
  let ?now = "le_now env"
  have lock: "r (lockout_key u) = ?r (lockout_key u) \<Longrightarrow> \<forall>e. r (lockout_key u) = Some e \<longrightarrow> (\<exists>t. re_expires e = Some t)"
    for r using assms by (simp add: keys_ok_def)
  show thesis
  proof (cases "redis_live ?now ?r (fail_key u)")
    case None
    have "guard_count ?now (fst (guard_of u ?r)) = (1, ?now + 900)"
      using None assms
      by (auto simp: redis_live_def guard_of_def guard_count_def keys_ok_def FAIL_LOCKOUT_TTL_def
          split: option.splits if_splits)
    note count = this
    define r1 where "r1 = ?r(fail_key u \<mapsto> \<lparr>re_value = PInt 1, re_expires = Some (?now + 900)\<rparr>)"
    have "record_failed_login env u s = (Inr 1, s\<lparr>ls_redis := r1\<rparr>)"
      using None
      by (simp add: record_failed_login_def count_up_def on_redis_def redis_incr_def redis_expire_def
          redis_live_def sbind_def FAIL_LOCKOUT_TTL_def FAIL_LOCKOUT_THRESHOLD_def r1_def)
    moreover have "guard_of u r1 = guard_fail ?now (guard_of u ?r)"
      by (simp add: guard_fail_def count FAIL_LOCKOUT_THRESHOLD_def) (simp add: guard_of_def r1_def)
    moreover have "keys_ok u r1" using assms by (simp add: keys_ok_def r1_def)
    ultimately show thesis using that by force
  next
    case (Some e)
    then have stored: "?r (fail_key u) = Some e"
      by (auto simp: redis_live_def split: option.splits if_splits)
    with assms obtain c t where e: "re_value e = PInt c" "1 \<le> c" "re_expires e = Some t"
      by (auto simp: keys_ok_def)
    with Some stored have live: "?now < t" by (auto simp: redis_live_def split: if_splits)
    have count: "guard_count ?now (fst (guard_of u ?r)) = (c + 1, t)"
      using stored e live by (simp add: guard_of_def guard_count_def)
    define r1 where "r1 = ?r(fail_key u \<mapsto> e\<lparr>re_value := PInt (c + 1)\<rparr>)"
    define r2 where "r2 = (if c + 1 \<ge> 5
      then r1(lockout_key u \<mapsto> \<lparr>re_value = PStr ''locked'', re_expires = Some (?now + 900)\<rparr>) else r1)"
    have "record_failed_login env u s = (Inr (c + 1), s\<lparr>ls_redis := r2\<rparr>)"
      using Some e(1,2)
      by (simp add: record_failed_login_def count_up_def on_redis_def redis_incr_def redis_setex_def
          sbind_def FAIL_LOCKOUT_TTL_def FAIL_LOCKOUT_THRESHOLD_def r1_def r2_def)
    moreover have "guard_of u r2 = guard_fail ?now (guard_of u ?r)"
      by (simp add: guard_fail_def count FAIL_LOCKOUT_TTL_def FAIL_LOCKOUT_THRESHOLD_def)
        (simp add: guard_of_def r2_def r1_def e)
    moreover have "keys_ok u r2"
      using assms e by (auto simp: keys_ok_def r2_def r1_def)
    ultimately show thesis using that by force
  qed
qed

lemma credentials_wrong:
  assumes "\<forall>h. le_checkpw env pw h \<noteq> Some True"
  shows "credentials_ok env user pw \<noteq> Inr True"
  using assms by (auto simp: credentials_ok_def verify_password_def split: option.splits pyval.splits)

lemma credentials_errors: "credentials_ok env user pw = Inl e \<Longrightarrow> e = AttributeError ''encode''"
  by (auto simp: credentials_ok_def verify_password_def split: option.splits pyval.splits if_splits)

text \<open>An attempt with a wrong password: it is stopped before the test, or it is counted.\<close>

lemma wrong_login_guard:
  assumes "keys_ok u (ls_redis s)" and "\<forall>h. le_checkpw env pw h \<noteq> Some True"
    and "login env u pw ip s = (res, s')"
  shows "keys_ok u (ls_redis s') \<and>
    (guard_of u (ls_redis s') = guard_of u (ls_redis s) \<and> res \<noteq> Inl auth_error \<or>
     \<not> guard_locked (le_now env) (guard_of u (ls_redis s))
       \<and> guard_of u (ls_redis s') = guard_fail (le_now env) (guard_of u (ls_redis s)))"
proof -
  let ?q = "\<lambda>s'. guard_of u (ls_redis s') = guard_of u (ls_redis s) \<and> keys_ok u (ls_redis s')"
  obtain r1 s1 where rate: "check_ip_rate env ip s = (r1, s1)" by (cases "check_ip_rate env ip s")
  have q1: "?q s1"
    using guard_cong [OF untouchedD [OF untouched_checks(1) rate] untouchedD [OF untouched_checks(2) rate]]
      assms(1) by simp
  show ?thesis
  proof (cases r1)
    case (Inl e)
    with rate have "e \<noteq> auth_error"
      by (auto simp: check_ip_rate_def count_up_def on_redis_def redis_incr_def sbind_def auth_error_def
          split: option.splits pyval.splits if_splits prod.splits sum.splits)
    with Inl rate assms(3) q1 show ?thesis by (auto simp: login_def sbind_def)
  next
    case (Inr x)
    show ?thesis
    proof (cases "redis_live (le_now env) (ls_redis s1) (lockout_key u)")
      case (Some entry)
      with Inr rate assms(3) q1 show ?thesis
        by (auto simp: login_def check_lockout_def sbind_def auth_error_def)
    next
      case None
      then have free: "\<not> guard_locked (le_now env) (guard_of u (ls_redis s))"
      proof -
        have "guard_of u (ls_redis s1) = guard_of u (ls_redis s)" using q1 by blast
        moreover have "\<not> guard_locked (le_now env) (guard_of u (ls_redis s1))"
          using None by (auto simp: guard_locked_def guard_of_def redis_live_def split: option.splits if_splits)
        ultimately show ?thesis by simp
      qed
      obtain r2 s2 where look: "on_db (lookup_user_for_login u) s1 = (r2, s2)"
        by (cases "on_db (lookup_user_for_login u) s1")
      have redis: "ls_redis s2 = ls_redis s1"
        using look by (auto simp: on_db_def split: prod.splits)
      show ?thesis
      proof (cases r2)
        case (Inl e)
        with look have "e \<noteq> auth_error"
          by (auto simp: on_db_def lookup_user_for_login_def select_first_def select_rows_def
              statement_def sbind_def auth_error_def split: prod.splits if_splits)
        with Inl look None Inr rate assms(3) q1 redis show ?thesis
          by (auto simp: login_def check_lockout_def sbind_def)
      next
        case (Inr user)
        note found = this
        show ?thesis
        proof (cases "credentials_ok env user pw")
          case (Inl e)
          with found look None \<open>r1 = Inr x\<close> rate assms(3) q1 redis credentials_errors [OF Inl]
          show ?thesis by (auto simp: login_def check_lockout_def sbind_def auth_error_def)
        next
          case (Inr ok)
          with credentials_wrong [OF assms(2)] have ok: "credentials_ok env user pw = Inr False"
            by (metis (full_types))
          have "keys_ok u (ls_redis s2)" using q1 redis by simp
          then obtain c s3 where counted: "record_failed_login env u s2 = (Inr c, s3)"
            "guard_of u (ls_redis s3) = guard_fail (le_now env) (guard_of u (ls_redis s2))"
            "keys_ok u (ls_redis s3)" by (rule record_failed_login_guard)
          define rest where "rest = sbind (on_db (log_audit_as (le_gw env) PNone PNone ''login_failed''
              ''auth'' PNone [(''username'', PStr u), (''attempt'', PInt c)] (PStr ip))) (\<lambda>_.
            sbind (on_db db_commit) (\<lambda>_. sraise (DomainError AuthenticationError ''Invalid credentials'')
              :: (login_state, string \<times> int) prog))"
          have run: "rest s3 = (res, s')"
          proof -
            have "check_lockout env u s1 = (Inr (), s1)" using None by (simp add: check_lockout_def)
            note steps = sbind_Inr [where m = "check_ip_rate env ip", OF rate [unfolded \<open>r1 = Inr x\<close>]]
              sbind_Inr [where m = "check_lockout env u", OF this]
              sbind_Inr [where m = "on_db (lookup_user_for_login u)", OF look [unfolded found]]
              sbind_Inr [where m = "record_failed_login env u", OF counted(1)]
            show ?thesis using assms(3) by (simp add: login_def steps ok rest_def)
          qed
          have "untouched (fail_key u) rest" "untouched (lockout_key u) rest"
            unfolding rest_def by (intro untouched_intros)+
          note same = guard_cong [OF untouchedD [OF this(1) run] untouchedD [OF this(2) run]]
          from counted(2,3) q1 redis free same show ?thesis by simp
        qed
      qed
    qed
  qed
qed

section \<open>How often a password can be guessed\<close>

text \<open>
  What the guards reached by the code satisfy: a count is positive and its window started at
  most one window ago, five failures mean a lock that outlasts the window, and while a lock is
  live no window reaches beyond it.
\<close>

definition guard_wf :: "int \<Rightarrow> guard \<Rightarrow> bool" where
  "guard_wf now g \<longleftrightarrow>
     (\<forall>c t. fst g = Some (c, t) \<longrightarrow> 1 \<le> c \<and> t \<le> now + 900
        \<and> (5 \<le> c \<longrightarrow> (\<exists>l. snd g = Some l \<and> t \<le> l))
        \<and> (\<forall>l. snd g = Some l \<and> now < l \<longrightarrow> t \<le> l))
     \<and> (\<forall>l. snd g = Some l \<longrightarrow> l \<le> now + 900)"

text \<open>The tests a guard still allows before the time \<open>e\<close>.\<close>

definition budget :: "int \<Rightarrow> int \<Rightarrow> guard \<Rightarrow> int" where
  "budget e now g =
     (if guard_locked now g then (case snd g of Some l \<Rightarrow> if e \<le> l then 0 else 5 | None \<Rightarrow> 5)
      else (case fst g of
              Some (c, t) \<Rightarrow> if now < t then (if e \<le> t then 5 - c else 9 - c) else 5
            | None \<Rightarrow> 5))"

lemma guard_wf_initial: "guard_wf now (None, None)"
  by (simp add: guard_wf_def)

lemma guard_wf_later: "guard_wf now g \<Longrightarrow> now \<le> now' \<Longrightarrow> guard_wf now' g"
  unfolding guard_wf_def by fastforce

lemma guard_wf_fail:
  "guard_wf now g \<Longrightarrow> \<not> guard_locked now g \<Longrightarrow> guard_wf now (guard_fail now g)"
  by (cases g; cases "fst g")
    (auto simp: guard_wf_def guard_fail_def guard_count_def guard_locked_def Let_def
      FAIL_LOCKOUT_TTL_def FAIL_LOCKOUT_THRESHOLD_def split: option.splits if_splits)

lemma budget_bounds: "guard_wf now g \<Longrightarrow> 0 \<le> budget e now g \<and> budget e now g \<le> 8"
  by (cases g) (auto simp: guard_wf_def budget_def guard_locked_def split: option.splits if_splits prod.splits)

lemma budget_later:
  "guard_wf now g \<Longrightarrow> now \<le> now' \<Longrightarrow> now' < e \<Longrightarrow> budget e now' g \<le> budget e now g"
  by (cases g) (fastforce simp: guard_wf_def budget_def guard_locked_def split: option.splits if_splits prod.splits)

lemma budget_fail:
  "guard_wf now g \<Longrightarrow> \<not> guard_locked now g \<Longrightarrow> now < e \<Longrightarrow> e \<le> now + 900 \<Longrightarrow>
   budget e now (guard_fail now g) \<le> budget e now g - 1"
  by (cases g) (auto simp: guard_wf_def budget_def guard_locked_def guard_fail_def guard_count_def Let_def
      FAIL_LOCKOUT_TTL_def FAIL_LOCKOUT_THRESHOLD_def split: option.splits if_splits prod.splits)

text \<open>A sequence of attempts, each with its time.\<close>

record attempt_in =
  at_time :: int
  at_user :: string
  at_password :: string
  at_ip :: string

definition at_env :: "login_env \<Rightarrow> int \<Rightarrow> login_env" where
  "at_env env t = env\<lparr>le_gw := (le_gw env)\<lparr>ge_now := t\<rparr>\<rparr>"

definition attempt_login :: "login_env \<Rightarrow> attempt_in \<Rightarrow> (login_state, string \<times> int) prog" where
  "attempt_login env a = login_request (at_env env (at_time a)) (at_user a) (at_password a) (at_ip a)"

fun login_run ::
  "login_env \<Rightarrow> login_state \<Rightarrow> attempt_in list \<Rightarrow> (string \<times> int) result list \<times> login_state" where
  "login_run env s [] = ([], s)"
| "login_run env s (a # as) =
     (let (r, s1) = attempt_login env a s; (rs, s2) = login_run env s1 as in (r # rs, s2))"

fun guesses :: "string \<Rightarrow> attempt_in list \<Rightarrow> (string \<times> int) result list \<Rightarrow> int" where
  "guesses u (a # as) (r # rs) =
     (if at_user a = u \<and> r = Inl auth_error then 1 else 0) + guesses u as rs"
| "guesses u _ _ = 0"

definition wrong_guess :: "login_env \<Rightarrow> attempt_in \<Rightarrow> bool" where
  "wrong_guess env a \<longleftrightarrow> (\<forall>h. le_checkpw env (at_password a) h \<noteq> Some True)"

lemma at_env_simps [simp]:
  "le_now (at_env env t) = t" "le_checkpw (at_env env t) = le_checkpw env"
  by (simp_all add: at_env_def le_now_def)

lemma login_request_redis:
  "login_request env u pw ip s = (r, s') \<Longrightarrow> \<exists>s1. login env u pw ip s = (r, s1) \<and> ls_redis s' = ls_redis s1"
  by (cases "login env u pw ip s") (auto simp: login_request_def split: sum.splits)

text \<open>One attempt: the guard of an account, against the budget.\<close>

lemma attempt_budget:
  assumes "keys_ok u (ls_redis s)" and "guard_wf (at_time a) (guard_of u (ls_redis s))"
    and "at_user a = u \<Longrightarrow> wrong_guess env a" and "attempt_login env a s = (r, s')"
    and "at_time a < e" and "e \<le> at_time a + 900"
  shows "keys_ok u (ls_redis s') \<and> guard_wf (at_time a) (guard_of u (ls_redis s'))
    \<and> budget e (at_time a) (guard_of u (ls_redis s'))
        + (if at_user a = u \<and> r = Inl auth_error then 1 else 0)
      \<le> budget e (at_time a) (guard_of u (ls_redis s))"
proof -
  from assms(4) obtain s1 where
    run: "login (at_env env (at_time a)) (at_user a) (at_password a) (at_ip a) s = (r, s1)"
    and redis: "ls_redis s' = ls_redis s1"
    unfolding attempt_login_def using login_request_redis by blast
  show ?thesis
  proof (cases "at_user a = u")
    case False
    then have "u \<noteq> at_user a" by simp
    note same = guard_cong [OF untouchedD [OF other_login_untouched(1) [OF this] run]
      untouchedD [OF other_login_untouched(2) [OF this] run]]
    from same assms(1,2) False show ?thesis by (simp add: redis)
  next
    case True
    have wrong: "\<forall>h. le_checkpw (at_env env (at_time a)) (at_password a) h \<noteq> Some True"
      using assms(3) True by (simp add: wrong_guess_def)
    from wrong_login_guard [OF assms(1) wrong run [unfolded True]]
    have "keys_ok u (ls_redis s')" and
      "guard_of u (ls_redis s') = guard_of u (ls_redis s) \<and> r \<noteq> Inl auth_error \<or>
       \<not> guard_locked (at_time a) (guard_of u (ls_redis s))
         \<and> guard_of u (ls_redis s') = guard_fail (at_time a) (guard_of u (ls_redis s))"
      by (simp_all add: redis)
    moreover note guard_wf_fail [OF assms(2)] budget_fail [OF assms(2) _ assms(5,6)]
    ultimately show ?thesis using assms(2) by (elim disjE) auto
  qed
qed

lemma run_budget:
  assumes "keys_ok u (ls_redis s)" and "guard_wf now (guard_of u (ls_redis s))"
    and "sorted (map at_time as)" and "\<forall>a \<in> set as. now \<le> at_time a \<and> at_time a < e"
    and "e \<le> now + 900" and "\<forall>a \<in> set as. at_user a = u \<longrightarrow> wrong_guess env a"
  shows "guesses u as (fst (login_run env s as)) \<le> budget e now (guard_of u (ls_redis s))"
  using assms
proof (induction as arbitrary: s now)
  case Nil
  then show ?case using budget_bounds by simp
next
  case (Cons a as)
  obtain r s1 where step: "attempt_login env a s = (r, s1)" by (cases "attempt_login env a s")
  from Cons.prems(4) have t: "now \<le> at_time a" "at_time a < e" by simp_all
  have wf: "guard_wf (at_time a) (guard_of u (ls_redis s))"
    by (rule guard_wf_later [OF Cons.prems(2) t(1)])
  have one: "keys_ok u (ls_redis s1) \<and> guard_wf (at_time a) (guard_of u (ls_redis s1))
    \<and> budget e (at_time a) (guard_of u (ls_redis s1))
        + (if at_user a = u \<and> r = Inl auth_error then 1 else 0)
      \<le> budget e (at_time a) (guard_of u (ls_redis s))"
    by (rule attempt_budget [OF Cons.prems(1) wf _ step t(2)]) (use Cons.prems(5,6) t in auto)
  have "guesses u as (fst (login_run env s1 as)) \<le> budget e (at_time a) (guard_of u (ls_redis s1))"
    by (rule Cons.IH) (use one Cons.prems(3-6) t in auto)
  moreover have "budget e (at_time a) (guard_of u (ls_redis s)) \<le> budget e now (guard_of u (ls_redis s))"
    by (rule budget_later [OF Cons.prems(2) t])
  ultimately show ?case using one step by (auto simp: Let_def split: prod.split)
qed


definition ex_login_env :: login_env where
  "ex_login_env = \<lparr>le_gw = ex_gw_env, le_checkpw = (\<lambda>p h. Some (p = ''secret'' \<and> h = ''h:secret'')),
     le_hashpw = (\<lambda>p. Inr (''h:'' @ p)), le_jwt_encode = (\<lambda>p. ''token''),
     le_jwt_decode = (\<lambda>t tok. None), le_jwt_expire_minutes = 480\<rparr>"

definition ex_user_rows :: "pydict list" where
  "ex_user_rows =
     [[(''id'', PStr ''u1''), (''username'', PStr ''alice''), (''password_hash'', PStr ''h:secret''),
       (''role'', PStr ''admin''), (''enabled'', PBool True), (''tenant_id'', PStr ''t1'')]]"

text \<open>One failure is on the count, whose window ends 100 seconds after the span begins.\<close>

definition ex_login_state :: login_state where
  "ex_login_state =
     (let d = \<lparr>gd_table = (\<lambda>t. if t = ''users'' then ex_user_rows else []), gd_audit = [], gd_seq = 0\<rparr>
      in \<lparr>ls_gw = \<lparr>gs_db = d, gs_committed = d, gs_aborted = False, gs_published = [], gs_files = []\<rparr>,
          ls_redis = [fail_key ''alice'' \<mapsto> \<lparr>re_value = PInt 1, re_expires = Some 1100\<rparr>]\<rparr>)"

definition ex_attempt :: "int \<Rightarrow> attempt_in" where
  "ex_attempt t = \<lparr>at_time = t, at_user = ''alice'', at_password = ''guess'', at_ip = ''10.0.0.9''\<rparr>"

definition ex_attempts :: "attempt_in list" where
  "ex_attempts = map ex_attempt [1000, 1001, 1002, 1100, 1101, 1102, 1103, 1104, 1105]"


section \<open>Locked accounts, failed logins, users of other tenants\<close>

text \<open>
  A locked account answers nothing. While the lock of an account is live, a login request
  ends in an error, rolls back, and its answer and its effects do not depend on the password.
\<close>

theorem locked_account_tests_nothing:
  assumes "redis_live (le_now env) (ls_redis s) (lockout_key u) \<noteq> None"
  shows "login_request env u pw ip s = login_request env u pw' ip s
    \<and> (\<exists>e. fst (login_request env u pw ip s) = Inl e \<and> e \<noteq> auth_error)
    \<and> ls_gw (snd (login_request env u pw ip s)) = rollback (ls_gw s)"
proof -
  obtain r s1 where rate: "check_ip_rate env ip s = (r, s1)" by (cases "check_ip_rate env ip s")
  have gw: "ls_gw s1 = ls_gw s"
    using rate by (auto simp: check_ip_rate_def count_up_def on_redis_def sbind_def
        split: prod.splits sum.splits if_splits)
  have lock: "ls_redis s1 (lockout_key u) = ls_redis s (lockout_key u)"
    by (rule untouchedD [OF untouched_checks(2) rate])
  have "\<exists>e. e \<noteq> auth_error \<and> (\<forall>p. login env u p ip s = (Inl e, s1))"
  proof (cases r)
    case (Inl e)
    with rate have "e \<noteq> auth_error"
      by (auto simp: check_ip_rate_def count_up_def on_redis_def redis_incr_def sbind_def auth_error_def
          split: option.splits pyval.splits if_splits prod.splits sum.splits)
    with Inl rate show ?thesis by (auto simp: login_def sbind_def)
  next
    case (Inr x)
    have "redis_live (le_now env) (ls_redis s1) (lockout_key u) \<noteq> None"
      using assms lock by (simp add: redis_live_def)
    with Inr rate show ?thesis
      by (auto simp: login_def check_lockout_def sbind_def auth_error_def)
  qed
  then show ?thesis by (auto simp: login_request_def gw)
qed

theorem locked_account_tests_nothing_witness:
  "fst (login_request ex_login_env ''alice'' ''secret'' ''10.0.0.9''
      (snd (login_run ex_login_env ex_login_state ex_attempts))) =
    fst (login_request ex_login_env ''alice'' ''guess'' ''10.0.0.9''
      (snd (login_run ex_login_env ex_login_state ex_attempts)))"
proof -
  have "redis_live (le_now ex_login_env) (ls_redis (snd (login_run ex_login_env ex_login_state ex_attempts)))
      (lockout_key ''alice'') \<noteq> None" by code_simp
  from locked_account_tests_nothing [OF this] show ?thesis by metis
qed

text \<open>The steps before the audit entry leave the database side alone.\<close>

lemma redis_steps_db:
  "check_ip_rate env ip s = (r, s1) \<Longrightarrow> ls_gw s1 = ls_gw s"
  "check_lockout env u s = (r', s1) \<Longrightarrow> s1 = s"
  "record_failed_login env u s = (r'', s1) \<Longrightarrow> ls_gw s1 = ls_gw s"
  by (auto simp: check_ip_rate_def check_lockout_def record_failed_login_def count_up_def on_redis_def
      sbind_def split: prod.splits sum.splits if_splits)

lemma lookup_user_db:
  "on_db (lookup_user_for_login u) s = (r, s1) \<Longrightarrow> ls_gw s1 = ls_gw s \<and> r \<noteq> Inl auth_error
   \<and> ls_redis s1 = ls_redis s"
  by (auto simp: on_db_def lookup_user_for_login_def select_first_def select_rows_def statement_def
      sbind_def auth_error_def split: prod.splits sum.splits if_splits)

lemma success_not_auth_error:
  "sbind (clear_login_failures v) (\<lambda>_.
     sbind (on_db (repo_update_last_login ge i)) (\<lambda>_.
     sbind (on_db (log_audit_as ge (PStr i) (PStr t) ''login_success'' ''auth'' PNone d (PStr ip))) (\<lambda>_.
       sret x))) s \<noteq> (Inl auth_error, s')"
  by (auto simp: clear_login_failures_def on_redis_def on_db_def repo_update_last_login_def
      update_rows_def log_audit_as_def statement_def checked_def Let_def sbind_def auth_error_def
      split: prod.splits sum.splits option.splits if_splits)

lemma audit_as_Inr:
  "on_db (log_audit_as ge sub tenant action rt rid details ip) s = (Inr x, s1) \<Longrightarrow>
   \<not> gs_aborted (ls_gw s) \<and>
   ls_gw s1 = (ls_gw s)\<lparr>gs_db := (gs_db (ls_gw s))\<lparr>gd_audit := gd_audit (gs_db (ls_gw s)) @
      [\<lparr>au_user_id = sub, au_action = action, au_resource_type = rt, au_resource_id = rid,
        au_details = details, au_ip_address = ip, au_tenant_id = tenant\<rparr>]\<rparr>\<rparr>"
  by (auto simp: on_db_def log_audit_as_def statement_def Let_def split: if_splits option.splits)

lemma audit_as_Inl:
  "on_db (log_audit_as ge sub tenant action rt rid details ip) s = (Inl e, s1) \<Longrightarrow> e \<noteq> auth_error"
  by (auto simp: on_db_def log_audit_as_def statement_def Let_def auth_error_def
      split: if_splits option.splits)

lemma failed_branch:
  assumes "sbind (record_failed_login env u) (\<lambda>attempt.
     sbind (on_db (log_audit_as (le_gw env) PNone PNone ''login_failed'' ''auth'' PNone
              [(''username'', PStr u), (''attempt'', PInt attempt)] (PStr ip))) (\<lambda>_.
     sbind (on_db db_commit) (\<lambda>_.
       sraise (DomainError AuthenticationError ''Invalid credentials'')))) s = (Inl auth_error, s')"
  shows "\<exists>n g. \<not> gs_aborted (ls_gw s) \<and> ls_gw s' = commit g \<and> g = (ls_gw s)\<lparr>gs_db :=
      (gs_db (ls_gw s))\<lparr>gd_audit := gd_audit (gs_db (ls_gw s)) @
        [\<lparr>au_user_id = PNone, au_action = ''login_failed'', au_resource_type = ''auth'',
          au_resource_id = PNone, au_details = [(''username'', PStr u), (''attempt'', PInt n)],
          au_ip_address = PStr ip, au_tenant_id = PNone\<rparr>]\<rparr>\<rparr>"
  using assms
proof (elim sbind_InlE, goal_cases)
  case 1
  then show ?case
    by (auto simp: record_failed_login_def count_up_def on_redis_def redis_incr_def sbind_def
        auth_error_def split: option.splits pyval.splits if_splits prod.splits sum.splits)
next
  case (2 n s5)
  then show ?case using audit_as_Inl by blast
next
  case (3 n s5 z s6)
  then show ?case by (simp add: on_db_def db_commit_def)
next
  case (4 n s5 z s6 w s7)
  from 4(3,4) have end_state: "ls_gw s' = commit (ls_gw s6)" by (auto simp: on_db_def db_commit_def)
  from audit_as_Inr [OF 4(2)] redis_steps_db(3) [OF 4(1)] end_state show ?case by auto
qed

lemma login_auth_error:
  assumes "login env u pw ip s = (Inl auth_error, s')"
  shows "\<exists>n g. \<not> gs_aborted (ls_gw s) \<and> ls_gw s' = commit g \<and> g = (ls_gw s)\<lparr>gs_db :=
      (gs_db (ls_gw s))\<lparr>gd_audit := gd_audit (gs_db (ls_gw s)) @
        [\<lparr>au_user_id = PNone, au_action = ''login_failed'', au_resource_type = ''auth'',
          au_resource_id = PNone, au_details = [(''username'', PStr u), (''attempt'', PInt n)],
          au_ip_address = PStr ip, au_tenant_id = PNone\<rparr>]\<rparr>\<rparr>"
  using assms unfolding login_def
proof (elim sbind_InlE, goal_cases)
  case 1
  then show ?case
    by (auto simp: check_ip_rate_def count_up_def on_redis_def redis_incr_def sbind_def auth_error_def
        split: option.splits pyval.splits if_splits prod.splits sum.splits)
next
  case (2 x s1)
  then show ?case by (auto simp: check_lockout_def auth_error_def sbind_def split: if_splits)
next
  case (3 x s1 y s2)
  then show ?case using lookup_user_db by fastforce
next
  case (4 x s1 y s2 user s3)
  then show ?case using credentials_errors by (fastforce simp: auth_error_def)
next
  case (5 x s1 y s2 user s3 ok s4)
  from 5 have s4: "ls_gw s4 = ls_gw s"
    using redis_steps_db lookup_user_db by (metis Pair_inject slift_apply)
  show ?case
  proof (cases ok)
    case True
    with 5(5) show ?thesis by (simp add: Let_def success_not_auth_error)
  next
    case False
    then have "(\<not> ok) = True" by simp
    from failed_branch [OF 5(5) [unfolded this if_True]] show ?thesis by (simp only: s4)
  qed
qed

text \<open>
  A failed login is on record. When a login request answers with invalid credentials, its
  audit entry is committed although the request is rolled back: the committed log is the one
  before with exactly the entry of this attempt, and the tables are as before.
\<close>

theorem failed_login_is_audited:
  assumes "login_request env u pw ip s = (Inl auth_error, s')"
    and "gs_db (ls_gw s) = gs_committed (ls_gw s)"
  shows "\<exists>n. gd_audit (gs_committed (ls_gw s')) = gd_audit (gs_committed (ls_gw s)) @
      [\<lparr>au_user_id = PNone, au_action = ''login_failed'', au_resource_type = ''auth'',
        au_resource_id = PNone, au_details = [(''username'', PStr u), (''attempt'', PInt n)],
        au_ip_address = PStr ip, au_tenant_id = PNone\<rparr>]
    \<and> gd_table (gs_committed (ls_gw s')) = gd_table (gs_committed (ls_gw s))
    \<and> gs_db (ls_gw s') = gs_committed (ls_gw s')"
proof -
  from assms(1) obtain s1 where run: "login env u pw ip s = (Inl auth_error, s1)"
    and s': "ls_gw s' = rollback (ls_gw s1)"
    by (auto simp: login_request_def split: prod.splits sum.splits)
  from login_auth_error [OF run] s' assms(2) show ?thesis
    by (auto simp: commit_def rollback_def)
qed

theorem failed_login_is_audited_witness:
  "\<exists>n. map au_details (gd_audit (gs_committed (ls_gw
       (snd (login_request ex_login_env ''alice'' ''guess'' ''10.0.0.9'' ex_login_state)))))
     = [[(''username'', PStr ''alice''), (''attempt'', PInt n)]]"
proof -
  have "fst (login_request ex_login_env ''alice'' ''guess'' ''10.0.0.9'' ex_login_state) = Inl auth_error"
    by code_simp
  then obtain s' where run: "login_request ex_login_env ''alice'' ''guess'' ''10.0.0.9'' ex_login_state
      = (Inl auth_error, s')" by (metis prod.collapse)
  have "gs_db (ls_gw ex_login_state) = gs_committed (ls_gw ex_login_state)"
    and "gd_audit (gs_committed (ls_gw ex_login_state)) = []"
    by (simp_all add: ex_login_state_def Let_def)
  with failed_login_is_audited [OF run] run show ?thesis by auto
qed

text \<open>The audit entry is the only place where the tenant of the actor shows.\<close>

lemma sbind_tables:
  "(\<And>x s1. m s = (Inr x, s1) \<Longrightarrow> gd_table (gs_db (snd (f x s1))) = gd_table (gs_db (snd (g x s1)))) \<Longrightarrow>
   gd_table (gs_db (snd (sbind m f s))) = gd_table (gs_db (snd (sbind m g s)))"
  by (auto simp: sbind_def split: prod.split sum.split)

lemma neutral_tables:
  "table_neutral m \<Longrightarrow> table_neutral n \<Longrightarrow>
   gd_table (gs_db (snd (m s))) = gd_table (gs_db (snd (n s)))"
  by (simp add: table_neutral_def)

text \<open>
  The management of users does not look at tenants. Creating, updating and deleting a user and
  resetting a password do to the tables what they would do for an administrator of any other
  tenant with the same identifier: the user with the given identifier is changed whatever its
  tenant is, and a new one lands in the default tenant.
\<close>

theorem user_admin_ignores_tenant:
  "gd_table (gs_db (snd (create_user env actor name email pw role s)))
      = gd_table (gs_db (snd (create_user env (actor\<lparr>ac_tenant := t\<rparr>) name email pw role s)))
   \<and> gd_table (gs_db (snd (update_user env actor i updates s)))
      = gd_table (gs_db (snd (update_user env (actor\<lparr>ac_tenant := t\<rparr>) i updates s)))
   \<and> gd_table (gs_db (snd (delete_user env actor i s)))
      = gd_table (gs_db (snd (delete_user env (actor\<lparr>ac_tenant := t\<rparr>) i s)))
   \<and> gd_table (gs_db (snd (reset_user_password env actor i pw s)))
      = gd_table (gs_db (snd (reset_user_password env (actor\<lparr>ac_tenant := t\<rparr>) i pw s)))"
proof (intro conjI)
  show "gd_table (gs_db (snd (create_user env actor name email pw role s)))
      = gd_table (gs_db (snd (create_user env (actor\<lparr>ac_tenant := t\<rparr>) name email pw role s)))"
    unfolding create_user_def
    by (rule sbind_tables, case_tac x; simp only: if_True if_False; (rule sbind_tables)+;
        (rule refl | rule neutral_tables; intro neutral_intros))
  show "gd_table (gs_db (snd (update_user env actor i updates s)))
      = gd_table (gs_db (snd (update_user env (actor\<lparr>ac_tenant := t\<rparr>) i updates s)))"
    unfolding update_user_def Let_def
    by (auto intro!: sbind_tables neutral_tables neutral_intros split: option.split)
  show "gd_table (gs_db (snd (delete_user env actor i s)))
      = gd_table (gs_db (snd (delete_user env (actor\<lparr>ac_tenant := t\<rparr>) i s)))"
    unfolding delete_user_def
    by (auto intro!: sbind_tables neutral_tables neutral_intros)
  show "gd_table (gs_db (snd (reset_user_password env actor i pw s)))
      = gd_table (gs_db (snd (reset_user_password env (actor\<lparr>ac_tenant := t\<rparr>) i pw s)))"
    unfolding reset_user_password_def
    by (auto intro!: sbind_tables neutral_tables neutral_intros)
qed

end
