(* ===== verification/Secret_Rotation.thy ===== *)
theory Secret_Rotation
  imports Secrets
begin

text \<open>
  The scripts that rewrite stored secrets: \<open>scripts/rotate_secret_master.py\<close>, which moves every
  encrypted column from an old key to a new one, and the three migrations
  \<open>scripts/migrate_*_to_encrypted.py\<close>, which encrypt the plaintext a column still holds. Each
  runs over the rows of a table and updates them one by one in a transaction. The nonces the
  encryption draws come from a sequence in the environment; \<open>rw_reject\<close> gives the error of
  PostgreSQL for the tables an update would leave.
\<close>

section \<open>State\<close>

type_synonym tables = "string \<Rightarrow> pydict list"

record script_env =
  rw_crypto :: crypto
  rw_nonce :: "nat \<Rightarrow> bytes"
  rw_reject :: "tables \<Rightarrow> string option"
  rw_dry_run :: bool
  rw_skip_undecryptable :: bool

record script_state =
  sc_tables :: tables
  sc_drawn :: nat

text \<open>A \<open>_Vault\<close> with its key derived: the variables it was made under, and the key.\<close>

record vault =
  va_environ :: secret_environ
  va_key :: bytes

definition vault_decrypt :: "script_env \<Rightarrow> vault \<Rightarrow> pyval \<Rightarrow> string option result" where
  "vault_decrypt env v ct =
     fst (decrypt_secret (rw_crypto env) (va_environ v) ct (Some (va_key v)))"

definition vault_encrypt :: "script_env \<Rightarrow> vault \<Rightarrow> pyval \<Rightarrow> (script_state, string option) prog" where
  "vault_encrypt env v pt s =
     (fst (encrypt_secret (rw_crypto env) (va_environ v) (rw_nonce env (sc_drawn s)) pt (Some (va_key v))),
      s\<lparr>sc_drawn := sc_drawn s + 1\<rparr>)"

text \<open>\<open>UPDATE {table} SET {column} = %s WHERE id = %s\<close>.\<close>

definition set_cell :: "string \<Rightarrow> pyval \<Rightarrow> pyval \<Rightarrow> pydict \<Rightarrow> pydict" where
  "set_cell column rid v row = (if py_get row ''id'' = rid then dict_set column v row else row)"

definition update_cell ::
  "script_env \<Rightarrow> string \<Rightarrow> string \<Rightarrow> pyval \<Rightarrow> pyval \<Rightarrow> (script_state, unit) prog" where
  "update_cell env table column rid v s =
     (let tables = (sc_tables s)(table := map (set_cell column rid v) (sc_tables s table))
      in case rw_reject env tables of
           Some msg \<Rightarrow> (Inl (DbError msg), s)
         | None \<Rightarrow> (Inr (), s\<lparr>sc_tables := tables\<rparr>))"

text \<open>\<open>with conn:\<close> around a block: an exception rolls its updates back.\<close>

definition with_conn :: "(script_state, 'a) prog \<Rightarrow> (script_state, 'a) prog" where
  "with_conn m s =
     (case m s of (Inl e, s') \<Rightarrow> (Inl e, s'\<lparr>sc_tables := sc_tables s\<rparr>) | (Inr x, s') \<Rightarrow> (Inr x, s'))"

section \<open>Rotation\<close>

definition ENCRYPTED_COLUMNS :: "(string \<times> string) list" where
  "ENCRYPTED_COLUMNS =
     [(''ldap_servers'', ''bind_password_encrypted''),
      (''radius_nas_clients'', ''secret_encrypted''),
      (''certificates'', ''key_pem_encrypted''),
      (''radius_realms'', ''proxy_secret_encrypted''),
      (''network_devices'', ''snmp_community_encrypted''),
      (''network_devices'', ''coa_secret_encrypted'')]"

text \<open>
  The vaults. The variables of the process are a dictionary; \<open>_vault_with\<close> sets the two the
  module reads and puts back what was there, also when the derivation raises.
\<close>

definition restore :: "string \<Rightarrow> string option \<Rightarrow> (string, string) dict \<Rightarrow> (string, string) dict" where
  "restore k prev environ =
     (case prev of None \<Rightarrow> filter (\<lambda>(k', v). k' \<noteq> k) environ | Some v \<Rightarrow> dict_set k v environ)"

definition secrets_of :: "(string, string) dict \<Rightarrow> secret_environ" where
  "secrets_of environ =
     \<lparr>se_master = dict_get_or environ ''ORW_SECRET_MASTER'' [],
      se_salt = dict_get_or environ ''ORW_SECRET_KDF_SALT'' []\<rparr>"

definition vault_with ::
  "crypto \<Rightarrow> string \<Rightarrow> string \<Rightarrow> ((string, string) dict, vault) prog" where
  "vault_with cr master salt environ =
     (let prev_master = dict_get environ ''ORW_SECRET_MASTER'';
          prev_salt = dict_get environ ''ORW_SECRET_KDF_SALT'';
          inside = dict_set ''ORW_SECRET_KDF_SALT'' salt (dict_set ''ORW_SECRET_MASTER'' master environ);
          r = rbind (derive_key cr (secrets_of inside)) (\<lambda>k.
                Inr \<lparr>va_environ = secrets_of inside, va_key = k\<rparr>)
      in (r, restore ''ORW_SECRET_KDF_SALT'' prev_salt (restore ''ORW_SECRET_MASTER'' prev_master inside)))"

definition required_vars :: "string list" where
  "required_vars = [''ORW_SECRET_KDF_SALT_NEW'', ''ORW_SECRET_KDF_SALT_OLD'',
     ''ORW_SECRET_MASTER_NEW'', ''ORW_SECRET_MASTER_OLD'']"

text \<open>\<open>sys.exit(1)\<close> is an exception of its own, here a \<open>RuntimeError\<close>.\<close>

definition build_vaults :: "crypto \<Rightarrow> ((string, string) dict, vault \<times> vault) prog" where
  "build_vaults cr =
     sbind (sget (\<lambda>environ. environ)) (\<lambda>environ.
       if filter (\<lambda>k. dict_get environ k = None) required_vars \<noteq> []
       then sraise (RuntimeError ''SystemExit: 1'')
       else
         sbind (vault_with cr (dict_get_or environ ''ORW_SECRET_MASTER_OLD'' [])
                  (dict_get_or environ ''ORW_SECRET_KDF_SALT_OLD'' [])) (\<lambda>old.
         sbind (vault_with cr (dict_get_or environ ''ORW_SECRET_MASTER_NEW'' [])
                  (dict_get_or environ ''ORW_SECRET_KDF_SALT_NEW'' [])) (\<lambda>new.
           sret (old, new))))"

text \<open>The counters of a table and what failed: table, column, row, exception.\<close>

record tally =
  ta_rotated :: int
  ta_skipped :: int
  ta_failures :: "(string \<times> string \<times> pyval \<times> pyerr) list"

definition no_tally :: tally where
  "no_tally = \<lparr>ta_rotated = 0, ta_skipped = 0, ta_failures = []\<rparr>"

definition count_rotated :: "tally \<Rightarrow> tally" where
  "count_rotated t = t\<lparr>ta_rotated := ta_rotated t + 1\<rparr>"

definition count_skipped :: "tally \<Rightarrow> tally" where
  "count_skipped t = t\<lparr>ta_skipped := ta_skipped t + 1\<rparr>"

definition count_failure :: "string \<Rightarrow> string \<Rightarrow> pyval \<Rightarrow> pyerr \<Rightarrow> tally \<Rightarrow> tally" where
  "count_failure table column rid e t =
     t\<lparr>ta_failures := ta_failures t @ [(table, column, rid, e)]\<rparr>"

definition rotate_row ::
  "script_env \<Rightarrow> string \<Rightarrow> string \<Rightarrow> vault \<Rightarrow> vault \<Rightarrow> pydict \<Rightarrow> tally \<Rightarrow> (script_state, tally) prog" where
  "rotate_row env table column old new row t =
     (let rid = py_get row ''id''; ct_old = py_get row column
      in if ct_old = PNone \<or> ct_old = PStr [] then sret (count_skipped t)
         else case vault_decrypt env old ct_old of
           Inl e \<Rightarrow>
             if rw_skip_undecryptable env then sret (count_skipped t)
             else sret (count_failure table column rid e t)
         | Inr None \<Rightarrow> sret (count_skipped t)
         | Inr (Some plaintext) \<Rightarrow>
             sbind (attempt (vault_encrypt env new (PStr plaintext))) (\<lambda>r.
               case r of
                 Inl e \<Rightarrow> sret (count_failure table column rid e t)
               | Inr ct_new \<Rightarrow>
                   if rw_dry_run env then sret (count_rotated t)
                   else
                     sbind (update_cell env table column rid
                              (case ct_new of None \<Rightarrow> PNone | Some c \<Rightarrow> PStr c)) (\<lambda>_.
                       sret (count_rotated t))))"

fun rotate_rows ::
  "script_env \<Rightarrow> string \<Rightarrow> string \<Rightarrow> vault \<Rightarrow> vault \<Rightarrow> pydict list \<Rightarrow> tally \<Rightarrow> (script_state, tally) prog" where
  "rotate_rows env table column old new [] t = sret t"
| "rotate_rows env table column old new (row # rows) t =
     sbind (rotate_row env table column old new row t) (\<lambda>t'.
       rotate_rows env table column old new rows t')"

definition rotate_table ::
  "script_env \<Rightarrow> string \<Rightarrow> string \<Rightarrow> vault \<Rightarrow> vault \<Rightarrow> (script_state, tally) prog" where
  "rotate_table env table column old new =
     sbind (sget (\<lambda>s. sc_tables s table)) (\<lambda>rows. rotate_rows env table column old new rows no_tally)"

definition add_tally :: "tally \<Rightarrow> tally \<Rightarrow> tally" where
  "add_tally a b = \<lparr>ta_rotated = ta_rotated a + ta_rotated b, ta_skipped = ta_skipped a + ta_skipped b,
     ta_failures = ta_failures a @ ta_failures b\<rparr>"

fun rotate_columns ::
  "script_env \<Rightarrow> vault \<Rightarrow> vault \<Rightarrow> (string \<times> string) list \<Rightarrow> tally \<Rightarrow> (script_state, tally) prog" where
  "rotate_columns env old new [] t = sret t"
| "rotate_columns env old new ((table, column) # cols) t =
     sbind (with_conn (rotate_table env table column old new)) (\<lambda>t'.
       rotate_columns env old new cols (add_tally t t'))"

text \<open>\<open>main\<close> after the connection: the exit code.\<close>

definition rotate_main :: "script_env \<Rightarrow> vault \<Rightarrow> vault \<Rightarrow> (script_state, int \<times> tally) prog" where
  "rotate_main env old new =
     sbind (rotate_columns env old new ENCRYPTED_COLUMNS no_tally) (\<lambda>t.
       sret (if ta_failures t \<noteq> [] then 2 else 0, t))"

section \<open>Migration of plaintext\<close>

text \<open>
  The counters of a migration. \<open>encrypt_secret\<close> there is that of the module: its key is derived
  from the variables of the process, which do not change while it runs, so that deriving it
  for every call gives what the cached key gives.
\<close>

definition module_encrypt ::
  "script_env \<Rightarrow> secret_environ \<Rightarrow> pyval \<Rightarrow> (script_state, string option) prog" where
  "module_encrypt env environ pt s =
     (fst (encrypt_secret (rw_crypto env) environ (rw_nonce env (sc_drawn s)) pt None),
      s\<lparr>sc_drawn := sc_drawn s + 1\<rparr>)"

record migration =
  mg_encrypted :: int
  mg_already :: int
  mg_null_or_empty :: int
  mg_failed :: "(pyval \<times> pyerr) list"

definition no_migration :: migration where
  "no_migration = \<lparr>mg_encrypted = 0, mg_already = 0, mg_null_or_empty = 0, mg_failed = []\<rparr>"

definition row_label :: "string \<Rightarrow> pydict \<Rightarrow> pyval" where
  "row_label ident_col row =
     py_or (py_get row ident_col) (PStr (''<id='' @ py_str (py_get row ''id'') @ ''>''))"

definition migrate_row ::
  "script_env \<Rightarrow> string \<Rightarrow> string \<Rightarrow> string \<Rightarrow> secret_environ \<Rightarrow> pydict \<Rightarrow> migration
   \<Rightarrow> (script_state, migration) prog" where
  "migrate_row env table column ident_col environ row g =
     (let current = py_get row column
      in if current = PNone \<or> current = PStr []
         then sret (g\<lparr>mg_null_or_empty := mg_null_or_empty g + 1\<rparr>)
         else if is_encrypted current then sret (g\<lparr>mg_already := mg_already g + 1\<rparr>)
         else if rw_dry_run env then sret (g\<lparr>mg_encrypted := mg_encrypted g + 1\<rparr>)
         else
           sbind (attempt (module_encrypt env environ current)) (\<lambda>r.
             case r of
               Inl e \<Rightarrow> sret (g\<lparr>mg_failed := mg_failed g @ [(row_label ident_col row, e)]\<rparr>)
             | Inr new_ct \<Rightarrow>
                 sbind (update_cell env table column (py_get row ''id'')
                          (case new_ct of None \<Rightarrow> PNone | Some c \<Rightarrow> PStr c)) (\<lambda>_.
                   sret (g\<lparr>mg_encrypted := mg_encrypted g + 1\<rparr>))))"

fun migrate_rows ::
  "script_env \<Rightarrow> string \<Rightarrow> string \<Rightarrow> string \<Rightarrow> secret_environ \<Rightarrow> pydict list \<Rightarrow> migration
   \<Rightarrow> (script_state, migration) prog" where
  "migrate_rows env table column ident_col environ [] g = sret g"
| "migrate_rows env table column ident_col environ (row # rows) g =
     sbind (migrate_row env table column ident_col environ row g) (\<lambda>g'.
       migrate_rows env table column ident_col environ rows g')"

definition migrate_one ::
  "script_env \<Rightarrow> string \<Rightarrow> string \<Rightarrow> string \<Rightarrow> secret_environ \<Rightarrow> migration \<Rightarrow> (script_state, migration) prog" where
  "migrate_one env table column ident_col environ g =
     sbind (sget (\<lambda>s. sc_tables s table)) (\<lambda>rows. migrate_rows env table column ident_col environ rows g)"

definition TARGETS :: "(string \<times> string \<times> string) list" where
  "TARGETS =
     [(''certificates'', ''key_pem_encrypted'', ''name''),
      (''radius_realms'', ''proxy_secret_encrypted'', ''name''),
      (''network_devices'', ''snmp_community_encrypted'', ''hostname''),
      (''network_devices'', ''coa_secret_encrypted'', ''hostname'')]"

fun migrate_targets ::
  "script_env \<Rightarrow> secret_environ \<Rightarrow> (string \<times> string \<times> string) list \<Rightarrow> migration
   \<Rightarrow> (script_state, migration) prog" where
  "migrate_targets env environ [] g = sret g"
| "migrate_targets env environ ((table, column, ident_col) # ts) g =
     sbind (migrate_one env table column ident_col environ g) (\<lambda>g'. migrate_targets env environ ts g')"

definition exit_code :: "migration \<Rightarrow> int" where
  "exit_code g = (if mg_failed g \<noteq> [] then 2 else 0)"

definition migrate_main ::
  "script_env \<Rightarrow> secret_environ \<Rightarrow> (string \<times> string \<times> string) list \<Rightarrow> (script_state, int \<times> migration) prog" where
  "migrate_main env environ targets =
     sbind (with_conn (migrate_targets env environ targets no_migration)) (\<lambda>g. sret (exit_code g, g))"

text \<open>The scripts: bind passwords, NAS secrets, and the four remaining columns.\<close>

definition migrate_ldap_passwords :: "script_env \<Rightarrow> secret_environ \<Rightarrow> (script_state, int \<times> migration) prog" where
  "migrate_ldap_passwords env environ =
     migrate_main env environ [(''ldap_servers'', ''bind_password_encrypted'', ''name'')]"

definition migrate_nas_secrets :: "script_env \<Rightarrow> secret_environ \<Rightarrow> (script_state, int \<times> migration) prog" where
  "migrate_nas_secrets env environ =
     migrate_main env environ [(''radius_nas_clients'', ''secret_encrypted'', ''name'')]"

definition migrate_remaining_secrets :: "script_env \<Rightarrow> secret_environ \<Rightarrow> (script_state, int \<times> migration) prog" where
  "migrate_remaining_secrets env environ = migrate_main env environ TARGETS"

section \<open>A pass over the cells of a column\<close>

text \<open>
  Both loops visit the rows of a table as they were read at its start and update at most the
  cell of the row at hand. The locale states what a step promises of one cell, with a relation
  between what the cell was and what it becomes, and gives the relation for the whole table.
\<close>

definition cell_related :: "(pyval \<Rightarrow> pyval \<Rightarrow> bool) \<Rightarrow> string \<Rightarrow> pydict \<Rightarrow> pydict \<Rightarrow> bool" where
  "cell_related R column row row' \<longleftrightarrow>
     R (py_get row column) (py_get row' column) \<and> (\<forall>d. d \<noteq> column \<longrightarrow> py_get row' d = py_get row d)"

definition row_ids :: "pydict list \<Rightarrow> pyval list" where
  "row_ids rows = map (\<lambda>r. py_get r ''id'') rows"

locale cell_pass =
  fixes loop :: "pydict list \<Rightarrow> 't \<Rightarrow> (script_state, 't) prog"
    and step :: "pydict \<Rightarrow> 't \<Rightarrow> (script_state, 't) prog"
    and table column :: string
    and ok :: "pyval \<Rightarrow> bool"
    and R :: "pyval \<Rightarrow> pyval \<Rightarrow> bool"
    and fine :: "'t \<Rightarrow> bool"
  assumes loop_Nil: "loop [] t = sret t"
    and loop_Cons: "loop (row # rows) t = sbind (step row t) (loop rows)"
    and step_cell: "ok (py_get row column) \<Longrightarrow> fine t \<Longrightarrow>
      \<exists>t' s' v. step row t s = (Inr t', s') \<and> fine t' \<and> R (py_get row column) v
        \<and> (v = py_get row column \<and> sc_tables s' = sc_tables s
           \<or> sc_tables s' = (sc_tables s)(table :=
               map (set_cell column (py_get row ''id'') v) (sc_tables s table)))"
begin

lemma set_cell_others:
  "rid \<notin> set (row_ids rows) \<Longrightarrow> map (set_cell column rid v) rows = rows"
  by (induction rows) (auto simp: set_cell_def row_ids_def)

lemma loop_related:
  assumes "column \<noteq> ''id''"
    and "sc_tables s table = before @ rows" and "distinct (row_ids (before @ rows))"
    and "\<forall>row \<in> set rows. ok (py_get row column)" and "fine t"
  shows "\<exists>t' s' rows'. loop rows t s = (Inr t', s') \<and> fine t'
    \<and> sc_tables s' = (sc_tables s)(table := before @ rows')
    \<and> list_all2 (cell_related R column) rows rows'"
  using assms(2-5)
proof (induction rows arbitrary: before s t)
  case Nil
  then show ?case by (auto simp: loop_Nil)
next
  case (Cons row rows)
  let ?id = "py_get row ''id''"
  from Cons.prems have "ok (py_get row column)" "fine t" by auto
  from step_cell [OF this, of s] obtain t1 s1 v where
    st: "step row t s = (Inr t1, s1)" "fine t1" and v: "R (py_get row column) v"
    and tables: "v = py_get row column \<and> sc_tables s1 = sc_tables s
      \<or> sc_tables s1 = (sc_tables s)(table := map (set_cell column ?id v) (sc_tables s table))"
    by blast
  have others: "?id \<notin> set (row_ids before)" "?id \<notin> set (row_ids rows)"
    using Cons.prems(2) by (auto simp: row_ids_def)
  have "\<exists>row'. sc_tables s1 = (sc_tables s)(table := (before @ [row']) @ rows)
      \<and> cell_related R column row row'"
    using tables
  proof (elim disjE conjE)
    assume "v = py_get row column" "sc_tables s1 = sc_tables s"
    with v Cons.prems(1) show ?thesis
      by (intro exI [of _ row]) (auto simp: cell_related_def fun_upd_idem_iff)
  next
    assume "sc_tables s1 = (sc_tables s)(table := map (set_cell column ?id v) (sc_tables s table))"
    with v Cons.prems(1) others show ?thesis
      by (intro exI [of _ "dict_set column v row"])
        (auto simp: cell_related_def set_cell_others, auto simp: set_cell_def py_get_def)
  qed
  then obtain row' where row': "sc_tables s1 = (sc_tables s)(table := (before @ [row']) @ rows)"
    "cell_related R column row row'" by blast
  have "py_get row' ''id'' = ?id" using row'(2) assms(1) by (simp add: cell_related_def)
  then have "distinct (row_ids ((before @ [row']) @ rows))"
    using Cons.prems(2) by (simp add: row_ids_def)
  moreover have "sc_tables s1 table = (before @ [row']) @ rows" by (simp add: row'(1))
  moreover have "\<forall>row \<in> set rows. ok (py_get row column)" using Cons.prems(3) by simp
  ultimately obtain t' s' rows' where
    "loop rows t1 s1 = (Inr t', s')" "fine t'"
    "sc_tables s' = (sc_tables s1)(table := (before @ [row']) @ rows')"
    "list_all2 (cell_related R column) rows rows'"
    using Cons.IH [of s1 "before @ [row']" t1] st(2) by blast
  with st(1) row' show ?case
    by (intro exI [of _ t'] exI [of _ s'] exI [of _ "row' # rows'"])
      (simp add: loop_Cons sbind_Inr [where m = "step row t", OF st(1)])
qed

end

text \<open>The relation between the tables before and after a pass over some columns.\<close>

definition row_related ::
  "(pyval \<Rightarrow> pyval \<Rightarrow> bool) \<Rightarrow> (string \<times> string) list \<Rightarrow> string \<Rightarrow> pydict \<Rightarrow> pydict \<Rightarrow> bool" where
  "row_related R cols table row row' \<longleftrightarrow> (\<forall>c.
     if (table, c) \<in> set cols then R (py_get row c) (py_get row' c)
     else py_get row' c = py_get row c)"

definition tables_related ::
  "(pyval \<Rightarrow> pyval \<Rightarrow> bool) \<Rightarrow> (string \<times> string) list \<Rightarrow> tables \<Rightarrow> tables \<Rightarrow> bool" where
  "tables_related R cols T T' \<longleftrightarrow>
     (\<forall>table. list_all2 (row_related R cols table) (T table) (T' table))"

lemma related_Nil: "tables_related R [] T T"
  by (simp add: tables_related_def row_related_def list_all2_same)

lemma related_Cons:
  assumes "tables_related R [col] T T1" and "tables_related R cols T1 T2" and "col \<notin> set cols"
  shows "tables_related R (col # cols) T T2"
  unfolding tables_related_def
proof
  fix table
  have "list_all2 (row_related R [col] table) (T table) (T1 table)"
    "list_all2 (row_related R cols table) (T1 table) (T2 table)"
    using assms(1,2) unfolding tables_related_def by blast+
  then show "list_all2 (row_related R (col # cols) table) (T table) (T2 table)"
  proof (rule list_all2_trans [rotated 1])
    fix row row1 row2
    assume rel: "row_related R [col] table row row1" "row_related R cols table row1 row2"
    show "row_related R (col # cols) table row row2"
      unfolding row_related_def
    proof
      fix c
      show "if (table, c) \<in> set (col # cols) then R (py_get row c) (py_get row2 c)
          else py_get row2 c = py_get row c"
        using spec [OF rel(1) [unfolded row_related_def], of c]
          spec [OF rel(2) [unfolded row_related_def], of c] assms(3)
        by (cases "(table, c) = col") (simp_all split: if_splits)
    qed
  qed
qed

definition tables_ready :: "(pyval \<Rightarrow> bool) \<Rightarrow> (string \<times> string) list \<Rightarrow> tables \<Rightarrow> bool" where
  "tables_ready ok cols T \<longleftrightarrow> (\<forall>(table, c) \<in> set cols.
     distinct (row_ids (T table)) \<and> (\<forall>row \<in> set (T table). ok (py_get row c)))"

lemma related_ids:
  assumes "tables_related R cols T T'" and "(table, ''id'') \<notin> set cols"
  shows "row_ids (T' table) = row_ids (T table)"
proof -
  have "list_all2 (\<lambda>r r'. py_get r' ''id'' = py_get r ''id'') (T table) (T' table)"
    using list_all2_mono [OF assms(1) [unfolded tables_related_def, rule_format, of table]] assms(2)
    by (simp add: row_related_def)
  then show ?thesis
    unfolding row_ids_def by (induction rule: list_all2_induct) auto
qed

lemma related_cells:
  assumes "tables_related R cols T T'" and "(table, c) \<notin> set cols"
  shows "map (\<lambda>r. py_get r c) (T' table) = map (\<lambda>r. py_get r c) (T table)"
proof -
  have "list_all2 (\<lambda>r r'. py_get r' c = py_get r c) (T table) (T' table)"
    using list_all2_mono [OF assms(1) [unfolded tables_related_def, rule_format, of table]] assms(2)
    by (simp add: row_related_def)
  then show ?thesis by (induction rule: list_all2_induct) auto
qed

lemma ready_later:
  assumes "tables_ready ok cols T" and "tables_related R [col] T T1" and "col \<notin> set cols"
    and "\<forall>(table, c) \<in> set (col # cols). c \<noteq> ''id''"
  shows "tables_ready ok cols T1"
  unfolding tables_ready_def
proof clarify
  fix table c assume tc: "(table, c) \<in> set cols"
  with assms(3) have new: "(table, c) \<notin> set [col]" by auto
  have "(table, ''id'') \<notin> set [col]" using assms(4) by auto
  then have ids: "row_ids (T1 table) = row_ids (T table)" by (rule related_ids [OF assms(2)])
  have "(\<lambda>r. py_get r c) ` set (T1 table) = (\<lambda>r. py_get r c) ` set (T table)"
    using related_cells [OF assms(2) new] by (metis list.set_map)
  moreover have "distinct (row_ids (T table))"
    "\<forall>v \<in> (\<lambda>r. py_get r c) ` set (T table). ok v"
    using assms(1) tc by (auto simp: tables_ready_def)
  ultimately show "distinct (row_ids (T1 table))
      \<and> (\<forall>row \<in> set (T1 table). ok (py_get row c))"
    using ids by (metis image_eqI)
qed

lemma pass_related:
  assumes "list_all2 (cell_related R column) (T table) rows'" and "T' = T(table := rows')"
  shows "tables_related R [(table, column)] T T'"
  unfolding tables_related_def
proof
  fix tb
  show "list_all2 (row_related R [(table, column)] tb) (T tb) (T' tb)"
    using list_all2_mono [OF assms(1)]
    by (cases "tb = table") (simp_all add: assms(2) list_all2_same cell_related_def row_related_def)
qed

section \<open>The pass of the rotation\<close>

definition blank :: "pyval \<Rightarrow> bool" where
  "blank v \<longleftrightarrow> v = PNone \<or> v = PStr []"

text \<open>What a cell says to a holder of the keys, the first that opens it.\<close>

definition opens :: "script_env \<Rightarrow> vault \<Rightarrow> pyval \<Rightarrow> bool" where
  "opens env va v = (case vault_decrypt env va v of Inr (Some t) \<Rightarrow> True | _ \<Rightarrow> False)"

definition plain :: "script_env \<Rightarrow> vault list \<Rightarrow> pyval \<Rightarrow> string option" where
  "plain env vaults v =
     (if blank v then None
      else case List.find (\<lambda>va. opens env va v) vaults of
             None \<Rightarrow> None
           | Some va \<Rightarrow> (case vault_decrypt env va v of Inr t \<Rightarrow> t | Inl e \<Rightarrow> None))"

lemma opens_iff: "opens env va v \<longleftrightarrow> (\<exists>t. vault_decrypt env va v = Inr (Some t))"
  by (simp add: opens_def split: sum.split option.split)

text \<open>The environment of a run that writes: AES-GCM as documented, nonces of twelve bytes,
  no update refused.\<close>

definition writable :: "script_env \<Rightarrow> bool" where
  "writable env \<longleftrightarrow> aead_ok (rw_crypto env) \<and> (\<forall>n. length (rw_nonce env n) = NONCE_LEN)
     \<and> (\<forall>t. rw_reject env t = None) \<and> \<not> rw_dry_run env"

text \<open>A cell the rotation can handle: empty, or open to the old key, or to the new one when
  the unreadable cells are to be skipped.\<close>

definition rotatable :: "script_env \<Rightarrow> vault \<Rightarrow> vault \<Rightarrow> pyval \<Rightarrow> bool" where
  "rotatable env old new v \<longleftrightarrow> writable env \<and>
     (blank v \<or> opens env old v
      \<or> rw_skip_undecryptable env \<and> (\<exists>e. vault_decrypt env old v = Inl e) \<and> opens env new v)"

definition moved :: "script_env \<Rightarrow> vault \<Rightarrow> vault \<Rightarrow> pyval \<Rightarrow> pyval \<Rightarrow> bool" where
  "moved env old new v v' \<longleftrightarrow>
     (blank v' \<or> opens env new v') \<and> plain env [new] v' = plain env [old, new] v"

lemma plain_opened:
  "vault_decrypt env va v = Inr (Some t) \<Longrightarrow> \<not> blank v \<Longrightarrow> plain env (va # vas) v = Some t"
  by (simp add: plain_def opens_iff)

lemma plain_skipped:
  "\<not> opens env va v \<Longrightarrow> plain env (va # vas) v = plain env vas v"
  by (simp add: plain_def)

lemma update_cell_ok:
  "writable env \<Longrightarrow> update_cell env table column rid v s =
     (Inr (), s\<lparr>sc_tables := (sc_tables s)(table := map (set_cell column rid v) (sc_tables s table))\<rparr>)"
  by (simp add: update_cell_def writable_def Let_def)

lemma reencrypted:
  assumes "writable env" and "vault_decrypt env old v = Inr (Some t)"
  obtains c where "\<And>s. vault_encrypt env new (PStr t) s = (Inr (Some (c s)), s\<lparr>sc_drawn := sc_drawn s + 1\<rparr>)"
    "\<And>s. c s \<noteq> []" "\<And>s. vault_decrypt env new (PStr (c s)) = Inr (Some t)"
proof -
  have ascii: "\<forall>c \<in> set t. ord_of c < 128"
    using assms(2) decrypted_ascii unfolding vault_decrypt_def by (metis prod.collapse)
  define c where "c s = b64_encode ([VERSION] @ rw_nonce env (sc_drawn s) @
      cr_gcm_encrypt (rw_crypto env) (va_key new) (rw_nonce env (sc_drawn s)) (encode_utf8 t))"
    for s :: script_state
  have enc: "encrypt_secret (rw_crypto env) (va_environ new) (rw_nonce env (sc_drawn s)) (PStr t)
      (Some (va_key new)) = (Inr (Some (c s)), Some (va_key new))" for s
    by (simp add: encrypt_cached c_def)
  show ?thesis
  proof (rule that [of c])
    show "vault_encrypt env new (PStr t) s = (Inr (Some (c s)), s\<lparr>sc_drawn := sc_drawn s + 1\<rparr>)" for s
      by (simp add: vault_encrypt_def enc)
    show "c s \<noteq> []" for s by (simp add: c_def)
    show "vault_decrypt env new (PStr (c s)) = Inr (Some t)" for s
      using encrypt_then_decrypt [OF _ _ ascii enc, of s "va_environ new"] assms(1)
      by (simp add: vault_decrypt_def writable_def)
  qed
qed

lemma rotate_step:
  assumes ok: "rotatable env old new (py_get row column)" and "ta_failures t = []"
  shows "\<exists>t' s' v. rotate_row env table column old new row t s = (Inr t', s') \<and> ta_failures t' = []
    \<and> moved env old new (py_get row column) v
    \<and> (v = py_get row column \<and> sc_tables s' = sc_tables s
       \<or> sc_tables s' = (sc_tables s)(table :=
           map (set_cell column (py_get row ''id'') v) (sc_tables s table)))"
proof -
  let ?v = "py_get row column"
  have w: "writable env" using ok by (simp add: rotatable_def)
  consider "blank ?v" | t0 where "\<not> blank ?v" "vault_decrypt env old ?v = Inr (Some t0)"
    | e where "\<not> blank ?v" "vault_decrypt env old ?v = Inl e" "opens env new ?v"
      "rw_skip_undecryptable env"
    using ok by (auto simp: rotatable_def opens_iff)
  then show ?thesis
  proof cases
    case 1
    then have "moved env old new ?v ?v" by (simp add: moved_def plain_def)
    with 1 assms(2) show ?thesis
      by (auto simp: rotate_row_def blank_def Let_def count_skipped_def)
  next
    case 2
    obtain c where c: "\<And>s. vault_encrypt env new (PStr t0) s =
        (Inr (Some (c s)), s\<lparr>sc_drawn := sc_drawn s + 1\<rparr>)"
      "\<And>s. c s \<noteq> []" "\<And>s. vault_decrypt env new (PStr (c s)) = Inr (Some t0)"
      using reencrypted [OF w 2(2)] by blast
    have "moved env old new ?v (PStr (c s))"
      using 2 c by (simp add: moved_def opens_iff plain_opened blank_def)
    moreover have "\<not> rw_dry_run env" using w by (simp add: writable_def)
    ultimately show ?thesis using 2 c assms(2)
      by (auto simp: rotate_row_def Let_def blank_def attempt_def sbind_def update_cell_ok [OF w]
          count_rotated_def)
  next
    case 3
    then have "\<not> opens env old ?v" by (simp add: opens_iff)
    with 3 have "moved env old new ?v ?v" by (simp add: moved_def plain_skipped)
    with 3 assms(2) show ?thesis
      by (auto simp: rotate_row_def Let_def blank_def count_skipped_def)
  qed
qed

interpretation rotation: cell_pass "rotate_rows env table column old new"
    "rotate_row env table column old new" table column "rotatable env old new" "moved env old new"
    "\<lambda>t. ta_failures t = []"
  for env table column old new
  by unfold_locales (simp, simp, rule rotate_step)


lemma rotate_table_ok:
  assumes "tables_ready (rotatable env old new) [(table, column)] (sc_tables s)" and "column \<noteq> ''id''"
  shows "\<exists>t' s'. rotate_table env table column old new s = (Inr t', s') \<and> ta_failures t' = []
    \<and> tables_related (moved env old new) [(table, column)] (sc_tables s) (sc_tables s')"
proof -
  obtain t' s' rows' where run: "rotate_rows env table column old new (sc_tables s table) no_tally s
      = (Inr t', s')" "ta_failures t' = []" "sc_tables s' = (sc_tables s)(table := rows')"
    and rel: "list_all2 (cell_related (moved env old new) column) (sc_tables s table) rows'"
    using rotation.loop_related [OF assms(2), of s table "[]" "sc_tables s table" env old new no_tally]
      assms(1) by (auto simp: tables_ready_def no_tally_def)
  have "tables_related (moved env old new) [(table, column)] (sc_tables s) (sc_tables s')"
    by (rule pass_related [OF rel run(3)])
  with run show ?thesis by (simp add: rotate_table_def)
qed

lemma rotate_columns_ok:
  assumes "tables_ready (rotatable env old new) cols (sc_tables s)" and "distinct cols"
    and "\<forall>(table, c) \<in> set cols. c \<noteq> ''id''" and "ta_failures t = []"
  shows "\<exists>t' s'. rotate_columns env old new cols t s = (Inr t', s') \<and> ta_failures t' = []
    \<and> tables_related (moved env old new) cols (sc_tables s) (sc_tables s')"
  using assms
proof (induction cols arbitrary: s t)
  case Nil
  then show ?case by (simp add: related_Nil)
next
  case (Cons col cols)
  obtain table column where col: "col = (table, column)" by (cases col)
  from Cons.prems(1) have "tables_ready (rotatable env old new) [col] (sc_tables s)"
    by (simp add: tables_ready_def)
  then obtain t1 s1 where one: "rotate_table env table column old new s = (Inr t1, s1)"
    "ta_failures t1 = []" "tables_related (moved env old new) [col] (sc_tables s) (sc_tables s1)"
    using rotate_table_ok [of env old new table column s] Cons.prems(3) col by auto
  have "tables_ready (rotatable env old new) cols (sc_tables s)"
    using Cons.prems(1) by (simp add: tables_ready_def)
  then have "tables_ready (rotatable env old new) cols (sc_tables s1)"
    using ready_later one(3) Cons.prems(2,3) by (metis distinct.simps(2))
  then obtain t' s' where rest: "rotate_columns env old new cols (add_tally t t1) s1 = (Inr t', s')"
    "ta_failures t' = []" "tables_related (moved env old new) cols (sc_tables s1) (sc_tables s')"
    using Cons.IH [of s1 "add_tally t t1"] Cons.prems(2-4) one(2) by (auto simp: add_tally_def)
  have "with_conn (rotate_table env table column old new) s = (Inr t1, s1)"
    by (simp add: with_conn_def one(1))
  then have "rotate_columns env old new (col # cols) t s = (Inr t', s')"
    by (simp add: col sbind_def rest(1))
  moreover have "tables_related (moved env old new) (col # cols) (sc_tables s) (sc_tables s')"
    using related_Cons [OF one(3) rest(3)] Cons.prems(2) by simp
  ultimately show ?case using rest(2) by blast
qed

lemma encrypted_columns_distinct:
  "distinct ENCRYPTED_COLUMNS" "\<forall>(table, c) \<in> set ENCRYPTED_COLUMNS. c \<noteq> ''id''"
  by (simp_all add: ENCRYPTED_COLUMNS_def)

text \<open>
  C2: A rotation keeps what every secret says. On tables with identifiers of their own whose
  encrypted cells are empty or open to the old key (or, with the option to skip what the old key
  does not open, to the new one, as an interrupted rotation leaves them), the rotation
  ends with exit code 0 and leaves tables of the same rows where every cell of the six columns
  is empty or opens to the new key and says under the new key alone what it said before, and
  every other cell is the same.
\<close>

theorem rotation_preserves_secrets:
  assumes "tables_ready (rotatable env old new) ENCRYPTED_COLUMNS (sc_tables s)"
  shows "\<exists>t s'. rotate_main env old new s = (Inr (0, t), s')
    \<and> tables_related (moved env old new) ENCRYPTED_COLUMNS (sc_tables s) (sc_tables s')"
proof -
  have "ta_failures no_tally = []" by (simp add: no_tally_def)
  from rotate_columns_ok [OF assms encrypted_columns_distinct this]
  obtain t s' where "rotate_columns env old new ENCRYPTED_COLUMNS no_tally s = (Inr t, s')"
    "ta_failures t = []" "tables_related (moved env old new) ENCRYPTED_COLUMNS (sc_tables s) (sc_tables s')"
    by blast
  then show ?thesis by (simp add: rotate_main_def sbind_def)
qed

text \<open>An AES-GCM that opens a text only to the key it was closed with.\<close>

definition ex_tag :: "bytes \<Rightarrow> bytes" where
  "ex_tag k = take TAG_LEN (k @ replicate TAG_LEN 0)"

definition ex_aead :: crypto where
  "ex_aead = \<lparr>cr_argon2id = (\<lambda>m s. m @ s),
     cr_gcm_encrypt = (\<lambda>k n pt. pt @ ex_tag k),
     cr_gcm_decrypt = (\<lambda>k n ct. if drop (length ct - TAG_LEN) ct = ex_tag k
       then Some (take (length ct - TAG_LEN) ct) else None)\<rparr>"

definition ex_script_env :: script_env where
  "ex_script_env = \<lparr>rw_crypto = ex_aead, rw_nonce = (\<lambda>n. replicate NONCE_LEN (of_nat n)),
     rw_reject = (\<lambda>t. None), rw_dry_run = False, rw_skip_undecryptable = True\<rparr>"

definition ex_vault :: "byte \<Rightarrow> vault" where
  "ex_vault b = \<lparr>va_environ = ex_environ, va_key = replicate 32 b\<rparr>"

definition ex_closed :: "byte \<Rightarrow> string \<Rightarrow> pyval" where
  "ex_closed b t = PStr (b64_encode ([VERSION] @ replicate NONCE_LEN 9
     @ cr_gcm_encrypt ex_aead (replicate 32 b) (replicate NONCE_LEN 9) (encode_utf8 t)))"

text \<open>A rotation that stopped midway: one bind password is on the new key already.\<close>

definition ex_secret_tables :: tables where
  "ex_secret_tables = (\<lambda>_. [])
     (''ldap_servers'' :=
        [[(''id'', PInt 1), (''bind_password_encrypted'', ex_closed 2 ''first'')],
         [(''id'', PInt 2), (''bind_password_encrypted'', ex_closed 1 ''second'')]],
      ''network_devices'' :=
        [[(''id'', PInt 1), (''snmp_community_encrypted'', PNone),
          (''coa_secret_encrypted'', ex_closed 1 ''coa''),
          (''ssh_username'', PStr ''orw''), (''ssh_password_encrypted'', ex_closed 1 ''ssh'')]])"

definition ex_script_state :: script_state where
  "ex_script_state = \<lparr>sc_tables = ex_secret_tables, sc_drawn = 0\<rparr>"

lemma ex_aead_ok: "aead_ok ex_aead"
  by (simp add: aead_ok_def ex_aead_def ex_tag_def TAG_LEN_def min_def)

lemma ex_writable: "writable ex_script_env"
  using ex_aead_ok by (simp add: writable_def ex_script_env_def)

lemma ex_cells:
  "vault_decrypt ex_script_env (ex_vault 1) (ex_closed 1 ''second'') = Inr (Some ''second'')"
  "vault_decrypt ex_script_env (ex_vault 1) (ex_closed 1 ''coa'') = Inr (Some ''coa'')"
  "vault_decrypt ex_script_env (ex_vault 1) (ex_closed 2 ''first'') = Inl InvalidTag"
  "vault_decrypt ex_script_env (ex_vault 2) (ex_closed 2 ''first'') = Inr (Some ''first'')"
  "vault_decrypt ex_script_env (ex_vault 2) (ex_closed 1 ''ssh'') = Inl InvalidTag"
  by code_simp+

lemma ex_ready: "tables_ready (rotatable ex_script_env (ex_vault 1) (ex_vault 2)) ENCRYPTED_COLUMNS ex_secret_tables"
  using ex_writable ex_cells
  by (auto simp: tables_ready_def ENCRYPTED_COLUMNS_def ex_secret_tables_def rotatable_def opens_iff
      blank_def py_get_def dict_get_or_def row_ids_def ex_script_env_def)

theorem rotation_preserves_secrets_witness:
  "\<exists>t s'. rotate_main ex_script_env (ex_vault 1) (ex_vault 2) ex_script_state = (Inr (0, t), s')
     \<and> map (\<lambda>r. plain ex_script_env [ex_vault 2] (py_get r ''bind_password_encrypted''))
         (sc_tables s' ''ldap_servers'') = [Some ''first'', Some ''second'']"
proof -
  have "tables_ready (rotatable ex_script_env (ex_vault 1) (ex_vault 2)) ENCRYPTED_COLUMNS (sc_tables ex_script_state)"
    using ex_ready by (simp add: ex_script_state_def)
  from rotation_preserves_secrets [OF this] obtain t s' where
    run: "rotate_main ex_script_env (ex_vault 1) (ex_vault 2) ex_script_state = (Inr (0, t), s')"
    and rel: "tables_related (moved ex_script_env (ex_vault 1) (ex_vault 2)) ENCRYPTED_COLUMNS ex_secret_tables
      (sc_tables s')" by (auto simp: ex_script_state_def)
  have "list_all2 (row_related (moved ex_script_env (ex_vault 1) (ex_vault 2)) ENCRYPTED_COLUMNS ''ldap_servers'')
      (ex_secret_tables ''ldap_servers'') (sc_tables s' ''ldap_servers'')"
    using rel by (simp add: tables_related_def)
  then have "list_all2 (\<lambda>r r'. plain ex_script_env [ex_vault 2] (py_get r' ''bind_password_encrypted'')
      = plain ex_script_env [ex_vault 1, ex_vault 2] (py_get r ''bind_password_encrypted''))
      (ex_secret_tables ''ldap_servers'') (sc_tables s' ''ldap_servers'')"
    by (rule list_all2_mono)
      (auto simp: row_related_def moved_def ENCRYPTED_COLUMNS_def
        dest!: spec [where x = "''bind_password_encrypted''"])
  then have "map (\<lambda>r. plain ex_script_env [ex_vault 2] (py_get r ''bind_password_encrypted''))
        (sc_tables s' ''ldap_servers'')
      = map (\<lambda>r. plain ex_script_env [ex_vault 1, ex_vault 2] (py_get r ''bind_password_encrypted''))
        (ex_secret_tables ''ldap_servers'')"
    by (induction rule: list_all2_induct) simp_all
  moreover have "map (\<lambda>r. plain ex_script_env [ex_vault 1, ex_vault 2] (py_get r ''bind_password_encrypted''))
      (ex_secret_tables ''ldap_servers'') = [Some ''first'', Some ''second'']" by code_simp
  ultimately show ?thesis using run by auto
qed

section \<open>What the rotation leaves alone\<close>

lemma keeps_cells_pass:
  assumes "(table', d) \<noteq> (table, column)"
  shows "keeps (\<lambda>s. map (\<lambda>r. py_get r d) (sc_tables s table') = X)
    (rotate_rows env table column old new rows t)"
proof (induction rows arbitrary: t)
  case (Cons row rows)
  have cell: "map (\<lambda>r. py_get r d) (map (set_cell column rid v) rs) = map (\<lambda>r. py_get r d) rs"
    if "d \<noteq> column" for rid v rs
    using that by (auto simp: set_cell_def py_get_def dict_get_or_def)
  have "keeps (\<lambda>s. map (\<lambda>r. py_get r d) (sc_tables s table') = X) (update_cell env table column rid v)"
    for rid v
    using assms cell by (auto simp: keeps_def update_cell_def Let_def split: option.split)
  moreover have "keeps (\<lambda>s. map (\<lambda>r. py_get r d) (sc_tables s table') = X)
      (attempt (vault_encrypt env new pt))" for pt
    by (simp add: keeps_def vault_encrypt_def)
  ultimately have "keeps (\<lambda>s. map (\<lambda>r. py_get r d) (sc_tables s table') = X)
      (rotate_row env table column old new row t)"
    unfolding rotate_row_def Let_def
    by (auto intro!: keeps_intros split: sum.split option.split)
  then show ?case using Cons.IH by (simp add: keeps_sbind)
qed (simp add: keeps_basic)

lemma keeps_with_conn:
  assumes "keeps (\<lambda>s. J (sc_tables s)) m"
  shows "keeps (\<lambda>s. J (sc_tables s)) (with_conn m)"
  unfolding keeps_def
proof (intro allI impI)
  fix s :: script_state assume J: "J (sc_tables s)"
  obtain r s' where m: "m s = (r, s')" by (cases "m s")
  have "J (sc_tables s')" using keepsD [OF assms J m] .
  with J m show "J (sc_tables (snd (with_conn m s)))"
    by (cases r) (simp_all add: with_conn_def)
qed

lemma rotation_leaves_cells:
  assumes "(table, d) \<notin> set cols"
  shows "keeps (\<lambda>s. map (\<lambda>r. py_get r d) (sc_tables s table) = X) (rotate_columns env old new cols t)"
  using assms
proof (induction cols arbitrary: t)
  case (Cons col cols)
  obtain tb c where col: "col = (tb, c)" by (cases col)
  have "keeps (\<lambda>s. map (\<lambda>r. py_get r d) (sc_tables s table) = X) (rotate_table env tb c old new)"
    unfolding rotate_table_def
    by (intro keeps_sbind keeps_basic keeps_cells_pass) (use Cons.prems col in auto)
  then have "keeps (\<lambda>s. map (\<lambda>r. py_get r d) (sc_tables s table) = X)
      (with_conn (rotate_table env tb c old new))"
    by (rule keeps_with_conn [where J = "\<lambda>T. map (\<lambda>r. py_get r d) (T table) = X"])
  with Cons show ?case by (simp add: col keeps_sbind)
qed (simp add: keeps_basic)

lemma rotation_leaves_column:
  assumes "(table, d) \<notin> set ENCRYPTED_COLUMNS"
  shows "map (\<lambda>r. py_get r d) (sc_tables (snd (rotate_main env old new s)) table)
    = map (\<lambda>r. py_get r d) (sc_tables s table)"
proof -
  have "keeps (\<lambda>s'. map (\<lambda>r. py_get r d) (sc_tables s' table) = map (\<lambda>r. py_get r d) (sc_tables s table))
      (rotate_main env old new)"
    unfolding rotate_main_def by (intro keeps_sbind keeps_basic rotation_leaves_cells assms)
  from keeps_snd [OF this] show ?thesis by simp
qed

lemma map_pairs:
  "map f xs = map f ys \<Longrightarrow> map g xs = map g ys \<Longrightarrow> map (\<lambda>x. (f x, g x)) xs = map (\<lambda>x. (f x, g x)) ys"
  by (auto simp: list_eq_iff_nth_eq)

lemma rotation_forgets_ssh:
  "map (\<lambda>r. (py_get r ''id'', py_get r ''ssh_password_encrypted''))
     (sc_tables (snd (rotate_main env old new s)) ''network_devices'')
   = map (\<lambda>r. (py_get r ''id'', py_get r ''ssh_password_encrypted'')) (sc_tables s ''network_devices'')"
proof -
  have "(''network_devices'', ''id'') \<notin> set ENCRYPTED_COLUMNS"
    "(''network_devices'', ''ssh_password_encrypted'') \<notin> set ENCRYPTED_COLUMNS"
    by (simp_all add: ENCRYPTED_COLUMNS_def)
  from this [THEN rotation_leaves_column [of _ _ env old new s]] show ?thesis
    by (rule map_pairs)
qed

section \<open>The pass of the migrations\<close>

text \<open>A secret of a process: ciphertext as it is, empty, or an ASCII plaintext.\<close>

definition encryptable :: "script_env \<Rightarrow> secret_environ \<Rightarrow> pyval \<Rightarrow> bool" where
  "encryptable env environ v \<longleftrightarrow> writable env \<and> (\<exists>k. derive_key (rw_crypto env) environ = Inr k)
     \<and> (v = PNone \<or> (\<exists>t. v = PStr t \<and> (\<forall>c \<in> set t. ord_of c < 128)))"

definition secured :: "pyval \<Rightarrow> bool" where
  "secured v \<longleftrightarrow> blank v \<or> is_encrypted v"

definition migrated :: "script_env \<Rightarrow> secret_environ \<Rightarrow> pyval \<Rightarrow> pyval \<Rightarrow> bool" where
  "migrated env environ v v' \<longleftrightarrow> secured v'
     \<and> (if secured v then v' = v
        else \<exists>t. v = PStr t \<and> fst (decrypt_secret (rw_crypto env) environ v' None) = Inr (Some t))"

lemma module_encrypted:
  assumes "writable env" and "derive_key (rw_crypto env) environ = Inr k"
    and "\<forall>c \<in> set t. ord_of c < 128"
  obtains c where
    "module_encrypt env environ (PStr t) s = (Inr (Some c), s\<lparr>sc_drawn := sc_drawn s + 1\<rparr>)"
    "is_encrypted (PStr c)" "fst (decrypt_secret (rw_crypto env) environ (PStr c) None) = Inr (Some t)"
proof -
  let ?n = "rw_nonce env (sc_drawn s)"
  have key: "vault_key (rw_crypto env) environ None = (Inr k, Some k)"
    by (simp add: vault_key_def assms(2))
  define c where "c = b64_encode ([VERSION] @ ?n @ cr_gcm_encrypt (rw_crypto env) k ?n (encode_utf8 t))"
  have enc: "encrypt_secret (rw_crypto env) environ ?n (PStr t) None = (Inr (Some c), Some k)"
    by (simp add: encrypt_secret_def sbind_def key c_def)
  have dec: "decrypt_secret (rw_crypto env) environ (PStr c) (Some k) = (Inr (Some t), Some k)
      \<and> is_encrypted (PStr c)"
    using encrypt_then_decrypt [OF _ _ assms(3) enc] assms(1) by (simp add: writable_def)
  have "fst (decrypt_secret (rw_crypto env) environ (PStr c) None)
      = fst (decrypt_secret (rw_crypto env) environ (PStr c) (Some k))"
    by (simp add: decrypt_secret_def sbind_def key vault_key_def assms(2) split: sum.split)
  with dec enc show ?thesis by (intro that [of c]) (simp_all add: module_encrypt_def)
qed

lemma migrate_step:
  assumes ok: "encryptable env environ (py_get row column)" and "mg_failed g = []"
  shows "\<exists>g' s' v. migrate_row env table column ident_col environ row g s = (Inr g', s')
    \<and> mg_failed g' = [] \<and> migrated env environ (py_get row column) v
    \<and> (v = py_get row column \<and> sc_tables s' = sc_tables s
       \<or> sc_tables s' = (sc_tables s)(table :=
           map (set_cell column (py_get row ''id'') v) (sc_tables s table)))"
proof (cases "secured (py_get row column)")
  case True
  with assms(2) show ?thesis
    by (auto simp: migrate_row_def Let_def secured_def blank_def migrated_def)
next
  case False
  then obtain t k where t: "py_get row column = PStr t" "\<forall>c \<in> set t. ord_of c < 128"
    and k: "derive_key (rw_crypto env) environ = Inr k" and w: "writable env"
    using ok by (auto simp: encryptable_def secured_def blank_def)
  obtain c where c: "module_encrypt env environ (PStr t) s = (Inr (Some c), s\<lparr>sc_drawn := sc_drawn s + 1\<rparr>)"
    "is_encrypted (PStr c)" "fst (decrypt_secret (rw_crypto env) environ (PStr c) None) = Inr (Some t)"
    using module_encrypted [OF w k t(2)] by blast
  have "migrated env environ (py_get row column) (PStr c)"
    using False c t by (simp add: migrated_def secured_def)
  moreover have "\<not> rw_dry_run env" using w by (simp add: writable_def)
  ultimately show ?thesis using False t c(1) assms(2)
    by (auto simp: migrate_row_def Let_def secured_def blank_def attempt_def sbind_def
        update_cell_ok [OF w])
qed

interpretation migration: cell_pass "migrate_rows env table column ident_col environ"
    "migrate_row env table column ident_col environ" table column "encryptable env environ"
    "migrated env environ" "\<lambda>g. mg_failed g = []"
  for env table column ident_col environ
  by unfold_locales (simp, simp, rule migrate_step)

lemma migrate_secured:
  assumes "\<forall>row \<in> set rows. secured (py_get row column)"
  shows "\<exists>g'. migrate_rows env table column ident_col environ rows g s = (Inr g', s)
    \<and> mg_encrypted g' = mg_encrypted g \<and> mg_failed g' = mg_failed g"
  using assms
proof (induction rows arbitrary: g)
  case (Cons row rows)
  from Cons.prems have "secured (py_get row column)" by simp
  then have "\<exists>g1. migrate_row env table column ident_col environ row g s = (Inr g1, s)
      \<and> mg_encrypted g1 = mg_encrypted g \<and> mg_failed g1 = mg_failed g"
    by (cases "blank (py_get row column)") (simp_all add: migrate_row_def secured_def blank_def)
  then obtain g1 where "migrate_row env table column ident_col environ row g s = (Inr g1, s)"
    "mg_encrypted g1 = mg_encrypted g" "mg_failed g1 = mg_failed g" by blast
  with Cons.IH [of g1] Cons.prems show ?case by (auto simp: sbind_def)
qed simp

definition target_columns :: "(string \<times> string \<times> string) list \<Rightarrow> (string \<times> string) list" where
  "target_columns targets = map (\<lambda>(t, c, i). (t, c)) targets"

lemma migrate_one_ok:
  assumes "tables_ready (encryptable env environ) [(table, column)] (sc_tables s)"
    and "column \<noteq> ''id''" and "mg_failed g = []"
  shows "\<exists>g' s'. migrate_one env table column ident_col environ g s = (Inr g', s') \<and> mg_failed g' = []
    \<and> tables_related (migrated env environ) [(table, column)] (sc_tables s) (sc_tables s')"
proof -
  obtain g' s' rows' where run: "migrate_rows env table column ident_col environ (sc_tables s table) g s
      = (Inr g', s')" "mg_failed g' = []" "sc_tables s' = (sc_tables s)(table := rows')"
    and rel: "list_all2 (cell_related (migrated env environ) column) (sc_tables s table) rows'"
    using migration.loop_related [OF assms(2), of s table "[]" "sc_tables s table" env environ g ident_col]
      assms(1,3) by (auto simp: tables_ready_def)
  have "tables_related (migrated env environ) [(table, column)] (sc_tables s) (sc_tables s')"
    by (rule pass_related [OF rel run(3)])
  with run show ?thesis by (simp add: migrate_one_def)
qed

lemma migrate_targets_ok:
  assumes "tables_ready (encryptable env environ) (target_columns ts) (sc_tables s)"
    and "distinct (target_columns ts)" and "\<forall>(table, c) \<in> set (target_columns ts). c \<noteq> ''id''"
    and "mg_failed g = []"
  shows "\<exists>g' s'. migrate_targets env environ ts g s = (Inr g', s') \<and> mg_failed g' = []
    \<and> tables_related (migrated env environ) (target_columns ts) (sc_tables s) (sc_tables s')"
  using assms
proof (induction ts arbitrary: s g)
  case Nil
  then show ?case by (simp add: target_columns_def related_Nil)
next
  case (Cons target ts)
  obtain table column ident_col where target: "target = (table, column, ident_col)" by (cases target)
  let ?col = "(table, column)"
  have cols: "target_columns (target # ts) = ?col # target_columns ts"
    by (simp add: target_columns_def target)
  have new: "?col \<notin> set (target_columns ts)" using Cons.prems(2) cols by simp
  have "tables_ready (encryptable env environ) [?col] (sc_tables s)"
    using Cons.prems(1) by (simp add: tables_ready_def cols)
  moreover have "column \<noteq> ''id''" using Cons.prems(3) by (simp add: cols)
  ultimately obtain g1 s1 where one: "migrate_one env table column ident_col environ g s = (Inr g1, s1)"
    "mg_failed g1 = []" "tables_related (migrated env environ) [?col] (sc_tables s) (sc_tables s1)"
    using migrate_one_ok [of env environ table column s g ident_col] Cons.prems(4) by blast
  have "tables_ready (encryptable env environ) (target_columns ts) (sc_tables s)"
    using Cons.prems(1) by (simp add: tables_ready_def cols)
  then have "tables_ready (encryptable env environ) (target_columns ts) (sc_tables s1)"
    using ready_later [OF _ one(3) new] Cons.prems(3) by (simp add: cols)
  then obtain g' s' where rest: "migrate_targets env environ ts g1 s1 = (Inr g', s')" "mg_failed g' = []"
    "tables_related (migrated env environ) (target_columns ts) (sc_tables s1) (sc_tables s')"
    using Cons.IH [of s1 g1] Cons.prems(2,3) one(2) by (auto simp: cols)
  have "migrate_targets env environ (target # ts) g s = (Inr g', s')"
    by (simp add: target sbind_Inr [where m = "migrate_one env table column ident_col environ g", OF one(1)]
        rest(1))
  moreover have "tables_related (migrated env environ) (target_columns (target # ts))
      (sc_tables s) (sc_tables s')"
    unfolding cols by (rule related_Cons [OF one(3) rest(3) new])
  ultimately show ?case using rest(2) by blast
qed

lemma migrate_targets_again:
  assumes "\<forall>(table, c) \<in> set (target_columns ts). \<forall>row \<in> set (sc_tables s table). secured (py_get row c)"
  shows "\<exists>g'. migrate_targets env environ ts g s = (Inr g', s)
    \<and> mg_encrypted g' = mg_encrypted g \<and> mg_failed g' = mg_failed g"
  using assms
proof (induction ts arbitrary: g)
  case (Cons target ts)
  obtain table column ident_col where target: "target = (table, column, ident_col)" by (cases target)
  have "\<forall>row \<in> set (sc_tables s table). secured (py_get row column)"
    using Cons.prems by (simp add: target target_columns_def)
  from migrate_secured [OF this, of env table ident_col environ g s] obtain g1 where
    one: "migrate_one env table column ident_col environ g s = (Inr g1, s)"
    "mg_encrypted g1 = mg_encrypted g" "mg_failed g1 = mg_failed g"
    by (auto simp: migrate_one_def)
  have "\<forall>(table, c) \<in> set (target_columns ts). \<forall>row \<in> set (sc_tables s table). secured (py_get row c)"
    using Cons.prems by (simp add: target_columns_def)
  from Cons.IH [OF this, of g1] one(2,3) show ?case
    by (simp add: target sbind_Inr [where m = "migrate_one env table column ident_col environ g", OF one(1)])
qed simp

lemma related_secured:
  assumes "tables_related (migrated env environ) cols T T'" and "(table, c) \<in> set cols"
    and "row' \<in> set (T' table)"
  shows "secured (py_get row' c)"
proof -
  have "list_all2 (row_related (migrated env environ) cols table) (T table) (T' table)"
    using assms(1) by (simp add: tables_related_def)
  then obtain row where rel: "row_related (migrated env environ) cols table row row'"
    using assms(3) by (metis in_set_conv_nth list_all2_conv_all_nth)
  show ?thesis
    using spec [OF rel [unfolded row_related_def], of c] assms(2) by (simp add: migrated_def)
qed

text \<open>
  C17: A migration encrypts every plaintext once. For targets with identifiers of their own whose
  cells are empty, ciphertext or ASCII text, and variables a key can be derived from, a
  run ends with exit code 0; afterwards every cell is empty or ciphertext, those that were are
  unchanged, the others decrypt to the text they held, and nothing else changed. Running it
  again ends with exit code 0, encrypts nothing and changes nothing.
\<close>

theorem migration_idempotent:
  assumes "tables_ready (encryptable env environ) (target_columns targets) (sc_tables s)"
    and "distinct (target_columns targets)"
    and "\<forall>(table, c) \<in> set (target_columns targets). c \<noteq> ''id''"
  shows "\<exists>g g' s'. migrate_main env environ targets s = (Inr (0, g), s')
    \<and> tables_related (migrated env environ) (target_columns targets) (sc_tables s) (sc_tables s')
    \<and> migrate_main env environ targets s' = (Inr (0, g'), s') \<and> mg_encrypted g' = 0"
proof -
  have none: "mg_failed no_migration = []" "mg_encrypted no_migration = 0"
    by (simp_all add: no_migration_def)
  from migrate_targets_ok [OF assms none(1)] obtain g s' where
    one: "migrate_targets env environ targets no_migration s = (Inr g, s')" "mg_failed g = []"
    "tables_related (migrated env environ) (target_columns targets) (sc_tables s) (sc_tables s')"
    by blast
  have "\<forall>(table, c) \<in> set (target_columns targets). \<forall>row \<in> set (sc_tables s' table). secured (py_get row c)"
    using related_secured [OF one(3)] by blast
  from migrate_targets_again [OF this, of env environ no_migration] obtain g' where
    two: "migrate_targets env environ targets no_migration s' = (Inr g', s')"
    "mg_encrypted g' = 0" "mg_failed g' = []" using none by auto
  show ?thesis
    using one two by (auto simp: migrate_main_def with_conn_def sbind_def exit_code_def)
qed

definition ex_plain_state :: script_state where
  "ex_plain_state = \<lparr>sc_tables = (\<lambda>_. [])(''radius_nas_clients'' :=
     [[(''id'', PInt 1), (''secret_encrypted'', PStr ''testing123'')],
      [(''id'', PInt 2), (''secret_encrypted'', ex_closed 1 ''done'')]]), sc_drawn = 0\<rparr>"

definition ex_nas_target :: "(string \<times> string \<times> string) list" where
  "ex_nas_target = [(''radius_nas_clients'', ''secret_encrypted'', ''name'')]"

lemma ex_plain_ready:
  "tables_ready (encryptable ex_script_env ex_environ) (target_columns ex_nas_target)
     (sc_tables ex_plain_state)"
proof -
  have "case derive_key ex_aead ex_environ of Inl e \<Rightarrow> False | Inr k \<Rightarrow> True" by code_simp
  then have key: "\<exists>k. derive_key (rw_crypto ex_script_env) ex_environ = Inr k"
    by (simp add: ex_script_env_def split: sum.splits)
  have ascii: "case ex_closed 1 ''done'' of PStr t \<Rightarrow> list_all (\<lambda>c. ord_of c < 128) t | _ \<Rightarrow> False"
    by code_simp
  then have "\<exists>t. ex_closed 1 ''done'' = PStr t \<and> (\<forall>c \<in> set t. ord_of c < 128)"
    by (auto simp: list_all_iff split: pyval.splits)
  moreover have "\<forall>c \<in> set ''testing123''. ord_of c < 128" by simp
  ultimately show ?thesis using key ex_writable
    by (simp add: tables_ready_def target_columns_def ex_nas_target_def ex_plain_state_def row_ids_def
        encryptable_def py_get_def dict_get_or_def)
qed

theorem migration_idempotent_witness:
  "\<exists>g g' s'. migrate_nas_secrets ex_script_env ex_environ ex_plain_state = (Inr (0, g), s')
     \<and> migrate_nas_secrets ex_script_env ex_environ s' = (Inr (0, g'), s') \<and> mg_encrypted g' = 0"
proof -
  have "distinct (target_columns ex_nas_target)"
    "\<forall>(table, c) \<in> set (target_columns ex_nas_target). c \<noteq> ''id''"
    by (simp_all add: target_columns_def ex_nas_target_def)
  from migration_idempotent [OF ex_plain_ready this] show ?thesis
    by (auto simp: migrate_nas_secrets_def ex_nas_target_def)
qed

end
