(* ===== verification/Db_Url.thy ===== *)
theory Db_Url
  imports Py_Strings Py_Values
begin

text \<open>
  Passwords in database URLs: \<open>shared/orw_common/db_url_safe.py\<close>, which masks them for logs, and
  \<open>_build_db_url\<close> of the scripts, which puts a percent-encoded password into one. The regular
  expression of the module is written out: each of its repeated classes excludes the character
  that has to follow, so that a match at a position is unique and needs no backtracking.
\<close>

section \<open>The expression\<close>

definition is_letter :: "char \<Rightarrow> bool" where
  "is_letter c \<longleftrightarrow> is_upper_char c \<or> (97 \<le> ord_of c \<and> ord_of c \<le> 122)"

definition scheme_char :: "char \<Rightarrow> bool" where
  "scheme_char c \<longleftrightarrow> is_letter c \<or> is_digit_char c \<or> c = CHR ''+'' \<or> c = CHR ''-'' \<or> c = CHR ''.''"

definition user_char :: "char \<Rightarrow> bool" where
  "user_char c \<longleftrightarrow> c \<noteq> CHR '':'' \<and> c \<noteq> CHR ''/'' \<and> c \<noteq> CHR ''?'' \<and> c \<noteq> CHR ''#'' \<and> c \<noteq> CHR ''@''
     \<and> \<not> is_space_char c"

definition password_char :: "char \<Rightarrow> bool" where
  "password_char c \<longleftrightarrow> c \<noteq> CHR ''@'' \<and> \<not> is_space_char c"

text \<open>The three groups, read from the end: the password, the user, the scheme.\<close>

definition match_password :: "string \<Rightarrow> (string \<times> string) option" where
  "match_password s =
     (let password = takeWhile password_char s; rest = dropWhile password_char s
      in if password \<noteq> [] \<and> rest \<noteq> [] \<and> hd rest = CHR ''@'' then Some (password, tl rest) else None)"

definition match_user :: "string \<Rightarrow> (string \<times> string \<times> string) option" where
  "match_user s =
     (let user = takeWhile user_char s; rest = dropWhile user_char s
      in if user \<noteq> [] \<and> rest \<noteq> [] \<and> hd rest = CHR '':''
         then map_option (\<lambda>(password, r). (user @ '':'', password, r)) (match_password (tl rest))
         else None)"

definition match_url :: "string \<Rightarrow> (string \<times> string \<times> string) option" where
  "match_url s =
     (let scheme = takeWhile scheme_char s; rest = dropWhile scheme_char s
      in if scheme \<noteq> [] \<and> is_letter (hd scheme) \<and> prefix ''://'' rest
         then map_option (\<lambda>(user, password, r). (scheme @ ''://'' @ user, password, r))
                (match_user (drop 3 rest))
         else None)"

lemma run_then:
  assumes "dropWhile P s \<noteq> []" and "hd (dropWhile P s) = c"
  shows "s = takeWhile P s @ c # tl (dropWhile P s)"
proof -
  have "s = takeWhile P s @ dropWhile P s" by simp
  also have "dropWhile P s = c # tl (dropWhile P s)"
    using assms by (cases "dropWhile P s") simp_all
  finally show ?thesis .
qed

lemma takeWhile_all: "\<forall>c \<in> set (takeWhile P s). P c"
  by (auto dest: set_takeWhileD)

lemma match_password_parts:
  assumes "match_password s = Some (p, r)"
  shows "s = p @ ''@'' @ r" and "p \<noteq> []" and "\<forall>c \<in> set p. password_char c"
proof -
  from assms have run: "dropWhile password_char s \<noteq> []" "hd (dropWhile password_char s) = CHR ''@''"
    and p: "p = takeWhile password_char s" "p \<noteq> []" "r = tl (dropWhile password_char s)"
    by (auto simp: match_password_def Let_def split: if_splits)
  from run_then [OF run] show "s = p @ ''@'' @ r" unfolding p by simp
  show "p \<noteq> []" by (rule p)
  show "\<forall>c \<in> set p. password_char c" unfolding p by (rule takeWhile_all)
qed

lemma match_user_parts:
  assumes "match_user s = Some (u, p, r)"
  obtains n where "u = n @ '':''" "n \<noteq> []" "\<forall>c \<in> set n. user_char c" "s = u @ p @ ''@'' @ r"
    "p \<noteq> []" "\<forall>c \<in> set p. password_char c"
proof -
  from assms have run: "dropWhile user_char s \<noteq> []" "hd (dropWhile user_char s) = CHR '':''"
    and u: "u = takeWhile user_char s @ '':''" "takeWhile user_char s \<noteq> []"
    and mp: "match_password (tl (dropWhile user_char s)) = Some (p, r)"
    by (auto simp: match_user_def Let_def split: if_splits)
  have "s = u @ tl (dropWhile user_char s)" using run_then [OF run] unfolding u by simp
  then have "s = u @ p @ ''@'' @ r" using match_password_parts(1) [OF mp] by simp
  then show ?thesis
    by (rule that [OF u takeWhile_all _ match_password_parts(2,3) [OF mp]])
qed

lemma match_url_parts:
  assumes "match_url s = Some (a, p, r)"
  obtains m n where "a = m @ ''://'' @ n @ '':''" "m \<noteq> []" "is_letter (hd m)" "\<forall>c \<in> set m. scheme_char c"
    "n \<noteq> []" "\<forall>c \<in> set n. user_char c" "s = a @ p @ ''@'' @ r" "p \<noteq> []" "\<forall>c \<in> set p. password_char c"
proof -
  let ?m = "takeWhile scheme_char s" and ?r = "dropWhile scheme_char s"
  from assms obtain u where m: "?m \<noteq> []" "is_letter (hd ?m)" "prefix ''://'' ?r"
    and a: "a = ?m @ ''://'' @ u" and mu: "match_user (drop 3 ?r) = Some (u, p, r)"
    by (auto simp: match_url_def Let_def split: if_splits)
  from m(3) obtain r1 where r1: "?r = ''://'' @ r1" by (auto simp: prefix_def)
  then have "drop 3 ?r = r1" by simp
  with mu obtain n where n: "u = n @ '':''" "n \<noteq> []" "\<forall>c \<in> set n. user_char c"
    "r1 = u @ p @ ''@'' @ r" "p \<noteq> []" "\<forall>c \<in> set p. password_char c"
    by (metis match_user_parts)
  have "s = ?m @ ?r" by simp
  also have "\<dots> = a @ p @ ''@'' @ r" unfolding r1 n(4) a by simp
  finally have s: "s = a @ p @ ''@'' @ r" .
  show ?thesis
    by (rule that [OF _ m(1,2) takeWhile_all n(2,3) s n(5,6)]) (simp add: a n(1))
qed

lemma match_url_shorter: "match_url s = Some (a, p, r) \<Longrightarrow> length r < length s"
  by (erule match_url_parts) simp

section \<open>Masking\<close>

text \<open>\<open>re.sub\<close> from the left: a match is replaced, its group \<open>password\<close> by three stars.\<close>

function mask_all :: "string \<Rightarrow> string" where
  "mask_all s =
     (case match_url s of
        Some (before, password, rest) \<Rightarrow> before @ ''***@'' @ mask_all rest
      | None \<Rightarrow> (case s of [] \<Rightarrow> [] | c # cs \<Rightarrow> c # mask_all cs))"
  by pat_completeness auto
termination
  by (relation "measure length") (auto dest: match_url_shorter)

declare mask_all.simps [simp del]

definition mask_db_url :: "string option \<Rightarrow> string option" where
  "mask_db_url url = map_option (\<lambda>u. if u = [] then u else mask_all u) url"

text \<open>\<open>str(err) or err.__class__.__name__\<close> is given by the two texts.\<close>

definition format_db_error :: "string \<Rightarrow> string \<Rightarrow> string option \<Rightarrow> string" where
  "format_db_error err_text err_class url =
     (let msg = (if err_text \<noteq> [] then err_text else err_class)
      in case url of
           None \<Rightarrow> msg
         | Some u \<Rightarrow> msg @ '' [url='' @ (case mask_db_url url of None \<Rightarrow> ''None'' | Some m \<Rightarrow> m) @ '']'')"

definition scrub_message :: "string \<Rightarrow> string" where
  "scrub_message s = (if s = [] then s else mask_all s)"

section \<open>The URL of the scripts\<close>

definition upper_hex_digit :: "nat \<Rightarrow> char" where
  "upper_hex_digit n = (if n < 10 then char_of (48 + n) else char_of (55 + n))"

text \<open>\<open>urllib.parse.quote(s, safe="")\<close>.\<close>

definition unreserved :: "char \<Rightarrow> bool" where
  "unreserved c \<longleftrightarrow> is_letter c \<or> is_digit_char c \<or> c = CHR ''_'' \<or> c = CHR ''.'' \<or> c = CHR ''-'' \<or> c = CHR ''~''"

definition quote_char :: "char \<Rightarrow> string" where
  "quote_char c =
     (if unreserved c then [c]
      else [CHR 0x25, upper_hex_digit (ord_of c div 16), upper_hex_digit (ord_of c mod 16)])"

definition url_quote :: "string \<Rightarrow> string" where
  "url_quote s = concat (map quote_char s)"

definition build_db_url :: "(string, string) dict \<Rightarrow> string result" where
  "build_db_url environ =
     (let url = dict_get_or environ ''ORW_DB_URL'' []; pw = dict_get_or environ ''DB_PASSWORD'' []
      in if url \<noteq> [] then Inr url
         else if pw = [] then Inl (RuntimeError ''SystemExit: 1'')
         else Inr (''postgresql://orw:'' @ url_quote pw @ ''@''
                @ dict_get_or environ ''DB_HOST'' ''postgres'' @ '':5432/orw''))"

text \<open>What the scripts print when they cannot connect.\<close>

definition connect_error_line :: "string \<Rightarrow> string \<Rightarrow> string \<Rightarrow> string" where
  "connect_error_line err_text err_class db_url =
     ''ERROR: cannot connect to postgres - '' @ format_db_error err_text err_class (Some db_url)"

section \<open>What is masked\<close>

lemma run_split:
  "\<forall>c \<in> set xs. P c \<Longrightarrow> \<not> P y \<Longrightarrow> takeWhile P (xs @ y # ys) = xs"
  "\<forall>c \<in> set xs. P c \<Longrightarrow> \<not> P y \<Longrightarrow> dropWhile P (xs @ y # ys) = y # ys"
  by (induction xs) auto

lemma class_ends: "\<not> scheme_char CHR '':''" "\<not> user_char CHR '':''" "\<not> password_char CHR ''@''"
  by (simp_all add: scheme_char_def is_letter_def is_upper_char_def is_digit_char_def user_char_def
      password_char_def)

lemma match_url_complete:
  assumes "m \<noteq> []" and "is_letter (hd m)" and "\<forall>c \<in> set m. scheme_char c"
    and "n \<noteq> []" and "\<forall>c \<in> set n. user_char c" and "p \<noteq> []" and "\<forall>c \<in> set p. password_char c"
  shows "match_url (m @ ''://'' @ n @ '':'' @ p @ ''@'' @ r) = Some (m @ ''://'' @ n @ '':'', p, r)"
proof -
  have "match_password (p @ ''@'' @ r) = Some (p, r)"
    using assms(6,7) class_ends by (simp add: match_password_def run_split)
  then have "match_user (n @ '':'' @ p @ ''@'' @ r) = Some (n @ '':'', p, r)"
    using assms(4,5) class_ends by (simp add: match_user_def run_split)
  then show ?thesis
    using assms(1-3) class_ends by (simp add: match_url_def run_split)
qed

lemma mask_url:
  assumes "m \<noteq> []" and "is_letter (hd m)" and "\<forall>c \<in> set m. scheme_char c"
    and "n \<noteq> []" and "\<forall>c \<in> set n. user_char c" and "p \<noteq> []" and "\<forall>c \<in> set p. password_char c"
  shows "mask_all (m @ ''://'' @ n @ '':'' @ p @ ''@'' @ r) = m @ ''://'' @ n @ '':***@'' @ mask_all r"
  by (subst mask_all.simps) (simp add: match_url_complete [OF assms, simplified])

lemma upper_hex_plain: "n < 16 \<Longrightarrow> password_char (upper_hex_digit n)"
proof -
  assume n: "n < 16"
  have "48 \<le> ord_of (upper_hex_digit n) \<and> ord_of (upper_hex_digit n) \<le> 70 \<and> ord_of (upper_hex_digit n) \<noteq> 64"
    using n by (auto simp: upper_hex_digit_def)
  then show ?thesis by (auto simp: password_char_def is_space_char_def)
qed

lemma quoted_plain: "\<forall>c \<in> set (url_quote s). password_char c"
proof -
  have "\<forall>d \<in> set (quote_char c). password_char d" for c
  proof (cases "unreserved c")
    case True
    then have "password_char c"
      by (auto simp: unreserved_def is_letter_def is_upper_char_def is_digit_char_def password_char_def
          is_space_char_def)
    with True show ?thesis by (simp add: quote_char_def)
  next
    case False
    have "of_char c < (256 :: nat)" by (rule nat_of_char_less_256)
    then have "ord_of c div 16 < 16" "ord_of c mod 16 < 16" by linarith simp
    then show ?thesis using False upper_hex_plain
      by (simp add: quote_char_def) (simp add: password_char_def is_space_char_def)
  qed
  then show ?thesis by (auto simp: url_quote_def)
qed

lemma quoted_not_empty: "s \<noteq> [] \<Longrightarrow> url_quote s \<noteq> []"
  by (cases s) (simp_all add: url_quote_def quote_char_def)

lemma mask_built_url:
  assumes "dict_get_or environ ''ORW_DB_URL'' [] = []" and "build_db_url environ = Inr url"
  shows "mask_db_url (Some url) =
    Some (''postgresql://orw:***@'' @ mask_all (dict_get_or environ ''DB_HOST'' ''postgres'' @ '':5432/orw''))"
proof -
  let ?pw = "dict_get_or environ ''DB_PASSWORD'' []"
  let ?rest = "dict_get_or environ ''DB_HOST'' ''postgres'' @ '':5432/orw''"
  from assms have pw: "?pw \<noteq> []" and url: "url = ''postgresql://orw:'' @ url_quote ?pw @ ''@'' @ ?rest"
    by (auto simp: build_db_url_def Let_def split: if_splits)
  have "mask_all (''postgresql'' @ ''://'' @ ''orw'' @ '':'' @ url_quote ?pw @ ''@'' @ ?rest)
      = ''postgresql'' @ ''://'' @ ''orw'' @ '':***@'' @ mask_all ?rest"
    by (rule mask_url)
      (simp_all add: quoted_plain quoted_not_empty [OF pw] scheme_char_def user_char_def is_letter_def
        is_space_char_def)
  then show ?thesis by (simp add: mask_db_url_def url)
qed



text \<open>A raw at sign in a URL ends the password early: what follows it is shown.\<close>

lemma raw_at_sign_shows_rest:
  "mask_db_url (Some ''postgresql://orw:p@ss@host/db'') = Some ''postgresql://orw:***@ss@host/db''"
  by code_simp

section \<open>Masking twice\<close>

text \<open>\<open>masks x y\<close>: \<open>y\<close> is \<open>x\<close> with some passwords, each between a colon and an at sign, replaced.\<close>

inductive masks :: "string \<Rightarrow> string \<Rightarrow> bool" where
  masks_Nil: "masks [] []"
| masks_char: "masks x y \<Longrightarrow> masks (c # x) (c # y)"
| masks_password: "masks x y \<Longrightarrow> p \<noteq> [] \<Longrightarrow> \<forall>c \<in> set p. password_char c \<Longrightarrow>
    masks (CHR '':'' # p @ CHR ''@'' # x) ('':***@'' @ y)"

inductive_cases masks_colonE: "masks x (CHR '':'' # y)"
inductive_cases masks_ConsE: "masks x (c # y)"

lemma masks_append: "masks x y \<Longrightarrow> masks (p @ x) (p @ y)"
  by (induction p) (auto intro: masks_char)

lemma masks_mask_all: "masks s (mask_all s)"
proof (induction s rule: mask_all.induct)
  case (1 s)
  show ?case
  proof (cases "match_url s")
    case None
    then show ?thesis
      using 1(1) [OF None] by (subst mask_all.simps) (cases s, auto intro: masks_Nil masks_char)
  next
    case (Some t)
    obtain a p r where t: "t = (a, p, r)" by (cases t)
    with Some obtain m n where parts: "a = m @ ''://'' @ n @ '':''" "s = a @ p @ ''@'' @ r" "p \<noteq> []"
      "\<forall>c \<in> set p. password_char c"
      by (metis match_url_parts)
    have "masks r (mask_all r)" using 1(2) Some t by simp
    from masks_password [OF this parts(3,4)]
    have "masks ((m @ ''://'' @ n) @ CHR '':'' # p @ CHR ''@'' # r) ((m @ ''://'' @ n) @ '':***@'' @ mask_all r)"
      by (rule masks_append)
    moreover have "mask_all s = a @ ''***@'' @ mask_all r"
      by (subst mask_all.simps) (simp add: Some t)
    ultimately show ?thesis using parts by simp
  qed
qed

lemma masks_run:
  assumes "masks x y" and "\<not> P CHR '':''"
  shows "takeWhile P x = takeWhile P y" and "masks (dropWhile P x) (dropWhile P y)"
  using assms by (induction rule: masks.induct) (auto intro: masks.intros(1,2) masks.intros(3) [simplified])

lemma masks_empty: "masks x y \<Longrightarrow> x = [] \<longleftrightarrow> y = []"
  by (induction rule: masks.induct) auto

lemma masks_hd: "masks x y \<Longrightarrow> y \<noteq> [] \<Longrightarrow> hd x = hd y"
  by (induction rule: masks.induct) auto

lemma masks_password_found:
  assumes "masks x y" and "dropWhile password_char y \<noteq> []" and "hd (dropWhile password_char y) = CHR ''@''"
  shows "dropWhile password_char x \<noteq> [] \<and> hd (dropWhile password_char x) = CHR ''@''"
  using assms
proof (induction rule: masks.induct)
  case (masks_password x y p)
  have "password_char CHR '':''" by (simp add: password_char_def is_space_char_def)
  then show ?case using masks_password.hyps class_ends by (simp add: run_split)
qed (auto split: if_splits)

lemma masks_unmatched:
  assumes "masks x y" and "match_url x = None"
  shows "match_url y = None"
proof (rule ccontr)
  assume "match_url y \<noteq> None"
  then obtain a p r where "match_url y = Some (a, p, r)" by auto
  then obtain m n where y: "y = m @ ''://'' @ n @ '':'' @ p @ ''@'' @ r"
    and m: "m \<noteq> []" "is_letter (hd m)" "\<forall>c \<in> set m. scheme_char c"
    and n: "n \<noteq> []" "\<forall>c \<in> set n. user_char c" and p: "p \<noteq> []" "\<forall>c \<in> set p. password_char c"
    by (metis append.assoc match_url_parts)
  have scheme: "takeWhile scheme_char x = m" and "masks (dropWhile scheme_char x) (''://'' @ n @ '':'' @ p @ ''@'' @ r)"
    using masks_run [OF assms(1), of scheme_char] class_ends m(3) by (simp_all add: y run_split)
  then obtain x1 where x1: "dropWhile scheme_char x = ''://'' @ x1" "masks x1 (n @ '':'' @ p @ ''@'' @ r)"
    by (auto elim!: masks_colonE masks_ConsE)
  have user: "takeWhile user_char x1 = n" and "masks (dropWhile user_char x1) ('':'' @ p @ ''@'' @ r)"
    using masks_run [OF x1(2), of user_char] class_ends n(2) by (simp_all add: run_split)
  then consider x2 where "dropWhile user_char x1 = CHR '':'' # x2" "masks x2 (p @ ''@'' @ r)"
    | q x2 where "dropWhile user_char x1 = CHR '':'' # q @ CHR ''@'' # x2" "q \<noteq> []"
        "\<forall>c \<in> set q. password_char c"
    by (auto elim!: masks_colonE)
  then have "match_url x \<noteq> None"
  proof cases
    case 1
    have at: "dropWhile password_char (p @ ''@'' @ r) \<noteq> []"
      "hd (dropWhile password_char (p @ ''@'' @ r)) = CHR ''@''"
      using p(2) class_ends by (simp_all add: run_split)
    have "x2 \<noteq> []" "hd x2 = hd p" using masks_empty [OF 1(2)] masks_hd [OF 1(2)] p(1) by simp_all
    then have "takeWhile password_char x2 \<noteq> []" using p by (cases x2; cases p) auto
    with masks_password_found [OF 1(2) at] have "match_password x2 \<noteq> None"
      by (simp add: match_password_def)
    with user n 1(1) have "match_user x1 \<noteq> None" by (simp add: match_user_def)
    with scheme m x1(1) show ?thesis by (simp add: match_url_def)
  next
    case 2
    then have "match_password (q @ CHR ''@'' # x2) \<noteq> None"
      using class_ends by (simp add: match_password_def run_split)
    with user n 2(1) have "match_user x1 \<noteq> None" by (simp add: match_user_def)
    with scheme m x1(1) show ?thesis by (simp add: match_url_def)
  qed
  with assms(2) show False by simp
qed

text \<open>
  Masking a text twice is masking it once, as the comment of the function promises.
\<close>

theorem mask_idempotent: "mask_db_url (mask_db_url url) = mask_db_url url"
proof -
  have "mask_all (mask_all s) = mask_all s" for s
  proof (induction s rule: mask_all.induct)
    case (1 s)
    show ?case
    proof (cases "match_url s")
      case None
      show ?thesis
      proof (cases s)
        case (Cons c cs)
        have s: "mask_all s = c # mask_all cs"
          by (subst mask_all.simps) (simp add: None [unfolded Cons] Cons)
        have "masks s (mask_all s)" by (rule masks_mask_all)
        with None have "match_url (c # mask_all cs) = None" using masks_unmatched s by metis
        then have "mask_all (c # mask_all cs) = c # mask_all (mask_all cs)"
          by (subst mask_all.simps) simp
        with 1(1) [OF None Cons] s show ?thesis by simp
      qed (simp add: mask_all.simps match_url_def)
    next
      case (Some t)
      obtain a p r where t: "t = (a, p, r)" by (cases t)
      with Some obtain m n where a: "a = m @ ''://'' @ n @ '':''" "m \<noteq> []" "is_letter (hd m)"
        "\<forall>c \<in> set m. scheme_char c" "n \<noteq> []" "\<forall>c \<in> set n. user_char c"
        by (metis match_url_parts)
      have s: "mask_all s = a @ ''***@'' @ mask_all r"
        by (subst mask_all.simps) (simp add: Some t)
      have "mask_all (m @ ''://'' @ n @ '':'' @ ''***'' @ ''@'' @ mask_all r)
          = m @ ''://'' @ n @ '':***@'' @ mask_all (mask_all r)"
        by (rule mask_url [OF a(2-6)]) (simp_all add: password_char_def is_space_char_def)
      with 1(2) Some t s a(1) show ?thesis by simp
    qed
  qed
  then show ?thesis by (cases url) (simp_all add: mask_db_url_def)
qed

end
