(* ===== verification/Policies_Service.thy ===== *)
theory Policies_Service
  imports Gateway_Store Policy_Engine
begin

text \<open>
  The policies of the gateway: repository, service and events of
  \<open>services/gateway/features/policies\<close>, with the two simulations, which run the shared copy of
  the evaluator. A \<open>jsonb\<close> column is the value it encodes: what the service gives to
  \<open>json.dumps\<close> and the statement casts back. The abstraction \<open>policy_of\<close> reads a row of the table
  as the policy engine does, so that what a simulation announces can be compared with what the
  engine then does.
\<close>

section \<open>Repository\<close>

definition policy_scope :: "string \<Rightarrow> bool option \<Rightarrow> pydict \<Rightarrow> bool" where
  "policy_scope tenant enabled =
     where_eq ([(''tenant_id'', PStr tenant)] @
       (case enabled of None \<Rightarrow> [] | Some b \<Rightarrow> [(''enabled'', PBool b)]))"

definition repo_count_policies :: "string \<Rightarrow> bool option \<Rightarrow> (gw_state, int) prog" where
  "repo_count_policies tenant enabled = count_rows ''policies'' (policy_scope tenant enabled)"

definition repo_list_policies ::
  "gw_env \<Rightarrow> string \<Rightarrow> bool option \<Rightarrow> int \<Rightarrow> int \<Rightarrow> (gw_state, pydict list) prog" where
  "repo_list_policies env tenant enabled limit offset =
     select_page env ''priority, name'' ''policies'' (policy_scope tenant enabled) limit offset"

definition repo_list_enabled_policies :: "gw_env \<Rightarrow> string \<Rightarrow> (gw_state, pydict list) prog" where
  "repo_list_enabled_policies env tenant =
     select_ordered env ''priority'' ''policies''
       (where_eq [(''enabled'', PBool True), (''tenant_id'', PStr tenant)])"

definition repo_lookup_policy :: "string \<Rightarrow> string \<Rightarrow> (gw_state, pydict option) prog" where
  "repo_lookup_policy tenant policy_id =
     sbind (select_rows ''policies'' (by_id tenant policy_id)) (\<lambda>rows. sret (first_row rows))"

definition repo_insert_policy ::
  "gw_env \<Rightarrow> string \<Rightarrow> string \<Rightarrow> pyval \<Rightarrow> pyval \<Rightarrow> pyval \<Rightarrow> pyval \<Rightarrow> pyval \<Rightarrow> pyval \<Rightarrow> bool
   \<Rightarrow> (gw_state, pydict) prog" where
  "repo_insert_policy env tenant created_by name description priority conditions match_actions
       no_match_actions enabled =
     insert_row env ''policies''
       [(''name'', name), (''description'', description), (''priority'', priority),
        (''conditions'', conditions), (''match_actions'', match_actions),
        (''no_match_actions'', no_match_actions), (''enabled'', PBool enabled),
        (''tenant_id'', PStr tenant), (''created_by'', PStr created_by)]"

definition repo_update_policy ::
  "gw_env \<Rightarrow> string \<Rightarrow> string \<Rightarrow> pydict \<Rightarrow> (gw_state, pydict option) prog" where
  "repo_update_policy env tenant policy_id updates =
     sbind (slift (build_safe_set_clause updates POLICY_UPDATE_COLUMNS [] POLICY_TYPE_CASTS))
       (\<lambda>(clause, params).
     sbind (update_rows env ''policies'' (by_id tenant policy_id) (params @ stamp env ''updated_at''))
       (\<lambda>rows. sret (first_row rows)))"

definition repo_delete_policy :: "gw_env \<Rightarrow> string \<Rightarrow> string \<Rightarrow> (gw_state, bool) prog" where
  "repo_delete_policy env tenant policy_id =
     sbind (delete_rows env ''policies'' (by_id tenant policy_id)) (\<lambda>rows. sret (rows \<noteq> []))"

section \<open>Events\<close>

definition publish_policy_created :: "gw_env \<Rightarrow> string \<Rightarrow> string \<Rightarrow> (gw_state, unit) prog" where
  "publish_policy_created env policy_id name =
     publish env ''orw.policy.created'' [(''policy_id'', PStr policy_id), (''name'', PStr name)]"

definition publish_policy_updated :: "gw_env \<Rightarrow> string \<Rightarrow> (gw_state, unit) prog" where
  "publish_policy_updated env policy_id =
     publish env ''orw.policy.updated'' [(''policy_id'', PStr policy_id)]"

definition publish_policy_deleted :: "gw_env \<Rightarrow> string \<Rightarrow> (gw_state, unit) prog" where
  "publish_policy_deleted env policy_id =
     publish env ''orw.policy.deleted'' [(''policy_id'', PStr policy_id)]"

section \<open>Service\<close>

definition list_policies :: "gw_env \<Rightarrow> string \<Rightarrow> bool option \<Rightarrow> int \<Rightarrow> int \<Rightarrow> (gw_state, pydict) prog" where
  "list_policies env tenant enabled page page_size =
     sbind (repo_count_policies tenant enabled) (\<lambda>n.
     sbind (repo_list_policies env tenant enabled page_size ((page - 1) * page_size)) (\<lambda>rows.
       sret (page_dict rows n page page_size)))"

definition get_policy :: "string \<Rightarrow> string \<Rightarrow> (gw_state, pydict) prog" where
  "get_policy tenant policy_id =
     sbind (repo_lookup_policy tenant policy_id) (\<lambda>row.
       case row of None \<Rightarrow> sraise (not_found ''Policy'' policy_id) | Some r \<Rightarrow> sret r)"

record policy_create =
  pc_name :: string
  pc_description :: pyval
  pc_priority :: int
  pc_conditions :: "pyval list"
  pc_match_actions :: "pyval list"
  pc_no_match_actions :: "pyval list"
  pc_enabled :: bool

definition create_policy :: "gw_env \<Rightarrow> gw_actor \<Rightarrow> policy_create \<Rightarrow> pyval \<Rightarrow> (gw_state, pydict) prog" where
  "create_policy env actor req client_ip =
     sbind (repo_insert_policy env (ac_tenant actor) (ac_sub actor) (PStr (pc_name req))
              (pc_description req) (PInt (pc_priority req)) (PList (pc_conditions req))
              (PList (pc_match_actions req)) (PList (pc_no_match_actions req)) (pc_enabled req)) (\<lambda>row.
     sbind (publish_policy_created env (py_str (py_get row ''id'')) (pc_name req)) (\<lambda>_.
     sbind (log_audit env actor ''create'' ''policy'' (PStr (py_str (py_get row ''id'')))
              [(''name'', PStr (pc_name req)), (''priority'', PInt (pc_priority req))] client_ip)
       (\<lambda>_. sret row)))"

text \<open>\<open>raw\<close> holds the fields the request sets; a null one is as if it were not set.\<close>

definition given_updates :: "pydict \<Rightarrow> pydict" where
  "given_updates raw = filter (\<lambda>(k, v). v \<noteq> PNone) raw"

definition update_policy ::
  "gw_env \<Rightarrow> gw_actor \<Rightarrow> string \<Rightarrow> pydict \<Rightarrow> pyval \<Rightarrow> (gw_state, pydict) prog" where
  "update_policy env actor policy_id raw client_ip =
     (let updates = given_updates raw
      in if updates = [] then sraise (invalid ''No fields to update'')
         else
           sbind (value_error_as (invalid ''No valid fields to update'')
                    (repo_update_policy env (ac_tenant actor) policy_id updates)) (\<lambda>row.
             case row of
               None \<Rightarrow> sraise (not_found ''Policy'' policy_id)
             | Some r \<Rightarrow>
                 sbind (publish_policy_updated env (py_str (py_get r ''id''))) (\<lambda>_.
                 sbind (log_audit env actor ''update'' ''policy'' (PStr (py_str (py_get r ''id'')))
                          [(''changed_fields'', PList (map PStr (dict_keys raw)))] client_ip)
                   (\<lambda>_. sret r))))"

definition delete_policy :: "gw_env \<Rightarrow> gw_actor \<Rightarrow> string \<Rightarrow> pyval \<Rightarrow> (gw_state, unit) prog" where
  "delete_policy env actor policy_id client_ip =
     sbind (repo_delete_policy env (ac_tenant actor) policy_id) (\<lambda>deleted.
       if \<not> deleted then sraise (not_found ''Policy'' policy_id)
       else sbind (publish_policy_deleted env policy_id) (\<lambda>_.
         log_audit env actor ''delete'' ''policy'' (PStr policy_id) [] client_ip))"

section \<open>Templates\<close>

definition template_entry :: "string \<times> policy_template \<Rightarrow> pydict" where
  "template_entry kt =
     (let (key, t) = kt
      in [(''template_id'', PStr key), (''name'', PStr (pt_name t)),
          (''description'', PStr (pt_description t)), (''priority'', PInt (pt_priority t)),
          (''conditions_count'', PInt (int (length (pt_conditions t)))),
          (''actions_count'', PInt (int (length (pt_match_actions t)))),
          (''conditions'', PList (pt_conditions t)), (''match_actions'', PList (pt_match_actions t)),
          (''no_match_actions'', PList (pt_no_match_actions t))])"

definition list_templates :: pydict where
  "list_templates =
     [(''templates'', PList (map (\<lambda>kt. PDict (template_entry kt))
         (sort_key (\<lambda>(key, t). pt_priority t) POLICY_TEMPLATES))),
      (''action_types'', PDict (map (\<lambda>(k, a). (k, PDict [(''description'', PStr (at_description a))]))
         ACTION_TYPES))]"

definition override_keys :: "string list" where
  "override_keys =
     [''name'', ''description'', ''priority'', ''conditions'', ''match_actions'', ''no_match_actions'']"

definition template_dict :: "policy_template \<Rightarrow> pydict" where
  "template_dict t =
     [(''name'', PStr (pt_name t)), (''description'', PStr (pt_description t)),
      (''priority'', PInt (pt_priority t)), (''conditions'', PList (pt_conditions t)),
      (''match_actions'', PList (pt_match_actions t)),
      (''no_match_actions'', PList (pt_no_match_actions t))]"

text \<open>\<open>overrides\<close> holds the fields of the request that are not null.\<close>

definition overridden :: "pydict option \<Rightarrow> pydict \<Rightarrow> pydict" where
  "overridden overrides tmpl =
     (case overrides of
        None \<Rightarrow> tmpl
      | Some override_data \<Rightarrow>
          fold (\<lambda>key t. case dict_get override_data key of None \<Rightarrow> t | Some v \<Rightarrow> dict_set key v t)
            override_keys tmpl)"

definition apply_template ::
  "gw_env \<Rightarrow> gw_actor \<Rightarrow> string \<Rightarrow> pydict option \<Rightarrow> (gw_state, pydict) prog" where
  "apply_template env actor template_id overrides =
     (case dict_get POLICY_TEMPLATES template_id of
        None \<Rightarrow> sraise (not_found ''Template'' template_id)
      | Some t \<Rightarrow>
          let tmpl = overridden overrides (template_dict t)
          in repo_insert_policy env (ac_tenant actor) (ac_sub actor) (py_get tmpl ''name'')
               (py_get tmpl ''description'') (py_get tmpl ''priority'') (py_get tmpl ''conditions'')
               (py_get tmpl ''match_actions'') (dict_get_or tmpl ''no_match_actions'' (PList [])) True)"

section \<open>Simulation\<close>

record simulation =
  si_winning :: "pydict option"
  si_evaluations :: "eval_details list"
  si_total :: int

definition simulate_policy ::
  "re_search \<Rightarrow> clock \<Rightarrow> string \<Rightarrow> string \<Rightarrow> pydict \<Rightarrow> (gw_state, eval_details \<times> pyval) prog" where
  "simulate_policy re now tenant policy_id context =
     sbind (repo_lookup_policy tenant policy_id) (\<lambda>row.
       case row of
         None \<Rightarrow> sraise (not_found ''Policy'' policy_id)
       | Some policy \<Rightarrow>
           sbind (slift (shared_evaluate_with_details re now policy context)) (\<lambda>eval_result.
             sret (eval_result,
               if ed_matched eval_result then py_get policy ''match_actions''
               else py_get policy ''no_match_actions'')))"

definition winner_of :: "pydict \<Rightarrow> pydict" where
  "winner_of policy =
     [(''policy_id'', PStr (py_str (py_get policy ''id''))), (''policy_name'', py_get policy ''name''),
      (''priority'', py_get policy ''priority''), (''actions'', py_get policy ''match_actions'')]"

fun simulate_each ::
  "re_search \<Rightarrow> clock \<Rightarrow> pydict \<Rightarrow> pydict list \<Rightarrow> pydict option
   \<Rightarrow> (eval_details list \<times> pydict option) result" where
  "simulate_each re now context [] winning = Inr ([], winning)"
| "simulate_each re now context (policy # ps) winning =
     rbind (shared_evaluate_with_details re now policy context) (\<lambda>eval_result.
     rbind (simulate_each re now context ps
              (if ed_matched eval_result \<and> winning = None then Some (winner_of policy) else winning))
       (\<lambda>(results, final). Inr (eval_result # results, final)))"

definition simulate_all_policies ::
  "gw_env \<Rightarrow> re_search \<Rightarrow> clock \<Rightarrow> string \<Rightarrow> pydict \<Rightarrow> (gw_state, simulation) prog" where
  "simulate_all_policies env re now tenant context =
     sbind (repo_list_enabled_policies env tenant) (\<lambda>policies.
     sbind (slift (simulate_each re now context policies None)) (\<lambda>(results, winning).
       sret \<lparr>si_winning = winning, si_evaluations = results, si_total = int (length policies)\<rparr>))"

section \<open>Isolation of tenants\<close>

lemma policy_no_tenant_column: "''tenant_id'' \<notin> set POLICY_UPDATE_COLUMNS"
  using protected_columns [of "''tenant_id''"] by simp

lemma policy_repo_isolates [isolation_intros]:
  "isolates tenant (repo_lookup_policy tenant i)"
  "isolates tenant (repo_insert_policy env tenant u n d p c ma na e)"
  "isolates tenant (repo_delete_policy env tenant i)"
  unfolding repo_lookup_policy_def repo_insert_policy_def repo_delete_policy_def
  by (intro isolation_intros; simp add: dict_ok_def)+

lemma update_policy_isolates [isolation_intros]: "isolates tenant (repo_update_policy env tenant i updates)"
proof (cases "build_safe_set_clause updates POLICY_UPDATE_COLUMNS [] POLICY_TYPE_CASTS")
  case (Inl e)
  then show ?thesis by (simp add: repo_update_policy_def isolates_def keeps_def)
next
  case (Inr cp)
  obtain clause params where cp: "cp = (clause, params)" by (cases cp)
  have "fst ` set params \<subseteq> set POLICY_UPDATE_COLUMNS" using build_Inr(2) Inr cp by blast
  then have "''tenant_id'' \<notin> fst ` set (params @ stamp env ''updated_at'')"
    using policy_no_tenant_column by (auto simp: stamp_def)
  then have "isolates tenant (sbind (update_rows env ''policies'' (by_id tenant i)
      (params @ stamp env ''updated_at'')) (\<lambda>rows. sret (first_row rows)))"
    by (intro isolates_sbind isolates_update scoped_by_id isolates_prog)
  then show ?thesis by (simp add: repo_update_policy_def Inr cp sbind_pure)
qed

lemma policy_service_isolates [isolation_intros]:
  "isolates (ac_tenant actor) (create_policy env actor req ip)"
  "isolates (ac_tenant actor) (update_policy env actor i raw ip)"
  "isolates (ac_tenant actor) (delete_policy env actor i ip)"
  "isolates (ac_tenant actor) (apply_template env actor template_id overrides)"
  unfolding create_policy_def update_policy_def delete_policy_def apply_template_def Let_def
    publish_policy_created_def publish_policy_updated_def publish_policy_deleted_def
  by (intro isolation_intros)+

section \<open>The rows as the engine reads them\<close>

definition row_priority :: "pydict \<Rightarrow> int" where
  "row_priority row = (case py_get row ''priority'' of PInt i \<Rightarrow> i | _ \<Rightarrow> 0)"

definition policy_of :: "pydict \<Rightarrow> policy_row" where
  "policy_of row =
     \<lparr>pr_id = py_str (py_get row ''id''), pr_tenant = py_str (py_get row ''tenant_id''),
      pr_name = py_str (py_get row ''name''), pr_enabled = (py_get row ''enabled'' = PBool True),
      pr_priority = row_priority row, pr_conditions = py_get row ''conditions'',
      pr_match_actions = py_get row ''match_actions'',
      pr_no_match_actions = py_get row ''no_match_actions''\<rparr>"

text \<open>What the columns of the table guarantee.\<close>

definition policy_typed :: "pydict \<Rightarrow> bool" where
  "policy_typed row \<longleftrightarrow> dict_get row ''conditions'' \<noteq> None
     \<and> (\<exists>t. py_get row ''tenant_id'' = PStr t)"

lemma sort_key_map: "sort_key f (map g xs) = map g (sort_key (\<lambda>x. f (g x)) xs)"
proof (induction xs)
  case (Cons x xs)
  have "insort_key f (g y) (map g ys) = map g (insort_key (\<lambda>x. f (g x)) y ys)" for y ys
    by (induction ys) auto
  with Cons show ?case by simp
qed simp

lemma evaluate_policy_of:
  assumes "policy_typed row"
  shows "evaluate re now (policy_dict (policy_of row)) context = evaluate re now row context"
proof -
  obtain c where "dict_get row ''conditions'' = Some c" using assms by (auto simp: policy_typed_def)
  then have "dict_get_or (policy_dict (policy_of row)) ''conditions'' (PList [])
      = dict_get_or row ''conditions'' (PList [])"
    by (simp add: policy_dict_def policy_of_def dict_get_or_def py_get_def)
  then show ?thesis by (simp add: evaluate_def)
qed

lemma tenant_policies_of_rows:
  assumes "db_policies db = map policy_of rows" and "\<forall>row \<in> set rows. policy_typed row"
  shows "tenant_policies db tenant = map policy_of (sort_key row_priority
    (filter (where_eq [(''enabled'', PBool True), (''tenant_id'', PStr tenant)]) rows))"
proof -
  have same: "pr_enabled (policy_of row) \<and> pr_tenant (policy_of row) = tenant \<longleftrightarrow>
      where_eq [(''enabled'', PBool True), (''tenant_id'', PStr tenant)] row" if "row \<in> set rows" for row
    using assms(2) that by (auto simp: policy_of_def policy_typed_def where_eq_def sql_eq_def)
  have "filter (\<lambda>p. pr_enabled p \<and> pr_tenant p = tenant) (map policy_of rows) = map policy_of
      (filter (where_eq [(''enabled'', PBool True), (''tenant_id'', PStr tenant)]) rows)"
    using same by (simp add: filter_map comp_def cong: filter_cong)
  then show ?thesis
    unfolding tenant_policies_def assms(1) sort_key_map by (simp add: policy_of_def sort_key_map)
qed

lemma simulate_each_verdicts:
  assumes "simulate_each re now context ps winning = Inr (results, final)"
    and "\<forall>p \<in> set ps. policy_typed p"
  shows "map (\<lambda>p. evaluate re now (policy_dict (policy_of p)) context) ps
      = map (\<lambda>r. Inr (ed_matched r)) results
    \<and> final = (case winning of Some w \<Rightarrow> Some w
        | None \<Rightarrow> map_option (\<lambda>(p, r). winner_of p) (List.find (\<lambda>(p, r). ed_matched r) (zip ps results)))"
  using assms
proof (induction ps arbitrary: winning results final)
  case (Cons p ps)
  from Cons.prems(1) obtain r rs w where r: "shared_evaluate_with_details re now p context = Inr r"
    and rest: "simulate_each re now context ps
      (if ed_matched r \<and> winning = None then Some (winner_of p) else winning) = Inr (rs, final)"
    and results: "results = r # rs"
    by (auto simp: result_simps)
  from shared_evaluator.details_verdict [OF r] have "evaluate re now p context = Inr (ed_matched r)"
    by (simp add: shared_evaluate_eq)
  then show ?case
    using Cons.IH [OF rest] Cons.prems(2) results by (auto simp: evaluate_policy_of split: option.split)
qed (auto split: option.split)

lemma simulate_all_Inr:
  assumes "simulate_all_policies env re now tenant context s = (Inr sim, s')"
  shows "s' = s \<and> simulate_each re now context (ge_order env ''priority''
      (filter (where_eq [(''enabled'', PBool True), (''tenant_id'', PStr tenant)])
        (gd_table (gs_db s) ''policies''))) None = Inr (si_evaluations sim, si_winning sim)"
proof -
  have "\<not> gs_aborted s"
    using assms by (auto simp: simulate_all_policies_def repo_list_enabled_policies_def
        select_ordered_def select_rows_def statement_def sbind_def)
  then show ?thesis
    using assms unfolding simulate_all_policies_def repo_list_enabled_policies_def
      select_ordered_def select_rows_def statement_def
    by (auto simp: sbind_def split: sum.splits)
qed


definition ex_policy_rows :: "pydict list" where
  "ex_policy_rows =
     [[(''id'', PStr ''p2''), (''tenant_id'', PStr ''t1''), (''name'', PStr ''Default''),
       (''enabled'', PBool True), (''priority'', PInt 9999),
       (''conditions'', PList (pt_conditions tmpl_default_deny)),
       (''match_actions'', PList (pt_match_actions tmpl_default_deny)), (''no_match_actions'', PList [])],
      [(''id'', PStr ''p1''), (''tenant_id'', PStr ''t1''), (''name'', PStr ''Printers''),
       (''enabled'', PBool True), (''priority'', PInt 200),
       (''conditions'', PList (pt_conditions tmpl_printer_auto)),
       (''match_actions'', PList (pt_match_actions tmpl_printer_auto)), (''no_match_actions'', PList [])]]"

definition ex_policy_env :: gw_env where
  "ex_policy_env = ex_gw_env\<lparr>ge_order := (\<lambda>text. if text = ''priority'' then sort_key row_priority else (\<lambda>rows. rows))\<rparr>"

definition ex_policy_state :: gw_state where
  "ex_policy_state = ex_gw_state\<lparr>gs_db := put_table ''policies'' ex_policy_rows (gs_db ex_gw_state)\<rparr>"

definition ex_simulation :: "simulation result" where
  "ex_simulation = fst (simulate_all_policies ex_policy_env (\<lambda>p t. Inr False) ex_clock ''t1'' ex_device ex_policy_state)"


end
