(* ===== verification/Service_World.thy ===== *)
theory Service_World
  imports Gateway_Store
begin

text \<open>
  What the background services share: the tables and the message bus of the gateway, seen from a
  process that is no request (\<open>get_db_context\<close> and \<open>nats_client.publish\<close> of
  \<open>shared/orw_common\<close>). The state of a service extends \<open>svc_state\<close> by what it keeps itself, so
  that a message of the gateway and the tables behind it can be handed to a service as they are.
\<close>

record svc_state =
  sv_store :: gw_state

definition in_store :: "(gw_state, 'a) prog \<Rightarrow> ('z svc_state_scheme, 'a) prog" where
  "in_store m s = (case m (sv_store s) of (r, g) \<Rightarrow> (r, s\<lparr>sv_store := g\<rparr>))"

text \<open>\<open>async with get_db_context() as db\<close>.\<close>

definition get_db_context :: "(gw_state, 'a) prog \<Rightarrow> ('z svc_state_scheme, 'a) prog" where
  "get_db_context body = in_store (in_request body)"

definition svc_publish :: "gw_env \<Rightarrow> string \<Rightarrow> pydict \<Rightarrow> ('z svc_state_scheme, unit) prog" where
  "svc_publish env subject data = in_store (publish env subject data)"

text \<open>\<open>data[key]\<close>, and \<open>value.lower()\<close> of what may be no string.\<close>

definition need :: "pydict \<Rightarrow> string \<Rightarrow> pyval result" where
  "need data key = (case dict_get data key of None \<Rightarrow> Inl (KeyError key) | Some v \<Rightarrow> Inr v)"

definition lower_of :: "pyval \<Rightarrow> string result" where
  "lower_of v = (case v of PStr s \<Rightarrow> Inr (py_lower s) | _ \<Rightarrow> Inl (AttributeError ''lower''))"

lemma need_Some [simp]: "dict_get data key = Some v \<Longrightarrow> need data key = Inr v"
  by (simp add: need_def)

lemma need_None [simp]: "dict_get data key = None \<Longrightarrow> need data key = Inl (KeyError key)"
  by (simp add: need_def)

lemma lower_of_PStr [simp]: "lower_of (PStr s) = Inr (py_lower s)"
  by (simp add: lower_of_def)

section \<open>Between two pieces of work\<close>

text \<open>No transaction is open: what is seen is what is committed.\<close>

definition at_rest :: "gw_state \<Rightarrow> bool" where
  "at_rest g \<longleftrightarrow> gs_db g = gs_committed g \<and> \<not> gs_aborted g"

lemma in_request_at_rest: "uncommitted m \<Longrightarrow> at_rest (snd (in_request m g))"
  by (auto simp: in_request_def at_rest_def commit_def rollback_def split: prod.split sum.split)

lemma in_request_Inr:
  "m g = (Inr x, g') \<Longrightarrow> \<not> gs_aborted g' \<Longrightarrow> in_request m g = (Inr x, g'\<lparr>gs_committed := gs_db g'\<rparr>)"
  by (simp add: in_request_def commit_def)

lemma in_request_Inl: "m g = (Inl e, g') \<Longrightarrow> in_request m g = (Inl e, rollback g')"
  by (simp add: in_request_def)

text \<open>What a lookup finds, and the rest of a transaction after it.\<close>

definition found_row :: "gw_db \<Rightarrow> string \<Rightarrow> string list \<Rightarrow> (pydict \<Rightarrow> bool) \<Rightarrow> pydict option" where
  "found_row d table cols P = map_option (project cols) (first_row (filter P (gd_table d table)))"

lemma after_lookup:
  "\<not> gs_aborted g \<Longrightarrow> sbind (select_first table cols P) f g = f (found_row (gs_db g) table cols P) g"
  by (simp add: select_first_def select_rows_def statement_def sbind_def found_row_def)

lemma update_rows_ok:
  "\<not> gs_aborted g \<Longrightarrow> ge_constraint env ((gd_table (gs_db g))(t := map (\<lambda>r. if P r then assign sets r else r)
     (gd_table (gs_db g) t))) = None \<Longrightarrow>
   update_rows env t P sets g = (Inr (map (assign sets) (filter P (gd_table (gs_db g) t))),
     g\<lparr>gs_db := put_table t (map (\<lambda>r. if P r then assign sets r else r) (gd_table (gs_db g) t)) (gs_db g)\<rparr>)"
  by (simp add: update_rows_def statement_def checked_def)

lemma publish_Inr:
  "publish env subject data g = (Inr x, g') \<Longrightarrow>
   g' = g\<lparr>gs_published := gs_published g @ [\<lparr>msg_subject = subject, msg_data = data\<rparr>]\<rparr>"
  by (simp add: publish_def Let_def split: if_splits)

lemma log_audit_Inr:
  "log_audit env actor action rt rid details ip g = (Inr x, g') \<Longrightarrow>
   gd_table (gs_db g') = gd_table (gs_db g) \<and> gs_published g' = gs_published g
   \<and> gs_committed g' = gs_committed g \<and> \<not> gs_aborted g'"
  by (auto simp: log_audit_def log_audit_as_def statement_def Let_def split: if_splits option.splits)

lemma found_row_Some:
  "found_row d table cols P = Some r \<Longrightarrow> \<exists>row \<in> set (gd_table d table). P row \<and> r = project cols row"
  unfolding found_row_def
  by (cases "filter P (gd_table d table)") (auto simp: first_row_def filter_eq_Cons_iff)

lemma rollback_at_rest [simp]: "at_rest g \<Longrightarrow> rollback g = g"
  by (simp add: at_rest_def rollback_def)

lemma commit_at_rest [simp]: "at_rest g \<Longrightarrow> commit g = g"
  by (simp add: at_rest_def commit_def)

lemma at_restD: "at_rest g \<Longrightarrow> \<not> gs_aborted g" "at_rest g \<Longrightarrow> gs_committed g = gs_db g"
  by (simp_all add: at_rest_def)

text \<open>A transaction that only reads leaves a resting store as it is.\<close>

lemma in_request_read:
  "at_rest g \<Longrightarrow> snd (m g) = g \<Longrightarrow> in_request m g = (fst (m g), g)"
  by (cases "m g") (auto simp: in_request_def split: sum.split)

lemma get_db_context_read:
  "at_rest (sv_store s) \<Longrightarrow> snd (m (sv_store s)) = sv_store s \<Longrightarrow>
   get_db_context m s = (fst (m (sv_store s)), s)"
  by (simp add: get_db_context_def in_store_def in_request_read)

section \<open>Upserts\<close>

text \<open>
  \<open>INSERT ... ON CONFLICT (keys) DO UPDATE SET ... RETURNING\<close>. The assignments see the row that was
  to be inserted (\<open>EXCLUDED\<close>) and the row in its way; null keys are never in the way.
\<close>

definition upsert_row ::
  "gw_env \<Rightarrow> string \<Rightarrow> string list \<Rightarrow> pydict \<Rightarrow> pydict \<Rightarrow> (pydict \<Rightarrow> pydict \<Rightarrow> pydict) \<Rightarrow> gw_db
   \<Rightarrow> pydict result \<times> gw_db" where
  "upsert_row env table keys base vals sets d =
     (let row = assign vals base
      in case ge_value_error env table row of
           Some msg \<Rightarrow> (Inl (DbError msg), d)
         | None \<Rightarrow>
             (case first_row (filter (same_keys keys row) (gd_table d table)) of
                None \<Rightarrow> checked env row (put_table table (gd_table d table @ [row]) d)
              | Some old \<Rightarrow>
                  checked env (assign (sets row old) old)
                    (put_table table
                      (map (\<lambda>r. if same_keys keys row r then assign (sets row r) r else r)
                        (gd_table d table)) d)))"

definition new_id :: "gw_env \<Rightarrow> gw_db \<Rightarrow> pyval" where
  "new_id env d = PStr (ge_uuid env (gd_seq d))"

text \<open>For a table with a generated identifier, and for one whose key is among the values.\<close>

definition upsert_new ::
  "gw_env \<Rightarrow> string \<Rightarrow> string list \<Rightarrow> pydict \<Rightarrow> (pydict \<Rightarrow> pydict \<Rightarrow> pydict) \<Rightarrow> (gw_state, pydict) prog" where
  "upsert_new env table keys vals sets =
     statement (\<lambda>d. upsert_row env table keys (dict_set ''id'' (new_id env d) (ge_defaults env table))
       vals sets (d\<lparr>gd_seq := gd_seq d + 1\<rparr>))"

definition upsert_keyed ::
  "gw_env \<Rightarrow> string \<Rightarrow> string list \<Rightarrow> pydict \<Rightarrow> (pydict \<Rightarrow> pydict \<Rightarrow> pydict) \<Rightarrow> (gw_state, pydict) prog" where
  "upsert_keyed env table keys vals sets =
     statement (upsert_row env table keys (ge_defaults env table) vals sets)"

text \<open>\<open>c = COALESCE(EXCLUDED.c, c)\<close> for each of the columns, and \<open>c = EXCLUDED.c\<close>.\<close>

definition coalesce_excluded :: "string list \<Rightarrow> pydict \<Rightarrow> pydict \<Rightarrow> pydict" where
  "coalesce_excluded cols new old =
     map (\<lambda>c. (c, if py_get new c = PNone then py_get old c else py_get new c)) cols"

definition take_excluded :: "string list \<Rightarrow> pydict \<Rightarrow> pydict" where
  "take_excluded cols new = map (\<lambda>c. (c, py_get new c)) cols"

lemma uncommitted_upsert [uncommitted_intros]:
  "uncommitted (upsert_new env table keys vals sets)" "uncommitted (upsert_keyed env table keys vals sets)"
  unfolding upsert_new_def upsert_keyed_def by (rule uncommitted_statement)+

section \<open>Type casts on named parameters\<close>

text \<open>
  A statement with \<open>:name::type\<close>. The driver splits the name at the colons and leaves a text that
  PostgreSQL refuses; \<open>inline_ok\<close> is whether a driver understands it.
\<close>

definition with_inline_cast :: "bool \<Rightarrow> (gw_state, 'a) prog \<Rightarrow> (gw_state, 'a) prog" where
  "with_inline_cast inline_ok m =
     (if inline_ok then m
      else statement (\<lambda>d. (Inl (DbError ''syntax error at or near colon''), d)))"

lemma uncommitted_inline_cast [uncommitted_intros]:
  "uncommitted m \<Longrightarrow> uncommitted (with_inline_cast inline_ok m)"
  by (simp add: with_inline_cast_def uncommitted_statement)

section \<open>Tables a program spares\<close>

named_theorems spare_intros "programs that leave a table alone"

definition spares :: "string \<Rightarrow> (gw_state, 'a) prog \<Rightarrow> bool" where
  "spares u m \<longleftrightarrow> (\<forall>s. gd_table (gs_db (snd (m s))) u = gd_table (gs_db s) u)"

lemma sparesD: "spares u m \<Longrightarrow> m s = (r, s') \<Longrightarrow> gd_table (gs_db s') u = gd_table (gs_db s) u"
  unfolding spares_def by (metis snd_conv)

lemma spares_prog [spare_intros]: "spares u (sret x)" "spares u (sraise e)" "spares u (slift r)"
  by (simp_all add: spares_def)

lemma spares_sbind [spare_intros]:
  "spares u m \<Longrightarrow> (\<And>x. spares u (f x)) \<Longrightarrow> spares u (sbind m f)"
  unfolding spares_def sbind_def by (auto split: prod.split sum.split) (metis snd_conv)+

lemma spares_smap [spare_intros]: "(\<And>x. spares u (f x)) \<Longrightarrow> spares u (smap f xs)"
  by (induction xs) (auto intro!: spare_intros)

lemma spares_statement:
  "(\<And>d x d'. f d = (Inr x, d') \<Longrightarrow> gd_table d' u = gd_table d u) \<Longrightarrow> spares u (statement f)"
  by (auto simp: spares_def statement_def split: prod.split sum.split)

lemma spares_writes [spare_intros]:
  "t \<noteq> u \<Longrightarrow> spares u (insert_row env t vals)"
  "t \<noteq> u \<Longrightarrow> spares u (update_rows env t P sets)"
  "t \<noteq> u \<Longrightarrow> spares u (upsert_keyed env t keys vals f)"
  "t \<noteq> u \<Longrightarrow> spares u (upsert_new env t keys vals f)"
  unfolding insert_row_def update_rows_def upsert_keyed_def upsert_new_def
  by (rule spares_statement; auto simp: upsert_row_def checked_Inr Let_def split: option.splits)+

lemma spares_reads [spare_intros]:
  "spares u (select_rows t P)" "spares u (select_first t cols P)" "spares u (sql_macaddr env mac)"
  "spares u (log_audit env actor action rt rid details ip)"
  using neutral_reads neutral_derived unfolding table_neutral_def spares_def by metis+

lemma spares_inline_cast [spare_intros]: "spares u m \<Longrightarrow> spares u (with_inline_cast inline_ok m)"
  unfolding with_inline_cast_def by (auto intro: spares_statement)

text \<open>A statement that succeeds leaves a transaction that is not aborted.\<close>

lemma statement_Inr_alive: "statement f s = (Inr x, s') \<Longrightarrow> \<not> gs_aborted s'"
  by (auto simp: statement_def split: if_splits prod.splits sum.splits)

lemma statement_Inr:
  "statement f s = (Inr x, s') \<Longrightarrow> \<exists>d. f (gs_db s) = (Inr x, d) \<and> s' = s\<lparr>gs_db := d\<rparr> \<and> \<not> gs_aborted s"
  by (auto simp: statement_def split: if_splits prod.splits sum.splits)

section \<open>What only the end of a transaction changes\<close>

text \<open>Statements publish nothing, commit nothing and write no file.\<close>

definition outside :: "gw_state \<Rightarrow> gw_db \<times> message list \<times> (string, string) dict" where
  "outside g = (gs_committed g, gs_published g, gs_files g)"

named_theorems inside_intros "programs made of statements"

lemma inside_statement [inside_intros]: "keeps (\<lambda>g. outside g = X) (statement f)"
  by (auto simp: keeps_def statement_def outside_def split: prod.split sum.split)

lemma inside_sql [inside_intros]:
  "keeps (\<lambda>g. outside g = X) (select_rows t P)" "keeps (\<lambda>g. outside g = X) (insert_row env t vals)"
  "keeps (\<lambda>g. outside g = X) (update_rows env t P sets)" "keeps (\<lambda>g. outside g = X) (delete_rows env t P)"
  "keeps (\<lambda>g. outside g = X) (upsert_new env t keys vals f)" "keeps (\<lambda>g. outside g = X) (upsert_keyed env t keys vals f)"
  "keeps (\<lambda>g. outside g = X) (sql_macaddr env mac)"
  unfolding select_rows_def insert_row_def update_rows_def delete_rows_def upsert_new_def upsert_keyed_def
    sql_macaddr_def
  by (rule inside_statement)+

lemma inside_select_first [inside_intros]: "keeps (\<lambda>g. outside g = X) (select_first t cols P)"
  unfolding select_first_def by (intro inside_intros keeps_intros)

lemma inside_inline_cast [inside_intros]:
  "keeps (\<lambda>g. outside g = X) m \<Longrightarrow> keeps (\<lambda>g. outside g = X) (with_inline_cast inline_ok m)"
  unfolding with_inline_cast_def by (auto intro: inside_statement)

lemma insideD: "(\<And>X. keeps (\<lambda>g. outside g = X) m) \<Longrightarrow> outside (snd (m g)) = outside g"
  using keeps_snd [of "\<lambda>g'. outside g' = outside g" m g] by simp

text \<open>A transaction made of statements that fails leaves a resting store as it was.\<close>

lemma get_db_context_Inl:
  assumes "\<And>X. keeps (\<lambda>g. outside g = X) m" and "at_rest (sv_store s)" and "m (sv_store s) = (Inl e, g)"
  shows "\<exists>d. get_db_context m s = (Inl e, s\<lparr>sv_store := d\<rparr>) \<and> at_rest d \<and> outside d = outside (sv_store s)
    \<and> gs_db d = gs_db (sv_store s)"
proof -
  have "outside g = outside (sv_store s)" using insideD [of m, OF assms(1)] assms(3) by (metis snd_conv)
  then show ?thesis using assms(2,3)
    by (intro exI [of _ "rollback g"])
      (simp add: get_db_context_def in_store_def in_request_def rollback_def outside_def at_rest_def)
qed

lemma get_db_context_Inr:
  assumes "m (sv_store s) = (Inr x, g)" and "\<not> gs_aborted g"
  shows "get_db_context m s = (Inr x, s\<lparr>sv_store := g\<lparr>gs_committed := gs_db g\<rparr>\<rparr>)"
  using assms by (simp add: get_db_context_def in_store_def in_request_def commit_def)

end
