(* ===== verification/Switch_Mgmt.thy ===== *)
theory Switch_Mgmt
  imports Service_World
begin

text \<open>
  The switch management service: \<open>services/switch_mgmt\<close>, its SNMP and SSH managers. What goes out
  to a switch is recorded on a wire; what the switch answers, given what was sent before, is a
  parameter, since pysnmp and Netmiko are third-party code. So is the decryption of the stored
  credentials, which \<open>Secrets\<close> models. A handler that ends normally acknowledges its message.
\<close>

section \<open>The wire\<close>

datatype snmp_type = Integer32 | Unsigned32

text \<open>A set and a get name the switch, the community and the object; a login the driver and the
  credentials; a command is sent alone or as a set of configuration lines.\<close>

datatype wire =
    SnmpSet pyval pyval string snmp_type pyval
  | SnmpGet pyval pyval string
  | SshLogin pyval string pyval pyval
  | SshCommand string
  | SshConfig "string list"

text \<open>\<open>error_indication\<close>, \<open>error_status.prettyPrint()\<close>, \<open>error_index\<close> and the bound texts.\<close>

record snmp_answer =
  sa_indication :: string
  sa_status :: string
  sa_index :: string
  sa_binds :: "string list"

record switch_env =
  se_gw :: gw_env
  se_decrypt :: "pyval \<Rightarrow> pyval result"
  se_snmp :: "wire list \<Rightarrow> wire \<Rightarrow> snmp_answer result"
  se_ssh :: "wire list \<Rightarrow> wire \<Rightarrow> string result"

record sw_state = svc_state +
  sw_wire :: "wire list"

definition send_snmp :: "switch_env \<Rightarrow> wire \<Rightarrow> (sw_state, snmp_answer) prog" where
  "send_snmp env w s = (se_snmp env (sw_wire s) w, s\<lparr>sw_wire := sw_wire s @ [w]\<rparr>)"

definition send_ssh :: "switch_env \<Rightarrow> wire \<Rightarrow> (sw_state, string) prog" where
  "send_ssh env w s = (se_ssh env (sw_wire s) w, s\<lparr>sw_wire := sw_wire s @ [w]\<rparr>)"

section \<open>SNMP\<close>

definition OID :: "(string, string) dict" where
  "OID =
     [(''ifDescr'', ''1.3.6.1.2.1.2.2.1.2''), (''ifOperStatus'', ''1.3.6.1.2.1.2.2.1.8''),
      (''ifAdminStatus'', ''1.3.6.1.2.1.2.2.1.7''), (''ifSpeed'', ''1.3.6.1.2.1.2.2.1.5''),
      (''dot1dTpFdbAddress'', ''1.3.6.1.2.1.17.4.3.1.1''), (''dot1dTpFdbPort'', ''1.3.6.1.2.1.17.4.3.1.2''),
      (''vmVlan'', ''1.3.6.1.4.1.9.9.68.1.2.2.1.2''), (''dot1qPvid'', ''1.3.6.1.2.1.17.7.1.4.5.1.1''),
      (''sysDescr'', ''1.3.6.1.2.1.1.1.0''), (''sysName'', ''1.3.6.1.2.1.1.5.0'')]"

definition oid :: "string \<Rightarrow> string" where
  "oid name = dict_get_or OID name []"

definition community_of :: "switch_env \<Rightarrow> pydict option \<Rightarrow> (gw_state, pyval) prog" where
  "community_of env row =
     (case row of
        None \<Rightarrow> sret (PStr ''public'')
      | Some r \<Rightarrow>
          if truthy (py_get r ''snmp_community_encrypted'')
          then sbind (slift (se_decrypt env (py_get r ''snmp_community_encrypted'')))
                 (\<lambda>p. sret (py_or p (PStr ''public'')))
          else sret (PStr ''public''))"

definition get_community :: "switch_env \<Rightarrow> pyval \<Rightarrow> (sw_state, pyval) prog" where
  "get_community env device_id =
     get_db_context
       (sbind (select_first ''network_devices'' [''snmp_community_encrypted''] (where_eq [(''id'', device_id)]))
         (community_of env))"

definition check_answer :: "snmp_answer \<Rightarrow> unit result" where
  "check_answer a =
     (if sa_indication a \<noteq> [] then Inl (RuntimeError (''SNMP error: '' @ sa_indication a))
      else if sa_status a \<noteq> []
      then Inl (RuntimeError (''SNMP error: '' @ sa_status a @ '' at '' @ sa_index a))
      else Inr ())"

definition set_vlan_cisco :: "switch_env \<Rightarrow> pyval \<Rightarrow> pyval \<Rightarrow> pyval \<Rightarrow> pyval \<Rightarrow> (sw_state, unit) prog" where
  "set_vlan_cisco env ip community port_index vlan_id =
     sbind (send_snmp env
              (SnmpSet ip community (oid ''vmVlan'' @ ''.'' @ py_str port_index) Integer32 vlan_id))
       (\<lambda>a. slift (check_answer a))"

definition set_vlan_generic :: "switch_env \<Rightarrow> pyval \<Rightarrow> pyval \<Rightarrow> pyval \<Rightarrow> pyval \<Rightarrow> (sw_state, unit) prog" where
  "set_vlan_generic env ip community port_index vlan_id =
     sbind (send_snmp env
              (SnmpSet ip community (oid ''dot1qPvid'' @ ''.'' @ py_str port_index) Unsigned32 vlan_id))
       (\<lambda>a. slift (check_answer a))"

definition port_vlan_sets :: "gw_env \<Rightarrow> pyval \<Rightarrow> pydict" where
  "port_vlan_sets env vlan_id =
     [(''current_vlan'', vlan_id), (''assigned_vlan'', vlan_id)] @ stamp env ''updated_at''"

definition update_port_vlan :: "switch_env \<Rightarrow> pyval \<Rightarrow> pyval \<Rightarrow> (sw_state, unit) prog" where
  "update_port_vlan env port_id vlan_id =
     get_db_context
       (sbind (update_rows (se_gw env) ''switch_ports'' (where_eq [(''id'', port_id)])
                (port_vlan_sets (se_gw env) vlan_id))
         (\<lambda>_. sret ()))"

definition try_set_vlan :: "switch_env \<Rightarrow> pyval \<Rightarrow> pyval \<Rightarrow> pyval \<Rightarrow> string \<Rightarrow> pydict \<Rightarrow> (sw_state, unit) prog" where
  "try_set_vlan env ip port_index vlan_id vendor data =
     sbind (slift (need data ''network_device_id'')) (\<lambda>device_id.
     sbind (get_community env device_id) (\<lambda>community.
     sbind (if py_in ''cisco'' vendor then set_vlan_cisco env ip community port_index vlan_id
            else set_vlan_generic env ip community port_index vlan_id) (\<lambda>_.
     sbind (slift (need data ''port_id'')) (\<lambda>port_id.
     sbind (update_port_vlan env port_id vlan_id) (\<lambda>_.
       svc_publish (se_gw env) ''orw.switch.vlan_changed''
         [(''network_device_id'', device_id), (''port_id'', port_id), (''vlan_id'', vlan_id),
          (''status'', PStr ''success'')])))))"

definition handle_set_vlan :: "switch_env \<Rightarrow> pydict \<Rightarrow> (sw_state, unit) prog" where
  "handle_set_vlan env data =
     sbind (slift (need data ''ip_address'')) (\<lambda>ip.
     sbind (slift (need data ''vlan_id'')) (\<lambda>vlan_id.
     sbind (slift (lower_of (dict_get_or data ''vendor'' (PStr [])))) (\<lambda>vendor.
     sbind (attempt (try_set_vlan env ip (py_get data ''port_index'') vlan_id vendor data)) (\<lambda>r.
       case r of
         Inr _ \<Rightarrow> sret ()
       | Inl e \<Rightarrow>
           sbind (slift (need data ''network_device_id'')) (\<lambda>device_id.
           sbind (slift (need data ''port_id'')) (\<lambda>port_id.
             svc_publish (se_gw env) ''orw.switch.vlan_change_failed''
               [(''network_device_id'', device_id), (''port_id'', port_id),
                (''error'', PStr (err_text e))]))))))"

fun get_system_info ::
  "switch_env \<Rightarrow> pyval \<Rightarrow> pyval \<Rightarrow> string list \<Rightarrow> pydict \<Rightarrow> (sw_state, pydict) prog" where
  "get_system_info env ip community [] result = sret result"
| "get_system_info env ip community (name # names) result =
     sbind (send_snmp env (SnmpGet ip community (oid name))) (\<lambda>a.
       get_system_info env ip community names
         (if sa_indication a = [] \<and> sa_status a = [] \<and> sa_binds a \<noteq> []
          then dict_set name (PStr (hd (sa_binds a))) result else result))"

text \<open>The two polls the code announces as simplified.\<close>

definition poll_interfaces :: "pyval \<Rightarrow> pyval \<Rightarrow> pydict list" where
  "poll_interfaces ip community = []"

definition poll_mac_table :: "pyval \<Rightarrow> pyval \<Rightarrow> pydict list" where
  "poll_mac_table ip community = []"

text \<open>\<open>hostname = COALESCE(:hostname, hostname)\<close>: a null value leaves the column as it is.\<close>

definition coalesced :: "string \<Rightarrow> pyval \<Rightarrow> pydict" where
  "coalesced c v = (if v = PNone then [] else [(c, v)])"

definition save_poll_results :: "switch_env \<Rightarrow> pyval \<Rightarrow> pydict \<Rightarrow> (sw_state, unit) prog" where
  "save_poll_results env device_id sys_info =
     get_db_context
       (if sys_info = [] then sret ()
        else
          sbind (update_rows (se_gw env) ''network_devices'' (where_eq [(''id'', device_id)])
                   (coalesced ''hostname'' (py_get sys_info ''sysName'')
                    @ coalesced ''os_version''
                        (PStr (take 100 (py_str (dict_get_or sys_info ''sysDescr'' (PStr [])))))
                    @ stamp (se_gw env) ''last_polled''))
            (\<lambda>_. sret ()))"

definition try_poll :: "switch_env \<Rightarrow> pyval \<Rightarrow> pyval \<Rightarrow> (sw_state, unit) prog" where
  "try_poll env device_id ip =
     sbind (get_community env device_id) (\<lambda>community.
     sbind (get_system_info env ip community [''sysDescr'', ''sysName''] []) (\<lambda>sys_info.
     sbind (save_poll_results env device_id sys_info) (\<lambda>_.
       svc_publish (se_gw env) ''orw.switch.poll_completed''
         [(''network_device_id'', device_id),
          (''interfaces'', PInt (int (length (poll_interfaces ip community)))),
          (''macs_learned'', PInt (int (length (poll_mac_table ip community))))])))"

definition handle_poll_request :: "switch_env \<Rightarrow> pydict \<Rightarrow> (sw_state, unit) prog" where
  "handle_poll_request env data =
     sbind (slift (need data ''network_device_id'')) (\<lambda>device_id.
     sbind (slift (need data ''ip_address'')) (\<lambda>ip.
     sbind (attempt (try_poll env device_id ip)) (\<lambda>_. sret ())))"

section \<open>SSH\<close>

definition VENDOR_DEVICE_TYPE :: "(string, string) dict" where
  "VENDOR_DEVICE_TYPE =
     [(''cisco'', ''cisco_ios''), (''cisco_xe'', ''cisco_xe''), (''cisco_nxos'', ''cisco_nxos''),
      (''aruba'', ''aruba_osswitch''), (''aruba_cx'', ''aruba_oscx''), (''juniper'', ''juniper_junos''),
      (''fortinet'', ''fortinet''), (''hp_procurve'', ''hp_procurve''), (''dell'', ''dell_force10''),
      (''extreme'', ''extreme_exos'')]"

definition device_type_of :: "string \<Rightarrow> string" where
  "device_type_of vendor = dict_get_or VENDOR_DEVICE_TYPE vendor ''cisco_ios''"

text \<open>The first command that starts with \<open>conf\<close> sends itself and all that follow as one set.\<close>

fun run_commands :: "switch_env \<Rightarrow> string list \<Rightarrow> string list \<Rightarrow> string \<Rightarrow> (sw_state, string) prog" where
  "run_commands env commands [] out = sret out"
| "run_commands env commands (cmd # cmds) out =
     (if py_startswith cmd ''conf''
      then sbind (send_ssh env (SshConfig (dropWhile (\<lambda>c. c \<noteq> cmd) commands)))
             (\<lambda>answer. sret (out @ answer))
      else sbind (send_ssh env (SshCommand cmd))
             (\<lambda>answer. run_commands env commands cmds (out @ answer @ [CHR 0x0A])))"

definition execute_ssh ::
  "switch_env \<Rightarrow> pyval \<Rightarrow> string \<Rightarrow> pyval \<Rightarrow> pyval \<Rightarrow> string list \<Rightarrow> (sw_state, string) prog" where
  "execute_ssh env ip device_type username password commands =
     sbind (send_ssh env (SshLogin ip device_type username password))
       (\<lambda>_. run_commands env commands commands [])"

definition credentials_of :: "switch_env \<Rightarrow> pyval \<Rightarrow> pydict option \<Rightarrow> (gw_state, pyval \<times> pyval) prog" where
  "credentials_of env device_id row =
     (case row of
        None \<Rightarrow> sraise (ValueError (''network_device '' @ py_str device_id @ '' not found''))
      | Some r \<Rightarrow>
          if \<not> truthy (py_get r ''ssh_username'')
          then sraise (ValueError (''No SSH credentials configured for device '' @ py_str device_id
                 @ ''. Set ssh_username + ssh_password on the device row ''
                 @ ''(via API POST /network-devices or the UI).''))
          else sbind (slift (se_decrypt env (py_get r ''ssh_password_encrypted'')))
                 (\<lambda>p. sret (py_get r ''ssh_username'', py_or p (PStr []))))"

definition get_ssh_credentials :: "switch_env \<Rightarrow> pyval \<Rightarrow> (sw_state, pyval \<times> pyval) prog" where
  "get_ssh_credentials env device_id =
     get_db_context
       (sbind (select_first ''network_devices'' [''ssh_username'', ''ssh_password_encrypted'']
                (where_eq [(''id'', device_id)])) (credentials_of env device_id))"

definition get_bounce_commands :: "string \<Rightarrow> pyval \<Rightarrow> string list" where
  "get_bounce_commands vendor port_name =
     (if vendor \<in> set [''cisco'', ''cisco_xe'', ''cisco_nxos'']
      then [''configure terminal'', ''interface '' @ py_str port_name, ''shutdown'', ''no shutdown'', ''end'']
      else if vendor \<in> set [''aruba'', ''aruba_cx'']
      then [''configure terminal'', ''interface '' @ py_str port_name, ''shutdown'', ''no shutdown'', ''end'']
      else if vendor = ''juniper''
      then [''configure'', ''set interfaces '' @ py_str port_name @ '' disable'', ''commit'',
            ''delete interfaces '' @ py_str port_name @ '' disable'', ''commit'']
      else [''configure terminal'', ''interface '' @ py_str port_name, ''shutdown'', ''no shutdown'', ''end''])"

definition get_vlan_commands :: "string \<Rightarrow> pyval \<Rightarrow> pyval \<Rightarrow> string list" where
  "get_vlan_commands vendor port_name vlan_id =
     (if vendor \<in> set [''cisco'', ''cisco_xe'']
      then [''configure terminal'', ''interface '' @ py_str port_name,
            ''switchport access vlan '' @ py_str vlan_id, ''end'']
      else if vendor = ''cisco_nxos''
      then [''configure terminal'', ''interface '' @ py_str port_name,
            ''switchport access vlan '' @ py_str vlan_id, ''end'', ''copy running-config startup-config'']
      else if vendor \<in> set [''aruba'', ''aruba_cx'']
      then [''configure terminal'', ''interface '' @ py_str port_name,
            ''vlan access '' @ py_str vlan_id, ''end'']
      else if vendor = ''juniper''
      then [''configure'', ''set interfaces '' @ py_str port_name
              @ '' unit 0 family ethernet-switching vlan members vlan'' @ py_str vlan_id, ''commit'']
      else [''configure terminal'', ''interface '' @ py_str port_name,
            ''switchport access vlan '' @ py_str vlan_id, ''end''])"

definition get_mac_table_command :: "string \<Rightarrow> string" where
  "get_mac_table_command vendor =
     (if vendor \<in> set [''cisco'', ''cisco_xe'', ''cisco_nxos''] then ''show mac address-table''
      else if vendor \<in> set [''aruba'', ''aruba_cx''] then ''show mac-address-table''
      else if vendor = ''juniper'' then ''show ethernet-switching table''
      else if vendor = ''hp_procurve'' then ''show mac-address''
      else ''show mac address-table'')"

definition set_vlan_ssh ::
  "switch_env \<Rightarrow> pyval \<Rightarrow> string \<Rightarrow> pyval \<Rightarrow> pyval \<Rightarrow> pyval \<times> pyval \<Rightarrow> (sw_state, string) prog" where
  "set_vlan_ssh env ip vendor port_name vlan_id credentials =
     execute_ssh env ip (device_type_of (py_lower vendor)) (fst credentials) (snd credentials)
       (get_vlan_commands (py_lower vendor) port_name vlan_id)"

definition get_mac_table_ssh ::
  "switch_env \<Rightarrow> pyval \<Rightarrow> string \<Rightarrow> pyval \<times> pyval \<Rightarrow> (sw_state, string) prog" where
  "get_mac_table_ssh env ip vendor credentials =
     execute_ssh env ip (device_type_of (py_lower vendor)) (fst credentials) (snd credentials)
       [get_mac_table_command (py_lower vendor)]"

definition try_bounce :: "switch_env \<Rightarrow> pyval \<Rightarrow> pyval \<Rightarrow> string \<Rightarrow> pydict \<Rightarrow> (sw_state, unit) prog" where
  "try_bounce env ip port_name vendor data =
     sbind (slift (need data ''network_device_id'')) (\<lambda>device_id.
     sbind (get_ssh_credentials env device_id) (\<lambda>(username, password).
     sbind (execute_ssh env ip (device_type_of vendor) username password
              (get_bounce_commands vendor port_name)) (\<lambda>result.
       svc_publish (se_gw env) ''orw.switch.port_bounced''
         [(''network_device_id'', device_id), (''port_name'', port_name),
          (''status'', PStr ''success''), (''output'', PStr result)])))"

definition handle_bounce_port :: "switch_env \<Rightarrow> pydict \<Rightarrow> (sw_state, unit) prog" where
  "handle_bounce_port env data =
     sbind (slift (need data ''ip_address'')) (\<lambda>ip.
     sbind (slift (need data ''port_name'')) (\<lambda>port_name.
     sbind (slift (lower_of (dict_get_or data ''vendor'' (PStr ''cisco'')))) (\<lambda>vendor.
     sbind (attempt (try_bounce env ip port_name vendor data)) (\<lambda>_. sret ()))))"

section \<open>The subscriptions\<close>

text \<open>The handler of a subject; the answer to its message is \<open>outcome\<close> of the run.\<close>

definition switch_handler :: "switch_env \<Rightarrow> string \<Rightarrow> (pydict \<Rightarrow> (sw_state, unit) prog) option" where
  "switch_handler env subject =
     dict_get [(''orw.switch.set_vlan'', handle_set_vlan env),
               (''orw.switch.poll_requested'', handle_poll_request env),
               (''orw.switch.bounce_port'', handle_bounce_port env)] subject"

end
