(* ===== verification/Network_Devices.thy ===== *)
theory Network_Devices
  imports Switch_Mgmt
begin

text \<open>
  The switches and their ports: repository, service and events of
  \<open>services/gateway/features/network_devices\<close>, and how its requests arrive at the switch
  management service.
\<close>

section \<open>Repository\<close>

definition nd_filter :: "string \<Rightarrow> pyval \<Rightarrow> pyval \<Rightarrow> pydict \<Rightarrow> bool" where
  "nd_filter tenant device_type vendor row \<longleftrightarrow>
     where_eq ([(''tenant_id'', PStr tenant)] @ if_truthy ''device_type'' device_type) row
     \<and> (truthy vendor \<longrightarrow>
          (case py_get row ''vendor'' of
             PStr v \<Rightarrow> sql_ilike (''%'' @ py_str vendor @ ''%'') v | _ \<Rightarrow> False))"

definition repo_count_network_devices :: "string \<Rightarrow> pyval \<Rightarrow> pyval \<Rightarrow> (gw_state, int) prog" where
  "repo_count_network_devices tenant device_type vendor =
     count_rows ''network_devices'' (nd_filter tenant device_type vendor)"

text \<open>\<open>(SELECT COUNT(*) FROM switch_ports sp WHERE sp.network_device_id = nd.id)\<close>.\<close>

definition with_port_count :: "gw_db \<Rightarrow> pydict \<Rightarrow> pydict" where
  "with_port_count d nd =
     dict_set ''port_count'' (PInt (int (length
       (filter (\<lambda>sp. sql_eq (py_get sp ''network_device_id'') (py_get nd ''id'')) (gd_table d ''switch_ports'')))))
       nd"

definition repo_list_network_devices ::
  "gw_env \<Rightarrow> string \<Rightarrow> pyval \<Rightarrow> pyval \<Rightarrow> int \<Rightarrow> int \<Rightarrow> (gw_state, pydict list) prog" where
  "repo_list_network_devices env tenant device_type vendor limit offset =
     statement (\<lambda>d. (Inr (map (with_port_count d) (take (nat limit) (drop (nat offset)
       (ge_order env ''hostname, ip_address''
         (filter (nd_filter tenant device_type vendor) (gd_table d ''network_devices'')))))), d))"

definition repo_lookup_network_device :: "string \<Rightarrow> string \<Rightarrow> (gw_state, pydict option) prog" where
  "repo_lookup_network_device tenant device_id =
     statement (\<lambda>d. (Inr (map_option (with_port_count d)
       (first_row (filter (by_id tenant device_id) (gd_table d ''network_devices'')))), d))"

definition network_device_exists :: "string \<Rightarrow> string \<Rightarrow> (gw_state, bool) prog" where
  "network_device_exists tenant device_id =
     sbind (select_rows ''network_devices'' (by_id tenant device_id)) (\<lambda>rows. sret (rows \<noteq> []))"

definition repo_insert_network_device ::
  "gw_env \<Rightarrow> string \<Rightarrow> pyval \<Rightarrow> pyval \<Rightarrow> pyval \<Rightarrow> pyval \<Rightarrow> pyval \<Rightarrow> pyval \<Rightarrow> pyval \<Rightarrow> pyval \<Rightarrow> pyval
   \<Rightarrow> pyval \<Rightarrow> pyval \<Rightarrow> pyval \<Rightarrow> (gw_state, pydict) prog" where
  "repo_insert_network_device env tenant ip_address hostname vendor model os_version device_type
       management_protocol snmp_version snmp_community ssh_username ssh_password poll_interval_seconds =
     sbind (slift (ge_encrypt env snmp_community)) (\<lambda>community.
     sbind (slift (ge_encrypt env ssh_password)) (\<lambda>password.
       insert_row env ''network_devices''
         [(''ip_address'', ip_address), (''hostname'', hostname), (''vendor'', vendor), (''model'', model),
          (''os_version'', os_version), (''device_type'', device_type),
          (''management_protocol'', management_protocol), (''snmp_version'', snmp_version),
          (''snmp_community_encrypted'', community), (''ssh_username'', ssh_username),
          (''ssh_password_encrypted'', password), (''poll_interval_seconds'', poll_interval_seconds),
          (''tenant_id'', PStr tenant)]))"

definition repo_delete_network_device :: "gw_env \<Rightarrow> string \<Rightarrow> string \<Rightarrow> (gw_state, bool) prog" where
  "repo_delete_network_device env tenant device_id =
     sbind (delete_rows env ''network_devices'' (by_id tenant device_id)) (\<lambda>rows. sret (rows \<noteq> []))"

text \<open>\<open>LEFT JOIN devices d ON sp.connected_device_id = d.id\<close>, the match as one object.\<close>

definition connected_device :: "pydict option \<Rightarrow> pyval" where
  "connected_device dev =
     (let g = (\<lambda>c. case dev of None \<Rightarrow> PNone | Some r \<Rightarrow> py_get r c)
      in PDict [(''id'', g ''id''), (''mac_address'', g ''mac_address''), (''hostname'', g ''hostname''),
                (''ip_address'', g ''ip_address'')])"

definition join_connected :: "gw_db \<Rightarrow> pydict \<Rightarrow> pydict list" where
  "join_connected d sp =
     (case filter (\<lambda>r. sql_eq (py_get sp ''connected_device_id'') (py_get r ''id'')) (gd_table d ''devices'') of
        [] \<Rightarrow> [dict_set ''connected_device'' (connected_device None) sp]
      | rs \<Rightarrow> map (\<lambda>r. dict_set ''connected_device'' (connected_device (Some r)) sp) rs)"

definition list_ports_with_connected_device :: "gw_env \<Rightarrow> string \<Rightarrow> (gw_state, pydict list) prog" where
  "list_ports_with_connected_device env device_id =
     statement (\<lambda>d. (Inr (ge_order env ''port_index, port_name''
       (concat (map (join_connected d)
         (filter (where_eq [(''network_device_id'', PStr device_id)]) (gd_table d ''switch_ports''))))), d))"

definition join_ports :: "string \<Rightarrow> string \<Rightarrow> string \<Rightarrow> gw_db \<Rightarrow> (pydict \<times> pydict) list" where
  "join_ports tenant device_id port_id d =
     filter (\<lambda>(nd, sp). sql_eq (py_get sp ''network_device_id'') (py_get nd ''id''))
       (List.product (filter (by_id tenant device_id) (gd_table d ''network_devices''))
         (filter (where_eq [(''id'', PStr port_id)]) (gd_table d ''switch_ports'')))"

definition lookup_port_for_vlan_set :: "string \<Rightarrow> string \<Rightarrow> string \<Rightarrow> (gw_state, pydict option) prog" where
  "lookup_port_for_vlan_set tenant device_id port_id =
     statement (\<lambda>d. (Inr (case join_ports tenant device_id port_id d of
          [] \<Rightarrow> None
        | (nd, sp) # _ \<Rightarrow>
            Some [(''ip_address'', py_get nd ''ip_address''), (''vendor'', py_get nd ''vendor''),
                  (''port_name'', py_get sp ''port_name''), (''port_index'', py_get sp ''port_index'')]), d))"

section \<open>Events\<close>

definition SUBJECT_POLL_REQUESTED :: string where
  "SUBJECT_POLL_REQUESTED = ''orw.switch.poll_requested''"

definition SUBJECT_SET_VLAN :: string where
  "SUBJECT_SET_VLAN = ''orw.switch.set_vlan''"

definition publish_poll_requested :: "gw_env \<Rightarrow> pyval \<Rightarrow> pyval \<Rightarrow> (gw_state, unit) prog" where
  "publish_poll_requested env device_id ip_address =
     publish env SUBJECT_POLL_REQUESTED
       [(''network_device_id'', PStr (py_str device_id)), (''ip_address'', ip_address)]"

definition publish_set_vlan ::
  "gw_env \<Rightarrow> string \<Rightarrow> string \<Rightarrow> pyval \<Rightarrow> pyval \<Rightarrow> pyval \<Rightarrow> pyval \<Rightarrow> int \<Rightarrow> pyval \<Rightarrow> (gw_state, unit) prog" where
  "publish_set_vlan env device_id port_id ip_address vendor port_name port_index vlan_id requested_by =
     publish env SUBJECT_SET_VLAN
       [(''network_device_id'', PStr device_id), (''port_id'', PStr port_id), (''ip_address'', ip_address),
        (''vendor'', vendor), (''port_name'', port_name), (''port_index'', port_index),
        (''vlan_id'', PInt vlan_id), (''requested_by'', requested_by)]"

section \<open>Service\<close>

definition list_network_devices ::
  "gw_env \<Rightarrow> string \<Rightarrow> pyval \<Rightarrow> pyval \<Rightarrow> int \<Rightarrow> int \<Rightarrow> (gw_state, pydict) prog" where
  "list_network_devices env tenant device_type vendor page page_size =
     sbind (repo_count_network_devices tenant device_type vendor) (\<lambda>n.
     sbind (repo_list_network_devices env tenant device_type vendor page_size ((page - 1) * page_size))
       (\<lambda>rows. sret (page_dict rows n page page_size)))"

definition get_network_device :: "string \<Rightarrow> string \<Rightarrow> (gw_state, pydict) prog" where
  "get_network_device tenant device_id =
     sbind (repo_lookup_network_device tenant device_id) (\<lambda>row.
       case row of None \<Rightarrow> sraise (not_found ''Network device'' device_id) | Some r \<Rightarrow> sret r)"

definition list_switch_ports :: "gw_env \<Rightarrow> string \<Rightarrow> string \<Rightarrow> (gw_state, pydict list) prog" where
  "list_switch_ports env tenant device_id =
     sbind (network_device_exists tenant device_id) (\<lambda>found.
       if \<not> found then sraise (not_found ''Network device'' device_id)
       else list_ports_with_connected_device env device_id)"

definition create_network_device :: "gw_env \<Rightarrow> gw_actor \<Rightarrow> pydict \<Rightarrow> pyval \<Rightarrow> (gw_state, pydict) prog" where
  "create_network_device env actor given client_ip =
     sbind (slift (need given ''ip_address'')) (\<lambda>ip.
     sbind (slift (need given ''device_type'')) (\<lambda>device_type.
     sbind (slift (need given ''management_protocol'')) (\<lambda>management_protocol.
     sbind (slift (need given ''poll_interval_seconds'')) (\<lambda>poll_interval.
     sbind (repo_insert_network_device env (ac_tenant actor) ip (py_get given ''hostname'')
              (py_get given ''vendor'') (py_get given ''model'') (py_get given ''os_version'') device_type
              management_protocol (py_get given ''snmp_version'') (py_get given ''snmp_community'')
              (py_get given ''ssh_username'') (py_get given ''ssh_password'') poll_interval) (\<lambda>row.
     sbind (publish_poll_requested env (py_get row ''id'') ip) (\<lambda>_.
     sbind (log_audit env actor ''create'' ''network_device'' (PStr (py_str (py_get row ''id'')))
              [(''hostname'', py_get given ''hostname''), (''ip_address'', ip)] client_ip) (\<lambda>_.
       sret (dict_set ''port_count'' (PInt 0) row))))))))"

definition username_of :: "gw_actor \<Rightarrow> pyval" where
  "username_of actor = (case ac_username actor of None \<Rightarrow> PNone | Some u \<Rightarrow> PStr u)"

definition request_port_vlan_change ::
  "gw_env \<Rightarrow> gw_actor \<Rightarrow> string \<Rightarrow> string \<Rightarrow> int \<Rightarrow> pyval \<Rightarrow> (gw_state, pydict) prog" where
  "request_port_vlan_change env actor device_id port_id vlan_id client_ip =
     sbind (lookup_port_for_vlan_set (ac_tenant actor) device_id port_id) (\<lambda>port.
       case port of
         None \<Rightarrow> sraise (not_found ''Port'' port_id)
       | Some p \<Rightarrow>
           sbind (publish_set_vlan env device_id port_id (PStr (py_str (py_get p ''ip_address'')))
                    (py_get p ''vendor'') (py_get p ''port_name'') (py_get p ''port_index'') vlan_id
                    (username_of actor)) (\<lambda>_.
           sbind (log_audit env actor ''set_vlan'' ''switch_port'' (PStr port_id)
                    [(''device_id'', PStr device_id), (''port_name'', py_get p ''port_name''),
                     (''vlan_id'', PInt vlan_id)] client_ip) (\<lambda>_.
             sret [(''status'', PStr ''vlan_change_requested''), (''vlan_id'', PInt vlan_id)])))"

definition delete_network_device :: "gw_env \<Rightarrow> gw_actor \<Rightarrow> string \<Rightarrow> pyval \<Rightarrow> (gw_state, unit) prog" where
  "delete_network_device env actor device_id client_ip =
     sbind (repo_delete_network_device env (ac_tenant actor) device_id) (\<lambda>deleted.
       if \<not> deleted then sraise (not_found ''Network device'' device_id)
       else log_audit env actor ''delete'' ''network_device'' (PStr device_id) [] client_ip)"

section \<open>Isolation of tenants\<close>

lemma network_device_isolates [isolation_intros]:
  "isolates (ac_tenant actor) (create_network_device env actor given ip)"
  "isolates (ac_tenant actor) (request_port_vlan_change env actor device_id port_id vlan_id ip)"
  "isolates (ac_tenant actor) (delete_network_device env actor device_id ip)"
  unfolding create_network_device_def request_port_vlan_change_def delete_network_device_def
    repo_insert_network_device_def repo_delete_network_device_def lookup_port_for_vlan_set_def
    publish_poll_requested_def publish_set_vlan_def
  by (intro isolation_intros isolates_statement; simp add: dict_ok_def)+

end
