(* ===== verification/Engine_Messages.thy ===== *)
theory Engine_Messages
  imports Policy_Engine
begin

text \<open>
  What holds of every message of the policy engine: a property of the messages of single actions
  holds of all that a run publishes, whatever its policies and however it ends.
\<close>

lemma run_actions_messages:
  assumes "\<And>action ms m. execute_action action device = Inr ms \<Longrightarrow> m \<in> set ms \<Longrightarrow> Q m"
    and "m \<in> set (fst (run_actions actions device))"
  shows "Q m"
proof -
  have "m \<in> set (fst (execute_actions as device)) \<Longrightarrow> Q m" for as
  proof (induction as)
    case (Cons a as)
    then show ?case by (auto split: pyval.splits sum.splits prod.splits dest: assms(1))
  qed simp
  with assms(2) show ?thesis by (auto simp: run_actions_def split: if_splits sum.splits)
qed

lemma evaluate_policies_messages:
  assumes step: "\<And>action ms m. execute_action action ctx = Inr ms \<Longrightarrow> m \<in> set ms \<Longrightarrow> Q m"
    and "m \<in> set (fst (snd (evaluate_policies re now json_ok d ctx ps)))"
  shows "Q m"
  using assms(2)
proof (induction ps)
  case (Cons p ps)
  show ?case
  proof (cases "evaluate re now (policy_dict p) ctx")
    case (Inr v)
    obtain ms err where run: "run_actions (chosen_actions p v) ctx = (ms, err)" by fastforce
    have "Q m" if "m \<in> set ms"
    proof (rule run_actions_messages)
      show "m \<in> set (fst (run_actions (chosen_actions p v) ctx))" using run that by simp
    qed (rule step)
    with Cons Inr run show ?thesis
      by (auto simp: Let_def split: if_splits option.splits prod.splits)
  qed (use Cons.prems in simp)
qed simp

lemma handle_messages:
  assumes step: "\<And>action device ms m. execute_action action device = Inr ms \<Longrightarrow> m \<in> set ms \<Longrightarrow> Q m"
    and "handle_evaluate_device re now json_ok data db = (db', ms, err)" and "m \<in> set ms"
  shows "Q m"
proof -
  from assms(2,3) obtain did device where
    "m \<in> set (fst (snd (commit_or_rollback db (evaluate_policies re now json_ok did
      (device_context db did device) (tenant_policies db (py_str (py_get device ''tenant_id'')))))))"
    by (auto simp: handle_evaluate_device_def Let_def split: option.splits if_splits) (metis fst_conv snd_conv)
  then have "m \<in> set (fst (snd (evaluate_policies re now json_ok did (device_context db did device)
      (tenant_policies db (py_str (py_get device ''tenant_id''))))))"
    by (auto simp: commit_or_rollback_def split: prod.splits option.splits)
  then show ?thesis by (rule evaluate_policies_messages [rotated]) (rule step)
qed

text \<open>The data of a policy action opens with the device or its MAC address.\<close>

lemma dict_merge_first:
  "\<exists>rest w. dict_merge [(k, v)] ps = (k, w) # rest"
proof -
  have "\<exists>rest w. fold (\<lambda>(k, v) d. dict_set k v d) ps ((k, u) # acc) = (k, w) # rest" for u acc
  proof (induction ps arbitrary: u acc)
    case (Cons p ps)
    obtain k' v' where p: "p = (k', v')" by (cases p)
    from Cons show ?case by (cases "k' = k") (auto simp: p)
  qed simp
  then show ?thesis by (simp add: dict_merge_def)
qed

lemma execute_action_opens:
  assumes "execute_action action device = Inr ms" and "m \<in> set ms"
  shows "\<exists>k v d. msg_data m = (k, v) # d \<and> k \<in> {''device_id'', ''mac_address''}"
proof -
  have merged: "\<exists>k. (\<exists>v d. dict_merge [(''device_id'', w)] ps = (k, v) # d) \<and> (k = ''device_id'' \<or> k = ''mac_address'')"
    for w ps using dict_merge_first [of "''device_id''" w ps] by blast
  show ?thesis
    using assms
    by (auto simp: execute_action_def Let_def publish1_def result_simps rbind_def merged split: if_splits sum.splits)
qed

lemma str_dict_opens:
  assumes "CHR 0x27 \<notin> set k"
  shows "prefix (''{'' @ [CHR 0x27]) (py_str (PDict ((k, v) # d)))"
proof -
  obtain t where t: "str_repr k = CHR 0x27 # t"
    using str_repr_quote [OF assms] by (cases "str_repr k") auto
  have "\<exists>u. py_join '', '' (py_repr_items ((k, v) # d)) = CHR 0x27 # u"
    by (cases d) (auto simp: t)
  then show ?thesis by (auto simp: py_str_def)
qed

end
