(* ===== verification/Switch_Flows.thy ===== *)
theory Switch_Flows
  imports Network_Devices Engine_Messages Secret_Rotation
begin

text \<open>
  The switch management service among the others: a VLAN change asked for at the gateway, a port
  bounce asked for by a policy, and the SSH credentials after the master key has been rotated.
\<close>

section \<open>Runs of the switch service\<close>

lemma get_community_read:
  assumes "at_rest (sv_store s)" and "\<forall>v. \<exists>p. se_decrypt env v = Inr p"
  shows "\<exists>c. get_community env device_id s = (Inr c, s)"
proof -
  let ?m = "sbind (select_first ''network_devices'' [''snmp_community_encrypted''] (where_eq [(''id'', device_id)]))
      (community_of env)"
  have "\<exists>c. community_of env row g = (Inr c, g)" for row g
  proof (cases row)
    case (Some r)
    obtain p where "se_decrypt env (py_get r ''snmp_community_encrypted'') = Inr p"
      using assms(2) by blast
    with Some show ?thesis by (simp add: community_of_def)
  qed (simp add: community_of_def)
  then obtain c where "?m (sv_store s) = (Inr c, sv_store s)"
    using at_restD(1) [OF assms(1)] by (simp add: after_lookup) metis
  then show ?thesis
    unfolding get_community_def using get_db_context_read [OF assms(1), of ?m] by simp
qed

lemma get_ssh_credentials_fails:
  assumes "at_rest (sv_store s)"
    and "\<forall>r \<in> set (gd_table (gs_db (sv_store s)) ''network_devices''). py_get r ''id'' = device_id \<longrightarrow>
      (\<exists>e. se_decrypt env (py_get r ''ssh_password_encrypted'') = Inl e)"
  shows "\<exists>e. get_ssh_credentials env device_id s = (Inl e, s)"
proof -
  let ?row = "found_row (gs_db (sv_store s)) ''network_devices'' [''ssh_username'', ''ssh_password_encrypted'']
    (where_eq [(''id'', device_id)])"
  let ?m = "sbind (select_first ''network_devices'' [''ssh_username'', ''ssh_password_encrypted'']
    (where_eq [(''id'', device_id)])) (credentials_of env device_id)"
  have "\<exists>e. credentials_of env device_id ?row (sv_store s) = (Inl e, sv_store s)"
  proof (cases ?row)
    case (Some r)
    from found_row_Some [OF this] assms(2) obtain e where
      "se_decrypt env (py_get r ''ssh_password_encrypted'') = Inl e"
      by (auto simp: py_get_project where_eq_def sql_eq_def)
    with Some show ?thesis by (simp add: credentials_of_def)
  qed (simp add: credentials_of_def)
  then obtain e where "?m (sv_store s) = (Inl e, sv_store s)"
    using at_restD(1) [OF assms(1)] by (auto simp: after_lookup)
  then show ?thesis
    unfolding get_ssh_credentials_def using get_db_context_read [OF assms(1), of ?m] by simp
qed

section \<open>After a rotation of the master key\<close>

text \<open>How a service that runs under a key decrypts, by the model of the scripts.\<close>

definition service_decrypt :: "script_env \<Rightarrow> vault \<Rightarrow> pyval \<Rightarrow> pyval result" where
  "service_decrypt scr va v =
     (case vault_decrypt scr va v of
        Inl e \<Rightarrow> Inl e | Inr None \<Rightarrow> Inr PNone | Inr (Some t) \<Rightarrow> Inr (PStr t))"


definition ex_switch_env :: "(pyval \<Rightarrow> pyval result) \<Rightarrow> switch_env" where
  "ex_switch_env dec =
     \<lparr>se_gw = ex_gw_env, se_decrypt = dec,
      se_snmp = (\<lambda>h w. Inr \<lparr>sa_indication = [], sa_status = [], sa_index = ''0'', sa_binds = [''sw1'']\<rparr>),
      se_ssh = (\<lambda>h w. Inr ''ok'')\<rparr>"

definition ex_switch_state :: "pydict list \<Rightarrow> pydict list \<Rightarrow> sw_state" where
  "ex_switch_state devices ports =
     (let d = put_table ''switch_ports'' ports (put_table ''network_devices'' devices (gs_db ex_gw_state))
      in \<lparr>sv_store = ex_gw_state\<lparr>gs_db := d, gs_committed := d\<rparr>, sw_wire = []\<rparr>)"

definition ex_bounce :: pydict where
  "ex_bounce = [(''network_device_id'', PInt 1), (''ip_address'', PStr ''10.0.0.2''), (''port_name'', PStr ''Gi0/1'')]"

lemma ex_switch_rest: "at_rest (sv_store (ex_switch_state devices ports))"
  by (simp add: ex_switch_state_def Let_def at_rest_def ex_gw_state_def)


section \<open>A port bounce asked for by a policy\<close>

lemma execute_action_bounce:
  assumes "execute_action action device = Inr ms" and "m \<in> set ms"
    and "msg_subject m = ''orw.switch.bounce_port''"
  shows "dict_get (msg_data m) ''ip_address'' = None"
  using assms by (auto simp: execute_action_def Let_def publish1_def result_simps split: if_splits)

text \<open>
  No port is ever bounced by a policy. The message the engine publishes for the action carries
  the device and its MAC address, but neither the address of a switch nor a port, and the switch
  service reads the address first: it raises on every such message, so that the message is
  negatively acknowledged, each time it is delivered.
\<close>

theorem engine_bounce_fails:
  assumes "handle_evaluate_device re now json_ok data db = (db', ms, err)" and "m \<in> set ms"
    and "msg_subject m = ''orw.switch.bounce_port''"
  shows "\<exists>h. switch_handler env (msg_subject m) = Some h
    \<and> h (msg_data m) s = (Inl (KeyError ''ip_address''), s) \<and> outcome (fst (h (msg_data m) s)) = Nak"
proof -
  have "msg_subject m = ''orw.switch.bounce_port'' \<longrightarrow> dict_get (msg_data m) ''ip_address'' = None"
    by (rule handle_messages [OF _ assms(1,2)]) (blast dest: execute_action_bounce)
  then show ?thesis
    by (simp add: switch_handler_def assms(3) handle_bounce_port_def outcome_def)
qed

definition ex_bounce_db :: engine_db where
  "ex_bounce_db = ex_engine_db\<lparr>db_policies := [(ex_row ''p1'' 200 tmpl_printer_auto)
     \<lparr>pr_match_actions := PList [PDict [(''type'', PStr ''bounce_port'')]]\<rparr>]\<rparr>"

theorem engine_bounce_fails_witness:
  "\<exists>m h. m \<in> set (fst (snd (handle_evaluate_device (\<lambda>p t. Inr False) ex_clock (\<lambda>t. True) ex_data ex_bounce_db)))
     \<and> switch_handler (ex_switch_env (\<lambda>v. Inr v)) (msg_subject m) = Some h
     \<and> outcome (fst (h (msg_data m) (ex_switch_state [] []))) = Nak"
proof -
  define r where "r = handle_evaluate_device (\<lambda>p t. Inr False) ex_clock (\<lambda>t. True) ex_data ex_bounce_db"
  define m where "m = hd (fst (snd r))"
  have "fst (snd r) \<noteq> []" and subject: "msg_subject m = ''orw.switch.bounce_port''"
    unfolding m_def r_def by code_simp+
  then have m: "m \<in> set (fst (snd r))" by (simp add: m_def)
  have "handle_evaluate_device (\<lambda>p t. Inr False) ex_clock (\<lambda>t. True) ex_data ex_bounce_db
      = (fst r, fst (snd r), snd (snd r))" by (simp add: r_def)
  from engine_bounce_fails [OF this m subject, of "ex_switch_env (\<lambda>v. Inr v)" "ex_switch_state [] []"] m
  show ?thesis unfolding r_def by blast
qed

section \<open>A VLAN change asked for at the gateway\<close>

definition set_vlan_message :: "string \<Rightarrow> string \<Rightarrow> pydict \<Rightarrow> pydict \<Rightarrow> int \<Rightarrow> pyval \<Rightarrow> message" where
  "set_vlan_message device_id port_id nd sp vlan_id by =
     \<lparr>msg_subject = SUBJECT_SET_VLAN,
      msg_data =
        [(''network_device_id'', PStr device_id), (''port_id'', PStr port_id),
         (''ip_address'', PStr (py_str (py_get nd ''ip_address''))), (''vendor'', py_get nd ''vendor''),
         (''port_name'', py_get sp ''port_name''), (''port_index'', py_get sp ''port_index''),
         (''vlan_id'', PInt vlan_id), (''requested_by'', by)]\<rparr>"

lemma request_published:
  assumes "in_request (request_port_vlan_change env actor device_id port_id vlan_id ip) g = (Inr out, g')"
    and "at_rest g"
  obtains nd sp where "nd \<in> set (gd_table (gs_db g) ''network_devices'')"
    and "sp \<in> set (gd_table (gs_db g) ''switch_ports'')" and "py_get sp ''id'' = PStr port_id"
    and "gs_published g' = gs_published g @ [set_vlan_message device_id port_id nd sp vlan_id (username_of actor)]"
    and "gd_table (gs_db g') = gd_table (gs_db g)" and "at_rest g'"
proof -
  obtain g1 where body: "request_port_vlan_change env actor device_id port_id vlan_id ip g = (Inr out, g1)"
    and g': "g' = commit g1"
    using assms(1) by (auto simp: in_request_def split: prod.splits sum.splits)
  show thesis
  proof (cases "join_ports (ac_tenant actor) device_id port_id (gs_db g)")
    case Nil
    with body at_restD(1) [OF assms(2)] show thesis
      by (simp add: request_port_vlan_change_def lookup_port_for_vlan_set_def statement_def sbind_def)
  next
    case (Cons pair rest)
    obtain nd sp where pair: "pair = (nd, sp)" by (cases pair)
    then have "(nd, sp) \<in> set (join_ports (ac_tenant actor) device_id port_id (gs_db g))" by (simp add: Cons)
    then have rows: "nd \<in> set (gd_table (gs_db g) ''network_devices'')"
      "sp \<in> set (gd_table (gs_db g) ''switch_ports'')" "py_get sp ''id'' = PStr port_id"
      by (auto simp: join_ports_def where_eq_def sql_eq_def)
    have "lookup_port_for_vlan_set (ac_tenant actor) device_id port_id g =
        (Inr (Some [(''ip_address'', py_get nd ''ip_address''), (''vendor'', py_get nd ''vendor''),
           (''port_name'', py_get sp ''port_name''), (''port_index'', py_get sp ''port_index'')]), g)"
      using at_restD(1) [OF assms(2)] Cons pair by (simp add: lookup_port_for_vlan_set_def statement_def)
    note found = sbind_Inr [where m = "lookup_port_for_vlan_set (ac_tenant actor) device_id port_id", OF this]
    from body have "sbind (publish_set_vlan env device_id port_id (PStr (py_str (py_get nd ''ip_address'')))
          (py_get nd ''vendor'') (py_get sp ''port_name'') (py_get sp ''port_index'') vlan_id (username_of actor))
        (\<lambda>_. sbind (log_audit env actor ''set_vlan'' ''switch_port'' (PStr port_id)
          [(''device_id'', PStr device_id), (''port_name'', py_get sp ''port_name''), (''vlan_id'', PInt vlan_id)] ip)
        (\<lambda>_. sret [(''status'', PStr ''vlan_change_requested''), (''vlan_id'', PInt vlan_id)])) g = (Inr out, g1)"
      unfolding request_port_vlan_change_def found by (simp add: py_get_def dict_get_or_def)
    then have after: "gs_published g1 = gs_published g @ [set_vlan_message device_id port_id nd sp vlan_id (username_of actor)]
        \<and> gd_table (gs_db g1) = gd_table (gs_db g) \<and> \<not> gs_aborted g1"
      by (elim sbind_InrE) (auto simp: publish_set_vlan_def set_vlan_message_def dest!: publish_Inr log_audit_Inr)
    then have "gs_published g' = gs_published g1" "gd_table (gs_db g') = gd_table (gs_db g1)" "at_rest g'"
      by (simp_all add: g' commit_def at_rest_def)
    with rows after show thesis by (intro that [of nd sp]) simp_all
  qed
qed

text \<open>A switch, a vault and a database that accept what they are given.\<close>

definition switch_accepts :: "switch_env \<Rightarrow> bool" where
  "switch_accepts env \<longleftrightarrow> (\<forall>v. \<exists>p. se_decrypt env v = Inr p)
     \<and> (\<forall>h w. \<exists>a. se_snmp env h w = Inr a \<and> check_answer a = Inr ())
     \<and> (\<forall>t. ge_constraint (se_gw env) t = None) \<and> (\<forall>m. ge_publish_ok (se_gw env) m)"

definition set_wire :: "switch_env \<Rightarrow> pyval \<Rightarrow> pyval \<Rightarrow> pyval \<Rightarrow> pyval \<Rightarrow> string \<Rightarrow> wire" where
  "set_wire env ip community port_index vlan_id vendor =
     (if py_in ''cisco'' vendor
      then SnmpSet ip community (oid ''vmVlan'' @ ''.'' @ py_str port_index) Integer32 vlan_id
      else SnmpSet ip community (oid ''dot1qPvid'' @ ''.'' @ py_str port_index) Unsigned32 vlan_id)"

lemma set_vlan_sends:
  assumes "switch_accepts env"
  shows "(if py_in ''cisco'' vendor then set_vlan_cisco env ip c i v else set_vlan_generic env ip c i v) s
    = (Inr (), s\<lparr>sw_wire := sw_wire s @ [set_wire env ip c i v vendor]\<rparr>)"
proof -
  have "sbind (send_snmp env w) (\<lambda>a. slift (check_answer a)) s = (Inr (), s\<lparr>sw_wire := sw_wire s @ [w]\<rparr>)" for w
  proof -
    obtain a where "se_snmp env (sw_wire s) w = Inr a" "check_answer a = Inr ()"
      using assms unfolding switch_accepts_def by blast
    then show ?thesis by (simp add: sbind_def send_snmp_def)
  qed
  then show ?thesis by (simp add: set_vlan_cisco_def set_vlan_generic_def set_wire_def)
qed

lemma update_port_vlan_ok:
  assumes "switch_accepts env" and "at_rest (sv_store s)"
  shows "\<exists>g. update_port_vlan env p v s = (Inr (), s\<lparr>sv_store := g\<rparr>) \<and> at_rest g
    \<and> gs_published g = gs_published (sv_store s)
    \<and> gd_table (gs_db g) ''switch_ports'' = map (\<lambda>r. if where_eq [(''id'', p)] r
        then assign (port_vlan_sets (se_gw env) v) r else r)
        (gd_table (gs_db (sv_store s)) ''switch_ports'')"
proof -
  let ?sets = "port_vlan_sets (se_gw env) v"
  let ?g = "sv_store s" and ?P = "where_eq [(''id'', p)]"
  let ?d = "put_table ''switch_ports'' (map (\<lambda>r. if ?P r then assign ?sets r else r)
    (gd_table (gs_db ?g) ''switch_ports'')) (gs_db ?g)"
  have upd: "update_rows (se_gw env) ''switch_ports'' ?P ?sets ?g
      = (Inr (map (assign ?sets) (filter ?P (gd_table (gs_db ?g) ''switch_ports''))), ?g\<lparr>gs_db := ?d\<rparr>)"
    using assms(1) at_restD(1) [OF assms(2)] by (intro update_rows_ok) (simp_all add: switch_accepts_def)
  have "update_port_vlan env p v s = (Inr (), s\<lparr>sv_store := ?g\<lparr>gs_db := ?d, gs_committed := ?d\<rparr>\<rparr>)"
    unfolding update_port_vlan_def
    by (subst get_db_context_Inr [where g = "?g\<lparr>gs_db := ?d\<rparr>"]) (simp_all add: sbind_def upd at_restD(1) [OF assms(2)])
  then show ?thesis using at_restD(1) [OF assms(2)]
    by (intro exI [of _ "?g\<lparr>gs_db := ?d, gs_committed := ?d\<rparr>"]) (simp add: at_rest_def)
qed

lemma set_vlan_accepted:
  assumes "switch_accepts env" and "at_rest (sv_store s)"
    and "dict_get data ''ip_address'' = Some ip" and "dict_get data ''vlan_id'' = Some v"
    and "dict_get data ''vendor'' = Some (PStr vendor)" and "dict_get data ''network_device_id'' = Some d"
    and "dict_get data ''port_id'' = Some p"
  shows "\<exists>c s'. handle_set_vlan env data s = (Inr (), s')
    \<and> sw_wire s' = sw_wire s @ [set_wire env ip c (py_get data ''port_index'') v (py_lower vendor)]
    \<and> gd_table (gs_db (sv_store s')) ''switch_ports'' = map (\<lambda>r. if where_eq [(''id'', p)] r
        then assign (port_vlan_sets (se_gw env) v) r else r)
        (gd_table (gs_db (sv_store s)) ''switch_ports'')
    \<and> gs_published (sv_store s') = gs_published (sv_store s)
        @ [\<lparr>msg_subject = ''orw.switch.vlan_changed'',
             msg_data = [(''network_device_id'', d), (''port_id'', p), (''vlan_id'', v), (''status'', PStr ''success'')]\<rparr>]"
proof -
  obtain c where c: "get_community env d s = (Inr c, s)"
    using get_community_read [OF assms(2)] assms(1) unfolding switch_accepts_def by blast
  let ?w = "set_wire env ip c (py_get data ''port_index'') v (py_lower vendor)"
  let ?s1 = "s\<lparr>sw_wire := sw_wire s @ [?w]\<rparr>"
  have "at_rest (sv_store ?s1)" using assms(2) by simp
  from update_port_vlan_ok [OF assms(1) this, of p v] obtain g where
    g: "update_port_vlan env p v ?s1 = (Inr (), ?s1\<lparr>sv_store := g\<rparr>)" "at_rest g"
    "gs_published g = gs_published (sv_store s)"
    "gd_table (gs_db g) ''switch_ports'' = map (\<lambda>r. if where_eq [(''id'', p)] r
        then assign (port_vlan_sets (se_gw env) v) r else r)
        (gd_table (gs_db (sv_store s)) ''switch_ports'')"
    by auto
  let ?m = "\<lparr>msg_subject = ''orw.switch.vlan_changed'',
    msg_data = [(''network_device_id'', d), (''port_id'', p), (''vlan_id'', v), (''status'', PStr ''success'')]\<rparr>"
  have pub: "svc_publish (se_gw env) ''orw.switch.vlan_changed''
      [(''network_device_id'', d), (''port_id'', p), (''vlan_id'', v), (''status'', PStr ''success'')]
      (?s1\<lparr>sv_store := g\<rparr>) = (Inr (), ?s1\<lparr>sv_store := g\<lparr>gs_published := gs_published g @ [?m]\<rparr>\<rparr>)"
    using assms(1) by (simp add: svc_publish_def in_store_def publish_def Let_def switch_accepts_def)
  have "try_set_vlan env ip (py_get data ''port_index'') v (py_lower vendor) data s
      = (Inr (), ?s1\<lparr>sv_store := g\<lparr>gs_published := gs_published g @ [?m]\<rparr>\<rparr>)"
    unfolding try_set_vlan_def
    by (simp add: assms(6,7) sbind_def c set_vlan_sends [OF assms(1)] g(1) pub del: if_split)
  then have "handle_set_vlan env data s = (Inr (), ?s1\<lparr>sv_store := g\<lparr>gs_published := gs_published g @ [?m]\<rparr>\<rparr>)"
    using assms(3-5) by (simp add: handle_set_vlan_def attempt_def sbind_def dict_get_or_def)
  with g(3,4) show ?thesis by (intro exI [of _ c]) simp
qed


definition ex_switch_device :: pydict where
  "ex_switch_device =
     [(''id'', PStr ''sw1''), (''tenant_id'', PStr ''t1''), (''ip_address'', PObj ''10.0.0.2'' ''IPv4Address(10.0.0.2)''),
      (''vendor'', PStr ''Cisco''), (''snmp_community_encrypted'', PNone)]"

definition ex_switch_port :: pydict where
  "ex_switch_port =
     [(''id'', PStr ''p7''), (''network_device_id'', PStr ''sw1''), (''port_name'', PStr ''Gi0/7''),
      (''port_index'', PInt 7), (''current_vlan'', PInt 1)]"

definition ex_accepting :: switch_env where
  "ex_accepting = (ex_switch_env (\<lambda>v. Inr v))\<lparr>se_gw := ex_gw_env\<lparr>ge_constraint := (\<lambda>t. None)\<rparr>\<rparr>"

definition ex_vlan_request :: "pydict result \<times> gw_state" where
  "ex_vlan_request = in_request (request_port_vlan_change ex_gw_env ex_actor ''sw1'' ''p7'' 30 PNone)
     (sv_store (ex_switch_state [ex_switch_device] [ex_switch_port]))"


end
