(* ===== verification/Devices.thy ===== *)
theory Devices
  imports Service_World
begin

text \<open>
  The devices of the gateway and their properties: repository, service and events of
  \<open>services/gateway/features/devices\<close>. A device is put in by its MAC address within the tenant, an
  existing one is updated; properties are rows of their own, keyed by device, category and key.
\<close>

section \<open>Repository\<close>

text \<open>\<open>col ILIKE :search\<close> and \<open>col::text LIKE :search\<close>; a null column never matches.\<close>

definition ilike_column :: "pydict \<Rightarrow> string \<Rightarrow> string \<Rightarrow> bool" where
  "ilike_column row c pat = (py_get row c \<noteq> PNone \<and> sql_ilike pat (py_str (py_get row c)))"

definition like_column :: "pydict \<Rightarrow> string \<Rightarrow> string \<Rightarrow> bool" where
  "like_column row c pat = (py_get row c \<noteq> PNone \<and> sql_like pat (py_str (py_get row c)))"

definition device_filter :: "string \<Rightarrow> pyval \<Rightarrow> pyval \<Rightarrow> pyval \<Rightarrow> pydict \<Rightarrow> bool" where
  "device_filter tenant status device_type search row \<longleftrightarrow>
     where_eq ([(''tenant_id'', PStr tenant)] @ if_truthy ''status'' status
               @ if_truthy ''device_type'' device_type) row
     \<and> (truthy search \<longrightarrow>
          (let pat = ''%'' @ py_str search @ ''%''
           in ilike_column row ''hostname'' pat \<or> like_column row ''ip_address'' pat
              \<or> like_column row ''mac_address'' pat \<or> ilike_column row ''vendor'' pat))"

definition repo_count_devices :: "string \<Rightarrow> pyval \<Rightarrow> pyval \<Rightarrow> pyval \<Rightarrow> (gw_state, int) prog" where
  "repo_count_devices tenant status device_type search =
     count_rows ''devices'' (device_filter tenant status device_type search)"

definition repo_list_devices ::
  "gw_env \<Rightarrow> string \<Rightarrow> pyval \<Rightarrow> pyval \<Rightarrow> pyval \<Rightarrow> int \<Rightarrow> int \<Rightarrow> (gw_state, pydict list) prog" where
  "repo_list_devices env tenant status device_type search limit offset =
     select_page env ''last_seen DESC'' ''devices'' (device_filter tenant status device_type search)
       limit offset"

definition repo_lookup_device :: "string \<Rightarrow> string \<Rightarrow> (gw_state, pydict option) prog" where
  "repo_lookup_device tenant device_id =
     sbind (select_rows ''devices'' (by_id tenant device_id)) (\<lambda>rows. sret (first_row rows))"

definition device_exists :: "string \<Rightarrow> string \<Rightarrow> (gw_state, bool) prog" where
  "device_exists tenant device_id =
     sbind (select_rows ''devices'' (by_id tenant device_id)) (\<lambda>rows. sret (rows \<noteq> []))"

text \<open>Of an existing device only the address, the name and the time are touched.\<close>

definition upsert_device ::
  "gw_env \<Rightarrow> string \<Rightarrow> string \<Rightarrow> pyval \<Rightarrow> pyval \<Rightarrow> pyval \<Rightarrow> pyval \<Rightarrow> pyval \<Rightarrow> pyval \<Rightarrow> pyval
   \<Rightarrow> (gw_state, pydict) prog" where
  "upsert_device env tenant mac_address ip_address hostname device_type os_family os_version vendor model =
     sbind (sql_macaddr env mac_address) (\<lambda>mac.
       upsert_new env ''devices'' [''mac_address'', ''tenant_id'']
         [(''mac_address'', PStr mac), (''ip_address'', ip_address), (''hostname'', hostname),
          (''device_type'', device_type), (''os_family'', os_family), (''os_version'', os_version),
          (''vendor'', vendor), (''model'', model), (''tenant_id'', PStr tenant)]
         (\<lambda>new old. coalesce_excluded [''ip_address'', ''hostname''] new old @ stamp env ''last_seen''))"

definition repo_update_device ::
  "gw_env \<Rightarrow> string \<Rightarrow> string \<Rightarrow> pydict \<Rightarrow> (gw_state, pydict option) prog" where
  "repo_update_device env tenant device_id updates =
     sbind (slift (build_safe_set_clause updates DEVICE_UPDATE_COLUMNS [] [])) (\<lambda>(clause, params).
     sbind (update_rows env ''devices'' (by_id tenant device_id) (params @ stamp env ''updated_at''))
       (\<lambda>rows. sret (first_row rows)))"

definition repo_delete_device :: "gw_env \<Rightarrow> string \<Rightarrow> string \<Rightarrow> (gw_state, bool) prog" where
  "repo_delete_device env tenant device_id =
     sbind (delete_rows env ''devices'' (by_id tenant device_id)) (\<lambda>rows. sret (rows \<noteq> []))"

definition upsert_device_property ::
  "gw_env \<Rightarrow> string \<Rightarrow> string \<Rightarrow> string \<Rightarrow> pyval \<Rightarrow> pyval \<Rightarrow> pyval \<Rightarrow> (gw_state, unit) prog" where
  "upsert_device_property env device_id category key val source confidence =
     sbind (upsert_keyed env ''device_properties'' [''device_id'', ''category'', ''key'']
              [(''device_id'', PStr device_id), (''category'', PStr category), (''key'', PStr key),
               (''value'', val), (''source'', source), (''confidence'', confidence)]
              (\<lambda>new old. take_excluded [''value'', ''source'', ''confidence''] new @ stamp env ''updated_at''))
       (\<lambda>_. sret ())"

definition repo_list_device_properties ::
  "gw_env \<Rightarrow> string \<Rightarrow> pyval \<Rightarrow> (gw_state, pydict list) prog" where
  "repo_list_device_properties env device_id category =
     select_ordered env ''category, key'' ''device_properties''
       (where_eq ([(''device_id'', PStr device_id)] @ if_truthy ''category'' category))"

section \<open>Events\<close>

definition publish_device_upserted :: "gw_env \<Rightarrow> pyval \<Rightarrow> string \<Rightarrow> pyval \<Rightarrow> (gw_state, unit) prog" where
  "publish_device_upserted env device_id mac_address ip_address =
     publish env ''orw.device.upserted''
       [(''device_id'', PStr (py_str device_id)), (''mac_address'', PStr mac_address),
        (''ip_address'', ip_address)]"

section \<open>Service\<close>

definition page_count :: "int \<Rightarrow> int \<Rightarrow> int" where
  "page_count n page_size = (if 0 < n then (n + page_size - 1) div page_size else 0)"

definition list_devices ::
  "gw_env \<Rightarrow> string \<Rightarrow> pyval \<Rightarrow> pyval \<Rightarrow> pyval \<Rightarrow> int \<Rightarrow> int \<Rightarrow> (gw_state, pydict) prog" where
  "list_devices env tenant status device_type search page page_size =
     sbind (repo_count_devices tenant status device_type search) (\<lambda>n.
     sbind (repo_list_devices env tenant status device_type search page_size ((page - 1) * page_size))
       (\<lambda>rows. sret (page_dict rows n page page_size @ [(''pages'', PInt (page_count n page_size))])))"

definition get_device :: "string \<Rightarrow> string \<Rightarrow> (gw_state, pydict) prog" where
  "get_device tenant device_id =
     sbind (repo_lookup_device tenant device_id) (\<lambda>row.
       case row of None \<Rightarrow> sraise (not_found ''Device'' device_id) | Some r \<Rightarrow> sret r)"

definition ingest_device ::
  "gw_env \<Rightarrow> gw_actor \<Rightarrow> string \<Rightarrow> pyval \<Rightarrow> pyval \<Rightarrow> pyval \<Rightarrow> pyval \<Rightarrow> pyval \<Rightarrow> pyval \<Rightarrow> pyval \<Rightarrow> pyval
   \<Rightarrow> (gw_state, pydict) prog" where
  "ingest_device env actor mac_address ip_address hostname device_type os_family os_version vendor model
       client_ip =
     sbind (upsert_device env (ac_tenant actor) mac_address ip_address hostname device_type os_family
              os_version vendor model) (\<lambda>row.
     sbind (publish_device_upserted env (py_get row ''id'') mac_address ip_address) (\<lambda>_.
     sbind (log_audit env actor ''create'' ''device'' (PStr (py_str (py_get row ''id'')))
              [(''mac_address'', PStr mac_address), (''ip_address'', ip_address)] client_ip) (\<lambda>_.
       sret row)))"

definition update_device ::
  "gw_env \<Rightarrow> gw_actor \<Rightarrow> string \<Rightarrow> pydict \<Rightarrow> pyval \<Rightarrow> (gw_state, pydict) prog" where
  "update_device env actor device_id updates client_ip =
     (let cleaned = filter (\<lambda>(k, v). v \<noteq> PNone) updates
      in if cleaned = [] then sraise (invalid ''No fields to update'')
         else
           sbind (value_error_as (invalid ''No valid fields to update'')
                    (repo_update_device env (ac_tenant actor) device_id cleaned)) (\<lambda>row.
             case row of
               None \<Rightarrow> sraise (not_found ''Device'' device_id)
             | Some r \<Rightarrow>
                 sbind (log_audit env actor ''update'' ''device'' (PStr device_id)
                          [(''changed_fields'', PList (map PStr (dict_keys cleaned)))] client_ip)
                   (\<lambda>_. sret r)))"

definition delete_device :: "gw_env \<Rightarrow> gw_actor \<Rightarrow> string \<Rightarrow> pyval \<Rightarrow> (gw_state, unit) prog" where
  "delete_device env actor device_id client_ip =
     sbind (repo_delete_device env (ac_tenant actor) device_id) (\<lambda>deleted.
       if \<not> deleted then sraise (not_found ''Device'' device_id)
       else log_audit env actor ''delete'' ''device'' (PStr device_id) [] client_ip)"

definition set_device_property ::
  "gw_env \<Rightarrow> gw_actor \<Rightarrow> string \<Rightarrow> string \<Rightarrow> string \<Rightarrow> pyval \<Rightarrow> pyval \<Rightarrow> pyval \<Rightarrow> pyval
   \<Rightarrow> (gw_state, pydict) prog" where
  "set_device_property env actor device_id category key val source confidence client_ip =
     sbind (device_exists (ac_tenant actor) device_id) (\<lambda>found.
       if \<not> found then sraise (not_found ''Device'' device_id)
       else
         sbind (upsert_device_property env device_id category key val source confidence) (\<lambda>_.
         sbind (log_audit env actor ''set_property'' ''device'' (PStr device_id)
                  [(''category'', PStr category), (''key'', PStr key)] client_ip) (\<lambda>_.
           sret [(''status'', PStr ''ok'')])))"

definition list_device_properties ::
  "gw_env \<Rightarrow> string \<Rightarrow> string \<Rightarrow> pyval \<Rightarrow> (gw_state, pydict list) prog" where
  "list_device_properties env tenant device_id category =
     sbind (device_exists tenant device_id) (\<lambda>found.
       if \<not> found then sraise (not_found ''Device'' device_id)
       else repo_list_device_properties env device_id category)"

section \<open>Pages\<close>

lemma page_count_covers:
  assumes "0 < page_size" and "0 \<le> n"
  shows "n \<le> page_count n page_size * page_size \<and> (page_count n page_size - 1) * page_size < n \<or> n = 0"
proof (cases "n = 0")
  case False
  with assms have n: "0 < n" by simp
  define q where "q = (n + page_size - 1) div page_size"
  have "q * page_size + (n + page_size - 1) mod page_size = n + page_size - 1"
    unfolding q_def by (rule div_mult_mod_eq)
  moreover have "0 \<le> (n + page_size - 1) mod page_size" "(n + page_size - 1) mod page_size < page_size"
    using assms(1) by simp_all
  ultimately have "n \<le> q * page_size \<and> (q - 1) * page_size < n" by (simp add: left_diff_distrib)
  then show ?thesis using n by (simp add: page_count_def q_def)
qed simp

end
