(* ===== verification/Device_Inventory.thy ===== *)
theory Device_Inventory
  imports Devices Policies_Service
begin

text \<open>
  The device inventory service, \<open>services/device_inventory/main.py\<close>: the handler of
  \<open>orw.device.discovered\<close>, which puts the device into the tables, logs an event and asks the
  policy engine to evaluate it. \<open>engine_view\<close> reads the tables as the engine does, so that the
  request can be followed into the engine.
\<close>

section \<open>The handler\<close>

definition inventory_columns :: "string list" where
  "inventory_columns = [''ip_address'', ''hostname'', ''vendor'', ''os_family'', ''os_version'', ''device_type'']"

definition default_tenant :: "(gw_state, pyval) prog" where
  "default_tenant =
     sbind (select_first ''tenants'' [''id''] (where_eq [(''name'', PStr ''default'')])) (\<lambda>row.
       sret (case row of None \<Rightarrow> PNone | Some r \<Rightarrow> py_get r ''id''))"

definition discovered_upsert :: "gw_env \<Rightarrow> string \<Rightarrow> pydict \<Rightarrow> (gw_state, string) prog" where
  "discovered_upsert env mac data =
     sbind default_tenant (\<lambda>tenant.
     sbind (sql_macaddr env mac) (\<lambda>addr.
     sbind (upsert_new env ''devices'' [''mac_address'', ''tenant_id'']
              ([(''mac_address'', PStr addr)] @ map (\<lambda>c. (c, py_get data c)) inventory_columns
                @ [(''tenant_id'', tenant)])
              (\<lambda>new old. coalesce_excluded inventory_columns new old @ stamp env ''last_seen'')) (\<lambda>row.
       sret (py_str (py_get row ''id'')))))"

definition put_property ::
  "gw_env \<Rightarrow> string \<Rightarrow> string \<Rightarrow> string \<Rightarrow> pyval \<Rightarrow> pyval \<Rightarrow> (gw_state, unit) prog" where
  "put_property env device_id category key val source =
     sbind (upsert_keyed env ''device_properties'' [''device_id'', ''category'', ''key'']
              [(''device_id'', PStr device_id), (''category'', PStr category), (''key'', PStr key),
               (''value'', val), (''source'', source)]
              (\<lambda>new old. take_excluded [''value''] new @ stamp env ''updated_at''))
       (\<lambda>_. sret ())"

text \<open>One service of the scan, an element of \<open>data.get("services", [])\<close>.\<close>

definition put_service :: "gw_env \<Rightarrow> string \<Rightarrow> pyval \<Rightarrow> (gw_state, unit) prog" where
  "put_service env device_id svc =
     sbind (slift (as_dict svc)) (\<lambda>sv.
       put_property env device_id ''services'' (''port_'' @ py_str (dict_get_or sv ''port'' (PInt 0)))
         (PStr (py_strip (py_str (dict_get_or sv ''service'' (PStr [])) @ '' ''
                @ py_str (dict_get_or sv ''version'' (PStr [])))))
         (PStr ''nmap''))"

definition discovered_details :: "string \<Rightarrow> pyval \<Rightarrow> pyval \<Rightarrow> string" where
  "discovered_details mac ip source =
     (let q = [CHR 0x22]
      in ''{'' @ q @ ''mac'' @ q @ '': '' @ q @ mac @ q @ '', '' @ q @ ''ip'' @ q @ '': '' @ q @ py_str ip @ q
         @ '', '' @ q @ ''source'' @ q @ '': '' @ q @ py_str source @ q @ ''}'')"

definition discovered_event :: "gw_env \<Rightarrow> string \<Rightarrow> string \<Rightarrow> pyval \<Rightarrow> pyval \<Rightarrow> (gw_state, unit) prog" where
  "discovered_event env device_id mac ip source =
     sbind (insert_row env ''events''
              [(''event_type'', PStr ''device_discovered''), (''severity'', PStr ''info''),
               (''device_id'', PStr device_id), (''source'', PStr (''discovery.'' @ py_str source)),
               (''message'', PStr (''Device '' @ mac @ '' discovered via '' @ py_str source
                  @ (if truthy ip then '' at '' @ py_str ip else []))),
               (''details'', PStr (discovered_details mac ip source))])
       (\<lambda>_. sret ())"

definition record_discovered :: "gw_env \<Rightarrow> bool \<Rightarrow> string \<Rightarrow> pydict \<Rightarrow> (gw_state, string) prog" where
  "record_discovered env inline_ok mac data =
     (let source = dict_get_or data ''source'' (PStr ''unknown'')
      in sbind (discovered_upsert env mac data) (\<lambda>device_id.
         sbind (put_property env device_id ''discovery'' ''last_source'' source source) (\<lambda>_.
         sbind (slift (py_iter (dict_get_or data ''services'' (PList [])))) (\<lambda>services.
         sbind (smap (put_service env device_id) services) (\<lambda>_.
         sbind (with_inline_cast inline_ok
                  (discovered_event env device_id mac (py_get data ''ip_address'') source)) (\<lambda>_.
           sret device_id))))))"

definition evaluate_request :: "string \<Rightarrow> string \<Rightarrow> pyval \<Rightarrow> pydict" where
  "evaluate_request device_id mac ip =
     [(''device_id'', PStr device_id), (''mac_address'', PStr mac), (''ip_address'', ip),
      (''trigger'', PStr ''discovery'')]"

definition handle_device_discovered :: "gw_env \<Rightarrow> bool \<Rightarrow> pydict \<Rightarrow> (svc_state, unit) prog" where
  "handle_device_discovered env inline_ok data =
     (if \<not> truthy (py_get data ''mac_address'') then sret ()
      else
        sbind (slift (lower_of (py_get data ''mac_address''))) (\<lambda>mac.
        sbind (get_db_context (record_discovered env inline_ok mac data)) (\<lambda>device_id.
          svc_publish env ''orw.policy.evaluate_device''
            (evaluate_request device_id mac (py_get data ''ip_address'')))))"

section \<open>What the engine sees\<close>

definition engine_view :: "gw_db \<Rightarrow> engine_db" where
  "engine_view d =
     \<lparr>db_devices = map (\<lambda>r. (py_str (py_get r ''id''), r)) (gd_table d ''devices''),
      db_properties = map (\<lambda>r. \<lparr>dp_device = py_str (py_get r ''device_id''), dp_category = py_str (py_get r ''category''),
          dp_key = py_str (py_get r ''key''), dp_value = py_get r ''value''\<rparr>) (gd_table d ''device_properties''),
      db_policies = map policy_of (gd_table d ''policies''), db_evaluations = []\<rparr>"

text \<open>The identifiers of the devices: texts, one row for each.\<close>

definition device_ids :: "pydict list \<Rightarrow> bool" where
  "device_ids rows \<longleftrightarrow> keyed rows \<and> (\<forall>r \<in> set rows. \<exists>i. py_get r ''id'' = PStr i)"

definition carries :: "pydict \<Rightarrow> pydict \<Rightarrow> bool" where
  "carries data row \<longleftrightarrow> (\<forall>c \<in> set inventory_columns. py_get data c \<noteq> PNone \<longrightarrow> py_get row c = py_get data c)"

lemma device_lookup:
  assumes "device_ids (gd_table d ''devices'')" and "row \<in> set (gd_table d ''devices'')"
    and "py_get row ''id'' = PStr i"
  shows "dict_get (db_devices (engine_view d)) i = Some row"
proof -
  have "distinct (map (\<lambda>r. py_str (py_get r ''id'')) rows)" if "device_ids rows" for rows
    using that
  proof (induction rows)
    case (Cons r rows)
    then have "device_ids rows" by (simp add: device_ids_def keyed_def)
    moreover have "py_str (py_get r ''id'') \<notin> (\<lambda>r. py_str (py_get r ''id'')) ` set rows"
    proof
      assume "py_str (py_get r ''id'') \<in> (\<lambda>r. py_str (py_get r ''id'')) ` set rows"
      then obtain q where "q \<in> set rows" "py_str (py_get r ''id'') = py_str (py_get q ''id'')" by auto
      moreover obtain a b where "py_get r ''id'' = PStr a" "py_get q ''id'' = PStr b"
        using Cons.prems \<open>q \<in> set rows\<close> by (auto simp: device_ids_def)
      ultimately have "q \<in> set rows" "py_get r ''id'' = py_get q ''id''" by simp_all
      then have "py_get r ''id'' \<in> (\<lambda>r. py_get r ''id'') ` set rows" by (metis image_eqI)
      with Cons.prems show False by (simp add: device_ids_def keyed_def)
    qed
    ultimately show ?case using Cons.IH by simp
  qed simp
  from this [OF assms(1)] show ?thesis
    using assms(2,3) by (intro map_of_is_SomeI) (auto simp: engine_view_def comp_def image_iff)
qed

lemma upsert_device_row:
  assumes "statement (\<lambda>d. upsert_row env ''devices'' keys (dict_set ''id'' (new_id env d) (ge_defaults env ''devices''))
      vals sets (d\<lparr>gd_seq := gd_seq d + 1\<rparr>)) g = (Inr row, g')"
    and "device_ids (gd_table (gs_db g) ''devices'')"
    and "\<forall>t. ge_constraint env t = None \<longrightarrow> keyed (t ''devices'')"
    and "''id'' \<notin> fst ` set vals" and "\<forall>new old. ''id'' \<notin> fst ` set (sets new old)"
  shows "row \<in> set (gd_table (gs_db g') ''devices'') \<and> device_ids (gd_table (gs_db g') ''devices'')
    \<and> (row = assign vals (dict_set ''id'' (new_id env (gs_db g)) (ge_defaults env ''devices''))
       \<or> (\<exists>new old. row = assign (sets new old) old
            \<and> new = assign vals (dict_set ''id'' (new_id env (gs_db g)) (ge_defaults env ''devices''))))"
proof -
  let ?new = "assign vals (dict_set ''id'' (new_id env (gs_db g)) (ge_defaults env ''devices''))"
  have new_id: "py_get ?new ''id'' = new_id env (gs_db g)"
    using assms(4) by (simp add: assign_get) (simp add: py_get_def)
  obtain d where run: "upsert_row env ''devices'' keys (dict_set ''id'' (new_id env (gs_db g)) (ge_defaults env ''devices''))
      vals sets ((gs_db g)\<lparr>gd_seq := gd_seq (gs_db g) + 1\<rparr>) = (Inr row, d)" and g': "g' = g\<lparr>gs_db := d\<rparr>"
    using statement_Inr [OF assms(1)] by blast
  show ?thesis
  proof (cases "filter (same_keys keys ?new) (gd_table (gs_db g) ''devices'')")
    case Nil
    with run have row: "row = ?new" and tab: "gd_table d ''devices'' = gd_table (gs_db g) ''devices'' @ [?new]"
      and ok: "ge_constraint env (gd_table d) = None"
      by (auto simp: upsert_row_def Let_def first_row_def checked_Inr split: option.splits)
    have "keyed (gd_table d ''devices'')" using assms(3) ok by blast
    then show ?thesis using row tab new_id assms(2) g' by (auto simp: device_ids_def new_id_def)
  next
    case (Cons old rest)
    with run have row: "row = assign (sets ?new old) old"
      and tab: "gd_table d ''devices'' = map (\<lambda>r. if same_keys keys ?new r then assign (sets ?new r) r else r)
        (gd_table (gs_db g) ''devices'')"
      and ok: "ge_constraint env (gd_table d) = None"
      by (auto simp: upsert_row_def Let_def first_row_def checked_Inr split: option.splits)
    have same: "py_get (assign (sets ?new r) r) ''id'' = py_get r ''id''" for r
      using assms(5) by (intro assign_get) blast
    have "old \<in> set (gd_table (gs_db g) ''devices'')" "same_keys keys ?new old"
      using Cons by (auto simp: filter_eq_Cons_iff)
    then have "row \<in> set (gd_table d ''devices'')" unfolding row tab by (auto intro!: image_eqI [of _ _ old])
    moreover have "keyed (gd_table d ''devices'')" using assms(3) ok by blast
    moreover have "\<forall>r \<in> set (gd_table d ''devices''). \<exists>i. py_get r ''id'' = PStr i"
      using assms(2) same by (auto simp: tab device_ids_def)
    ultimately show ?thesis using row g' by (auto simp: device_ids_def)
  qed
qed

lemma inventory_vals:
  assumes "vals = [(''mac_address'', m)] @ map (\<lambda>c. (c, py_get data c)) inventory_columns @ [(''tenant_id'', t)]"
  shows "dict_ok vals" and "''id'' \<notin> fst ` set vals"
    and "c \<in> set inventory_columns \<Longrightarrow> dict_get vals c = Some (py_get data c)"
  using assms by (auto simp: inventory_columns_def dict_ok_def)

lemma coalesced_get:
  assumes "c \<in> set cols" and "distinct cols" and "''last_seen'' \<notin> set cols"
  shows "py_get (assign (coalesce_excluded cols new old @ stamp env ''last_seen'') old) c
    = (if py_get new c = PNone then py_get old c else py_get new c)"
proof -
  have ok: "dict_ok (coalesce_excluded cols new old @ stamp env ''last_seen'')"
    using assms(2,3) by (auto simp: dict_ok_def coalesce_excluded_def stamp_def comp_def)
  have "dict_get (coalesce_excluded cols new old) c
      = Some (if py_get new c = PNone then py_get old c else py_get new c)"
    using assms(1) by (induction cols) (auto simp: coalesce_excluded_def)
  then show ?thesis by (intro assign_last [OF ok]) (simp add: map_add_def)
qed

lemma discovered_upsert_row:
  assumes "discovered_upsert env mac data g = (Inr device_id, g')"
    and "device_ids (gd_table (gs_db g) ''devices'')"
    and "\<forall>t. ge_constraint env t = None \<longrightarrow> keyed (t ''devices'')"
  shows "\<exists>row \<in> set (gd_table (gs_db g') ''devices''). py_get row ''id'' = PStr device_id \<and> carries data row"
    and "device_ids (gd_table (gs_db g') ''devices'')"
proof -
  obtain tenant g1 where g1: "default_tenant g = (Inr tenant, g1)"
    and run1: "sbind (sql_macaddr env mac) (\<lambda>addr.
     sbind (upsert_new env ''devices'' [''mac_address'', ''tenant_id'']
              ([(''mac_address'', PStr addr)] @ map (\<lambda>c. (c, py_get data c)) inventory_columns
                @ [(''tenant_id'', tenant)])
              (\<lambda>new old. coalesce_excluded inventory_columns new old @ stamp env ''last_seen'')) (\<lambda>row.
       sret (py_str (py_get row ''id'')))) g1 = (Inr device_id, g')"
    using assms(1) unfolding discovered_upsert_def by (rule sbind_InrE)
  obtain addr g2 where g2: "sql_macaddr env mac g1 = (Inr addr, g2)"
    and run2: "sbind (upsert_new env ''devices'' [''mac_address'', ''tenant_id'']
              ([(''mac_address'', PStr addr)] @ map (\<lambda>c. (c, py_get data c)) inventory_columns
                @ [(''tenant_id'', tenant)])
              (\<lambda>new old. coalesce_excluded inventory_columns new old @ stamp env ''last_seen'')) (\<lambda>row.
       sret (py_str (py_get row ''id''))) g2 = (Inr device_id, g')"
    using run1 by (rule sbind_InrE)
  define vals where "vals = [(''mac_address'', PStr addr)] @ map (\<lambda>c. (c, py_get data c)) inventory_columns
    @ [(''tenant_id'', tenant)]"
  let ?sets = "\<lambda>new old. coalesce_excluded inventory_columns new old @ stamp env ''last_seen''"
  obtain row where up: "upsert_new env ''devices'' [''mac_address'', ''tenant_id''] vals ?sets g2 = (Inr row, g')"
    and id: "device_id = py_str (py_get row ''id'')"
    using run2 unfolding vals_def by (elim sbind_InrE) auto
  have "spares ''devices'' default_tenant"
    unfolding default_tenant_def by (intro spare_intros)
  then have "gd_table (gs_db g2) ''devices'' = gd_table (gs_db g) ''devices''"
    using sparesD [where m = default_tenant, OF _ g1] sparesD [where m = "sql_macaddr env mac", OF spares_reads(3) g2]
    by simp
  then have ids: "device_ids (gd_table (gs_db g2) ''devices'')" using assms(2) by simp
  have no_id: "\<forall>new old. ''id'' \<notin> fst ` set (?sets new old)"
    by (auto simp: coalesce_excluded_def inventory_columns_def stamp_def)
  note out = upsert_device_row [OF up [unfolded upsert_new_def] ids assms(3) inventory_vals(2) [OF vals_def] no_id]
  show "device_ids (gd_table (gs_db g') ''devices'')" using out by simp
  have fresh: "py_get (assign vals base) c = py_get data c" if "c \<in> set inventory_columns" for base c
    using inventory_vals(1,3) [OF vals_def] that by (simp add: assign_last)
  have "carries data row"
  proof -
    have "distinct inventory_columns" "''last_seen'' \<notin> set inventory_columns" by (simp_all add: inventory_columns_def)
    then show ?thesis using out fresh by (auto simp: carries_def coalesced_get)
  qed
  moreover have "py_get row ''id'' = PStr device_id" using out id by (auto simp: device_ids_def)
  ultimately show "\<exists>row \<in> set (gd_table (gs_db g') ''devices''). py_get row ''id'' = PStr device_id \<and> carries data row"
    using out by blast
qed

lemma record_discovered_row:
  assumes "record_discovered env inline_ok mac data g = (Inr device_id, g')"
    and "device_ids (gd_table (gs_db g) ''devices'')"
    and "\<forall>t. ge_constraint env t = None \<longrightarrow> keyed (t ''devices'')"
  shows "\<exists>row \<in> set (gd_table (gs_db g') ''devices''). py_get row ''id'' = PStr device_id \<and> carries data row"
    and "device_ids (gd_table (gs_db g') ''devices'')" and "inline_ok" and "\<not> gs_aborted g'"
proof -
  let ?source = "dict_get_or data ''source'' (PStr ''unknown'')"
  define rest where "rest i = sbind (put_property env i ''discovery'' ''last_source'' ?source ?source) (\<lambda>_.
         sbind (slift (py_iter (dict_get_or data ''services'' (PList [])))) (\<lambda>services.
         sbind (smap (put_service env i) services) (\<lambda>_.
         sbind (with_inline_cast inline_ok (discovered_event env i mac (py_get data ''ip_address'') ?source)) (\<lambda>_.
           sret i))))" for i
  obtain i g1 where g1: "discovered_upsert env mac data g = (Inr i, g1)" and run: "rest i g1 = (Inr device_id, g')"
    using assms(1) unfolding record_discovered_def Let_def rest_def by (rule sbind_InrE)
  have props: "spares ''devices'' (put_property env i c k v src)" for i c k v src
    unfolding put_property_def by (intro spare_intros) simp
  have "spares ''devices'' (put_service env i svc)" for svc
    unfolding put_service_def by (intro spare_intros props)
  moreover have "spares ''devices'' (discovered_event env i mac ip src)" for ip src
    unfolding discovered_event_def by (intro spare_intros) simp
  ultimately have "spares ''devices'' (rest i)" unfolding rest_def by (intro spare_intros props)
  then have "gd_table (gs_db g') ''devices'' = gd_table (gs_db g1) ''devices''"
    by (rule sparesD [where m = "rest i", OF _ run])
  moreover have last: "i = device_id \<and> inline_ok \<and> \<not> gs_aborted g'"
    using run unfolding rest_def by (auto elim!: sbind_InrE simp: with_inline_cast_def discovered_event_def insert_row_def
        dest: statement_Inr_alive statement_Inr split: if_splits)
  ultimately show "\<exists>row \<in> set (gd_table (gs_db g') ''devices''). py_get row ''id'' = PStr device_id \<and> carries data row"
    and "device_ids (gd_table (gs_db g') ''devices'')" and "inline_ok" and "\<not> gs_aborted g'"
    using discovered_upsert_row [OF g1 assms(2,3)] by simp_all
qed

lemma record_discovered_inside: "keeps (\<lambda>g. outside g = X) (record_discovered env inline_ok mac data)"
  unfolding record_discovered_def discovered_upsert_def default_tenant_def put_property_def put_service_def
    discovered_event_def Let_def
  by (intro inside_intros keeps_intros)


definition ex_inventory_env :: gw_env where
  "ex_inventory_env = ex_gw_env\<lparr>ge_constraint :=
     (\<lambda>tables. if keyed (tables ''devices'') then None else Some ''duplicate key'')\<rparr>"

definition ex_inventory_state :: svc_state where
  "ex_inventory_state =
     (let d = put_table ''tenants'' [[(''id'', PStr ''t1''), (''name'', PStr ''default'')]] (gs_db ex_gw_state)
      in \<lparr>sv_store = ex_gw_state\<lparr>gs_db := d, gs_committed := d\<rparr>\<rparr>)"

definition ex_discovered :: pydict where
  "ex_discovered =
     [(''mac_address'', PStr ''AA:BB:CC:00:11:22''), (''ip_address'', PStr ''10.0.0.9''), (''vendor'', PStr ''HP'')]"

lemma ex_inventory_ready:
  "at_rest (sv_store ex_inventory_state)" "device_ids (gd_table (gs_db (sv_store ex_inventory_state)) ''devices'')"
  "\<forall>t. ge_constraint ex_inventory_env t = None \<longrightarrow> keyed (t ''devices'')"
  "dict_get ex_discovered ''mac_address'' = Some (PStr ''AA:BB:CC:00:11:22'')"
  by (simp_all add: ex_inventory_state_def Let_def at_rest_def ex_gw_state_def device_ids_def keyed_def
      ex_inventory_env_def ex_discovered_def)


text \<open>
  C38: With a driver that does not understand a type cast on a named parameter, no discovery is ever
  recorded. The event statement of the handler has such a cast, so every message with a MAC address
  ends in an error after the device was written, its transaction is rolled back, no evaluation is
  asked for and the message comes again.
\<close>

theorem discovery_never_recorded:
  assumes "dict_get data ''mac_address'' = Some (PStr mac)" and "mac \<noteq> []" and "at_rest (sv_store s)"
    and "device_ids (gd_table (gs_db (sv_store s)) ''devices'')"
    and "\<forall>t. ge_constraint env t = None \<longrightarrow> keyed (t ''devices'')"
  shows "\<exists>e s'. handle_device_discovered env False data s = (Inl e, s') \<and> outcome (fst (handle_device_discovered env False data s)) = Nak
    \<and> gs_db (sv_store s') = gs_db (sv_store s) \<and> outside (sv_store s') = outside (sv_store s)"
proof -
  have mac: "py_get data ''mac_address'' = PStr mac" using assms(1) by (simp add: py_get_def dict_get_or_def)
  obtain r g where run: "record_discovered env False (py_lower mac) data (sv_store s) = (r, g)"
    by (cases "record_discovered env False (py_lower mac) data (sv_store s)")
  then obtain e where "r = Inl e"
    using record_discovered_row(3) [OF _ assms(4,5)] by (cases r) blast+
  with get_db_context_Inl [OF record_discovered_inside assms(3)] run obtain d where
    "get_db_context (record_discovered env False (py_lower mac) data) s = (Inl e, s\<lparr>sv_store := d\<rparr>)"
    "outside d = outside (sv_store s)" "gs_db d = gs_db (sv_store s)"
    by blast
  then show ?thesis
    using mac assms(2) by (simp add: handle_device_discovered_def sbind_def outcome_def)
qed

theorem discovery_never_recorded_witness:
  "outcome (fst (handle_device_discovered ex_inventory_env False ex_discovered ex_inventory_state)) = Nak
     \<and> outcome (fst (handle_device_discovered ex_inventory_env True ex_discovered ex_inventory_state)) = Ack"
proof -
  have "outcome (fst (handle_device_discovered ex_inventory_env False ex_discovered ex_inventory_state)) = Nak"
    using discovery_never_recorded [OF ex_inventory_ready(4) _ ex_inventory_ready(1-3)] by blast
  moreover have "outcome (fst (handle_device_discovered ex_inventory_env True ex_discovered ex_inventory_state)) = Ack"
    by code_simp
  ultimately show ?thesis by simp
qed

end
