(* ===== verification/Coa_Gateway.thy ===== *)
theory Coa_Gateway
  imports Network_Devices
begin

text \<open>
  The CoA requests of the gateway: \<open>services/gateway/features/coa\<close>. Each request becomes a message to
  the CoA service (\<open>Coa_Manager\<close>) and an audit entry; the listings read the audit log and the
  sessions. An entry of the audit log is read as a dictionary whose identifier and time are its
  position in the log; addresses are compared by their text.
\<close>

section \<open>Events\<close>

definition SUBJECT_COA_SEND :: string where
  "SUBJECT_COA_SEND = ''orw.policy.action.coa''"

definition publish_coa :: "gw_env \<Rightarrow> pydict \<Rightarrow> (gw_state, unit) prog" where
  "publish_coa env payload = publish env SUBJECT_COA_SEND payload"

section \<open>Requests for one target\<close>

definition BULK_MAX_TARGETS :: nat where "BULK_MAX_TARGETS = 100"

definition send_coa_to_target ::
  "gw_env \<Rightarrow> gw_actor \<Rightarrow> string \<Rightarrow> string \<Rightarrow> string \<Rightarrow> pyval \<Rightarrow> pyval \<Rightarrow> pyval \<Rightarrow> (gw_state, unit) prog" where
  "send_coa_to_target env actor target_field target_value action vlan_id acl_name reason =
     sbind (publish_coa env
              [(target_field, PStr target_value), (''action'', PStr action), (''vlan_id'', vlan_id),
               (''acl_name'', acl_name), (''requested_by'', PStr (ac_sub actor)), (''reason'', reason)]) (\<lambda>_.
       log_audit env actor (''coa_'' @ action) ''coa'' PNone
         [(target_field, PStr target_value), (''reason'', reason)] PNone)"

definition coa_submitted :: "string \<Rightarrow> string \<Rightarrow> string \<Rightarrow> string \<Rightarrow> pydict" where
  "coa_submitted action what target_field target_value =
     [(''status'', PStr ''submitted''),
      (''message'', PStr (''CoA '' @ action @ '' request sent for '' @ what @ '' '' @ target_value)),
      (target_field, PStr target_value), (''action'', PStr action)]"

definition send_coa_by_mac ::
  "gw_env \<Rightarrow> gw_actor \<Rightarrow> string \<Rightarrow> string \<Rightarrow> pyval \<Rightarrow> pyval \<Rightarrow> pyval \<Rightarrow> (gw_state, pydict) prog" where
  "send_coa_by_mac env actor mac_address action vlan_id acl_name reason =
     sbind (send_coa_to_target env actor ''mac_address'' mac_address action vlan_id acl_name reason)
       (\<lambda>_. sret (coa_submitted action ''MAC'' ''mac_address'' mac_address))"

definition send_coa_by_username ::
  "gw_env \<Rightarrow> gw_actor \<Rightarrow> string \<Rightarrow> string \<Rightarrow> pyval \<Rightarrow> pyval \<Rightarrow> pyval \<Rightarrow> (gw_state, pydict) prog" where
  "send_coa_by_username env actor username action vlan_id acl_name reason =
     sbind (send_coa_to_target env actor ''username'' username action vlan_id acl_name reason)
       (\<lambda>_. sret (coa_submitted action ''user'' ''username'' username))"

definition send_coa_by_session ::
  "gw_env \<Rightarrow> gw_actor \<Rightarrow> string \<Rightarrow> string \<Rightarrow> pyval \<Rightarrow> pyval \<Rightarrow> pyval \<Rightarrow> (gw_state, pydict) prog" where
  "send_coa_by_session env actor session_id action vlan_id acl_name reason =
     sbind (send_coa_to_target env actor ''session_id'' session_id action vlan_id acl_name reason)
       (\<lambda>_. sret (coa_submitted action ''session'' ''session_id'' session_id))"

section \<open>Requests for many targets\<close>

definition TARGET_FIELD_BY_TYPE :: "(string, string) dict" where
  "TARGET_FIELD_BY_TYPE =
     [(''mac'', ''mac_address''), (''session_id'', ''session_id''), (''username'', ''username'')]"

definition bulk_payload :: "gw_actor \<Rightarrow> string \<Rightarrow> string \<Rightarrow> pyval \<Rightarrow> pyval \<Rightarrow> string \<Rightarrow> pydict" where
  "bulk_payload actor target_type action vlan_id reason target =
     [(dict_get_or TARGET_FIELD_BY_TYPE target_type ''username'', PStr target), (''action'', PStr action),
      (''vlan_id'', vlan_id), (''requested_by'', PStr (ac_sub actor)), (''reason'', reason)]"

fun publish_each :: "gw_env \<Rightarrow> (string \<Rightarrow> pydict) \<Rightarrow> string list \<Rightarrow> int \<Rightarrow> (gw_state, int) prog" where
  "publish_each env payload [] submitted = sret submitted"
| "publish_each env payload (target # targets) submitted =
     sbind (publish_coa env (payload target)) (\<lambda>_. publish_each env payload targets (submitted + 1))"

definition send_coa_bulk ::
  "gw_env \<Rightarrow> gw_actor \<Rightarrow> string list \<Rightarrow> string \<Rightarrow> string \<Rightarrow> pyval \<Rightarrow> pyval \<Rightarrow> (gw_state, pydict) prog" where
  "send_coa_bulk env actor targets target_type action vlan_id reason =
     (if BULK_MAX_TARGETS < length targets
      then sraise (invalid (''Maximum '' @ show_nat BULK_MAX_TARGETS @ '' targets per bulk request''))
      else
        sbind (publish_each env (bulk_payload actor target_type action vlan_id reason) targets 0) (\<lambda>submitted.
        sbind (log_audit env actor (''coa_'' @ action) ''coa'' PNone
                 [(''bulk'', PBool True), (''target_type'', PStr target_type),
                  (''target_count'', PInt submitted), (''reason'', reason)] PNone) (\<lambda>_.
          sret [(''status'', PStr ''submitted''),
                (''message'', PStr (''Bulk CoA '' @ action @ '' sent to '' @ show_int submitted @ '' targets'')),
                (''submitted_count'', PInt submitted), (''action'', PStr action)])))"

section \<open>History\<close>

definition audit_dict :: "nat \<Rightarrow> audit_row \<Rightarrow> pydict" where
  "audit_dict n a =
     [(''id'', PInt (int n)), (''timestamp'', PInt (int n)), (''user_id'', au_user_id a),
      (''action'', PStr (au_action a)), (''resource_type'', PStr (au_resource_type a)),
      (''resource_id'', au_resource_id a), (''details'', PDict (au_details a)),
      (''ip_address'', au_ip_address a), (''tenant_id'', au_tenant_id a)]"

definition audit_entries :: "gw_db \<Rightarrow> pydict list" where
  "audit_entries d = map (\<lambda>n. audit_dict n (gd_audit d ! n)) [0..<length (gd_audit d)]"

text \<open>\<open>a.tenant_id = CAST(:tenant_id AS uuid) OR a.tenant_id IS NULL\<close>.\<close>

definition audit_tenant_clause :: "pyval \<Rightarrow> pydict \<Rightarrow> bool" where
  "audit_tenant_clause tenant a \<longleftrightarrow> sql_eq (py_get a ''tenant_id'') tenant \<or> py_get a ''tenant_id'' = PNone"

definition coa_history_clause :: "pyval \<Rightarrow> pyval \<Rightarrow> pydict \<Rightarrow> bool" where
  "coa_history_clause tenant action a \<longleftrightarrow>
     py_get a ''resource_type'' = PStr ''coa'' \<and> audit_tenant_clause tenant a
     \<and> (truthy action \<longrightarrow> py_get a ''action'' = PStr (''coa_'' @ py_str action))"

definition count_coa_history :: "pyval \<Rightarrow> pyval \<Rightarrow> (gw_state, int) prog" where
  "count_coa_history tenant action =
     statement (\<lambda>d. (Inr (int (length (filter (coa_history_clause tenant action) (audit_entries d)))), d))"

text \<open>\<open>LEFT JOIN users u ON a.user_id = u.id\<close>, of which the name is selected.\<close>

definition audit_username :: "gw_db \<Rightarrow> pydict \<Rightarrow> pyval" where
  "audit_username d a =
     (case first_row (filter (\<lambda>u. sql_eq (py_get a ''user_id'') (py_get u ''id'')) (gd_table d ''users'')) of
        None \<Rightarrow> PNone | Some u \<Rightarrow> py_get u ''username'')"

definition list_coa_history :: "pyval \<Rightarrow> pyval \<Rightarrow> int \<Rightarrow> int \<Rightarrow> (gw_state, pydict list) prog" where
  "list_coa_history tenant action limit offset =
     statement (\<lambda>d. (Inr (map
       (\<lambda>a. project [''id'', ''timestamp'', ''user_id''] a @ [(''username'', audit_username d a)]
            @ project [''action'', ''resource_type'', ''details'', ''ip_address''] a)
       (take (nat limit) (drop (nat offset)
         (rev (filter (coa_history_clause tenant action) (audit_entries d)))))), d))"

definition get_history :: "pyval \<Rightarrow> pyval \<Rightarrow> int \<Rightarrow> int \<Rightarrow> (gw_state, pydict) prog" where
  "get_history tenant action page page_size =
     sbind (count_coa_history tenant action) (\<lambda>n.
     sbind (list_coa_history tenant action page_size ((page - 1) * page_size)) (\<lambda>rows.
       sret (page_dict rows n page page_size)))"

section \<open>Active sessions\<close>

definition active_session_clause :: "pyval \<Rightarrow> pyval \<Rightarrow> pydict \<Rightarrow> bool" where
  "active_session_clause nas_ip vlan rs \<longleftrightarrow>
     py_get rs ''status'' = PStr ''active''
     \<and> (truthy nas_ip \<longrightarrow> py_get rs ''nas_ip'' \<noteq> PNone \<and> py_str (py_get rs ''nas_ip'') = py_str nas_ip)
     \<and> (truthy vlan \<longrightarrow> sql_eq (py_get rs ''assigned_vlan'') vlan)"

definition count_active_sessions :: "pyval \<Rightarrow> pyval \<Rightarrow> (gw_state, int) prog" where
  "count_active_sessions nas_ip vlan = count_rows ''radius_sessions'' (active_session_clause nas_ip vlan)"

text \<open>A left join: the matching rows, or one row of nulls.\<close>

definition left_join :: "(pydict \<Rightarrow> bool) \<Rightarrow> pydict list \<Rightarrow> pydict list" where
  "left_join P rows = (case filter P rows of [] \<Rightarrow> [[]] | rs \<Rightarrow> rs)"

definition same_address :: "pydict \<Rightarrow> pydict \<Rightarrow> bool" where
  "same_address rs nd \<longleftrightarrow> py_get rs ''nas_ip'' \<noteq> PNone \<and> py_get nd ''ip_address'' \<noteq> PNone
     \<and> py_str (py_get rs ''nas_ip'') = py_str (py_get nd ''ip_address'')"

definition join_session :: "gw_db \<Rightarrow> pydict \<Rightarrow> pydict list" where
  "join_session d rs =
     concat (map (\<lambda>dev. map (\<lambda>nd.
         rs @ [(''device_hostname'', py_get dev ''hostname''), (''device_type'', py_get dev ''device_type''),
               (''os_family'', py_get dev ''os_family''), (''switch_hostname'', py_get nd ''hostname''),
               (''switch_vendor'', py_get nd ''vendor'')])
       (left_join (same_address rs) (gd_table d ''network_devices'')))
     (left_join (\<lambda>dev. sql_eq (py_get rs ''device_id'') (py_get dev ''id'')) (gd_table d ''devices'')))"

definition repo_list_active_sessions ::
  "gw_env \<Rightarrow> pyval \<Rightarrow> pyval \<Rightarrow> int \<Rightarrow> int \<Rightarrow> (gw_state, pydict list) prog" where
  "repo_list_active_sessions env nas_ip vlan limit offset =
     statement (\<lambda>d. (Inr (take (nat limit) (drop (nat offset) (ge_order env ''started_at DESC''
       (concat (map (join_session d)
         (filter (active_session_clause nas_ip vlan) (gd_table d ''radius_sessions''))))))), d))"

definition with_actions :: "pydict \<Rightarrow> pydict" where
  "with_actions row =
     dict_set ''actions_available''
       (PList [PStr ''disconnect'', PStr ''reauthenticate'', PStr ''vlan_change'', PStr ''apply_acl''])
       (dict_set ''coa_available'' (PBool True) row)"

definition list_active_sessions :: "gw_env \<Rightarrow> pyval \<Rightarrow> pyval \<Rightarrow> int \<Rightarrow> int \<Rightarrow> (gw_state, pydict) prog" where
  "list_active_sessions env nas_ip vlan page page_size =
     sbind (count_active_sessions nas_ip vlan) (\<lambda>n.
     sbind (repo_list_active_sessions env nas_ip vlan page_size ((page - 1) * page_size)) (\<lambda>rows.
       sret (page_dict (map with_actions rows) n page page_size)))"

section \<open>What a bulk request sends\<close>

definition coa_message :: "pydict \<Rightarrow> message" where
  "coa_message payload = \<lparr>msg_subject = SUBJECT_COA_SEND, msg_data = payload\<rparr>"

lemma publish_each_sends:
  assumes "publish_each env payload targets n g = (r, g')"
  shows "\<exists>k \<le> length targets. gs_published g' = gs_published g @ map (\<lambda>t. coa_message (payload t)) (take k targets)
    \<and> g'\<lparr>gs_published := gs_published g\<rparr> = g
    \<and> (case r of Inl e \<Rightarrow> k < length targets | Inr m \<Rightarrow> k = length targets \<and> m = n + int (length targets))"
  using assms
proof (induction targets arbitrary: n g)
  case (Cons t ts)
  show ?case
  proof (cases "ge_publish_ok env (coa_message (payload t))")
    case True
    let ?g = "g\<lparr>gs_published := gs_published g @ [coa_message (payload t)]\<rparr>"
    have "publish_each env payload ts (n + 1) ?g = (r, g')"
      using Cons.prems True by (simp add: sbind_def publish_coa_def publish_def Let_def coa_message_def)
    from Cons.IH [OF this] obtain k where k: "k \<le> length ts"
      "gs_published g' = gs_published ?g @ map (\<lambda>t. coa_message (payload t)) (take k ts)"
      "g'\<lparr>gs_published := gs_published ?g\<rparr> = ?g"
      "case r of Inl e \<Rightarrow> k < length ts | Inr m \<Rightarrow> k = length ts \<and> m = n + 1 + int (length ts)"
      by blast
    have "g'\<lparr>gs_published := gs_published g\<rparr> = g"
      using arg_cong [OF k(3), of "\<lambda>x. x\<lparr>gs_published := gs_published g\<rparr>"] by simp
    with k show ?thesis by (intro exI [of _ "Suc k"]) (auto split: sum.splits)
  next
    case False
    with Cons.prems show ?thesis
      by (intro exI [of _ 0]) (auto simp: sbind_def publish_coa_def publish_def Let_def coa_message_def)
  qed
qed (auto split: sum.splits)

lemma log_audit_row:
  assumes "log_audit env actor action rt rid details ip g = (Inr x, g')"
  shows "gs_db g' = (gs_db g)\<lparr>gd_audit := gd_audit (gs_db g) @ [\<lparr>au_user_id = PStr (ac_sub actor), au_action = action,
      au_resource_type = rt, au_resource_id = rid, au_details = details, au_ip_address = ip,
      au_tenant_id = PStr (ac_tenant actor)\<rparr>]\<rparr>"
  using assms by (auto simp: log_audit_def log_audit_as_def statement_def Let_def split: if_splits option.splits)

lemma log_audit_Inl:
  "log_audit env actor action rt rid details ip g = (Inl e, g') \<Longrightarrow>
   gs_published g' = gs_published g \<and> gs_committed g' = gs_committed g"
  by (auto simp: log_audit_def log_audit_as_def statement_def Let_def split: if_splits option.splits)

text \<open>
  C22: A bulk request sends at most a hundred messages, one for each of its first targets, in order
  and with the fields of the request. When it succeeds every target got its message and one audit
  entry, committed, carries their number; when it fails the messages sent until then stay sent,
  and nothing at all is recorded of them.
\<close>

theorem bulk_coa_bounded:
  assumes "in_request (send_coa_bulk env actor targets target_type action vlan_id reason) g = (r, g')"
  shows "\<exists>k \<le> length targets. k \<le> 100
    \<and> gs_published g' = gs_published g
        @ map (\<lambda>t. coa_message (bulk_payload actor target_type action vlan_id reason t)) (take k targets)
    \<and> (case r of
         Inr out \<Rightarrow> k = length targets
           \<and> (\<exists>a. gd_audit (gs_committed g') = gd_audit (gs_db g) @ [a] \<and> au_details a =
                [(''bulk'', PBool True), (''target_type'', PStr target_type), (''target_count'', PInt (int k)),
                 (''reason'', reason)])
       | Inl e \<Rightarrow> gs_committed g' = gs_committed g)"
proof (cases "BULK_MAX_TARGETS < length targets")
  case True
  with assms show ?thesis
    by (intro exI [of _ 0]) (auto simp: in_request_def send_coa_bulk_def rollback_def)
next
  case False
  then have bound: "length targets \<le> 100" by (simp add: BULK_MAX_TARGETS_def)
  let ?payload = "bulk_payload actor target_type action vlan_id reason"
  obtain r1 g1 where sent: "publish_each env ?payload targets 0 g = (r1, g1)"
    by (cases "publish_each env ?payload targets 0 g")
  obtain k where k: "k \<le> length targets"
    "gs_published g1 = gs_published g @ map (\<lambda>t. coa_message (?payload t)) (take k targets)"
    "g1\<lparr>gs_published := gs_published g\<rparr> = g"
    "case r1 of Inl e \<Rightarrow> k < length targets | Inr m \<Rightarrow> k = length targets \<and> m = 0 + int (length targets)"
    using publish_each_sends [OF sent] by blast
  have same: "gs_committed g1 = gs_committed g" "gs_db g1 = gs_db g"
    using arg_cong [OF k(3), of gs_committed] arg_cong [OF k(3), of gs_db] by simp_all
  show ?thesis
  proof (cases r1)
    case (Inl e)
    with sent assms False have "r = Inl e" "g' = rollback g1"
      by (auto simp: in_request_def send_coa_bulk_def sbind_def)
    with k same bound show ?thesis by (intro exI [of _ k]) (simp add: rollback_def)
  next
    case (Inr m)
    let ?details = "[(''bulk'', PBool True), (''target_type'', PStr target_type), (''target_count'', PInt m),
      (''reason'', reason)]"
    obtain r2 g2 where audit: "log_audit env actor (''coa_'' @ action) ''coa'' PNone ?details PNone g1 = (r2, g2)"
      by (cases "log_audit env actor (''coa_'' @ action) ''coa'' PNone ?details PNone g1")
    show ?thesis
    proof (cases r2)
      case (Inl e)
      with sent audit \<open>r1 = Inr m\<close> assms False have "r = Inl e" "g' = rollback g2"
        by (auto simp: in_request_def send_coa_bulk_def sbind_def)
      with k same bound log_audit_Inl [OF audit [unfolded Inl]] show ?thesis
        by (intro exI [of _ k]) (simp add: rollback_def)
    next
      case (Inr x)
      with sent audit \<open>r1 = Inr m\<close> assms False obtain out where "r = Inr out" "g' = commit g2"
        by (auto simp: in_request_def send_coa_bulk_def sbind_def)
      with k same bound log_audit_Inr [OF audit [unfolded Inr]] log_audit_row [OF audit [unfolded Inr]] \<open>r1 = Inr m\<close>
      show ?thesis by (intro exI [of _ k]) (simp add: commit_def)
    qed
  qed
qed

definition ex_bulk :: "pydict result \<times> gw_state" where
  "ex_bulk = in_request (send_coa_bulk ex_gw_env ex_actor [''aa'', ''bb''] ''mac'' ''disconnect'' PNone PNone) ex_gw_state"

theorem bulk_coa_bounded_witness:
  "map (\<lambda>m. py_get (msg_data m) ''mac_address'') (gs_published (snd ex_bulk)) = [PStr ''aa'', PStr ''bb'']
     \<and> length (gd_audit (gs_committed (snd ex_bulk))) = 1"
proof -
  have "case fst ex_bulk of Inl e \<Rightarrow> False | Inr out \<Rightarrow> True" by code_simp
  then obtain out where out: "fst ex_bulk = Inr out" by (cases "fst ex_bulk") auto
  have run: "in_request (send_coa_bulk ex_gw_env ex_actor [''aa'', ''bb''] ''mac'' ''disconnect'' PNone PNone) ex_gw_state
      = (Inr out, snd ex_bulk)"
    using out by (metis ex_bulk_def prod.collapse)
  obtain a where "gs_published (snd ex_bulk) = gs_published ex_gw_state
      @ map (\<lambda>t. coa_message (bulk_payload ex_actor ''mac'' ''disconnect'' PNone PNone t)) [''aa'', ''bb'']"
    and "gd_audit (gs_committed (snd ex_bulk)) = gd_audit (gs_db ex_gw_state) @ [a]"
    using bulk_coa_bounded [OF run] by fastforce
  moreover have "gs_published ex_gw_state = []" "gd_audit (gs_db ex_gw_state) = []"
    by (simp_all add: ex_gw_state_def Let_def)
  ultimately show ?thesis
    by (simp add: coa_message_def bulk_payload_def TARGET_FIELD_BY_TYPE_def py_get_def dict_get_or_def)
qed

end
