(* ===== verification/Settings_Service.thy ===== *)
theory Settings_Service
  imports Network_Devices
begin

text \<open>
  The settings of the gateway: repository, service and events of
  \<open>services/gateway/features/settings\<close>. A setting belongs to a tenant or to all of them; the value
  of a secret one is masked in answers and in the audit log. What no reader can tell apart is made
  precise as \<open>alike\<close>: states that differ in the values of secret settings only.
\<close>

section \<open>Repository\<close>

text \<open>\<open>(tenant_id = :tenant_id OR tenant_id IS NULL)\<close>.\<close>

definition setting_tenant_clause :: "pyval \<Rightarrow> pydict \<Rightarrow> bool" where
  "setting_tenant_clause tenant row \<longleftrightarrow> sql_eq (py_get row ''tenant_id'') tenant \<or> py_get row ''tenant_id'' = PNone"

definition setting_columns :: "string list" where
  "setting_columns =
     [''setting_key'', ''setting_value'', ''value_type'', ''category'', ''description'', ''is_secret'']"

definition list_all_settings :: "gw_env \<Rightarrow> pyval \<Rightarrow> (gw_state, pydict list) prog" where
  "list_all_settings env tenant =
     sbind (select_ordered env ''category, setting_key'' ''system_settings'' (setting_tenant_clause tenant))
       (\<lambda>rows. sret (map (project setting_columns) rows))"

definition list_settings_by_category ::
  "gw_env \<Rightarrow> pyval \<Rightarrow> string \<Rightarrow> (gw_state, pydict list) prog" where
  "list_settings_by_category env tenant category =
     sbind (select_ordered env ''setting_key'' ''system_settings''
              (\<lambda>r. where_eq [(''category'', PStr category)] r \<and> setting_tenant_clause tenant r))
       (\<lambda>rows. sret (map (project setting_columns) rows))"

text \<open>\<open>{r["setting_key"]: r for r in rows}\<close>: of two rows with one key the last stays.\<close>

definition keyed_by :: "string \<Rightarrow> pydict list \<Rightarrow> (pyval, pydict) dict" where
  "keyed_by c rows = fold (\<lambda>r d. dict_set (py_get r c) r d) rows []"

definition lookup_settings_for_audit ::
  "pyval \<Rightarrow> string \<Rightarrow> string list \<Rightarrow> (gw_state, (pyval, pydict) dict) prog" where
  "lookup_settings_for_audit tenant category keys =
     sbind (select_rows ''system_settings''
              (\<lambda>r. where_eq [(''category'', PStr category)] r
                 \<and> py_get r ''setting_key'' \<in> PStr ` set keys \<and> setting_tenant_clause tenant r))
       (\<lambda>rows. sret (keyed_by ''setting_key''
          (map (project [''setting_key'', ''setting_value'', ''is_secret'']) rows)))"

definition update_setting_value ::
  "gw_env \<Rightarrow> pyval \<Rightarrow> string \<Rightarrow> string \<Rightarrow> string \<Rightarrow> (gw_state, unit) prog" where
  "update_setting_value env tenant category key val =
     sbind (update_rows env ''system_settings''
              (\<lambda>r. where_eq [(''category'', PStr category), (''setting_key'', PStr key)] r
                 \<and> setting_tenant_clause tenant r)
              ([(''setting_value'', PStr val)] @ stamp env ''updated_at''))
       (\<lambda>_. sret ())"

section \<open>Events\<close>

definition SERVICE_RESTART_TOPICS :: "(string, string) dict" where
  "SERVICE_RESTART_TOPICS =
     [(''freeradius'', ''orw.service.freeradius.restart''),
      (''discovery'', ''orw.service.discovery.restart''),
      (''device_inventory'', ''orw.service.device_inventory.restart''),
      (''policy_engine'', ''orw.service.policy_engine.restart''),
      (''switch_mgmt'', ''orw.service.switch_mgmt.restart''),
      (''coa'', ''orw.service.coa.restart'')]"

definition publish_service_restart :: "gw_env \<Rightarrow> string \<Rightarrow> pyval \<Rightarrow> (gw_state, unit) prog" where
  "publish_service_restart env service_name requested_by =
     (case dict_get SERVICE_RESTART_TOPICS service_name of
        None \<Rightarrow> sraise (KeyError service_name)
      | Some topic \<Rightarrow> publish env topic [(''action'', PStr ''restart''), (''requested_by'', requested_by)])"

section \<open>Service\<close>

definition INFRA_SERVICES :: "string list" where
  "INFRA_SERVICES = [''postgres'', ''redis'', ''nats'', ''frontend'']"

definition masked_value :: pyval where "masked_value = PStr ''********''"

definition mask_sensitive :: "pydict \<Rightarrow> pydict" where
  "mask_sensitive row =
     (if truthy (py_get row ''is_secret'') then dict_set ''setting_value'' masked_value row else row)"

text \<open>\<open>entry.pop("category", "general")\<close> and \<open>categories.setdefault(cat, []).append(entry)\<close>.\<close>

definition group_setting :: "pydict \<Rightarrow> (pyval, pydict list) dict \<Rightarrow> (pyval, pydict list) dict" where
  "group_setting row categories =
     (let entry = mask_sensitive row;
          cat = dict_get_or entry ''category'' (PStr ''general'')
      in dict_set cat (dict_get_or categories cat [] @ [filter (\<lambda>(k, v). k \<noteq> ''category'') entry]) categories)"

definition get_all_settings_grouped ::
  "gw_env \<Rightarrow> pyval \<Rightarrow> (gw_state, (pyval, pydict list) dict) prog" where
  "get_all_settings_grouped env tenant =
     sbind (list_all_settings env tenant) (\<lambda>rows. sret (fold group_setting rows []))"

definition get_settings_by_category :: "gw_env \<Rightarrow> pyval \<Rightarrow> string \<Rightarrow> (gw_state, pydict) prog" where
  "get_settings_by_category env tenant category =
     sbind (list_settings_by_category env tenant category) (\<lambda>rows.
       if rows = [] then sraise (not_found ''settings category'' category)
       else sret [(''category'', PStr category),
                  (''settings'', PList (map (\<lambda>r. PDict (mask_sensitive r)) rows))])"

definition setting_change :: "string \<Rightarrow> pyval \<Rightarrow> pydict \<Rightarrow> pydict" where
  "setting_change key new_value old_row =
     (let is_secret = truthy (py_get old_row ''is_secret'')
      in [(''key'', PStr key),
          (''old_value'', if is_secret then masked_value else py_get old_row ''setting_value''),
          (''new_value'', if is_secret then masked_value else PStr (py_str new_value))])"

fun update_each ::
  "gw_env \<Rightarrow> pyval \<Rightarrow> string \<Rightarrow> (pyval, pydict) dict \<Rightarrow> (string \<times> pyval) list
   \<Rightarrow> string list \<Rightarrow> pydict list \<Rightarrow> (gw_state, string list \<times> pydict list) prog" where
  "update_each env tenant category existing [] updated changes = sret (updated, changes)"
| "update_each env tenant category existing ((key, new_value) # rest) updated changes =
     (case dict_get existing (PStr key) of
        None \<Rightarrow> update_each env tenant category existing rest updated changes
      | Some old_row \<Rightarrow>
          sbind (update_setting_value env tenant category key (py_str new_value)) (\<lambda>_.
            update_each env tenant category existing rest (updated @ [key])
              (changes @ [setting_change key new_value old_row])))"

definition update_settings_batch ::
  "gw_env \<Rightarrow> gw_actor \<Rightarrow> string \<Rightarrow> (string \<times> pyval) list \<Rightarrow> pyval \<Rightarrow> (gw_state, pydict) prog" where
  "update_settings_batch env actor category settings_map client_ip =
     (let tenant = PStr (ac_tenant actor)
      in sbind (lookup_settings_for_audit tenant category (map fst settings_map)) (\<lambda>existing.
         sbind (update_each env tenant category existing settings_map [] []) (\<lambda>(updated, changes).
           if updated = [] then sraise (invalid ''No valid settings keys found for this category'')
           else
             sbind (log_audit env actor ''update'' ''system_settings'' PNone
                      [(''category'', PStr category), (''changes'', PList (map PDict changes))] client_ip)
               (\<lambda>_. sret [(''updated'', PList (map PStr updated)), (''category'', PStr category)]))))"

text \<open>\<open>actor.get("username", actor.get("sub"))\<close>.\<close>

definition requester_of :: "gw_actor \<Rightarrow> pyval" where
  "requester_of actor = (case ac_username actor of None \<Rightarrow> PStr (ac_sub actor) | Some u \<Rightarrow> PStr u)"

definition request_service_restart ::
  "gw_env \<Rightarrow> gw_actor \<Rightarrow> string \<Rightarrow> pyval \<Rightarrow> (gw_state, pydict) prog" where
  "request_service_restart env actor service_name client_ip =
     (if service_name \<in> set INFRA_SERVICES
      then sraise (DomainError AuthorizationError (''Cannot restart '' @ service_name @
             '' from Web UI. Use SSH to restart infrastructure services.''))
      else if service_name \<notin> set (dict_keys SERVICE_RESTART_TOPICS)
      then sraise (invalid (''Unknown service: '' @ service_name))
      else
        sbind (publish_service_restart env service_name (requester_of actor)) (\<lambda>_.
        sbind (log_audit env actor ''restart'' ''service'' PNone [(''service'', PStr service_name)] client_ip)
          (\<lambda>_. sret [(''status'', PStr ''restart_requested''), (''service'', PStr service_name),
                     (''message'', PStr (''Restart request sent to '' @ service_name))])))"

section \<open>What is not told\<close>

text \<open>Tables and states that differ in the values of secret settings only.\<close>

definition alike_db :: "gw_db \<Rightarrow> gw_db \<Rightarrow> bool" where
  "alike_db d e \<longleftrightarrow>
     map mask_sensitive (gd_table d ''system_settings'') = map mask_sensitive (gd_table e ''system_settings'')
     \<and> (\<forall>t. t \<noteq> ''system_settings'' \<longrightarrow> gd_table d t = gd_table e t)
     \<and> gd_audit d = gd_audit e \<and> gd_seq d = gd_seq e"

definition alike :: "gw_state \<Rightarrow> gw_state \<Rightarrow> bool" where
  "alike g h \<longleftrightarrow> alike_db (gs_db g) (gs_db h) \<and> alike_db (gs_committed g) (gs_committed h)
     \<and> gs_aborted g = gs_aborted h \<and> gs_published g = gs_published h \<and> gs_files g = gs_files h"

text \<open>Neither the order of a listing nor a constraint looks at the value of a secret setting.\<close>

definition blind_store :: "gw_env \<Rightarrow> bool" where
  "blind_store env \<longleftrightarrow>
     (\<forall>d e. alike_db d e \<longrightarrow> ge_constraint env (gd_table d) = ge_constraint env (gd_table e))
     \<and> (\<forall>key xs ys. map mask_sensitive xs = map mask_sensitive ys \<longrightarrow>
          map mask_sensitive (ge_order env key xs) = map mask_sensitive (ge_order env key ys))"

lemma mask_get:
  "c \<noteq> ''setting_value'' \<Longrightarrow> py_get (mask_sensitive a) c = py_get a c"
  "\<not> truthy (py_get a ''is_secret'') \<Longrightarrow> mask_sensitive a = a"
  by (simp_all add: mask_sensitive_def py_get_def dict_get_or_def)

lemma mask_same:
  assumes "mask_sensitive a = mask_sensitive b"
  shows "c \<noteq> ''setting_value'' \<Longrightarrow> py_get a c = py_get b c"
    and "\<not> truthy (py_get a ''is_secret'') \<Longrightarrow> a = b"
proof -
  show same: "py_get a c = py_get b c" if "c \<noteq> ''setting_value''" for c
    using mask_get(1) [OF that] assms by metis
  show "a = b" if "\<not> truthy (py_get a ''is_secret'')"
    using mask_get(2) [OF that] mask_get(2) [of b] that same [of "''is_secret''"] assms by simp
qed

lemma mask_assign:
  assumes "mask_sensitive a = mask_sensitive b"
  shows "assign ([(''setting_value'', v)] @ rest) a = assign ([(''setting_value'', v)] @ rest) b"
proof (cases "truthy (py_get a ''is_secret'')")
  case True
  with mask_same(1) [OF assms, of "''is_secret''"] have "truthy (py_get b ''is_secret'')" by simp
  with True assms have "dict_set ''setting_value'' masked_value a = dict_set ''setting_value'' masked_value b"
    by (simp add: mask_sensitive_def)
  then have "dict_set ''setting_value'' v a = dict_set ''setting_value'' v b"
    using dict_set_set by metis
  then show ?thesis by (simp add: assign_def)
next
  case False
  then show ?thesis using mask_same(2) [OF assms False] by simp
qed

lemma mask_project:
  assumes "mask_sensitive a = mask_sensitive b" and "''is_secret'' \<in> set cols" and "distinct cols"
  shows "mask_sensitive (project cols a) = mask_sensitive (project cols b)"
proof (cases "truthy (py_get a ''is_secret'')")
  case True
  with mask_same(1) [OF assms(1), of "''is_secret''"] have b: "truthy (py_get b ''is_secret'')" by simp
  have "dict_set ''setting_value'' masked_value (project cs a) = dict_set ''setting_value'' masked_value (project cs b)"
    if "distinct cs" for cs
    using that
  proof (induction cs)
    case (Cons c cs)
    have "project cs a = project cs b" if "''setting_value'' \<notin> set cs" for cs
      unfolding project_def using that by (intro map_cong refl) (metis mask_same(1) [OF assms(1)])
    with Cons show ?case
      using mask_same(1) [OF assms(1), of c] by (cases "c = ''setting_value''") (auto simp: project_def)
  qed (simp add: project_def)
  from this [OF assms(3)] True b assms(2) show ?thesis by (simp add: mask_sensitive_def py_get_project)
next
  case False
  then show ?thesis using mask_same(2) [OF assms(1) False] by simp
qed

lemma mask_filter:
  assumes "map mask_sensitive xs = map mask_sensitive ys"
    and "\<And>a b. mask_sensitive a = mask_sensitive b \<Longrightarrow> P a = P b"
  shows "map mask_sensitive (filter P xs) = map mask_sensitive (filter P ys)"
  using assms(1)
proof (induction xs arbitrary: ys)
  case (Cons x xs)
  then obtain y zs where "ys = y # zs" "mask_sensitive x = mask_sensitive y"
    "map mask_sensitive xs = map mask_sensitive zs" by (cases ys) auto
  with Cons.IH [of zs] assms(2) [of x y] show ?case by simp
qed simp

subsection \<open>Runs on two states\<close>

text \<open>Two programs that, run on states alike, end alike, with related results.\<close>

definition both :: "('a \<Rightarrow> 'a \<Rightarrow> bool) \<Rightarrow> (gw_state, 'a) prog \<Rightarrow> (gw_state, 'a) prog \<Rightarrow> bool" where
  "both R m n \<longleftrightarrow> (\<forall>g h. alike g h \<longrightarrow> alike (snd (m g)) (snd (n h))
     \<and> (case fst (m g) of
          Inl e \<Rightarrow> fst (n h) = Inl e
        | Inr x \<Rightarrow> (\<exists>y. fst (n h) = Inr y \<and> R x y)))"

lemma both_sret: "R x y \<Longrightarrow> both R (sret x) (sret y)"
  by (simp add: both_def)

lemma both_sraise: "both R (sraise e) (sraise e)"
  by (simp add: both_def)

lemma both_sbind:
  assumes "both R m n" and "\<And>x y. R x y \<Longrightarrow> both S (f x) (k y)"
  shows "both S (sbind m f) (sbind n k)"
  unfolding both_def
proof (intro allI impI)
  fix g h assume "alike g h"
  with assms(1) have step: "alike (snd (m g)) (snd (n h))"
    "case fst (m g) of Inl e \<Rightarrow> fst (n h) = Inl e | Inr x \<Rightarrow> (\<exists>y. fst (n h) = Inr y \<and> R x y)"
    by (simp_all add: both_def)
  obtain r g' q h' where run: "m g = (r, g')" "n h = (q, h')" by fastforce
  show "alike (snd (sbind m f g)) (snd (sbind n k h))
    \<and> (case fst (sbind m f g) of Inl e \<Rightarrow> fst (sbind n k h) = Inl e
       | Inr x \<Rightarrow> (\<exists>y. fst (sbind n k h) = Inr y \<and> S x y))"
  proof (cases r)
    case (Inl e)
    with step run show ?thesis by (simp add: sbind_def)
  next
    case (Inr x)
    with step run obtain y where y: "q = Inr y" "R x y" "alike g' h'" by auto
    have runs: "sbind m f g = f x g'" "sbind n k h = k y h'" by (simp_all add: sbind_def run Inr y(1))
    from assms(2) [OF y(2)] y(3) show ?thesis unfolding runs both_def by blast
  qed
qed

lemma both_statement:
  assumes "\<And>d e. alike_db d e \<Longrightarrow>
      (case f d of (Inl err, d') \<Rightarrow> \<exists>e'. k e = (Inl err, e')
       | (Inr x, d') \<Rightarrow> \<exists>y e'. k e = (Inr y, e') \<and> R x y \<and> alike_db d' e')"
  shows "both R (statement f) (statement k)"
  unfolding both_def
proof (intro allI impI)
  fix g h assume alike: "alike g h"
  then have "alike_db (gs_db g) (gs_db h)" by (simp add: alike_def)
  from assms [OF this] alike
  show "alike (snd (statement f g)) (snd (statement k h))
    \<and> (case fst (statement f g) of Inl e \<Rightarrow> fst (statement k h) = Inl e
       | Inr x \<Rightarrow> (\<exists>y. fst (statement k h) = Inr y \<and> R x y))"
    by (cases "f (gs_db g)"; cases "fst (f (gs_db g))") (auto simp: statement_def alike_def)
qed

abbreviation masks_same :: "pydict list \<Rightarrow> pydict list \<Rightarrow> bool" where
  "masks_same xs ys \<equiv> map mask_sensitive xs = map mask_sensitive ys"

lemma both_select:
  assumes "\<And>a b. mask_sensitive a = mask_sensitive b \<Longrightarrow> P a = P b"
  shows "both masks_same (select_rows ''system_settings'' P) (select_rows ''system_settings'' P)"
  unfolding select_rows_def
proof (rule both_statement)
  fix d e assume alike: "alike_db d e"
  then have "masks_same (filter P (gd_table d ''system_settings'')) (filter P (gd_table e ''system_settings''))"
    by (intro mask_filter assms) (simp_all add: alike_db_def)
  with alike show "case (Inr (filter P (gd_table d ''system_settings'')), d) of
      (Inl err, d') \<Rightarrow> \<exists>e'. (Inr (filter P (gd_table e ''system_settings'')), e) = (Inl err, e')
    | (Inr x, d') \<Rightarrow> \<exists>y e'. (Inr (filter P (gd_table e ''system_settings'')), e) = (Inr y, e') \<and> masks_same x y \<and> alike_db d' e'"
    by simp
qed

lemma masks_same_map:
  assumes "masks_same xs ys" and "\<And>a b. mask_sensitive a = mask_sensitive b \<Longrightarrow> mask_sensitive (f a) = mask_sensitive (f b)"
  shows "masks_same (map f xs) (map f ys)"
  using assms(1)
proof (induction xs arbitrary: ys)
  case (Cons x xs)
  then obtain y zs where ys: "ys = y # zs" "mask_sensitive x = mask_sensitive y" "masks_same xs zs"
    by (cases ys) auto
  from Cons.IH [OF ys(3)] assms(2) [OF ys(2)] show ?case unfolding ys(1) list.map by simp
qed simp

lemma both_select_ordered:
  assumes "\<And>a b. mask_sensitive a = mask_sensitive b \<Longrightarrow> P a = P b" and "blind_store env"
  shows "both masks_same (select_ordered env key ''system_settings'' P) (select_ordered env key ''system_settings'' P)"
  unfolding select_ordered_def
proof (rule both_sbind [OF both_select])
  fix xs ys assume "masks_same xs ys"
  then show "both masks_same (sret (ge_order env key xs)) (sret (ge_order env key ys))"
    using assms(2) unfolding blind_store_def by (intro both_sret) blast
qed (rule assms(1))

lemma both_audit: "both (=) (log_audit env actor action rt rid details ip) (log_audit env actor action rt rid details ip)"
  unfolding log_audit_def log_audit_as_def
  by (rule both_statement) (simp add: alike_db_def Let_def split: option.split)

lemma masks_same_project:
  "masks_same xs ys \<Longrightarrow> ''is_secret'' \<in> set cols \<Longrightarrow> distinct cols \<Longrightarrow>
   masks_same (map (project cols) xs) (map (project cols) ys)"
  by (erule masks_same_map) (erule mask_project)

lemma clause_blind:
  assumes "mask_sensitive a = mask_sensitive b"
  shows "setting_tenant_clause tenant a = setting_tenant_clause tenant b"
    and "''setting_value'' \<notin> fst ` set conds \<Longrightarrow> where_eq conds a = where_eq conds b"
proof -
  have same: "py_get a c = py_get b c" if "c \<noteq> ''setting_value''" for c
    using mask_same(1) [OF assms that] .
  show "setting_tenant_clause tenant a = setting_tenant_clause tenant b"
    using same [of "''tenant_id''"] by (simp add: setting_tenant_clause_def)
  show "where_eq conds a = where_eq conds b" if "''setting_value'' \<notin> fst ` set conds"
    using that
  proof (induction conds)
    case (Cons p conds)
    then show ?case using same [of "fst p"] by (cases p) (auto simp: where_eq_def)
  qed (simp add: where_eq_def)
qed

lemma both_update:
  assumes "\<And>a b. mask_sensitive a = mask_sensitive b \<Longrightarrow> P a = P b" and "blind_store env"
  shows "both (\<lambda>_ _. True)
    (update_rows env ''system_settings'' P ([(''setting_value'', v)] @ rest))
    (update_rows env ''system_settings'' P ([(''setting_value'', v)] @ rest))"
  unfolding update_rows_def
proof (rule both_statement)
  fix d e assume alike: "alike_db d e"
  let ?sets = "[(''setting_value'', v)] @ rest"
  let ?up = "\<lambda>d. put_table ''system_settings''
    (map (\<lambda>r. if P r then assign ?sets r else r) (gd_table d ''system_settings'')) d"
  have each: "mask_sensitive (if P a then assign ?sets a else a) = mask_sensitive (if P b then assign ?sets b else b)"
    if "mask_sensitive a = mask_sensitive b" for a b
  proof (cases "P a")
    case True
    then show ?thesis using mask_assign [OF that] assms(1) [OF that] by presburger
  next
    case False
    then show ?thesis using that assms(1) [OF that] by presburger
  qed
  from alike have tables: "masks_same (gd_table d ''system_settings'') (gd_table e ''system_settings'')"
    by (simp add: alike_db_def)
  have "masks_same (gd_table (?up d) ''system_settings'') (gd_table (?up e) ''system_settings'')"
    unfolding put_table_simps fun_upd_same
    by (rule masks_same_map [where f = "\<lambda>r. if P r then assign ?sets r else r", OF tables]) (rule each)
  with alike have up: "alike_db (?up d) (?up e)" unfolding alike_db_def by (simp add: put_table_def)
  with assms(2) have "ge_constraint env (gd_table (?up d)) = ge_constraint env (gd_table (?up e))"
    unfolding blind_store_def by blast
  with up show "case checked env (map (assign ?sets) (filter P (gd_table d ''system_settings''))) (?up d) of
      (Inl err, d') \<Rightarrow> \<exists>e'. checked env (map (assign ?sets) (filter P (gd_table e ''system_settings''))) (?up e) = (Inl err, e')
    | (Inr x, d') \<Rightarrow> \<exists>y e'. checked env (map (assign ?sets) (filter P (gd_table e ''system_settings''))) (?up e) = (Inr y, e')
        \<and> True \<and> alike_db d' e'"
    by (auto simp: checked_def split: option.split)
qed

subsection \<open>The operations\<close>

lemma both_list_all:
  "blind_store env \<Longrightarrow> both masks_same (list_all_settings env tenant) (list_all_settings env tenant)"
  unfolding list_all_settings_def
  by (intro both_sbind [OF both_select_ordered] both_sret masks_same_project)
    (erule clause_blind(1) | assumption | simp add: setting_columns_def)+

lemma category_clause_blind:
  assumes "mask_sensitive a = mask_sensitive b"
  shows "(where_eq [(''category'', PStr category)] a \<and> setting_tenant_clause tenant a)
    = (where_eq [(''category'', PStr category)] b \<and> setting_tenant_clause tenant b)"
proof -
  have "where_eq [(''category'', PStr category)] a = where_eq [(''category'', PStr category)] b"
    by (rule clause_blind(2) [OF assms]) simp
  then show ?thesis using clause_blind(1) [OF assms] by simp
qed

lemma both_list_category:
  "blind_store env \<Longrightarrow>
   both masks_same (list_settings_by_category env tenant category) (list_settings_by_category env tenant category)"
  unfolding list_settings_by_category_def
  by (intro both_sbind [OF both_select_ordered] both_sret masks_same_project)
    (erule category_clause_blind | assumption | simp add: setting_columns_def)+

lemma group_same: "masks_same xs ys \<Longrightarrow> fold group_setting xs cats = fold group_setting ys cats"
proof (induction xs arbitrary: ys cats)
  case (Cons x xs)
  then obtain y zs where ys: "ys = y # zs" "mask_sensitive x = mask_sensitive y" "masks_same xs zs"
    by (cases ys) auto
  from ys(2) have "group_setting x = group_setting y" by (simp add: group_setting_def fun_eq_iff)
  with Cons.IH [OF ys(3)] ys(1) show ?case by simp
qed simp

lemma both_grouped:
  "blind_store env \<Longrightarrow> both (=) (get_all_settings_grouped env tenant) (get_all_settings_grouped env tenant)"
  unfolding get_all_settings_grouped_def
  by (intro both_sbind [OF both_list_all] both_sret group_same)

lemma both_by_category:
  "blind_store env \<Longrightarrow>
   both (=) (get_settings_by_category env tenant category) (get_settings_by_category env tenant category)"
  unfolding get_settings_by_category_def
proof (intro both_sbind [OF both_list_category])
  fix xs ys assume same: "masks_same xs ys"
  have "map (\<lambda>r. PDict (mask_sensitive r)) xs = map (\<lambda>r. PDict (mask_sensitive r)) ys"
    using arg_cong [OF same, of "map PDict"] unfolding map_map comp_def by (rule asm_rl)
  with same show "both (=)
      (if xs = [] then sraise (not_found ''settings category'' category)
       else sret [(''category'', PStr category), (''settings'', PList (map (\<lambda>r. PDict (mask_sensitive r)) xs))])
      (if ys = [] then sraise (not_found ''settings category'' category)
       else sret [(''category'', PStr category), (''settings'', PList (map (\<lambda>r. PDict (mask_sensitive r)) ys))])"
    by (auto intro: both_sret both_sraise)
qed

text \<open>The rows an update looks at: the same keys, with rows that are masked alike.\<close>

definition same_existing :: "(pyval, pydict) dict \<Rightarrow> (pyval, pydict) dict \<Rightarrow> bool" where
  "same_existing xs ys \<longleftrightarrow> map (\<lambda>(k, r). (k, mask_sensitive r)) xs = map (\<lambda>(k, r). (k, mask_sensitive r)) ys"

lemma same_existing_get:
  assumes "same_existing xs ys"
  shows "dict_get xs k = None \<and> dict_get ys k = None
    \<or> (\<exists>a b. dict_get xs k = Some a \<and> dict_get ys k = Some b \<and> mask_sensitive a = mask_sensitive b)"
proof -
  have masked: "map_option mask_sensitive (dict_get zs k) = dict_get (map (\<lambda>(k, r). (k, mask_sensitive r)) zs) k" for zs
    by (induction zs) auto
  have "map_option mask_sensitive (dict_get xs k) = map_option mask_sensitive (dict_get ys k)"
    unfolding masked using assms by (simp add: same_existing_def)
  then show ?thesis by (cases "dict_get xs k"; cases "dict_get ys k") auto
qed

lemma same_existing_set:
  assumes "same_existing xs ys" and "mask_sensitive a = mask_sensitive b"
  shows "same_existing (dict_set k a xs) (dict_set k b ys)"
proof -
  have masked: "map (\<lambda>(k, r). (k, mask_sensitive r)) (dict_set k c zs)
      = dict_set k (mask_sensitive c) (map (\<lambda>(k, r). (k, mask_sensitive r)) zs)" for c zs
    by (induction zs) auto
  show ?thesis using assms unfolding same_existing_def masked by presburger
qed

lemma same_existing_keyed:
  assumes "masks_same xs ys" and "c \<noteq> ''setting_value''"
  shows "same_existing (keyed_by c xs) (keyed_by c ys)"
proof -
  have "same_existing (fold (\<lambda>r d. dict_set (py_get r c) r d) xs d) (fold (\<lambda>r d. dict_set (py_get r c) r d) ys e)"
    if "masks_same xs ys" and "same_existing d e" for d e
    using that
  proof (induction xs arbitrary: ys d e)
    case (Cons x xs)
    then obtain y zs where ys: "ys = y # zs" "mask_sensitive x = mask_sensitive y" "masks_same xs zs"
      by (cases ys) auto
    have "py_get x c = py_get y c" by (rule mask_same(1) [OF ys(2) assms(2)])
    with Cons.IH [OF ys(3) same_existing_set [OF Cons.prems(2) ys(2)]] show ?case unfolding ys(1) by simp
  qed simp
  from this [OF assms(1)] show ?thesis by (simp add: keyed_by_def same_existing_def)
qed

lemma change_same:
  assumes "mask_sensitive a = mask_sensitive b"
  shows "setting_change key v a = setting_change key v b"
proof (cases "truthy (py_get a ''is_secret'')")
  case True
  moreover have "py_get a ''is_secret'' = py_get b ''is_secret''" by (rule mask_same(1) [OF assms]) simp
  ultimately show ?thesis by (simp add: setting_change_def Let_def)
qed (use mask_same(2) [OF assms] in simp)

lemma both_update_value:
  assumes "blind_store env"
  shows "both (=) (update_setting_value env tenant category key v) (update_setting_value env tenant category key v)"
proof -
  let ?P = "\<lambda>r. where_eq [(''category'', PStr category), (''setting_key'', PStr key)] r
    \<and> setting_tenant_clause tenant r"
  have P: "?P a = ?P b" if "mask_sensitive a = mask_sensitive b" for a b
  proof -
    have "where_eq [(''category'', PStr category), (''setting_key'', PStr key)] a
        = where_eq [(''category'', PStr category), (''setting_key'', PStr key)] b"
      by (rule clause_blind(2) [OF that]) simp
    then show ?thesis using clause_blind(1) [OF that, of tenant] by presburger
  qed
  show ?thesis
    unfolding update_setting_value_def
    by (rule both_sbind [OF both_update [where P = ?P, OF P assms]]) (assumption, rule both_sret, rule refl)
qed

lemma both_update_each:
  assumes "blind_store env" and "same_existing xs ys"
  shows "both (=) (update_each env tenant category xs kvs updated changes)
    (update_each env tenant category ys kvs updated changes)"
proof (induction kvs arbitrary: updated changes)
  case Nil
  show ?case unfolding update_each.simps by (rule both_sret) (rule refl)
next
  case (Cons kv kvs)
  obtain key v where kv: "kv = (key, v)" by (cases kv)
  from same_existing_get [OF assms(2), of "PStr key"] show ?case
  proof (elim disjE exE conjE)
    assume "dict_get xs (PStr key) = None" "dict_get ys (PStr key) = None"
    with Cons.IH show ?thesis by (simp add: kv)
  next
    fix a b
    assume rows: "dict_get xs (PStr key) = Some a" "dict_get ys (PStr key) = Some b"
      and "mask_sensitive a = mask_sensitive b"
    from change_same [OF this(3)] have "setting_change key v a = setting_change key v b" .
    then show ?thesis
      unfolding kv update_each.simps rows option.case
      by (intro both_sbind [OF both_update_value [OF assms(1)]]) (simp add: Cons.IH)
  qed
qed

lemma both_batch:
  assumes "blind_store env"
  shows "both (=) (update_settings_batch env actor category kvs ip) (update_settings_batch env actor category kvs ip)"
proof -
  let ?P = "\<lambda>r. where_eq [(''category'', PStr category)] r
    \<and> py_get r ''setting_key'' \<in> PStr ` set (map fst kvs) \<and> setting_tenant_clause (PStr (ac_tenant actor)) r"
  have P: "?P a = ?P b" if "mask_sensitive a = mask_sensitive b" for a b
  proof -
    have "py_get a ''setting_key'' = py_get b ''setting_key''" by (rule mask_same(1) [OF that]) simp
    then show ?thesis using category_clause_blind [OF that] by metis
  qed
  have found: "both same_existing
      (lookup_settings_for_audit (PStr (ac_tenant actor)) category (map fst kvs))
      (lookup_settings_for_audit (PStr (ac_tenant actor)) category (map fst kvs))"
    unfolding lookup_settings_for_audit_def
  proof (rule both_sbind [OF both_select])
    fix xs ys assume same: "masks_same xs ys"
    show "both same_existing
        (sret (keyed_by ''setting_key'' (map (project [''setting_key'', ''setting_value'', ''is_secret'']) xs)))
        (sret (keyed_by ''setting_key'' (map (project [''setting_key'', ''setting_value'', ''is_secret'']) ys)))"
      by (intro both_sret same_existing_keyed masks_same_project [OF same]) simp_all
  qed (rule P)
  have rest: "both (=) (case r of (updated, changes) \<Rightarrow> f updated changes) (case q of (updated, changes) \<Rightarrow> f updated changes)"
    if "r = q" "\<And>updated changes. both (=) (f updated changes) (f updated changes)" for r q f
    using that by (cases q) simp
  show ?thesis
    unfolding update_settings_batch_def Let_def
    by (rule both_sbind [OF found], rule both_sbind [OF both_update_each [OF assms]], assumption)
      (rule rest, assumption, auto intro!: both_sraise both_sbind [OF both_audit] both_sret)
qed

lemma both_in_request:
  assumes "both (=) m m" and "alike g h"
  shows "fst (in_request m g) = fst (in_request m h) \<and> alike (snd (in_request m g)) (snd (in_request m h))"
proof -
  obtain r g' q h' where run: "m g = (r, g')" "m h = (q, h')" by fastforce
  from assms have "alike (snd (m g)) (snd (m h)) \<and>
      (case fst (m g) of Inl e \<Rightarrow> fst (m h) = Inl e | Inr x \<Rightarrow> \<exists>y. fst (m h) = Inr y \<and> x = y)"
    unfolding both_def by blast
  then have "alike g' h'" "r = q" unfolding run by (cases r; simp)+
  then show ?thesis
    by (cases r) (auto simp: in_request_def run rollback_def commit_def alike_def)
qed


definition ex_settings :: "string \<Rightarrow> gw_state" where
  "ex_settings secret =
     (let d = \<lparr>gd_table = (\<lambda>t. [])(''system_settings'' :=
            [[(''category'', PStr ''mail''), (''setting_key'', PStr ''host''), (''setting_value'', PStr ''a''),
              (''is_secret'', PBool False), (''tenant_id'', PNone)],
             [(''category'', PStr ''mail''), (''setting_key'', PStr ''password''), (''setting_value'', PStr secret),
              (''is_secret'', PBool True), (''tenant_id'', PStr ''t1'')]]), gd_audit = [], gd_seq = 0\<rparr>
      in ex_gw_state\<lparr>gs_db := d, gs_committed := d\<rparr>)"

definition open_env :: gw_env where
  "open_env = ex_gw_env\<lparr>ge_constraint := \<lambda>tables. None\<rparr>"

lemma open_env_blind: "blind_store open_env"
  by (simp add: blind_store_def open_env_def ex_gw_env_def)


end
