(* ===== verification/Audit_Log.thy ===== *)
theory Audit_Log
  imports Coa_Gateway Devices "HOL-Library.Multiset"
begin

text \<open>
  The audit log of the gateway: repository and service of \<open>services/gateway/features/audit\<close>. An
  entry is read as the dictionary \<open>audit_dict\<close> of its position, with the time it was
  written at, \<open>written n\<close> for the entry number \<open>n\<close>; \<open>details_text\<close> is PostgreSQL's text of the
  details.
\<close>

section \<open>Repository\<close>

text \<open>The entries with the name of their user: \<open>LEFT JOIN users u ON a.user_id = u.id\<close>.\<close>

definition timed_entries :: "(nat \<Rightarrow> int) \<Rightarrow> gw_db \<Rightarrow> pydict list" where
  "timed_entries written d =
     map (\<lambda>n. dict_set ''timestamp'' (PInt (written n)) (audit_dict n (gd_audit d ! n))) [0..<length (gd_audit d)]"

definition LIST_COLS :: "string list" where
  "LIST_COLS = [''id'', ''timestamp'', ''user_id'', ''username'', ''action'', ''resource_type'', ''resource_id'',
     ''details'', ''ip_address'']"

definition with_username :: "gw_db \<Rightarrow> pydict \<Rightarrow> pydict" where
  "with_username d a = a @ [(''username'', audit_username d a)]"

definition lookup_audit_log ::
  "(nat \<Rightarrow> int) \<Rightarrow> pyval \<Rightarrow> int \<Rightarrow> (gw_state, pydict option) prog" where
  "lookup_audit_log written tenant log_id =
     statement (\<lambda>d. (Inr (map_option (\<lambda>a. project (LIST_COLS @ [''tenant_id'']) (with_username d a))
       (first_row (filter (\<lambda>a. py_get a ''id'' = PInt log_id \<and> audit_tenant_clause tenant a)
          (timed_entries written d)))), d))"

text \<open>The filters of a listing, as the service hands them over.\<close>

record audit_filters =
  af_user_id :: pyval
  af_action :: pyval
  af_resource_type :: pyval
  af_search :: pyval
  af_since :: "int option"
  af_start_time :: "int option"
  af_end_time :: "int option"

definition at_least :: "int option \<Rightarrow> pydict \<Rightarrow> bool" where
  "at_least b a = (case b of None \<Rightarrow> True | Some t \<Rightarrow> (case py_get a ''timestamp'' of PInt n \<Rightarrow> t \<le> n | _ \<Rightarrow> False))"

definition at_most :: "int option \<Rightarrow> pydict \<Rightarrow> bool" where
  "at_most b a = (case b of None \<Rightarrow> True | Some t \<Rightarrow> (case py_get a ''timestamp'' of PInt n \<Rightarrow> n \<le> t | _ \<Rightarrow> False))"

definition audit_filter :: "(pyval \<Rightarrow> string) \<Rightarrow> pyval \<Rightarrow> audit_filters \<Rightarrow> pydict \<Rightarrow> bool" where
  "audit_filter details_text tenant f a \<longleftrightarrow>
     audit_tenant_clause tenant a
     \<and> (if af_since f \<noteq> None then at_least (af_since f) a
        else at_least (af_start_time f) a \<and> at_most (af_end_time f) a)
     \<and> where_eq (if_given ''user_id'' (if af_user_id f = PNone then PNone else PStr (py_str (af_user_id f)))
                 @ if_truthy ''action'' (af_action f) @ if_truthy ''resource_type'' (af_resource_type f)) a
     \<and> (truthy (af_search f) \<longrightarrow>
          sql_ilike (''%'' @ py_str (af_search f) @ ''%'') (details_text (py_get a ''details'')))"

definition count_audit_logs ::
  "(nat \<Rightarrow> int) \<Rightarrow> (pyval \<Rightarrow> string) \<Rightarrow> pyval \<Rightarrow> audit_filters \<Rightarrow> (gw_state, int) prog" where
  "count_audit_logs written details_text tenant f =
     statement (\<lambda>d. (Inr (int (length (filter (audit_filter details_text tenant f) (timed_entries written d)))), d))"

definition repo_list_audit_logs ::
  "gw_env \<Rightarrow> (nat \<Rightarrow> int) \<Rightarrow> (pyval \<Rightarrow> string) \<Rightarrow> pyval \<Rightarrow> audit_filters \<Rightarrow> int \<Rightarrow> int
   \<Rightarrow> (gw_state, pydict list) prog" where
  "repo_list_audit_logs env written details_text tenant f limit offset =
     statement (\<lambda>d. (Inr (map (\<lambda>a. project LIST_COLS (with_username d a))
       (take (nat limit) (drop (nat offset) (ge_order env ''timestamp DESC''
         (filter (audit_filter details_text tenant f) (timed_entries written d)))))), d))"

definition EXPORT_HARD_LIMIT :: nat where "EXPORT_HARD_LIMIT = 10000"

definition list_audit_logs_for_export ::
  "gw_env \<Rightarrow> (nat \<Rightarrow> int) \<Rightarrow> pyval \<Rightarrow> int \<Rightarrow> int \<Rightarrow> pyval \<Rightarrow> pyval \<Rightarrow> (gw_state, pydict list) prog" where
  "list_audit_logs_for_export env written tenant start_time end_time action resource_type =
     statement (\<lambda>d. (Inr (map (\<lambda>a. project LIST_COLS (with_username d a))
       (take EXPORT_HARD_LIMIT (ge_order env ''timestamp DESC''
         (filter (\<lambda>a. at_least (Some start_time) a \<and> at_most (Some end_time) a \<and> audit_tenant_clause tenant a
                    \<and> where_eq (if_truthy ''action'' action @ if_truthy ''resource_type'' resource_type) a)
            (timed_entries written d))))), d))"

section \<open>Service\<close>

definition get_audit_log :: "(nat \<Rightarrow> int) \<Rightarrow> pyval \<Rightarrow> int \<Rightarrow> (gw_state, pydict) prog" where
  "get_audit_log written tenant log_id =
     sbind (lookup_audit_log written tenant log_id) (\<lambda>row.
       case row of None \<Rightarrow> sraise (not_found ''Audit log entry'' (show_int log_id)) | Some r \<Rightarrow> sret r)"

text \<open>\<open>last_hours\<close> takes precedence over the two ends; times are in seconds.\<close>

definition build_filters ::
  "gw_env \<Rightarrow> pyval \<Rightarrow> pyval \<Rightarrow> pyval \<Rightarrow> pyval \<Rightarrow> int option \<Rightarrow> int option \<Rightarrow> int option \<Rightarrow> audit_filters" where
  "build_filters env user_id action resource_type search start_time end_time last_hours =
     (if last_hours \<noteq> None \<and> last_hours \<noteq> Some 0
      then \<lparr>af_user_id = user_id, af_action = action, af_resource_type = resource_type, af_search = search,
             af_since = Some (ge_now env - 3600 * the last_hours), af_start_time = None, af_end_time = None\<rparr>
      else \<lparr>af_user_id = user_id, af_action = action, af_resource_type = resource_type, af_search = search,
             af_since = None, af_start_time = start_time, af_end_time = end_time\<rparr>)"

definition list_audit_logs ::
  "gw_env \<Rightarrow> (nat \<Rightarrow> int) \<Rightarrow> (pyval \<Rightarrow> string) \<Rightarrow> pyval \<Rightarrow> pyval \<Rightarrow> pyval \<Rightarrow> pyval \<Rightarrow> pyval
   \<Rightarrow> int option \<Rightarrow> int option \<Rightarrow> int option \<Rightarrow> int \<Rightarrow> int \<Rightarrow> (gw_state, pydict) prog" where
  "list_audit_logs env written details_text tenant user_id action resource_type search start_time end_time
     last_hours page page_size =
     (let f = build_filters env user_id action resource_type search start_time end_time last_hours
      in sbind (count_audit_logs written details_text tenant f) (\<lambda>n.
         sbind (repo_list_audit_logs env written details_text tenant f page_size ((page - 1) * page_size))
           (\<lambda>rows. sret (page_dict rows n page page_size))))"

definition fetch_audit_logs_for_export ::
  "gw_env \<Rightarrow> (nat \<Rightarrow> int) \<Rightarrow> pyval \<Rightarrow> int \<Rightarrow> int \<Rightarrow> pyval \<Rightarrow> pyval \<Rightarrow> (gw_state, pydict list) prog" where
  "fetch_audit_logs_for_export = list_audit_logs_for_export"

section \<open>Pages\<close>

lemma pages_tile:
  assumes "0 < k"
  shows "concat (map (\<lambda>i. take k (drop (i * k) xs)) [0..<m]) = take (m * k) xs"
proof (induction m)
  case (Suc m)
  have "take (k + m * k) xs = take (m * k) xs @ take k (drop (m * k) xs)"
    by (metis add.commute take_add)
  with Suc show ?case by (simp add: add.commute)
qed simp

definition page_items :: "pydict result \<Rightarrow> pyval list" where
  "page_items r = (case r of Inr d \<Rightarrow> (case py_get d ''items'' of PList xs \<Rightarrow> xs | _ \<Rightarrow> []) | Inl e \<Rightarrow> [])"

text \<open>
  The pages of the audit log lose and repeat nothing. As long as the log does not change, the pages
  one to the last, as many as the total and the size of a page say, put one after the other are the
  whole selection in the order of the database: every entry of the tenant, or of no tenant, that
  passes the filters, once.
\<close>

theorem audit_pages_complete:
  assumes "\<not> gs_aborted g" and "0 < page_size"
    and "\<forall>xs. mset (ge_order env ''timestamp DESC'' xs) = mset xs"
  shows "let page = (\<lambda>p. fst (list_audit_logs env written details_text tenant user_id action resource_type search
          start_time end_time last_hours p page_size g));
        f = build_filters env user_id action resource_type search start_time end_time last_hours
      in \<exists>n rows. mset rows = mset (filter (audit_filter details_text tenant f) (timed_entries written (gs_db g)))
        \<and> (\<forall>p. \<exists>d. page p = Inr d \<and> py_get d ''total'' = PInt n)
        \<and> concat (map (\<lambda>i. page_items (page (int i + 1))) [0..<nat (page_count n page_size)])
            = map (\<lambda>a. PDict (project LIST_COLS (with_username (gs_db g) a))) rows"
proof -
  define f where "f = build_filters env user_id action resource_type search start_time end_time last_hours"
  let ?sel = "filter (audit_filter details_text tenant f) (timed_entries written (gs_db g))"
  let ?rows = "ge_order env ''timestamp DESC'' ?sel"
  let ?row = "\<lambda>a. project LIST_COLS (with_username (gs_db g) a)"
  let ?page = "\<lambda>p. fst (list_audit_logs env written details_text tenant user_id action resource_type search
          start_time end_time last_hours p page_size g)"
  define k where "k = nat page_size"
  have k: "page_size = int k" "0 < k" using assms(2) by (simp_all add: k_def)
  have len: "length ?rows = length ?sel" using assms(3) by (metis size_mset)
  have page: "?page p = Inr (page_dict (map ?row (take (nat page_size) (drop (nat ((p - 1) * page_size)) ?rows)))
      (int (length ?sel)) p page_size)" for p
    using assms(1) unfolding list_audit_logs_def Let_def f_def [symmetric]
    by (simp add: count_audit_logs_def repo_list_audit_logs_def sbind_def statement_def)
  have items: "page_items (?page (int i + 1)) = map (\<lambda>a. PDict (?row a)) (take k (drop (i * k) ?rows))" for i
    unfolding page
    by (simp add: page_items_def page_dict_def py_get_def dict_get_or_def k(1) nat_mult_distrib comp_def
        del: of_nat_mult flip: of_nat_mult)
  let ?m = "nat (page_count (int (length ?sel)) page_size)"
  have "int (length ?sel) \<le> page_count (int (length ?sel)) page_size * page_size"
    using page_count_covers [OF assms(2), of "int (length ?sel)"] by (auto simp: page_count_def)
  also have "\<dots> \<le> int (?m * k)" by (simp add: k(1) mult_right_mono)
  finally have "length ?rows \<le> ?m * k" unfolding len by (simp only: of_nat_le_iff)
  with pages_tile [OF k(2), where xs = ?rows and m = ?m]
  have tiled: "concat (map (\<lambda>i. take k (drop (i * k) ?rows)) [0..<?m]) = ?rows" by simp
  have "concat (map (\<lambda>i. page_items (?page (int i + 1))) [0..<?m]) = map (\<lambda>a. PDict (?row a)) ?rows"
    unfolding items by (subst tiled [symmetric]) (simp add: map_concat comp_def)
  then show ?thesis
    unfolding Let_def f_def [symmetric]
    using assms(3) page by (intro exI [of _ "int (length ?sel)"] exI [of _ ?rows])
      (simp add: page_dict_def py_get_def dict_get_or_def)
qed

definition ex_log :: gw_state where
  "ex_log = (let e = (\<lambda>tenant. \<lparr>au_user_id = PStr ''u1'', au_action = ''create'', au_resource_type = ''vlan'',
       au_resource_id = PNone, au_details = [], au_ip_address = PNone, au_tenant_id = tenant\<rparr>);
     d = \<lparr>gd_table = (\<lambda>t. []), gd_audit = [e (PStr ''t1''), e PNone, e (PStr ''t2''), e (PStr ''t1'')], gd_seq = 0\<rparr>
   in ex_gw_state\<lparr>gs_db := d, gs_committed := d\<rparr>)"

theorem audit_pages_complete_witness:
  "\<exists>n rows. mset rows = mset (filter (audit_filter (\<lambda>v. []) (PStr ''t1'')
        (build_filters ex_gw_env PNone PNone PNone PNone None None None)) (timed_entries int (gs_db ex_log)))
     \<and> length rows = 3
     \<and> concat (map (\<lambda>i. page_items (fst (list_audit_logs ex_gw_env int (\<lambda>v. []) (PStr ''t1'') PNone PNone PNone PNone
          None None None (int i + 1) 2 ex_log))) [0..<nat (page_count n 2)])
        = map (\<lambda>a. PDict (project LIST_COLS (with_username (gs_db ex_log) a))) rows"
proof -
  have "\<not> gs_aborted ex_log" "\<forall>xs. mset (ge_order ex_gw_env ''timestamp DESC'' xs) = mset xs"
    by (simp_all add: ex_log_def ex_gw_state_def ex_gw_env_def Let_def)
  from audit_pages_complete [where page_size = 2 and env = ex_gw_env and g = ex_log and written = int and user_id = PNone
      and action = PNone and resource_type = PNone and search = PNone and start_time = None and end_time = None
      and last_hours = None and details_text = "\<lambda>v. []" and tenant = "PStr ''t1''", OF this(1) _ this(2)]
  obtain n rows where
    sel: "mset rows = mset (filter (audit_filter (\<lambda>v. []) (PStr ''t1'')
        (build_filters ex_gw_env PNone PNone PNone PNone None None None)) (timed_entries int (gs_db ex_log)))"
    and pages: "concat (map (\<lambda>i. page_items (fst (list_audit_logs ex_gw_env int (\<lambda>v. []) (PStr ''t1'') PNone PNone PNone PNone
          None None None (int i + 1) 2 ex_log))) [0..<nat (page_count n 2)])
        = map (\<lambda>a. PDict (project LIST_COLS (with_username (gs_db ex_log) a))) rows"
    unfolding Let_def by auto
  have "length (filter (audit_filter (\<lambda>v. []) (PStr ''t1'')
        (build_filters ex_gw_env PNone PNone PNone PNone None None None)) (timed_entries int (gs_db ex_log))) = 3"
    by code_simp
  with sel have "length rows = 3" by (metis size_mset)
  with sel pages show ?thesis by blast
qed

end
