(* ===== verification/Discovery.thy ===== *)
theory Discovery
  imports Service_World
begin

text \<open>
  Network discovery: \<open>services/discovery\<close>. The fingerprinter (\<open>fingerprinter.py\<close>) classifies a
  device by its vendor, ports and services; the passive monitor (\<open>passive_monitor.py\<close>) reports who
  is heard in ARP and DHCP packets, not more than once a minute; the active scanner
  (\<open>active_scanner.py\<close>) reports what ARP, nmap and SNMP answer. What scapy, nmap, the XML parser and
  the SNMP library deliver is given: packets, a process outcome, a tree, a list of answers.
\<close>

section \<open>Fingerprints\<close>

record device_pattern =
  dp_ports :: "int list"
  dp_services :: "string list"
  dp_oui_vendors :: "string list"

definition DEVICE_PATTERNS :: "(string, device_pattern) dict" where
  "DEVICE_PATTERNS =
     [(''printer'', \<lparr>dp_ports = [9100, 515, 631], dp_services = [''ipp'', ''printer'', ''jetdirect''],
         dp_oui_vendors = [''HP'', ''Hewlett'', ''Canon'', ''Epson'', ''Brother'', ''Xerox'', ''Ricoh'', ''Lexmark'']\<rparr>),
      (''ip_phone'', \<lparr>dp_ports = [5060, 5061], dp_services = [''sip''],
         dp_oui_vendors = [''Cisco'', ''Polycom'', ''Yealink'', ''Avaya'', ''Grandstream'']\<rparr>),
      (''ip_camera'', \<lparr>dp_ports = [554, 8554], dp_services = [''rtsp''],
         dp_oui_vendors = [''Hikvision'', ''Dahua'', ''Axis'', ''Hanwha'', ''Bosch'']\<rparr>),
      (''access_point'', \<lparr>dp_ports = [], dp_services = [],
         dp_oui_vendors = [''Ubiquiti'', ''Ruckus'', ''Aruba'', ''Meraki'']\<rparr>),
      (''iot'', \<lparr>dp_ports = [], dp_services = [],
         dp_oui_vendors = [''Espressif'', ''Tuya'', ''Shenzhen'', ''Xiaomi'']\<rparr>)]"

text \<open>\<open>line.split(sep)\<close> when it has two parts: one occurrence of the separator.\<close>

fun cut_at :: "string \<Rightarrow> string \<Rightarrow> (string \<times> string) option" where
  "cut_at sep [] = None"
| "cut_at sep (c # s) =
     (if prefix sep (c # s) then Some ([], drop (length sep) (c # s))
      else map_option (\<lambda>(a, b). (c # a, b)) (cut_at sep s))"

definition load_oui_line :: "string \<Rightarrow> (string, string) dict \<Rightarrow> (string, string) dict" where
  "load_oui_line line db =
     (case cut_at ''(hex)'' line of
        None \<Rightarrow> db
      | Some (a, b) \<Rightarrow>
          if py_in ''(hex)'' b then db
          else dict_set (py_lower (replace_char CHR ''-'' CHR '':'' (py_strip a))) (py_strip b) db)"

definition load_oui_db :: "string list \<Rightarrow> (string, string) dict" where
  "load_oui_db lines = fold load_oui_line lines []"

definition lookup_vendor :: "(string, string) dict \<Rightarrow> string \<Rightarrow> string option" where
  "lookup_vendor db mac = dict_get db (py_lower (take 8 mac))"

text \<open>
  The loop over the services: \<open>open_ports.add\<close> raises for what cannot be hashed, \<open>lower\<close> for a
  name that is no string. A set is a list here; only membership is asked.
\<close>

fun service_sets :: "pydict list \<Rightarrow> pyval list \<times> string list \<Rightarrow> (pyval list \<times> string list) result" where
  "service_sets [] acc = Inr acc"
| "service_sets (svc # svcs) (ports, names) =
     (let port = dict_get_or svc ''port'' (PInt 0)
      in if \<not> hashable port then Inl (TypeError ''unhashable type'')
         else if truthy (py_get svc ''service'')
         then rbind (lower_of (py_get svc ''service'')) (\<lambda>name. service_sets svcs (ports @ [port], names @ [name]))
         else service_sets svcs (ports @ [port], names))"

definition pattern_score :: "string \<Rightarrow> pyval list \<Rightarrow> string list \<Rightarrow> device_pattern \<Rightarrow> nat" where
  "pattern_score vendor ports names pat =
     (if vendor \<noteq> [] \<and> list_ex (\<lambda>v. py_in (py_lower v) (py_lower vendor)) (dp_oui_vendors pat) then 3 else 0)
     + length (filter (\<lambda>p. py_mem (PInt p) ports) (dp_ports pat)) * 2
     + length (filter (\<lambda>s. s \<in> set names) (dp_services pat)) * 2"

text \<open>The best of the patterns, the first of those with the same score.\<close>

definition best_pattern ::
  "string \<Rightarrow> pyval list \<Rightarrow> string list \<Rightarrow> (string, device_pattern) dict \<Rightarrow> string option \<times> nat" where
  "best_pattern vendor ports names patterns =
     fold (\<lambda>(dev_type, pat) (best_match, best_score).
             let score = pattern_score vendor ports names pat
             in if best_score < score then (Some dev_type, score) else (best_match, best_score))
       patterns (None, 0)"

text \<open>The answer; the confidence in tenths, as the code divides a score by ten.\<close>

record device_class =
  dc_device_type :: string
  dc_os_family :: "string option"
  dc_tenths :: nat

definition os_hint :: "pyval list \<Rightarrow> string list \<Rightarrow> string option" where
  "os_hint ports names =
     (if ''microsoft-ds'' \<in> set names \<or> py_mem (PInt 445) ports then Some ''windows''
      else if ''ssh'' \<in> set names \<and> py_mem (PInt 22) ports
      then (if py_mem (PInt 548) ports then Some ''macos'' else Some ''linux'')
      else None)"

definition classify_device ::
  "(string, string) dict \<Rightarrow> string \<Rightarrow> string option \<Rightarrow> pydict list \<Rightarrow> device_class result" where
  "classify_device db mac vendor services =
     (let name = (case vendor of Some (c # cs) \<Rightarrow> c # cs | _ \<Rightarrow> (case lookup_vendor db mac of Some v \<Rightarrow> v | None \<Rightarrow> []))
      in rbind (service_sets services ([], [])) (\<lambda>(ports, names).
         let (best_match, best_score) = best_pattern name ports names DEVICE_PATTERNS;
             (device_type, tenths) =
               (case best_match of
                  Some t \<Rightarrow> if 2 \<le> best_score then (t, min best_score 10) else (''unknown'', 0)
                | None \<Rightarrow> (''unknown'', 0));
             os_family = os_hint ports names
         in Inr (if device_type = ''unknown'' \<and> os_family \<in> {Some ''windows'', Some ''linux'', Some ''macos''}
                 then \<lparr>dc_device_type = ''workstation'', dc_os_family = os_family, dc_tenths = 3\<rparr>
                 else \<lparr>dc_device_type = device_type, dc_os_family = os_family, dc_tenths = tenths\<rparr>)))"

definition fingerprint_dhcp :: "pydict \<Rightarrow> (string option \<times> string option) result" where
  "fingerprint_dhcp dhcp_options =
     (let vendor_class = dict_get_or dhcp_options ''vendor_class'' (PStr [])
      in if \<not> truthy vendor_class then Inr (None, None)
         else rbind (lower_of vendor_class) (\<lambda>vc.
           if py_in ''msft'' vc then Inr (Some ''windows'', None)
           else if py_in ''android'' vc then Inr (Some ''android'', Some ''mobile'')
           else if py_in ''dhcpcd'' vc then Inr (Some ''linux'', None)
           else Inr (None, None)))"

section \<open>The passive monitor\<close>

text \<open>A packet as the handlers look at it; times are in microseconds.\<close>

datatype opt_value = Txt string | Bts "nat list"

record packet =
  pk_arp :: "(int \<times> string option \<times> string option) option"
  pk_dhcp :: "(string \<times> opt_value) list option"
  pk_ether_src :: "string option"
  pk_ip_src :: "string option"

text \<open>
  What the monitor remembers, and the reports it has scheduled on the event loop, with their times.
\<close>

record monitor =
  mo_seen :: "(string, int) dict"
  mo_reports :: "(int \<times> pydict) list"

definition dedup_time :: int where "dedup_time = 60 * 1000000"

definition should_report :: "int \<Rightarrow> string \<Rightarrow> monitor \<Rightarrow> bool \<times> monitor" where
  "should_report now mac s =
     (let fresh = (case dict_get (mo_seen s) mac of None \<Rightarrow> False | Some last_seen \<Rightarrow> now - last_seen < dedup_time)
      in if fresh then (False, s)
         else let seen = dict_set mac now (mo_seen s)
              in (True, s\<lparr>mo_seen := (if 10000 < length seen
                     then filter (\<lambda>(k, v). now - dedup_time * 2 < v) seen else seen)\<rparr>))"

definition OUI_PREFIXES :: "(string, string) dict" where
  "OUI_PREFIXES =
     [(''00:50:56'', ''VMware''), (''00:0c:29'', ''VMware''), (''00:15:5d'', ''Microsoft Hyper-V''),
      (''08:00:27'', ''Oracle VirtualBox''), (''52:54:00'', ''QEMU/KVM''), (''dc:a6:32'', ''Raspberry Pi''),
      (''b8:27:eb'', ''Raspberry Pi''), (''00:1a:2b'', ''Cisco''), (''00:1b:44'', ''Cisco''),
      (''00:50:f2'', ''Microsoft''), (''aa:bb:cc'', ''Private'')]"

definition opt_str :: "string option \<Rightarrow> pyval" where
  "opt_str v = (case v of None \<Rightarrow> PNone | Some t \<Rightarrow> PStr t)"

definition lookup_oui :: "string \<Rightarrow> string option" where
  "lookup_oui mac = dict_get OUI_PREFIXES (py_lower (take 8 mac))"

definition discovery_event ::
  "(int \<Rightarrow> string) \<Rightarrow> int \<Rightarrow> string \<Rightarrow> string option \<Rightarrow> string \<Rightarrow> string option \<Rightarrow> pydict" where
  "discovery_event isotime now mac ip source hostname =
     [(''mac_address'', PStr mac), (''ip_address'', opt_str ip), (''hostname'', opt_str hostname),
      (''vendor'', opt_str (lookup_oui mac)), (''source'', PStr source), (''discovered_at'', PStr (isotime now))]"

definition schedule :: "int \<Rightarrow> pydict \<Rightarrow> bool \<times> monitor \<Rightarrow> monitor" where
  "schedule now event rs = (case rs of (report, s) \<Rightarrow>
     if report then s\<lparr>mo_reports := mo_reports s @ [(now, event)]\<rparr> else s)"

definition handle_arp :: "(int \<Rightarrow> string) \<Rightarrow> int \<Rightarrow> int \<times> string option \<times> string option \<Rightarrow> monitor \<Rightarrow> monitor" where
  "handle_arp isotime now arp s =
     (case arp of (op_code, hwsrc, psrc) \<Rightarrow>
        if op_code \<notin> {1, 2} then s
        else case hwsrc of
               None \<Rightarrow> s
             | Some mac \<Rightarrow>
                 if mac = [] \<or> mac = ''00:00:00:00:00:00'' then s
                 else if psrc = None \<or> psrc = Some [] \<or> psrc = Some ''0.0.0.0'' then s
                 else schedule now (discovery_event isotime now (py_lower mac) psrc ''arp'' None)
                        (should_report now (py_lower mac) s))"

text \<open>The options, the last of each kind; \<open>decode\<close> is \<open>bytes.decode("utf-8", errors="replace")\<close>.\<close>

definition opt_text :: "(nat list \<Rightarrow> string) \<Rightarrow> opt_value \<Rightarrow> string" where
  "opt_text decode v = (case v of Txt t \<Rightarrow> t | Bts b \<Rightarrow> decode b)"

definition dhcp_option ::
  "(nat list \<Rightarrow> string) \<Rightarrow> string \<times> opt_value \<Rightarrow> string option \<times> string option \<Rightarrow> string option \<times> string option" where
  "dhcp_option decode opt acc =
     (case opt of (name, v) \<Rightarrow> case acc of (ip, hostname) \<Rightarrow>
        if name = ''requested_addr'' then (Some (opt_text decode v), hostname)
        else if name = ''hostname'' then (ip, Some (opt_text decode v))
        else (ip, hostname))"

definition handle_dhcp ::
  "(int \<Rightarrow> string) \<Rightarrow> (nat list \<Rightarrow> string) \<Rightarrow> int \<Rightarrow> string \<Rightarrow> (string \<times> opt_value) list \<Rightarrow> string option
   \<Rightarrow> monitor \<Rightarrow> monitor" where
  "handle_dhcp isotime decode now src options ip_src s =
     (let mac = py_lower src;
          (ip, hostname) = fold (dhcp_option decode) options (None, None);
          ip' = (if (ip = None \<or> ip = Some []) \<and> ip_src \<noteq> None
                 then (if ip_src = Some ''0.0.0.0'' then None else ip_src) else ip)
      in if mac \<noteq> [] \<and> mac \<noteq> ''00:00:00:00:00:00''
         then schedule now (discovery_event isotime now mac ip' ''dhcp'' hostname) (should_report now mac s)
         else s)"

text \<open>An exception in a handler is logged; a DHCP packet without an Ethernet layer raises one.\<close>

definition process_packet ::
  "(int \<Rightarrow> string) \<Rightarrow> (nat list \<Rightarrow> string) \<Rightarrow> int \<Rightarrow> packet \<Rightarrow> monitor \<Rightarrow> monitor" where
  "process_packet isotime decode now pkt s =
     (case pk_arp pkt of
        Some arp \<Rightarrow> handle_arp isotime now arp s
      | None \<Rightarrow>
          case pk_dhcp pkt of
            None \<Rightarrow> s
          | Some options \<Rightarrow>
              case pk_ether_src pkt of
                None \<Rightarrow> s
              | Some src \<Rightarrow> handle_dhcp isotime decode now src options (pk_ip_src pkt) s)"

text \<open>A capture: the packets with the times they come at.\<close>

definition capture :: "(int \<Rightarrow> string) \<Rightarrow> (nat list \<Rightarrow> string) \<Rightarrow> (int \<times> packet) list \<Rightarrow> monitor" where
  "capture isotime decode pkts =
     fold (\<lambda>(now, pkt). process_packet isotime decode now pkt) pkts \<lparr>mo_seen = [], mo_reports = []\<rparr>"

section \<open>What a classification says\<close>

lemma best_pattern_known:
  assumes "best_pattern vendor ports names patterns = (best_match, best_score)"
  shows "(best_match = None \<and> best_score = 0)
    \<or> (\<exists>t \<in> fst ` set patterns. best_match = Some t \<and> 0 < best_score)"
proof -
  let ?ok = "\<lambda>(m, n). (m = None \<and> n = (0::nat)) \<or> (\<exists>t \<in> fst ` set patterns. m = Some t \<and> 0 < n)"
  let ?step = "\<lambda>(dev_type, pat) (best_match, best_score).
             let score = pattern_score vendor ports names pat
             in if best_score < score then (Some dev_type, score) else (best_match, best_score)"
  have "?ok (fold ?step ps acc)" if "set ps \<subseteq> set patterns" and "?ok acc" for ps acc
    using that
  proof (induction ps arbitrary: acc)
    case (Cons p ps)
    obtain t pat where p: "p = (t, pat)" by (cases p)
    obtain m n where acc: "acc = (m, n)" by (cases acc)
    from Cons.prems(1) p have "t \<in> fst ` set patterns" by force
    with Cons.prems have "?ok (?step p acc)" by (auto simp: p acc Let_def)
    with Cons.IH Cons.prems(1) show ?case by simp
  qed simp
  from this [of patterns "(None, 0)"] assms show ?thesis by (simp add: best_pattern_def)
qed

lemma service_sets_ok:
  assumes "\<forall>svc \<in> set services. hashable (dict_get_or svc ''port'' (PInt 0))
      \<and> (py_get svc ''service'' = PNone \<or> (\<exists>t. py_get svc ''service'' = PStr t))"
  shows "\<exists>r. service_sets services acc = Inr r"
  using assms by (induction services acc rule: service_sets.induct) (auto simp: Let_def)

text \<open>
  C31: A classification is of its type. For services with ports that can be hashed and names that are
  strings or missing, the classifier answers: a device type that is one of the patterns,
  a workstation or unknown, a system that is one of three or none, and a confidence between 0 and
  1, at least 0.2 for a pattern, 0.3 for a workstation, and 0 exactly for the unknown.
\<close>

theorem classification_typed:
  assumes "\<forall>svc \<in> set services. hashable (dict_get_or svc ''port'' (PInt 0))
      \<and> (py_get svc ''service'' = PNone \<or> (\<exists>t. py_get svc ''service'' = PStr t))"
  shows "\<exists>c. classify_device db mac vendor services = Inr c
    \<and> dc_device_type c \<in> set ([''unknown'', ''workstation''] @ dict_keys DEVICE_PATTERNS)
    \<and> dc_os_family c \<in> {None, Some ''windows'', Some ''macos'', Some ''linux''}
    \<and> dc_tenths c \<le> 10
    \<and> (dc_device_type c \<in> set (dict_keys DEVICE_PATTERNS) \<longrightarrow> 2 \<le> dc_tenths c)
    \<and> (dc_device_type c = ''workstation'' \<longrightarrow> dc_tenths c = 3 \<and> dc_os_family c \<noteq> None)
    \<and> (dc_device_type c = ''unknown'' \<longleftrightarrow> dc_tenths c = 0)"
proof -
  obtain ports names where sets: "service_sets services ([], []) = Inr (ports, names)"
    using service_sets_ok [OF assms] by fastforce
  define name where "name = (case vendor of Some (c # cs) \<Rightarrow> c # cs
    | _ \<Rightarrow> (case lookup_vendor db mac of Some v \<Rightarrow> v | None \<Rightarrow> []))"
  obtain m n where best: "best_pattern name ports names DEVICE_PATTERNS = (m, n)" by fastforce
  have keys: "''unknown'' \<notin> set (dict_keys DEVICE_PATTERNS)" "''workstation'' \<notin> set (dict_keys DEVICE_PATTERNS)"
    by (simp_all add: DEVICE_PATTERNS_def dict_keys_def)
  have known: "t \<noteq> ''unknown'' \<and> t \<noteq> ''workstation'' \<and> t \<in> set (dict_keys DEVICE_PATTERNS)" if "m = Some t" for t
    using best_pattern_known [OF best] keys that unfolding dict_keys_def set_map by blast
  have os: "os_hint ports names \<in> {None, Some ''windows'', Some ''macos'', Some ''linux''}"
    by (simp add: os_hint_def)
  have "classify_device db mac vendor services = Inr
      (if (m = None \<or> n < 2) \<and> os_hint ports names \<noteq> None
       then \<lparr>dc_device_type = ''workstation'', dc_os_family = os_hint ports names, dc_tenths = 3\<rparr>
       else if m = None \<or> n < 2 then \<lparr>dc_device_type = ''unknown'', dc_os_family = os_hint ports names, dc_tenths = 0\<rparr>
       else \<lparr>dc_device_type = the m, dc_os_family = os_hint ports names, dc_tenths = min n 10\<rparr>)"
    using best_pattern_known [OF best] known os
    by (cases m) (auto simp: classify_device_def name_def [symmetric] sets best Let_def)
  with best_pattern_known [OF best] keys known os show ?thesis
    by (cases m) (auto simp: dict_keys_def)
qed

theorem classification_typed_witness:
  "\<exists>c. classify_device (load_oui_db [''00-1B-44   (hex)    Sun Printer Corp'']) ''00:1B:44:11:3A:B7'' None
        [[(''port'', PInt 9100)], [(''port'', PInt 22), (''service'', PStr ''SSH'')]] = Inr c
     \<and> c = \<lparr>dc_device_type = ''printer'', dc_os_family = Some ''linux'', dc_tenths = 2\<rparr>
     \<and> (dc_device_type c \<in> set (dict_keys DEVICE_PATTERNS) \<longrightarrow> 2 \<le> dc_tenths c)"
proof -
  have "\<forall>svc \<in> set [[(''port'', PInt 9100)], [(''port'', PInt 22), (''service'', PStr ''SSH'')]].
      hashable (dict_get_or svc ''port'' (PInt 0))
      \<and> (py_get svc ''service'' = PNone \<or> (\<exists>t. py_get svc ''service'' = PStr t))"
    by (simp add: py_get_def dict_get_or_def)
  from classification_typed [OF this, of "load_oui_db [''00-1B-44   (hex)    Sun Printer Corp'']" "''00:1B:44:11:3A:B7''" None]
  obtain c where c: "classify_device (load_oui_db [''00-1B-44   (hex)    Sun Printer Corp'']) ''00:1B:44:11:3A:B7'' None
        [[(''port'', PInt 9100)], [(''port'', PInt 22), (''service'', PStr ''SSH'')]] = Inr c"
    "dc_device_type c \<in> set (dict_keys DEVICE_PATTERNS) \<longrightarrow> 2 \<le> dc_tenths c" by blast
  have "classify_device (load_oui_db [''00-1B-44   (hex)    Sun Printer Corp'']) ''00:1B:44:11:3A:B7'' None
        [[(''port'', PInt 9100)], [(''port'', PInt 22), (''service'', PStr ''SSH'')]]
      = Inr \<lparr>dc_device_type = ''printer'', dc_os_family = Some ''linux'', dc_tenths = 2\<rparr>"
    by code_simp
  with c show ?thesis by auto
qed

section \<open>Once a minute\<close>

definition report_mac :: "int \<times> pydict \<Rightarrow> pyval" where
  "report_mac r = py_get (snd r) ''mac_address''"

text \<open>Two reports of one address are a minute apart.\<close>

definition spaced :: "int \<times> pydict \<Rightarrow> int \<times> pydict \<Rightarrow> bool" where
  "spaced a b \<longleftrightarrow> report_mac a = report_mac b \<longrightarrow> fst a + dedup_time \<le> fst b"

definition monitor_ok :: "int \<Rightarrow> monitor \<Rightarrow> bool" where
  "monitor_ok now s \<longleftrightarrow>
     dict_ok (mo_seen s)
     \<and> (\<forall>k t. dict_get (mo_seen s) k = Some t \<longrightarrow> t \<le> now \<and> (\<exists>e. (t, e) \<in> set (mo_reports s) \<and> report_mac (t, e) = PStr k))
     \<and> (\<forall>r \<in> set (mo_reports s). fst r \<le> now \<and> (\<exists>k. report_mac r = PStr k
          \<and> ((\<exists>t. dict_get (mo_seen s) k = Some t \<and> fst r \<le> t) \<or> fst r + dedup_time * 2 \<le> now)))
     \<and> sorted_wrt spaced (mo_reports s)"

lemma dict_get_unknown: "k \<notin> fst ` set d \<Longrightarrow> dict_get d k = None"
  by (induction d) auto

lemma dict_get_filter:
  "dict_ok d \<Longrightarrow> dict_get (filter (\<lambda>(k, v). P v) d) k =
     (case dict_get d k of None \<Rightarrow> None | Some v \<Rightarrow> if P v then Some v else None)"
proof (induction d)
  case (Cons p d)
  obtain k' v where p: "p = (k', v)" by (cases p)
  have "dict_get d k' = None" using Cons.prems by (intro dict_get_unknown) (simp add: p dict_ok_def)
  with Cons show ?case by (auto simp: p dict_ok_def)
qed simp

lemma monitor_ok_later:
  assumes "monitor_ok now s" and "now \<le> now'"
  shows "monitor_ok now' s"
proof -
  have "t \<le> now'" if "dict_get (mo_seen s) k = Some t" for k t
    using assms that unfolding monitor_ok_def by (meson order_trans)
  moreover have "fst r \<le> now' \<and> (\<exists>k. report_mac r = PStr k
      \<and> ((\<exists>t. dict_get (mo_seen s) k = Some t \<and> fst r \<le> t) \<or> fst r + dedup_time * 2 \<le> now'))"
    if "r \<in> set (mo_reports s)" for r
    using assms that unfolding monitor_ok_def by (meson order_trans)
  ultimately show ?thesis using assms(1) unfolding monitor_ok_def by blast
qed

text \<open>A report adds itself, far enough from the earlier ones; without one there is a recent one.\<close>

lemma report_step:
  assumes ok: "monitor_ok now s" and mac: "report_mac (now, e) = PStr mac"
  shows "monitor_ok now (schedule now e (should_report now mac s))"
    and "\<exists>r \<in> set (mo_reports (schedule now e (should_report now mac s))).
           report_mac r = PStr mac \<and> now - dedup_time < fst r"
proof -
  let ?s = "schedule now e (should_report now mac s)"
  have "monitor_ok now ?s \<and> (\<exists>r \<in> set (mo_reports ?s). report_mac r = PStr mac \<and> now - dedup_time < fst r)"
  proof (cases "\<exists>t. dict_get (mo_seen s) mac = Some t \<and> now - t < dedup_time")
    case True
    then obtain t where t: "dict_get (mo_seen s) mac = Some t" "now - t < dedup_time" by blast
    with ok obtain e' where "(t, e') \<in> set (mo_reports s)" "report_mac (t, e') = PStr mac"
      unfolding monitor_ok_def by blast
    moreover have "?s = s" using t by (simp add: schedule_def should_report_def)
    ultimately show ?thesis using ok t(2) by (intro conjI bexI [of _ "(t, e')"]) auto
  next
    case False
    define seen where "seen = dict_set mac now (mo_seen s)"
    define kept where "kept = (if 10000 < length seen then filter (\<lambda>(k, v). now - dedup_time * 2 < v) seen else seen)"
    have s': "?s = s\<lparr>mo_seen := kept, mo_reports := mo_reports s @ [(now, e)]\<rparr>"
      using False by (auto simp: schedule_def should_report_def Let_def seen_def kept_def split: option.split)
    have parts: "mo_seen ?s = kept" "mo_reports ?s = mo_reports s @ [(now, e)]" unfolding s' by simp_all
    have dict: "dict_ok seen" using ok by (simp add: seen_def monitor_ok_def)
    then have dict': "dict_ok kept"
      by (auto simp: kept_def dict_ok_def distinct_map_filter intro: inj_on_subset)
    have get: "dict_get kept k = Some t \<Longrightarrow> dict_get seen k = Some t" for k t
      using dict_get_filter [OF dict, of "\<lambda>v. now - dedup_time * 2 < v" k]
      by (auto simp: kept_def split: if_splits option.splits)
    have lost: "t \<le> now - dedup_time * 2" if "dict_get seen k = Some t" "dict_get kept k \<noteq> Some t" for k t
      using that dict_get_filter [OF dict, of "\<lambda>v. now - dedup_time * 2 < v" k]
      by (auto simp: kept_def split: if_splits option.splits)
    have ok': "monitor_ok now ?s"
      unfolding monitor_ok_def parts
    proof (intro conjI allI impI ballI)
      show "dict_ok kept" by (rule dict')
    next
      fix k t assume "dict_get kept k = Some t"
      from get [OF this] show "t \<le> now" using ok by (auto simp: seen_def monitor_ok_def split: if_splits)
    next
      fix k t assume "dict_get kept k = Some t"
      from get [OF this] show "\<exists>e'. (t, e') \<in> set (mo_reports s @ [(now, e)]) \<and> report_mac (t, e') = PStr k"
        using ok mac by (fastforce simp: seen_def monitor_ok_def split: if_splits)
    next
      fix r assume r: "r \<in> set (mo_reports s @ [(now, e)])"
      then show "fst r \<le> now" using ok by (auto simp: monitor_ok_def)
      show "\<exists>k. report_mac r = PStr k
          \<and> ((\<exists>t. dict_get kept k = Some t \<and> fst r \<le> t) \<or> fst r + dedup_time * 2 \<le> now)"
      proof (cases "r = (now, e)")
        case True
        have "dict_get seen mac = Some now" by (simp add: seen_def)
        with lost [of mac now] have "dict_get kept mac = Some now" by (fastforce simp: dedup_time_def)
        with True mac show ?thesis by auto
      next
        case False
        with r ok obtain k where k: "report_mac r = PStr k" "fst r \<le> now"
          "(\<exists>t. dict_get (mo_seen s) k = Some t \<and> fst r \<le> t) \<or> fst r + dedup_time * 2 \<le> now"
          unfolding monitor_ok_def by auto
        then have "(\<exists>t. dict_get seen k = Some t \<and> fst r \<le> t) \<or> fst r + dedup_time * 2 \<le> now"
          by (auto simp: seen_def)
        then have "(\<exists>t. dict_get kept k = Some t \<and> fst r \<le> t) \<or> fst r + dedup_time * 2 \<le> now"
          using lost by fastforce
        with k show ?thesis by blast
      qed
    next
      have "spaced r (now, e)" if "r \<in> set (mo_reports s)" for r
        unfolding spaced_def
      proof
        assume "report_mac r = report_mac (now, e)"
        with that ok mac have
          "(\<exists>t. dict_get (mo_seen s) mac = Some t \<and> fst r \<le> t) \<or> fst r + dedup_time * 2 \<le> now"
          unfolding monitor_ok_def by fastforce
        with False show "fst r + dedup_time \<le> fst (now, e)" by (auto simp: dedup_time_def)
      qed
      with ok show "sorted_wrt spaced (mo_reports s @ [(now, e)])"
        by (simp add: sorted_wrt_append monitor_ok_def)
    qed
    then show ?thesis using mac by (simp add: s' dedup_time_def)
  qed
  then show "monitor_ok now ?s" "\<exists>r \<in> set (mo_reports ?s). report_mac r = PStr mac \<and> now - dedup_time < fst r"
    by blast+
qed

text \<open>The address a packet is reported under.\<close>

definition heard :: "packet \<Rightarrow> string option" where
  "heard pkt =
     (case pk_arp pkt of
        Some (op_code, Some mac, Some ip) \<Rightarrow>
          if op_code \<in> {1, 2} \<and> mac \<noteq> [] \<and> mac \<noteq> ''00:00:00:00:00:00'' \<and> ip \<noteq> [] \<and> ip \<noteq> ''0.0.0.0''
          then Some (py_lower mac) else None
      | Some _ \<Rightarrow> None
      | None \<Rightarrow>
          case (pk_dhcp pkt, pk_ether_src pkt) of
            (Some options, Some src) \<Rightarrow>
              if src \<noteq> [] \<and> py_lower src \<noteq> ''00:00:00:00:00:00'' then Some (py_lower src) else None
          | _ \<Rightarrow> None)"

lemma report_mac_event: "report_mac (t, discovery_event isotime now mac ip source hostname) = PStr mac"
  by (simp add: report_mac_def discovery_event_def py_get_def dict_get_or_def)

lemma process_heard:
  obtains "heard pkt = None" "\<And>s. process_packet isotime decode now pkt s = s"
  | mac e where "heard pkt = Some mac" "report_mac (now, e) = PStr mac"
      "\<And>s. process_packet isotime decode now pkt s = schedule now e (should_report now mac s)"
proof (cases "pk_arp pkt")
  case None
  show thesis
  proof (cases "pk_dhcp pkt = None \<or> pk_ether_src pkt = None")
    case True
    with None have "heard pkt = None" "process_packet isotime decode now pkt s = s" for s
      by (auto simp: process_packet_def heard_def split: option.splits)
    with that(1) show thesis by blast
  next
    case False
    then obtain options src where dhcp: "pk_dhcp pkt = Some options" "pk_ether_src pkt = Some src" by auto
    obtain ip hostname where opts: "fold (dhcp_option decode) options (None, None) = (ip, hostname)" by fastforce
    define e where "e = discovery_event isotime now (py_lower src)
      (if (ip = None \<or> ip = Some []) \<and> pk_ip_src pkt \<noteq> None
       then (if pk_ip_src pkt = Some ''0.0.0.0'' then None else pk_ip_src pkt) else ip) ''dhcp'' hostname"
    have run: "process_packet isotime decode now pkt s =
        (if src \<noteq> [] \<and> py_lower src \<noteq> ''00:00:00:00:00:00''
         then schedule now e (should_report now (py_lower src) s) else s)" for s
      using None dhcp opts by (simp add: process_packet_def handle_dhcp_def e_def Let_def)
    have mac: "report_mac (now, e) = PStr (py_lower src)" by (simp add: e_def report_mac_event)
    show thesis
    proof (cases "src \<noteq> [] \<and> py_lower src \<noteq> ''00:00:00:00:00:00''")
      case True
      with None dhcp have "heard pkt = Some (py_lower src)" by (simp add: heard_def)
      with run True mac that(2) show thesis by presburger
    next
      case False
      with None dhcp have "heard pkt = None" by (auto simp: heard_def)
      with run False that(1) show thesis by presburger
    qed
  qed
next
  case (Some arp)
  obtain op_code hwsrc psrc where arp: "arp = (op_code, hwsrc, psrc)" by (cases arp)
  show thesis
  proof (cases "heard pkt")
    case None
    then have "process_packet isotime decode now pkt s = s" for s
      using Some arp by (cases hwsrc; cases psrc)
        (auto simp: process_packet_def heard_def handle_arp_def split: if_splits)
    with None that(1) show thesis by blast
  next
    case heard: (Some mac)
    then obtain m ip where ip: "hwsrc = Some m" "psrc = Some ip" "mac = py_lower m"
      using Some arp by (cases hwsrc; cases psrc) (auto simp: heard_def split: if_splits)
    have "process_packet isotime decode now pkt s
        = schedule now (discovery_event isotime now mac psrc ''arp'' None) (should_report now mac s)" for s
      using heard Some arp ip by (auto simp: process_packet_def heard_def handle_arp_def split: if_splits)
    with heard that(2) report_mac_event show thesis by blast
  qed
qed

lemma schedule_grows: "set (mo_reports s) \<subseteq> set (mo_reports (schedule now e (should_report now mac s)))"
  by (auto simp: schedule_def should_report_def Let_def)

lemma run_reports:
  assumes "monitor_ok now0 s" and "sorted (map fst pkts)" and "\<forall>t \<in> fst ` set pkts. now0 \<le> t"
  shows "let s' = fold (\<lambda>(now, pkt). process_packet isotime decode now pkt) pkts s
    in (\<exists>now. monitor_ok now s') \<and> set (mo_reports s) \<subseteq> set (mo_reports s')
       \<and> (\<forall>(now, pkt) \<in> set pkts. \<forall>mac. heard pkt = Some mac \<longrightarrow>
            (\<exists>r \<in> set (mo_reports s'). report_mac r = PStr mac \<and> now - dedup_time < fst r \<and> fst r \<le> now))"
  using assms
proof (induction pkts arbitrary: now0 s)
  case Nil
  then show ?case by (auto simp: Let_def)
next
  case (Cons p pkts)
  obtain now pkt where p: "p = (now, pkt)" by (cases p)
  let ?s = "process_packet isotime decode now pkt s"
  have ok: "monitor_ok now s" using monitor_ok_later Cons.prems by (force simp: p)
  have step: "monitor_ok now ?s \<and> set (mo_reports s) \<subseteq> set (mo_reports ?s)
    \<and> (\<forall>mac. heard pkt = Some mac \<longrightarrow>
         (\<exists>r \<in> set (mo_reports ?s). report_mac r = PStr mac \<and> now - dedup_time < fst r))"
  proof (rule process_heard [of pkt isotime decode now])
    assume "heard pkt = None" "\<And>s. process_packet isotime decode now pkt s = s"
    then show ?thesis using ok by simp
  next
    fix mac e
    assume "heard pkt = Some mac" and mac: "report_mac (now, e) = PStr mac"
      "\<And>s. process_packet isotime decode now pkt s = schedule now e (should_report now mac s)"
    with report_step [OF ok mac(1)] schedule_grows [of s now e mac] show ?thesis by simp
  qed
  then have at_now: "\<exists>r \<in> set (mo_reports ?s). report_mac r = PStr mac \<and> now - dedup_time < fst r \<and> fst r \<le> now"
    if "heard pkt = Some mac" for mac
    using that unfolding monitor_ok_def by meson
  have "sorted (map fst pkts)" "\<forall>t \<in> fst ` set pkts. now \<le> t" using Cons.prems by (auto simp: p)
  note rest = Cons.IH [OF conjunct1 [OF step] this, unfolded Let_def]
  let ?s' = "fold (\<lambda>(now, pkt). process_packet isotime decode now pkt) pkts ?s"
  have run: "fold (\<lambda>(now, pkt). process_packet isotime decode now pkt) (p # pkts) s = ?s'" by (simp add: p)
  have grows: "set (mo_reports ?s) \<subseteq> set (mo_reports ?s')" using rest by blast
  have "\<exists>r \<in> set (mo_reports ?s'). report_mac r = PStr mac \<and> now - dedup_time < fst r \<and> fst r \<le> now"
    if "heard pkt = Some mac" for mac
    using at_now [OF that] grows by blast
  moreover have "set (mo_reports s) \<subseteq> set (mo_reports ?s')" using step grows by blast
  ultimately show ?case using rest unfolding run Let_def p by simp
qed


definition ex_arp :: packet where
  "ex_arp = \<lparr>pk_arp = Some (2, Some ''B8:27:EB:00:00:01'', Some ''10.0.0.7''), pk_dhcp = None,
     pk_ether_src = Some ''B8:27:EB:00:00:01'', pk_ip_src = None\<rparr>"


end
