(* ===== verification/Active_Scanner.thy ===== *)
theory Active_Scanner
  imports Device_Inventory Discovery
begin

text \<open>
  The active scanner: \<open>services/discovery/active_scanner.py\<close>. A scan request runs an ARP sweep, nmap or
  an SNMP walk and publishes what was found. What the network answers is a record of functions; the
  XML of nmap comes as a tree.
\<close>

section \<open>What answers\<close>

datatype xml = Elem (tag: string) (attribs: "(string, string) dict") (children: "xml list")

datatype nmap_outcome = NotInstalled | TimedOut | Exited int string

datatype snmp_answer = SnmpError | VarBinds "(string \<times> nat list) list"

record network =
  nw_ip_network :: "pyval \<Rightarrow> string option"
  nw_srp :: "string \<Rightarrow> (string \<times> string) list"
  nw_nmap :: "string list \<Rightarrow> nmap_outcome"
  nw_xml :: "string \<Rightarrow> xml option"
  nw_walk :: "pyval \<Rightarrow> pyval \<Rightarrow> snmp_answer list"
  nw_iso :: string

text \<open>\<open>elem.find(tag)\<close>, \<open>elem.findall(tag)\<close>, \<open>elem.get(name)\<close>.\<close>

definition xml_find :: "string \<Rightarrow> xml \<Rightarrow> xml option" where
  "xml_find t e = find (\<lambda>c. tag c = t) (children e)"

definition xml_findall :: "string \<Rightarrow> xml \<Rightarrow> xml list" where
  "xml_findall t e = filter (\<lambda>c. tag c = t) (children e)"

definition xml_get :: "xml \<Rightarrow> string \<Rightarrow> pyval" where
  "xml_get e name = opt_str (dict_get (attribs e) name)"

section \<open>The XML of nmap\<close>

definition host_address :: "xml \<Rightarrow> pydict \<Rightarrow> pydict" where
  "host_address addr info =
     (if xml_get addr ''addrtype'' = PStr ''ipv4'' then dict_set ''ip'' (xml_get addr ''addr'') info
      else if xml_get addr ''addrtype'' = PStr ''mac''
      then dict_set ''vendor'' (xml_get addr ''vendor'')
             (dict_set ''mac'' (PStr (py_lower (dict_get_or (attribs addr) ''addr'' []))) info)
      else info)"

text \<open>The hostname and the system, from the first element on each path.\<close>

definition host_name :: "xml \<Rightarrow> pydict \<Rightarrow> pydict" where
  "host_name host info =
     (case Option.bind (xml_find ''hostnames'' host) (xml_find ''hostname'') of
        None \<Rightarrow> info | Some h \<Rightarrow> dict_set ''hostname'' (xml_get h ''name'') info)"

definition host_os :: "xml \<Rightarrow> pydict \<Rightarrow> pydict" where
  "host_os host info =
     (case Option.bind (xml_find ''os'' host) (xml_find ''osmatch'') of
        None \<Rightarrow> info
      | Some m \<Rightarrow>
          let info' = dict_set ''os_match'' (xml_get m ''name'') info
          in case xml_find ''osclass'' m of
               None \<Rightarrow> info' | Some c \<Rightarrow> dict_set ''os_family'' (xml_get c ''osfamily'') info')"

definition port_id :: "xml \<Rightarrow> int result" where
  "port_id port =
     (case dict_get (attribs port) ''portid'' of
        None \<Rightarrow> Inr 0
      | Some t \<Rightarrow> (case parse_int t of
            None \<Rightarrow> Inl (ValueError (''invalid literal for int() with base 10: '' @ str_repr t)) | Some n \<Rightarrow> Inr n))"

fun host_services :: "xml list \<Rightarrow> pyval list result" where
  "host_services [] = Inr []"
| "host_services (port # ports) =
     (case xml_find ''service'' port of
        None \<Rightarrow> host_services ports
      | Some service \<Rightarrow>
          rbind (port_id port) (\<lambda>n. rbind (host_services ports) (\<lambda>rest.
            Inr (PDict [(''port'', PInt n), (''protocol'', xml_get port ''protocol''),
                   (''service'', xml_get service ''name''), (''version'', xml_get service ''version''),
                   (''product'', xml_get service ''product'')] # rest))))"

definition host_info :: "xml \<Rightarrow> pydict result" where
  "host_info host =
     rbind (case xml_find ''ports'' host of None \<Rightarrow> Inr [] | Some p \<Rightarrow> host_services (xml_findall ''port'' p)) (\<lambda>services.
       Inr (dict_set ''services'' (PList services)
         (host_os host (host_name host (fold host_address (xml_findall ''address'' host) [])))))"

definition host_up :: "xml \<Rightarrow> bool" where
  "host_up host = (case xml_find ''status'' host of None \<Rightarrow> True | Some st \<Rightarrow> xml_get st ''state'' = PStr ''up'')"

fun parse_hosts :: "xml list \<Rightarrow> pydict list result" where
  "parse_hosts [] = Inr []"
| "parse_hosts (host # hosts) =
     (if \<not> host_up host then parse_hosts hosts
      else rbind (host_info host) (\<lambda>info. rbind (parse_hosts hosts) (\<lambda>results.
             Inr (if truthy (py_get info ''ip'') \<or> truthy (py_get info ''mac'') then info # results else results))))"

definition parse_nmap_xml :: "network \<Rightarrow> string \<Rightarrow> pydict list result" where
  "parse_nmap_xml nw text =
     (case nw_xml nw text of None \<Rightarrow> Inr [] | Some doc \<Rightarrow> parse_hosts (xml_findall ''host'' doc))"

section \<open>The scans\<close>

definition SUBJECT_DISCOVERED :: string where "SUBJECT_DISCOVERED = ''orw.device.discovered''"

definition arp_found :: "network \<Rightarrow> string \<times> string \<Rightarrow> pydict" where
  "arp_found nw answer =
     [(''mac_address'', PStr (py_lower (fst answer))), (''ip_address'', PStr (snd answer)),
      (''source'', PStr ''arp_scan''), (''discovered_at'', PStr (nw_iso nw))]"

definition arp_scan :: "network \<Rightarrow> gw_env \<Rightarrow> pyval \<Rightarrow> ('z svc_state_scheme, unit) prog" where
  "arp_scan nw env target =
     (case nw_ip_network nw target of
        None \<Rightarrow> sret ()
      | Some net \<Rightarrow>
          sbind (smap (\<lambda>a. svc_publish env SUBJECT_DISCOVERED (arp_found nw a)) (nw_srp nw net)) (\<lambda>found.
            svc_publish env ''orw.discovery.scan_completed''
              [(''type'', PStr ''arp''), (''target'', target), (''discovered'', PInt (int (length found))),
               (''completed_at'', PStr (nw_iso nw))]))"

text \<open>An argument of the command that is no string raises.\<close>

definition text_arg :: "pyval \<Rightarrow> string result" where
  "text_arg v = (case v of PStr t \<Rightarrow> Inr t | _ \<Rightarrow> Inl (TypeError ''expected str, bytes or os.PathLike object''))"

definition nmap_cmd :: "string \<Rightarrow> string \<Rightarrow> string list" where
  "nmap_cmd ports target =
     [''nmap'', ''-oX'', ''-'', ''-p'', ports, ''-sV'', ''-O'', ''--host-timeout'', ''30s'', target]"

definition nmap_found :: "network \<Rightarrow> pydict \<Rightarrow> pydict" where
  "nmap_found nw host =
     [(''mac_address'', py_get host ''mac''), (''ip_address'', py_get host ''ip''),
      (''hostname'', py_get host ''hostname''), (''os_family'', py_get host ''os_family''),
      (''os_version'', py_get host ''os_match''), (''vendor'', py_get host ''vendor''),
      (''source'', PStr ''nmap''), (''services'', dict_get_or host ''services'' (PList [])),
      (''discovered_at'', PStr (nw_iso nw))]"

definition nmap_scan :: "network \<Rightarrow> gw_env \<Rightarrow> pyval \<Rightarrow> pyval \<Rightarrow> ('z svc_state_scheme, unit) prog" where
  "nmap_scan nw env target ports =
     sbind (slift (text_arg ports)) (\<lambda>p.
     sbind (slift (text_arg target)) (\<lambda>t.
       case nw_nmap nw (nmap_cmd p t) of
         NotInstalled \<Rightarrow> sret ()
       | TimedOut \<Rightarrow> sret ()
       | Exited code out \<Rightarrow>
           if code \<noteq> 0 then sret ()
           else sbind (slift (parse_nmap_xml nw out)) (\<lambda>results.
                sbind (smap (\<lambda>host. svc_publish env SUBJECT_DISCOVERED (nmap_found nw host)) results)
                  (\<lambda>_. sret ()))))"

definition MAC_TABLE_OID :: string where "MAC_TABLE_OID = ''1.3.6.1.2.1.17.4.3.1.1''"

text \<open>\<open>":".join(f"{b:02x}" for b in mac_bytes)\<close>.\<close>

definition hex2 :: "nat \<Rightarrow> string" where
  "hex2 b = [hex_digit (b div 16), hex_digit (b mod 16)]"

definition mac_text :: "nat list \<Rightarrow> string" where
  "mac_text bs = py_join '':'' (map hex2 bs)"

definition snmp_found :: "network \<Rightarrow> pyval \<Rightarrow> string \<Rightarrow> pydict" where
  "snmp_found nw switch_ip mac =
     [(''mac_address'', PStr mac), (''source'', PStr ''snmp_mac_table''), (''switch_ip'', switch_ip),
      (''discovered_at'', PStr (nw_iso nw))]"

text \<open>The addresses of one answer, to the first object that is outside of the table.\<close>

definition table_macs :: "(string \<times> nat list) list \<Rightarrow> string list" where
  "table_macs binds =
     map (\<lambda>(oid, val). mac_text val)
       (filter (\<lambda>(oid, val). length val = 6) (takeWhile (\<lambda>(oid, val). py_startswith oid MAC_TABLE_OID) binds))"

fun walk_answers :: "network \<Rightarrow> gw_env \<Rightarrow> pyval \<Rightarrow> snmp_answer list \<Rightarrow> ('z svc_state_scheme, unit) prog" where
  "walk_answers nw env switch_ip [] = sret ()"
| "walk_answers nw env switch_ip (SnmpError # answers) = sret ()"
| "walk_answers nw env switch_ip (VarBinds binds # answers) =
     sbind (smap (\<lambda>mac. svc_publish env SUBJECT_DISCOVERED (snmp_found nw switch_ip mac)) (table_macs binds))
       (\<lambda>_. walk_answers nw env switch_ip answers)"

definition snmp_mac_table :: "network \<Rightarrow> gw_env \<Rightarrow> pyval \<Rightarrow> pyval \<Rightarrow> ('z svc_state_scheme, unit) prog" where
  "snmp_mac_table nw env switch_ip community =
     sbind (attempt (walk_answers nw env switch_ip (nw_walk nw switch_ip community))) (\<lambda>_. sret ())"

definition handle_scan_request :: "network \<Rightarrow> gw_env \<Rightarrow> pydict \<Rightarrow> ('z svc_state_scheme, unit) prog" where
  "handle_scan_request nw env data =
     (let scan_type = dict_get_or data ''type'' (PStr ''arp'');
          target = dict_get_or data ''target'' (PStr [])
      in if scan_type = PStr ''arp'' then arp_scan nw env target
         else if scan_type = PStr ''nmap''
         then nmap_scan nw env target (dict_get_or data ''ports'' (PStr ''22,80,443''))
         else if scan_type = PStr ''snmp_mac_table''
         then snmp_mac_table nw env target (dict_get_or data ''community'' (PStr ''public''))
         else sret ())"

section \<open>What becomes of a scan\<close>

lemma svc_publish_Inr:
  "svc_publish env subject data s = (Inr (), s') \<Longrightarrow>
   s' = s\<lparr>sv_store := (sv_store s)\<lparr>gs_published := gs_published (sv_store s) @ [\<lparr>msg_subject = subject, msg_data = data\<rparr>]\<rparr>\<rparr>"
  by (auto simp: svc_publish_def in_store_def publish_def Let_def split: if_splits)

lemma publish_all:
  assumes "smap (\<lambda>x. svc_publish env subject (f x)) xs s = (Inr rs, s')"
  shows "gs_published (sv_store s') = gs_published (sv_store s) @ map (\<lambda>x. \<lparr>msg_subject = subject, msg_data = f x\<rparr>) xs
    \<and> length rs = length xs"
  using assms
proof (induction xs arbitrary: s rs)
  case (Cons x xs)
  from Cons.prems obtain s1 rs' where "svc_publish env subject (f x) s = (Inr (), s1)"
    and rest: "smap (\<lambda>x. svc_publish env subject (f x)) xs s1 = (Inr rs', s')" "rs = () # rs'"
    unfolding smap.simps by (elim sbind_InrE) simp
  from svc_publish_Inr [OF this(1)] Cons.IH [OF rest(1)] rest(2) show ?case by simp
qed simp

text \<open>
  An ARP sweep that is acknowledged announces what answered: one message for each answer, in the
  order they came, and then the end of the scan with their number. A target that is no network
  announces nothing.
\<close>

lemma arp_scan_announces:
  assumes "handle_scan_request nw env data s = (Inr (), s')"
    and "dict_get_or data ''type'' (PStr ''arp'') = PStr ''arp''"
  shows "let target = dict_get_or data ''target'' (PStr []) in
    gs_published (sv_store s') = gs_published (sv_store s) @ (case nw_ip_network nw target of
        None \<Rightarrow> []
      | Some net \<Rightarrow>
          map (\<lambda>a. \<lparr>msg_subject = ''orw.device.discovered'', msg_data = arp_found nw a\<rparr>) (nw_srp nw net)
          @ [\<lparr>msg_subject = ''orw.discovery.scan_completed'',
               msg_data = [(''type'', PStr ''arp''), (''target'', target),
                 (''discovered'', PInt (int (length (nw_srp nw net)))), (''completed_at'', PStr (nw_iso nw))]\<rparr>])"
  using assms
  by (auto simp: handle_scan_request_def arp_scan_def SUBJECT_DISCOVERED_def Let_def split: option.splits
      dest!: publish_all svc_publish_Inr elim!: sbind_InrE)

lemma unaddressed_mac:
  assumes "\<forall>a \<in> set addrs. xml_get a ''addrtype'' \<noteq> PStr ''mac''" and "py_get info ''mac'' = PNone"
  shows "py_get (fold host_address addrs info) ''mac'' = PNone"
  using assms
  by (induction addrs arbitrary: info) (auto simp: host_address_def py_get_def)

lemma host_info_mac:
  assumes "host_info host = Inr info"
    and "\<forall>a \<in> set (xml_findall ''address'' host). xml_get a ''addrtype'' \<noteq> PStr ''mac''"
  shows "py_get info ''mac'' = PNone"
proof -
  have "py_get (fold host_address (xml_findall ''address'' host) []) ''mac'' = PNone"
    using unaddressed_mac [OF assms(2), of "[]"] by (simp add: py_get_def dict_get_or_def)
  with assms(1) show ?thesis
    by (auto simp: host_info_def host_os_def host_name_def py_get_def Let_def rbind_def
        split: sum.splits option.splits)
qed

lemma parse_hosts_complete:
  assumes "parse_hosts hosts = Inr results" and "host \<in> set hosts" and "host_up host"
  shows "\<exists>info. host_info host = Inr info
    \<and> (truthy (py_get info ''ip'') \<or> truthy (py_get info ''mac'') \<longrightarrow> info \<in> set results)"
  using assms
proof (induction hosts arbitrary: results)
  case (Cons h hosts)
  show ?case
  proof (cases "host_up h")
    case True
    with Cons.prems(1) obtain info rest where "host_info h = Inr info" "parse_hosts hosts = Inr rest"
      "results = (if truthy (py_get info ''ip'') \<or> truthy (py_get info ''mac'') then info # rest else rest)"
      by (auto simp: rbind_def split: sum.splits)
    with Cons show ?thesis by auto
  next
    case False
    with Cons show ?thesis by auto
  qed
qed simp

text \<open>
  What nmap finds behind a router is lost. When a scan with nmap is acknowledged, every host
  of its output that is up and has an address is announced; but nmap knows the MAC
  address of its neighbours only, and of each announced host without one the inventory takes the message and
  does nothing: no row, no event, no evaluation.
\<close>

theorem routed_hosts_are_lost:
  assumes "handle_scan_request nw env data s = (Inr (), s')"
    and "dict_get data ''type'' = Some (PStr ''nmap'')" and "dict_get data ''target'' = Some (PStr target)"
    and "dict_get_or data ''ports'' (PStr ''22,80,443'') = PStr ports"
    and "nw_nmap nw (nmap_cmd ports target) = Exited 0 out" and "nw_xml nw out = Some doc"
    and "host \<in> set (xml_findall ''host'' doc)" and "host_up host"
    and "\<forall>a \<in> set (xml_findall ''address'' host). xml_get a ''addrtype'' \<noteq> PStr ''mac''"
  shows "\<exists>info. host_info host = Inr info
    \<and> (truthy (py_get info ''ip'') \<longrightarrow>
         \<lparr>msg_subject = ''orw.device.discovered'', msg_data = nmap_found nw info\<rparr> \<in> set (gs_published (sv_store s')))
    \<and> handle_device_discovered ienv inline_ok (nmap_found nw info) u = (Inr (), u)"
proof -
  obtain results where results: "parse_hosts (xml_findall ''host'' doc) = Inr results"
    and sent: "\<exists>rs. smap (\<lambda>host. svc_publish env SUBJECT_DISCOVERED (nmap_found nw host)) results s = (Inr rs, s')"
    using assms(1-6)
    by (auto simp: handle_scan_request_def nmap_scan_def parse_nmap_xml_def dict_get_or_def text_arg_def
        sbind_def Let_def split: sum.splits prod.splits)
  from sent have published: "\<lparr>msg_subject = ''orw.device.discovered'', msg_data = nmap_found nw info\<rparr>
      \<in> set (gs_published (sv_store s'))" if "info \<in> set results" for info
    using publish_all that by (fastforce simp: SUBJECT_DISCOVERED_def)
  from parse_hosts_complete [OF results assms(7,8)] obtain info where
    info: "host_info host = Inr info" "truthy (py_get info ''ip'') \<longrightarrow> info \<in> set results" by blast
  have "py_get (nmap_found nw info) ''mac_address'' = PNone"
    using host_info_mac [OF info(1) assms(9)] by (simp add: nmap_found_def py_get_def dict_get_or_def)
  then have "handle_device_discovered ienv inline_ok (nmap_found nw info) u = (Inr (), u)"
    by (simp add: handle_device_discovered_def)
  with info published show ?thesis by blast
qed

definition ex_nmap_doc :: xml where
  "ex_nmap_doc = Elem ''nmaprun'' [] [Elem ''host'' []
     [Elem ''status'' [(''state'', ''up'')] [],
      Elem ''address'' [(''addr'', ''10.9.0.1''), (''addrtype'', ''ipv4'')] [],
      Elem ''ports'' [] [Elem ''port'' [(''portid'', ''22''), (''protocol'', ''tcp'')]
        [Elem ''service'' [(''name'', ''ssh'')] []]]]]"

definition ex_nmap_network :: network where
  "ex_nmap_network = \<lparr>nw_ip_network = (\<lambda>t. None), nw_srp = (\<lambda>net. []), nw_nmap = (\<lambda>cmd. Exited 0 []),
     nw_xml = (\<lambda>t. Some ex_nmap_doc), nw_walk = (\<lambda>ip c. []), nw_iso = ''now''\<rparr>"

theorem routed_hosts_are_lost_witness:
  "\<exists>info. host_info (hd (children ex_nmap_doc)) = Inr info \<and> py_get info ''ip'' = PStr ''10.9.0.1''
     \<and> handle_device_discovered ex_gw_env True (nmap_found ex_nmap_network info) \<lparr>sv_store = ex_gw_state\<rparr>
       = (Inr (), \<lparr>sv_store = ex_gw_state\<rparr>)"
proof -
  let ?data = "[(''type'', PStr ''nmap''), (''target'', PStr ''10.9.0.0/24'')]"
  let ?s = "\<lparr>sv_store = ex_gw_state\<rparr>"
  have "fst (handle_scan_request ex_nmap_network ex_gw_env ?data ?s) = Inr ()" by code_simp
  then have run: "handle_scan_request ex_nmap_network ex_gw_env ?data ?s
      = (Inr (), snd (handle_scan_request ex_nmap_network ex_gw_env ?data ?s))" by (metis prod.collapse)
  have "host_up (hd (children ex_nmap_doc))"
    "hd (children ex_nmap_doc) \<in> set (xml_findall ''host'' ex_nmap_doc)"
    "\<forall>a \<in> set (xml_findall ''address'' (hd (children ex_nmap_doc))). xml_get a ''addrtype'' \<noteq> PStr ''mac''"
    by (simp_all add: ex_nmap_doc_def host_up_def xml_findall_def xml_find_def xml_get_def opt_str_def)
  from routed_hosts_are_lost [OF run _ _ _ _ _ this(2,1,3), of "''10.9.0.0/24''" "''22,80,443''" "[]" ex_gw_env True ?s]
  obtain info where info: "host_info (hd (children ex_nmap_doc)) = Inr info"
    "handle_device_discovered ex_gw_env True (nmap_found ex_nmap_network info) ?s = (Inr (), ?s)"
    by (auto simp: dict_get_or_def ex_nmap_network_def)
  have "rbind (host_info (hd (children ex_nmap_doc))) (\<lambda>info. Inr (py_get info ''ip'')) = Inr (PStr ''10.9.0.1'')"
    by code_simp
  with info show ?thesis by auto
qed

end
