(* ===== verification/Radius_Auth_Log.thy ===== *)
theory Radius_Auth_Log
  imports Devices "HOL-Library.Multiset"
begin

text \<open>
  The RADIUS authentication log of the gateway: repository and service of
  \<open>services/gateway/features/radius_auth_log\<close>. The rows are written by the hooks and enriched by the
  event service; here they are listed, counted and grouped. Times are in seconds; what PostgreSQL
  does with addresses, distinct values and maxima of texts is a record of functions.
\<close>

record log_sql =
  lq_inet :: "string \<Rightarrow> string option"
  lq_distinct :: "pyval list \<Rightarrow> pyval list"
  lq_max :: "pyval list \<Rightarrow> pyval"

section \<open>Filters\<close>

definition ALLOWED_SORT_COLUMNS :: "string list" where
  "ALLOWED_SORT_COLUMNS =
     [''timestamp'', ''auth_result'', ''username'', ''calling_station_id'',
      ''nas_ip'', ''auth_method'', ''failure_reason'', ''processing_time_ms'']"

definition LIST_PROJECTION :: "string list" where
  "LIST_PROJECTION =
     [''id'', ''timestamp'', ''session_id'', ''request_type'', ''auth_result'',
      ''auth_method'', ''eap_type'', ''failure_reason'', ''failure_code'',
      ''ad_error_code'', ''ad_error_message'', ''radius_reply_message'',
      ''calling_station_id'', ''username'', ''user_domain'',
      ''nas_ip'', ''nas_port'', ''nas_port_id'', ''nas_identifier'',
      ''assigned_vlan'', ''assigned_vlan_name'', ''filter_id'',
      ''client_cert_cn'', ''processing_time_ms'', ''policy_matched'']"

definition LIVE_PROJECTION :: "string list" where
  "LIVE_PROJECTION =
     [''id'', ''timestamp'', ''auth_result'', ''auth_method'',
      ''calling_station_id'', ''username'', ''nas_ip'', ''nas_port_id'',
      ''nas_identifier'', ''failure_reason'', ''assigned_vlan'', ''processing_time_ms'']"

definition RELATED_PROJECTION :: "string list" where
  "RELATED_PROJECTION =
     [''id'', ''timestamp'', ''auth_result'', ''auth_method'', ''failure_reason'',
      ''username'', ''nas_ip'', ''nas_port_id'']"

text \<open>The filters of a request; a text that is not given is \<open>PNone\<close>.\<close>

record log_filters =
  lf_last_hours :: "int option"
  lf_since :: "int option"
  lf_start_time :: "int option"
  lf_end_time :: "int option"
  lf_texts :: pydict

definition no_filters :: log_filters where
  "no_filters = \<lparr>lf_last_hours = None, lf_since = None, lf_start_time = None, lf_end_time = None, lf_texts = []\<rparr>"

definition since_clause :: "int option \<Rightarrow> pydict \<Rightarrow> bool" where
  "since_clause b row = (case b of None \<Rightarrow> True
     | Some t \<Rightarrow> (case py_get row ''timestamp'' of PInt n \<Rightarrow> t \<le> n | _ \<Rightarrow> False))"

definition until_clause :: "int option \<Rightarrow> pydict \<Rightarrow> bool" where
  "until_clause b row = (case b of None \<Rightarrow> True
     | Some t \<Rightarrow> (case py_get row ''timestamp'' of PInt n \<Rightarrow> n \<le> t | _ \<Rightarrow> False))"

definition contains_clause :: "pydict \<Rightarrow> pydict \<Rightarrow> string \<Rightarrow> bool" where
  "contains_clause texts row c =
     (truthy (py_get texts c) \<longrightarrow> ilike_column row c (''%'' @ py_str (py_get texts c) @ ''%''))"

text \<open>An address that PostgreSQL does not read as one makes the statement fail.\<close>

definition build_log_where :: "log_sql \<Rightarrow> log_filters \<Rightarrow> (pydict \<Rightarrow> bool) result" where
  "build_log_where q f =
     (let texts = lf_texts f; nas_ip = py_get texts ''nas_ip'';
          rest = (\<lambda>row.
            since_clause (lf_since f) row \<and> since_clause (lf_start_time f) row \<and> until_clause (lf_end_time f) row
            \<and> where_eq (if_truthy ''auth_result'' (py_get texts ''auth_result'')) row
            \<and> list_all (contains_clause texts row)
                [''calling_station_id'', ''username'', ''nas_port_id'', ''auth_method'', ''failure_reason'']
            \<and> (truthy (py_get texts ''search'') \<longrightarrow>
                 (let pat = ''%'' @ py_str (py_get texts ''search'') @ ''%''
                  in ilike_column row ''username'' pat \<or> ilike_column row ''calling_station_id'' pat
                     \<or> ilike_column row ''nas_identifier'' pat \<or> like_column row ''nas_ip'' pat)))
      in if \<not> truthy nas_ip then Inr rest
         else case lq_inet q (py_str nas_ip) of
                None \<Rightarrow> Inl (DbError ''invalid input syntax for type inet'')
              | Some ip \<Rightarrow> Inr (\<lambda>row. rest row \<and> sql_eq (py_get row ''nas_ip'') (PStr ip)))"

definition select_logs :: "log_sql \<Rightarrow> log_filters \<Rightarrow> (gw_state, pydict list) prog" where
  "select_logs q f =
     statement (\<lambda>d. (rbind (build_log_where q f) (\<lambda>P. Inr (filter P (gd_table d ''radius_auth_log''))), d))"

section \<open>Lists\<close>

definition count_logs :: "log_sql \<Rightarrow> log_filters \<Rightarrow> (gw_state, int) prog" where
  "count_logs q f = sbind (select_logs q f) (\<lambda>rows. sret (int (length rows)))"

definition repo_list_logs ::
  "gw_env \<Rightarrow> log_sql \<Rightarrow> log_filters \<Rightarrow> string \<Rightarrow> string \<Rightarrow> int \<Rightarrow> int \<Rightarrow> (gw_state, pydict list) prog" where
  "repo_list_logs env q f sort_by sort_order limit offset =
     sbind (select_logs q f) (\<lambda>rows.
       sret (map (project LIST_PROJECTION)
         (take (nat limit) (drop (nat offset) (ge_order env (sort_by @ '' '' @ sort_order) rows)))))"

definition get_log_by_id :: "string \<Rightarrow> (gw_state, pydict option) prog" where
  "get_log_by_id log_id =
     sbind (select_rows ''radius_auth_log'' (where_eq [(''id'', PStr log_id)])) (\<lambda>rows. sret (first_row rows))"

definition list_related_by_mac :: "gw_env \<Rightarrow> pyval \<Rightarrow> string \<Rightarrow> nat \<Rightarrow> (gw_state, pydict list) prog" where
  "list_related_by_mac env mac exclude_id limit =
     sbind (select_ordered env ''timestamp DESC'' ''radius_auth_log''
              (\<lambda>r. where_eq [(''calling_station_id'', mac)] r \<and> py_get r ''id'' \<notin> {PNone, PStr exclude_id}))
       (\<lambda>rows. sret (map (project RELATED_PROJECTION) (take limit rows)))"

definition find_failure_catalog_entry :: "pyval \<Rightarrow> string \<Rightarrow> (gw_state, pydict option) prog" where
  "find_failure_catalog_entry code description_keyword =
     sbind (select_rows ''radius_failure_catalog''
              (\<lambda>r. sql_eq (py_get r ''failure_code'') code
                 \<or> ilike_column r ''description'' (''%'' @ description_keyword @ ''%'')))
       (\<lambda>rows. sret (first_row rows))"

definition repo_list_failure_catalog :: "gw_env \<Rightarrow> pyval \<Rightarrow> pyval \<Rightarrow> (gw_state, pydict list) prog" where
  "repo_list_failure_catalog env category search =
     select_ordered env ''severity DESC, category, failure_code'' ''radius_failure_catalog''
       (\<lambda>r. where_eq (if_truthy ''category'' category) r
          \<and> (truthy search \<longrightarrow> (let pat = ''%'' @ py_str search @ ''%''
               in ilike_column r ''failure_code'' pat \<or> ilike_column r ''description'' pat)))"

definition live_feed :: "gw_env \<Rightarrow> int \<Rightarrow> nat \<Rightarrow> (gw_state, pydict list) prog" where
  "live_feed env since limit =
     sbind (select_ordered env ''timestamp DESC'' ''radius_auth_log'' (since_clause (Some since)))
       (\<lambda>rows. sret (map (project LIVE_PROJECTION) (take limit rows)))"

definition list_logs_for_export :: "gw_env \<Rightarrow> log_sql \<Rightarrow> log_filters \<Rightarrow> nat \<Rightarrow> (gw_state, pydict list) prog" where
  "list_logs_for_export env q f limit =
     sbind (select_logs q f) (\<lambda>rows. sret (take limit (ge_order env ''timestamp DESC'' rows)))"

section \<open>Groups\<close>

text \<open>\<open>GROUP BY\<close>: the keys that occur, each with its rows.\<close>

definition group_rows :: "('r \<Rightarrow> 'k) \<Rightarrow> 'r list \<Rightarrow> ('k \<times> 'r list) list" where
  "group_rows key rows = map (\<lambda>k. (k, filter (\<lambda>r. key r = k) rows)) (remdups (map key rows))"

definition column :: "string \<Rightarrow> pydict list \<Rightarrow> pyval list" where
  "column c rows = map (\<lambda>r. py_get r c) rows"

definition count_of :: "pydict list \<Rightarrow> pyval" where
  "count_of rows = PInt (int (length rows))"

text \<open>\<open>auth_result != 'success'\<close>.\<close>

definition not_success :: "pydict \<Rightarrow> bool" where
  "not_success row \<longleftrightarrow> py_get row ''auth_result'' \<notin> {PNone, PStr ''success''}"

definition count_by_result :: "gw_env \<Rightarrow> int \<Rightarrow> (gw_state, (pyval, int) dict) prog" where
  "count_by_result env since =
     sbind (select_rows ''radius_auth_log'' (since_clause (Some since))) (\<lambda>rows.
       sret (fold (\<lambda>r d. dict_set (py_get r ''auth_result'') (case py_get r ''cnt'' of PInt n \<Rightarrow> n | _ \<Rightarrow> 0) d)
         (ge_order env ''cnt DESC''
           (map (\<lambda>(k, rs). [(''auth_result'', k), (''cnt'', count_of rs)])
             (group_rows (\<lambda>r. py_get r ''auth_result'') rows))) []))"

definition top_failure_reasons :: "gw_env \<Rightarrow> int \<Rightarrow> nat \<Rightarrow> (gw_state, pydict list) prog" where
  "top_failure_reasons env since limit =
     sbind (select_rows ''radius_auth_log'' (\<lambda>r. since_clause (Some since) r \<and> not_success r
              \<and> py_get r ''failure_reason'' \<noteq> PNone)) (\<lambda>rows.
       sret (take limit (ge_order env ''count DESC''
         (map (\<lambda>(k, rs). [(''failure_reason'', k), (''count'', count_of rs)])
           (group_rows (\<lambda>r. py_get r ''failure_reason'') rows)))))"

definition top_failing_users :: "gw_env \<Rightarrow> log_sql \<Rightarrow> int \<Rightarrow> nat \<Rightarrow> (gw_state, pydict list) prog" where
  "top_failing_users env q since limit =
     sbind (select_rows ''radius_auth_log'' (\<lambda>r. since_clause (Some since) r \<and> not_success r
              \<and> py_get r ''username'' \<noteq> PNone)) (\<lambda>rows.
       sret (take limit (ge_order env ''failure_count DESC''
         (map (\<lambda>(k, rs). [(''username'', k), (''failure_count'', count_of rs),
                          (''reasons'', PList (lq_distinct q (column ''failure_reason'' rs)))])
           (group_rows (\<lambda>r. py_get r ''username'') rows)))))"

definition top_failing_macs :: "gw_env \<Rightarrow> log_sql \<Rightarrow> int \<Rightarrow> nat \<Rightarrow> (gw_state, pydict list) prog" where
  "top_failing_macs env q since limit =
     sbind (select_rows ''radius_auth_log'' (\<lambda>r. since_clause (Some since) r \<and> not_success r
              \<and> py_get r ''calling_station_id'' \<noteq> PNone)) (\<lambda>rows.
       sret (take limit (ge_order env ''failure_count DESC''
         (map (\<lambda>(k, rs). [(''calling_station_id'', k), (''failure_count'', count_of rs),
                          (''reasons'', PList (lq_distinct q (column ''failure_reason'' rs))),
                          (''last_username'', lq_max q (column ''username'' rs))])
           (group_rows (\<lambda>r. py_get r ''calling_station_id'') rows)))))"

definition auth_method_distribution :: "gw_env \<Rightarrow> int \<Rightarrow> (gw_state, pydict list) prog" where
  "auth_method_distribution env since =
     sbind (select_rows ''radius_auth_log'' (\<lambda>r. since_clause (Some since) r
              \<and> py_get r ''auth_method'' \<noteq> PNone)) (\<lambda>rows.
       sret (ge_order env ''count DESC''
         (map (\<lambda>((m, a), rs). [(''auth_method'', m), (''auth_result'', a), (''count'', count_of rs)])
           (group_rows (\<lambda>r. (py_get r ''auth_method'', py_get r ''auth_result'')) rows))))"

text \<open>\<open>time_bucket('1 hour', timestamp)\<close>.\<close>

definition hour_of :: "pydict \<Rightarrow> pyval" where
  "hour_of r = (case py_get r ''timestamp'' of PInt n \<Rightarrow> PInt (n - n mod 3600) | v \<Rightarrow> v)"

definition hourly_trend :: "gw_env \<Rightarrow> int \<Rightarrow> (gw_state, pydict list) prog" where
  "hourly_trend env since =
     sbind (select_rows ''radius_auth_log'' (since_clause (Some since))) (\<lambda>rows.
       sret (ge_order env ''hour''
         (map (\<lambda>((h, a), rs). [(''hour'', h), (''auth_result'', a), (''count'', count_of rs)])
           (group_rows (\<lambda>r. (hour_of r, py_get r ''auth_result'')) rows))))"

text \<open>An \<open>array_agg\<close> with a filter that leaves nothing is null.\<close>

definition array_agg :: "log_sql \<Rightarrow> pyval list \<Rightarrow> pyval" where
  "array_agg q vs = (if vs = [] then PNone else PList (lq_distinct q vs))"

definition stats_by_nas :: "gw_env \<Rightarrow> log_sql \<Rightarrow> int \<Rightarrow> (gw_state, pydict list) prog" where
  "stats_by_nas env q since =
     sbind (select_rows ''radius_auth_log'' (since_clause (Some since))) (\<lambda>rows.
       sret (ge_order env ''failures DESC, total DESC''
         (map (\<lambda>((ip, n), rs).
             [(''nas_ip'', ip), (''nas_identifier'', n), (''total'', count_of rs),
              (''success'', count_of (filter (\<lambda>r. py_get r ''auth_result'' = PStr ''success'') rs)),
              (''failures'', count_of (filter not_success rs)),
              (''methods'', array_agg q (filter (\<lambda>m. m \<noteq> PNone) (column ''auth_method'' rs)))])
           (group_rows (\<lambda>r. (py_get r ''nas_ip'', py_get r ''nas_identifier'')) rows))))"

text \<open>The join with the catalog: a log row is paired with every entry that fits it.\<close>

definition fits_entry :: "pydict \<Rightarrow> pydict \<Rightarrow> bool" where
  "fits_entry row fc \<longleftrightarrow>
     sql_eq (py_get row ''ad_error_code'') (py_get fc ''failure_code'')
     \<or> (py_get fc ''failure_code'' \<noteq> PNone
        \<and> ilike_column row ''failure_reason'' (''%'' @ py_str (py_get fc ''failure_code'') @ ''%''))"

definition join_catalog :: "pydict list \<Rightarrow> pydict list \<Rightarrow> (pydict \<times> pydict) list" where
  "join_catalog catalog rows =
     concat (map (\<lambda>r. map (Pair r) (case filter (fits_entry r) catalog of [] \<Rightarrow> [[]] | fcs \<Rightarrow> fcs)) rows)"

definition stats_by_failure_category :: "gw_env \<Rightarrow> log_sql \<Rightarrow> int \<Rightarrow> (gw_state, pydict list) prog" where
  "stats_by_failure_category env q since =
     sbind (select_rows ''radius_failure_catalog'' (\<lambda>r. True)) (\<lambda>catalog.
     sbind (select_rows ''radius_auth_log'' (\<lambda>r. since_clause (Some since) r \<and> not_success r)) (\<lambda>rows.
       sret (ge_order env ''count DESC''
         (map (\<lambda>((c, s), ps). [(''category'', c), (''severity'', s), (''count'', count_of (map fst ps)),
                              (''reasons'', PList (lq_distinct q (column ''failure_reason'' (map fst ps))))])
           (group_rows (\<lambda>(r, fc). (py_get fc ''category'', py_get fc ''severity'')) (join_catalog catalog rows))))))"

section \<open>Service\<close>

text \<open>\<open>last_hours\<close>, when it is given and not zero, replaces the two ends.\<close>

definition normalize_filters :: "gw_env \<Rightarrow> log_filters \<Rightarrow> log_filters" where
  "normalize_filters env f =
     (case lf_last_hours f of
        Some h \<Rightarrow>
          if h \<noteq> 0 then f\<lparr>lf_last_hours := None, lf_since := Some (ge_now env - 3600 * h),
                         lf_start_time := None, lf_end_time := None\<rparr>
          else f\<lparr>lf_last_hours := None\<rparr>
      | None \<Rightarrow> f)"

definition sort_column :: "string \<Rightarrow> string" where
  "sort_column sort_by = (if sort_by \<in> set ALLOWED_SORT_COLUMNS then sort_by else ''timestamp'')"

definition sort_direction :: "string \<Rightarrow> string" where
  "sort_direction sort_order = (if py_lower sort_order = ''asc'' then ''asc'' else ''desc'')"

definition list_logs ::
  "gw_env \<Rightarrow> log_sql \<Rightarrow> int \<Rightarrow> int \<Rightarrow> string \<Rightarrow> string \<Rightarrow> log_filters \<Rightarrow> (gw_state, pydict) prog" where
  "list_logs env q page page_size sort_by sort_order filters =
     (let normalized = normalize_filters env filters
      in sbind (count_logs q normalized) (\<lambda>n.
         sbind (repo_list_logs env q normalized (sort_column sort_by) (sort_direction sort_order)
                  page_size ((page - 1) * page_size)) (\<lambda>items.
           sret (page_dict items n page page_size @ [(''pages'', PInt (page_count n page_size))]))))"

definition troubleshooting_of :: "pydict \<Rightarrow> pydict" where
  "troubleshooting_of catalog =
     project [''category'', ''description'', ''possible_causes'', ''remediation_steps'', ''severity'', ''kb_url''] catalog"

definition resolve_troubleshooting :: "pydict \<Rightarrow> (gw_state, pydict option) prog" where
  "resolve_troubleshooting entry =
     (if py_get entry ''auth_result'' = PStr ''success'' \<or> \<not> truthy (py_get entry ''failure_reason'') then sret None
      else
        sbind (find_failure_catalog_entry (py_or (py_get entry ''ad_error_code'') (py_get entry ''failure_reason''))
                 (take 50 (py_str (py_get entry ''failure_reason'')))) (\<lambda>catalog.
          sret (map_option troubleshooting_of catalog)))"

definition get_log_detail ::
  "gw_env \<Rightarrow> string \<Rightarrow> (gw_state, pydict \<times> pydict option \<times> pydict list) prog" where
  "get_log_detail env log_id =
     sbind (get_log_by_id log_id) (\<lambda>entry.
       case entry of
         None \<Rightarrow> sraise (not_found ''Auth log entry not found'' [])
       | Some e \<Rightarrow>
           sbind (resolve_troubleshooting e) (\<lambda>troubleshooting.
           sbind (if truthy (py_get e ''calling_station_id'')
                  then list_related_by_mac env (py_get e ''calling_station_id'') log_id 10
                  else sret []) (\<lambda>related.
             sret (e, troubleshooting, related))))"

text \<open>
  \<open>round(success / total * 100, 1)\<close>, in tenths: the quotient and the product are rounded to
  doubles, the result to one digit.
\<close>

definition success_tenths :: "int \<Rightarrow> int \<Rightarrow> int option" where
  "success_tenths success attempts =
     (if 0 < attempts
      then Option.bind (to_double (of_int success / of_int attempts)) (\<lambda>x.
           Option.bind (to_double (x * 100)) (\<lambda>p. Some (round_even (p * 10))))
      else Some 0)"

record summary_stats =
  su_period_hours :: int
  su_total :: int
  su_success :: int
  su_failure :: int
  su_rate :: "int option"
  su_by_result :: "(pyval, int) dict"
  su_top_failures :: "pydict list"
  su_top_users :: "pydict list"
  su_top_macs :: "pydict list"
  su_by_method :: "pydict list"
  su_trend :: "pydict list"

definition get_summary_stats :: "gw_env \<Rightarrow> log_sql \<Rightarrow> int \<Rightarrow> (gw_state, summary_stats) prog" where
  "get_summary_stats env q last_hours =
     (let since = ge_now env - 3600 * last_hours
      in sbind (count_by_result env since) (\<lambda>by_result.
         sbind (top_failure_reasons env since 10) (\<lambda>top_failures.
         sbind (top_failing_users env q since 10) (\<lambda>top_users.
         sbind (top_failing_macs env q since 10) (\<lambda>top_macs.
         sbind (auth_method_distribution env since) (\<lambda>by_method.
         sbind (hourly_trend env since) (\<lambda>trend.
           let attempts = sum_list (map snd by_result);
               success = dict_get_or by_result (PStr ''success'') 0
           in sret \<lparr>su_period_hours = last_hours, su_total = attempts, su_success = success,
                su_failure = attempts - success, su_rate = success_tenths success attempts,
                su_by_result = by_result, su_top_failures = top_failures, su_top_users = top_users,
                su_top_macs = top_macs, su_by_method = by_method, su_trend = trend\<rparr>)))))))"

definition get_stats_by_nas :: "gw_env \<Rightarrow> log_sql \<Rightarrow> int \<Rightarrow> (gw_state, pydict list \<times> int) prog" where
  "get_stats_by_nas env q last_hours =
     sbind (stats_by_nas env q (ge_now env - 3600 * last_hours)) (\<lambda>items. sret (items, last_hours))"

definition get_stats_by_failure_category :: "gw_env \<Rightarrow> log_sql \<Rightarrow> int \<Rightarrow> (gw_state, pydict list \<times> int) prog" where
  "get_stats_by_failure_category env q last_hours =
     sbind (stats_by_failure_category env q (ge_now env - 3600 * last_hours)) (\<lambda>items. sret (items, last_hours))"

definition list_failure_catalog :: "gw_env \<Rightarrow> pyval \<Rightarrow> pyval \<Rightarrow> (gw_state, pydict list) prog" where
  "list_failure_catalog env category search = repo_list_failure_catalog env category search"

definition get_live_feed :: "gw_env \<Rightarrow> int \<Rightarrow> (gw_state, pydict list \<times> int) prog" where
  "get_live_feed env last_seconds =
     (let since = ge_now env - last_seconds
      in sbind (live_feed env since 100) (\<lambda>items. sret (items, since)))"

definition export_logs ::
  "gw_env \<Rightarrow> log_sql \<Rightarrow> int option \<Rightarrow> int option \<Rightarrow> pyval \<Rightarrow> (gw_state, pydict list) prog" where
  "export_logs env q start_time end_time auth_result =
     (if start_time = None \<or> end_time = None
      then sraise (invalid ''start_time and end_time are required for export'')
      else list_logs_for_export env q
             (no_filters\<lparr>lf_start_time := start_time, lf_end_time := end_time,
                lf_texts := if_truthy ''auth_result'' auth_result\<rparr>) 10000)"

section \<open>The numbers add up\<close>

lemma length_filter_in: "x \<notin> set ks \<Longrightarrow> distinct ks \<Longrightarrow>
    length (filter (\<lambda>r. key r \<in> insert x (set ks)) rows)
    = length (filter (\<lambda>r. key r = x) rows) + length (filter (\<lambda>r. key r \<in> set ks) rows)"
  by (induction rows) auto

lemma group_sum: "sum_list (map (\<lambda>(k, rs). int (length rs)) (group_rows key rows)) = int (length rows)"
proof -
  have "sum_list (map (\<lambda>k. int (length (filter (\<lambda>r. key r = k) rows))) ks)
      = int (length (filter (\<lambda>r. key r \<in> set ks) rows))" if "distinct ks" for ks
    using that
  proof (induction ks)
    case (Cons k ks)
    then show ?case using length_filter_in [of k ks key rows] by simp
  qed simp
  from this [of "remdups (map key rows)"] show ?thesis
    by (simp add: group_rows_def comp_def)
qed

text \<open>A listing of a permutation of distinct keys, as a dictionary, has the same values.\<close>

lemma count_dict:
  assumes "distinct (map fst kvs)"
  shows "fold (\<lambda>(k, v) d. dict_set k v d) kvs [] = kvs"
proof -
  have "fold (\<lambda>(k, v) d. dict_set k v d) kvs acc = acc @ kvs"
    if "distinct (map fst (acc @ kvs))" for acc
    using that
  proof (induction kvs arbitrary: acc)
    case (Cons p kvs)
    obtain k v where p: "p = (k, v)" by (cases p)
    have "dict_set k v acc = acc @ [(k, v)]"
      using Cons.prems p by (induction acc) auto
    with Cons.IH [of "acc @ [(k, v)]"] Cons.prems p show ?case by simp
  qed simp
  from this [of "[]"] assms show ?thesis by simp
qed

lemma dict_get_member: "dict_ok d \<Longrightarrow> (k, v) \<in> set d \<Longrightarrow> dict_get d k = Some v"
proof (induction d)
  case (Cons p d)
  then show ?case by (cases p) (auto simp: dict_ok_def image_iff)
qed simp

lemma dict_get_missing: "k \<notin> fst ` set d \<Longrightarrow> dict_get d k = None"
  by (induction d) auto

lemma group_keys: "map fst (group_rows key rows) = remdups (map key rows)"
  by (simp add: group_rows_def comp_def)

lemma group_member:
  "(k, rs) \<in> set (group_rows key rows) \<longleftrightarrow> k \<in> key ` set rows \<and> rs = filter (\<lambda>r. key r = k) rows"
  by (auto simp: group_rows_def)

text \<open>The counts by result, whatever the order of the database.\<close>

lemma by_result_counts:
  assumes "count_by_result env since g = (Inr d, g')"
    and order: "\<forall>k rows. mset (ge_order env k rows) = mset rows"
  defines "rows \<equiv> filter (since_clause (Some since)) (gd_table (gs_db g) ''radius_auth_log'')"
  shows "dict_ok d" and "sum_list (map snd d) = int (length rows)" and "g' = g"
    and "dict_get_or d k 0 = int (length (filter (\<lambda>r. py_get r ''auth_result'' = k) rows))"
proof -
  let ?groups = "group_rows (\<lambda>r. py_get r ''auth_result'') rows"
  let ?items = "map (\<lambda>(k, rs). [(''auth_result'', k), (''cnt'', count_of rs)]) ?groups"
  let ?kv = "\<lambda>r. (py_get r ''auth_result'', case py_get r ''cnt'' of PInt n \<Rightarrow> n | _ \<Rightarrow> 0)"
  let ?d = "map ?kv (ge_order env ''cnt DESC'' ?items)"
  have alive: "\<not> gs_aborted g" using assms(1)
    by (auto simp: count_by_result_def select_rows_def statement_def sbind_def split: if_splits)
  have run: "d = fold (\<lambda>(k, v) d. dict_set k v d) ?d []" "g' = g"
    using assms(1) alive
    by (auto simp: count_by_result_def select_rows_def statement_def sbind_def rows_def fold_map comp_def)
  have kv: "map ?kv ?items = map (\<lambda>(k, rs). (k, int (length rs))) ?groups"
    by (auto simp: py_get_def dict_get_or_def count_of_def)
  have same: "mset ?d = mset (map (\<lambda>(k, rs). (k, int (length rs))) ?groups)"
  proof -
    have "mset ?d = mset (map ?kv ?items)" unfolding mset_map order [rule_format] by (rule refl)
    then show ?thesis unfolding kv .
  qed
  have "mset (map fst ?d) = mset (map fst ?groups)"
    using arg_cong [OF same, of "image_mset fst"]
    by (simp only: mset_map [symmetric] map_map) (simp add: comp_def case_prod_unfold)
  then have keys: "distinct (map fst ?d)"
    using mset_eq_imp_distinct_iff [of "map fst ?d" "map fst ?groups"] by (simp add: group_keys)
  have d: "d = ?d" using count_dict [OF keys] run by simp
  show ok: "dict_ok d" using keys d by (simp add: dict_ok_def)
  show "g' = g" by (rule run(2))
  have "mset (map snd d) = mset (map (\<lambda>(k, rs). int (length rs)) ?groups)"
    using arg_cong [OF same, of "image_mset snd"] unfolding d
    by (simp only: mset_map [symmetric] map_map) (simp add: comp_def case_prod_unfold)
  then have "sum_list (map snd d) = sum_list (map (\<lambda>(k, rs). int (length rs)) ?groups)"
    by (metis sum_mset_sum_list)
  then show "sum_list (map snd d) = int (length rows)" by (simp add: group_sum)
  have members: "set d = set (map (\<lambda>(k, rs). (k, int (length rs))) ?groups)"
    by (subst d) (rule mset_eq_setD [OF same])
  show "dict_get_or d k 0 = int (length (filter (\<lambda>r. py_get r ''auth_result'' = k) rows))"
  proof (cases "k \<in> (\<lambda>r. py_get r ''auth_result'') ` set rows")
    case True
    then have "(k, filter (\<lambda>r. py_get r ''auth_result'' = k) rows) \<in> set ?groups" by (simp add: group_member)
    then have "(k, int (length (filter (\<lambda>r. py_get r ''auth_result'' = k) rows))) \<in> set d"
      unfolding members by force
    from dict_get_member [OF ok this] show ?thesis by (simp add: dict_get_or_def)
  next
    case False
    then have "k \<notin> fst ` set d" unfolding members by (auto simp: group_member)
    from dict_get_missing [OF this] have "dict_get_or d k 0 = 0" by (simp add: dict_get_or_def)
    moreover have "filter (\<lambda>r. py_get r ''auth_result'' = k) rows = []" using False by (auto simp: filter_empty_conv)
    ultimately show ?thesis by simp
  qed
qed

lemma sum_of_counts:
  fixes f :: "pydict \<Rightarrow> int"
  assumes "\<forall>k rows. mset (ge_order env k rows) = mset rows"
  shows "sum_list (map f (ge_order env k rows)) = sum_list (map f rows)"
  using assms by (metis mset_map sum_mset_sum_list)

definition row_count :: "pydict \<Rightarrow> int" where
  "row_count r = (case py_get r ''count'' of PInt n \<Rightarrow> n | _ \<Rightarrow> 0)"

text \<open>
  C33: The numbers of the summary add up. For a log whose results are never null, and a database that
  only orders rows, the total is the number of rows since the start of the window, successes and
  failures are the numbers of rows with and without the result success, the counts by result are
  those of the rows, and the hourly trend sums up to the total; no top list has more than ten rows.
\<close>

theorem summary_adds_up:
  assumes "get_summary_stats env q last_hours g = (Inr su, g')"
    and "\<forall>k rows. mset (ge_order env k rows) = mset rows"
    and "\<forall>r \<in> set (gd_table (gs_db g) ''radius_auth_log''). py_get r ''auth_result'' \<noteq> PNone"
  shows "let rows = filter (since_clause (Some (ge_now env - 3600 * last_hours)))
           (gd_table (gs_db g) ''radius_auth_log'')
    in su_total su = int (length rows)
     \<and> su_success su = int (length (filter (\<lambda>r. py_get r ''auth_result'' = PStr ''success'') rows))
     \<and> su_failure su = int (length (filter not_success rows))
     \<and> (\<forall>k. dict_get_or (su_by_result su) k 0 = int (length (filter (\<lambda>r. py_get r ''auth_result'' = k) rows)))
     \<and> sum_list (map row_count (su_trend su)) = su_total su
     \<and> length (su_top_failures su) \<le> 10 \<and> length (su_top_users su) \<le> 10 \<and> length (su_top_macs su) \<le> 10"
proof -
  define since where "since = ge_now env - 3600 * last_hours"
  define rows where "rows = filter (since_clause (Some since)) (gd_table (gs_db g) ''radius_auth_log'')"
  from assms(1) obtain d g1 where d: "count_by_result env since g = (Inr d, g1)"
    by (auto simp: get_summary_stats_def since_def Let_def elim!: sbind_InrE)
  note counts = by_result_counts [OF d assms(2)]
  have "\<not> gs_aborted g" using d
    by (auto simp: count_by_result_def select_rows_def statement_def sbind_def split: if_splits)
  with assms(1) d counts(3) have su: "su_total su = sum_list (map snd d)"
      "su_success su = dict_get_or d (PStr ''success'') 0"
      "su_failure su = sum_list (map snd d) - dict_get_or d (PStr ''success'') 0" "su_by_result su = d"
    and lists: "length (su_top_failures su) \<le> 10 \<and> length (su_top_users su) \<le> 10 \<and> length (su_top_macs su) \<le> 10"
    and trend: "su_trend su = ge_order env ''hour''
         (map (\<lambda>((h, a), rs). [(''hour'', h), (''auth_result'', a), (''count'', count_of rs)])
           (group_rows (\<lambda>r. (hour_of r, py_get r ''auth_result'')) rows))"
    by (auto simp: get_summary_stats_def Let_def since_def [symmetric] sbind_def top_failure_reasons_def
        top_failing_users_def top_failing_macs_def auth_method_distribution_def hourly_trend_def
        select_rows_def statement_def rows_def)
  have "int (length rows) = int (length (filter (\<lambda>r. py_get r ''auth_result'' = PStr ''success'') rows))
      + int (length (filter not_success rows))"
  proof -
    have "filter not_success rows = filter (\<lambda>r. py_get r ''auth_result'' \<noteq> PStr ''success'') rows"
      using assms(3) by (intro filter_cong refl) (auto simp: rows_def not_success_def)
    then show ?thesis using sum_length_filter_compl [of "\<lambda>r. py_get r ''auth_result'' = PStr ''success''" rows] by simp
  qed
  moreover have "sum_list (map row_count (su_trend su)) = int (length rows)"
  proof -
    have "sum_list (map row_count (su_trend su))
        = sum_list (map (\<lambda>(k, rs). int (length rs)) (group_rows (\<lambda>r. (hour_of r, py_get r ''auth_result'')) rows))"
      unfolding trend sum_of_counts [OF assms(2)] map_map
      by (rule arg_cong [where f = sum_list], rule map_cong [OF refl])
        (auto simp: row_count_def py_get_def dict_get_or_def count_of_def)
    then show ?thesis by (simp only: group_sum)
  qed
  ultimately show ?thesis
    using lists counts(2,4) unfolding Let_def since_def [symmetric] rows_def [symmetric]
    by (simp add: su)
qed

definition ex_auth_row :: "int \<Rightarrow> string \<Rightarrow> pydict" where
  "ex_auth_row t r = [(''id'', PInt t), (''timestamp'', PInt t), (''auth_result'', PStr r), (''username'', PStr ''ann'')]"

definition ex_auth_log :: gw_state where
  "ex_auth_log = (let d = \<lparr>gd_table = (\<lambda>t. [])(''radius_auth_log'' :=
       [ex_auth_row 900 ''success'', ex_auth_row 950 ''reject'', ex_auth_row 980 ''reject'', ex_auth_row (- 5000) ''error'']),
     gd_audit = [], gd_seq = 0\<rparr> in ex_gw_state\<lparr>gs_db := d, gs_committed := d\<rparr>)"

definition ex_log_sql :: log_sql where
  "ex_log_sql = \<lparr>lq_inet = Some, lq_distinct = remdups, lq_max = (\<lambda>vs. PNone)\<rparr>"

theorem summary_adds_up_witness:
  "\<exists>su. fst (get_summary_stats ex_gw_env ex_log_sql 1 ex_auth_log) = Inr su \<and> su_total su = 3 \<and> su_failure su = 2
     \<and> sum_list (map row_count (su_trend su)) = 3"
proof -
  define run where "run = get_summary_stats ex_gw_env ex_log_sql 1 ex_auth_log"
  have "\<not> Sum_Type.isl (fst run)" unfolding run_def by code_simp
  then obtain su where "fst run = Inr su" by (cases "fst run") auto
  then have run: "get_summary_stats ex_gw_env ex_log_sql 1 ex_auth_log = (Inr su, snd run)"
    unfolding run_def by (metis prod.collapse)
  have "\<forall>k rows. mset (ge_order ex_gw_env k rows) = mset rows" by (simp add: ex_gw_env_def)
  moreover have "\<forall>r \<in> set (gd_table (gs_db ex_auth_log) ''radius_auth_log''). py_get r ''auth_result'' \<noteq> PNone"
    by (simp add: ex_auth_log_def ex_auth_row_def Let_def py_get_def dict_get_or_def)
  ultimately have sums: "su_total su = int (length (filter (since_clause (Some (ge_now ex_gw_env - 3600 * 1)))
        (gd_table (gs_db ex_auth_log) ''radius_auth_log'')))"
    "su_failure su = int (length (filter not_success (filter (since_clause (Some (ge_now ex_gw_env - 3600 * 1)))
        (gd_table (gs_db ex_auth_log) ''radius_auth_log''))))"
    "sum_list (map row_count (su_trend su)) = su_total su"
    using summary_adds_up [OF run] unfolding Let_def by blast+
  have "map (\<lambda>f. length (f (filter (since_clause (Some (ge_now ex_gw_env - 3600 * 1)))
        (gd_table (gs_db ex_auth_log) ''radius_auth_log'')))) [id, filter not_success] = [3, 2]"
    by code_simp
  with sums run show ?thesis by (intro exI [of _ su]) simp
qed

end
