(* ===== verification/Event_Service.thy ===== *)
theory Event_Service
  imports Engine_Messages Devices Device_Inventory
begin

text \<open>
  The event service: \<open>services/event_service\<close>. It stores events and policy actions (\<open>main.py\<close>), collects
  the failed logons that Wazuh saw on the domain controllers and enriches the RADIUS log with them
  (\<open>integrations/ad_event_collector.py\<close>), and asks Wazuh for alerts and agents (\<open>wazuh.py\<close>). How
  PostgreSQL reads a \<open>jsonb\<close> and the driver a time, and what the HTTP interfaces answer, is a record.
\<close>

record event_env =
  ee_gw :: gw_env
  ee_inline_ok :: bool
  ee_json :: "string \<Rightarrow> pyval option"
  ee_time :: "pyval \<Rightarrow> int option"
  ee_authenticate :: "string result"
  ee_get :: "string \<Rightarrow> string \<Rightarrow> pydict \<Rightarrow> int \<times> pyval"

section \<open>Events\<close>

text \<open>A text bound where \<open>jsonb\<close> is expected.\<close>

definition as_jsonb :: "event_env \<Rightarrow> string \<Rightarrow> (gw_state, pyval) prog" where
  "as_jsonb env t = statement (\<lambda>d. (case ee_json env t of
     None \<Rightarrow> Inl (DbError ''invalid input syntax for type json'') | Some v \<Rightarrow> Inr v, d))"

definition insert_event ::
  "event_env \<Rightarrow> pyval \<Rightarrow> pyval \<Rightarrow> pyval \<Rightarrow> pyval \<Rightarrow> pyval \<Rightarrow> string \<Rightarrow> (gw_state, unit) prog" where
  "insert_event env event_type severity device_id source message details =
     with_inline_cast (ee_inline_ok env)
       (sbind (as_jsonb env details) (\<lambda>v.
        sbind (insert_row (ee_gw env) ''events''
                 [(''event_type'', event_type), (''severity'', severity), (''device_id'', device_id),
                  (''source'', source), (''message'', message), (''details'', v)]) (\<lambda>_. sret ())))"

definition handle_event :: "event_env \<Rightarrow> pydict \<Rightarrow> ('z svc_state_scheme, unit) prog" where
  "handle_event env data =
     get_db_context (insert_event env
       (dict_get_or data ''event_type'' (PStr ''unknown'')) (dict_get_or data ''severity'' (PStr ''info''))
       (py_get data ''device_id'') (dict_get_or data ''source'' (PStr ''unknown''))
       (dict_get_or data ''message'' (PStr [])) (py_str (dict_get_or data ''details'' (PStr ''{}''))))"

definition handle_policy_action :: "event_env \<Rightarrow> pydict \<Rightarrow> ('z svc_state_scheme, unit) prog" where
  "handle_policy_action env data =
     get_db_context (insert_event env (PStr ''policy_action'') (PStr ''medium'') (py_get data ''device_id'')
       (PStr ''policy_engine'')
       (PStr (''Policy action executed: '' @ py_str (dict_get_or data ''type'' (PStr ''unknown''))))
       (py_str (PDict data)))"

text \<open>The subscriptions \<open>orw.event.>\<close> and \<open>orw.policy.action.>\<close>.\<close>

definition event_handlers :: "event_env \<Rightarrow> string \<Rightarrow> (pydict \<Rightarrow> ('z svc_state_scheme, unit) prog) list" where
  "event_handlers env subject =
     (if py_startswith subject ''orw.event.'' then [handle_event env] else [])
     @ (if py_startswith subject ''orw.policy.action.'' then [handle_policy_action env] else [])"

section \<open>Logons on the domain controllers\<close>

definition AD_EVENT_MAP :: "(string, (string, string \<times> string) dict) dict" where
  "AD_EVENT_MAP =
     [(''4625'',
       [(''0xC0000064'', (''AD_MACHINE_NOT_FOUND'', ''User name does not exist'')),
        (''0xC000006A'', (''AD_INVALID_CREDENTIALS'', ''Wrong password'')),
        (''0xC000006D'', (''AD_INVALID_CREDENTIALS'', ''Bad username or authentication info'')),
        (''0xC000006E'', (''AD_LOGON_HOURS'', ''Account logon time restriction violation'')),
        (''0xC000006F'', (''AD_LOGON_WORKSTATION'', ''Logon from unauthorized workstation'')),
        (''0xC0000070'', (''AD_LOGON_WORKSTATION'', ''Logon from unauthorized workstation'')),
        (''0xC0000071'', (''AD_PASSWORD_EXPIRED'', ''Password has expired'')),
        (''0xC0000072'', (''AD_ACCOUNT_DISABLED'', ''Account is disabled'')),
        (''0xC000009A'', (''AD_ACCOUNT_DISABLED'', ''Insufficient system resources'')),
        (''0xC0000193'', (''AD_ACCOUNT_EXPIRED'', ''Account has expired'')),
        (''0xC0000224'', (''AD_PASSWORD_MUST_CHANGE'', ''Password must change at next logon'')),
        (''0xC0000234'', (''AD_ACCOUNT_LOCKED'', ''Account is locked out'')),
        (''0xC0000413'', (''AD_LOGON_HOURS'', ''Authentication firewall - logon hours''))]),
      (''4771'',
       [(''0x6'', (''AD_MACHINE_NOT_FOUND'', ''Client not found in Kerberos database'')),
        (''0x12'', (''AD_ACCOUNT_DISABLED'', ''Client'' @ [CHR 0x27] @ ''s credentials have been revoked'')),
        (''0x17'', (''AD_PASSWORD_EXPIRED'', ''Password has expired'')),
        (''0x18'', (''AD_INVALID_CREDENTIALS'',
           ''Pre-authentication information was invalid (wrong password)'')),
        (''0x25'', (''AD_LOGON_HOURS'', ''Clock skew too great''))]),
      (''4776'',
       [(''0xC0000064'', (''AD_MACHINE_NOT_FOUND'', ''User name does not exist'')),
        (''0xC000006A'', (''AD_INVALID_CREDENTIALS'', ''Wrong password'')),
        (''0xC0000234'', (''AD_ACCOUNT_LOCKED'', ''Account locked out''))])]"

definition LOGON_TYPES :: "(int, string) dict" where
  "LOGON_TYPES =
     [(2, ''Interactive (local console)''), (3, ''Network (SMB, RADIUS, etc.)''), (4, ''Batch''),
      (5, ''Service''), (7, ''Unlock''), (8, ''NetworkCleartext (IIS basic auth)''),
      (9, ''NewCredentials (RunAs /netonly)''), (10, ''RemoteInteractive (RDP)''),
      (11, ''CachedInteractive (cached domain credentials)'')]"

text \<open>\<open>value.get(key, default)\<close> of what may be no dictionary, and \<open>int(value)\<close>.\<close>

definition get_of :: "pyval \<Rightarrow> string \<Rightarrow> pyval \<Rightarrow> pyval result" where
  "get_of v key other = rbind (as_dict v) (\<lambda>d. Inr (dict_get_or d key other))"

definition int_of :: "pyval \<Rightarrow> int result" where
  "int_of v = (case v of
     PInt n \<Rightarrow> Inr n
   | PBool b \<Rightarrow> Inr (if b then 1 else 0)
   | PStr t \<Rightarrow> (case parse_int t of Some n \<Rightarrow> Inr n | None \<Rightarrow> Inl (ValueError ''invalid literal for int() with base 10''))
   | _ \<Rightarrow> Inl (TypeError ''int() argument must be a string, a bytes-like object or a real number''))"

definition backslash :: char where "backslash = CHR 0x5C"

text \<open>The code and the description of a failure; a key that cannot be hashed raises.\<close>

definition mapped_failure :: "pyval \<Rightarrow> pyval \<Rightarrow> (string \<times> string) option result" where
  "mapped_failure event_id lookup_code =
     (if \<not> hashable lookup_code then Inl (TypeError ''unhashable type'')
      else Inr (case lookup_code of
             PStr code \<Rightarrow> dict_get (dict_get_or AD_EVENT_MAP (py_str event_id) []) code
           | _ \<Rightarrow> None))"

definition logon_text :: "pyval \<Rightarrow> pyval result" where
  "logon_text logon_type =
     (if \<not> truthy logon_type then Inr PNone
      else rbind (int_of logon_type) (\<lambda>n.
        Inr (case dict_get LOGON_TYPES n of Some t \<Rightarrow> PStr t | None \<Rightarrow> logon_type)))"

record ad_event =
  ad_enrichment :: pydict
  ad_user :: pyval
  ad_username :: pyval
  ad_timestamp :: pyval

definition read_ad_event :: "pyval \<Rightarrow> ad_event result" where
  "read_ad_event alert =
     rbind (get_of alert ''data'' (PDict [])) (\<lambda>dat.
     rbind (get_of dat ''win'' (PDict [])) (\<lambda>win_data.
     rbind (get_of win_data ''eventdata'' (PDict [])) (\<lambda>eventdata.
     rbind (get_of win_data ''system'' (PDict [])) (\<lambda>system.
     rbind (as_dict system) (\<lambda>system_data.
     rbind (as_dict alert) (\<lambda>al.
     rbind (as_dict eventdata) (\<lambda>event_data.
       let field = (\<lambda>c. dict_get_or event_data c (PStr []));
           event_id = dict_get_or system_data ''eventID'' (PStr []);
           target_user = field ''targetUserName''; target_domain = field ''targetDomainName'';
           status_code = field ''status''; sub_status = field ''subStatus''
       in rbind (mapped_failure event_id (py_or sub_status status_code)) (\<lambda>mapped.
          rbind (logon_text (field ''logonType'')) (\<lambda>logon.
            Inr \<lparr>ad_enrichment =
              [(''ad_event_id'', event_id), (''ad_event_timestamp'', dict_get_or al ''timestamp'' (PStr [])),
               (''ad_target_user'', if truthy target_domain
                  then PStr (py_str target_domain @ [backslash] @ py_str target_user) else target_user),
               (''ad_source_ip'', field ''ipAddress''), (''ad_workstation'', field ''workstationName''),
               (''ad_dc_name'', dict_get_or system_data ''computer'' (PStr [])),
               (''ad_logon_type'', logon), (''ad_status_code'', status_code), (''ad_sub_status'', sub_status),
               (''ad_failure_reason'', case mapped of Some (c, desc) \<Rightarrow> PStr desc | None \<Rightarrow> field ''failureReason''),
               (''ad_failure_code'', case mapped of Some (c, desc) \<Rightarrow> PStr c | None \<Rightarrow> PNone)],
              ad_user = target_user,
              ad_username = (if truthy target_domain
                then PStr (py_str target_user @ ''@'' @ py_str target_domain) else target_user),
              ad_timestamp = dict_get_or al ''timestamp'' (PStr [])\<rparr>)))))))))"

text \<open>
  \<open>str({...}).replace("'", '"')\<close>: the Python text with every single quote made a double quote.
\<close>

definition enrichment_text :: "pydict \<Rightarrow> string" where
  "enrichment_text enrichment =
     replace_char (CHR 0x27) (CHR 0x22)
       (py_str (PDict (project [''ad_event_id'', ''ad_dc_name'', ''ad_workstation'', ''ad_logon_type''] enrichment)))"

text \<open>\<open>a || b\<close> of two \<open>jsonb\<close> values that are objects; null with anything is null.\<close>

definition jsonb_concat :: "pyval \<Rightarrow> pyval \<Rightarrow> pyval" where
  "jsonb_concat a b = (case (a, b) of (PDict x, PDict y) \<Rightarrow> PDict (dict_merge x y) | _ \<Rightarrow> PNone)"

definition coalesce :: "pyval \<Rightarrow> pyval \<Rightarrow> pyval" where
  "coalesce a b = (if a = PNone then b else a)"

definition enriches :: "string \<Rightarrow> int \<Rightarrow> pydict \<Rightarrow> bool" where
  "enriches pat t row \<longleftrightarrow>
     ilike_column row ''username'' pat
     \<and> py_get row ''auth_result'' \<notin> {PNone, PStr ''success''}
     \<and> py_get row ''ad_error_code'' = PNone
     \<and> py_get row ''timestamp'' = PInt t"

definition enriched :: "pydict \<Rightarrow> pyval \<Rightarrow> pydict \<Rightarrow> pydict" where
  "enriched enrichment js row =
     assign [(''ad_error_code'', coalesce (py_get enrichment ''ad_failure_code'') (py_get row ''ad_error_code'')),
             (''ad_error_message'', coalesce (py_get enrichment ''ad_failure_reason'') (py_get row ''ad_error_message'')),
             (''failure_reason'', coalesce (py_get enrichment ''ad_failure_reason'') (py_get row ''failure_reason'')),
             (''request_attributes'', jsonb_concat (py_get row ''request_attributes'') js)] row"

text \<open>An update whose new values depend on the row.\<close>

definition update_each_row ::
  "gw_env \<Rightarrow> string \<Rightarrow> (pydict \<Rightarrow> bool) \<Rightarrow> (pydict \<Rightarrow> pydict) \<Rightarrow> (gw_state, pydict list) prog" where
  "update_each_row env table P f =
     statement (\<lambda>d. checked env (map f (filter P (gd_table d table)))
       (put_table table (map (\<lambda>r. if P r then f r else r) (gd_table d table)) d))"

definition as_timestamp :: "event_env \<Rightarrow> pyval \<Rightarrow> (gw_state, int) prog" where
  "as_timestamp env v = statement (\<lambda>d. (case ee_time env v of
     None \<Rightarrow> Inl (DbError ''invalid input for query argument'') | Some t \<Rightarrow> Inr t, d))"

text \<open>\<open>username.split('@')[0]\<close>, and an attribute error for what is no string.\<close>

definition before_at :: "pyval \<Rightarrow> string result" where
  "before_at v = (case v of PStr t \<Rightarrow> Inr (takeWhile (\<lambda>c. c \<noteq> CHR ''@'') t) | _ \<Rightarrow> Inl (AttributeError ''split''))"

definition enrich_radius_log :: "event_env \<Rightarrow> pyval \<Rightarrow> pyval \<Rightarrow> pydict \<Rightarrow> ('z svc_state_scheme, unit) prog" where
  "enrich_radius_log env username timestamp enrichment =
     get_db_context
       (sbind (slift (before_at username)) (\<lambda>name.
        with_inline_cast (ee_inline_ok env)
          (sbind (as_jsonb env (enrichment_text enrichment)) (\<lambda>js.
           sbind (as_timestamp env timestamp) (\<lambda>t.
           sbind (update_each_row (ee_gw env) ''radius_auth_log'' (enriches (''%'' @ name @ ''%'') t)
                    (enriched enrichment js)) (\<lambda>_. sret ()))))))"

definition process_ad_body :: "event_env \<Rightarrow> pyval \<Rightarrow> ('z svc_state_scheme, unit) prog" where
  "process_ad_body env alert =
     sbind (slift (read_ad_event alert)) (\<lambda>e.
     sbind (if truthy (ad_user e) then enrich_radius_log env (ad_username e) (ad_timestamp e) (ad_enrichment e)
            else sret ()) (\<lambda>_.
       svc_publish (ee_gw env) ''orw.ad.auth_event'' (ad_enrichment e)))"

definition process_ad_event :: "event_env \<Rightarrow> pyval \<Rightarrow> ('z svc_state_scheme, unit) prog" where
  "process_ad_event env alert = sbind (attempt (process_ad_body env alert)) (\<lambda>_. sret ())"

section \<open>Polling Wazuh\<close>

text \<open>What the collector keeps besides the tables: its token and the time of the last poll.\<close>

record ad_state = svc_state +
  ad_token :: "string option"
  ad_last_poll :: "int option"

definition authenticate_wazuh :: "event_env \<Rightarrow> ('z ad_state_scheme, unit) prog" where
  "authenticate_wazuh env =
     sbind (slift (ee_authenticate env)) (\<lambda>token. smod (\<lambda>s. s\<lparr>ad_token := Some token\<rparr>))"

text \<open>\<open>if not self._wazuh_token\<close>: an empty token counts as none.\<close>

definition ensure_token :: "event_env \<Rightarrow> ('z ad_state_scheme, string) prog" where
  "ensure_token env =
     sbind (sget ad_token) (\<lambda>t.
     sbind (if t = None \<or> t = Some [] then authenticate_wazuh env else sret ()) (\<lambda>_.
       sget (\<lambda>s. case ad_token s of Some t \<Rightarrow> t | None \<Rightarrow> [])))"

definition raise_for_status :: "int \<Rightarrow> unit result" where
  "raise_for_status status = (if 200 \<le> status \<and> status < 300 then Inr () else Inl (HttpError status ''HTTPStatusError''))"

text \<open>\<open>response.json().get("data", {}).get("affected_items", [])\<close>.\<close>

definition affected_items :: "pyval \<Rightarrow> pyval result" where
  "affected_items json = rbind (get_of json ''data'' (PDict [])) (\<lambda>dat. get_of dat ''affected_items'' (PList []))"

definition alert_params :: pydict where
  "alert_params =
     [(''q'', PStr ''rule.groups=windows,authentication_failed;data.win.system.eventID=4625,4771,4776,4740''),
      (''limit'', PInt 500), (''sort'', PStr ''-timestamp'')]"

definition poll_wazuh :: "event_env \<Rightarrow> ('z ad_state_scheme, unit) prog" where
  "poll_wazuh env =
     sbind (ensure_token env) (\<lambda>token.
       case ee_get env ''/alerts'' token alert_params of (status, json) \<Rightarrow>
         if status = 401 then authenticate_wazuh env
         else
           sbind (slift (raise_for_status status)) (\<lambda>_.
           sbind (slift (affected_items json)) (\<lambda>items.
           sbind (smod (\<lambda>s. s\<lparr>ad_last_poll := Some (ge_now (ee_gw env))\<rparr>)) (\<lambda>_.
           sbind (slift (py_iter items)) (\<lambda>alerts.
           sbind (smap (process_ad_event env) alerts) (\<lambda>_. sret ()))))))"

text \<open>The loop of the collector, for a number of rounds; an error of a round is logged.\<close>

fun collector_rounds :: "event_env \<Rightarrow> string \<Rightarrow> nat \<Rightarrow> ('z ad_state_scheme, unit) prog" where
  "collector_rounds env mode 0 = sret ()"
| "collector_rounds env mode (Suc n) =
     sbind (attempt (if mode = ''wazuh'' then poll_wazuh env else sret ())) (\<lambda>_. collector_rounds env mode n)"

section \<open>Lockouts\<close>

definition lockout_pattern :: "pyval \<Rightarrow> string result" where
  "lockout_pattern v =
     (case v of
        PStr t \<Rightarrow> Inr (''%'' @ (if backslash \<in> set t then snd (split_last backslash t) else t) @ ''%'')
      | PList xs \<Rightarrow> if py_mem (PStr [backslash]) xs then Inl (AttributeError ''split'') else Inr (''%'' @ py_str v @ ''%'')
      | PDict d \<Rightarrow> if [backslash] \<in> fst ` set d then Inl (AttributeError ''split'') else Inr (''%'' @ py_str v @ ''%'')
      | _ \<Rightarrow> Inl (TypeError ''argument is not iterable''))"

definition handle_account_lockout :: "event_env \<Rightarrow> pydict \<Rightarrow> ('z svc_state_scheme, unit) prog" where
  "handle_account_lockout env data =
     (let username = dict_get_or data ''ad_target_user'' (PStr []);
          dc_name = dict_get_or data ''ad_dc_name'' (PStr [])
      in sbind (get_db_context
           (sbind (slift (lockout_pattern username)) (\<lambda>pat.
            sbind (select_rows ''radius_sessions'' (\<lambda>rs. ilike_column rs ''username'' pat
                     \<and> py_get rs ''status'' = PStr ''active'')) (\<lambda>rows.
              sret (map (project [''id'', ''calling_station_id'', ''nas_ip'', ''nas_port_id'']) rows))))) (\<lambda>sessions.
         if sessions = [] then sret ()
         else svc_publish (ee_gw env) ''orw.ad.account_lockout''
                [(''username'', username), (''dc_name'', dc_name),
                 (''affected_sessions'', PInt (int (length sessions))),
                 (''sessions'', PList (map PDict sessions))]))"

section \<open>The Wazuh client\<close>

definition wazuh_alerts :: "event_env \<Rightarrow> pyval \<Rightarrow> int \<Rightarrow> int \<Rightarrow> ('z ad_state_scheme, pyval) prog" where
  "wazuh_alerts env agent_id limit offset =
     sbind (ensure_token env) (\<lambda>token.
       case ee_get env ''/alerts'' token
              ([(''limit'', PInt limit), (''offset'', PInt offset)] @ if_truthy ''agent_id'' agent_id) of (status, json) \<Rightarrow>
         sbind (slift (raise_for_status status)) (\<lambda>_. slift (affected_items json)))"

definition wazuh_agent_by_ip :: "event_env \<Rightarrow> pyval \<Rightarrow> ('z ad_state_scheme, pyval) prog" where
  "wazuh_agent_by_ip env ip =
     sbind (ensure_token env) (\<lambda>token.
       case ee_get env ''/agents'' token [(''ip'', ip), (''limit'', PInt 1)] of (status, json) \<Rightarrow>
         sbind (slift (raise_for_status status)) (\<lambda>_.
         sbind (slift (affected_items json)) (\<lambda>items.
           if \<not> truthy items then sret PNone
           else case items of PList (x # xs) \<Rightarrow> sret x | PStr (c # cs) \<Rightarrow> sret (PStr [c]) | PDict d \<Rightarrow> sraise (KeyError ''0'') | _ \<Rightarrow> sraise (TypeError ''object is not subscriptable''))))"

section \<open>Statements that fail\<close>

text \<open>A service whose transaction fails before it is at rest again leaves everything as it was.\<close>

lemma failing_context:
  assumes "fst (body (sv_store s)) = Inl e" and "at_rest (sv_store s)"
    and "\<And>X. keeps (\<lambda>g. outside g = X) body"
  shows "get_db_context body s = (Inl e, s)"
proof -
  let ?g = "sv_store s"
  have "outside (snd (body ?g)) = outside ?g" by (rule insideD [OF assms(3)])
  moreover obtain g where body: "body ?g = (Inl e, g)" using assms(1) by (metis prod.collapse)
  ultimately have out: "outside g = outside ?g" by simp
  have "rollback g = ?g"
    using out at_restD [OF assms(2)] by (cases g; cases ?g) (auto simp: rollback_def outside_def at_rest_def)
  then show ?thesis
    using body by (simp add: get_db_context_def in_store_def in_request_def)
qed

lemma inside_event_statements [inside_intros]:
  "keeps (\<lambda>g. outside g = X) (as_jsonb env t)" "keeps (\<lambda>g. outside g = X) (as_timestamp env v)"
  "keeps (\<lambda>g. outside g = X) (update_each_row gw table P f)"
  unfolding as_jsonb_def as_timestamp_def update_each_row_def by (rule inside_statement)+

lemma as_jsonb_None:
  "ee_json env t = None \<Longrightarrow> \<exists>e. fst (sbind (as_jsonb env t) f g) = Inl e"
  by (auto simp: sbind_def as_jsonb_def statement_def)

lemma inline_cast_fails:
  "(\<And>g. \<exists>e. fst (m g) = Inl e) \<Longrightarrow> \<exists>e. fst (with_inline_cast inline_ok m g) = Inl e"
  by (auto simp: with_inline_cast_def statement_def)

lemma insert_event_fails:
  assumes "ee_json env details = None" and "at_rest (sv_store s)"
  shows "\<exists>e. get_db_context (insert_event env t sev dev src msg details) s = (Inl e, s)"
proof -
  have "\<exists>e. fst (insert_event env t sev dev src msg details (sv_store s)) = Inl e"
    unfolding insert_event_def by (intro inline_cast_fails as_jsonb_None assms(1))
  then obtain e where e: "fst (insert_event env t sev dev src msg details (sv_store s)) = Inl e" ..
  have "keeps (\<lambda>g. outside g = X) (insert_event env t sev dev src msg details)" for X
    unfolding insert_event_def by (intro inside_intros keeps_intros)
  from failing_context [OF e assms(2) this] show ?thesis by blast
qed

section \<open>Enrichment comes to rest\<close>

definition log_rows :: "'z svc_state_scheme \<Rightarrow> pydict list" where
  "log_rows s = gd_table (gs_db (sv_store s)) ''radius_auth_log''"

text \<open>The failed rows that have no code of the directory yet.\<close>

definition open_row :: "pydict \<Rightarrow> bool" where
  "open_row row \<longleftrightarrow> py_get row ''auth_result'' \<notin> {PNone, PStr ''success''} \<and> py_get row ''ad_error_code'' = PNone"

abbreviation open_rows :: "pydict list \<Rightarrow> nat" where
  "open_rows rows \<equiv> length (filter open_row rows)"

text \<open>How many of some alerts, taken one after the other, change the log.\<close>

fun effective_alerts :: "event_env \<Rightarrow> pyval list \<Rightarrow> 'z svc_state_scheme \<Rightarrow> nat" where
  "effective_alerts env [] s = 0"
| "effective_alerts env (a # alerts) s =
     (let s' = snd (process_ad_event env a s)
      in (if log_rows s' = log_rows s then 0 else 1) + effective_alerts env alerts s')"

text \<open>The alert names a failure that the table of the events knows.\<close>

definition names_failure :: "pyval \<Rightarrow> bool" where
  "names_failure alert \<longleftrightarrow> (\<forall>e. read_ad_event alert = Inr e \<longrightarrow> py_get (ad_enrichment e) ''ad_failure_code'' \<noteq> PNone)"

lemma enriched_code:
  "py_get en ''ad_failure_code'' \<noteq> PNone \<Longrightarrow> py_get (enriched en js row) ''ad_error_code'' \<noteq> PNone"
  unfolding enriched_def by (simp add: assign_lookup dict_ok_def coalesce_def)

lemma enriches_open: "enriches pat t row \<Longrightarrow> open_row row"
  by (simp add: enriches_def open_row_def)

lemma open_rows_drop:
  assumes "\<And>r. P r \<Longrightarrow> open_row r \<and> \<not> open_row (f r)"
  shows "map (\<lambda>r. if P r then f r else r) rows = rows
    \<or> open_rows (map (\<lambda>r. if P r then f r else r) rows) < open_rows rows"
proof (induction rows)
  case (Cons r rows)
  have "open_rows (map (\<lambda>r. if P r then f r else r) rows) \<le> open_rows rows" using Cons by (elim disjE) simp_all
  with Cons assms [of r] show ?case by (cases "P r") auto
qed simp

lemma enrich_body:
  assumes "with_inline_cast inline_ok (sbind (as_jsonb env txt) (\<lambda>js. sbind (as_timestamp env ts) (\<lambda>t.
      sbind (update_each_row gw ''radius_auth_log'' (enriches pat t) (enriched en js)) (\<lambda>_. sret ())))) g = (Inr u, g')"
  shows "\<not> gs_aborted g' \<and> (\<exists>t js. gd_table (gs_db g') ''radius_auth_log''
    = map (\<lambda>r. if enriches pat t r then enriched en js r else r) (gd_table (gs_db g) ''radius_auth_log''))"
proof -
  from assms obtain js t u' g1 where "update_each_row gw ''radius_auth_log'' (enriches pat t) (enriched en js) g1 = (Inr u', g')"
    and "g1 = g"
    unfolding with_inline_cast_def as_jsonb_def as_timestamp_def
    by (auto elim!: sbind_InrE dest!: statement_Inr split: if_splits option.splits)
  then have "\<not> gs_aborted g' \<and> gd_table (gs_db g') ''radius_auth_log''
      = map (\<lambda>r. if enriches pat t r then enriched en js r else r) (gd_table (gs_db g) ''radius_auth_log'')"
    unfolding update_each_row_def by (auto dest!: statement_Inr simp: checked_Inr)
  then show ?thesis by blast
qed

lemma enrich_radius_log_effect:
  assumes "enrich_radius_log env user ts en s = (r, s')" and "at_rest (sv_store s)"
    and "py_get en ''ad_failure_code'' \<noteq> PNone"
  shows "at_rest (sv_store s') \<and> (log_rows s' = log_rows s \<or> open_rows (log_rows s') < open_rows (log_rows s))"
proof -
  let ?upd = "\<lambda>pat. with_inline_cast (ee_inline_ok env)
    (sbind (as_jsonb env (enrichment_text en)) (\<lambda>js. sbind (as_timestamp env ts) (\<lambda>t.
      sbind (update_each_row (ee_gw env) ''radius_auth_log'' (enriches pat t) (enriched en js)) (\<lambda>_. sret ()))))"
  let ?body = "sbind (slift (before_at user)) (\<lambda>name. ?upd (''%'' @ name @ ''%''))"
  obtain b g where body: "?body (sv_store s) = (b, g)" by fastforce
  have run: "get_db_context ?body s = (r, s')" using assms(1) by (simp add: enrich_radius_log_def)
  show ?thesis
  proof (cases b)
    case (Inl e)
    have "keeps (\<lambda>g. outside g = X) ?body" for X by (intro inside_intros keeps_intros)
    from failing_context [OF _ assms(2) this, of e] body Inl run assms(2) show ?thesis by auto
  next
    case (Inr u)
    from body [unfolded Inr] obtain name where "?upd (''%'' @ name @ ''%'') (sv_store s) = (Inr u, g)"
      by (auto elim!: sbind_InrE)
    from enrich_body [OF this] obtain t js where alive: "\<not> gs_aborted g" and
      rows: "gd_table (gs_db g) ''radius_auth_log'' = map (\<lambda>r. if enriches (''%'' @ name @ ''%'') t r
        then enriched en js r else r) (log_rows s)"
      unfolding log_rows_def by blast
    have "log_rows s' = gd_table (gs_db g) ''radius_auth_log'' \<and> at_rest (sv_store s')"
      using get_db_context_Inr [where m = ?body and s = s, OF body [unfolded Inr] alive] run alive by (auto simp: log_rows_def at_rest_def)
    moreover have "enriches pat t r \<Longrightarrow> open_row r \<and> \<not> open_row (enriched en js r)" for pat r
      using enriches_open enriched_code [OF assms(3)] by (simp add: open_row_def)
    note open_rows_drop [of "enriches (''%'' @ name @ ''%'') t" "enriched en js" "log_rows s", OF this]
    ultimately show ?thesis unfolding rows by simp
  qed
qed

lemma svc_publish_log:
  "log_rows (snd (svc_publish gw subject data s)) = log_rows s"
  "at_rest (sv_store s) \<Longrightarrow> at_rest (sv_store (snd (svc_publish gw subject data s)))"
  by (auto simp: svc_publish_def in_store_def publish_def Let_def log_rows_def at_rest_def)

lemma process_ad_event_effect:
  fixes env :: event_env and s :: "'z svc_state_scheme"
  assumes "at_rest (sv_store s)" and "names_failure alert"
  defines "s' \<equiv> snd (process_ad_event env alert s)"
  shows "at_rest (sv_store s') \<and> (log_rows s' = log_rows s \<or> open_rows (log_rows s') < open_rows (log_rows s))"
proof (cases "read_ad_event alert")
  case (Inl err)
  then show ?thesis using assms(1) by (simp add: s'_def process_ad_event_def process_ad_body_def sbind_def attempt_def)
next
  case (Inr e)
  with assms(2) have code: "py_get (ad_enrichment e) ''ad_failure_code'' \<noteq> PNone" by (simp add: names_failure_def)
  let ?first = "if truthy (ad_user e) then enrich_radius_log env (ad_username e) (ad_timestamp e) (ad_enrichment e)
    else sret ()"
  obtain r s1 where first: "?first s = (r, s1)" by fastforce
  then have one: "at_rest (sv_store s1) \<and> (log_rows s1 = log_rows s \<or> open_rows (log_rows s1) < open_rows (log_rows s))"
    using enrich_radius_log_effect [OF _ assms(1) code] assms(1) by (auto split: if_splits)
  have "s' = (case r of Inl err \<Rightarrow> s1 | Inr u \<Rightarrow> snd (svc_publish (ee_gw env) ''orw.ad.auth_event'' (ad_enrichment e) s1))"
    unfolding s'_def process_ad_event_def process_ad_body_def Inr using first
    by (auto simp: sbind_def attempt_def split: prod.splits sum.splits)
  with one show ?thesis by (cases r) (simp_all add: svc_publish_log)
qed

section \<open>Events without a logon type\<close>

lemma enrichment_text_None:
  assumes "py_get en ''ad_logon_type'' = PNone"
  shows "suffix ''None}'' (enrichment_text en)"
proof -
  have "enrichment_text en = replace_char (CHR 0x27) (CHR 0x22) (''{'' @ py_join '', ''
      (py_repr_items (project [''ad_event_id'', ''ad_dc_name'', ''ad_workstation''] en))
      @ '', '' @ str_repr ''ad_logon_type'' @ '': '') @ ''None}''"
    unfolding enrichment_text_def using assms by (simp add: project_def py_str_def replace_char_def)
  then show ?thesis by (simp add: suffix_def)
qed

lemma enrich_radius_log_fails:
  assumes "ee_json env (enrichment_text en) = None" and "at_rest (sv_store s)"
  shows "\<exists>e. enrich_radius_log env user ts en s = (Inl e, s)"
proof -
  let ?upd = "\<lambda>name. with_inline_cast (ee_inline_ok env)
    (sbind (as_jsonb env (enrichment_text en)) (\<lambda>js. sbind (as_timestamp env ts) (\<lambda>t.
      sbind (update_each_row (ee_gw env) ''radius_auth_log'' (enriches (''%'' @ name @ ''%'') t) (enriched en js))
        (\<lambda>_. sret ()))))"
  have upd: "\<exists>e. fst (?upd name g) = Inl e" for name g
    by (intro inline_cast_fails as_jsonb_None assms(1))
  have "\<exists>e. fst (sbind (slift (before_at user)) ?upd (sv_store s)) = Inl e"
    by (cases "before_at user") (use upd in simp_all)
  then obtain e where e: "fst (sbind (slift (before_at user)) ?upd (sv_store s)) = Inl e" ..
  have "keeps (\<lambda>g. outside g = X) (sbind (slift (before_at user)) ?upd)" for X by (intro inside_intros keeps_intros)
  from failing_context [OF e assms(2) this] show ?thesis unfolding enrich_radius_log_def by blast
qed

section \<open>Properties\<close>


definition ex_event_env :: event_env where
  "ex_event_env = \<lparr>ee_gw = ex_gw_env, ee_inline_ok = True,
     ee_json = (\<lambda>t. if prefix (''{'' @ [CHR 0x27]) t \<or> suffix ''None}'' t then None else Some (PDict [])),
     ee_time = (\<lambda>v. case v of PInt n \<Rightarrow> Some n | _ \<Rightarrow> None), ee_authenticate = Inr ''token'',
     ee_get = (\<lambda>path token params. (200, PDict []))\<rparr>"

definition ex_service :: svc_state where
  "ex_service = \<lparr>sv_store = ex_gw_state\<rparr>"

lemma ex_service_rest: "at_rest (sv_store ex_service)"
  by (simp add: ex_service_def at_rest_def ex_gw_state_def Let_def)


text \<open>
  C32: Enrichment comes to rest. The collector fetches the same alerts at every poll, but each of
  them whose failure the table of the events knows either leaves the log alone or gives at least one
  failed row its code, which no later alert touches again; so of any number of such alerts, taken
  one after the other and repeated at will, at most as many change the log as it has failed rows
  without a code.
\<close>

theorem enrichment_settles:
  assumes "at_rest (sv_store s)" and "\<forall>a \<in> set alerts. names_failure a"
  shows "effective_alerts env alerts s \<le> open_rows (log_rows s)"
  using assms
proof (induction alerts arbitrary: s)
  case (Cons a alerts)
  let ?s' = "snd (process_ad_event env a s)"
  have step: "at_rest (sv_store ?s') \<and> (log_rows ?s' = log_rows s \<or> open_rows (log_rows ?s') < open_rows (log_rows s))"
    by (rule process_ad_event_effect) (use Cons.prems in simp_all)
  with Cons have "effective_alerts env alerts ?s' \<le> open_rows (log_rows ?s')" by simp
  with step show ?case by (auto simp: Let_def)
qed simp

definition ex_failed_row :: pydict where
  "ex_failed_row = [(''id'', PStr ''r1''), (''username'', PStr ''ann''), (''auth_result'', PStr ''reject''),
     (''ad_error_code'', PNone), (''timestamp'', PInt 7)]"

definition ex_log_service :: svc_state where
  "ex_log_service = \<lparr>sv_store = (let d = put_table ''radius_auth_log'' [ex_failed_row] (gs_db ex_gw_state)
     in ex_gw_state\<lparr>gs_db := d, gs_committed := d\<rparr>)\<rparr>"

definition ex_alert :: pyval where
  "ex_alert = PDict [(''timestamp'', PInt 7), (''data'', PDict [(''win'', PDict
     [(''system'', PDict [(''eventID'', PStr ''4625'')]),
      (''eventdata'', PDict [(''targetUserName'', PStr ''Ann''), (''targetDomainName'', PStr ''CORP''),
         (''logonType'', PStr ''3''), (''subStatus'', PStr ''0xC000006A'')])])])]"

definition ex_kerberos_event :: pydict where
  "ex_kerberos_event = [(''targetUserName'', PStr ''ann''), (''status'', PStr ''0x18'')]"

definition ex_kerberos_alert :: pydict where
  "ex_kerberos_alert = [(''timestamp'', PInt 7), (''data'', PDict [(''win'', PDict
     [(''system'', PDict [(''eventID'', PStr ''4771'')]), (''eventdata'', PDict ex_kerberos_event)])])]"

lemma ex_log_service_rest: "at_rest (sv_store ex_log_service)"
  by (simp add: ex_log_service_def at_rest_def ex_gw_state_def Let_def)

lemma ex_alert_named: "names_failure ex_alert"
proof -
  have "case read_ad_event ex_alert of Inr e \<Rightarrow> py_get (ad_enrichment e) ''ad_failure_code'' \<noteq> PNone | Inl err \<Rightarrow> False"
    by code_simp
  then show ?thesis by (auto simp: names_failure_def)
qed

theorem enrichment_settles_witness:
  "effective_alerts ex_event_env [ex_alert, ex_alert, ex_alert] ex_log_service = 1"
proof -
  have "open_rows (log_rows ex_log_service) = 1" by code_simp
  moreover have "log_rows (snd (process_ad_event ex_event_env ex_alert ex_log_service)) \<noteq> log_rows ex_log_service"
    by code_simp
  moreover have "effective_alerts ex_event_env [ex_alert, ex_alert, ex_alert] ex_log_service
      \<le> open_rows (log_rows ex_log_service)"
    by (rule enrichment_settles [OF ex_log_service_rest]) (simp add: ex_alert_named)
  ultimately show ?thesis by (auto simp: Let_def)
qed

text \<open>
  An event without a logon type is lost. Kerberos pre-authentication failures (4771) and NTLM
  validations (4776) carry none; the text of the enrichment then ends in \<open>None}\<close>, which is no JSON.
  So as long as PostgreSQL refuses such a text, processing such an event of a known user ends quietly
  with everything as it was: no row of the log is enriched, and nothing is published.
\<close>

theorem kerberos_events_are_lost:
  assumes "dict_get alert ''data'' = Some (PDict dat)" and "dict_get dat ''win'' = Some (PDict win)"
    and "dict_get win ''eventdata'' = Some (PDict ev)" and "dict_get ev ''logonType'' = None"
    and "truthy (dict_get_or ev ''targetUserName'' (PStr []))"
    and "\<forall>t. suffix ''None}'' t \<longrightarrow> ee_json env t = None" and "at_rest (sv_store s)"
  shows "process_ad_event env (PDict alert) s = (Inr (), s)"
proof (cases "read_ad_event (PDict alert)")
  case (Inl err)
  then show ?thesis by (simp add: process_ad_event_def process_ad_body_def sbind_def attempt_def)
next
  case (Inr e)
  then have user: "truthy (ad_user e)" and logon: "py_get (ad_enrichment e) ''ad_logon_type'' = PNone"
    using assms(1-5)
    by (auto simp: read_ad_event_def get_of_def as_dict_def dict_get_or_def logon_text_def rbind_def Let_def
      py_get_def split: sum.splits)
  from enrichment_text_None [OF logon] assms(6) have "ee_json env (enrichment_text (ad_enrichment e)) = None" by blast
  from enrich_radius_log_fails [OF this assms(7)] obtain err
    where "enrich_radius_log env (ad_username e) (ad_timestamp e) (ad_enrichment e) s = (Inl err, s)" by blast
  then show ?thesis
    using user by (simp add: process_ad_event_def process_ad_body_def Inr sbind_def attempt_def)
qed

theorem kerberos_events_are_lost_witness:
  "process_ad_event ex_event_env (PDict ex_kerberos_alert) ex_log_service = (Inr (), ex_log_service)"
proof -
  obtain dat win where "dict_get ex_kerberos_alert ''data'' = Some (PDict dat)"
    "dict_get dat ''win'' = Some (PDict win)" "dict_get win ''eventdata'' = Some (PDict ex_kerberos_event)"
    by (simp add: ex_kerberos_alert_def)
  moreover have "dict_get ex_kerberos_event ''logonType'' = None"
    "truthy (dict_get_or ex_kerberos_event ''targetUserName'' (PStr []))"
    by code_simp+
  moreover have "\<forall>t. suffix ''None}'' t \<longrightarrow> ee_json ex_event_env t = None" by (simp add: ex_event_env_def)
  ultimately show ?thesis by (rule kerberos_events_are_lost [OF _ _ _ _ _ _ ex_log_service_rest])
qed

end
