(* ===== verification/Freeradius_Status.thy ===== *)
theory Freeradius_Status
  imports Audit_Log Config_Watcher
begin

text \<open>
  What the gateway shows of the FreeRADIUS configuration:
  \<open>services/gateway/features/freeradius_config\<close>. The table \<open>freeradius_config\<close> is written by the
  configuration manager alone, so the status is read together with it: \<open>config_life\<close> are the states
  the manager can be in, and \<open>config_dict\<close> is the row of the table for one of its tracking rows.
\<close>

section \<open>Repository\<close>

definition list_config_status :: "gw_env \<Rightarrow> pyval \<Rightarrow> (gw_state, pydict list) prog" where
  "list_config_status env tenant =
     sbind (select_ordered env ''config_type, config_name'' ''freeradius_config'' (where_eq [(''tenant_id'', tenant)]))
       (\<lambda>rows. sret (map (project
          [''id'', ''config_type'', ''config_name'', ''config_hash'', ''last_applied_at'', ''last_applied_hash'',
           ''status'', ''error_message'', ''created_at'', ''updated_at'']) rows))"

definition list_config_preview :: "gw_env \<Rightarrow> pyval \<Rightarrow> (gw_state, pydict list) prog" where
  "list_config_preview env tenant =
     sbind (select_ordered env ''config_type, config_name'' ''freeradius_config'' (where_eq [(''tenant_id'', tenant)]))
       (\<lambda>rows. sret (map (project
          [''config_type'', ''config_name'', ''config_content'', ''config_hash'', ''status'', ''last_applied_at'']) rows))"

definition count_enabled_ldap_servers :: "pyval \<Rightarrow> (gw_state, int) prog" where
  "count_enabled_ldap_servers tenant =
     count_rows ''ldap_servers'' (where_eq [(''tenant_id'', tenant), (''enabled'', PBool True)])"

definition count_enabled_realms :: "pyval \<Rightarrow> (gw_state, int) prog" where
  "count_enabled_realms tenant =
     count_rows ''radius_realms'' (where_eq [(''tenant_id'', tenant), (''enabled'', PBool True)])"

definition count_enabled_nas_clients :: "pyval \<Rightarrow> (gw_state, int) prog" where
  "count_enabled_nas_clients tenant =
     count_rows ''radius_nas_clients'' (where_eq [(''tenant_id'', tenant), (''enabled'', PBool True)])"

definition count_active_certificates :: "pyval \<Rightarrow> (gw_state, int) prog" where
  "count_active_certificates tenant =
     count_rows ''certificates'' (where_eq [(''tenant_id'', tenant), (''is_active'', PBool True)])"

text \<open>The history: the entries of the audit log about the configuration.\<close>

definition config_history_clause :: "pyval \<Rightarrow> pydict \<Rightarrow> bool" where
  "config_history_clause tenant =
     where_eq [(''tenant_id'', tenant), (''resource_type'', PStr ''freeradius_config'')]"

definition count_config_history :: "(nat \<Rightarrow> int) \<Rightarrow> pyval \<Rightarrow> (gw_state, int) prog" where
  "count_config_history written tenant =
     statement (\<lambda>d. (Inr (int (length (filter (config_history_clause tenant) (timed_entries written d)))), d))"

definition list_config_history ::
  "gw_env \<Rightarrow> (nat \<Rightarrow> int) \<Rightarrow> pyval \<Rightarrow> int \<Rightarrow> int \<Rightarrow> (gw_state, pydict list) prog" where
  "list_config_history env written tenant limit offset =
     statement (\<lambda>d. (Inr (map (\<lambda>a. project
         [''id'', ''timestamp'', ''user_id'', ''action'', ''resource_type'', ''resource_id'', ''details'',
          ''ip_address'', ''username''] (with_username d a))
       (take (nat limit) (drop (nat offset) (ge_order env ''a.timestamp DESC''
         (filter (config_history_clause tenant) (timed_entries written d)))))), d))"

section \<open>Service\<close>

definition differs :: "pydict \<Rightarrow> bool" where
  "differs c \<longleftrightarrow> truthy (py_get c ''config_hash'') \<and> py_get c ''config_hash'' \<noteq> py_get c ''last_applied_hash''"

definition get_config_status :: "gw_env \<Rightarrow> pyval \<Rightarrow> (gw_state, pydict) prog" where
  "get_config_status env tenant =
     sbind (list_config_status env tenant) (\<lambda>configs.
       sret [(''configs'', PList (map PDict configs)), (''needs_apply'', PBool (list_ex differs configs)),
             (''total'', PInt (int (length configs)))])"

definition preview_config :: "gw_env \<Rightarrow> pyval \<Rightarrow> (gw_state, pydict) prog" where
  "preview_config env tenant =
     sbind (list_config_preview env tenant) (\<lambda>rows.
     sbind (count_enabled_ldap_servers tenant) (\<lambda>ldap_servers.
     sbind (count_enabled_realms tenant) (\<lambda>realms.
     sbind (count_enabled_nas_clients tenant) (\<lambda>nas_clients.
     sbind (count_active_certificates tenant) (\<lambda>certificates.
       sret [(''configs'', PList (map PDict rows)),
             (''source_data'', PDict [(''ldap_servers'', PInt ldap_servers), (''realms'', PInt realms),
                (''nas_clients'', PInt nas_clients), (''active_certificates'', PInt certificates)])])))))"

definition get_history :: "gw_env \<Rightarrow> (nat \<Rightarrow> int) \<Rightarrow> pyval \<Rightarrow> int \<Rightarrow> int \<Rightarrow> (gw_state, pydict) prog" where
  "get_history env written tenant page page_size =
     sbind (count_config_history written tenant) (\<lambda>n.
     sbind (list_config_history env written tenant page_size ((page - 1) * page_size)) (\<lambda>rows.
       sret (page_dict rows n page page_size)))"

text \<open>\<open>datetime.isoformat()\<close> of a whole second in UTC, from the days since 1970-01-01.\<close>

definition civil_from_days :: "int \<Rightarrow> int \<times> int \<times> int" where
  "civil_from_days n =
     (let z = n + 719468; era = z div 146097; doe = z mod 146097;
          yoe = (doe - doe div 1460 + doe div 36524 - doe div 146096) div 365;
          doy = doe - (365 * yoe + yoe div 4 - yoe div 100); mp = (5 * doy + 2) div 153;
          month = (if mp < 10 then mp + 3 else mp - 9)
      in (yoe + era * 400 + (if month \<le> 2 then 1 else 0), month, doy - (153 * mp + 2) div 5 + 1))"

definition pad :: "nat \<Rightarrow> int \<Rightarrow> string" where
  "pad w n = (let t = show_int n in replicate (w - length t) CHR ''0'' @ t)"

definition isoformat_utc :: "int \<Rightarrow> string" where
  "isoformat_utc now =
     (case civil_from_days (now div 86400) of (year, month, day) \<Rightarrow>
        let s = now mod 86400
        in pad 4 year @ ''-'' @ pad 2 month @ ''-'' @ pad 2 day @ ''T'' @ pad 2 (s div 3600) @ '':''
           @ pad 2 (s div 60 mod 60) @ '':'' @ pad 2 (s mod 60) @ ''+00:00'')"

definition publish_freeradius_apply :: "gw_env \<Rightarrow> pyval \<Rightarrow> pyval \<Rightarrow> (gw_state, unit) prog" where
  "publish_freeradius_apply env tenant requested_by =
     publish env SUBJECT_FREERADIUS_APPLY
       [(''action'', PStr ''apply''), (''tenant_id'', tenant), (''requested_by'', requested_by),
        (''requested_at'', PStr (isoformat_utc (ge_now env)))]"

definition trigger_apply :: "gw_env \<Rightarrow> gw_actor \<Rightarrow> pyval \<Rightarrow> (gw_state, pydict) prog" where
  "trigger_apply env actor client_ip =
     sbind (publish_freeradius_apply env (PStr (ac_tenant actor)) (PStr (ac_sub actor))) (\<lambda>_.
     sbind (log_audit env actor ''freeradius_config_apply'' ''freeradius_config'' PNone
              [(''description'', PStr ''Triggered FreeRADIUS configuration apply and reload'')] client_ip) (\<lambda>_.
       sret [(''status'', PStr ''apply_triggered''),
             (''message'', PStr ''Configuration apply request sent to FreeRADIUS'')]))"

section \<open>The table behind the status\<close>

text \<open>A row of the table: what the manager writes, over the columns the database fills in.\<close>

definition config_dict :: "pydict \<Rightarrow> config_row \<Rightarrow> pydict" where
  "config_dict base r = assign
     [(''config_type'', PStr (cf_type r)), (''config_name'', PStr (cf_name r)), (''config_content'', PStr (cf_content r)),
      (''config_hash'', PStr (cf_hash r)),
      (''last_applied_hash'', case cf_last_hash r of None \<Rightarrow> PNone | Some h \<Rightarrow> PStr h),
      (''status'', PStr (cf_status r)), (''error_message'', case cf_error r of None \<Rightarrow> PNone | Some e \<Rightarrow> PStr e),
      (''tenant_id'', case cf_tenant r of None \<Rightarrow> PNone | Some t \<Rightarrow> PStr t)] base"

text \<open>The life of the manager: it starts without rows, applies, and the other tables are edited.\<close>

inductive config_life :: "fr_state \<Rightarrow> bool" where
  start: "fs_rows s = [] \<Longrightarrow> config_life s"
| applied: "config_life s \<Longrightarrow> config_life (snd (apply_configs env s))"
| edit: "config_life s \<Longrightarrow> fs_rows s' = fs_rows s \<Longrightarrow> config_life s'"

definition hashes_agree :: "fr_state \<Rightarrow> bool" where
  "hashes_agree s \<longleftrightarrow> (\<forall>r \<in> set (fs_rows s). cf_last_hash r = Some (cf_hash r))"

lemma set_replace_first: "set (replace_first P y xs) \<subseteq> insert y (set xs)"
  by (induction xs) auto

lemma save_agrees: "hashes_agree s \<Longrightarrow> hashes_agree (save_config_state env ty n c h st e s)"
  by (auto simp: hashes_agree_def save_config_state_def upsert_row_def saved_row_def Let_def
    dest!: subsetD [OF set_replace_first] split: if_splits)

lemma same_rows_agree: "fs_rows s' = fs_rows s \<Longrightarrow> hashes_agree s' = hashes_agree s"
  by (simp add: hashes_agree_def)

lemma apply_file_agrees:
  assumes "hashes_agree s"
  shows "hashes_agree (snd (apply_file env f c s))"
proof -
  obtain r s' where w: "write_file env (path_join (fe_output_dir env) f) c mode_644 s = (r, s')" by fastforce
  from same_rows_agree [OF write_file_rows [OF w]] assms have "hashes_agree s'" by simp
  with assms w show ?thesis by (auto simp: apply_file_def Let_def save_agrees split: sum.split)
qed

lemma apply_files_agree: "hashes_agree s \<Longrightarrow> hashes_agree (snd (apply_files env configs res s))"
proof (induction configs arbitrary: res s)
  case (Cons fc configs)
  obtain f c where fc: "fc = (f, c)" by (cases fc)
  from apply_file_agrees [OF Cons.prems, of env f c] show ?case
    by (auto simp: fc Let_def Cons.IH split: prod.split)
qed simp

lemma apply_certs_agrees:
  assumes "hashes_agree s"
  shows "hashes_agree (snd (apply_certs env s))"
proof -
  obtain r s' where w: "write_cert_files env s = (r, s')" by fastforce
  have "fs_rows s' = fs_rows s" using keepsD [OF keeps_rows_cert_files refl w] by simp
  with assms have "hashes_agree s'" by (simp add: hashes_agree_def)
  with assms w show ?thesis
    by (auto simp: apply_certs_def Let_def save_agrees split: sum.split)
qed

lemma config_life_agrees: "config_life s \<Longrightarrow> hashes_agree s"
proof (induction rule: config_life.induct)
  case (applied s env)
  obtain r s1 where certs: "apply_certs env s = (r, s1)" by fastforce
  with apply_certs_agrees [OF applied.IH, of env] have "hashes_agree s1" by simp
  then show ?case by (auto simp: apply_configs_def certs apply_files_agree split: sum.split)
qed (simp_all add: hashes_agree_def)

lemma config_dict_hashes:
  "py_get (config_dict base r) ''config_hash'' = PStr (cf_hash r)"
  "py_get (config_dict base r) ''last_applied_hash'' = (case cf_last_hash r of None \<Rightarrow> PNone | Some h \<Rightarrow> PStr h)"
  unfolding config_dict_def by (simp_all add: assign_lookup dict_ok_def)

section \<open>Properties\<close>

text \<open>
  C35: The status never asks for an apply. However the manager applied and the tables were edited,
  the two hashes of each of its rows are the same, since it stores the hash of the configuration
  only when it applies it, also when it could not write the file; so the flag \<open>needs_apply\<close>, which
  compares them, is false for every tenant, however much was edited since the last apply.
\<close>

theorem needs_apply_never_shown:
  assumes "config_life s" and "\<forall>k rows. set (ge_order env k rows) \<subseteq> set rows"
    and "gd_table (gs_db g) ''freeradius_config'' = map (\<lambda>r. config_dict (base r) r) (fs_rows s)"
    and "get_config_status env tenant g = (Inr status, g')"
  shows "py_get status ''needs_apply'' = PBool False"
proof -
  let ?rows = "ge_order env ''config_type, config_name''
    (filter (where_eq [(''tenant_id'', tenant)]) (gd_table (gs_db g) ''freeradius_config''))"
  let ?proj = "project [''id'', ''config_type'', ''config_name'', ''config_hash'', ''last_applied_at'',
    ''last_applied_hash'', ''status'', ''error_message'', ''created_at'', ''updated_at'']"
  have "\<not> differs (?proj row)" if "row \<in> set ?rows" for row
  proof -
    from that assms(2) have "row \<in> set (gd_table (gs_db g) ''freeradius_config'')" by (meson filter_is_subset subsetD)
    then obtain r where "r \<in> set (fs_rows s)" "row = config_dict (base r) r" unfolding assms(3) by auto
    with config_life_agrees [OF assms(1)] show ?thesis
      by (auto simp: differs_def hashes_agree_def py_get_project config_dict_hashes)
  qed
  moreover have "py_get status ''needs_apply'' = PBool (list_ex differs (map ?proj ?rows))"
    using assms(4)
    by (auto simp: get_config_status_def list_config_status_def select_ordered_def select_rows_def py_get_def dict_get_or_def
      elim!: sbind_InrE dest!: statement_Inr)
  ultimately show ?thesis by (auto simp: list_ex_iff)
qed

definition ex_config_store :: gw_state where
  "ex_config_store = ex_gw_state\<lparr>gs_db := put_table ''freeradius_config''
     (map (config_dict []) (fs_rows (snd (apply_configs ex_fr_env ex_fr_state)))) (gs_db ex_gw_state)\<rparr>"

theorem needs_apply_never_shown_witness:
  "\<exists>status. fst (get_config_status ex_gw_env (PStr ''t1'') ex_config_store) = Inr status
     \<and> py_get status ''needs_apply'' = PBool False"
proof -
  let ?s = "snd (apply_configs ex_fr_env ex_fr_state)"
  have life: "config_life ?s" by (intro config_life.intros) (simp add: ex_fr_state_def)
  have order: "\<forall>k rows. set (ge_order ex_gw_env k rows) \<subseteq> set rows" by (simp add: ex_gw_env_def)
  have rows: "gd_table (gs_db ex_config_store) ''freeradius_config'' = map (\<lambda>r. config_dict [] r) (fs_rows ?s)"
    by (simp add: ex_config_store_def)
  obtain status where status: "get_config_status ex_gw_env (PStr ''t1'') ex_config_store = (Inr status, ex_config_store)"
    by (simp add: get_config_status_def list_config_status_def select_ordered_def select_rows_def statement_def
      sbind_def ex_config_store_def ex_gw_state_def Let_def)
  from needs_apply_never_shown [OF life order, where base = "\<lambda>_. []", OF rows status] status show ?thesis by simp
qed

end
