(* ===== verification/Dot1x_Overview.thy ===== *)
theory Dot1x_Overview
  imports Radius_Auth_Log
begin

text \<open>
  The dashboard of the gateway: \<open>services/gateway/features/dot1x_overview\<close>, ten queries and the
  blocks made of their rows. \<open>DISTINCT\<close> is a parameter, as in \<open>Radius_Auth_Log\<close>.
\<close>

section \<open>Repository\<close>

definition RADIUS_SETTING_KEYS :: "string list" where
  "RADIUS_SETTING_KEYS = [''default_eap_type'', ''tls_min_version'', ''auth_port'', ''acct_port'', ''coa_port'']"

definition get_radius_settings :: "pyval \<Rightarrow> (gw_state, (pyval, pyval) dict) prog" where
  "get_radius_settings tenant =
     sbind (select_rows ''system_settings'' (\<lambda>r. where_eq [(''category'', PStr ''radius''), (''tenant_id'', tenant)] r
              \<and> py_get r ''setting_key'' \<in> PStr ` set RADIUS_SETTING_KEYS)) (\<lambda>rows.
       sret (fold (\<lambda>r d. dict_set (py_get r ''setting_key'') (py_get r ''setting_value'') d) rows []))"

definition unnested :: "string \<Rightarrow> pydict \<Rightarrow> pyval list" where
  "unnested c r = (case py_get r c of PList xs \<Rightarrow> xs | _ \<Rightarrow> [])"

definition list_enabled_realm_auth_methods :: "log_sql \<Rightarrow> pyval \<Rightarrow> (gw_state, pyval list) prog" where
  "list_enabled_realm_auth_methods q tenant =
     sbind (select_rows ''radius_realms'' (where_eq [(''tenant_id'', tenant), (''enabled'', PBool True)])) (\<lambda>rows.
       sret (lq_distinct q (concat (map (unnested ''auth_types_allowed'') rows))))"

definition count_realms_by_type :: "pyval \<Rightarrow> (gw_state, (pyval, int) dict) prog" where
  "count_realms_by_type tenant =
     sbind (select_rows ''radius_realms'' (where_eq [(''tenant_id'', tenant)])) (\<lambda>rows.
       sret (fold (\<lambda>(k, rs) d. dict_set k (int (length rs)) d) (group_rows (\<lambda>r. py_get r ''realm_type'') rows) []))"

definition list_enabled_certificates :: "gw_env \<Rightarrow> pyval \<Rightarrow> (gw_state, pydict list) prog" where
  "list_enabled_certificates env tenant =
     sbind (select_ordered env ''not_after ASC'' ''certificates''
              (where_eq [(''tenant_id'', tenant), (''enabled'', PBool True)])) (\<lambda>rows.
       sret (map (project [''cert_type'', ''is_active'', ''not_after'', ''name'']) rows))"

definition list_enabled_vlans :: "gw_env \<Rightarrow> pyval \<Rightarrow> (gw_state, pydict list) prog" where
  "list_enabled_vlans env tenant =
     sbind (select_ordered env ''vlan_id'' ''vlans'' (where_eq [(''tenant_id'', tenant), (''enabled'', PBool True)]))
       (\<lambda>rows. sret (map (project [''vlan_id'', ''name'', ''purpose'']) rows))"

definition enabled_count :: "pydict list \<Rightarrow> int" where
  "enabled_count rows = int (length (filter (\<lambda>r. py_get r ''enabled'' = PBool True) rows))"

definition expired_before :: "int \<Rightarrow> pydict \<Rightarrow> bool" where
  "expired_before now r = (case py_get r ''expiry_date'' of PInt t \<Rightarrow> t < now | _ \<Rightarrow> False)"

definition count_mab_devices :: "gw_env \<Rightarrow> pyval \<Rightarrow> (gw_state, (string, int) dict) prog" where
  "count_mab_devices env tenant =
     sbind (select_rows ''mab_devices'' (where_eq [(''tenant_id'', tenant)])) (\<lambda>rows.
       sret [(''total'', int (length rows)), (''enabled_count'', enabled_count rows),
             (''expired'', int (length (filter (expired_before (ge_now env)) rows)))])"

definition count_total_and_enabled :: "string \<Rightarrow> pyval \<Rightarrow> (gw_state, (string, int) dict) prog" where
  "count_total_and_enabled table tenant =
     sbind (select_rows table (where_eq [(''tenant_id'', tenant)])) (\<lambda>rows.
       sret [(''total'', int (length rows)), (''enabled_count'', enabled_count rows)])"

definition count_nas_clients :: "pyval \<Rightarrow> (gw_state, (string, int) dict) prog" where
  "count_nas_clients = count_total_and_enabled ''radius_nas_clients''"

definition count_policies :: "pyval \<Rightarrow> (gw_state, (string, int) dict) prog" where
  "count_policies = count_total_and_enabled ''policies''"

definition count_group_vlan_mappings :: "pyval \<Rightarrow> (gw_state, (string, int) dict) prog" where
  "count_group_vlan_mappings = count_total_and_enabled ''group_vlan_mappings''"

definition within_day :: "int \<Rightarrow> pydict \<Rightarrow> bool" where
  "within_day now r = (case py_get r ''timestamp'' of PInt t \<Rightarrow> now - 86400 < t | _ \<Rightarrow> False)"

definition auth_stats_24h :: "gw_env \<Rightarrow> (gw_state, (string, int) dict) prog" where
  "auth_stats_24h env =
     sbind (select_rows ''radius_auth_log'' (within_day (ge_now env))) (\<lambda>rows.
       sret [(''total'', int (length rows)),
             (''success'', int (length (filter (\<lambda>r. py_get r ''auth_result'' = PStr ''success'') rows))),
             (''failed'', int (length (filter not_success rows)))])"

definition auth_methods_24h :: "gw_env \<Rightarrow> (gw_state, (pyval, int) dict) prog" where
  "auth_methods_24h env =
     sbind (select_rows ''radius_auth_log'' (within_day (ge_now env))) (\<lambda>rows.
       sret (fold (\<lambda>r d. dict_set (py_get r ''auth_method'') (case py_get r ''cnt'' of PInt n \<Rightarrow> n | _ \<Rightarrow> 0) d)
         (ge_order env ''cnt DESC'' (map (\<lambda>(k, rs). [(''auth_method'', k), (''cnt'', count_of rs)])
           (group_rows (\<lambda>r. py_get r ''auth_method'') rows))) []))"

section \<open>Blocks\<close>

definition DEFAULT_EAP_METHODS :: "pyval list" where
  "DEFAULT_EAP_METHODS = [PStr ''PEAP'', PStr ''EAP-TLS'', PStr ''EAP-TTLS'']"

definition eap_block :: "(pyval, pyval) dict \<Rightarrow> pyval list \<Rightarrow> pydict" where
  "eap_block settings enabled_methods =
     (let setting = (\<lambda>k v. dict_get_or settings (PStr k) (PStr v))
      in [(''enabled'', PList (if enabled_methods = [] then DEFAULT_EAP_METHODS else enabled_methods)),
          (''default'', setting ''default_eap_type'' ''peap''),
          (''tls_min_version'', setting ''tls_min_version'' ''1.2''),
          (''auth_port'', setting ''auth_port'' ''1812''), (''acct_port'', setting ''acct_port'' ''1813'')])"

definition is_cert :: "string \<Rightarrow> pydict \<Rightarrow> bool" where
  "is_cert t c \<longleftrightarrow> py_get c ''cert_type'' = PStr t"

definition certs_block :: "pydict list \<Rightarrow> pydict" where
  "certs_block certs =
     (let count = (\<lambda>t. PInt (int (length (filter (is_cert t) certs))));
          active = (\<lambda>t. PBool (list_ex (\<lambda>c. is_cert t c \<and> truthy (py_get c ''is_active'')) certs));
          nearest = find (\<lambda>c. truthy (py_get c ''not_after'') \<and> truthy (py_get c ''is_active'')) certs
      in [(''ca_count'', count ''ca''), (''server_count'', count ''server''),
          (''ca_active'', active ''ca''), (''server_active'', active ''server''),
          (''nearest_expiry'', case nearest of None \<Rightarrow> PNone | Some c \<Rightarrow> PStr (py_str (py_get c ''not_after''))),
          (''nearest_expiry_name'', case nearest of None \<Rightarrow> PNone | Some c \<Rightarrow> py_get c ''name'')])"

text \<open>\<open>by_purpose.setdefault(purpose, []).append(...)\<close>.\<close>

definition add_vlan :: "pydict \<Rightarrow> (pyval, pydict list) dict \<Rightarrow> (pyval, pydict list) dict" where
  "add_vlan v by_purpose =
     (let purpose = py_or (py_get v ''purpose'') (PStr ''other'')
      in dict_set purpose (dict_get_or by_purpose purpose [] @ [project [''vlan_id'', ''name''] v]) by_purpose)"

definition vlans_block :: "pydict list \<Rightarrow> int \<times> (pyval, pydict list) dict" where
  "vlans_block vlans = (int (length vlans), fold add_vlan vlans [])"

definition realms_block :: "(pyval, int) dict \<Rightarrow> (string, int) dict" where
  "realms_block counts =
     [(''total'', sum_list (map snd counts)), (''local'', dict_get_or counts (PStr ''local'') 0),
      (''proxy'', dict_get_or counts (PStr ''proxy'') 0)]"

definition count_pair :: "(string, int) dict \<Rightarrow> (string, int) dict" where
  "count_pair row = [(''total'', dict_get_or row ''total'' 0), (''enabled'', dict_get_or row ''enabled_count'' 0)]"

definition count_triple :: "(string, int) dict \<Rightarrow> string list \<Rightarrow> string list \<Rightarrow> (string, int) dict" where
  "count_triple row src_keys dst_keys = fold (\<lambda>(src, dst) d. dict_set dst (dict_get_or row src 0) d) (zip src_keys dst_keys) []"

text \<open>The rate in tenths of a percent, \<open>None\<close> where the division of the doubles overflows.\<close>

record auth_block =
  ab_total :: int
  ab_success :: int
  ab_failed :: int
  ab_rate :: "int option"
  ab_by_method :: "(pyval, int) dict"

definition auth_stats_block :: "(string, int) dict \<Rightarrow> (pyval, int) dict \<Rightarrow> auth_block" where
  "auth_stats_block stats by_method =
     (let n = dict_get_or stats ''total'' 0; success = dict_get_or stats ''success'' 0
      in \<lparr>ab_total = n, ab_success = success, ab_failed = n - success, ab_rate = success_tenths success n,
          ab_by_method = by_method\<rparr>)"

section \<open>The overview\<close>

record overview =
  ov_eap :: pydict
  ov_certificates :: pydict
  ov_vlans :: "int \<times> (pyval, pydict list) dict"
  ov_mab_devices :: "(string, int) dict"
  ov_realms :: "(string, int) dict"
  ov_nas_clients :: "(string, int) dict"
  ov_policies :: "(string, int) dict"
  ov_group_vlan_mappings :: "(string, int) dict"
  ov_auth_stats :: auth_block

definition get_overview :: "gw_env \<Rightarrow> log_sql \<Rightarrow> pyval \<Rightarrow> (gw_state, overview) prog" where
  "get_overview env q tenant =
     sbind (get_radius_settings tenant) (\<lambda>eap_settings.
     sbind (list_enabled_realm_auth_methods q tenant) (\<lambda>enabled_methods.
     sbind (list_enabled_certificates env tenant) (\<lambda>certs.
     sbind (list_enabled_vlans env tenant) (\<lambda>vlans.
     sbind (count_mab_devices env tenant) (\<lambda>mab.
     sbind (count_realms_by_type tenant) (\<lambda>realm_counts.
     sbind (count_nas_clients tenant) (\<lambda>nas.
     sbind (count_policies tenant) (\<lambda>pol.
     sbind (count_group_vlan_mappings tenant) (\<lambda>gvm.
     sbind (auth_stats_24h env) (\<lambda>auth.
     sbind (auth_methods_24h env) (\<lambda>auth_by_method.
       sret \<lparr>ov_eap = eap_block eap_settings enabled_methods, ov_certificates = certs_block certs,
             ov_vlans = vlans_block vlans,
             ov_mab_devices = count_triple mab [''total'', ''enabled_count'', ''expired'']
                [''total'', ''enabled'', ''expired''],
             ov_realms = realms_block realm_counts, ov_nas_clients = count_pair nas,
             ov_policies = count_pair pol, ov_group_vlan_mappings = count_pair gvm,
             ov_auth_stats = auth_stats_block auth auth_by_method\<rparr>)))))))))))"

section \<open>What the blocks add up to\<close>

abbreviation vlans_listed :: "(pyval, pydict list) dict \<Rightarrow> nat" where
  "vlans_listed d \<equiv> sum_list (map (\<lambda>e. length (snd e)) d)"

lemma vlans_listed_set: "vlans_listed (dict_set k (dict_get_or d k [] @ [x]) d) = Suc (vlans_listed d)"
  by (induction d) (auto simp: dict_get_or_def)

lemma vlans_add_up: "vlans_listed (fold add_vlan vlans acc) = length vlans + vlans_listed acc"
  by (induction vlans arbitrary: acc) (simp_all add: add_vlan_def Let_def vlans_listed_set)

lemma realm_type_counts:
  assumes "count_realms_by_type tenant g = (Inr counts, g')"
  defines "rows \<equiv> filter (where_eq [(''tenant_id'', tenant)]) (gd_table (gs_db g) ''radius_realms'')"
  shows "sum_list (map snd counts) = int (length rows)"
    and "dict_get_or counts k 0 = int (length (filter (\<lambda>r. py_get r ''realm_type'' = k) rows))"
proof -
  let ?groups = "group_rows (\<lambda>r. py_get r ''realm_type'') rows"
  have "counts = fold (\<lambda>(k, v) d. dict_set k v d) (map (\<lambda>(k, rs). (k, int (length rs))) ?groups) []"
    using assms(1) unfolding rows_def count_realms_by_type_def select_rows_def
    by (auto simp: fold_map comp_def case_prod_unfold elim!: sbind_InrE dest!: statement_Inr)
  also have "\<dots> = map (\<lambda>(k, rs). (k, int (length rs))) ?groups"
    by (rule count_dict) (simp add: group_keys comp_def case_prod_unfold group_keys [unfolded comp_def])
  finally have counts: "counts = map (\<lambda>(k, rs). (k, int (length rs))) ?groups" .
  have "map snd counts = map (\<lambda>(k, rs). int (length rs)) ?groups" by (simp add: counts case_prod_unfold)
  then show "sum_list (map snd counts) = int (length rows)" by (simp add: group_sum)
  have ok: "dict_ok counts" by (simp add: counts dict_ok_def comp_def case_prod_unfold group_keys)
  show "dict_get_or counts k 0 = int (length (filter (\<lambda>r. py_get r ''realm_type'' = k) rows))"
  proof (cases "k \<in> (\<lambda>r. py_get r ''realm_type'') ` set rows")
    case True
    then have "(k, filter (\<lambda>r. py_get r ''realm_type'' = k) rows) \<in> set ?groups" by (simp add: group_member)
    then have "(k, int (length (filter (\<lambda>r. py_get r ''realm_type'' = k) rows))) \<in> set counts"
      unfolding counts by force
    from dict_get_member [OF ok this] show ?thesis by (simp add: dict_get_or_def)
  next
    case False
    then have "k \<notin> fst ` set counts" unfolding counts by (auto simp: group_member)
    from dict_get_missing [OF this] have "dict_get_or counts k 0 = 0" by (simp add: dict_get_or_def)
    moreover have "filter (\<lambda>r. py_get r ''realm_type'' = k) rows = []" using False by (auto simp: filter_empty_conv)
    ultimately show ?thesis by simp
  qed
qed

lemma after_read:
  "\<not> gs_aborted g \<Longrightarrow> sbind (select_rows t P) f g = f (filter P (gd_table (gs_db g) t)) g"
  "\<not> gs_aborted g \<Longrightarrow> sbind (select_ordered env k t P) f g = f (ge_order env k (filter P (gd_table (gs_db g) t))) g"
  by (simp_all add: select_ordered_def select_rows_def statement_def sbind_def)

lemmas overview_reads =
  get_radius_settings_def list_enabled_realm_auth_methods_def list_enabled_certificates_def
  list_enabled_vlans_def count_mab_devices_def count_realms_by_type_def count_nas_clients_def count_policies_def
  count_group_vlan_mappings_def count_total_and_enabled_def auth_stats_24h_def auth_methods_24h_def

lemma get_overview_parts:
  assumes "get_overview env q tenant g = (Inr ov, g')"
  defines "mine \<equiv> \<lambda>t. filter (where_eq [(''tenant_id'', tenant)]) (gd_table (gs_db g) t)"
    and "enabled \<equiv> where_eq [(''tenant_id'', tenant), (''enabled'', PBool True)]"
  shows "g' = g"
    and "\<exists>counts. count_realms_by_type tenant g = (Inr counts, g) \<and> ov_realms ov = realms_block counts"
    and "ov_certificates ov = certs_block (map (project [''cert_type'', ''is_active'', ''not_after'', ''name''])
           (ge_order env ''not_after ASC'' (filter enabled (gd_table (gs_db g) ''certificates''))))"
    and "ov_vlans ov = vlans_block (map (project [''vlan_id'', ''name'', ''purpose''])
           (ge_order env ''vlan_id'' (filter enabled (gd_table (gs_db g) ''vlans''))))"
    and "ov_mab_devices ov = [(''total'', int (length (mine ''mab_devices''))), (''enabled'', enabled_count (mine ''mab_devices'')),
           (''expired'', int (length (filter (expired_before (ge_now env)) (mine ''mab_devices''))))]"
    and "ov_policies ov = [(''total'', int (length (mine ''policies''))), (''enabled'', enabled_count (mine ''policies''))]"
    and "ab_total (ov_auth_stats ov) = ab_success (ov_auth_stats ov) + ab_failed (ov_auth_stats ov)"
proof -
  have alive: "\<not> gs_aborted g" using assms(1)
    by (auto simp: get_overview_def get_radius_settings_def select_rows_def statement_def sbind_def split: if_splits)
  show "g' = g" using assms(1) alive
    by (simp add: get_overview_def overview_reads sbind_assoc after_read)
  show "\<exists>counts. count_realms_by_type tenant g = (Inr counts, g) \<and> ov_realms ov = realms_block counts"
    using assms(1) alive by (auto simp: get_overview_def overview_reads sbind_assoc after_read)
  show "ov_certificates ov = certs_block (map (project [''cert_type'', ''is_active'', ''not_after'', ''name''])
      (ge_order env ''not_after ASC'' (filter enabled (gd_table (gs_db g) ''certificates''))))"
    using assms(1) alive by (auto simp: enabled_def get_overview_def overview_reads sbind_assoc after_read)
  show "ov_vlans ov = vlans_block (map (project [''vlan_id'', ''name'', ''purpose''])
      (ge_order env ''vlan_id'' (filter enabled (gd_table (gs_db g) ''vlans''))))"
    using assms(1) alive by (auto simp: enabled_def get_overview_def overview_reads sbind_assoc after_read)
  show "ov_mab_devices ov = [(''total'', int (length (mine ''mab_devices''))), (''enabled'', enabled_count (mine ''mab_devices'')),
      (''expired'', int (length (filter (expired_before (ge_now env)) (mine ''mab_devices''))))]"
    using assms(1) alive
    by (auto simp: mine_def get_overview_def overview_reads sbind_assoc after_read count_triple_def dict_get_or_def)
  show "ov_policies ov = [(''total'', int (length (mine ''policies''))), (''enabled'', enabled_count (mine ''policies''))]"
    using assms(1) alive
    by (auto simp: mine_def get_overview_def overview_reads sbind_assoc after_read count_pair_def dict_get_or_def)
  show "ab_total (ov_auth_stats ov) = ab_success (ov_auth_stats ov) + ab_failed (ov_auth_stats ov)"
    using assms(1) alive
    by (auto simp: get_overview_def overview_reads sbind_assoc after_read auth_stats_block_def Let_def)
qed

section \<open>Properties\<close>


definition expires_no_later :: "pydict \<Rightarrow> pydict \<Rightarrow> bool" where
  "expires_no_later a b \<longleftrightarrow> (case (py_get a ''not_after'', py_get b ''not_after'') of
     (PInt s, PInt t) \<Rightarrow> s \<le> t | _ \<Rightarrow> True)"

lemma find_map_first: "find P (map f xs) = map_option f (find (P \<circ> f) xs)"
  by (induction xs) simp_all

lemma find_sorted:
  assumes "sorted_wrt le xs" and "find P xs = Some x" and "y \<in> set xs" and "P y"
  shows "x = y \<or> le x y"
  using assms by (induction xs) (auto split: if_splits)

text \<open>
  The certificate the dashboard warns about is the one that expires first. When the database
  sorts by the expiry, no enabled and active certificate of the tenant expires before the one named
  as the nearest.
\<close>

theorem nearest_expiry_is_nearest:
  assumes "get_overview env q tenant g = (Inr ov, g')"
    and "\<forall>rows. set (ge_order env ''not_after ASC'' rows) = set rows
       \<and> sorted_wrt expires_no_later (ge_order env ''not_after ASC'' rows)"
    and "\<forall>c \<in> set (gd_table (gs_db g) ''certificates''). py_get c ''not_after'' \<in> insert PNone (range PInt)"
    and "c \<in> set (gd_table (gs_db g) ''certificates'')"
    and "where_eq [(''tenant_id'', tenant), (''enabled'', PBool True), (''is_active'', PBool True)] c"
    and "py_get c ''not_after'' = PInt t" and "t \<noteq> 0"
  shows "\<exists>n. n \<le> t \<and> py_get (ov_certificates ov) ''nearest_expiry'' = PStr (show_int n)"
proof -
  let ?P = "\<lambda>c. truthy (py_get c ''not_after'') \<and> truthy (py_get c ''is_active'')"
  let ?cols = "project [''cert_type'', ''is_active'', ''not_after'', ''name'']"
  let ?certs = "ge_order env ''not_after ASC'' (filter (where_eq [(''tenant_id'', tenant), (''enabled'', PBool True)])
    (gd_table (gs_db g) ''certificates''))"
  have cols: "py_get (?cols r) ''not_after'' = py_get r ''not_after''" "py_get (?cols r) ''is_active'' = py_get r ''is_active''"
    for r by (simp_all add: py_get_project)
  have c: "c \<in> set ?certs" "?P c" using assms(2,4-7) by (auto simp: where_eq_def sql_eq_def)
  then have "find ?P ?certs \<noteq> None" by (auto simp: find_None_iff)
  then obtain x where x: "find ?P ?certs = Some x" by blast
  have "x \<in> set ?certs" "?P x" using x by (auto simp: find_Some_iff)
  from this(1) have "x \<in> set (gd_table (gs_db g) ''certificates'')" by (simp add: assms(2) del: filter_filter)
  then have "py_get x ''not_after'' \<in> insert PNone (range PInt)"
    by (rule bspec [OF assms(3)])
  moreover have "truthy (py_get x ''not_after'')" using \<open>?P x\<close> ..
  ultimately obtain n where n: "py_get x ''not_after'' = PInt n" by (cases "py_get x ''not_after''") (simp_all add: image_iff)
  have "sorted_wrt expires_no_later ?certs" using assms(2) by blast
  from find_sorted [where P = ?P, OF this x c(1) c(2)] have "x = c \<or> expires_no_later x c" .
  then have "n \<le> t" using n assms(6) by (auto simp: expires_no_later_def)
  have "find ?P (map ?cols ?certs) = map_option ?cols (find ?P ?certs)"
    unfolding find_map_first by (simp add: comp_def cols)
  moreover have "py_get (certs_block cs) ''nearest_expiry''
      = (case find ?P cs of None \<Rightarrow> PNone | Some c \<Rightarrow> PStr (py_str (py_get c ''not_after'')))" for cs
    by (simp add: certs_block_def Let_def py_get_def dict_get_or_def)
  ultimately have "py_get (ov_certificates ov) ''nearest_expiry'' = PStr (show_int n)"
    unfolding get_overview_parts(3) [OF assms(1)] by (simp add: x n cols)
  with \<open>n \<le> t\<close> show ?thesis by blast
qed

definition ex_cert :: "string \<Rightarrow> int \<Rightarrow> pydict" where
  "ex_cert name t = [(''tenant_id'', PStr ''t1''), (''enabled'', PBool True), (''is_active'', PBool True),
     (''cert_type'', PStr ''server''), (''name'', PStr name), (''not_after'', PInt t)]"

definition ex_overview_store :: gw_state where
  "ex_overview_store = (let d = \<lparr>gd_table = (\<lambda>t. [])(
       ''certificates'' := [ex_cert ''b'' 700, ex_cert ''a'' 500],
       ''radius_realms'' := [[(''tenant_id'', PStr ''t1''), (''realm_type'', PStr ''local'')],
                             [(''tenant_id'', PStr ''t1''), (''realm_type'', PStr ''proxy'')],
                             [(''tenant_id'', PStr ''t2''), (''realm_type'', PStr ''local'')]]),
     gd_audit = [], gd_seq = 0\<rparr> in ex_gw_state\<lparr>gs_db := d, gs_committed := d\<rparr>)"

definition expiry_key :: "pydict \<Rightarrow> int" where
  "expiry_key c = (case py_get c ''not_after'' of PInt t \<Rightarrow> t | _ \<Rightarrow> 0)"

definition ex_sorting_env :: gw_env where
  "ex_sorting_env = ex_gw_env\<lparr>ge_order := (\<lambda>k. sort_key expiry_key)\<rparr>"

lemma ex_sorting: "sorted_wrt expires_no_later (sort_key expiry_key rows)"
proof -
  have "sorted_wrt (\<lambda>a b. expiry_key a \<le> expiry_key b) (sort_key expiry_key rows)"
    using sorted_sort_key [of expiry_key rows] by (simp add: sorted_map)
  then show ?thesis
    by (rule sorted_wrt_mono_rel [rotated]) (auto simp: expires_no_later_def expiry_key_def split: pyval.splits)
qed

lemma ex_overview_runs:
  "\<exists>ov. get_overview ex_sorting_env ex_log_sql (PStr ''t1'') ex_overview_store = (Inr ov, ex_overview_store)"
  by (simp add: get_overview_def overview_reads sbind_assoc after_read ex_overview_store_def ex_gw_state_def Let_def)


theorem nearest_expiry_is_nearest_witness:
  "\<exists>ov n. fst (get_overview ex_sorting_env ex_log_sql (PStr ''t1'') ex_overview_store) = Inr ov
     \<and> n \<le> 500 \<and> py_get (ov_certificates ov) ''nearest_expiry'' = PStr (show_int n)"
proof -
  obtain ov where run: "get_overview ex_sorting_env ex_log_sql (PStr ''t1'') ex_overview_store = (Inr ov, ex_overview_store)"
    using ex_overview_runs by blast
  have order: "\<forall>rows. set (ge_order ex_sorting_env ''not_after ASC'' rows) = set rows
      \<and> sorted_wrt expires_no_later (ge_order ex_sorting_env ''not_after ASC'' rows)"
    by (simp add: ex_sorting_env_def ex_sorting)
  have certs: "gd_table (gs_db ex_overview_store) ''certificates'' = [ex_cert ''b'' 700, ex_cert ''a'' 500]"
    by (simp add: ex_overview_store_def Let_def)
  have cert: "py_get (ex_cert n t) ''not_after'' = PInt t"
    "where_eq [(''tenant_id'', PStr ''t1''), (''enabled'', PBool True), (''is_active'', PBool True)] (ex_cert n t)" for n t
    by (simp_all add: ex_cert_def where_eq_def sql_eq_def py_get_def dict_get_or_def)
  have "\<exists>n. n \<le> 500 \<and> py_get (ov_certificates ov) ''nearest_expiry'' = PStr (show_int n)"
    by (rule nearest_expiry_is_nearest [OF run order, where c = "ex_cert ''a'' 500"]) (simp_all add: certs cert)
  with run show ?thesis by auto
qed

end
