(* ===== verification/Backups.thy ===== *)
theory Backups
  imports Devices Policy_Engine
begin

text \<open>
  Backups as the gateway shows them: \<open>services/gateway/features/backups\<close> with the responses of
  \<open>shared/orw_common/models/backup.py\<close>, and the health of the last backup
  (\<open>services/gateway/features/health/routes.py\<close>). The script that makes the backups writes a status
  file; what \<open>json\<close> and \<open>datetime.fromisoformat\<close> make of its text are parameters.
\<close>

section \<open>Repository\<close>

text \<open>The public columns: of the credentials only whether there are any.\<close>

definition settings_public :: "pydict \<Rightarrow> pydict" where
  "settings_public r =
     project [''schedule_cron'', ''keep_days'', ''destination_type''] r
     @ [(''destination_configured'', PBool (py_get r ''destination_config_encrypted'' \<noteq> PNone))]
     @ project [''enabled'', ''created_at'', ''updated_at''] r"

definition lookup_settings :: "pyval \<Rightarrow> (gw_state, pydict option) prog" where
  "lookup_settings tenant =
     sbind (select_rows ''backup_settings'' (where_eq [(''tenant_id'', tenant)])) (\<lambda>rows.
       sret (map_option settings_public (first_row rows)))"

definition runs_clause :: "pyval \<Rightarrow> pyval \<Rightarrow> pydict \<Rightarrow> bool" where
  "runs_clause tenant status = where_eq ([(''tenant_id'', tenant)] @ if_given ''local_status'' status)"

definition count_runs :: "pyval \<Rightarrow> pyval \<Rightarrow> (gw_state, int) prog" where
  "count_runs tenant status = count_rows ''backup_runs'' (runs_clause tenant status)"

definition repo_list_runs :: "gw_env \<Rightarrow> pyval \<Rightarrow> pyval \<Rightarrow> int \<Rightarrow> int \<Rightarrow> (gw_state, pydict list) prog" where
  "repo_list_runs env tenant status page page_size =
     select_page env ''started_at DESC'' ''backup_runs'' (runs_clause tenant status) page_size ((page - 1) * page_size)"

definition lookup_run :: "pyval \<Rightarrow> string \<Rightarrow> (gw_state, pydict option) prog" where
  "lookup_run tenant run_id =
     sbind (select_rows ''backup_runs'' (where_eq [(''id'', PStr run_id), (''tenant_id'', tenant)])) (\<lambda>rows.
       sret (first_row rows))"

section \<open>Responses\<close>

text \<open>The fields of a response, with their defaults where the row has no such column.\<close>

definition settings_response :: "pydict \<Rightarrow> pydict" where
  "settings_response row = map (\<lambda>(c, v). (c, dict_get_or row c v))
     [(''schedule_cron'', PStr ''30 2 * * *''), (''keep_days'', PInt 7), (''destination_type'', PStr ''none''),
      (''destination_configured'', PBool False), (''enabled'', PBool False), (''created_at'', PNone),
      (''updated_at'', PNone)]"

definition run_response :: "pydict \<Rightarrow> pydict" where
  "run_response row = map (\<lambda>(c, v). (c, dict_get_or row c v))
     [(''id'', PNone), (''triggered_by'', PNone), (''triggered_user_id'', PNone), (''started_at'', PNone),
      (''finished_at'', PNone), (''duration_seconds'', PNone), (''local_status'', PNone), (''local_archive_path'', PNone),
      (''local_archive_size_bytes'', PNone), (''local_error'', PNone), (''offsite_status'', PNone),
      (''offsite_error'', PNone), (''prune_deleted_count'', PInt 0)]"

section \<open>Service\<close>

definition get_settings :: "pyval \<Rightarrow> (gw_state, pydict) prog" where
  "get_settings tenant =
     sbind (lookup_settings tenant) (\<lambda>row.
       sret (settings_response (case row of None \<Rightarrow> [] | Some r \<Rightarrow> r)))"

definition list_runs :: "gw_env \<Rightarrow> pyval \<Rightarrow> pyval \<Rightarrow> int \<Rightarrow> int \<Rightarrow> (gw_state, pydict) prog" where
  "list_runs env tenant status page page_size =
     sbind (repo_list_runs env tenant status page page_size) (\<lambda>items_raw.
     sbind (count_runs tenant status) (\<lambda>n.
       sret (page_dict (map run_response items_raw) n page page_size)))"

definition get_run :: "pyval \<Rightarrow> string \<Rightarrow> (gw_state, pydict) prog" where
  "get_run tenant run_id =
     sbind (lookup_run tenant run_id) (\<lambda>row.
       case row of None \<Rightarrow> sraise (not_found ''BackupRun'' run_id) | Some r \<Rightarrow> sret (run_response r))"

section \<open>The health of the last backup\<close>

text \<open>\<open>he_parse\<close> gives whether a time has a zone, and the time; \<open>he_file\<close> is the status file, or the
  type and text of the error that reading it gave.\<close>

record health_env =
  he_path :: string
  he_stale_after :: int
  he_now :: int
  he_parse :: "string \<Rightarrow> (bool \<times> int) option"
  he_file :: "(string \<times> string + pyval) option"

definition STALE_AFTER_SECONDS :: int where "STALE_AFTER_SECONDS = 129600"

definition text_of :: "pyval \<Rightarrow> string result" where
  "text_of v = (case v of PStr t \<Rightarrow> Inr t | _ \<Rightarrow> Inl (AttributeError ''replace''))"

text \<open>The age of a run, none for a text that is no time; a time without a zone cannot be subtracted.\<close>

definition age_of :: "health_env \<Rightarrow> pyval \<Rightarrow> int option result" where
  "age_of he started_at =
     rbind (text_of started_at) (\<lambda>t.
       case he_parse he (py_replace ''Z'' ''+00:00'' t) of
         None \<Rightarrow> Inr None
       | Some (aware, ts) \<Rightarrow>
           if aware then Inr (Some (he_now he - ts))
           else Inl (TypeError (''can'' @ [CHR 0x27] @ ''t subtract offset-naive and offset-aware datetimes'')))"

definition overall_status :: "health_env \<Rightarrow> pyval \<Rightarrow> pyval \<Rightarrow> (string \<times> pyval) result" where
  "overall_status he local_status started_at =
     (if local_status = PStr ''ok'' \<and> truthy started_at then
        rbind (age_of he started_at) (\<lambda>age. Inr (case age of
          None \<Rightarrow> (''unknown'', PNone)
        | Some n \<Rightarrow> (if n \<le> he_stale_after he then ''ok'' else ''stale'', PInt n)))
      else Inr (if local_status = PStr ''error'' then ''error'' else ''unknown'', PNone))"

definition summarise_status :: "health_env \<Rightarrow> pyval \<Rightarrow> pydict result" where
  "summarise_status he raw =
     rbind (as_dict raw) (\<lambda>d.
       let started_at = py_get d ''started_at''; local_part = py_or (py_get d ''local'') (PDict []);
           offsite = py_or (py_get d ''offsite'') (PDict [])
       in rbind (as_dict local_part) (\<lambda>l.
          rbind (overall_status he (py_get l ''status'') started_at) (\<lambda>(overall, age).
            Inr [(''status'', PStr overall), (''last_run_started_at'', started_at), (''age_seconds'', age),
                 (''local'', local_part), (''offsite'', offsite), (''prune'', py_get d ''prune'')])))"

definition no_backup :: "string \<Rightarrow> string \<Rightarrow> pydict" where
  "no_backup status note_text =
     [(''status'', PStr status), (''last_run_started_at'', PNone), (''age_seconds'', PNone), (''local'', PNone),
      (''offsite'', PNone), (''prune'', PNone), (''note'', PStr note_text)]"

definition backup_health_check :: "health_env \<Rightarrow> pydict result" where
  "backup_health_check he =
     (case he_file he of
        None \<Rightarrow> Inr (no_backup ''unknown'' (''No backup status file at '' @ he_path he
           @ ''. Either the scheduled backup has never run, or the volume mount isn'' @ [CHR 0x27]
           @ ''t wired correctly. Check docs/runbook-backup-cron.md install steps.''))
      | Some (Inl (kind, e)) \<Rightarrow> Inr (no_backup ''error'' (''failed to read status file: '' @ kind @ '': '' @ e))
      | Some (Inr raw) \<Rightarrow> summarise_status he raw)"

definition health_check :: "string \<Rightarrow> pydict" where
  "health_check version = [(''status'', PStr ''ok''), (''service'', PStr ''orw-gateway''), (''version'', PStr version)]"

section \<open>What is green\<close>

text \<open>The status is ok only for a successful backup that is not older than the limit.\<close>

lemma health_ok:
  assumes "backup_health_check he = Inr report" and "py_get report ''status'' = PStr ''ok''"
  shows "\<exists>d l t ts. he_file he = Some (Inr (PDict d)) \<and> py_get d ''local'' = PDict l \<and> py_get l ''status'' = PStr ''ok''
    \<and> py_get d ''started_at'' = PStr t \<and> he_parse he (py_replace ''Z'' ''+00:00'' t) = Some (True, ts)
    \<and> he_now he - ts \<le> he_stale_after he"
proof -
  from assms obtain raw where read: "he_file he = Some (Inr raw)" and sum: "summarise_status he raw = Inr report"
    by (auto simp: backup_health_check_def no_backup_def py_get_def dict_get_or_def split: option.splits sum.splits)
  from sum obtain d where d: "raw = PDict d" by (cases raw) (simp_all add: summarise_status_def as_dict_def)
  let ?local = "py_or (py_get d ''local'') (PDict [])"
  from sum obtain l where l: "?local = PDict l"
    by (cases ?local) (simp_all add: d summarise_status_def as_dict_def Let_def)
  obtain overall age where o: "overall_status he (py_get l ''status'') (py_get d ''started_at'') = Inr (overall, age)"
    using sum by (cases "overall_status he (py_get l ''status'') (py_get d ''started_at'')")
      (auto simp: d l summarise_status_def as_dict_def Let_def)
  from sum obtain rest where "report = (''status'', PStr overall) # rest"
    by (auto simp: d l o summarise_status_def as_dict_def Let_def)
  with assms(2) have "overall = ''ok''" by (simp add: py_get_def dict_get_or_def)
  note o [unfolded this]
  then obtain t ts where run: "py_get l ''status'' = PStr ''ok''" "py_get d ''started_at'' = PStr t"
      "he_parse he (py_replace ''Z'' ''+00:00'' t) = Some (True, ts)" "he_now he - ts \<le> he_stale_after he"
    by (auto simp: overall_status_def age_of_def text_of_def rbind_def
      split: if_splits sum.splits option.splits pyval.splits)
  from l run(1) have "py_get d ''local'' = PDict l" by (auto simp: py_or_def py_get_def dict_get_or_def split: if_splits)
  with read d run show ?thesis by blast
qed

section \<open>Properties\<close>

text \<open>
  C29: Credentials of a backup stay in the database. The settings a tenant reads are the same
  whatever its encrypted credentials are, as long as there are any.
\<close>

theorem backup_credentials_hidden:
  assumes "gs_aborted g = gs_aborted h" and "v \<noteq> PNone"
    and "gd_table (gs_db h) ''backup_settings'' = map (\<lambda>r. if py_get r ''destination_config_encrypted'' = PNone then r
           else assign [(''destination_config_encrypted'', v)] r) (gd_table (gs_db g) ''backup_settings'')"
  shows "fst (get_settings tenant h) = fst (get_settings tenant g)"
proof -
  let ?f = "\<lambda>r. if py_get r ''destination_config_encrypted'' = PNone then r
    else assign [(''destination_config_encrypted'', v)] r"
  have get: "c \<noteq> ''destination_config_encrypted'' \<Longrightarrow> py_get (?f r) c = py_get r c" for c r
    by (simp add: assign_get)
  have public: "settings_public (?f r) = settings_public r" for r
    using assms(2) by (auto simp: settings_public_def project_def get assign_lookup dict_ok_def)
  have clause: "where_eq [(''tenant_id'', tenant)] (?f r) = where_eq [(''tenant_id'', tenant)] r" for r
    by (simp add: where_eq_def get)
  have "filter (where_eq [(''tenant_id'', tenant)]) (map ?f rows) = map ?f (filter (where_eq [(''tenant_id'', tenant)]) rows)"
    for rows by (induction rows) (simp_all only: filter.simps list.map clause if_distrib [of "map ?f"])
  moreover have "map_option settings_public (first_row (map ?f rows)) = map_option settings_public (first_row rows)" for rows
    by (cases rows) (simp_all only: first_row_def list.map list.case option.map public)
  ultimately have "map_option settings_public (first_row (filter (where_eq [(''tenant_id'', tenant)])
      (gd_table (gs_db h) ''backup_settings'')))
    = map_option settings_public (first_row (filter (where_eq [(''tenant_id'', tenant)])
      (gd_table (gs_db g) ''backup_settings'')))"
    unfolding assms(3) by simp
  then show ?thesis
    using assms(1) by (simp add: get_settings_def lookup_settings_def select_rows_def statement_def sbind_def)
qed

definition ex_backup_store :: "pyval \<Rightarrow> gw_state" where
  "ex_backup_store secret = ex_gw_state\<lparr>gs_db := put_table ''backup_settings''
     [[(''tenant_id'', PStr ''t1''), (''keep_days'', PInt 3), (''destination_config_encrypted'', secret)]]
     (gs_db ex_gw_state)\<rparr>"

theorem backup_credentials_hidden_witness:
  "fst (get_settings (PStr ''t1'') (ex_backup_store (PStr ''enc:b'')))
     = fst (get_settings (PStr ''t1'') (ex_backup_store (PStr ''enc:a'')))"
  by (rule backup_credentials_hidden [where v = "PStr ''enc:b''"])
    (simp_all add: ex_backup_store_def assign_def py_get_def dict_get_or_def)

end
