(* ===== verification/Gateway_Schemas.thy ===== *)
theory Gateway_Schemas
  imports Mab_Devices
begin

text \<open>
  The models of request and response bodies, \<open>shared/orw_common/models\<close>, as lists of fields with
  their types, defaults and constraints. \<open>validate\<close> is what a declaration says of a body: pydantic's
  coercion of a value to a type is a parameter, of which \<open>coerces\<close> states that the result has the
  type; presence, defaults, bounds, patterns and the validators of the source are written out.
\<close>

section \<open>Fields\<close>

datatype ftype = TStr | TInt | TBool | TFloat | TTime | TUuid | TAny | TList ftype | TMap ftype | TModel string

fun has_type :: "ftype \<Rightarrow> pyval \<Rightarrow> bool" where
  "has_type TStr v = (\<exists>t. v = PStr t)"
| "has_type TInt v = (\<exists>n. v = PInt n)"
| "has_type TBool v = (\<exists>b. v = PBool b)"
| "has_type TFloat v = (\<exists>s r. v = PObj s r)"
| "has_type TTime v = (\<exists>n. v = PInt n)"
| "has_type TUuid v = (\<exists>t. v = PStr t)"
| "has_type TAny v = True"
| "has_type (TList t) v = (\<exists>xs. v = PList xs \<and> (\<forall>x \<in> set xs. has_type t x))"
| "has_type (TMap t) v = (\<exists>d. v = PDict d \<and> (\<forall>x \<in> snd ` set d. has_type t x))"
| "has_type (TModel m) v = (\<exists>d. v = PDict d)"

type_synonym coercion = "ftype \<Rightarrow> pyval \<Rightarrow> pyval option"

definition coerces :: "coercion \<Rightarrow> bool" where
  "coerces co \<longleftrightarrow> (\<forall>t v w. co t v = Some w \<longrightarrow> has_type t w)"

record field =
  fd_name :: string
  fd_type :: ftype
  fd_optional :: bool
  fd_default :: "pyval option"
  fd_check :: "pyval \<Rightarrow> bool"
  fd_convert :: "pyval \<Rightarrow> pyval option"

text \<open>\<open>n: T\<close>, \<open>n: T = v\<close> and \<open>n: Optional[T] = None\<close>.\<close>

definition needed :: "string \<Rightarrow> ftype \<Rightarrow> field" where
  "needed n t = \<lparr>fd_name = n, fd_type = t, fd_optional = False, fd_default = None,
     fd_check = (\<lambda>v. True), fd_convert = Some\<rparr>"

definition preset :: "string \<Rightarrow> ftype \<Rightarrow> pyval \<Rightarrow> field" where
  "preset n t v = (needed n t)\<lparr>fd_default := Some v\<rparr>"

definition optional :: "string \<Rightarrow> ftype \<Rightarrow> field" where
  "optional n t = (needed n t)\<lparr>fd_optional := True, fd_default := Some PNone\<rparr>"

text \<open>The constraints \<open>ge\<close> and \<open>le\<close>, \<open>min_length\<close> and \<open>max_length\<close>, \<open>pattern\<close>.\<close>

definition also_checked :: "(pyval \<Rightarrow> bool) \<Rightarrow> field \<Rightarrow> field" where
  "also_checked P f = f\<lparr>fd_check := (\<lambda>v. fd_check f v \<and> P v)\<rparr>"

definition ranged :: "int \<Rightarrow> int \<Rightarrow> field \<Rightarrow> field" where
  "ranged lo hi = also_checked (\<lambda>v. case v of PInt n \<Rightarrow> (lo \<le> n \<and> n \<le> hi) | _ \<Rightarrow> True)"

definition sized :: "nat \<Rightarrow> nat \<Rightarrow> field \<Rightarrow> field" where
  "sized lo hi = also_checked (\<lambda>v. case v of PStr t \<Rightarrow> (lo \<le> length t \<and> length t \<le> hi) | _ \<Rightarrow> True)"

definition not_shorter :: "nat \<Rightarrow> field \<Rightarrow> field" where
  "not_shorter lo = also_checked (\<lambda>v. case v of PStr t \<Rightarrow> lo \<le> length t | PDict d \<Rightarrow> lo \<le> length d | _ \<Rightarrow> True)"

definition matching :: "(string \<Rightarrow> bool) \<Rightarrow> field \<Rightarrow> field" where
  "matching P = also_checked (\<lambda>v. case v of PStr t \<Rightarrow> P t | _ \<Rightarrow> True)"

definition among :: "string list \<Rightarrow> field \<Rightarrow> field" where
  "among cs = matching (\<lambda>t. t \<in> set cs)"

definition converted :: "(pyval \<Rightarrow> pyval option) \<Rightarrow> field \<Rightarrow> field" where
  "converted g f = f\<lparr>fd_convert := g\<rparr>"

section \<open>Validation\<close>

definition unprocessable :: "string \<Rightarrow> pyerr" where
  "unprocessable n = HttpError 422 n"

definition validate_value :: "coercion \<Rightarrow> field \<Rightarrow> pyval \<Rightarrow> pyval result" where
  "validate_value co f v =
     (if fd_optional f \<and> v = PNone then Inr PNone
      else case co (fd_type f) v of
             None \<Rightarrow> Inl (unprocessable (fd_name f))
           | Some w \<Rightarrow>
               if \<not> fd_check f w then Inl (unprocessable (fd_name f))
               else case fd_convert f w of None \<Rightarrow> Inl (unprocessable (fd_name f)) | Some x \<Rightarrow> Inr x)"

text \<open>The fields that are set, in the order of the model: \<open>model_dump(exclude_unset=True)\<close>.\<close>

fun validate :: "coercion \<Rightarrow> field list \<Rightarrow> pydict \<Rightarrow> pydict result" where
  "validate co [] body = Inr []"
| "validate co (f # fs) body =
     (case dict_get body (fd_name f) of
        None \<Rightarrow> if fd_default f = None then Inl (unprocessable (fd_name f)) else validate co fs body
      | Some v \<Rightarrow> rbind (validate_value co f v) (\<lambda>w.
          rbind (validate co fs body) (\<lambda>rest. Inr ((fd_name f, w) # rest))))"

text \<open>\<open>model_dump()\<close>: all fields, the unset ones by their defaults.\<close>

definition model_dump :: "field list \<Rightarrow> pydict \<Rightarrow> pydict" where
  "model_dump fs d = map (\<lambda>f. (fd_name f, dict_get_or d (fd_name f)
     (case fd_default f of None \<Rightarrow> PNone | Some v \<Rightarrow> v))) fs"

text \<open>\<open>model_dump(exclude_none=True)\<close>.\<close>

definition dump_given :: "field list \<Rightarrow> pydict \<Rightarrow> pydict" where
  "dump_given fs d = filter (\<lambda>(k, v). v \<noteq> PNone) (model_dump fs d)"

section \<open>Texts\<close>

text \<open>\<open>^([0-9A-Fa-f]{2}:){5}[0-9A-Fa-f]{2}$\<close>.\<close>

definition colon_mac :: "string \<Rightarrow> bool" where
  "colon_mac t \<longleftrightarrow> (let parts = py_split CHR '':'' t
     in length parts = 6 \<and> list_all (\<lambda>p. length p = 2 \<and> list_all is_hex_char p) parts)"

definition letter :: "char \<Rightarrow> bool" where
  "letter c \<longleftrightarrow> c \<in> set ''abcdefghijklmnopqrstuvwxyzABCDEFGHIJKLMNOPQRSTUVWXYZ''"

definition digit :: "char \<Rightarrow> bool" where
  "digit c \<longleftrightarrow> c \<in> set ''0123456789''"

text \<open>The pattern of an address of mail: its one at sign, and the last point after it.\<close>

definition mail_text :: "string \<Rightarrow> bool" where
  "mail_text t \<longleftrightarrow>
     (case py_split CHR ''@'' t of
        [local_part, domain] \<Rightarrow>
          local_part \<noteq> [] \<and> list_all (\<lambda>c. letter c \<or> digit c \<or> c \<in> set ''._%+-'') local_part
          \<and> CHR ''.'' \<in> set domain
          \<and> (case split_last CHR ''.'' domain of (host, tld) \<Rightarrow>
               host \<noteq> [] \<and> list_all (\<lambda>c. letter c \<or> digit c \<or> c \<in> set ''.-'') host
               \<and> 2 \<le> length tld \<and> list_all letter tld)
      | _ \<Rightarrow> False)"

text \<open>\<open>ge=0, le=1\<close> on a float, and a validator that rewrites an address.\<close>

definition unit_float :: "field \<Rightarrow> field" where
  "unit_float = also_checked (\<lambda>v. case v of
     PObj s r \<Rightarrow> (case parse_float s of Some (Fin x) \<Rightarrow> 0 \<le> x \<and> x \<le> 1 | _ \<Rightarrow> False) | _ \<Rightarrow> True)"

definition normalized_mac :: "(string \<Rightarrow> string result) \<Rightarrow> pyval \<Rightarrow> pyval option" where
  "normalized_mac g v = (case v of
     PStr t \<Rightarrow> (case g t of Inl e \<Rightarrow> None | Inr m \<Rightarrow> Some (PStr m)) | _ \<Rightarrow> None)"

text \<open>The validators of addresses in responses, which run before the type is checked.\<close>

definition coerce_addr :: "pyval \<Rightarrow> pyval option" where
  "coerce_addr v = Some (if v = PNone then PNone else PStr (py_str v))"

definition coerce_ip :: "pyval \<Rightarrow> pyval option" where
  "coerce_ip v = Some (PStr (if v = PNone then [] else py_str v))"

text \<open>A response built from a row, whose columns have the types of the schema: the declared fields only.\<close>

definition response :: "field list \<Rightarrow> pydict \<Rightarrow> pydict" where
  "response fs row = map (\<lambda>f.
     (fd_name f, case dict_get row (fd_name f) of
        None \<Rightarrow> (case fd_default f of None \<Rightarrow> PNone | Some v \<Rightarrow> v)
      | Some v \<Rightarrow> (case fd_convert f v of None \<Rightarrow> v | Some w \<Rightarrow> w))) fs"

section \<open>Models\<close>

text \<open>\<open>models/common.py\<close>\<close>

definition SettingsUpdate :: "field list" where
  "SettingsUpdate =
     [not_shorter 1 (needed ''settings'' (TMap TStr))]"

text \<open>\<open>models/auth.py\<close>\<close>

definition LoginRequest :: "field list" where
  "LoginRequest =
     [needed ''username'' TStr, needed ''password'' TStr]"

definition UserCreate :: "field list" where
  "UserCreate =
     [sized 3 50 (needed ''username'' TStr), optional ''email'' TStr,
      not_shorter 8 (needed ''password'' TStr),
      among [''admin'', ''operator'', ''viewer''] (preset ''role'' TStr (PStr ''viewer''))]"

definition UserUpdate :: "field list" where
  "UserUpdate =
     [optional ''email'' TStr, among [''admin'', ''operator'', ''viewer''] (optional ''role'' TStr),
      optional ''enabled'' TBool]"

definition PasswordReset :: "field list" where
  "PasswordReset =
     [not_shorter 8 (needed ''new_password'' TStr)]"

definition PasswordChange :: "field list" where
  "PasswordChange =
     [needed ''current_password'' TStr, not_shorter 8 (needed ''new_password'' TStr)]"

definition EmailUpdate :: "field list" where
  "EmailUpdate =
     [matching mail_text (needed ''email'' TStr)]"

definition UserPreferences :: "field list" where
  "UserPreferences =
     [preset ''timezone'' TStr (PStr ''UTC''), preset ''language'' TStr (PStr ''en''),
      among [''light'', ''dark''] (preset ''theme'' TStr (PStr ''light'')),
      preset ''notifications_enabled'' TBool (PBool True)]"

definition UserResponse :: "field list" where
  "UserResponse =
     [needed ''id'' TUuid, needed ''username'' TStr, optional ''email'' TStr, needed ''role'' TStr,
      needed ''enabled'' TBool, optional ''last_login'' TTime, needed ''created_at'' TTime]"

text \<open>\<open>models/vlan.py\<close>\<close>

definition VlanCreate :: "field list" where
  "VlanCreate =
     [ranged 1 4094 (needed ''vlan_id'' TInt), sized 1 100 (needed ''name'' TStr),
      optional ''description'' TStr,
      among [''corporate'', ''guest'', ''quarantine'', ''iot'', ''voip'', ''printer'', ''remediation'', ''management''] (optional ''purpose'' TStr),
      optional ''subnet'' TStr, preset ''enabled'' TBool (PBool True)]"

definition VlanUpdate :: "field list" where
  "VlanUpdate =
     [ranged 1 4094 (optional ''vlan_id'' TInt), sized 1 100 (optional ''name'' TStr),
      optional ''description'' TStr, optional ''purpose'' TStr, optional ''subnet'' TStr,
      optional ''enabled'' TBool]"

text \<open>\<open>models/group_vlan_mapping.py\<close>\<close>

definition GroupVlanMappingCreate :: "field list" where
  "GroupVlanMappingCreate =
     [sized 1 255 (needed ''group_name'' TStr), ranged 1 4094 (needed ''vlan_id'' TInt),
      ranged 1 9999 (preset ''priority'' TInt (PInt 100)), optional ''description'' TStr,
      optional ''ldap_server_id'' TStr, preset ''enabled'' TBool (PBool True)]"

definition GroupVlanMappingUpdate :: "field list" where
  "GroupVlanMappingUpdate =
     [sized 1 255 (optional ''group_name'' TStr), ranged 1 4094 (optional ''vlan_id'' TInt),
      ranged 1 9999 (optional ''priority'' TInt), optional ''description'' TStr,
      optional ''ldap_server_id'' TStr, optional ''enabled'' TBool]"

text \<open>\<open>models/nas_client.py\<close>\<close>

definition NASClientCreate :: "field list" where
  "NASClientCreate =
     [sized 1 255 (needed ''name'' TStr), needed ''ip_address'' TStr,
      not_shorter 6 (needed ''shared_secret'' TStr), optional ''shortname'' TStr,
      preset ''nas_type'' TStr (PStr ''other''), optional ''description'' TStr]"

definition NASClientUpdate :: "field list" where
  "NASClientUpdate =
     [sized 1 255 (optional ''name'' TStr), optional ''ip_address'' TStr,
      not_shorter 6 (optional ''shared_secret'' TStr), optional ''shortname'' TStr,
      optional ''nas_type'' TStr, optional ''description'' TStr, optional ''enabled'' TBool]"

text \<open>\<open>models/ldap_server.py\<close>\<close>

definition LDAPServerCreate :: "field list" where
  "LDAPServerCreate =
     [sized 1 255 (needed ''name'' TStr), optional ''description'' TStr, sized 1 255 (needed ''host'' TStr),
      ranged 1 65535 (preset ''port'' TInt (PInt 389)), preset ''use_tls'' TBool (PBool False),
      preset ''use_starttls'' TBool (PBool False), sized 1 512 (needed ''bind_dn'' TStr),
      not_shorter 1 (needed ''bind_password'' TStr), sized 1 512 (needed ''base_dn'' TStr),
      sized 0 512 (preset ''user_search_filter'' TStr (PStr ''(sAMAccountName={0})'')),
      sized 0 512 (optional ''user_search_base'' TStr), sized 0 512 (optional ''group_search_filter'' TStr),
      sized 0 512 (optional ''group_search_base'' TStr),
      sized 0 128 (preset ''group_membership_attr'' TStr (PStr ''memberOf'')),
      sized 0 128 (preset ''username_attr'' TStr (PStr ''sAMAccountName'')),
      sized 0 128 (preset ''display_name_attr'' TStr (PStr ''displayName'')),
      sized 0 128 (preset ''email_attr'' TStr (PStr ''mail'')),
      ranged 1 30 (preset ''connect_timeout_seconds'' TInt (PInt 5)),
      ranged 1 60 (preset ''search_timeout_seconds'' TInt (PInt 10)),
      ranged 30 3600 (preset ''idle_timeout_seconds'' TInt (PInt 300)), optional ''tls_ca_cert'' TStr,
      among [''never'', ''allow'', ''try'', ''demand''] (preset ''tls_require_cert'' TStr (PStr ''demand'')),
      ranged 0 9999 (preset ''priority'' TInt (PInt 100)), preset ''enabled'' TBool (PBool True)]"

definition LDAPServerUpdate :: "field list" where
  "LDAPServerUpdate =
     [sized 1 255 (optional ''name'' TStr), optional ''description'' TStr,
      sized 1 255 (optional ''host'' TStr), ranged 1 65535 (optional ''port'' TInt),
      optional ''use_tls'' TBool, optional ''use_starttls'' TBool, sized 0 512 (optional ''bind_dn'' TStr),
      optional ''bind_password'' TStr, sized 1 512 (optional ''base_dn'' TStr),
      sized 0 512 (optional ''user_search_filter'' TStr), sized 0 512 (optional ''user_search_base'' TStr),
      sized 0 512 (optional ''group_search_filter'' TStr), sized 0 512 (optional ''group_search_base'' TStr),
      sized 0 128 (optional ''group_membership_attr'' TStr), sized 0 128 (optional ''username_attr'' TStr),
      sized 0 128 (optional ''display_name_attr'' TStr), sized 0 128 (optional ''email_attr'' TStr),
      ranged 1 30 (optional ''connect_timeout_seconds'' TInt),
      ranged 1 60 (optional ''search_timeout_seconds'' TInt),
      ranged 30 3600 (optional ''idle_timeout_seconds'' TInt), optional ''tls_ca_cert'' TStr,
      among [''never'', ''allow'', ''try'', ''demand''] (optional ''tls_require_cert'' TStr),
      ranged 0 9999 (optional ''priority'' TInt), optional ''enabled'' TBool]"

text \<open>\<open>models/radius_realm.py\<close>\<close>

definition RealmCreate :: "field list" where
  "RealmCreate =
     [sized 1 255 (needed ''name'' TStr), optional ''description'' TStr,
      among [''local'', ''proxy'', ''reject''] (needed ''realm_type'' TStr),
      preset ''strip_username'' TBool (PBool True), optional ''proxy_host'' TStr,
      ranged 1 65535 ((optional ''proxy_port'' TInt)\<lparr>fd_default := Some (PInt 1812)\<rparr>),
      optional ''proxy_secret'' TStr, preset ''proxy_nostrip'' TBool (PBool False),
      ranged 0 10 (preset ''proxy_retry_count'' TInt (PInt 3)),
      ranged 1 30 (preset ''proxy_retry_delay_seconds'' TInt (PInt 5)),
      ranged 0 600 (preset ''proxy_dead_time_seconds'' TInt (PInt 120)), optional ''ldap_server_id'' TStr,
      preset ''auth_types_allowed'' (TList TStr) (PList [PStr ''EAP-TLS'', PStr ''PEAP'', PStr ''EAP-TTLS'', PStr ''MAB'']),
      ranged 1 4094 (optional ''default_vlan'' TInt), optional ''default_filter_id'' TStr,
      optional ''fallback_realm_id'' TStr, ranged 0 9999 (preset ''priority'' TInt (PInt 100)),
      preset ''enabled'' TBool (PBool True)]"

definition RealmUpdate :: "field list" where
  "RealmUpdate =
     [sized 1 255 (optional ''name'' TStr), optional ''description'' TStr,
      among [''local'', ''proxy'', ''reject''] (optional ''realm_type'' TStr),
      optional ''strip_username'' TBool, optional ''proxy_host'' TStr,
      ranged 1 65535 (optional ''proxy_port'' TInt), optional ''proxy_secret'' TStr,
      optional ''proxy_nostrip'' TBool, ranged 0 10 (optional ''proxy_retry_count'' TInt),
      ranged 1 30 (optional ''proxy_retry_delay_seconds'' TInt),
      ranged 0 600 (optional ''proxy_dead_time_seconds'' TInt), optional ''ldap_server_id'' TStr,
      optional ''auth_types_allowed'' (TList TStr), ranged 1 4094 (optional ''default_vlan'' TInt),
      optional ''default_filter_id'' TStr, optional ''fallback_realm_id'' TStr,
      ranged 0 9999 (optional ''priority'' TInt), optional ''enabled'' TBool]"

text \<open>\<open>models/mab_device.py\<close>\<close>

definition MabDeviceCreate :: "field list" where
  "MabDeviceCreate =
     [converted (normalized_mac create_normalize_mac) (needed ''mac_address'' TStr),
      sized 0 255 (optional ''name'' TStr), optional ''description'' TStr, optional ''device_type'' TStr,
      ranged 1 4094 (optional ''assigned_vlan_id'' TInt), preset ''enabled'' TBool (PBool True),
      optional ''expiry_date'' TTime]"

definition MabDeviceUpdate :: "field list" where
  "MabDeviceUpdate =
     [sized 0 255 (optional ''name'' TStr), optional ''description'' TStr, optional ''device_type'' TStr,
      ranged 1 4094 (optional ''assigned_vlan_id'' TInt), optional ''enabled'' TBool,
      optional ''expiry_date'' TTime]"

definition MabDeviceBulkItem :: "field list" where
  "MabDeviceBulkItem =
     [converted (normalized_mac bulk_normalize_mac) (needed ''mac_address'' TStr), optional ''name'' TStr,
      optional ''description'' TStr, optional ''device_type'' TStr,
      ranged 1 4094 (optional ''assigned_vlan_id'' TInt), optional ''expiry_date'' TTime]"

text \<open>\<open>models/certificate.py\<close>\<close>

definition GenerateCARequest :: "field list" where
  "GenerateCARequest =
     [sized 1 255 (needed ''name'' TStr), sized 1 255 (needed ''common_name'' TStr),
      ranged 1 36500 (preset ''validity_days'' TInt (PInt 3650)),
      ranged 2048 8192 (preset ''key_size'' TInt (PInt 4096)), optional ''organization'' TStr,
      sized 2 2 (optional ''country'' TStr)]"

definition GenerateServerRequest :: "field list" where
  "GenerateServerRequest =
     [sized 1 255 (needed ''name'' TStr), sized 1 255 (needed ''common_name'' TStr),
      preset ''san_dns'' (TList TStr) (PList []), preset ''san_ips'' (TList TStr) (PList []),
      ranged 1 3650 (preset ''validity_days'' TInt (PInt 730)),
      ranged 2048 8192 (preset ''key_size'' TInt (PInt 2048))]"

definition ImportCertRequest :: "field list" where
  "ImportCertRequest =
     [sized 1 255 (needed ''name'' TStr),
      among [''ca'', ''server'', ''client'', ''radius''] (needed ''cert_type'' TStr),
      needed ''cert_pem'' TStr, optional ''key_pem'' TStr, optional ''chain_pem'' TStr]"

text \<open>\<open>models/device.py\<close>\<close>

definition DeviceCreate :: "field list" where
  "DeviceCreate =
     [matching colon_mac (needed ''mac_address'' TStr), optional ''ip_address'' TStr,
      optional ''hostname'' TStr, optional ''device_type'' TStr, optional ''os_family'' TStr,
      optional ''os_version'' TStr, optional ''vendor'' TStr, optional ''model'' TStr]"

definition DeviceUpdate :: "field list" where
  "DeviceUpdate =
     [optional ''ip_address'' TStr, optional ''hostname'' TStr, optional ''device_type'' TStr,
      optional ''os_family'' TStr, optional ''os_version'' TStr, optional ''vendor'' TStr,
      optional ''model'' TStr, optional ''status'' TStr, ranged 0 100 (optional ''risk_score'' TInt)]"

definition DeviceResponse :: "field list" where
  "DeviceResponse =
     [needed ''id'' TUuid, converted coerce_addr (needed ''mac_address'' TStr),
      converted coerce_addr (optional ''ip_address'' TStr), optional ''hostname'' TStr,
      optional ''device_type'' TStr, optional ''os_family'' TStr, optional ''os_version'' TStr,
      optional ''vendor'' TStr, optional ''model'' TStr, needed ''first_seen'' TTime,
      needed ''last_seen'' TTime, needed ''status'' TStr, needed ''risk_score'' TInt]"

definition DevicePropertyCreate :: "field list" where
  "DevicePropertyCreate =
     [needed ''category'' TStr, needed ''key'' TStr, needed ''value'' TStr,
      preset ''source'' TStr (PStr ''manual''), unit_float (preset ''confidence'' TFloat (PObj ''1.0'' ''1.0''))]"

text \<open>\<open>models/network_device.py\<close>\<close>

definition NetworkDeviceCreate :: "field list" where
  "NetworkDeviceCreate =
     [needed ''ip_address'' TStr, optional ''hostname'' TStr, needed ''vendor'' TStr, optional ''model'' TStr,
      optional ''os_version'' TStr,
      among [''switch'', ''router'', ''ap'', ''firewall''] (needed ''device_type'' TStr),
      preset ''management_protocol'' TStr (PStr ''snmp''), preset ''snmp_version'' TStr (PStr ''v2c''),
      optional ''snmp_community'' TStr, optional ''ssh_username'' TStr, optional ''ssh_password'' TStr,
      preset ''poll_interval_seconds'' TInt (PInt 300)]"

definition NetworkDeviceUpdate :: "field list" where
  "NetworkDeviceUpdate =
     [optional ''hostname'' TStr, optional ''vendor'' TStr, optional ''model'' TStr,
      optional ''os_version'' TStr, optional ''management_protocol'' TStr, optional ''snmp_version'' TStr,
      optional ''snmp_community'' TStr, optional ''ssh_username'' TStr, optional ''ssh_password'' TStr,
      optional ''enabled'' TBool, optional ''poll_interval_seconds'' TInt]"

definition NetworkDeviceResponse :: "field list" where
  "NetworkDeviceResponse =
     [needed ''id'' TUuid, converted coerce_ip (needed ''ip_address'' TStr), optional ''hostname'' TStr,
      needed ''vendor'' TStr, optional ''model'' TStr, optional ''os_version'' TStr,
      needed ''device_type'' TStr, needed ''management_protocol'' TStr,
      (optional ''snmp_version'' TStr)\<lparr>fd_default := Some (PStr ''v2c'')\<rparr>,
      preset ''enabled'' TBool (PBool True), optional ''last_polled'' TTime,
      preset ''poll_interval_seconds'' TInt (PInt 300), preset ''port_count'' TInt (PInt 0),
      optional ''created_at'' TTime, optional ''updated_at'' TTime]"

definition SwitchPortResponse :: "field list" where
  "SwitchPortResponse =
     [needed ''id'' TUuid, needed ''port_name'' TStr, optional ''port_index'' TInt, needed ''port_type'' TStr,
      needed ''admin_status'' TStr, needed ''oper_status'' TStr, optional ''speed_mbps'' TInt,
      optional ''current_vlan'' TInt, optional ''assigned_vlan'' TInt, optional ''poe_status'' TStr,
      optional ''last_mac_seen'' TStr, optional ''description'' TStr,
      optional ''connected_device'' (TMap TAny), needed ''updated_at'' TTime]"

text \<open>\<open>models/policy.py\<close>\<close>

definition PolicyCondition :: "field list" where
  "PolicyCondition =
     [needed ''field'' TStr, needed ''operator'' TStr, needed ''value'' TAny]"

definition PolicyAction :: "field list" where
  "PolicyAction =
     [needed ''type'' TStr, preset ''params'' (TMap TAny) (PDict [])]"

definition PolicyCreate :: "field list" where
  "PolicyCreate =
     [sized 1 255 (needed ''name'' TStr), optional ''description'' TStr,
      ranged 1 10000 (preset ''priority'' TInt (PInt 100)),
      needed ''conditions'' (TList (TModel ''PolicyCondition'')),
      needed ''match_actions'' (TList (TModel ''PolicyAction'')),
      preset ''no_match_actions'' (TList (TModel ''PolicyAction'')) (PList []),
      preset ''enabled'' TBool (PBool True)]"

definition PolicyUpdate :: "field list" where
  "PolicyUpdate =
     [sized 1 255 (optional ''name'' TStr), optional ''description'' TStr,
      ranged 1 10000 (optional ''priority'' TInt),
      optional ''conditions'' (TList (TModel ''PolicyCondition'')),
      optional ''match_actions'' (TList (TModel ''PolicyAction'')),
      optional ''no_match_actions'' (TList (TModel ''PolicyAction'')), optional ''enabled'' TBool]"

definition PolicyTemplateOverrides :: "field list" where
  "PolicyTemplateOverrides =
     [optional ''name'' TStr, optional ''description'' TStr, ranged 1 10000 (optional ''priority'' TInt),
      optional ''conditions'' (TList (TMap TAny)), optional ''match_actions'' (TList (TMap TAny)),
      optional ''no_match_actions'' (TList (TMap TAny))]"

definition DeviceContext :: "field list" where
  "DeviceContext =
     [optional ''mac_address'' TStr, optional ''ip_address'' TStr, optional ''hostname'' TStr,
      optional ''device_type'' TStr, optional ''os_family'' TStr, optional ''vendor'' TStr,
      optional ''vlan'' TInt, optional ''port'' TStr, optional ''switch_ip'' TStr,
      optional ''auth_type'' TStr, optional ''username'' TStr, optional ''realm'' TStr]"

definition PolicyResponse :: "field list" where
  "PolicyResponse =
     [needed ''id'' TUuid, needed ''name'' TStr, optional ''description'' TStr, needed ''priority'' TInt,
      needed ''conditions'' (TList (TMap TAny)), needed ''match_actions'' (TList (TMap TAny)),
      needed ''no_match_actions'' (TList (TMap TAny)), needed ''enabled'' TBool, needed ''created_at'' TTime,
      needed ''updated_at'' TTime]"

text \<open>\<open>models/coa.py\<close>\<close>

definition CoARequest :: "field list" where
  "CoARequest =
     [among [''disconnect'', ''reauthenticate'', ''vlan_change'', ''apply_acl'', ''bounce_port''] (needed ''action'' TStr),
      ranged 1 4094 (optional ''vlan_id'' TInt), optional ''acl_name'' TStr, optional ''reason'' TStr]"

definition CoAByMacRequest :: "field list" where
  "CoAByMacRequest =
     CoARequest @ [needed ''mac_address'' TStr]"

definition CoAByUsernameRequest :: "field list" where
  "CoAByUsernameRequest =
     CoARequest @ [needed ''username'' TStr]"

definition CoABySessionRequest :: "field list" where
  "CoABySessionRequest =
     CoARequest @ [needed ''session_id'' TStr]"

definition CoABulkRequest :: "field list" where
  "CoABulkRequest =
     [among [''disconnect'', ''reauthenticate'', ''vlan_change''] (needed ''action'' TStr),
      needed ''targets'' (TList TStr),
      among [''mac'', ''session_id'', ''username''] (preset ''target_type'' TStr (PStr ''mac'')),
      optional ''vlan_id'' TInt, optional ''reason'' TStr]"


section \<open>What validation gives\<close>

lemma validate_sets:
  "validate co fs body = Inr d \<Longrightarrow> (k, w) \<in> set d \<Longrightarrow> \<exists>f v. f \<in> set fs \<and> fd_name f = k \<and> validate_value co f v = Inr w"
proof (induction fs arbitrary: d)
  case (Cons f fs)
  show ?case
  proof (cases "dict_get body (fd_name f)")
    case None
    then show ?thesis using Cons by (fastforce split: if_splits)
  next
    case (Some v)
    with Cons.prems(1) obtain x rest where v: "validate_value co f v = Inr x" "validate co fs body = Inr rest" "d = (fd_name f, x) # rest"
      by (auto simp: rbind_def split: sum.splits)
    from v(3) Cons.prems(2) consider "k = fd_name f" "w = x" | "(k, w) \<in> set rest" by auto
    then show ?thesis using v(1) Cons.IH [OF v(2)] by cases fastforce+
  qed
qed simp

lemma validate_keys: "validate co fs body = Inr d \<Longrightarrow> fst ` set d \<subseteq> fd_name ` set fs"
  using validate_sets by fastforce

lemma validate_keys_distinct:
  "distinct (map fd_name fs) \<Longrightarrow> validate co fs body = Inr d \<Longrightarrow> dict_ok d"
proof (induction fs arbitrary: d)
  case (Cons f fs)
  show ?case
  proof (cases "dict_get body (fd_name f)")
    case None
    then show ?thesis using Cons by (auto split: if_splits)
  next
    case (Some v)
    with Cons.prems(2) obtain x rest where v: "validate co fs body = Inr rest" "d = (fd_name f, x) # rest"
      by (auto simp: rbind_def split: sum.splits)
    from Cons.IH [OF _ v(1)] Cons.prems(1) validate_keys [OF v(1)] show ?thesis by (auto simp: v(2) dict_ok_def)
  qed
qed (simp add: dict_ok_def)

lemma validate_missing:
  "validate co fs body = Inr d \<Longrightarrow> f \<in> set fs \<Longrightarrow> fd_name f \<notin> fst ` set d \<Longrightarrow> fd_default f \<noteq> None"
proof (induction fs arbitrary: d)
  case (Cons g fs)
  show ?case
  proof (cases "dict_get body (fd_name g)")
    case None
    then show ?thesis using Cons by (auto split: if_splits)
  next
    case (Some v)
    with Cons.prems(1) obtain x rest where v: "validate co fs body = Inr rest" "d = (fd_name g, x) # rest"
      by (auto simp: rbind_def split: sum.splits)
    from Cons.IH [OF v(1)] Cons.prems(2,3) show ?thesis by (auto simp: v(2))
  qed
qed simp

text \<open>A value that passed: null, or of the type of the field and within its constraints.\<close>

lemma validate_value_Inr:
  assumes "coerces co" and "validate_value co f v = Inr w"
  shows "fd_optional f \<and> w = PNone \<or> (\<exists>u. has_type (fd_type f) u \<and> fd_check f u \<and> fd_convert f u = Some w)"
  using assms by (auto simp: validate_value_def coerces_def split: if_splits option.splits)

text \<open>A field of the dump: what was given, or the default.\<close>

lemma model_dump_field:
  assumes "coerces co" and "distinct (map fd_name fs)" and "validate co fs body = Inr d" and "f \<in> set fs"
  shows "fd_default f = Some (py_get (model_dump fs d) (fd_name f))
    \<or> fd_optional f \<and> py_get (model_dump fs d) (fd_name f) = PNone
    \<or> (\<exists>u. has_type (fd_type f) u \<and> fd_check f u \<and> fd_convert f u = Some (py_get (model_dump fs d) (fd_name f)))"
proof -
  have one: "g = f" if "g \<in> set fs" "fd_name g = fd_name f" for g
    using assms(2,4) that by (auto simp: distinct_map inj_on_def)
  have "dict_ok (model_dump fs d)" using assms(2) by (simp add: model_dump_def dict_ok_def comp_def)
  then have dump: "py_get (model_dump fs d) (fd_name f)
      = dict_get_or d (fd_name f) (case fd_default f of None \<Rightarrow> PNone | Some v \<Rightarrow> v)"
    unfolding py_get_def dict_get_or_def [of "model_dump fs d"]
    using assms(4) by (subst map_of_is_SomeI [of _ "fd_name f"]) (auto simp: model_dump_def dict_ok_def)
  show ?thesis
  proof (cases "dict_get d (fd_name f)")
    case None
    then have "fd_name f \<notin> fst ` set d" by (simp add: map_of_eq_None_iff)
    from validate_missing [OF assms(3,4) this] None dump show ?thesis by (auto simp: dict_get_or_def)
  next
    case (Some w)
    then have "(fd_name f, w) \<in> set d" by (simp add: map_of_SomeD)
    from validate_sets [OF assms(3) this] obtain g v where g: "g \<in> set fs" "fd_name g = fd_name f" "validate_value co g v = Inr w"
      by blast
    with one have "g = f" by blast
    with validate_value_Inr [OF assms(1)] g(3) Some dump show ?thesis by (auto simp: dict_get_or_def)
  qed
qed

end
