(* ===== verification/Gateway_Routes.thy ===== *)
theory Gateway_Routes
  imports Gateway_Schemas Auth_Login Service_World
begin

text \<open>
  How the gateway answers a request: the routers of \<open>services/gateway/main.py\<close>, the dependencies of
  \<open>middleware/auth.py\<close>, the parameters and bodies the handlers declare, and the transaction around
  each of them. FastAPI resolves the dependencies first, then validates the parameters and the body,
  then calls the handler; the first route whose method and path fit answers. The decoding of a token
  and the coercion of a value to a type are parameters.
\<close>

section \<open>Requests\<close>

record request =
  rq_method :: string
  rq_path :: "string list"
  rq_query :: "(string, string) dict"
  rq_body :: pyval
  rq_token :: "string option"
  rq_host :: "string option"

text \<open>What a handler sees: the user, the parameters, the body and the address of the client.\<close>

record call =
  ca_user :: pydict
  ca_args :: pydict
  ca_body :: pyval
  ca_ip :: pyval

datatype seg = Lit string | Par string

fun fits :: "seg list \<Rightarrow> string list \<Rightarrow> pydict option" where
  "fits [] [] = Some []"
| "fits (Lit a # p) (x # xs) = (if x = a then fits p xs else None)"
| "fits (Par n # p) (x # xs) = (if x = [] then None else map_option (\<lambda>d. (n, PStr x) # d) (fits p xs))"
| "fits _ _ = None"

datatype access = Public | AnyUser | Operator | Admin

text \<open>The dependency a route declares for its user.\<close>

definition admit :: "login_env \<Rightarrow> access \<Rightarrow> string option \<Rightarrow> pydict result" where
  "admit env access token = (case access of
     Public \<Rightarrow> Inr [] | AnyUser \<Rightarrow> get_current_user env token
   | Operator \<Rightarrow> require_operator env token | Admin \<Rightarrow> require_admin env token)"

datatype body_decl = NoBody | Body "field list" | OptionalBody "field list" | Bodies "field list" | TextBody

text \<open>A body that is validated: of a model what is set, of several models a list.\<close>

definition read_body :: "coercion \<Rightarrow> body_decl \<Rightarrow> pyval \<Rightarrow> pyval result" where
  "read_body co decl v = (case decl of
     NoBody \<Rightarrow> Inr PNone
   | Body fs \<Rightarrow> (case v of PDict d \<Rightarrow> rbind (validate co fs d) (\<lambda>b. Inr (PDict b)) | _ \<Rightarrow> Inl (unprocessable ''body''))
   | OptionalBody fs \<Rightarrow> (case v of
        PNone \<Rightarrow> Inr PNone
      | PDict d \<Rightarrow> rbind (validate co fs d) (\<lambda>b. Inr (PDict b)) | _ \<Rightarrow> Inl (unprocessable ''body''))
   | Bodies fs \<Rightarrow> (case v of
        PList xs \<Rightarrow> rbind (rmap (\<lambda>x. case x of
            PDict d \<Rightarrow> rbind (validate co fs d) (\<lambda>b. Inr (PDict b)) | _ \<Rightarrow> Inl (unprocessable ''body'')) xs)
          (\<lambda>bs. Inr (PList bs))
      | _ \<Rightarrow> Inl (unprocessable ''body''))
   | TextBody \<Rightarrow> (case co TStr v of None \<Rightarrow> Inl (unprocessable ''body'') | Some t \<Rightarrow> Inr t))"

definition client_address :: "request \<Rightarrow> pyval" where
  "client_address rq = (case rq_host rq of None \<Rightarrow> PNone | Some h \<Rightarrow> PStr h)"

section \<open>Routes\<close>

record ('env, 'answer) route =
  rt_method :: string
  rt_path :: "seg list"
  rt_access :: access
  rt_params :: "field list"
  rt_body :: body_decl
  rt_run :: "'env \<Rightarrow> call \<Rightarrow> (gw_state, 'answer) prog"

definition route ::
  "string \<Rightarrow> seg list \<Rightarrow> access \<Rightarrow> field list \<Rightarrow> body_decl \<Rightarrow> ('env \<Rightarrow> call \<Rightarrow> (gw_state, 'answer) prog)
   \<Rightarrow> ('env, 'answer) route" where
  "route meth path access params body handler = \<lparr>rt_method = meth, rt_path = path, rt_access = access,
     rt_params = params, rt_body = body, rt_run = handler\<rparr>"

text \<open>The prefix a router is mounted under.\<close>

definition under :: "seg list \<Rightarrow> ('env, 'answer) route list \<Rightarrow> ('env, 'answer) route list" where
  "under prefix_segs routes = map (\<lambda>r. r\<lparr>rt_path := prefix_segs @ rt_path r\<rparr>) routes"

definition read_call ::
  "coercion \<Rightarrow> ('env, 'answer) route \<Rightarrow> request \<Rightarrow> pydict \<Rightarrow> pydict \<Rightarrow> call result" where
  "read_call co r rq path_args user =
     rbind (validate co (rt_params r) (path_args @ map (\<lambda>(k, t). (k, PStr t)) (rq_query rq))) (\<lambda>args.
     rbind (read_body co (rt_body r) (rq_body rq)) (\<lambda>body.
       Inr \<lparr>ca_user = user, ca_args = model_dump (rt_params r) args, ca_body = body, ca_ip = client_address rq\<rparr>))"

definition serve ::
  "login_env \<Rightarrow> coercion \<Rightarrow> 'env \<Rightarrow> ('env, 'answer) route \<Rightarrow> request \<Rightarrow> pydict \<Rightarrow> (gw_state, 'answer) prog" where
  "serve le co env r rq path_args = in_request
     (sbind (slift (admit le (rt_access r) (rq_token rq))) (\<lambda>user.
      sbind (slift (read_call co r rq path_args user)) (\<lambda>c. rt_run r env c)))"

text \<open>The first route that fits answers; a path that only fits another method is a 405.\<close>

definition answers :: "request \<Rightarrow> ('env, 'answer) route \<Rightarrow> bool" where
  "answers rq r \<longleftrightarrow> rt_method r = rq_method rq \<and> fits (rt_path r) (rq_path rq) \<noteq> None"

definition dispatch ::
  "login_env \<Rightarrow> coercion \<Rightarrow> 'env \<Rightarrow> ('env, 'answer) route list \<Rightarrow> request \<Rightarrow> (gw_state, 'answer) prog" where
  "dispatch le co env routes rq =
     (case find (answers rq) routes of
        Some r \<Rightarrow> serve le co env r rq (the (fits (rt_path r) (rq_path rq)))
      | None \<Rightarrow>
          if list_ex (\<lambda>r. fits (rt_path r) (rq_path rq) \<noteq> None) routes
          then sraise (HttpError 405 ''Method Not Allowed'') else sraise (HttpError 404 ''Not Found''))"

section \<open>Handlers\<close>

definition arg :: "call \<Rightarrow> string \<Rightarrow> pyval" where
  "arg c n = py_get (ca_args c) n"

definition int_arg :: "call \<Rightarrow> string \<Rightarrow> int" where
  "int_arg c n = (case arg c n of PInt i \<Rightarrow> i | _ \<Rightarrow> 0)"

definition time_arg :: "call \<Rightarrow> string \<Rightarrow> int option" where
  "time_arg c n = (case arg c n of PInt i \<Rightarrow> Some i | _ \<Rightarrow> None)"

definition body_of :: "call \<Rightarrow> pydict" where
  "body_of c = (case ca_body c of PDict d \<Rightarrow> d | _ \<Rightarrow> [])"

text \<open>\<open>req.name\<close> of a body of a model.\<close>

definition req :: "field list \<Rightarrow> call \<Rightarrow> string \<Rightarrow> pyval" where
  "req fs c n = py_get (model_dump fs (body_of c)) n"

text \<open>A value of a field or parameter that is a text, a number or a boolean.\<close>

definition as_text :: "pyval \<Rightarrow> string" where
  "as_text v = (case v of PStr t \<Rightarrow> t | _ \<Rightarrow> [])"

definition as_number :: "pyval \<Rightarrow> int" where
  "as_number v = (case v of PInt n \<Rightarrow> n | _ \<Rightarrow> 0)"

definition as_flag :: "pyval \<Rightarrow> bool" where
  "as_flag v \<longleftrightarrow> v = PBool True"

definition as_texts :: "pyval \<Rightarrow> string list" where
  "as_texts v = (case v of PList xs \<Rightarrow> map as_text xs | _ \<Rightarrow> [])"

text \<open>\<open>user["tenant_id"]\<close> and the user as the services take it; \<open>user.get("tenant_id")\<close>.\<close>

definition user_text :: "call \<Rightarrow> string \<Rightarrow> string result" where
  "user_text c n = (case dict_get (ca_user c) n of None \<Rightarrow> Inl (KeyError n) | Some v \<Rightarrow> Inr (py_str v))"

definition with_tenant :: "call \<Rightarrow> (string \<Rightarrow> (gw_state, 'a) prog) \<Rightarrow> (gw_state, 'a) prog" where
  "with_tenant c f = sbind (slift (user_text c ''tenant_id'')) f"

definition with_actor :: "call \<Rightarrow> (gw_actor \<Rightarrow> (gw_state, 'a) prog) \<Rightarrow> (gw_state, 'a) prog" where
  "with_actor c f =
     sbind (slift (user_text c ''sub'')) (\<lambda>sub.
     sbind (slift (user_text c ''tenant_id'')) (\<lambda>tenant.
       f \<lparr>ac_sub = sub, ac_tenant = tenant,
          ac_username = (case dict_get (ca_user c) ''username'' of Some (PStr u) \<Rightarrow> Some u | _ \<Rightarrow> None)\<rparr>))"

section \<open>Handlers that only read\<close>

text \<open>A program that changes nothing but whether its transaction is aborted.\<close>

named_theorems reads_intros "programs that only read"

definition only_reads :: "(gw_state, 'a) prog \<Rightarrow> bool" where
  "only_reads m \<longleftrightarrow> (\<forall>s. \<exists>b. snd (m s) = s\<lparr>gs_aborted := b\<rparr>)"

lemma only_reads_pure [reads_intros]:
  "only_reads (sret x)" "only_reads (sraise e)" "only_reads (slift r)" "only_reads (sget f)"
  by (simp_all add: only_reads_def) (metis gw_state.surjective gw_state.update_convs(3))+

lemma only_reads_sbind [reads_intros]:
  assumes "only_reads m" and "\<And>x. only_reads (f x)"
  shows "only_reads (sbind m f)"
  unfolding only_reads_def
proof
  fix s
  obtain b where b: "snd (m s) = s\<lparr>gs_aborted := b\<rparr>" using assms(1) by (auto simp: only_reads_def)
  show "\<exists>b. snd (sbind m f s) = s\<lparr>gs_aborted := b\<rparr>"
  proof (cases "m s")
    case (Pair r s')
    then show ?thesis
    proof (cases r)
      case (Inl e)
      then show ?thesis using Pair b by (auto simp: sbind_def)
    next
      case (Inr x)
      obtain c where "snd (f x s') = s'\<lparr>gs_aborted := c\<rparr>" using assms(2) by (auto simp: only_reads_def)
      then show ?thesis using Pair Inr b by (auto simp: sbind_def)
    qed
  qed
qed

lemma only_reads_cases [reads_intros]:
  "(b \<Longrightarrow> only_reads m) \<Longrightarrow> (\<not> b \<Longrightarrow> only_reads n) \<Longrightarrow> only_reads (if b then m else n)"
  "only_reads m \<Longrightarrow> (\<And>x. only_reads (f x)) \<Longrightarrow> only_reads (case opt of None \<Rightarrow> m | Some x \<Rightarrow> f x)"
  "(\<And>x y. only_reads (h x y)) \<Longrightarrow> only_reads (case pair of (x, y) \<Rightarrow> h x y)"
  by (simp_all split: option.split prod.split)

lemma only_reads_statement: "(\<And>d. snd (f d) = d) \<Longrightarrow> only_reads (statement f)"
  unfolding only_reads_def statement_def
  by (auto split: prod.split sum.split) (metis gw_state.surjective gw_state.update_convs(1,3) snd_conv)+

lemma only_reads_sql [reads_intros]:
  "only_reads (select_rows t P)" "only_reads (select_first t cols P)" "only_reads (count_rows t P)"
  "only_reads (select_page env k t P l off)" "only_reads (select_ordered env k t P)" "only_reads (sql_macaddr env mac)"
  unfolding select_first_def count_rows_def select_page_def select_ordered_def sql_macaddr_def select_rows_def
  by (intro reads_intros only_reads_statement; simp split: option.split)+

lemma only_reads_request:
  assumes "only_reads m" and "at_rest s"
  shows "snd (in_request m s) = s"
proof -
  obtain r s' where m: "m s = (r, s')" by fastforce
  with assms(1) obtain b where "s' = s\<lparr>gs_aborted := b\<rparr>" unfolding only_reads_def by (metis snd_conv)
  with m assms(2) show ?thesis
    by (cases s) (auto simp: in_request_def commit_def rollback_def at_rest_def split: sum.split)
qed

section \<open>Who is let in\<close>

lemma admit_role:
  assumes "admit le access token = Inr user"
  shows "(access = Operator \<longrightarrow> py_get user ''role'' \<in> {PStr ''admin'', PStr ''operator''})
    \<and> (access = Admin \<longrightarrow> py_get user ''role'' = PStr ''admin'')
    \<and> (access \<noteq> Public \<longrightarrow> get_current_user le token = Inr user)"
  using assms
  by (auto simp: admit_def require_operator_def require_admin_def rbind_def split: access.splits sum.splits if_splits)

text \<open>A request that the dependency of its route refuses changes nothing.\<close>

lemma serve_refused:
  "admit le (rt_access r) (rq_token rq) = Inl e \<Longrightarrow> at_rest s \<Longrightarrow> snd (serve le co env r rq pa s) = s"
  by (simp add: serve_def in_request_def)

lemma serve_reads:
  assumes "\<And>c. only_reads (rt_run r env c)" and "at_rest s"
  shows "snd (serve le co env r rq pa s) = s"
  unfolding serve_def by (rule only_reads_request [where s = s, OF _ assms(2)]) (intro reads_intros assms(1))

lemma only_reads_calls [reads_intros]:
  "(\<And>t. only_reads (f t)) \<Longrightarrow> only_reads (with_tenant c f)"
  "(\<And>a. only_reads (g a)) \<Longrightarrow> only_reads (with_actor c g)"
  unfolding with_tenant_def with_actor_def by (intro reads_intros; assumption)+

end
