(* ===== verification/Gateway_Api.thy ===== *)
theory Gateway_Api
  imports Gateway_Routes Vlans Group_Vlans Nas_Clients Ldap_Servers Radius_Realms Certificates
    Policies_Service Network_Devices Coa_Gateway Settings_Service Audit_Log
    Radius_Auth_Log Freeradius_Status Dot1x_Overview Backups
begin

text \<open>
  The routes of the features that configure the gateway, \<open>services/gateway/features/*/routes.py\<close>. Each
  has its method and path, who may call it, its parameters, the model of its body, and the handler
  over the services. An answer is what FastAPI serialises. What the handlers take from the outside is
  \<open>app_env\<close>: the environment of the services, pydantic's coercions, the LDAP client, the probes.
\<close>

datatype answer =
  Empty | Json pyval | Plain string | Report "eval_details \<times> pyval" | Simulated simulation
| Summary summary_stats | Overview overview

record ldap_probe =
  lp_installed :: bool
  lp_open :: "pydict \<Rightarrow> bool option \<Rightarrow> string + pyval"
  lp_start_tls :: "pydict \<Rightarrow> string option"
  lp_bind :: "pydict \<Rightarrow> string + pyval"
  lp_vendor :: "pydict \<Rightarrow> string"
  lp_other :: "pydict \<Rightarrow> string list"
  lp_search :: "pydict \<Rightarrow> pyval \<Rightarrow> string \<Rightarrow> string + int"
  lp_unbind :: "pydict \<Rightarrow> string option"

record app_env =
  ap_login :: login_env
  ap_coerce :: coercion
  ap_sql :: log_sql
  ap_csv :: csv_env
  ap_crypto :: crypto_env
  ap_written :: "nat \<Rightarrow> int"
  ap_entry :: "string \<Rightarrow> int"
  ap_details :: "pyval \<Rightarrow> string"
  ap_dumps :: "pyval \<Rightarrow> string"
  ap_re :: re_search
  ap_clock :: clock
  ap_check :: "string \<Rightarrow> string option"
  ap_ldap :: ldap_probe
  ap_health :: health_env
  ap_version :: string

type_synonym app_route = "(app_env, answer) route"

abbreviation gw :: "app_env \<Rightarrow> gw_env" where
  "gw e \<equiv> le_gw (ap_login e)"

text \<open>What a handler returns: a dictionary, a list, nothing, or rows in the shape of a model.\<close>

definition json :: "(gw_state, pydict) prog \<Rightarrow> (gw_state, answer) prog" where
  "json m = sbind m (\<lambda>d. sret (Json (PDict d)))"

definition rows_of :: "pydict list \<Rightarrow> pyval" where
  "rows_of rows = PList (map PDict rows)"

definition items :: "(gw_state, pydict list) prog \<Rightarrow> (gw_state, answer) prog" where
  "items m = sbind m (\<lambda>rows. sret (Json (PDict [(''items'', rows_of rows)])))"

definition nothing :: "(gw_state, unit) prog \<Rightarrow> (gw_state, answer) prog" where
  "nothing m = sbind m (\<lambda>_. sret Empty)"

definition as_model :: "field list \<Rightarrow> (gw_state, pydict) prog \<Rightarrow> (gw_state, answer) prog" where
  "as_model fs m = sbind m (\<lambda>row. sret (Json (PDict (response fs row))))"

definition item_as :: "field list \<Rightarrow> pyval \<Rightarrow> pyval" where
  "item_as fs v = (case v of PDict row \<Rightarrow> PDict (response fs row) | _ \<Rightarrow> v)"

definition page_of_models :: "field list \<Rightarrow> (gw_state, pydict) prog \<Rightarrow> (gw_state, answer) prog" where
  "page_of_models fs m = sbind m (\<lambda>out.
     sret (Json (PDict (dict_set ''items'' (case py_get out ''items'' of
       PList xs \<Rightarrow> PList (map (item_as fs) xs) | v \<Rightarrow> v) out))))"

text \<open>\<open>page: int = Query(1, ge=1)\<close> and \<open>page_size: int = Query(n, ge=1, le=m)\<close>.\<close>

definition at_least_one :: "field \<Rightarrow> field" where
  "at_least_one = also_checked (\<lambda>v. case v of PInt n \<Rightarrow> 1 \<le> n | _ \<Rightarrow> True)"

definition paging :: "int \<Rightarrow> int \<Rightarrow> field list" where
  "paging n m = [at_least_one (preset ''page'' TInt (PInt 1)), ranged 1 m (preset ''page_size'' TInt (PInt n))]"

definition page :: "call \<Rightarrow> int" where "page c = int_arg c ''page''"
definition page_size :: "call \<Rightarrow> int" where "page_size c = int_arg c ''page_size''"

definition uuid_param :: "string \<Rightarrow> field" where "uuid_param n = needed n TUuid"
definition ident :: "call \<Rightarrow> string \<Rightarrow> string" where "ident c n = as_text (arg c n)"

section \<open>VLANs\<close>

definition vlans_routes :: "app_route list" where
  "vlans_routes = under [Lit ''vlans'']
    [route ''GET'' [] AnyUser [optional ''purpose'' TStr] NoBody
       (\<lambda>e c. with_tenant c (\<lambda>t. items (list_vlans (gw e) t (arg c ''purpose'')))),
     route ''GET'' [Par ''vlan_uuid''] AnyUser [uuid_param ''vlan_uuid''] NoBody
       (\<lambda>e c. with_tenant c (\<lambda>t. json (get_vlan t (ident c ''vlan_uuid'')))),
     route ''POST'' [] Admin [] (Body VlanCreate)
       (\<lambda>e c. let r = req VlanCreate c in with_actor c (\<lambda>a. json (create_vlan (gw e) a (as_number (r ''vlan_id''))
          (as_text (r ''name'')) (r ''description'') (r ''purpose'') (r ''subnet'') (as_flag (r ''enabled'')) (ca_ip c)))),
     route ''PUT'' [Par ''vlan_uuid''] Admin [uuid_param ''vlan_uuid''] (Body VlanUpdate)
       (\<lambda>e c. with_actor c (\<lambda>a. json (update_vlan (gw e) a (ident c ''vlan_uuid'') (body_of c) (ca_ip c)))),
     route ''DELETE'' [Par ''vlan_uuid''] Admin [uuid_param ''vlan_uuid''] NoBody
       (\<lambda>e c. with_actor c (\<lambda>a. nothing (delete_vlan (gw e) a (ident c ''vlan_uuid'') (ca_ip c))))]"

section \<open>NAS clients\<close>

definition nas_clients_routes :: "app_route list" where
  "nas_clients_routes = under [Lit ''nas-clients'']
    [route ''GET'' [] Operator [] NoBody (\<lambda>e c. with_tenant c (\<lambda>t. items (list_nas_clients (gw e) t))),
     route ''GET'' [Par ''nas_id''] Operator [uuid_param ''nas_id''] NoBody
       (\<lambda>e c. with_tenant c (\<lambda>t. json (get_nas_client t (ident c ''nas_id'')))),
     route ''POST'' [] Admin [] (Body NASClientCreate)
       (\<lambda>e c. let r = req NASClientCreate c in with_actor c (\<lambda>a. json (create_nas_client (gw e) a (as_text (r ''name''))
          (as_text (r ''ip_address'')) (as_text (r ''shared_secret'')) (r ''shortname'') (as_text (r ''nas_type''))
          (r ''description'') (ca_ip c)))),
     route ''PUT'' [Par ''nas_id''] Admin [uuid_param ''nas_id''] (Body NASClientUpdate)
       (\<lambda>e c. with_actor c (\<lambda>a. json (update_nas_client (gw e) a (ident c ''nas_id'') (body_of c) (ca_ip c)))),
     route ''DELETE'' [Par ''nas_id''] Admin [uuid_param ''nas_id''] NoBody
       (\<lambda>e c. with_actor c (\<lambda>a. nothing (delete_nas_client (gw e) a (ident c ''nas_id'') (ca_ip c)))),
     route ''POST'' [Lit ''sync-radius''] Admin [] NoBody
       (\<lambda>e c. with_actor c (\<lambda>a. json (sync_radius (gw e) a (ca_ip c))))]"

section \<open>Groups and VLANs\<close>

definition group_vlan_routes :: "app_route list" where
  "group_vlan_routes = under [Lit ''group-vlan-mappings'']
    [route ''GET'' [] AnyUser [] NoBody (\<lambda>e c. with_tenant c (\<lambda>t. json (list_mappings (gw e) t))),
     route ''GET'' [Lit ''lookup'', Lit ''by-groups''] AnyUser [needed ''groups'' TStr] NoBody
       (\<lambda>e c. with_tenant c (\<lambda>t. sbind (preview_vlan_for_groups t (as_text (arg c ''groups''))) (\<lambda>row.
          sret (Json (PDict [(''match'', case row of None \<Rightarrow> PNone | Some r \<Rightarrow> PDict r)]))))),
     route ''GET'' [Par ''mapping_id''] AnyUser [uuid_param ''mapping_id''] NoBody
       (\<lambda>e c. with_tenant c (\<lambda>t. json (get_mapping t (ident c ''mapping_id'')))),
     route ''POST'' [] Admin [] (Body GroupVlanMappingCreate)
       (\<lambda>e c. let r = req GroupVlanMappingCreate c in with_actor c (\<lambda>a. json (create_mapping (gw e) a
          (as_text (r ''group_name'')) (as_number (r ''vlan_id'')) (as_number (r ''priority'')) (r ''description'')
          (r ''ldap_server_id'') (as_flag (r ''enabled'')) (ca_ip c)))),
     route ''PUT'' [Par ''mapping_id''] Admin [uuid_param ''mapping_id''] (Body GroupVlanMappingUpdate)
       (\<lambda>e c. with_actor c (\<lambda>a. json (update_mapping (gw e) a (ident c ''mapping_id'') (body_of c) (ca_ip c)))),
     route ''DELETE'' [Par ''mapping_id''] Admin [uuid_param ''mapping_id''] NoBody
       (\<lambda>e c. with_actor c (\<lambda>a. nothing (delete_mapping (gw e) a (ident c ''mapping_id'') (ca_ip c))))]"

section \<open>Realms\<close>

definition realms_routes :: "app_route list" where
  "realms_routes = under [Lit ''radius'', Lit ''realms'']
    [route ''GET'' [] Operator ([optional ''realm_type'' TStr, optional ''enabled'' TBool] @ paging 50 200) NoBody
       (\<lambda>e c. with_tenant c (\<lambda>t. json (list_realms (gw e) t (arg c ''realm_type'') (arg c ''enabled'') (page c) (page_size c)))),
     route ''POST'' [] Admin [] (Body RealmCreate)
       (\<lambda>e c. with_actor c (\<lambda>a. json (create_realm (gw e) a (model_dump RealmCreate (body_of c)) (ca_ip c)))),
     route ''GET'' [Par ''realm_id''] Operator [uuid_param ''realm_id''] NoBody
       (\<lambda>e c. with_tenant c (\<lambda>t. json (get_realm t (ident c ''realm_id'')))),
     route ''PUT'' [Par ''realm_id''] Admin [uuid_param ''realm_id''] (Body RealmUpdate)
       (\<lambda>e c. with_actor c (\<lambda>a. json (update_realm (gw e) a (ident c ''realm_id'') (body_of c) (ca_ip c)))),
     route ''DELETE'' [Par ''realm_id''] Admin [uuid_param ''realm_id''] NoBody
       (\<lambda>e c. with_actor c (\<lambda>a. nothing (delete_realm (gw e) a (ident c ''realm_id'') (ca_ip c))))]"

section \<open>LDAP servers\<close>

text \<open>The test of a connection: open, start TLS, bind, search; what succeeded stays in the result.\<close>

definition ldap_tls :: "pydict \<Rightarrow> bool option" where
  "ldap_tls row =
     (if truthy (py_get row ''use_tls'') \<or> truthy (py_get row ''use_starttls'')
      then Some (py_get row ''tls_require_cert'' \<in> {PStr ''demand'', PStr ''try''}) else None)"

definition ldap_server_type :: "ldap_probe \<Rightarrow> pydict \<Rightarrow> string" where
  "ldap_server_type p row =
     (if lp_vendor p row \<noteq> [] then lp_vendor p row
      else if lp_other p row \<noteq> [] then
        (if ''forestFunctionality'' \<in> set (lp_other p row) then ''Active Directory'' else ''Generic LDAP'')
      else ''Unknown'')"

definition ldap_untested :: pydict where
  "ldap_untested =
     [(''success'', PBool False), (''connect_time_ms'', PNone), (''bind_time_ms'', PNone),
      (''search_result_count'', PNone), (''server_type'', PNone), (''error_message'', PNone)]"

definition ldap_failed :: "string \<Rightarrow> pydict \<Rightarrow> pydict" where
  "ldap_failed e r = dict_set ''error_message'' (PStr e) r"

definition ldap_search_step :: "ldap_probe \<Rightarrow> pydict \<Rightarrow> pydict \<Rightarrow> pydict" where
  "ldap_search_step p row r =
     (case py_get row ''user_search_filter'' of
        PStr f \<Rightarrow>
          (case lp_search p row (py_or (py_get row ''user_search_base'') (py_get row ''base_dn''))
                  (py_replace ''{0}'' ''*'' f) of
             Inl e \<Rightarrow> ldap_failed e r
           | Inr n \<Rightarrow>
               let found = dict_set ''success'' (PBool True) (dict_set ''search_result_count'' (PInt n) r)
               in case lp_unbind p row of Some e \<Rightarrow> ldap_failed e found | None \<Rightarrow> found)
      | _ \<Rightarrow> ldap_failed ''object has no attribute replace'' r)"

definition ldap_bind_step :: "ldap_probe \<Rightarrow> pydict \<Rightarrow> pydict \<Rightarrow> pydict" where
  "ldap_bind_step p row r =
     (case lp_bind p row of
        Inl e \<Rightarrow> ldap_failed e r
      | Inr t \<Rightarrow> ldap_search_step p row
          (dict_set ''server_type'' (PStr (ldap_server_type p row)) (dict_set ''bind_time_ms'' t r)))"

definition ldap_test :: "ldap_probe \<Rightarrow> pydict \<Rightarrow> pydict" where
  "ldap_test p row =
     (case lp_open p row (ldap_tls row) of
        Inl e \<Rightarrow> ldap_failed e ldap_untested
      | Inr t \<Rightarrow>
          let r = dict_set ''connect_time_ms'' t ldap_untested
          in case (if truthy (py_get row ''use_starttls'') then lp_start_tls p row else None) of
               Some e \<Rightarrow> ldap_failed e r
             | None \<Rightarrow> ldap_bind_step p row r)"

definition ldap_test_message :: "pydict \<Rightarrow> string" where
  "ldap_test_message r =
     (if truthy (py_get r ''success'') then
        ''OK - connected in '' @ py_str (py_get r ''connect_time_ms'') @ ''ms, bound in ''
        @ py_str (py_get r ''bind_time_ms'') @ ''ms, found '' @ py_str (py_get r ''search_result_count'') @ '' entries''
      else py_str (py_get r ''error_message''))"

definition ldap3_missing :: string where
  "ldap3_missing = ''ldap3 library is not installed. Install with: pip install ldap3''"

definition test_ldap_connection :: "app_env \<Rightarrow> gw_actor \<Rightarrow> string \<Rightarrow> (gw_state, pydict) prog" where
  "test_ldap_connection e a server_id =
     sbind (lookup_for_test (gw e) (ac_tenant a) server_id) (\<lambda>server.
       if \<not> lp_installed (ap_ldap e) then
         sbind (record_test_result (gw e) a server_id False ldap3_missing
                  [(''success'', PBool False), (''error'', PStr ''ldap3 missing'')]) (\<lambda>_.
           sret [(''success'', PBool False), (''error_message'', PStr ldap3_missing)])
       else
         let r = ldap_test (ap_ldap e) server
         in sbind (record_test_result (gw e) a server_id (truthy (py_get r ''success'')) (ldap_test_message r)
                     (project [''success'', ''connect_time_ms'', ''server_type''] r)) (\<lambda>_. sret r))"

definition ldap_routes :: "app_route list" where
  "ldap_routes = under [Lit ''ldap-servers'']
    [route ''GET'' [] Operator ([optional ''enabled'' TBool] @ paging 50 200) NoBody
       (\<lambda>e c. with_tenant c (\<lambda>t. json (list_ldap_servers (gw e) t (arg c ''enabled'') (page c) (page_size c)))),
     route ''POST'' [] Admin [] (Body LDAPServerCreate)
       (\<lambda>e c. with_actor c (\<lambda>a. json (create_ldap_server (gw e) a (model_dump LDAPServerCreate (body_of c)) (ca_ip c)))),
     route ''GET'' [Par ''server_id''] Operator [uuid_param ''server_id''] NoBody
       (\<lambda>e c. with_tenant c (\<lambda>t. json (get_ldap_server t (ident c ''server_id'')))),
     route ''PUT'' [Par ''server_id''] Admin [uuid_param ''server_id''] (Body LDAPServerUpdate)
       (\<lambda>e c. with_actor c (\<lambda>a. json (update_ldap_server (gw e) a (ident c ''server_id'') (body_of c) (ca_ip c)))),
     route ''DELETE'' [Par ''server_id''] Admin [uuid_param ''server_id''] NoBody
       (\<lambda>e c. with_actor c (\<lambda>a. nothing (delete_ldap_server (gw e) a (ident c ''server_id'') (ca_ip c)))),
     route ''POST'' [Par ''server_id'', Lit ''test''] Admin [uuid_param ''server_id''] NoBody
       (\<lambda>e c. with_actor c (\<lambda>a. json (test_ldap_connection e a (ident c ''server_id''))))]"

section \<open>MAC addresses\<close>

definition mab_item_of :: "pyval \<Rightarrow> mab_item" where
  "mab_item_of v = (let d = model_dump MabDeviceBulkItem (case v of PDict d \<Rightarrow> d | _ \<Rightarrow> [])
     in \<lparr>mi_mac_address = as_text (py_get d ''mac_address''), mi_name = py_get d ''name'',
         mi_description = py_get d ''description'', mi_device_type = py_get d ''device_type'',
         mi_assigned_vlan_id = py_get d ''assigned_vlan_id'', mi_expiry_date = py_get d ''expiry_date''\<rparr>)"

definition mab_items_of :: "call \<Rightarrow> mab_item list" where
  "mab_items_of c = (case ca_body c of PList xs \<Rightarrow> map mab_item_of xs | _ \<Rightarrow> [])"

definition import_answer :: "pydict \<times> csv_row_error list \<Rightarrow> answer" where
  "import_answer out = Json (PDict (fst out @ [(''parse_errors'', PList (map (\<lambda>x.
     PDict [(''row'', PInt (re_row x)), (''raw'', PStr (re_raw x)), (''error'', PStr (re_error x))]) (snd out)))]))"

definition mab_routes :: "app_route list" where
  "mab_routes = under [Lit ''mab-devices'']
    [route ''GET'' [] AnyUser ([optional ''enabled'' TBool, optional ''device_type'' TStr] @ paging 50 200) NoBody
       (\<lambda>e c. with_tenant c (\<lambda>t. json (list_mab_devices (gw e) t (arg c ''enabled'') (arg c ''device_type'') (page c) (page_size c)))),
     route ''POST'' [] Admin [] (Body MabDeviceCreate)
       (\<lambda>e c. let r = req MabDeviceCreate c in with_actor c (\<lambda>a. json (create_mab_device (gw e) a
          (as_text (r ''mac_address'')) (r ''name'') (r ''description'') (r ''device_type'') (r ''assigned_vlan_id'')
          (as_flag (r ''enabled'')) (r ''expiry_date'') (ca_ip c)))),
     route ''GET'' [Lit ''check'', Par ''mac_address''] Public [needed ''mac_address'' TStr] NoBody
       (\<lambda>e c. json (check_mac_for_radius (gw e) (ident c ''mac_address''))),
     route ''POST'' [Lit ''bulk-import''] Admin [] (Bodies MabDeviceBulkItem)
       (\<lambda>e c. with_actor c (\<lambda>a. json (bulk_import (gw e) a (mab_items_of c) (ca_ip c)))),
     route ''POST'' [Lit ''import-csv''] Admin [] TextBody
       (\<lambda>e c. with_actor c (\<lambda>a. sbind (import_csv (gw e) (ap_csv e) a (as_text (ca_body c)) (ca_ip c)) (\<lambda>out.
          sret (import_answer out)))),
     route ''GET'' [Lit ''export-csv''] AnyUser [] NoBody
       (\<lambda>e c. with_tenant c (\<lambda>t. sbind (export_csv (gw e) (ap_csv e) t) (\<lambda>txt. sret (Plain txt)))),
     route ''GET'' [Par ''device_id''] AnyUser [uuid_param ''device_id''] NoBody
       (\<lambda>e c. with_tenant c (\<lambda>t. json (get_mab_device t (ident c ''device_id'')))),
     route ''PUT'' [Par ''device_id''] Admin [uuid_param ''device_id''] (Body MabDeviceUpdate)
       (\<lambda>e c. with_actor c (\<lambda>a. json (update_mab_device (gw e) a (ident c ''device_id'') (body_of c) (ca_ip c)))),
     route ''DELETE'' [Par ''device_id''] Admin [uuid_param ''device_id''] NoBody
       (\<lambda>e c. with_actor c (\<lambda>a. nothing (delete_mab_device (gw e) a (ident c ''device_id'') (ca_ip c))))]"

section \<open>Certificates\<close>

definition ca_request_of :: "call \<Rightarrow> ca_request" where
  "ca_request_of c = (let r = req GenerateCARequest c
     in \<lparr>ca_name = as_text (r ''name''), ca_common_name = as_text (r ''common_name''),
         ca_validity_days = as_number (r ''validity_days''), ca_key_size = as_number (r ''key_size''),
         ca_organization = r ''organization'', ca_country = r ''country''\<rparr>)"

definition server_request_of :: "call \<Rightarrow> server_request" where
  "server_request_of c = (let r = req GenerateServerRequest c
     in \<lparr>sr_name = as_text (r ''name''), sr_common_name = as_text (r ''common_name''),
         sr_san_dns = as_texts (r ''san_dns''), sr_san_ips = as_texts (r ''san_ips''),
         sr_validity_days = as_number (r ''validity_days''), sr_key_size = as_number (r ''key_size'')\<rparr>)"

definition import_request_of :: "call \<Rightarrow> import_request" where
  "import_request_of c = (let r = req ImportCertRequest c
     in \<lparr>im_name = as_text (r ''name''), im_cert_type = as_text (r ''cert_type''), im_cert_pem = as_text (r ''cert_pem''),
         im_key_pem = r ''key_pem'', im_chain_pem = r ''chain_pem''\<rparr>)"

definition certificates_routes :: "app_route list" where
  "certificates_routes = under [Lit ''certificates'']
    [route ''GET'' [] AnyUser ([optional ''cert_type'' TStr, optional ''enabled'' TBool] @ paging 50 200) NoBody
       (\<lambda>e c. with_tenant c (\<lambda>t. json (list_certs (gw e) t (arg c ''cert_type'') (arg c ''enabled'') (page c) (page_size c)))),
     route ''GET'' [Par ''cert_id''] AnyUser [uuid_param ''cert_id''] NoBody
       (\<lambda>e c. with_tenant c (\<lambda>t. json (get_cert_detail (gw e) t (ident c ''cert_id'')))),
     route ''POST'' [Lit ''generate-ca''] Admin [] (Body GenerateCARequest)
       (\<lambda>e c. with_actor c (\<lambda>a. json (generate_ca (gw e) (ap_crypto e) a (ca_request_of c) (ca_ip c)))),
     route ''POST'' [Lit ''generate-server''] Admin [] (Body GenerateServerRequest)
       (\<lambda>e c. with_actor c (\<lambda>a. json (generate_server (gw e) (ap_crypto e) a (server_request_of c) (ca_ip c)))),
     route ''POST'' [Lit ''import''] Admin [] (Body ImportCertRequest)
       (\<lambda>e c. with_actor c (\<lambda>a. json (import_cert (gw e) (ap_crypto e) a (import_request_of c) (ca_ip c)))),
     route ''PUT'' [Par ''cert_id'', Lit ''activate''] Admin [uuid_param ''cert_id''] NoBody
       (\<lambda>e c. with_actor c (\<lambda>a. json (activate_cert (gw e) a (ident c ''cert_id'') (ca_ip c)))),
     route ''DELETE'' [Par ''cert_id''] Admin [uuid_param ''cert_id''] NoBody
       (\<lambda>e c. with_actor c (\<lambda>a. nothing (delete_cert (gw e) a (ident c ''cert_id'') (ca_ip c)))),
     route ''GET'' [Par ''cert_id'', Lit ''download''] Admin
       [uuid_param ''cert_id'', preset ''include_key'' TBool (PBool False), preset ''include_chain'' TBool (PBool False)] NoBody
       (\<lambda>e c. with_tenant c (\<lambda>t. sbind (download_cert (gw e) t (ident c ''cert_id'')
          (as_flag (arg c ''include_key'')) (as_flag (arg c ''include_chain''))) (\<lambda>(pem, filename). sret (Plain pem))))]"

section \<open>Policies\<close>

definition policy_create_of :: "call \<Rightarrow> policy_create" where
  "policy_create_of c = (let r = req PolicyCreate c; list = (\<lambda>v. case v of PList xs \<Rightarrow> xs | _ \<Rightarrow> [])
     in \<lparr>pc_name = as_text (r ''name''), pc_description = r ''description'', pc_priority = as_number (r ''priority''),
         pc_conditions = list (r ''conditions''), pc_match_actions = list (r ''match_actions''),
         pc_no_match_actions = list (r ''no_match_actions''), pc_enabled = as_flag (r ''enabled'')\<rparr>)"

definition bool_arg :: "call \<Rightarrow> string \<Rightarrow> bool option" where
  "bool_arg c n = (case arg c n of PBool b \<Rightarrow> Some b | _ \<Rightarrow> None)"

text \<open>The overrides of a template: the fields that are not null, when there is a body.\<close>

definition overrides_of :: "call \<Rightarrow> pydict option" where
  "overrides_of c = (case ca_body c of PDict d \<Rightarrow> Some (dump_given PolicyTemplateOverrides d) | _ \<Rightarrow> None)"

definition policies_routes :: "app_route list" where
  "policies_routes = under [Lit ''policies'']
    [route ''GET'' [] AnyUser ([optional ''enabled'' TBool] @ paging 50 200) NoBody
       (\<lambda>e c. with_tenant c (\<lambda>t. page_of_models PolicyResponse (list_policies (gw e) t (bool_arg c ''enabled'') (page c) (page_size c)))),
     route ''POST'' [] Operator [] (Body PolicyCreate)
       (\<lambda>e c. with_actor c (\<lambda>a. as_model PolicyResponse (create_policy (gw e) a (policy_create_of c) (ca_ip c)))),
     route ''GET'' [Lit ''templates'', Lit ''list''] AnyUser [] NoBody (\<lambda>e c. json (sret list_templates)),
     route ''POST'' [Lit ''templates'', Par ''template_id'', Lit ''apply''] Operator [needed ''template_id'' TStr]
       (OptionalBody PolicyTemplateOverrides)
       (\<lambda>e c. with_actor c (\<lambda>a. as_model PolicyResponse (apply_template (gw e) a (ident c ''template_id'') (overrides_of c)))),
     route ''POST'' [Lit ''simulate-all''] AnyUser [] (Body DeviceContext)
       (\<lambda>e c. with_tenant c (\<lambda>t. sbind (simulate_all_policies (gw e) (ap_re e) (ap_clock e) t
          (dump_given DeviceContext (body_of c))) (\<lambda>out. sret (Simulated out)))),
     route ''GET'' [Par ''policy_id''] AnyUser [uuid_param ''policy_id''] NoBody
       (\<lambda>e c. with_tenant c (\<lambda>t. as_model PolicyResponse (get_policy t (ident c ''policy_id'')))),
     route ''PATCH'' [Par ''policy_id''] Operator [uuid_param ''policy_id''] (Body PolicyUpdate)
       (\<lambda>e c. with_actor c (\<lambda>a. as_model PolicyResponse (update_policy (gw e) a (ident c ''policy_id'') (body_of c) (ca_ip c)))),
     route ''DELETE'' [Par ''policy_id''] Admin [uuid_param ''policy_id''] NoBody
       (\<lambda>e c. with_actor c (\<lambda>a. nothing (delete_policy (gw e) a (ident c ''policy_id'') (ca_ip c)))),
     route ''POST'' [Par ''policy_id'', Lit ''simulate''] AnyUser [uuid_param ''policy_id''] (Body DeviceContext)
       (\<lambda>e c. with_tenant c (\<lambda>t. sbind (simulate_policy (ap_re e) (ap_clock e) t (ident c ''policy_id'')
          (dump_given DeviceContext (body_of c))) (\<lambda>out. sret (Report out))))]"

end
