(* ===== verification/Gateway_Ops_Api.thy ===== *)
theory Gateway_Ops_Api
  imports Gateway_Api Devices
begin

text \<open>
  The routes of the features that operate the network and report on it: devices, network devices,
  CoA, settings, the logs, the state of FreeRADIUS, the 802.1X overview, backups, users and the own
  profile. The login also works on Redis and is \<open>login_request\<close> of \<open>Auth_Login\<close>. The probes of the
  services, sockets and HTTP calls, are the parameter \<open>ap_check\<close>.
\<close>

text \<open>\<open>user.get("tenant_id")\<close>.\<close>

definition tenant_of :: "call \<Rightarrow> pyval" where
  "tenant_of c = py_get (ca_user c) ''tenant_id''"

definition hours_param :: "field" where
  "hours_param = ranged 1 720 (preset ''last_hours'' TInt (PInt 24))"

definition format_param :: "field" where
  "format_param = among [''json'', ''csv''] (preset ''format'' TStr (PStr ''json''))"

section \<open>Devices\<close>

definition devices_routes :: "app_route list" where
  "devices_routes = under [Lit ''devices'']
    [route ''GET'' [] AnyUser
       (paging 50 500 @ [optional ''status'' TStr, optional ''device_type'' TStr, sized 0 100 (optional ''search'' TStr)]) NoBody
       (\<lambda>e c. with_tenant c (\<lambda>t. page_of_models DeviceResponse (list_devices (gw e) t (arg c ''status'')
          (arg c ''device_type'') (arg c ''search'') (page c) (page_size c)))),
     route ''GET'' [Par ''device_id''] AnyUser [uuid_param ''device_id''] NoBody
       (\<lambda>e c. with_tenant c (\<lambda>t. as_model DeviceResponse (get_device t (ident c ''device_id'')))),
     route ''POST'' [] Operator [] (Body DeviceCreate)
       (\<lambda>e c. let r = req DeviceCreate c in with_actor c (\<lambda>a. as_model DeviceResponse (ingest_device (gw e) a
          (as_text (r ''mac_address'')) (r ''ip_address'') (r ''hostname'') (r ''device_type'') (r ''os_family'')
          (r ''os_version'') (r ''vendor'') (r ''model'') (ca_ip c)))),
     route ''PATCH'' [Par ''device_id''] Operator [uuid_param ''device_id''] (Body DeviceUpdate)
       (\<lambda>e c. with_actor c (\<lambda>a. as_model DeviceResponse (Devices.update_device (gw e) a (ident c ''device_id'')
          (model_dump DeviceUpdate (body_of c)) (ca_ip c)))),
     route ''DELETE'' [Par ''device_id''] Admin [uuid_param ''device_id''] NoBody
       (\<lambda>e c. with_actor c (\<lambda>a. nothing (delete_device (gw e) a (ident c ''device_id'') (ca_ip c)))),
     route ''POST'' [Par ''device_id'', Lit ''properties''] Operator [uuid_param ''device_id''] (Body DevicePropertyCreate)
       (\<lambda>e c. let r = req DevicePropertyCreate c in with_actor c (\<lambda>a. json (set_device_property (gw e) a
          (ident c ''device_id'') (as_text (r ''category'')) (as_text (r ''key'')) (r ''value'') (r ''source'')
          (r ''confidence'') (ca_ip c)))),
     route ''GET'' [Par ''device_id'', Lit ''properties''] AnyUser [uuid_param ''device_id'', optional ''category'' TStr] NoBody
       (\<lambda>e c. with_tenant c (\<lambda>t. sbind (list_device_properties (gw e) t (ident c ''device_id'') (arg c ''category''))
          (\<lambda>rows. sret (Json (rows_of rows)))))]"

section \<open>Network devices\<close>

definition network_devices_routes :: "app_route list" where
  "network_devices_routes = under [Lit ''network-devices'']
    [route ''GET'' [] AnyUser ([optional ''device_type'' TStr, optional ''vendor'' TStr] @ paging 50 200) NoBody
       (\<lambda>e c. with_tenant c (\<lambda>t. page_of_models NetworkDeviceResponse (list_network_devices (gw e) t
          (arg c ''device_type'') (arg c ''vendor'') (page c) (page_size c)))),
     route ''POST'' [] Operator [] (Body NetworkDeviceCreate)
       (\<lambda>e c. with_actor c (\<lambda>a. as_model NetworkDeviceResponse (create_network_device (gw e) a
          (model_dump NetworkDeviceCreate (body_of c)) (ca_ip c)))),
     route ''GET'' [Par ''device_id''] AnyUser [uuid_param ''device_id''] NoBody
       (\<lambda>e c. with_tenant c (\<lambda>t. as_model NetworkDeviceResponse (get_network_device t (ident c ''device_id'')))),
     route ''GET'' [Par ''device_id'', Lit ''ports''] AnyUser [uuid_param ''device_id''] NoBody
       (\<lambda>e c. with_tenant c (\<lambda>t. sbind (list_switch_ports (gw e) t (ident c ''device_id''))
          (\<lambda>rows. sret (Json (rows_of (map (response SwitchPortResponse) rows)))))),
     route ''POST'' [Par ''device_id'', Lit ''ports'', Par ''port_id'', Lit ''vlan''] Operator
       [uuid_param ''device_id'', uuid_param ''port_id'', ranged 1 4094 (needed ''vlan_id'' TInt)] NoBody
       (\<lambda>e c. with_actor c (\<lambda>a. json (request_port_vlan_change (gw e) a (ident c ''device_id'') (ident c ''port_id'')
          (int_arg c ''vlan_id'') (ca_ip c)))),
     route ''DELETE'' [Par ''device_id''] Admin [uuid_param ''device_id''] NoBody
       (\<lambda>e c. with_actor c (\<lambda>a. nothing (delete_network_device (gw e) a (ident c ''device_id'') (ca_ip c))))]"

section \<open>Change of authorization\<close>

definition coa_routes :: "app_route list" where
  "coa_routes = under [Lit ''coa'']
    [route ''POST'' [Lit ''by-mac''] Operator [] (Body CoAByMacRequest)
       (\<lambda>e c. let r = req CoAByMacRequest c in with_actor c (\<lambda>a. json (send_coa_by_mac (gw e) a
          (as_text (r ''mac_address'')) (as_text (r ''action'')) (r ''vlan_id'') (r ''acl_name'') (r ''reason'')))),
     route ''POST'' [Lit ''by-username''] Operator [] (Body CoAByUsernameRequest)
       (\<lambda>e c. let r = req CoAByUsernameRequest c in with_actor c (\<lambda>a. json (send_coa_by_username (gw e) a
          (as_text (r ''username'')) (as_text (r ''action'')) (r ''vlan_id'') (r ''acl_name'') (r ''reason'')))),
     route ''POST'' [Lit ''by-session''] Operator [] (Body CoABySessionRequest)
       (\<lambda>e c. let r = req CoABySessionRequest c in with_actor c (\<lambda>a. json (send_coa_by_session (gw e) a
          (as_text (r ''session_id'')) (as_text (r ''action'')) (r ''vlan_id'') (r ''acl_name'') (r ''reason'')))),
     route ''POST'' [Lit ''bulk''] Operator [] (Body CoABulkRequest)
       (\<lambda>e c. let r = req CoABulkRequest c in with_actor c (\<lambda>a. json (send_coa_bulk (gw e) a
          (as_texts (r ''targets'')) (as_text (r ''target_type'')) (as_text (r ''action'')) (r ''vlan_id'') (r ''reason'')))),
     route ''GET'' [Lit ''history''] AnyUser (paging 50 200 @ [optional ''action'' TStr]) NoBody
       (\<lambda>e c. json (Coa_Gateway.get_history (tenant_of c) (arg c ''action'') (page c) (page_size c))),
     route ''GET'' [Lit ''active-sessions''] AnyUser ([optional ''nas_ip'' TStr, optional ''vlan'' TInt] @ paging 50 200) NoBody
       (\<lambda>e c. json (list_active_sessions (gw e) (arg c ''nas_ip'') (arg c ''vlan'') (page c) (page_size c)))]"

section \<open>Settings\<close>

definition SERVICE_STATUS_DEFS :: "(string, string) dict" where
  "SERVICE_STATUS_DEFS =
     [(''gateway'', ''API Gateway''), (''frontend'', ''Web Frontend''), (''freeradius'', ''FreeRADIUS''),
      (''postgres'', ''PostgreSQL''), (''redis'', ''Redis''), (''nats'', ''NATS'')]"

definition service_status :: "app_env \<Rightarrow> pydict" where
  "service_status e = [(''services'', PList (map (\<lambda>(name, display). PDict
     [(''name'', PStr name), (''display_name'', PStr display),
      (''status'', PStr (case ap_check e name of Some s \<Rightarrow> s | None \<Rightarrow> ''unreachable''))]) SERVICE_STATUS_DEFS))]"

text \<open>The gateway commits the record of its restart before it exits; the others get a message.\<close>

definition restart_service :: "app_env \<Rightarrow> gw_actor \<Rightarrow> string \<Rightarrow> pyval \<Rightarrow> (gw_state, pydict) prog" where
  "restart_service e a service_name client_ip =
     (if service_name = ''gateway'' then
        sbind (log_audit (gw e) a ''restart'' ''service'' PNone
                 [(''service'', PStr ''gateway''), (''description'', PStr ''Gateway restart requested'')] client_ip) (\<lambda>_.
        sbind db_commit (\<lambda>_.
          sret [(''status'', PStr ''restarting''), (''service'', PStr ''gateway''),
                (''message'', PStr ''Gateway is restarting. Please wait a few seconds.'')]))
      else request_service_restart (gw e) a service_name client_ip)"

definition settings_map :: "call \<Rightarrow> (string \<times> pyval) list" where
  "settings_map c = (case req SettingsUpdate c ''settings'' of PDict d \<Rightarrow> d | _ \<Rightarrow> [])"

definition settings_routes :: "app_route list" where
  "settings_routes = under [Lit ''settings'']
    [route ''GET'' [Lit ''service-status''] AnyUser [] NoBody (\<lambda>e c. json (sret (service_status e))),
     route ''POST'' [Lit ''service-restart'', Par ''service_name''] Admin [needed ''service_name'' TStr] NoBody
       (\<lambda>e c. with_actor c (\<lambda>a. json (restart_service e a (ident c ''service_name'') (ca_ip c)))),
     route ''GET'' [] AnyUser [] NoBody
       (\<lambda>e c. sbind (get_all_settings_grouped (gw e) (tenant_of c)) (\<lambda>groups.
          sret (Json (PDict (map (\<lambda>(k, rows). (py_str k, rows_of rows)) groups))))),
     route ''GET'' [Par ''category''] AnyUser [needed ''category'' TStr] NoBody
       (\<lambda>e c. json (get_settings_by_category (gw e) (tenant_of c) (ident c ''category''))),
     route ''PUT'' [Par ''category''] Admin [needed ''category'' TStr] (Body SettingsUpdate)
       (\<lambda>e c. with_actor c (\<lambda>a. json (update_settings_batch (gw e) a (ident c ''category'') (settings_map c) (ca_ip c))))]"

section \<open>The state of FreeRADIUS, 802.1X and the backups\<close>

definition freeradius_config_routes :: "app_route list" where
  "freeradius_config_routes = under [Lit ''freeradius'']
    [route ''GET'' [Lit ''config''] Admin [] NoBody (\<lambda>e c. json (get_config_status (gw e) (tenant_of c))),
     route ''POST'' [Lit ''config'', Lit ''preview''] Admin [] NoBody (\<lambda>e c. json (preview_config (gw e) (tenant_of c))),
     route ''POST'' [Lit ''config'', Lit ''apply''] Admin [] NoBody
       (\<lambda>e c. with_actor c (\<lambda>a. json (trigger_apply (gw e) a (ca_ip c)))),
     route ''GET'' [Lit ''config'', Lit ''history''] Admin (paging 20 100) NoBody
       (\<lambda>e c. json (Freeradius_Status.get_history (gw e) (ap_written e) (tenant_of c) (page c) (page_size c)))]"

definition dot1x_overview_routes :: "app_route list" where
  "dot1x_overview_routes = under [Lit ''dot1x'']
    [route ''GET'' [Lit ''overview''] AnyUser [] NoBody
       (\<lambda>e c. with_tenant c (\<lambda>t. sbind (get_overview (gw e) (ap_sql e) (PStr t)) (\<lambda>out. sret (Overview out))))]"

definition backups_routes :: "app_route list" where
  "backups_routes = under [Lit ''backups'']
    [route ''GET'' [Lit ''settings''] Admin [] NoBody (\<lambda>e c. with_tenant c (\<lambda>t. json (get_settings (PStr t)))),
     route ''GET'' [Lit ''runs''] Admin
       (among [''pending'', ''running'', ''ok'', ''error''] (optional ''status'' TStr) # paging 50 200) NoBody
       (\<lambda>e c. with_tenant c (\<lambda>t. json (list_runs (gw e) (PStr t) (arg c ''status'') (page c) (page_size c)))),
     route ''GET'' [Lit ''runs'', Par ''run_id''] Admin [uuid_param ''run_id''] NoBody
       (\<lambda>e c. with_tenant c (\<lambda>t. json (get_run (PStr t) (ident c ''run_id''))))]"

definition health_routes :: "app_route list" where
  "health_routes =
    [route ''GET'' [Lit ''health''] Public [] NoBody (\<lambda>e c. json (sret (health_check (ap_version e)))),
     route ''GET'' [Lit ''health'', Lit ''backup''] Public [] NoBody
       (\<lambda>e c. json (slift (backup_health_check (ap_health e))))]"

section \<open>The audit log\<close>

text \<open>A cell of the exported table: what is missing is empty, a time in ISO format, the details as JSON.\<close>

definition audit_cell :: "app_env \<Rightarrow> string \<Rightarrow> pyval \<Rightarrow> string" where
  "audit_cell e name v = (case v of
     PNone \<Rightarrow> [] | PDict d \<Rightarrow> ap_dumps e v | PList xs \<Rightarrow> ap_dumps e v
   | PInt n \<Rightarrow> if name = ''timestamp'' then ce_isoformat (ap_csv e) n else py_str v
   | _ \<Rightarrow> py_str v)"

definition rows_to_csv :: "app_env \<Rightarrow> pydict list \<Rightarrow> string" where
  "rows_to_csv e rows = csv_write (LIST_COLS # map (\<lambda>row. map (\<lambda>k. audit_cell e k (py_get row k)) LIST_COLS) rows)"

definition items_and_total :: "pydict list \<Rightarrow> answer" where
  "items_and_total rows = Json (PDict [(''items'', rows_of rows), (''total'', PInt (int (length rows)))])"

definition audit_routes :: "app_route list" where
  "audit_routes = under [Lit ''audit-log'']
    [route ''GET'' [Lit ''export''] Operator
       [needed ''start_time'' TTime, needed ''end_time'' TTime, optional ''action'' TStr,
        optional ''resource_type'' TStr, format_param] NoBody
       (\<lambda>e c. sbind (fetch_audit_logs_for_export (gw e) (ap_written e) (tenant_of c) (int_arg c ''start_time'')
          (int_arg c ''end_time'') (arg c ''action'') (arg c ''resource_type'')) (\<lambda>rows. sret
            (if arg c ''format'' = PStr ''csv'' then Plain (if rows = [] then [] else rows_to_csv e rows)
             else items_and_total rows))),
     route ''GET'' [Par ''log_id''] AnyUser [uuid_param ''log_id''] NoBody
       (\<lambda>e c. json (get_audit_log (ap_written e) (tenant_of c) (ap_entry e (ident c ''log_id'')))),
     route ''GET'' [] AnyUser
       ([optional ''user_id'' TUuid, optional ''action'' TStr, optional ''resource_type'' TStr, optional ''search'' TStr,
         optional ''start_time'' TTime, optional ''end_time'' TTime, ranged 1 720 (optional ''last_hours'' TInt)]
        @ paging 50 500) NoBody
       (\<lambda>e c. json (list_audit_logs (gw e) (ap_written e) (ap_details e) (tenant_of c) (arg c ''user_id'')
          (arg c ''action'') (arg c ''resource_type'') (arg c ''search'') (time_arg c ''start_time'')
          (time_arg c ''end_time'') (time_arg c ''last_hours'') (page c) (page_size c)))]"

section \<open>The log of authentications\<close>

definition log_texts :: "string list" where
  "log_texts = [''auth_result'', ''calling_station_id'', ''username'', ''nas_ip'', ''nas_port_id'', ''auth_method'',
     ''failure_reason'', ''search'']"

definition filters_of :: "call \<Rightarrow> log_filters" where
  "filters_of c = \<lparr>lf_last_hours = time_arg c ''last_hours'', lf_since = None,
     lf_start_time = time_arg c ''start_time'', lf_end_time = time_arg c ''end_time'',
     lf_texts = project log_texts (ca_args c)\<rparr>"

definition log_params :: "field list" where
  "log_params = paging 50 500
     @ [optional ''start_time'' TTime, optional ''end_time'' TTime, ranged 1 720 (optional ''last_hours'' TInt)]
     @ map (\<lambda>n. optional n TStr) log_texts
     @ [preset ''sort_by'' TStr (PStr ''timestamp''),
        among [''asc'', ''desc''] (preset ''sort_order'' TStr (PStr ''desc''))]"

definition log_cell :: "app_env \<Rightarrow> string \<times> pyval \<Rightarrow> string" where
  "log_cell e kv = (case kv of (name, v) \<Rightarrow> (case v of
     PNone \<Rightarrow> [] | PInt n \<Rightarrow> if name = ''timestamp'' then ce_isoformat (ap_csv e) n else py_str v | _ \<Rightarrow> py_str v))"

definition csv_response :: "app_env \<Rightarrow> pydict list \<Rightarrow> answer" where
  "csv_response e rows = Plain (case rows of [] \<Rightarrow> []
     | r # _ \<Rightarrow> csv_write (dict_keys r # map (\<lambda>row. map (\<lambda>k. log_cell e (k, py_get row k)) (dict_keys r)) rows))"

definition over_period :: "(gw_state, pydict list \<times> int) prog \<Rightarrow> (gw_state, answer) prog" where
  "over_period m = sbind m (\<lambda>(rows, hours).
     sret (Json (PDict [(''items'', rows_of rows), (''period_hours'', PInt hours)])))"

definition detail_answer :: "pydict \<times> pydict option \<times> pydict list \<Rightarrow> answer" where
  "detail_answer d = (case d of (entry, troubleshooting, related) \<Rightarrow> Json (PDict
     [(''entry'', PDict entry),
      (''troubleshooting'', case troubleshooting of None \<Rightarrow> PNone | Some t \<Rightarrow> PDict t),
      (''related_history'', rows_of related)]))"

definition radius_auth_log_routes :: "app_route list" where
  "radius_auth_log_routes = under [Lit ''radius'', Lit ''auth-log'']
    [route ''GET'' [] AnyUser log_params NoBody
       (\<lambda>e c. json (list_logs (gw e) (ap_sql e) (page c) (page_size c) (as_text (arg c ''sort_by''))
          (as_text (arg c ''sort_order'')) (filters_of c))),
     route ''GET'' [Lit ''detail'', Par ''log_id''] AnyUser [uuid_param ''log_id''] NoBody
       (\<lambda>e c. sbind (get_log_detail (gw e) (ident c ''log_id'')) (\<lambda>d. sret (detail_answer d))),
     route ''GET'' [Lit ''stats'', Lit ''summary''] AnyUser [hours_param] NoBody
       (\<lambda>e c. sbind (get_summary_stats (gw e) (ap_sql e) (int_arg c ''last_hours'')) (\<lambda>out. sret (Summary out))),
     route ''GET'' [Lit ''stats'', Lit ''by-nas''] AnyUser [hours_param] NoBody
       (\<lambda>e c. over_period (get_stats_by_nas (gw e) (ap_sql e) (int_arg c ''last_hours''))),
     route ''GET'' [Lit ''stats'', Lit ''by-failure-category''] AnyUser [hours_param] NoBody
       (\<lambda>e c. over_period (get_stats_by_failure_category (gw e) (ap_sql e) (int_arg c ''last_hours''))),
     route ''GET'' [Lit ''failure-catalog''] AnyUser [optional ''category'' TStr, optional ''search'' TStr] NoBody
       (\<lambda>e c. items (list_failure_catalog (gw e) (arg c ''category'') (arg c ''search''))),
     route ''GET'' [Lit ''live''] AnyUser [ranged 10 300 (preset ''last_seconds'' TInt (PInt 60))] NoBody
       (\<lambda>e c. sbind (get_live_feed (gw e) (int_arg c ''last_seconds'')) (\<lambda>(rows, since).
          sret (Json (PDict [(''items'', rows_of rows), (''since'', PStr (ce_isoformat (ap_csv e) since))])))),
     route ''GET'' [Lit ''export''] AnyUser
       [needed ''start_time'' TTime, needed ''end_time'' TTime, optional ''auth_result'' TStr, format_param] NoBody
       (\<lambda>e c. sbind (export_logs (gw e) (ap_sql e) (time_arg c ''start_time'') (time_arg c ''end_time'')
          (arg c ''auth_result'')) (\<lambda>rows. sret
            (if arg c ''format'' = PStr ''csv'' then csv_response e rows else items_and_total rows)))]"

section \<open>Users and the own profile\<close>

definition role_entry :: "string \<Rightarrow> string list \<Rightarrow> pyval" where
  "role_entry description permissions =
     PDict [(''description'', PStr description), (''permissions'', PList (map PStr permissions))]"

definition admin_permissions :: "string list" where
  "admin_permissions =
     [''users.read'', ''users.create'', ''users.update'', ''users.delete'',
      ''devices.read'', ''devices.create'', ''devices.update'', ''devices.delete'',
      ''policies.read'', ''policies.create'', ''policies.update'', ''policies.delete'',
      ''network_devices.read'', ''network_devices.create'', ''network_devices.update'', ''network_devices.delete'',
      ''radius.read'', ''radius.update'', ''audit.read'', ''coa.send'']"

definition operator_permissions :: "string list" where
  "operator_permissions =
     [''devices.read'', ''devices.create'', ''devices.update'',
      ''policies.read'', ''policies.create'', ''policies.update'',
      ''network_devices.read'', ''network_devices.create'', ''network_devices.update'',
      ''radius.read'', ''audit.read'', ''coa.send'']"

definition viewer_permissions :: "string list" where
  "viewer_permissions = [''devices.read'', ''policies.read'', ''network_devices.read'', ''radius.read'', ''audit.read'']"

definition ROLE_PERMISSIONS :: pydict where
  "ROLE_PERMISSIONS =
     [(''admin'', role_entry ''Full system access'' admin_permissions),
      (''operator'', role_entry ''Operational access - manage devices and policies'' operator_permissions),
      (''viewer'', role_entry ''Read-only access'' viewer_permissions)]"

definition with_sub :: "call \<Rightarrow> (string \<Rightarrow> (gw_state, 'a) prog) \<Rightarrow> (gw_state, 'a) prog" where
  "with_sub c f = sbind (slift (user_text c ''sub'')) f"

definition auth_routes :: "app_route list" where
  "auth_routes = under [Lit ''auth'']
    [route ''GET'' [Lit ''me''] AnyUser [] NoBody (\<lambda>e c. with_sub c (\<lambda>u. as_model UserResponse (get_user u))),
     route ''POST'' [Lit ''users''] Admin [] (Body UserCreate)
       (\<lambda>e c. let r = req UserCreate c in with_actor c (\<lambda>a. as_model UserResponse (create_user (ap_login e) a
          (as_text (r ''username'')) (r ''email'') (as_text (r ''password'')) (as_text (r ''role''))))),
     route ''GET'' [Lit ''users''] Admin (paging 50 500) NoBody
       (\<lambda>e c. page_of_models UserResponse (list_users (ap_login e) (page c) (page_size c))),
     route ''GET'' [Lit ''users'', Par ''user_id''] Admin [uuid_param ''user_id''] NoBody
       (\<lambda>e c. as_model UserResponse (get_user (ident c ''user_id''))),
     route ''PUT'' [Lit ''users'', Par ''user_id''] Admin [uuid_param ''user_id''] (Body UserUpdate)
       (\<lambda>e c. with_actor c (\<lambda>a. as_model UserResponse (update_user (ap_login e) a (ident c ''user_id'')
          (model_dump UserUpdate (body_of c))))),
     route ''DELETE'' [Lit ''users'', Par ''user_id''] Admin [uuid_param ''user_id''] NoBody
       (\<lambda>e c. with_actor c (\<lambda>a. nothing (delete_user (ap_login e) a (ident c ''user_id'')))),
     route ''POST'' [Lit ''users'', Par ''user_id'', Lit ''reset-password''] Admin [uuid_param ''user_id''] (Body PasswordReset)
       (\<lambda>e c. with_actor c (\<lambda>a. sbind (reset_user_password (ap_login e) a (ident c ''user_id'')
          (as_text (req PasswordReset c ''new_password''))) (\<lambda>_.
            sret (Json (PDict [(''detail'', PStr ''Password reset successfully'')]))))),
     route ''GET'' [Lit ''roles''] AnyUser [] NoBody (\<lambda>e c. json (sret ROLE_PERMISSIONS))]"

definition profile_answer :: "pydict \<times> pydict option \<Rightarrow> answer" where
  "profile_answer out = (case out of (user, prefs) \<Rightarrow> Json (PDict
     [(''user'', PDict (response UserResponse user)),
      (''preferences'', PDict (case prefs of Some p \<Rightarrow> p | None \<Rightarrow> model_dump UserPreferences []))]))"

definition profile_routes :: "app_route list" where
  "profile_routes = under [Lit ''profile'']
    [route ''GET'' [] AnyUser [] NoBody
       (\<lambda>e c. with_sub c (\<lambda>u. sbind (get_profile_with_preferences u) (\<lambda>out. sret (profile_answer out)))),
     route ''PUT'' [Lit ''password''] AnyUser [] (Body PasswordChange)
       (\<lambda>e c. let r = req PasswordChange c in with_actor c (\<lambda>a. sbind (change_own_password (ap_login e) a
          (as_text (r ''current_password'')) (as_text (r ''new_password''))) (\<lambda>_.
            sret (Json (PDict [(''detail'', PStr ''Password changed successfully'')]))))),
     route ''PUT'' [Lit ''email''] AnyUser [] (Body EmailUpdate)
       (\<lambda>e c. let r = req EmailUpdate c in with_actor c (\<lambda>a. sbind (update_own_email (ap_login e) a
          (as_text (r ''email''))) (\<lambda>_.
            sret (Json (PDict [(''detail'', PStr ''Email updated successfully''), (''email'', r ''email'')]))))),
     route ''GET'' [Lit ''preferences''] AnyUser [] NoBody
       (\<lambda>e c. with_sub c (\<lambda>u. sbind (get_own_preferences u) (\<lambda>prefs. sret (Json (PDict (case prefs of
          None \<Rightarrow> model_dump UserPreferences [] | Some p \<Rightarrow> response UserPreferences p)))))),
     route ''PUT'' [Lit ''preferences''] AnyUser [] (Body UserPreferences)
       (\<lambda>e c. with_actor c (\<lambda>a. let prefs = model_dump UserPreferences (body_of c) in
          sbind (upsert_own_preferences (ap_login e) a prefs) (\<lambda>_. sret (Json (PDict prefs)))))]"

end
