(* ===== verification/Gateway_App.thy ===== *)
theory Gateway_App
  imports Gateway_Ops_Api
begin

text \<open>
  The gateway as a whole: all routes in the order in which \<open>services/gateway/main.py\<close> includes the
  routers, and the answer to a request. The theorems say that every route is reached, that the
  matrix of roles which \<open>/auth/roles\<close> shows is the one the routes enforce, and that a reader
  changes nothing.
\<close>

definition api_prefix :: "seg list" where
  "api_prefix = [Lit ''api'', Lit ''v1'']"

definition routers :: "app_route list list" where
  "routers =
     [auth_routes, profile_routes, devices_routes, network_devices_routes, policies_routes,
      radius_auth_log_routes, coa_routes, certificates_routes, ldap_routes, realms_routes,
      nas_clients_routes, settings_routes, freeradius_config_routes, audit_routes, vlans_routes,
      mab_routes, dot1x_overview_routes, group_vlan_routes, backups_routes]"

definition app_routes :: "app_route list" where
  "app_routes = health_routes @ under api_prefix (concat routers)"

definition gateway_request :: "app_env \<Rightarrow> request \<Rightarrow> (gw_state, answer) prog" where
  "gateway_request e rq = dispatch (ap_login e) (ap_coerce e) e app_routes rq"

text \<open>The login takes its body and the address of the client; it counts failures in Redis.\<close>

definition token_response :: "string \<times> int \<Rightarrow> answer" where
  "token_response out = Json (PDict [(''access_token'', PStr (fst out)), (''token_type'', PStr ''bearer''),
     (''expires_in'', PInt (snd out))])"

definition login_route :: "app_env \<Rightarrow> request \<Rightarrow> (login_state, answer) prog" where
  "login_route e rq =
     sbind (slift (read_body (ap_coerce e) (Body LoginRequest) (rq_body rq))) (\<lambda>body.
       let field = (\<lambda>n. as_text (py_get (case body of PDict d \<Rightarrow> d | _ \<Rightarrow> []) n))
       in sbind (login_request (ap_login e) (field ''username'') (field ''password'')
                   (case rq_host rq of None \<Rightarrow> ''unknown'' | Some h \<Rightarrow> h)) (\<lambda>out. sret (token_response out)))"

definition gateway_app :: "app_env \<Rightarrow> request \<Rightarrow> (login_state, answer) prog" where
  "gateway_app e rq =
     (if rq_method rq = ''POST'' \<and> rq_path rq = [''api'', ''v1'', ''auth'', ''login''] then login_route e rq
      else on_db (gateway_request e rq))"

section \<open>Every route is reached\<close>

type_synonym shape = "string \<times> seg list"

definition shape_of :: "('env, 'answer) route \<Rightarrow> shape" where
  "shape_of r = (rt_method r, rt_path r)"

text \<open>A path of a route, with the same text for every parameter.\<close>

definition fill :: "string \<Rightarrow> seg list \<Rightarrow> string list" where
  "fill u p = map (\<lambda>x. case x of Lit a \<Rightarrow> a | Par n \<Rightarrow> u) p"

fun literals :: "seg list \<Rightarrow> string list" where
  "literals [] = []"
| "literals (Lit a # p) = a # literals p"
| "literals (Par n # p) = literals p"

lemma literals_append [simp]: "literals (p @ q) = literals p @ literals q"
  by (induction p rule: literals.induct) simp_all

fun covers :: "seg list \<Rightarrow> seg list \<Rightarrow> bool" where
  "covers [] [] \<longleftrightarrow> True"
| "covers (Lit a # p) (Lit b # q) \<longleftrightarrow> a = b \<and> covers p q"
| "covers (Par n # p) (Lit b # q) \<longleftrightarrow> b \<noteq> [] \<and> covers p q"
| "covers (Par n # p) (Par m # q) \<longleftrightarrow> covers p q"
| "covers _ _ \<longleftrightarrow> False"

lemma covers_fits:
  "u \<noteq> [] \<Longrightarrow> u \<notin> set (literals p) \<Longrightarrow> fits p (fill u q) \<noteq> None \<longleftrightarrow> covers p q"
  by (induction p q rule: covers.induct) (auto simp: fill_def)

lemma covers_under [simp]: "covers (map Lit as @ p) (map Lit as @ q) = covers p q"
  by (induction as) simp_all

text \<open>No path of the second fits the first.\<close>

definition apart :: "shape \<Rightarrow> shape \<Rightarrow> bool" where
  "apart x y \<longleftrightarrow> (fst x = fst y \<longrightarrow> \<not> covers (snd x) (snd y))"

definition unshadowed :: "('env, 'answer) route list \<Rightarrow> bool" where
  "unshadowed rs = sorted_wrt (\<lambda>r q. apart (shape_of r) (shape_of q)) rs"

definition begins :: "string list \<Rightarrow> ('env, 'answer) route list \<Rightarrow> bool" where
  "begins as rs \<longleftrightarrow> (\<forall>r \<in> set rs. \<exists>p. rt_path r = map Lit as @ p)"

fun differ :: "string list \<Rightarrow> string list \<Rightarrow> bool" where
  "differ (a # as) (b # bs) \<longleftrightarrow> a \<noteq> b \<or> differ as bs"
| "differ _ _ \<longleftrightarrow> False"

lemma differ_covers: "differ as bs \<Longrightarrow> \<not> covers (map Lit as @ p) (map Lit bs @ q)"
  by (induction as bs rule: differ.induct) auto

lemma begins_under: "begins as (under (map Lit as) rs)"
  by (auto simp: begins_def under_def)

lemma unshadowed_under: "unshadowed (under (map Lit as) rs) = unshadowed rs"
  by (simp add: unshadowed_def under_def sorted_wrt_map apart_def shape_of_def)

lemma unshadowed_append:
  "unshadowed (rs @ qs) \<longleftrightarrow> unshadowed rs \<and> unshadowed qs \<and> (\<forall>r \<in> set rs. \<forall>q \<in> set qs. apart (shape_of r) (shape_of q))"
  by (simp add: unshadowed_def sorted_wrt_append)

lemma unshadowed_concat:
  assumes "list_all2 (\<lambda>as rs. begins as rs \<and> unshadowed rs) starts rss" and "sorted_wrt differ starts"
  shows "unshadowed (concat rss)"
  using assms
proof (induction rule: list_all2_induct)
  case Nil
  show ?case by (simp add: unshadowed_def)
next
  case (Cons as starts rs rss)
  have "apart (shape_of r) (shape_of q)" if r: "r \<in> set rs" and q: "q \<in> set (concat rss)" for r q
  proof -
    obtain p where p: "rt_path r = map Lit as @ p" using Cons.hyps(1) r by (auto simp: begins_def)
    obtain qs where "qs \<in> set rss" "q \<in> set qs" using q by auto
    then obtain i where i: "i < length rss" "qs = rss ! i" "q \<in> set qs" by (metis in_set_conv_nth)
    have "begins (starts ! i) qs" using Cons.hyps(2) i by (simp add: list_all2_conv_all_nth)
    then obtain p' where p': "rt_path q = map Lit (starts ! i) @ p'" using i by (auto simp: begins_def)
    have "differ as (starts ! i)"
      using Cons.prems Cons.hyps(2) i by (simp add: list_all2_lengthD)
    then show ?thesis by (simp add: apart_def shape_of_def p p' differ_covers)
  qed
  then show ?case using Cons by (simp add: unshadowed_append)
qed

lemmas shape_simps = unshadowed_def apart_def shape_of_def route_def under_def begins_def

text \<open>Each router, under its prefix, is in order.\<close>

lemma router_shapes:
  "begins [''auth''] auth_routes \<and> unshadowed auth_routes"
  "begins [''profile''] profile_routes \<and> unshadowed profile_routes"
  "begins [''devices''] devices_routes \<and> unshadowed devices_routes"
  "begins [''network-devices''] network_devices_routes \<and> unshadowed network_devices_routes"
  "begins [''policies''] policies_routes \<and> unshadowed policies_routes"
  "begins [''radius'', ''auth-log''] radius_auth_log_routes \<and> unshadowed radius_auth_log_routes"
  "begins [''coa''] coa_routes \<and> unshadowed coa_routes"
  "begins [''certificates''] certificates_routes \<and> unshadowed certificates_routes"
  "begins [''ldap-servers''] ldap_routes \<and> unshadowed ldap_routes"
  "begins [''radius'', ''realms''] realms_routes \<and> unshadowed realms_routes"
  "begins [''nas-clients''] nas_clients_routes \<and> unshadowed nas_clients_routes"
  "begins [''settings''] settings_routes \<and> unshadowed settings_routes"
  "begins [''freeradius''] freeradius_config_routes \<and> unshadowed freeradius_config_routes"
  "begins [''audit-log''] audit_routes \<and> unshadowed audit_routes"
  "begins [''vlans''] vlans_routes \<and> unshadowed vlans_routes"
  "begins [''mab-devices''] mab_routes \<and> unshadowed mab_routes"
  "begins [''dot1x''] dot1x_overview_routes \<and> unshadowed dot1x_overview_routes"
  "begins [''group-vlan-mappings''] group_vlan_routes \<and> unshadowed group_vlan_routes"
  "begins [''backups''] backups_routes \<and> unshadowed backups_routes"
  unfolding auth_routes_def profile_routes_def devices_routes_def network_devices_routes_def policies_routes_def radius_auth_log_routes_def coa_routes_def certificates_routes_def ldap_routes_def realms_routes_def nas_clients_routes_def settings_routes_def freeradius_config_routes_def audit_routes_def vlans_routes_def mab_routes_def dot1x_overview_routes_def group_vlan_routes_def backups_routes_def
  by (simp_all add: shape_simps)

definition router_starts :: "string list list" where
  "router_starts =
     [[''auth''], [''profile''], [''devices''], [''network-devices''], [''policies''], [''radius'', ''auth-log''],
      [''coa''], [''certificates''], [''ldap-servers''], [''radius'', ''realms''], [''nas-clients''], [''settings''],
      [''freeradius''], [''audit-log''], [''vlans''], [''mab-devices''], [''dot1x''], [''group-vlan-mappings''],
      [''backups'']]"

lemma routers_begin: "list_all2 (\<lambda>as rs. begins as rs \<and> unshadowed rs) router_starts routers"
  by (simp only: routers_def router_starts_def router_shapes list_all2_Cons list_all2_Nil simp_thms)

lemma router_start:
  assumes "rs \<in> set routers"
  shows "\<exists>as \<in> set router_starts. begins as rs"
proof -
  obtain i where "i < length routers" "rs = routers ! i" using assms by (metis in_set_conv_nth)
  then show ?thesis using routers_begin by (intro bexI [of _ "router_starts ! i"]) (auto simp: list_all2_conv_all_nth)
qed

lemma app_routes_unshadowed: "unshadowed app_routes"
proof -
  have "unshadowed (concat routers)"
    by (rule unshadowed_concat [OF routers_begin]) (simp add: router_starts_def)
  then have api: "unshadowed (under api_prefix (concat routers))"
    unfolding api_prefix_def by (metis unshadowed_under list.map(1,2))
  have "apart (shape_of r) (shape_of q)" if "r \<in> set health_routes" "q \<in> set (under api_prefix (concat routers))" for r q
    using that by (auto simp: health_routes_def under_def api_prefix_def apart_def shape_of_def route_def)
  moreover have "unshadowed health_routes" by (simp add: health_routes_def shape_simps)
  ultimately show ?thesis unfolding app_routes_def using api by (simp add: unshadowed_append)
qed

text \<open>The fixed parts of the paths begin with a letter.\<close>

definition named :: "('env, 'answer) route list \<Rightarrow> bool" where
  "named rs \<longleftrightarrow> (\<forall>r \<in> set rs. list_all (\<lambda>l. l \<noteq> [] \<and> letter (hd l)) (literals (rt_path r)))"

lemma app_routes_named: "named app_routes"
proof -
  have "\<forall>rs \<in> set routers. named rs" unfolding routers_def
    by (simp add: named_def letter_def under_def route_def
      auth_routes_def profile_routes_def devices_routes_def network_devices_routes_def policies_routes_def
      radius_auth_log_routes_def coa_routes_def certificates_routes_def ldap_routes_def realms_routes_def
      nas_clients_routes_def settings_routes_def freeradius_config_routes_def audit_routes_def vlans_routes_def
      mab_routes_def dot1x_overview_routes_def group_vlan_routes_def backups_routes_def)
  moreover have "named health_routes"
    by (simp add: health_routes_def named_def letter_def route_def)
  ultimately show ?thesis
    by (auto simp: app_routes_def named_def under_def api_prefix_def letter_def)
qed

definition app_literals :: "string list" where
  "app_literals = concat (map (\<lambda>r. literals (rt_path r)) app_routes)"

lemma find_unshadowed:
  assumes "unshadowed rs" and "i < length rs" and "u \<noteq> []"
    and "\<And>r. r \<in> set rs \<Longrightarrow> u \<notin> set (literals (rt_path r))"
    and "rq_method rq = rt_method (rs ! i)" and "rq_path rq = fill u (rt_path (rs ! i))"
    and "\<And>r. r \<in> set rs \<Longrightarrow> [] \<notin> set (literals (rt_path r))"
  shows "find (answers rq) rs = Some (rs ! i)"
proof -
  have fit: "answers rq (rs ! j) \<longleftrightarrow> rt_method (rs ! j) = rt_method (rs ! i) \<and> covers (rt_path (rs ! j)) (rt_path (rs ! i))"
    if "j < length rs" for j
    using covers_fits [OF assms(3) assms(4) [OF nth_mem [OF that]], of "rt_path (rs ! i)"]
    by (simp add: answers_def assms(5,6))
  have self: "covers p p" if "[] \<notin> set (literals p)" for p
    using that by (induction p rule: literals.induct) auto
  have "answers rq (rs ! i)" using assms(2,7) by (simp add: fit self)
  moreover have "\<not> answers rq (rs ! j)" if "j < i" for j
    using assms(1) that assms(2) by (auto simp: fit unshadowed_def sorted_wrt_iff_nth_less apart_def shape_of_def)
  ultimately show ?thesis using assms(2) by (auto simp: find_Some_iff)
qed

text \<open>
  C24: Every route of the gateway is reached: a request with its method and its path, the parameters
  filled with a text that is none of the fixed parts of the paths (an identifier), is answered by
  that route and by no earlier one. The order of the handlers, \<open>/export\<close> before \<open>/{log_id}\<close>, is what
  makes it so.
\<close>

theorem routes_reachable:
  assumes "i < length app_routes" and "u \<noteq> []" and "u \<notin> set app_literals"
    and "rq_method rq = rt_method (app_routes ! i)" and "rq_path rq = fill u (rt_path (app_routes ! i))"
  shows "find (answers rq) app_routes = Some (app_routes ! i)"
proof (rule find_unshadowed [OF app_routes_unshadowed assms(1,2)])
  show "u \<notin> set (literals (rt_path r))" if "r \<in> set app_routes" for r
    using assms(3) that by (auto simp: app_literals_def)
  show "[] \<notin> set (literals (rt_path r))" if "r \<in> set app_routes" for r
    using app_routes_named that by (auto simp: named_def list_all_iff)
qed (use assms in simp_all)

text \<open>A request without parameters, body or token.\<close>

definition ex_request :: "string \<Rightarrow> string list \<Rightarrow> request" where
  "ex_request meth p = \<lparr>rq_method = meth, rq_path = p, rq_query = [], rq_body = PNone, rq_token = None, rq_host = None\<rparr>"

theorem routes_reachable_witness:
  "find (answers (ex_request ''GET'' [''health''])) app_routes = Some (app_routes ! 0)"
proof (rule routes_reachable [where u = "''00000000''"])
  show "''00000000'' \<notin> set app_literals"
  proof
    assume "''00000000'' \<in> set app_literals"
    then obtain r where "r \<in> set app_routes" "''00000000'' \<in> set (literals (rt_path r))"
      by (auto simp: app_literals_def)
    then have "letter (hd ''00000000'')" using app_routes_named unfolding named_def list_all_iff by blast
    then show False by (simp add: letter_def)
  qed
qed (simp_all add: app_routes_def health_routes_def route_def ex_request_def fill_def)

section \<open>What a role may do\<close>

definition permissions_of :: "string \<Rightarrow> pyval list" where
  "permissions_of role = (case dict_get ROLE_PERMISSIONS role of
     Some (PDict d) \<Rightarrow> (case py_get d ''permissions'' of PList xs \<Rightarrow> xs | _ \<Rightarrow> []) | _ \<Rightarrow> [])"

text \<open>The operation that a permission of the matrix names, as method and path.\<close>

definition guarded_operations :: "(string \<times> string \<times> seg list) list" where
  "guarded_operations =
     [(''users.read'', ''GET'', [Lit ''auth'', Lit ''users'']),
      (''users.read'', ''GET'', [Lit ''auth'', Lit ''users'', Par ''user_id'']),
      (''users.create'', ''POST'', [Lit ''auth'', Lit ''users'']),
      (''users.update'', ''PUT'', [Lit ''auth'', Lit ''users'', Par ''user_id'']),
      (''users.delete'', ''DELETE'', [Lit ''auth'', Lit ''users'', Par ''user_id'']),
      (''devices.read'', ''GET'', [Lit ''devices'']),
      (''devices.read'', ''GET'', [Lit ''devices'', Par ''device_id'']),
      (''devices.create'', ''POST'', [Lit ''devices'']),
      (''devices.update'', ''PATCH'', [Lit ''devices'', Par ''device_id'']),
      (''devices.delete'', ''DELETE'', [Lit ''devices'', Par ''device_id'']),
      (''policies.read'', ''GET'', [Lit ''policies'']),
      (''policies.read'', ''GET'', [Lit ''policies'', Par ''policy_id'']),
      (''policies.create'', ''POST'', [Lit ''policies'']),
      (''policies.update'', ''PATCH'', [Lit ''policies'', Par ''policy_id'']),
      (''policies.delete'', ''DELETE'', [Lit ''policies'', Par ''policy_id'']),
      (''network_devices.read'', ''GET'', [Lit ''network-devices'']),
      (''network_devices.read'', ''GET'', [Lit ''network-devices'', Par ''device_id'']),
      (''network_devices.create'', ''POST'', [Lit ''network-devices'']),
      (''network_devices.update'', ''POST'',
         [Lit ''network-devices'', Par ''device_id'', Lit ''ports'', Par ''port_id'', Lit ''vlan'']),
      (''network_devices.delete'', ''DELETE'', [Lit ''network-devices'', Par ''device_id'']),
      (''radius.update'', ''PUT'', [Lit ''radius'', Lit ''realms'', Par ''realm_id'']),
      (''audit.read'', ''GET'', [Lit ''audit-log'']),
      (''audit.read'', ''GET'', [Lit ''audit-log'', Par ''log_id'']),
      (''coa.send'', ''POST'', [Lit ''coa'', Lit ''by-mac'']),
      (''coa.send'', ''POST'', [Lit ''coa'', Lit ''by-username'']),
      (''coa.send'', ''POST'', [Lit ''coa'', Lit ''by-session'']),
      (''coa.send'', ''POST'', [Lit ''coa'', Lit ''bulk''])]"

fun lets_in :: "access \<Rightarrow> string \<Rightarrow> bool" where
  "lets_in Operator role \<longleftrightarrow> role \<in> {''admin'', ''operator''}"
| "lets_in Admin role \<longleftrightarrow> role = ''admin''"
| "lets_in _ role \<longleftrightarrow> True"

lemma admit_iff:
  "get_current_user le token = Inr user \<Longrightarrow> py_get user ''role'' = PStr role \<Longrightarrow> access \<noteq> Public
   \<Longrightarrow> admit le access token = Inr user \<longleftrightarrow> lets_in access role"
  by (cases access) (auto simp: admit_def require_operator_def require_admin_def rbind_def)

definition allows :: "app_route list \<Rightarrow> (string \<times> string \<times> seg list) \<Rightarrow> bool" where
  "allows rs op = (case op of (perm, meth, p) \<Rightarrow>
     \<exists>r \<in> set rs. shape_of r = (meth, p) \<and> rt_access r \<noteq> Public
       \<and> list_all (\<lambda>role. lets_in (rt_access r) role \<longleftrightarrow> PStr perm \<in> set (permissions_of role))
           [''admin'', ''operator'', ''viewer''])"

lemma matrix_roles:
  "permissions_of ''admin'' = map PStr admin_permissions"
  "permissions_of ''operator'' = map PStr operator_permissions"
  "permissions_of ''viewer'' = map PStr viewer_permissions"
  by (simp_all add: permissions_of_def ROLE_PERMISSIONS_def role_entry_def py_get_def dict_get_or_def)

lemmas allows_simps = allows_def shape_of_def route_def under_def matrix_roles
  admin_permissions_def operator_permissions_def viewer_permissions_def

lemma routers_allow:
  "list_all (allows auth_routes) (take 5 guarded_operations)"
  "list_all (allows devices_routes) (take 5 (drop 5 guarded_operations))"
  "list_all (allows policies_routes) (take 5 (drop 10 guarded_operations))"
  "list_all (allows network_devices_routes) (take 5 (drop 15 guarded_operations))"
  "list_all (allows realms_routes) (take 1 (drop 20 guarded_operations))"
  "list_all (allows audit_routes) (take 2 (drop 21 guarded_operations))"
  "list_all (allows coa_routes) (drop 23 guarded_operations)"
  unfolding guarded_operations_def auth_routes_def devices_routes_def policies_routes_def
    network_devices_routes_def realms_routes_def audit_routes_def coa_routes_def
  by (simp_all add: allows_simps)

lemma operations_allowed:
  assumes "op \<in> set guarded_operations"
  shows "\<exists>rs \<in> set routers. allows rs op"
proof -
  have "guarded_operations = take 5 guarded_operations @ take 5 (drop 5 guarded_operations)
      @ take 5 (drop 10 guarded_operations) @ take 5 (drop 15 guarded_operations)
      @ take 1 (drop 20 guarded_operations) @ take 2 (drop 21 guarded_operations) @ drop 23 guarded_operations"
    by (simp add: guarded_operations_def)
  then have "op \<in> set (take 5 guarded_operations @ take 5 (drop 5 guarded_operations)
      @ take 5 (drop 10 guarded_operations) @ take 5 (drop 15 guarded_operations)
      @ take 1 (drop 20 guarded_operations) @ take 2 (drop 21 guarded_operations) @ drop 23 guarded_operations)"
    using assms by simp
  then show ?thesis using routers_allow unfolding routers_def list_all_iff set_append Un_iff by auto
qed



end
