(* ===== verification/Gateway_Readers.thy ===== *)
theory Gateway_Readers
  imports Gateway_App
begin

text \<open>
  Who only reads: the operations of the features that change nothing, and from them that a user who
  is neither operator nor administrator changes nothing through the gateway but the own profile.
\<close>

section \<open>Operations that only read\<close>

lemma vlans_read [reads_intros]: "only_reads (list_vlans env t p)" "only_reads (get_vlan t i)"
  unfolding list_vlans_def get_vlan_def repo_list_vlans_def repo_lookup_vlan_def Let_def
  by (intro reads_intros)+

lemma group_vlans_read [reads_intros]:
  "only_reads (list_mappings env t)" "only_reads (preview_vlan_for_groups t gs)" "only_reads (get_mapping t i)"
  unfolding list_mappings_def preview_vlan_for_groups_def get_mapping_def repo_list_mappings_def
    repo_lookup_vlan_for_groups_def repo_lookup_mapping_def Let_def
  by (intro reads_intros)+

lemma mab_read [reads_intros]:
  "only_reads (list_mab_devices env t en dt p n)" "only_reads (check_mac_for_radius env mac)"
  "only_reads (export_csv env ce t)" "only_reads (get_mab_device t i)"
  unfolding list_mab_devices_def check_mac_for_radius_def export_csv_def get_mab_device_def
    repo_count_mab_devices_def repo_list_mab_devices_def repo_radius_lookup_mac_def
    repo_list_mab_devices_for_export_def repo_lookup_mab_device_def Let_def
  by (intro reads_intros)+

lemma certs_read [reads_intros]: "only_reads (list_certs env t ct en p n)" "only_reads (get_cert_detail env t i)"
  unfolding list_certs_def get_cert_detail_def repo_count_certs_def repo_list_certs_def repo_lookup_cert_full_def Let_def
  by (intro reads_intros)+

lemma policies_read [reads_intros]:
  "only_reads (list_policies env t en p n)" "only_reads (get_policy t i)"
  "only_reads (simulate_policy re clk t i ctx)" "only_reads (simulate_all_policies env re clk t ctx)"
  unfolding list_policies_def get_policy_def simulate_policy_def simulate_all_policies_def
    repo_count_policies_def repo_list_policies_def repo_lookup_policy_def repo_list_enabled_policies_def Let_def
  by (intro reads_intros)+

lemma devices_read [reads_intros]:
  "only_reads (list_devices env t st dt q p n)" "only_reads (get_device t i)"
  "only_reads (list_device_properties env t i cat)"
  unfolding list_devices_def get_device_def list_device_properties_def repo_count_devices_def repo_list_devices_def
    repo_lookup_device_def device_exists_def repo_list_device_properties_def Let_def
  by (intro reads_intros)+

lemma network_devices_read [reads_intros]:
  "only_reads (list_network_devices env t dt v p n)" "only_reads (get_network_device t i)"
  "only_reads (list_switch_ports env t i)"
  unfolding list_network_devices_def get_network_device_def list_switch_ports_def repo_count_network_devices_def
    repo_list_network_devices_def repo_lookup_network_device_def network_device_exists_def
    list_ports_with_connected_device_def Let_def
  by (intro reads_intros only_reads_statement; simp)+

lemma coa_read [reads_intros]:
  "only_reads (Coa_Gateway.get_history tn a p n)" "only_reads (list_active_sessions env ip v p n)"
  unfolding Coa_Gateway.get_history_def list_active_sessions_def count_coa_history_def list_coa_history_def
    count_active_sessions_def repo_list_active_sessions_def Let_def
  by (intro reads_intros only_reads_statement; simp)+

lemma settings_read [reads_intros]:
  "only_reads (get_all_settings_grouped env tn)" "only_reads (get_settings_by_category env tn cat)"
  unfolding get_all_settings_grouped_def get_settings_by_category_def list_all_settings_def
    list_settings_by_category_def Let_def
  by (intro reads_intros only_reads_statement; simp)+

lemma audit_read [reads_intros]:
  "only_reads (get_audit_log wr tn i)"
  "only_reads (Audit_Log.list_audit_logs env wr dt tn u a ty q st en lh p n)"
  unfolding get_audit_log_def Audit_Log.list_audit_logs_def lookup_audit_log_def count_audit_logs_def
    repo_list_audit_logs_def Let_def
  by (intro reads_intros only_reads_statement; simp)+

lemma overview_reads [reads_intros]: "only_reads (get_overview env q tn)"
  unfolding get_overview_def get_radius_settings_def list_enabled_realm_auth_methods_def count_realms_by_type_def
    list_enabled_certificates_def list_enabled_vlans_def count_mab_devices_def count_nas_clients_def count_policies_def
    count_group_vlan_mappings_def count_total_and_enabled_def auth_stats_24h_def auth_methods_24h_def Let_def
  by (intro reads_intros only_reads_statement; simp)+

lemma users_read [reads_intros]:
  "only_reads (get_user u)" "only_reads (get_profile_with_preferences u)" "only_reads (get_own_preferences u)"
  unfolding get_user_def get_profile_with_preferences_def get_own_preferences_def lookup_user_profile_def
    lookup_user_preferences_def Let_def
  by (intro reads_intros only_reads_statement; simp)+

lemma auth_log_reads [reads_intros]:
  "only_reads (list_logs env q p n sb so f)" "only_reads (get_log_detail env i)"
  "only_reads (list_failure_catalog env c s)" "only_reads (get_live_feed env k)" "only_reads (export_logs env q st en r)"
  unfolding list_logs_def get_log_detail_def list_failure_catalog_def get_live_feed_def export_logs_def
    count_logs_def repo_list_logs_def select_logs_def get_log_by_id_def list_related_by_mac_def
    resolve_troubleshooting_def find_failure_catalog_entry_def repo_list_failure_catalog_def live_feed_def
    list_logs_for_export_def Let_def
  by (intro reads_intros only_reads_statement; simp)+

lemma auth_stats_read [reads_intros]:
  "only_reads (get_summary_stats env q h)" "only_reads (get_stats_by_nas env q h)"
  "only_reads (get_stats_by_failure_category env q h)"
  unfolding get_summary_stats_def get_stats_by_nas_def get_stats_by_failure_category_def count_by_result_def
    top_failure_reasons_def top_failing_users_def top_failing_macs_def auth_method_distribution_def hourly_trend_def
    stats_by_nas_def stats_by_failure_category_def Let_def
  by (intro reads_intros only_reads_statement; simp)+

section \<open>Handlers and routers\<close>

lemma answers_read [reads_intros]:
  "only_reads m \<Longrightarrow> only_reads (json m)" "only_reads n \<Longrightarrow> only_reads (items n)"
  "only_reads m \<Longrightarrow> only_reads (as_model fs m)" "only_reads m \<Longrightarrow> only_reads (page_of_models fs m)"
  "only_reads k \<Longrightarrow> only_reads (over_period k)" "(\<And>u. only_reads (f u)) \<Longrightarrow> only_reads (with_sub c f)"
  unfolding json_def items_def as_model_def page_of_models_def over_period_def with_sub_def
  by (intro reads_intros; assumption)+

text \<open>A route is quiet when it lets in no reader or its handler only reads.\<close>

definition quiet :: "app_route \<Rightarrow> bool" where
  "quiet r \<longleftrightarrow> rt_access r \<in> {Operator, Admin} \<or> (\<forall>e c. only_reads (rt_run r e c))"

lemma quiet_route:
  "access \<in> {Operator, Admin} \<Longrightarrow> quiet (route meth p access params body h)"
  "(\<And>e c. only_reads (h e c)) \<Longrightarrow> quiet (route meth p access params body h)"
  by (simp_all add: quiet_def route_def)

definition all_quiet :: "app_route list \<Rightarrow> bool" where
  "all_quiet rs \<longleftrightarrow> list_all quiet rs"

lemma all_quiet_intros:
  "all_quiet []" "quiet r \<Longrightarrow> all_quiet rs \<Longrightarrow> all_quiet (r # rs)"
  "all_quiet rs \<Longrightarrow> all_quiet qs \<Longrightarrow> all_quiet (rs @ qs)" "all_quiet rs \<Longrightarrow> all_quiet (under p rs)"
  by (auto simp: all_quiet_def quiet_def under_def list_all_iff)

lemma routers_quiet:
  "all_quiet vlans_routes" "all_quiet group_vlan_routes" "all_quiet mab_routes" "all_quiet certificates_routes"
  "all_quiet policies_routes" "all_quiet nas_clients_routes" "all_quiet realms_routes" "all_quiet ldap_routes"
  unfolding vlans_routes_def group_vlan_routes_def mab_routes_def certificates_routes_def policies_routes_def
    nas_clients_routes_def realms_routes_def ldap_routes_def Let_def
  by (intro all_quiet_intros; (rule quiet_route(1), simp; fail | rule quiet_route(2), intro reads_intros; fail))+

lemma more_routers_quiet:
  "all_quiet devices_routes" "all_quiet network_devices_routes" "all_quiet coa_routes" "all_quiet settings_routes"
  "all_quiet freeradius_config_routes" "all_quiet dot1x_overview_routes" "all_quiet backups_routes"
  "all_quiet health_routes" "all_quiet audit_routes" "all_quiet radius_auth_log_routes" "all_quiet auth_routes"
  unfolding devices_routes_def network_devices_routes_def coa_routes_def settings_routes_def
    freeradius_config_routes_def dot1x_overview_routes_def backups_routes_def health_routes_def audit_routes_def
    radius_auth_log_routes_def auth_routes_def Let_def
  by (intro all_quiet_intros; (rule quiet_route(1), simp; fail | rule quiet_route(2), intro reads_intros; fail))+

definition own_profile :: "request \<Rightarrow> bool" where
  "own_profile rq \<longleftrightarrow> rq_method rq = ''PUT'' \<and> take 3 (rq_path rq) = [''api'', ''v1'', ''profile'']"

lemma profile_quiet: "list_all (\<lambda>r. quiet r \<or> rt_method r = ''PUT'') profile_routes"
proof -
  have quiet: "quiet (route m p AnyUser ps b h)" if "\<And>e c. only_reads (h e c)" for m p ps b h
    using that by (rule quiet_route(2))
  show ?thesis
    unfolding profile_routes_def under_def by (auto simp: quiet_def route_def Let_def intro!: reads_intros)
qed

lemma fits_begin: "fits (map Lit as @ p) xs \<noteq> None \<Longrightarrow> take (length as) xs = as"
proof (induction as arbitrary: xs)
  case (Cons a as)
  then show ?case by (cases xs) (auto split: if_splits)
qed simp

text \<open>The path under which the documentation has the state of the backups is not found.\<close>

lemma documented_backup_path:
  assumes "rq_path rq = [''api'', ''v1'', ''health'', ''backup'']"
  shows "gateway_request e rq = sraise (HttpError 404 ''Not Found'')"
proof -
  have "fits (rt_path r) (rq_path rq) = None" if r: "r \<in> set app_routes" for r
  proof (rule ccontr)
    assume fit: "fits (rt_path r) (rq_path rq) \<noteq> None"
    have "r \<notin> set health_routes" using fit by (auto simp: health_routes_def route_def assms)
    then obtain rs r0 where r0: "rs \<in> set routers" "r0 \<in> set rs" "rt_path r = api_prefix @ rt_path r0"
      using r by (auto simp: app_routes_def under_def)
    obtain as where as: "as \<in> set router_starts" "begins as rs" using router_start [OF r0(1)] by blast
    then obtain p where "rt_path r0 = map Lit as @ p" using r0(2) by (auto simp: begins_def)
    then have "fits (map Lit ([''api'', ''v1''] @ as) @ p) (rq_path rq) \<noteq> None"
      using fit r0(3) by (simp add: api_prefix_def)
    from fits_begin [OF this] as(1) show False by (auto simp: assms router_starts_def)
  qed
  then have "find (answers rq) app_routes = None" "\<not> list_ex (\<lambda>r. fits (rt_path r) (rq_path rq) \<noteq> None) app_routes"
    by (auto simp: find_None_iff answers_def list_ex_iff)
  then show ?thesis by (simp add: gateway_request_def dispatch_def)
qed

lemma all_but_profile_quiet:
  assumes "r \<in> set app_routes" and "answers rq r" and "\<not> own_profile rq"
  shows "quiet r"
proof -
  have others: "all_quiet (under api_prefix (concat (filter (\<lambda>rs. rs \<noteq> profile_routes) routers)))"
  proof -
    have "\<forall>rs \<in> set routers. rs = profile_routes \<or> all_quiet rs"
      by (simp add: routers_def routers_quiet more_routers_quiet)
    then have "all_quiet (concat (filter (\<lambda>rs. rs \<noteq> profile_routes) routers))"
      by (auto simp: all_quiet_def list_all_iff)
    then show ?thesis by (rule all_quiet_intros(4))
  qed
  consider "r \<in> set health_routes" | "r \<in> set (under api_prefix (concat (filter (\<lambda>rs. rs \<noteq> profile_routes) routers)))"
    | "r \<in> set (under api_prefix profile_routes)"
    using assms(1) by (auto simp: app_routes_def under_def)
  then show ?thesis
  proof cases
    case 1
    then show ?thesis using more_routers_quiet(8) by (simp add: all_quiet_def list_all_iff)
  next
    case 2
    then show ?thesis using others by (simp add: all_quiet_def list_all_iff)
  next
    case 3
    then obtain r0 where r0: "r0 \<in> set profile_routes" "r = r0\<lparr>rt_path := api_prefix @ rt_path r0\<rparr>"
      by (auto simp: under_def)
    obtain p where p: "rt_path r0 = Lit ''profile'' # p"
      using router_shapes(2) r0(1) by (fastforce simp: begins_def)
    have "fits (map Lit [''api'', ''v1'', ''profile''] @ p) (rq_path rq) \<noteq> None" "rt_method r0 = rq_method rq"
      using assms(2) r0(2) p by (simp_all add: answers_def api_prefix_def)
    then have "rt_method r0 \<noteq> ''PUT''"
      using assms(3) fits_begin [of "[''api'', ''v1'', ''profile'']" p "rq_path rq"] by (auto simp: own_profile_def numeral_eq_Suc)
    then have "quiet r0" using profile_quiet r0(1) by (auto simp: list_all_iff)
    then show ?thesis using r0(2) by (simp add: quiet_def)
  qed
qed


definition ex_app_env :: "string \<Rightarrow> app_env" where
  "ex_app_env role =
     \<lparr>ap_login = ex_login_env\<lparr>le_jwt_decode := (\<lambda>t tok. Some [(''sub'', PStr ''u1''), (''username'', PStr ''alice''),
        (''role'', PStr role), (''tenant_id'', PStr ''t1'')])\<rparr>,
      ap_coerce = (\<lambda>t v. Some v), ap_sql = ex_log_sql, ap_csv = ex_csv_env, ap_crypto = ex_crypto_env,
      ap_written = int, ap_entry = (\<lambda>t. 0), ap_details = py_str, ap_dumps = py_str,
      ap_re = (\<lambda>p t. Inr False), ap_clock = ex_clock, ap_check = (\<lambda>n. None),
      ap_ldap = \<lparr>lp_installed = False, lp_open = (\<lambda>r t. Inl []), lp_start_tls = (\<lambda>r. None), lp_bind = (\<lambda>r. Inl []),
        lp_vendor = (\<lambda>r. []), lp_other = (\<lambda>r. []), lp_search = (\<lambda>r b f. Inl []), lp_unbind = (\<lambda>r. None)\<rparr>,
      ap_health = \<lparr>he_path = [], he_stale_after = STALE_AFTER_SECONDS, he_now = 0, he_parse = (\<lambda>t. None), he_file = None\<rparr>,
      ap_version = []\<rparr>"

definition ex_delete :: request where
  "ex_delete = (ex_request ''DELETE'' [''api'', ''v1'', ''vlans'', ''id-0''])\<lparr>rq_token := Some ''token''\<rparr>"


end
