(* ===== verification/Gateway_Tenants.thy ===== *)
theory Gateway_Tenants
  imports Gateway_Readers
begin

text \<open>
  What a request of one tenant leaves alone: through the whole gateway the rows of every other tenant
  stay as they were. The exceptions, which are no operations of one tenant, are named.
\<close>

section \<open>Programs that stay in a tenant\<close>

named_theorems stays_intros "handlers that stay in their tenant"

definition stays :: "string \<Rightarrow> (gw_state, 'a) prog \<Rightarrow> bool" where
  "stays t m \<longleftrightarrow> isolates t m \<and> uncommitted m"

lemma stays_service: "isolates t m \<Longrightarrow> uncommitted m \<Longrightarrow> stays t m"
  by (simp add: stays_def)

lemma stays_reads: "only_reads m \<Longrightarrow> stays t m"
  by (auto simp: stays_def only_reads_def isolates_def keeps_def uncommitted_def)
    (metis gw_state.select_convs(1,2) gw_state.surjective gw_state.update_convs(3))+

lemma stays_prog [stays_intros]:
  "stays t (sret x)" "stays t (sraise e)" "stays t (slift r)"
  "stays t m \<Longrightarrow> (\<And>x. stays t (f x)) \<Longrightarrow> stays t (sbind m f)"
  "stays t m \<Longrightarrow> stays t n \<Longrightarrow> stays t (if b then m else n)"
  by (auto simp: stays_def intro: isolation_intros uncommitted_intros)

lemma stays_answers [stays_intros]:
  "stays t m \<Longrightarrow> stays t (json m)" "stays t n \<Longrightarrow> stays t (items n)" "stays t u \<Longrightarrow> stays t (nothing u)"
  "stays t m \<Longrightarrow> stays t (as_model fs m)" "stays t m \<Longrightarrow> stays t (page_of_models fs m)"
  unfolding json_def items_def nothing_def as_model_def page_of_models_def by (intro stays_intros; assumption)+

definition of_tenant :: "string \<Rightarrow> call \<Rightarrow> bool" where
  "of_tenant t c \<longleftrightarrow> dict_get (ca_user c) ''tenant_id'' = Some (PStr t)"

lemma stays_calls [stays_intros]:
  "of_tenant t c \<Longrightarrow> (\<And>a. stays (ac_tenant a) (g a)) \<Longrightarrow> stays t (with_actor c g)"
  "of_tenant t c \<Longrightarrow> stays t (f t) \<Longrightarrow> stays t (with_tenant c f)"
proof -
  assume c: "of_tenant t c"
  then have t: "user_text c ''tenant_id'' = Inr t" by (simp add: of_tenant_def user_text_def py_str_def)
  show "stays t (with_actor c g)" if "\<And>a. stays (ac_tenant a) (g a)"
  proof -
    have "stays t (g \<lparr>ac_sub = sub, ac_tenant = t, ac_username = u\<rparr>)" for sub u
      using that [of "\<lparr>ac_sub = sub, ac_tenant = t, ac_username = u\<rparr>"] by simp
    then show ?thesis unfolding with_actor_def t sbind_pure by (intro stays_intros)
  qed
  show "stays t (with_tenant c f)" if "stays t (f t)"
    using that unfolding with_tenant_def t by (simp add: sbind_pure)
qed

lemma stays_request:
  assumes "stays t m" and "at_rest g"
  shows "foreign_rows t (gs_db (snd (in_request m g))) = foreign_rows t (gs_db g)"
proof -
  obtain r g' where m: "m g = (r, g')" by fastforce
  then have "foreign_rows t (gs_db g') = foreign_rows t (gs_db g)" "gs_committed g' = gs_db g"
    using assms isolatesD [of t m g] by (auto simp: stays_def uncommitted_def at_rest_def) (metis snd_conv)
  then show ?thesis
    by (cases r) (auto simp: in_request_def m commit_def rollback_def)
qed

section \<open>Operations that write\<close>

lemma more_reads [reads_intros]:
  "only_reads (list_nas_clients env t)" "only_reads (get_nas_client t i)"
  "only_reads (list_realms env t rt en p n)" "only_reads (get_realm t i)"
  "only_reads (list_ldap_servers env t en p n)" "only_reads (get_ldap_server t i)"
  "only_reads (download_cert env t i key chain)"
  "only_reads (get_config_status env tn)" "only_reads (preview_config env tn)"
  "only_reads (Freeradius_Status.get_history env wr tn p n)"
  "only_reads (get_settings tn)" "only_reads (list_runs env tn st p n)" "only_reads (get_run tn i)"
  "only_reads (fetch_audit_logs_for_export env wr tn from_t to_t a ty)"
  unfolding list_nas_clients_def get_nas_client_def repo_list_nas_clients_def repo_lookup_nas_client_def
    list_realms_def get_realm_def repo_count_realms_def repo_list_realms_def repo_lookup_realm_def all_ldap_servers_def
    list_ldap_servers_def get_ldap_server_def repo_count_ldap_servers_def repo_list_ldap_servers_def
    repo_lookup_ldap_server_def download_cert_def repo_lookup_cert_for_download_def with_plain_key_def get_config_status_def preview_config_def
    Freeradius_Status.get_history_def list_config_status_def list_config_preview_def count_enabled_ldap_servers_def
    count_enabled_realms_def count_enabled_nas_clients_def count_active_certificates_def count_config_history_def
    list_config_history_def get_settings_def list_runs_def get_run_def lookup_settings_def count_runs_def
    repo_list_runs_def lookup_run_def fetch_audit_logs_for_export_def list_audit_logs_for_export_def Let_def
  by (intro reads_intros only_reads_statement; simp)+

lemma isolates_upsert_new:
  assumes "dict_ok vals" and "dict_get vals ''tenant_id'' = Some (PStr t)" and "''tenant_id'' \<in> set keys"
    and "\<And>new old. ''tenant_id'' \<notin> fst ` set (sets new old)"
  shows "isolates t (upsert_new env table keys vals sets)"
proof -
  have row: "py_get (assign vals base) ''tenant_id'' = PStr t" for base by (simp add: assign_last [OF assms(1,2)])
  have scope: "scoped t (same_keys keys (assign vals base))" for base
    using assms(3) row [of base] by (auto simp: scoped_def foreign_def same_keys_def list_all_iff sql_eq_def)
  have map: "filter (foreign t) (map (\<lambda>r. if same_keys keys (assign vals base) r
      then assign (sets (assign vals base) r) r else r) rows) = filter (foreign t) rows" for base rows
    using scope [of base] by (induction rows) (auto simp: scoped_def foreign_def assign_get assms(4))
  show ?thesis
    unfolding upsert_new_def Service_World.upsert_row_def Let_def
    by (rule isolates_statement)
      (auto simp: checked_Inr foreign_rows_def fun_eq_iff foreign_def row map split: option.splits)
qed

text \<open>Each operation leaves the rows of other tenants alone and commits nothing.\<close>

lemma vlans_stay [stays_intros]:
  "stays (ac_tenant a) (create_vlan env a v n d p sn en ip)" "stays (ac_tenant a) (update_vlan env a u upd ip)"
  "stays (ac_tenant a) (delete_vlan env a u ip)"
  by (rule stays_service, intro isolation_intros,
    (unfold create_vlan_def update_vlan_def delete_vlan_def vlan_repo_defs, intro uncommitted_intros)[1])+

lemma mappings_stay [stays_intros]:
  "stays (ac_tenant a) (create_mapping env a g v p d l en ip)" "stays (ac_tenant a) (update_mapping env a m upd ip)"
  "stays (ac_tenant a) (delete_mapping env a m ip)"
  by (rule stays_service, intro isolation_intros,
    (unfold create_mapping_def update_mapping_def delete_mapping_def rename_check_def assert_group_name_free_def
      repo_lookup_mapping_summary_def repo_group_name_taken_def repo_insert_mapping_def repo_update_mapping_def
      repo_delete_mapping_def Let_def, intro uncommitted_intros)[1])+

lemma nas_stay [stays_intros]:
  "stays (ac_tenant a) (create_nas_client env a n i s sh nt d ip)" "stays (ac_tenant a) (update_nas_client env a i upd ip)"
  "stays (ac_tenant a) (delete_nas_client env a i ip)" "stays (ac_tenant a) (sync_radius env a ip)"
  by (rule stays_service, intro isolation_intros,
    (unfold create_nas_client_def update_nas_client_def delete_nas_client_def sync_radius_def publish_nas_apply_def
      repo_lookup_nas_client_summary_def repo_insert_nas_client_def repo_update_nas_client_def
      repo_delete_nas_client_def Let_def, intro uncommitted_intros)[1])+

lemma ldap_stay [stays_intros]:
  "stays (ac_tenant a) (create_ldap_server env a flds ip)" "stays (ac_tenant a) (update_ldap_server env a i upd ip)"
  "stays (ac_tenant a) (delete_ldap_server env a i ip)"
  by (rule stays_service, intro isolation_intros,
    (unfold create_ldap_server_def update_ldap_server_def delete_ldap_server_def publish_ldap_apply_def
      repo_lookup_ldap_server_summary_def repo_count_realm_references_def repo_insert_ldap_server_def
      repo_update_ldap_server_def repo_delete_ldap_server_def Let_def, intro uncommitted_intros)[1])+

lemma realms_stay [stays_intros]:
  "stays (ac_tenant a) (create_realm env a flds ip)" "stays (ac_tenant a) (update_realm env a i upd ip)"
  "stays (ac_tenant a) (delete_realm env a i ip)"
  by (rule stays_service, intro isolation_intros,
    (unfold create_realm_def update_realm_def delete_realm_def publish_realm_apply_def validate_ldap_server_ref_def
      validate_fallback_realm_ref_def validate_proxy_complete_def check_proxy_switch_def
      repo_lookup_proxy_state_def repo_lookup_realm_summary_def repo_ldap_server_exists_def repo_realm_exists_def
      repo_count_fallback_references_def repo_insert_realm_def repo_update_realm_def repo_delete_realm_def Let_def, intro uncommitted_intros)[1])+

lemma policies_stay [stays_intros]:
  "stays (ac_tenant a) (create_policy env a r ip)" "stays (ac_tenant a) (update_policy env a i raw ip)"
  "stays (ac_tenant a) (delete_policy env a i ip)" "stays (ac_tenant a) (apply_template env a tid ov)"
  by (rule stays_service, intro isolation_intros,
    (unfold create_policy_def update_policy_def delete_policy_def apply_template_def publish_policy_created_def
      publish_policy_updated_def publish_policy_deleted_def repo_lookup_policy_def repo_insert_policy_def
      repo_update_policy_def repo_delete_policy_def Let_def, intro uncommitted_intros)[1])+

lemma network_devices_stay [stays_intros]:
  "stays (ac_tenant a) (create_network_device env a given ip)" "stays (ac_tenant a) (delete_network_device env a i ip)"
  "stays (ac_tenant a) (request_port_vlan_change env a i p v ip)"
  by (rule stays_service, intro isolation_intros,
    (unfold create_network_device_def request_port_vlan_change_def delete_network_device_def
      repo_insert_network_device_def repo_delete_network_device_def lookup_port_for_vlan_set_def
      publish_poll_requested_def publish_set_vlan_def Let_def, intro uncommitted_intros)[1])+

lemma devices_stay [stays_intros]:
  "stays (ac_tenant a) (ingest_device env a mac addr h dt f v vn m ip)"
  "stays (ac_tenant a) (Devices.update_device env a i upd ip)" "stays (ac_tenant a) (delete_device env a i ip)"
proof -
  have columns: "''tenant_id'' \<notin> set DEVICE_UPDATE_COLUMNS" using protected_columns [of "''tenant_id''"] by simp
  have upsert: "isolates (ac_tenant a) (upsert_device env (ac_tenant a) mac addr h dt f v vn m)"
    unfolding upsert_device_def
    by (intro isolation_intros isolates_upsert_new) (auto simp: dict_ok_def coalesce_excluded_def stamp_def)
  then have "isolates (ac_tenant a) (ingest_device env a mac addr h dt f v vn m ip)"
    unfolding ingest_device_def publish_device_upserted_def by (intro isolation_intros)
  then show "stays (ac_tenant a) (ingest_device env a mac addr h dt f v vn m ip)"
    by (rule stays_service)
      (unfold ingest_device_def upsert_device_def publish_device_upserted_def, intro uncommitted_intros)
  have "isolates (ac_tenant a) (repo_update_device env (ac_tenant a) i given)" for given
  proof (cases "build_safe_set_clause given DEVICE_UPDATE_COLUMNS [] []")
    case (Inl err)
    then show ?thesis by (simp add: repo_update_device_def sbind_pure isolation_intros)
  next
    case (Inr cp)
    obtain clause params where cp: "cp = (clause, params)" by (cases cp)
    have "fst ` set params \<subseteq> set DEVICE_UPDATE_COLUMNS" using build_Inr(2) Inr cp by blast
    then have "''tenant_id'' \<notin> fst ` set (params @ stamp env ''updated_at'')" using columns by (auto simp: stamp_def)
    then show ?thesis unfolding repo_update_device_def Inr cp sbind_pure
      by (auto intro!: isolates_sbind isolates_update scoped_by_id isolates_prog)
  qed
  then have "isolates (ac_tenant a) (Devices.update_device env a i upd ip)"
    unfolding Devices.update_device_def Let_def by (intro isolation_intros)
  then show "stays (ac_tenant a) (Devices.update_device env a i upd ip)"
    by (rule stays_service) (unfold Devices.update_device_def repo_update_device_def Let_def, intro uncommitted_intros)
  show "stays (ac_tenant a) (delete_device env a i ip)"
    unfolding delete_device_def repo_delete_device_def
    by (rule stays_service) (intro isolation_intros uncommitted_intros)+
qed

lemma mab_stay [stays_intros]:
  "stays (ac_tenant a) (create_mab_device env a m n d dt v en x ip)" "stays (ac_tenant a) (update_mab_device env a i upd ip)"
  "stays (ac_tenant a) (delete_mab_device env a i ip)" "stays (ac_tenant a) (bulk_import env a devs ip)"
  "stays (ac_tenant a) (import_csv env ce a txt ip)"
proof -
  have loop: "uncommitted (bulk_loop env a devs c k)" for devs c k
    unfolding repo_bulk_insert_mab_device_def
    by (induction devs arbitrary: c k) (auto intro!: uncommitted_intros simp: repo_bulk_insert_mab_device_def)
  show "stays (ac_tenant a) (create_mab_device env a m n d dt v en x ip)"
    "stays (ac_tenant a) (update_mab_device env a i upd ip)" "stays (ac_tenant a) (delete_mab_device env a i ip)"
    "stays (ac_tenant a) (bulk_import env a devs ip)" "stays (ac_tenant a) (import_csv env ce a txt ip)"
    by (rule stays_service, intro isolation_intros,
      (unfold create_mab_device_def update_mab_device_def delete_mab_device_def bulk_import_def import_csv_def
        repo_lookup_mab_device_summary_def repo_insert_mab_device_def repo_update_mab_device_def
        repo_delete_mab_device_def Let_def, intro uncommitted_intros loop)[1])+
qed

lemma certs_stay [stays_intros]:
  "stays (ac_tenant a) (generate_ca env ce a ca ip)" "stays (ac_tenant a) (generate_server env ce a sr ip)"
  "stays (ac_tenant a) (import_cert env ce a im ip)" "stays (ac_tenant a) (activate_cert env a i ip)"
  "stays (ac_tenant a) (delete_cert env a i ip)"
  by (rule stays_service, intro isolation_intros,
    (unfold generate_ca_def generate_server_def import_cert_def activate_cert_def delete_cert_def insert_cert_def
      audit_created_def Certificates.write_cert_files_def publish_freeradius_apply_for_cert_def repo_lookup_active_ca_def
      repo_lookup_cert_summary_def repo_insert_cert_def repo_deactivate_certs_of_type_def repo_set_cert_active_def
      repo_delete_cert_def with_plain_key_def Let_def, intro uncommitted_intros)[1])+

lemma coa_stay [stays_intros]:
  "stays (ac_tenant a) (send_coa_by_mac env a mac act v acl r)"
  "stays (ac_tenant a) (send_coa_by_username env a u act v acl r)"
  "stays (ac_tenant a) (send_coa_by_session env a ss act v acl r)"
  "stays (ac_tenant a) (send_coa_bulk env a targets ty act v r)" "stays (ac_tenant a) (trigger_apply env a ip)"
proof -
  have each: "isolates t (publish_each env f targets k)" "uncommitted (publish_each env f targets k)" for f targets k t
    by (induction targets arbitrary: k) (auto intro!: isolation_intros uncommitted_intros simp: publish_coa_def)
  show "stays (ac_tenant a) (send_coa_by_mac env a mac act v acl r)"
    "stays (ac_tenant a) (send_coa_by_username env a u act v acl r)"
    "stays (ac_tenant a) (send_coa_by_session env a ss act v acl r)"
    "stays (ac_tenant a) (send_coa_bulk env a targets ty act v r)" "stays (ac_tenant a) (trigger_apply env a ip)"
    unfolding send_coa_by_mac_def send_coa_by_username_def send_coa_by_session_def send_coa_bulk_def trigger_apply_def
      send_coa_to_target_def publish_coa_def publish_freeradius_apply_def Let_def
    by (rule stays_service, (intro isolation_intros each)[1], (intro uncommitted_intros each)[1])+
qed

section \<open>Handlers and routers\<close>

text \<open>A route is confined when its handler stays in the tenant of its user.\<close>

definition confined :: "app_route \<Rightarrow> bool" where
  "confined r \<longleftrightarrow> (\<forall>e c t. (rt_access r = Public \<or> of_tenant t c) \<longrightarrow> stays t (rt_run r e c))"

lemma confined_route:
  "(\<And>e c. only_reads (h e c)) \<Longrightarrow> confined (route meth p access params body h)"
  "access \<noteq> Public \<Longrightarrow> (\<And>e c t. of_tenant t c \<Longrightarrow> stays t (h e c)) \<Longrightarrow> confined (route meth p access params body h)"
  by (auto simp: confined_def route_def intro: stays_reads)

definition all_confined :: "app_route list \<Rightarrow> bool" where
  "all_confined rs \<longleftrightarrow> list_all confined rs"

lemma all_confined_intros:
  "all_confined []" "confined r \<Longrightarrow> all_confined rs \<Longrightarrow> all_confined (r # rs)"
  "all_confined rs \<Longrightarrow> all_confined qs \<Longrightarrow> all_confined (rs @ qs)" "all_confined rs \<Longrightarrow> all_confined (under p rs)"
  by (auto simp: all_confined_def confined_def under_def list_all_iff)

lemma routers_confined:
  "all_confined vlans_routes" "all_confined group_vlan_routes" "all_confined mab_routes" "all_confined certificates_routes"
  "all_confined policies_routes" "all_confined nas_clients_routes" "all_confined realms_routes"
  "all_confined network_devices_routes" "all_confined coa_routes" "all_confined freeradius_config_routes"
  "all_confined dot1x_overview_routes" "all_confined backups_routes" "all_confined health_routes"
  "all_confined audit_routes" "all_confined radius_auth_log_routes"
  unfolding vlans_routes_def group_vlan_routes_def mab_routes_def certificates_routes_def policies_routes_def
    nas_clients_routes_def realms_routes_def network_devices_routes_def coa_routes_def freeradius_config_routes_def
    dot1x_overview_routes_def backups_routes_def health_routes_def audit_routes_def radius_auth_log_routes_def Let_def
  by (intro all_confined_intros; (rule confined_route(1), intro reads_intros; fail
      | rule confined_route(2), simp, (assumption | intro stays_intros)+; fail))+

text \<open>What is no operation of one tenant: users and settings, and the two writes by identifier alone.\<close>

definition beyond_tenant :: "request \<Rightarrow> bool" where
  "beyond_tenant rq \<longleftrightarrow>
     (\<exists>f \<in> {''auth'', ''profile'', ''settings''}. take 3 (rq_path rq) = [''api'', ''v1'', f])
     \<or> rq_method rq = ''POST'' \<and> rq_path rq \<noteq> [] \<and> last (rq_path rq) \<in> {''properties'', ''test''}"

lemma fits_last: "fits (p @ [Lit a]) xs \<noteq> None \<Longrightarrow> xs \<noteq> [] \<and> last xs = a"
proof (induction p arbitrary: xs)
  case Nil
  then show ?case by (cases xs rule: list.exhaust [case_product list.exhaust]) (auto split: if_splits elim: fits.elims)
next
  case (Cons x p)
  then show ?case by (cases x; cases xs) (auto split: if_splits)
qed

text \<open>A router that is confined but for the writes whose path ends in a given part.\<close>

definition confined_but :: "string \<Rightarrow> app_route list \<Rightarrow> bool" where
  "confined_but x rs \<longleftrightarrow> list_all (\<lambda>r. confined r \<or> rt_method r = ''POST'' \<and> (\<exists>p. rt_path r = p @ [Lit x])) rs"

lemma confined_but_intros:
  "confined_but x []" "confined r \<Longrightarrow> confined_but x rs \<Longrightarrow> confined_but x (r # rs)"
  "confined_but x rs \<Longrightarrow> confined_but x (route ''POST'' [Par n, Lit x] access ps b h # rs)"
  "confined_but x rs \<Longrightarrow> confined_but x (under q rs)"
  by (auto simp: confined_but_def confined_def under_def list_all_iff route_def)

lemma routers_confined_but: "confined_but ''properties'' devices_routes" "confined_but ''test'' ldap_routes"
  unfolding devices_routes_def ldap_routes_def Let_def
  by (intro confined_but_intros(1,3,4) | rule confined_but_intros(2),
      (rule confined_route(1), intro reads_intros; fail
      | rule confined_route(2), simp, (assumption | intro stays_intros)+; fail))+

lemma all_but_named_confined:
  assumes "r \<in> set app_routes" and "answers rq r" and "\<not> beyond_tenant rq"
  shows "confined r"
proof -
  have fit: "fits (rt_path r) (rq_path rq) \<noteq> None" "rt_method r = rq_method rq"
    using assms(2) by (simp_all add: answers_def)
  consider "r \<in> set health_routes" | r0 rs where "rs \<in> set routers" "r0 \<in> set rs" "r = r0\<lparr>rt_path := api_prefix @ rt_path r0\<rparr>"
    using assms(1) by (auto simp: app_routes_def under_def)
  then show ?thesis
  proof cases
    case 1
    then show ?thesis using routers_confined(13) by (simp add: all_confined_def list_all_iff)
  next
    case 2
    have beyond: False if b: "begins [f] rs" and f: "f \<in> {''auth'', ''profile'', ''settings''}" for f
    proof -
      obtain p where "rt_path r0 = Lit f # p" using b 2(2) by (fastforce simp: begins_def)
      then have "fits (map Lit [''api'', ''v1'', f] @ p) (rq_path rq) \<noteq> None"
        using fit(1) 2(3) by (simp add: api_prefix_def)
      from fits_begin [OF this] assms(3) f show False by (auto simp: beyond_tenant_def numeral_eq_Suc)
    qed
    have but: "confined r0" if c: "confined_but x rs" and x: "x \<in> {''properties'', ''test''}" for x
    proof (rule ccontr)
      assume "\<not> confined r0"
      with c 2(2) obtain p where p: "rt_path r0 = p @ [Lit x]" "rt_method r0 = ''POST''"
        by (auto simp: confined_but_def list_all_iff)
      have "fits ((api_prefix @ p) @ [Lit x]) (rq_path rq) \<noteq> None" using fit(1) 2(3) p(1) by simp
      from fits_last [OF this] assms(3) fit(2) 2(3) p(2) x show False by (auto simp: beyond_tenant_def)
    qed
    have "\<forall>rs \<in> set routers. all_confined rs \<or> confined_but ''properties'' rs \<or> confined_but ''test'' rs
        \<or> begins [''auth''] rs \<or> begins [''profile''] rs \<or> begins [''settings''] rs"
      by (simp add: routers_def routers_confined routers_confined_but router_shapes [THEN conjunct1])
    then consider "all_confined rs" | x where "confined_but x rs" "x \<in> {''properties'', ''test''}"
      | f where "begins [f] rs" "f \<in> {''auth'', ''profile'', ''settings''}"
      using 2(1) by blast
    then have "confined r0"
    proof cases
      case 1
      then show ?thesis using 2(2) by (simp add: all_confined_def list_all_iff)
    qed (use but beyond in blast)+
    then show ?thesis using 2(3) by (simp add: confined_def)
  qed
qed


definition ex_two_tenants :: gw_state where
  "ex_two_tenants = (let d = \<lparr>gd_table = (\<lambda>t. if t = ''vlans'' then
        [[(''id'', PStr ''id-0''), (''vlan_id'', PInt 10), (''name'', PStr ''guest''), (''tenant_id'', PStr ''t2'')]] else []),
       gd_audit = [], gd_seq = 1\<rparr> in ex_gw_state\<lparr>gs_db := d, gs_committed := d\<rparr>)"


end
