(* ===== verification/Gateway_Sessions.thy ===== *)
theory Gateway_Sessions
  imports Gateway_Tenants "HOL-Library.Countable"
begin

text \<open>
  From the login to the requests made with its token: the token stands for the user who logged in,
  with the role and the tenant of the row, until it expires.
\<close>

lemma on_redis_gw: "keeps (\<lambda>s. ls_gw s = G) (on_redis f)"
  by (auto simp: keeps_def on_redis_def split: prod.split)

lemma guards_keep_gw:
  "keeps (\<lambda>s. ls_gw s = G) (check_ip_rate env ip)" "keeps (\<lambda>s. ls_gw s = G) (check_lockout env u)"
  unfolding check_ip_rate_def check_lockout_def count_up_def
  by (intro keeps_intros on_redis_gw; simp)+

lemma lookup_user_row:
  assumes "lookup_user_for_login username g = (Inr (Some u), g')"
  obtains row where "row \<in> set (gd_table (gs_db g) ''users'')" "py_get row ''username'' = PStr username"
    "u = project [''id'', ''username'', ''password_hash'', ''role'', ''tenant_id'', ''enabled''] row"
proof -
  obtain row where row: "first_row (filter (where_eq [(''username'', PStr username)]) (gd_table (gs_db g) ''users'')) = Some row"
      "u = project [''id'', ''username'', ''password_hash'', ''role'', ''tenant_id'', ''enabled''] row"
    using assms by (auto simp: lookup_user_for_login_def select_first_def select_rows_def statement_def
      elim!: sbind_InrE split: if_splits)
  moreover have "x \<in> set xs" if "first_row xs = Some x" for x :: pydict and xs
    using that by (cases xs) (auto simp: first_row_def)
  ultimately have "row \<in> set (filter (where_eq [(''username'', PStr username)]) (gd_table (gs_db g) ''users''))"
    by blast
  with row(2) that show thesis by (auto simp: where_eq_def sql_eq_def)
qed

text \<open>What is decoded before it expires is what was encoded.\<close>

definition codec :: "login_env \<Rightarrow> bool" where
  "codec env \<longleftrightarrow> (\<forall>payload e now. dict_get payload ''exp'' = Some (PInt e) \<longrightarrow> now < e
     \<longrightarrow> le_jwt_decode env now (le_jwt_encode env payload) = Some payload)"

text \<open>
  C6: Whoever logs in is the user of the row: the row has the name that was given, is enabled and its
  hash accepts the password, and until the token expires every request made with it is made as that
  user, with the role and in the tenant of the row.
\<close>

theorem login_admits:
  assumes "login_request env username password ip s = (Inr (token, seconds), s')"
    and "codec env" and "t < le_now env + seconds"
  shows "\<exists>row user h. row \<in> set (gd_table (gs_db (ls_gw s)) ''users'')
    \<and> py_get row ''username'' = PStr username \<and> truthy (py_get row ''enabled'')
    \<and> py_get row ''password_hash'' = PStr h \<and> le_checkpw env password h = Some True
    \<and> get_current_user (at_env env t) (Some token) = Inr user
    \<and> dict_get user ''sub'' = Some (PStr (py_str (py_get row ''id'')))
    \<and> dict_get user ''role'' = Some (py_get row ''role'')
    \<and> dict_get user ''tenant_id'' = Some (PStr (py_str (py_get row ''tenant_id'')))"
proof -
  obtain s1 where run: "login env username password ip s = (Inr (token, seconds), s1)"
    using assms(1) by (auto simp: login_request_def split: prod.splits sum.splits)
  from run obtain s2 s3 found s4 ok s5 where
    steps: "check_ip_rate env ip s = (Inr (), s2)" "check_lockout env username s2 = (Inr (), s3)"
      "on_db (lookup_user_for_login username) s3 = (Inr found, s4)" "slift (credentials_ok env found password) s4 = (Inr ok, s5)"
    and last: "(if \<not> ok then sbind (record_failed_login env username) (\<lambda>attempt.
         sbind (on_db (log_audit_as (le_gw env) PNone PNone ''login_failed'' ''auth'' PNone
                  [(''username'', PStr username), (''attempt'', PInt attempt)] (PStr ip))) (\<lambda>_.
         sbind (on_db db_commit) (\<lambda>_.
           sraise (DomainError AuthenticationError ''Invalid credentials''))))
       else
         (let u = the found; user_id = py_str (py_get u ''id''); tenant = py_str (py_get u ''tenant_id'')
          in sbind (clear_login_failures username) (\<lambda>_.
             sbind (on_db (repo_update_last_login (le_gw env) user_id)) (\<lambda>_.
             sbind (on_db (log_audit_as (le_gw env) (PStr user_id) (PStr tenant) ''login_success''
                      ''auth'' PNone [(''username'', py_get u ''username'')] (PStr ip))) (\<lambda>_.
               sret (create_access_token env user_id (py_get u ''username'') (py_get u ''role'')
                       tenant)))))) s5 = (Inr (token, seconds), s1)"
    unfolding login_def by (elim sbind_InrE) auto
  have ok: "ok" using last by (auto elim!: sbind_InrE split: if_splits)
  have "ls_gw s3 = ls_gw s"
    using keeps_snd [OF guards_keep_gw(1), of s "ls_gw s" env ip] keeps_snd [OF guards_keep_gw(2), of s2 "ls_gw s" env username]
    by (simp add: steps(1,2))
  then obtain g' where lookup: "lookup_user_for_login username (ls_gw s) = (Inr found, g')"
    using steps(3) by (auto simp: on_db_def split: prod.splits)
  have cred: "credentials_ok env found password = Inr True" using steps(4) ok by simp
  then obtain u where u: "found = Some u" by (cases found) (auto simp: credentials_ok_def)
  obtain row where row: "row \<in> set (gd_table (gs_db (ls_gw s)) ''users'')" "py_get row ''username'' = PStr username"
      "u = project [''id'', ''username'', ''password_hash'', ''role'', ''tenant_id'', ''enabled''] row"
    using lookup_user_row [OF lookup [unfolded u]] .
  have cols: "py_get u c = py_get row c" if "c \<in> {''id'', ''password_hash'', ''role'', ''tenant_id'', ''enabled''}" for c
    using that by (auto simp: row(3) project_def py_get_def dict_get_or_def)
  obtain h where h: "truthy (py_get row ''enabled'')" "py_get row ''password_hash'' = PStr h" "le_checkpw env password h = Some True"
    using cred by (auto simp: u credentials_ok_def cols verify_password_def split: if_splits pyval.splits option.splits)
  have token: "(token, seconds) = create_access_token env (py_str (py_get row ''id'')) (py_get u ''username'')
      (py_get row ''role'') (py_str (py_get row ''tenant_id''))"
    using last ok by (auto simp: u cols Let_def elim!: sbind_InrE)
  show ?thesis
    using row h assms(2,3) token
    by (auto simp: codec_def create_access_token_def get_current_user_def decode_token_def at_env_def le_now_def)
qed

text \<open>A codec of tokens: a payload by its number, for as long as it has not expired.\<close>

instance pyval :: countable
  by countable_datatype

definition ex_encode :: "pydict \<Rightarrow> string" where
  "ex_encode payload = replicate (to_nat payload) CHR ''x''"

definition ex_decode :: "int \<Rightarrow> string \<Rightarrow> pydict option" where
  "ex_decode now token = (let payload = from_nat (length token)
     in case dict_get payload ''exp'' of Some (PInt e) \<Rightarrow> if now < e then Some payload else None | _ \<Rightarrow> None)"

definition ex_session_env :: login_env where
  "ex_session_env = ex_login_env\<lparr>le_jwt_encode := ex_encode, le_jwt_decode := ex_decode\<rparr>"

lemma ex_session_token:
  "fst (login_request (ex_login_env\<lparr>le_jwt_encode := f, le_jwt_decode := d\<rparr>) ''alice'' ''secret'' ''10.0.0.1'' ex_login_state)
   = Inr (f [(''sub'', PStr ''u1''), (''username'', PStr ''alice''), (''role'', PStr ''admin''), (''tenant_id'', PStr ''t1''),
       (''exp'', PInt 29800), (''iat'', PInt 1000)], 28800)"
  by code_simp

theorem login_admits_witness:
  "\<exists>token s' user. login_request ex_session_env ''alice'' ''secret'' ''10.0.0.1'' ex_login_state = (Inr (token, 28800), s')
     \<and> get_current_user (at_env ex_session_env 2000) (Some token) = Inr user
     \<and> dict_get user ''role'' = Some (PStr ''admin'')"
proof -
  obtain token s' where run: "login_request ex_session_env ''alice'' ''secret'' ''10.0.0.1'' ex_login_state = (Inr (token, 28800), s')"
    using ex_session_token [where f = ex_encode and d = ex_decode] unfolding ex_session_env_def by (metis eq_fst_iff)
  have codec: "codec ex_session_env"
    by (simp add: codec_def ex_session_env_def ex_encode_def ex_decode_def)
  have soon: "2000 < le_now ex_session_env + (28800 :: int)"
    by (simp add: le_now_def ex_session_env_def ex_login_env_def ex_gw_env_def)
  obtain row user where "row \<in> set (gd_table (gs_db (ls_gw ex_login_state)) ''users'')"
      "get_current_user (at_env ex_session_env 2000) (Some token) = Inr user" "dict_get user ''role'' = Some (py_get row ''role'')"
    using login_admits [OF run codec soon] by blast
  moreover from this(1) have "py_get row ''role'' = PStr ''admin''"
    by (simp add: ex_login_state_def ex_user_rows_def py_get_def dict_get_or_def Let_def)
  ultimately show ?thesis using run by auto
qed

end
