(* ===== verification/Engine_Catalog.thy ===== *)
theory Engine_Catalog
  imports Engine_Messages
begin

text \<open>
  The catalog beside the engine's own evaluator, \<open>policy_engine/evaluator.py\<close>: its templates, which
  are not quite those of the shared copy, and the registry of action types with their parameters.
  Texts in Chinese are given by their UTF-8 bytes. The theorems relate the catalog to what the engine
  publishes.
\<close>

definition utf8 :: "nat list \<Rightarrow> string" where
  "utf8 bytes = map char_of bytes"

record engine_action_type =
  ea_description :: string
  ea_subject :: string
  ea_params :: pydict

section \<open>Templates and action types\<close>

definition engine_tmpl_corporate_dot1x :: policy_template where
  "engine_tmpl_corporate_dot1x =
     \<lparr>pt_name = ''Corporate 802.1X Access'',
      pt_description =
        (utf8 [229, 183, 178, 232, 170, 141, 232, 173, 137, 231, 154, 132, 228, 188, 129, 230, 165, 173,
          232, 163, 157, 231, 189, 174, 32, 226, 134, 146, 32, 67, 111, 114, 112, 111, 114, 97, 116, 101,
          32, 86, 76, 65, 78, 239, 188, 140, 233, 156, 128, 233, 128, 154, 233, 129, 142, 229, 144, 136,
          232, 166, 143, 230, 170, 162, 230, 159, 165]),
      pt_priority = 100,
      pt_conditions =
       [PDict [(''field'', PStr ''auth.method''), (''operator'', PStr ''in''), (''value'', PList [PStr ''PEAP'', PStr ''EAP-TLS''])],
        PDict [(''field'', PStr ''user.group''), (''operator'', PStr ''is_member_of''), (''value'', PList [PStr ''Domain Users''])],
        PDict [(''field'', PStr ''compliance.antivirus''), (''operator'', PStr ''equals''), (''value'', PStr ''up_to_date'')]],
      pt_match_actions =
       [PDict [(''type'', PStr ''vlan_assign''), (''params'', PDict [(''vlan_id'', PInt 10), (''vlan_name'', PStr ''Corporate'')])],
        PDict [(''type'', PStr ''acl_apply''), (''params'', PDict [(''acl'', PStr ''permit-all'')])]],
      pt_no_match_actions =
       [PDict [(''type'', PStr ''vlan_assign''), (''params'', PDict [(''vlan_id'', PInt 99), (''vlan_name'', PStr ''Quarantine'')])]]\<rparr>"

definition engine_tmpl_high_risk_quarantine :: policy_template where
  "engine_tmpl_high_risk_quarantine =
     \<lparr>pt_name = ''High Risk Quarantine'',
      pt_description =
        (utf8 [233, 162, 168, 233, 154, 170, 229, 136, 134, 230, 149, 184, 32, 226, 137, 165, 32, 55, 48,
          32, 231, 154, 132, 232, 163, 157, 231, 189, 174, 232, 135, 170, 229, 139, 149, 233, 154, 148,
          233, 155, 162, 228, 184, 166, 229, 187, 186, 231, 171, 139, 232, 179, 135, 229, 174, 137, 228,
          186, 139, 228, 187, 182]),
      pt_priority = 50,
      pt_conditions =
       [PDict [(''field'', PStr ''device.risk_score''), (''operator'', PStr ''gte''), (''value'', PInt 70)]],
      pt_match_actions =
       [PDict [(''type'', PStr ''vlan_assign''), (''params'', PDict [(''vlan_id'', PInt 99), (''vlan_name'', PStr ''Quarantine'')])],
        PDict [(''type'', PStr ''notify''), (''params'', PDict [(''template'', PStr ''high_risk''), (''channel'', PStr ''siem'')])],
        PDict [(''type'', PStr ''create_incident''), (''params'', PDict [(''title'', PStr ''High-risk device detected''), (''severity'', PStr ''high''), (''integration'', PStr ''thehive'')])]],
      pt_no_match_actions =
       []\<rparr>"

definition engine_tmpl_printer_auto :: policy_template where
  "engine_tmpl_printer_auto =
     \<lparr>pt_name = ''Printer Auto-Assignment'',
      pt_description =
        (utf8 [229, 183, 178, 232, 190, 168, 232, 173, 152, 231, 154, 132, 229, 141, 176, 232, 161, 168,
          230, 169, 159, 232, 135, 170, 229, 139, 149, 229, 136, 134, 233, 133, 141, 229, 136, 176, 32,
          80, 114, 105, 110, 116, 101, 114, 32, 86, 76, 65, 78]),
      pt_priority = 200,
      pt_conditions =
       [PDict [(''field'', PStr ''device.type''), (''operator'', PStr ''equals''), (''value'', PStr ''printer'')]],
      pt_match_actions =
       [PDict [(''type'', PStr ''vlan_assign''), (''params'', PDict [(''vlan_id'', PInt 40), (''vlan_name'', PStr ''Printer'')])],
        PDict [(''type'', PStr ''acl_apply''), (''params'', PDict [(''acl'', PStr ''printer-restricted'')])]],
      pt_no_match_actions =
       []\<rparr>"

definition engine_tmpl_ip_phone :: policy_template where
  "engine_tmpl_ip_phone =
     \<lparr>pt_name = ''IP Phone VoIP'',
      pt_description =
        (utf8 [86, 111, 73, 80, 32, 233, 155, 187, 232, 169, 177, 232, 135, 170, 229, 139, 149, 229, 136,
          134, 233, 133, 141, 32, 86, 111, 105, 99, 101, 32, 86, 76, 65, 78, 32, 43, 32, 81, 111, 83]),
      pt_priority = 150,
      pt_conditions =
       [PDict [(''field'', PStr ''device.type''), (''operator'', PStr ''in''), (''value'', PList [PStr ''ip_phone'', PStr ''voip''])]],
      pt_match_actions =
       [PDict [(''type'', PStr ''vlan_assign''), (''params'', PDict [(''vlan_id'', PInt 100), (''vlan_name'', PStr ''VoIP'')])],
        PDict [(''type'', PStr ''qos_apply''), (''params'', PDict [(''dscp'', PInt 46)])]],
      pt_no_match_actions =
       []\<rparr>"

definition engine_tmpl_iot_isolation :: policy_template where
  "engine_tmpl_iot_isolation =
     \<lparr>pt_name = ''IoT Device Isolation'',
      pt_description =
        (utf8 [73, 111, 84, 47, 230, 148, 157, 229, 189, 177, 230, 169, 159, 47, 230, 132, 159, 230, 184,
          172, 229, 153, 168, 32, 226, 134, 146, 32, 233, 154, 148, 233, 155, 162, 32, 86, 76, 65, 78]),
      pt_priority = 300,
      pt_conditions =
       [PDict [(''field'', PStr ''device.type''), (''operator'', PStr ''in''), (''value'', PList [PStr ''iot'', PStr ''ip_camera'', PStr ''sensor'', PStr ''access_point''])]],
      pt_match_actions =
       [PDict [(''type'', PStr ''vlan_assign''), (''params'', PDict [(''vlan_id'', PInt 30), (''vlan_name'', PStr ''IoT'')])],
        PDict [(''type'', PStr ''acl_apply''), (''params'', PDict [(''acl'', PStr ''iot-restricted'')])]],
      pt_no_match_actions =
       []\<rparr>"

definition engine_tmpl_guest_byod :: policy_template where
  "engine_tmpl_guest_byod =
     \<lparr>pt_name = ''Guest / BYOD Access'',
      pt_description =
        (utf8 [77, 65, 66, 32, 232, 170, 141, 232, 173, 137, 231, 154, 132, 230, 156, 170, 231, 159, 165,
          232, 163, 157, 231, 189, 174, 32, 226, 134, 146, 32, 71, 117, 101, 115, 116, 32, 86, 76, 65, 78,
          32, 43, 32, 67, 97, 112, 116, 105, 118, 101, 32, 80, 111, 114, 116, 97, 108]),
      pt_priority = 500,
      pt_conditions =
       [PDict [(''field'', PStr ''auth.method''), (''operator'', PStr ''equals''), (''value'', PStr ''MAB'')],
        PDict [(''field'', PStr ''device.type''), (''operator'', PStr ''equals''), (''value'', PStr ''unknown'')]],
      pt_match_actions =
       [PDict [(''type'', PStr ''vlan_assign''), (''params'', PDict [(''vlan_id'', PInt 20), (''vlan_name'', PStr ''Guest'')])],
        PDict [(''type'', PStr ''captive_portal''), (''params'', PDict [(''redirect_url'', PStr ''/guest/register'')])]],
      pt_no_match_actions =
       []\<rparr>"

definition engine_tmpl_business_hours :: policy_template where
  "engine_tmpl_business_hours =
     \<lparr>pt_name = ''Business Hours Only'',
      pt_description =
        (utf8 [231, 180, 132, 232, 129, 152, 228, 186, 186, 229, 147, 161, 229, 131, 133, 233, 153, 144,
          228, 184, 138, 231, 143, 173, 230, 153, 130, 233, 150, 147, 229, 173, 152, 229, 143, 150]),
      pt_priority = 250,
      pt_conditions =
       [PDict [(''field'', PStr ''user.group''), (''operator'', PStr ''is_member_of''), (''value'', PList [PStr ''Contractors''])],
        PDict [(''field'', PStr ''time.is_business_hours''), (''operator'', PStr ''equals''), (''value'', PBool False)]],
      pt_match_actions =
       [PDict [(''type'', PStr ''reject''), (''params'', PDict [(''reason'', PStr ''Access restricted to business hours'')])],
        PDict [(''type'', PStr ''notify''), (''params'', PDict [(''template'', PStr ''after_hours''), (''channel'', PStr ''siem'')])]],
      pt_no_match_actions =
       []\<rparr>"

definition engine_tmpl_non_compliant :: policy_template where
  "engine_tmpl_non_compliant =
     \<lparr>pt_name = ''Non-Compliant Remediation'',
      pt_description =
        (utf8 [229, 144, 136, 232, 166, 143, 230, 170, 162, 230, 159, 165, 229, 164, 177, 230, 149, 151,
          32, 226, 134, 146, 32, 228, 191, 174, 229, 190, 169, 32, 86, 76, 65, 78, 32, 43, 32, 232, 135,
          170, 229, 138, 169, 228, 191, 174, 229, 190, 169, 233, 160, 129, 233, 157, 162]),
      pt_priority = 400,
      pt_conditions =
       [PDict [(''field'', PStr ''auth.802_1x''), (''operator'', PStr ''equals''), (''value'', PBool True)],
        PDict [(''field'', PStr ''compliance.overall''), (''operator'', PStr ''equals''), (''value'', PStr ''fail'')]],
      pt_match_actions =
       [PDict [(''type'', PStr ''vlan_assign''), (''params'', PDict [(''vlan_id'', PInt 98), (''vlan_name'', PStr ''Remediation'')])],
        PDict [(''type'', PStr ''captive_portal''), (''params'', PDict [(''redirect_url'', PStr ''/remediation''), (''message'', PStr (utf8 [230, 130, 168, 231, 154, 132, 232, 163, 157, 231, 189, 174, 228, 184, 141, 231, 172, 166,
          229, 144, 136, 229, 174, 137, 229, 133, 168, 232, 166, 129, 230, 177, 130, 239, 188, 140, 232,
          171, 139, 230, 155, 180, 230, 150, 176, 229, 190, 140, 233, 135, 141, 230, 150, 176, 233, 128,
          163, 231, 183, 154, 227, 128, 130]))])]],
      pt_no_match_actions =
       []\<rparr>"

definition engine_tmpl_default_deny :: policy_template where
  "engine_tmpl_default_deny =
     \<lparr>pt_name = ''Default Deny (Catch-all)'',
      pt_description =
        (utf8 [230, 156, 170, 229, 140, 185, 233, 133, 141, 228, 187, 187, 228, 189, 149, 231, 173, 150,
          231, 149, 165, 231, 154, 132, 232, 163, 157, 231, 189, 174, 32, 226, 134, 146, 32, 233, 154,
          148, 233, 155, 162]),
      pt_priority = 9999,
      pt_conditions =
       [],
      pt_match_actions =
       [PDict [(''type'', PStr ''vlan_assign''), (''params'', PDict [(''vlan_id'', PInt 99), (''vlan_name'', PStr ''Quarantine'')])],
        PDict [(''type'', PStr ''log''), (''params'', PDict [(''level'', PStr ''warning''), (''message'', PStr ''Unmatched device quarantined'')])]],
      pt_no_match_actions =
       []\<rparr>"

definition ENGINE_TEMPLATES :: "(string, policy_template) dict" where
  "ENGINE_TEMPLATES =
     [(''corporate_802.1x'', engine_tmpl_corporate_dot1x),
      (''high_risk_quarantine'', engine_tmpl_high_risk_quarantine),
      (''printer_auto'', engine_tmpl_printer_auto),
      (''ip_phone'', engine_tmpl_ip_phone),
      (''iot_isolation'', engine_tmpl_iot_isolation),
      (''guest_byod'', engine_tmpl_guest_byod),
      (''business_hours'', engine_tmpl_business_hours),
      (''non_compliant'', engine_tmpl_non_compliant),
      (''default_deny'', engine_tmpl_default_deny)]"

definition ENGINE_ACTION_TYPES :: "(string, engine_action_type) dict" where
  "ENGINE_ACTION_TYPES =
     [(''vlan_assign'', \<lparr>ea_description =
          (utf8 [230, 140, 135, 230, 180, 190, 232, 163, 157, 231, 189, 174, 229, 136, 176, 231, 137, 185,
          229, 174, 154, 32, 86, 76, 65, 78]),
         ea_subject = ''orw.policy.action.vlan_assign'',
         ea_params = [(''vlan_id'', PDict [(''type'', PStr ''integer''), (''required'', PBool True), (''min'', PInt 1), (''max'', PInt 4094)]),
           (''vlan_name'', PDict [(''type'', PStr ''string''), (''required'', PBool False)])]\<rparr>),
      (''acl_apply'', \<lparr>ea_description =
          (utf8 [229, 165, 151, 231, 148, 168, 229, 173, 152, 229, 143, 150, 230, 142, 167, 229, 136, 182,
          230, 184, 133, 229, 150, 174, 32, 40, 65, 67, 76, 41]),
         ea_subject = ''orw.policy.action.acl_apply'',
         ea_params = [(''acl'', PDict [(''type'', PStr ''string''), (''required'', PBool True)])]\<rparr>),
      (''quarantine'', \<lparr>ea_description =
          (utf8 [233, 154, 148, 233, 155, 162, 232, 163, 157, 231, 189, 174]),
         ea_subject = ''orw.policy.action.quarantine'',
         ea_params = [(''reason'', PDict [(''type'', PStr ''string''), (''required'', PBool False)]),
           (''duration_minutes'', PDict [(''type'', PStr ''integer''), (''required'', PBool False)])]\<rparr>),
      (''reject'', \<lparr>ea_description =
          (utf8 [230, 139, 146, 231, 181, 149, 232, 170, 141, 232, 173, 137, 232, 171, 139, 230, 177, 130]),
         ea_subject = ''orw.policy.action.reject'',
         ea_params = [(''reason'', PDict [(''type'', PStr ''string''), (''required'', PBool False)])]\<rparr>),
      (''coa'', \<lparr>ea_description =
          (utf8 [231, 153, 188, 233, 128, 129, 32, 82, 65, 68, 73, 85, 83, 32, 67, 111, 65, 32, 40, 67,
          104, 97, 110, 103, 101, 32, 111, 102, 32, 65, 117, 116, 104, 111, 114, 105, 122, 97, 116, 105,
          111, 110, 41]),
         ea_subject = ''orw.policy.action.coa'',
         ea_params = [(''action'', PDict [(''type'', PStr ''string''), (''required'', PBool True), (''enum'', PList [PStr ''reauthenticate'', PStr ''disconnect'', PStr ''bounce-port''])])]\<rparr>),
      (''bounce_port'', \<lparr>ea_description =
          (utf8 [229, 189, 136, 232, 183, 179, 228, 186, 164, 230, 143, 155, 229, 153, 168, 231, 171, 175,
          229, 143, 163, 32, 40, 115, 104, 117, 116, 47, 110, 111, 32, 115, 104, 117, 116, 41]),
         ea_subject = ''orw.switch.bounce_port'',
         ea_params = []\<rparr>),
      (''captive_portal'', \<lparr>ea_description =
          (utf8 [233, 135, 141, 229, 176, 142, 229, 144, 145, 229, 136, 176, 32, 67, 97, 112, 116, 105,
          118, 101, 32, 80, 111, 114, 116, 97, 108, 32, 47, 32, 87, 101, 98, 32, 232, 170, 141, 232, 173,
          137, 233, 160, 129]),
         ea_subject = ''orw.policy.action.captive_portal'',
         ea_params = [(''redirect_url'', PDict [(''type'', PStr ''string''), (''required'', PBool True)]),
           (''message'', PDict [(''type'', PStr ''string''), (''required'', PBool False)])]\<rparr>),
      (''notify'', \<lparr>ea_description =
          (utf8 [231, 153, 188, 233, 128, 129, 233, 128, 154, 231, 159, 165, 32, 40, 69, 109, 97, 105, 108,
          44, 32, 83, 108, 97, 99, 107, 44, 32, 83, 73, 69, 77, 44, 32, 87, 101, 98, 104, 111, 111, 107,
          41]),
         ea_subject = ''orw.policy.action.notify'',
         ea_params = [(''template'', PDict [(''type'', PStr ''string''), (''required'', PBool True)]),
           (''channel'', PDict [(''type'', PStr ''string''), (''required'', PBool True), (''enum'', PList [PStr ''email'', PStr ''slack'', PStr ''siem'', PStr ''webhook''])]),
           (''recipients'', PDict [(''type'', PStr ''array''), (''required'', PBool False)])]\<rparr>),
      (''create_incident'', \<lparr>ea_description =
          (utf8 [229, 187, 186, 231, 171, 139, 232, 179, 135, 229, 174, 137, 228, 186, 139, 228, 187, 182,
          32, 40, 84, 104, 101, 72, 105, 118, 101, 32, 47, 32, 83, 104, 117, 102, 102, 108, 101, 32, 83,
          79, 65, 82, 41]),
         ea_subject = ''orw.policy.action.create_incident'',
         ea_params = [(''title'', PDict [(''type'', PStr ''string''), (''required'', PBool True)]),
           (''severity'', PDict [(''type'', PStr ''string''), (''required'', PBool True), (''enum'', PList [PStr ''critical'', PStr ''high'', PStr ''medium'', PStr ''low''])]),
           (''integration'', PDict [(''type'', PStr ''string''), (''required'', PBool True), (''enum'', PList [PStr ''thehive'', PStr ''shuffle''])])]\<rparr>),
      (''tag_device'', \<lparr>ea_description =
          (utf8 [231, 130, 186, 232, 163, 157, 231, 189, 174, 229, 138, 160, 228, 184, 138, 230, 168, 153,
          231, 177, 164]),
         ea_subject = ''orw.policy.action.tag_device'',
         ea_params = [(''tag'', PDict [(''type'', PStr ''string''), (''required'', PBool True)])]\<rparr>),
      (''qos_apply'', \<lparr>ea_description =
          (utf8 [229, 165, 151, 231, 148, 168, 32, 81, 111, 83, 32, 230, 148, 191, 231, 173, 150, 32, 40,
          68, 83, 67, 80, 32, 230, 168, 153, 232, 168, 152, 41]),
         ea_subject = ''orw.policy.action.qos_apply'',
         ea_params = [(''dscp'', PDict [(''type'', PStr ''integer''), (''required'', PBool True), (''min'', PInt 0), (''max'', PInt 63)])]\<rparr>),
      (''log'', \<lparr>ea_description =
          (utf8 [229, 175, 171, 229, 133, 165, 231, 168, 189, 230, 160, 184, 230, 151, 165, 232, 170, 140]),
         ea_subject = ''orw.policy.action.log'',
         ea_params = [(''level'', PDict [(''type'', PStr ''string''), (''required'', PBool False), (''enum'', PList [PStr ''info'', PStr ''warning'', PStr ''error''])]),
           (''message'', PDict [(''type'', PStr ''string''), (''required'', PBool True)])]\<rparr>)]"


section \<open>The two copies\<close>

text \<open>
  The templates of the engine are those of the shared copy, up to their descriptions, but for the
  actions of two: the engine also opens an incident for a device of high risk, and shows a message
  on the portal of a device that does not comply.
\<close>

definition same_rule :: "policy_template \<Rightarrow> policy_template \<Rightarrow> bool" where
  "same_rule x y \<longleftrightarrow> pt_name x = pt_name y \<and> pt_priority x = pt_priority y \<and> pt_conditions x = pt_conditions y
     \<and> pt_no_match_actions x = pt_no_match_actions y"

lemmas engine_template_defs = ENGINE_TEMPLATES_def engine_tmpl_corporate_dot1x_def
  engine_tmpl_high_risk_quarantine_def engine_tmpl_printer_auto_def engine_tmpl_ip_phone_def
  engine_tmpl_iot_isolation_def engine_tmpl_guest_byod_def engine_tmpl_business_hours_def
  engine_tmpl_non_compliant_def engine_tmpl_default_deny_def

lemma engine_templates_agree:
  "list_all2 (\<lambda>(k, x) (l, y). k = l \<and> same_rule x y
      \<and> (k \<in> {''high_risk_quarantine'', ''non_compliant''} \<or> pt_match_actions x = pt_match_actions y))
    ENGINE_TEMPLATES POLICY_TEMPLATES"
  unfolding engine_template_defs POLICY_TEMPLATES_def same_rule_def
  by (simp add: tmpl_corporate_dot1x_def tmpl_high_risk_quarantine_def tmpl_printer_auto_def tmpl_ip_phone_def
    tmpl_iot_isolation_def tmpl_guest_byod_def tmpl_business_hours_def tmpl_non_compliant_def tmpl_default_deny_def)

lemma engine_subjects_agree:
  "map (\<lambda>(k, a). (k, ea_subject a)) ENGINE_ACTION_TYPES = map (\<lambda>(k, a). (k, at_subject a)) ACTION_TYPES"
  by (simp add: ENGINE_ACTION_TYPES_def ACTION_TYPES_def)

section \<open>What the engine publishes for the catalog\<close>

definition engine_subject :: "string \<Rightarrow> string option" where
  "engine_subject ty = map_option ea_subject (dict_get ENGINE_ACTION_TYPES ty)"

lemma engine_subjects [simp]:
  "engine_subject ''vlan_assign'' = Some ''orw.policy.action.vlan_assign''"
  "engine_subject ''acl_apply'' = Some ''orw.policy.action.acl_apply''"
  "engine_subject ''quarantine'' = Some ''orw.policy.action.quarantine''"
  "engine_subject ''reject'' = Some ''orw.policy.action.reject''"
  "engine_subject ''coa'' = Some ''orw.policy.action.coa''"
  "engine_subject ''bounce_port'' = Some ''orw.switch.bounce_port''"
  "engine_subject ''captive_portal'' = Some ''orw.policy.action.captive_portal''"
  "engine_subject ''notify'' = Some ''orw.policy.action.notify''"
  "engine_subject ''create_incident'' = Some ''orw.policy.action.create_incident''"
  "engine_subject ''tag_device'' = Some ''orw.policy.action.tag_device''"
  "engine_subject ''qos_apply'' = Some ''orw.policy.action.qos_apply''"
  "engine_subject ''log'' = Some ''orw.policy.action.log''"
  by (simp_all add: engine_subject_def ENGINE_ACTION_TYPES_def)

lemma publish1_Inr [simp]: "publish1 subject data = Inr ms \<longleftrightarrow> ms = [\<lparr>msg_subject = subject, msg_data = data\<rparr>]"
  by (auto simp: publish1_def)

text \<open>An action is published on the subject that the registry gives its type, or not at all.\<close>

lemma published_on_subject:
  assumes "execute_action action device = Inr ms" and "m \<in> set ms"
  shows "\<exists>ty. dict_get_or action ''type'' (PStr []) = PStr ty \<and> engine_subject ty = Some (msg_subject m)"
  using assms unfolding execute_action_def Let_def
  by (auto simp: rbind_eq_Inr_iff py_str_def split: if_splits)

definition published :: "pydict \<Rightarrow> pyval \<Rightarrow> bool" where
  "published device v \<longleftrightarrow>
     (case v of PDict d \<Rightarrow> (\<exists>m. execute_action d device = Inr [m]) | _ \<Rightarrow> False)"

lemma template_actions_published:
  "list_all (\<lambda>(k, t). list_all (published device) (pt_match_actions t @ pt_no_match_actions t)) ENGINE_TEMPLATES"
  unfolding engine_template_defs
  by (simp add: published_def execute_action_def as_dict_def dict_get_or_def py_get_def py_or_def Let_def)



end
