(* ===== verification/Spec2Isabelle.thy ===== *)
theory Spec2Isabelle
  imports Policy_Engine Coa_Manager Config_Watcher Radius_Hooks
    Safe_Sql Vlans Group_Vlans Nas_Clients Ldap_Servers Radius_Realms Mab_Devices Certificates
    Auth_Login Secret_Rotation Db_Url Policies_Service Switch_Flows Devices Device_Inventory
    Coa_Gateway Settings_Service Audit_Log Discovery Active_Scanner
    Radius_Auth_Log Event_Service Freeradius_Status Dot1x_Overview Backups Gateway_Sessions Engine_Catalog
begin

text \<open>
  OpenRadiusWeb: a development of its server side.

  OpenRadiusWeb manages network access control. Administrators edit VLANs, realms, LDAP
  servers, NAS clients, certificates, MAC address lists and policies through a gateway
  (\<open>src/services/gateway\<close>), which stores them in PostgreSQL and publishes messages on NATS.
  A watcher beside FreeRADIUS regenerates its configuration from the database
  (\<open>src/services/auth\<close>), hooks inside FreeRADIUS decide on requests and write the
  authentication log, a policy engine (\<open>src/services/policy_engine\<close>) evaluates policies for
  devices and publishes actions, and a CoA service sends RADIUS packets to switches.

  \<^bold>\<open>Conventions.\<close> Python values are the datatype \<open>pyval\<close> of \<open>Py_Values\<close> with Python's truth,
  equality, order and texts; a dictionary is an association list without duplicate keys
  (\<open>dict_set\<close> keeps the position of a key, as Python does). A function that may raise returns
  \<open>pyerr + 'a\<close>. Code with effects is a \<open>('s, 'a) prog\<close>, a function from a state to a result and
  a state; \<open>sbind\<close> sequences it and stops at the first exception, with the effects made before
  it kept. Calls of services and libraries that are not in the repository (PostgreSQL's casts
  and constraints, the regular expression engine, Argon2 and AES, bcrypt, JWT, X.509,
  Jinja, LDAP) are fields of an environment record that the definitions take.

  \<^bold>\<open>Theories.\<close>
  \<^item> \<open>Orw_Prelude\<close>, \<open>Py_Strings\<close>, \<open>Py_Values\<close>, \<open>Py_Effects\<close>, \<open>Py_Csv\<close>, \<open>Hashes\<close>: exceptions, the
    string functions and the csv module of Python, values, programs, and MD5 and SHA-256
    written out on 32-bit words.
  \<^item> \<open>Policy_Evaluator\<close> (\<open>policy_engine/evaluator.py\<close>), \<open>Policy_Catalog\<close>
    (\<open>orw_common/policy_evaluator.py\<close>, the second copy, the templates and the action types),
    \<open>Policy_Engine\<close> (\<open>policy_engine/main.py\<close>): the verdict and the report of a policy, their
    agreement, what escapes as an exception, what the engine runs, stores and publishes.
  \<^item> \<open>Radius_Packet\<close> and \<open>Coa_Manager\<close> (\<open>auth/coa_manager.py\<close>, \<open>coa_service.py\<close>): encoding and
    parsing of packets, identifiers, answers, sessions, the four CoA operations and the
    handlers of the two NATS subjects.
  \<^item> \<open>Secrets\<close> (\<open>orw_common/secrets.py\<close>): the form of stored secrets and their round trip.
  \<^item> \<open>Freeradius_Config\<close> (\<open>auth/freeradius_config_manager.py\<close>) and \<open>Config_Watcher\<close>
    (\<open>freeradius_config_watcher.py\<close>): generation, hashes and the tracking table, files,
    reload and the loop over messages.
  \<^item> \<open>Radius_Hooks\<close> (\<open>mods-config/python/rlm_orw.py\<close>): \<open>authorize\<close>, \<open>post_auth\<close>, \<open>accounting\<close>.
  \<^item> \<open>Safe_Sql\<close>, \<open>Gateway_Store\<close>: the clause of updates (\<open>gateway/utils/safe_sql.py\<close>), the tables
    behind a request with its transaction (\<open>orw_common/database.py\<close>), the audit log
    (\<open>gateway/utils/audit.py\<close>), and the rules the features share: statements that leave the
    rows of other tenants alone (\<open>isolates\<close>), that do not commit (\<open>uncommitted\<close>), that leave a
    table alone (\<open>table_neutral\<close>), that abort soundly (\<open>abort_sound\<close>), and triples over the
    tables with a condition for the exceptions.
  \<^item> \<open>Vlans\<close>, \<open>Group_Vlans\<close>, \<open>Nas_Clients\<close>, \<open>Ldap_Servers\<close>, \<open>Radius_Realms\<close>, \<open>Mab_Devices\<close>,
    \<open>Certificates\<close>, \<open>Auth_Login\<close>: the features of that name under \<open>gateway/features\<close>, each
    with the statements of its repository (prefixed \<open>repo_\<close>) and the operations of its
    service. Redis in \<open>Auth_Login\<close> is a map of keys to values with the time they expire.
  \<^item> \<open>Secret_Rotation\<close> (\<open>scripts/rotate_secret_master.py\<close> and the three migrations
    \<open>scripts/migrate_*.py\<close>), \<open>Db_Url\<close> (\<open>orw_common/db_url_safe.py\<close>): the tables a script reads
    and writes, row by row, and the URL it may print.
  \<^item> \<open>Service_World\<close>: the transaction of a service outside of the gateway
    (\<open>get_db_context\<close> of \<open>orw_common/database.py\<close>), over the same tables, and its upserts.
  \<^item> \<open>Policies_Service\<close>, \<open>Network_Devices\<close>, \<open>Devices\<close>, \<open>Coa_Gateway\<close>: the features \<open>policies\<close>,
    \<open>network_devices\<close>, \<open>devices\<close>, \<open>coa\<close> of the gateway, as the features above.
  \<^item> \<open>Switch_Mgmt\<close> (\<open>switch_mgmt/main.py\<close>, \<open>snmp_manager.py\<close>, \<open>ssh_manager.py\<close>): the handlers
    of the switch service; what goes over the wire is a log, what comes back a parameter.
    \<open>Switch_Flows\<close> composes the gateway, the engine and the rotation with them.
  \<^item> \<open>Device_Inventory\<close> (\<open>device_inventory/main.py\<close>): the handler of discoveries, and what the
    engine sees of the device it stored.
  \<^item> \<open>Settings_Service\<close>, \<open>Audit_Log\<close>: the features \<open>settings\<close> and \<open>audit\<close> of the gateway.
  \<^item> \<open>Discovery\<close> (\<open>discovery/fingerprinter.py\<close>, \<open>passive_monitor.py\<close>) and \<open>Active_Scanner\<close>
    (\<open>active_scanner.py\<close>): the classification of devices, the monitor with its memory, the scans
    and what the inventory makes of their messages.
  \<^item> \<open>Radius_Auth_Log\<close>: the feature \<open>radius_auth_log\<close> of the gateway: the filters, the detail of a
    failure with its advice, and the statistics as grouping over the rows.
  \<^item> \<open>Event_Service\<close> (\<open>event_service/main.py\<close> and \<open>integrations\<close>): storing events, and the
    collector of the logons that domain controllers refused, from the alert of Wazuh to the row
    of the log it enriches. \<open>Engine_Messages\<close> states what every message of the engine opens
    with, for the services that take them.
  \<^item> \<open>Freeradius_Status\<close>, \<open>Dot1x_Overview\<close>, \<open>Backups\<close>: the features \<open>freeradius_config\<close>,
    \<open>dot1x_overview\<close>, \<open>backups\<close> and \<open>health\<close>: what an administrator reads of the state of the
    configuration, the certificates, the VLANs and the backups.
  \<^item> \<open>Gateway_Schemas\<close> (\<open>orw_common/models\<close>): the models of the bodies as lists of fields, and
    \<open>validate\<close>, what their declaration says. \<open>Gateway_Routes\<close>: a route, the dependency that lets a
    user in (\<open>middleware/auth.py\<close>), the call a handler sees, and the transaction around it.
    \<open>Gateway_Api\<close>, \<open>Gateway_Ops_Api\<close>: every route of \<open>features/*/routes.py\<close> over the services.
    \<open>Gateway_App\<close> (\<open>main.py\<close>): all of them in order; no route hides another, and the matrix of
    roles agrees with the guards. \<open>Gateway_Readers\<close> and \<open>Gateway_Tenants\<close>: what a request of a
    reader, and of one tenant, leaves as it was.
    \<open>Gateway_Sessions\<close>: the token of a login stands for the row that matched.
  \<^item> \<open>Engine_Catalog\<close> (\<open>policy_engine/evaluator.py\<close>): the templates and the registry of actions of
    the engine, and that every action of them is published on the subject it is registered for.

  \<^bold>\<open>Properties.\<close> The claims are numbered in the order of their importance. They are of these
  kinds: functional results of the evaluator, engine, packets, hooks, statistics and
  configuration manager; refinements (the rotation of the key against the plain texts it keeps,
  the simulation against the engine); liveness (a request that goes through gateway, bus and
  service is carried out); invariants of the CoA client, the monitor, the certificates, the
  group mappings; round trips of packets, secrets and the CSV of MAC addresses; safety of
  parsing, updates, settings, URLs and roles; bounds on guesses of passwords, on packets and on
  bulk requests; the type of a classification; the end of the enrichment of the log; equivalence of
  the two evaluators and of verdict and report; and the behaviour on errors. Several state what
  the code does where a comment or a document says otherwise.

  \<^bold>\<open>Bounds and fuel.\<close> No definition uses fuel; every recursion is structural or over the rest
  of a list that shrinks, with its termination proof. Bounds are those of the code: identifiers
  modulo 256, 253 bytes of an attribute, 5 failures and 900 seconds of a lockout, 20 attempts
  in 60 seconds.

  \<^bold>\<open>Not modelled.\<close> Connections (NATS, Redis, PostgreSQL, LDAP, SNMP, SSH, HTTP) and the code
  that only opens them, the probes of \<open>/settings/service-status\<close> among it; the libraries: FastAPI's
  own dispatch is written out only as far as the routes rely on it, and the coercion of a value to
  a type by pydantic is a parameter; the loop that renews certificates in the lifespan of the
  gateway (its pass is \<open>auto_renew_expiring_server_certs\<close>), CORS, response headers and request
  identifiers; logging; the web interface, the migrations, the deployment. The time of a request is
  one point: \<open>now()\<close> does not advance within it.
\<close>

section \<open>From the policy engine to the CoA service\<close>

lemma vlan_assign_payload:
  assumes "execute_action action device = Inr ms" and "m \<in> set ms"
    and "msg_subject m = ''orw.policy.action.vlan_assign''"
  shows "py_get (msg_data m) ''vlan_id'' = PNone"
proof -
  have at: "dict_get_or action ''type'' (PStr []) = PStr ''vlan_assign''"
    using assms
    by (auto simp: execute_action_def publish1_def result_simps Let_def split: if_splits)
  with assms show ?thesis
    by (auto simp: execute_action_def publish1_def result_simps Let_def py_get_def dict_get_or_def
        split: if_splits)
qed

text \<open>
  The VLAN assignments of the engine never reach a switch. Every message the engine
  publishes for an action of type \<open>vlan_assign\<close> carries the VLAN under
  \<open>target_vlan\<close>, while the CoA service reads \<open>vlan_id\<close>: its handler returns at
  once, acknowledges the message and changes nothing, for every device, VLAN and session.
\<close>

theorem engine_vlan_messages_ignored:
  assumes "execute_action action device = Inr ms" and "m \<in> set ms"
    and "msg_subject m = ''orw.policy.action.vlan_assign''"
  shows "coa_service env m s = (Inr (), s)"
  using vlan_assign_payload [OF assms] assms(3)
  by (simp add: coa_service_def handle_policy_vlan_assign_def)

definition ex_vlan_action :: pydict where
  "ex_vlan_action = [(''type'', PStr ''vlan_assign''), (''params'', PDict [(''vlan_id'', PInt 30)])]"

theorem engine_vlan_messages_ignored_witness:
  "\<exists>m. execute_action ex_vlan_action [(''mac_address'', PStr ''AA:BB:CC:DD:EE:FF'')] = Inr [m]
     \<and> py_get (msg_data m) ''target_vlan'' = PInt 30
     \<and> coa_service ex_env m ex_state = (Inr (), ex_state)"
proof -
  let ?device = "[(''mac_address'', PStr ''AA:BB:CC:DD:EE:FF'')]"
  obtain m where m: "execute_action ex_vlan_action ?device = Inr [m]"
    "msg_subject m = ''orw.policy.action.vlan_assign''"
    "py_get (msg_data m) ''target_vlan'' = PInt 30"
    by (auto simp: execute_action_def ex_vlan_action_def publish1_def as_dict_def py_get_def
        dict_get_or_def py_or_def)
  have "m \<in> set [m]" by simp
  from engine_vlan_messages_ignored [OF m(1) this m(2), of ex_env ex_state] m show ?thesis by blast
qed

section \<open>Accounting and CoA\<close>

lemma no_rows: "cs_sessions s = [] \<Longrightarrow> active_rows env s P = []"
  by (simp add: active_rows_def)

lemma find_none:
  "cs_sessions s = [] \<Longrightarrow> find_active_session env sid mac s = (Inr None, s)"
  "cs_sessions s = [] \<Longrightarrow> find_active_sessions_by_user env user s = (Inr [], s)"
  by (auto simp: find_active_session_def find_active_sessions_by_user_def no_rows
      split: option.split list.split)

lemma no_session_coa_by:
  assumes "cs_sessions s = []"
  shows "\<exists>r. coa_by_session_id env sid action vlan acl s = (Inr r, s)"
    and "\<exists>r. coa_by_mac env mac action vlan acl s = (Inr r, s)"
    and "\<exists>r. coa_by_username env user action vlan acl s = (Inr r, s)"
  by (simp_all add: coa_by_session_id_def coa_by_mac_def coa_by_username_def sbind_def
      find_none [OF assms])

lemma snd_sbind_const: "(\<And>x. snd (f x s) = s) \<Longrightarrow> snd (sbind (slift r) f s) = s"
  by (cases r) simp_all

lemma no_session_handlers:
  assumes "cs_sessions s = []"
  shows "snd (handle_coa_action env data s) = s"
    and "snd (handle_policy_vlan_assign env data s) = s"
proof -
  have "snd (sbind (coa_by_session_id env sid action vlan acl) (\<lambda>_. sret ()) s) = s"
    "snd (sbind (coa_by_mac env mac action vlan acl) (\<lambda>_. sret ()) s) = s"
    "snd (sbind (coa_by_username env user action vlan acl) (\<lambda>_. sret ()) s) = s"
    for sid mac user action vlan acl
    using no_session_coa_by [OF assms] by (simp_all add: snd_sbind_sret) (metis snd_conv)+
  then show "snd (handle_coa_action env data s) = s"
    by (simp add: handle_coa_action_def Let_def snd_sbind_const)
  have "sbind (find_active_session env None (Some mac)) f s = f None s" for mac and f :: "_ \<Rightarrow> (coa_state, unit) prog"
    by (simp add: sbind_def find_none [OF assms])
  then show "snd (handle_policy_vlan_assign env data s) = s"
    by (simp add: handle_policy_vlan_assign_def Let_def snd_sbind_const)
qed

lemma no_session_step: "cs_sessions s = [] \<Longrightarrow> coa_step s e = s"
  by (simp add: coa_step_def coa_service_def no_session_handlers)

text \<open>
  Without sessions there is no CoA. The accounting hook answers every packet with OK and
  writes nothing, and no other code of the repository inserts into the session table; on an empty
  table any sequence of messages leaves the CoA service as it was: nothing is sent to any switch and nothing
  is recorded.
\<close>

theorem no_session_no_coa:
  assumes "cs_sessions s = []"
  shows "accounting henv p = \<lparr>hr_code = RLM_MODULE_OK, hr_reply = [], hr_control = []\<rparr>
    \<and> run coa_step s es = s"
proof -
  have "run coa_step s es = s" by (induction es) (simp_all add: no_session_step [OF assms])
  then show ?thesis by (simp add: accounting_def)
qed

theorem no_session_no_coa_witness:
  "run coa_step (ex_state\<lparr>cs_sessions := []\<rparr>) [(ex_env, ex_disconnect)] = ex_state\<lparr>cs_sessions := []\<rparr>"
  using no_session_no_coa [of "ex_state\<lparr>cs_sessions := []\<rparr>" ex_hook_env "[]" "[(ex_env, ex_disconnect)]"]
  by simp

end
